(* ===== verification/Prelude.thy ===== *)
theory Prelude
  imports Main "HOL-Library.Word" "HOL-Library.Product_Lexorder"
begin

text \<open>
  Shared vocabulary of the development.

  The program keeps every table in a \<^verbatim>\<open>std::map\<close>, which it both looks up by key and
  iterates in ascending key order; the order decides which reservation is found first and in
  which order jobs are driven. A table is therefore an association list sorted strictly by
  key. \<^verbatim>\<open>operator[]\<close> assignment is \<open>om_set\<close>, \<^verbatim>\<open>emplace\<close>, which leaves a present key alone,
  is \<open>om_emplace\<close>. The interface the components rely on is the locale \<open>ordered_table\<close>; \<open>om_find\<close>,
  \<open>om_set\<close> and \<open>om_erase\<close> are interpreted in it below.

  A \<^verbatim>\<open>std::vector\<close> is a list; \<^verbatim>\<open>std::sort\<close> is \<open>sort\<close> (or \<open>sort_key\<close> where the code
  passes a comparison), \<^verbatim>\<open>std::sort\<close> followed by \<^verbatim>\<open>std::unique\<close> and \<^verbatim>\<open>erase\<close> is
  \<open>sort_unique\<close>, and \<^verbatim>\<open>std::adjacent_find\<close> is \<open>adjacent_dup\<close>.

  Unsigned machine integers keep their width as words. Instants and durations
  (\<^verbatim>\<open>mf::Nanos\<close>, a signed 64-bit integer whose overflow is undefined in the source language)
  are \<open>int\<close>.
\<close>

named_theorems table_simps \<open>rewriting rules for lookups in updated tables\<close>
named_theorems table_inv \<open>operations that keep a table sorted by key\<close>
named_theorems codes \<open>names of enumeration values, for evaluation\<close>

type_synonym u8 = "8 word"
type_synonym u16 = "16 word"
type_synonym u32 = "32 word"
type_synonym u64 = "64 word"
type_synonym nanos = int

section \<open>Ordered tables\<close>

type_synonym ('k, 'v) omap = "('k \<times> 'v) list"

definition om_find :: "('k, 'v) omap \<Rightarrow> 'k \<Rightarrow> 'v option" where
  "om_find m k = map_of m k"

fun om_set :: "'k::linorder \<Rightarrow> 'v \<Rightarrow> ('k, 'v) omap \<Rightarrow> ('k, 'v) omap" where
  "om_set k v [] = [(k, v)]"
| "om_set k v (e # m) =
     (if fst e < k then e # om_set k v m
      else if fst e = k then (k, v) # m
      else (k, v) # e # m)"

definition om_erase :: "'k \<Rightarrow> ('k, 'v) omap \<Rightarrow> ('k, 'v) omap" where
  "om_erase k m = filter (\<lambda>e. fst e \<noteq> k) m"

definition om_emplace :: "'k::linorder \<Rightarrow> 'v \<Rightarrow> ('k, 'v) omap \<Rightarrow> ('k, 'v) omap" where
  "om_emplace k v m = (if om_find m k = None then om_set k v m else m)"

definition om_filter :: "('v \<Rightarrow> bool) \<Rightarrow> ('k, 'v) omap \<Rightarrow> ('k, 'v) omap" where
  "om_filter P m = filter (\<lambda>e. P (snd e)) m"

definition om_ok :: "('k::linorder, 'v) omap \<Rightarrow> bool" where
  "om_ok m \<longleftrightarrow> sorted_wrt (<) (map fst m)"

abbreviation om_values :: "('k, 'v) omap \<Rightarrow> 'v list" where
  "om_values m \<equiv> map snd m"

abbreviation om_has :: "('k, 'v) omap \<Rightarrow> 'k \<Rightarrow> bool" where
  "om_has m k \<equiv> om_find m k \<noteq> None"

locale ordered_table =
  fixes tempty :: "'m"
    and tfind :: "'m \<Rightarrow> 'k::linorder \<Rightarrow> 'v option"
    and tset :: "'k \<Rightarrow> 'v \<Rightarrow> 'm \<Rightarrow> 'm"
    and terase :: "'k \<Rightarrow> 'm \<Rightarrow> 'm"
    and titems :: "'m \<Rightarrow> ('k \<times> 'v) list"
    and tinv :: "'m \<Rightarrow> bool"
  assumes inv_empty: "tinv tempty"
    and inv_set: "tinv m \<Longrightarrow> tinv (tset k v m)"
    and inv_erase: "tinv m \<Longrightarrow> tinv (terase k m)"
    and find_empty: "tfind tempty k = None"
    and find_set: "tinv m \<Longrightarrow> tfind (tset k v m) k' = (if k' = k then Some v else tfind m k')"
    and find_erase: "tinv m \<Longrightarrow> tfind (terase k m) k' = (if k' = k then None else tfind m k')"
    and in_items: "tinv m \<Longrightarrow> e \<in> set (titems m) \<longleftrightarrow> tfind m (fst e) = Some (snd e)"
    and items_ascending: "tinv m \<Longrightarrow> sorted_wrt (<) (map fst (titems m))"
begin

lemma items_distinct: "tinv m \<Longrightarrow> distinct (map fst (titems m))"
  using items_ascending by (blast intro: strict_sorted_imp_sorted strict_sorted_iff [THEN iffD1, THEN conjunct2])

lemma items_set: "tinv m \<Longrightarrow>
    set (titems (tset k v m)) = insert (k, v) {e \<in> set (titems m). fst e \<noteq> k}"
  by (auto simp: in_items inv_set find_set split: if_splits)

lemma items_erase: "tinv m \<Longrightarrow> set (titems (terase k m)) = {e \<in> set (titems m). fst e \<noteq> k}"
  by (auto simp: in_items inv_erase find_erase split: if_splits)

lemma keys_set: "tinv m \<Longrightarrow> fst ` set (titems (tset k v m)) = insert k (fst ` set (titems m))"
  by (auto simp: items_set image_iff)

lemma items_length: "tinv m \<Longrightarrow> length (titems m) = card (fst ` set (titems m))"
  using items_distinct [of m] by (metis distinct_card length_map set_map)

lemma length_set_fresh:
  assumes "tinv m" "tfind m k = None"
  shows "length (titems (tset k v m)) = Suc (length (titems m))"
proof -
  have "k \<notin> fst ` set (titems m)"
    using assms by (auto simp: in_items)
  with assms(1) show ?thesis
    by (simp add: items_length inv_set keys_set)
qed

lemma length_set_known:
  assumes "tinv m" "tfind m k = Some w"
  shows "length (titems (tset k v m)) = length (titems m)"
proof -
  have "k \<in> fst ` set (titems m)"
    using in_items [OF assms(1), of "(k, w)"] assms(2) by (force simp: image_iff)
  with assms(1) show ?thesis
    by (simp add: items_length inv_set keys_set insert_absorb)
qed

lemma values_all_set:
  "tinv m \<Longrightarrow> (\<And>e. e \<in> set (titems m) \<Longrightarrow> P (fst e) (snd e)) \<Longrightarrow> P k v \<Longrightarrow>
   e \<in> set (titems (tset k v m)) \<Longrightarrow> P (fst e) (snd e)"
  by (auto simp: items_set)

end

lemma om_find_set: "om_find (om_set k v m) k' = (if k' = k then Some v else om_find m k')"
  by (induction m) (auto simp: om_find_def)

lemma om_find_erase: "om_find (om_erase k m) k' = (if k' = k then None else om_find m k')"
  by (induction m) (auto simp: om_find_def om_erase_def)

lemma om_find_empty [simp]: "om_find [] k = None"
  by (simp add: om_find_def)

lemma set_keys_om_set: "fst ` set (om_set k v m) = insert k (fst ` set m)"
  by (induction m) auto

lemma om_ok_set [table_inv]: "om_ok m \<Longrightarrow> om_ok (om_set k v m)"
  unfolding om_ok_def
proof (induction m)
  case (Cons e m)
  have keys: "set (map fst (om_set k v m)) = insert k (set (map fst m))"
    using set_keys_om_set [of k v m] by simp
  from Cons show ?case
    by (auto simp del: set_map simp add: keys)
qed simp

lemma om_ok_erase [table_inv]: "om_ok m \<Longrightarrow> om_ok (om_erase k m)"
  unfolding om_ok_def om_erase_def by (simp add: sorted_wrt_map sorted_wrt_filter)

lemma om_ok_filter [table_inv]: "om_ok m \<Longrightarrow> om_ok (om_filter P m)"
  unfolding om_ok_def om_filter_def by (simp add: sorted_wrt_map sorted_wrt_filter)

lemma om_ok_emplace [table_inv]: "om_ok m \<Longrightarrow> om_ok (om_emplace k v m)"
  by (simp add: om_emplace_def om_ok_set)

lemma om_emplace_fresh: "om_find m k = None \<Longrightarrow> om_emplace k v m = om_set k v m"
  by (simp add: om_emplace_def)

lemma om_ok_empty [simp, table_inv]: "om_ok []"
  by (simp add: om_ok_def)

lemma om_ok_distinct: "om_ok m \<Longrightarrow> distinct (map fst m)"
  by (simp add: om_ok_def strict_sorted_iff)

lemma om_in_items: "om_ok m \<Longrightarrow> e \<in> set m \<longleftrightarrow> om_find m (fst e) = Some (snd e)"
  using om_ok_distinct [of m] by (cases e) (simp add: om_find_def)

interpretation om: ordered_table "[]" om_find om_set om_erase "\<lambda>m. m" om_ok
  by unfold_locales
    (simp_all add: table_inv om_find_set om_find_erase om_in_items, simp_all add: om_ok_def)

lemmas om_finds [table_simps] = om_find_set om_find_erase om_find_empty

lemma om_find_filter: "om_ok m \<Longrightarrow>
    om_find (om_filter P m) k = (case om_find m k of Some v \<Rightarrow> if P v then Some v else None | None \<Rightarrow> None)"
  using om_in_items [OF om_ok_filter [of m P], of "(k, _)"] om_in_items [of m "(k, _)"]
  by (auto simp: om_filter_def split: option.splits) (metis not_None_eq)+

lemma om_value_in: "om_find m k = Some v \<Longrightarrow> v \<in> snd ` set m"
  by (force simp: om_find_def dest: map_of_SomeD)

section \<open>Vectors\<close>

definition sort_unique :: "'a::linorder list \<Rightarrow> 'a list" where
  "sort_unique xs = remdups_adj (sort xs)"

fun adjacent_dup :: "'a list \<Rightarrow> bool" where
  "adjacent_dup (x # y # xs) = (x = y \<or> adjacent_dup (y # xs))"
| "adjacent_dup _ = False"

definition push_unique :: "'a list \<Rightarrow> 'a \<Rightarrow> 'a list" where
  "push_unique out x = (if x \<in> set out then out else out @ [x])"

lemma set_sort_unique [simp]: "set (sort_unique xs) = set xs"
  by (simp add: sort_unique_def)

lemma sorted_sort_unique [simp]: "sorted (sort_unique xs)"
  by (simp add: sort_unique_def)

lemma distinct_remdups_adj_sorted: "sorted xs \<Longrightarrow> distinct (remdups_adj xs)"
  by (induction xs rule: remdups_adj.induct) auto

lemma distinct_sort_unique [simp]: "distinct (sort_unique xs)"
  by (simp add: sort_unique_def distinct_remdups_adj_sorted)

lemma sort_unique_Nil_iff [simp]: "sort_unique xs = [] \<longleftrightarrow> xs = []"
  by (metis set_empty set_sort_unique)

lemma adjacent_dup_sorted: "sorted xs \<Longrightarrow> adjacent_dup xs \<longleftrightarrow> \<not> distinct xs"
  by (induction xs rule: adjacent_dup.induct) auto

lemma adjacent_dup_sort: "adjacent_dup (sort xs) \<longleftrightarrow> \<not> distinct xs"
  by (simp add: adjacent_dup_sorted)

lemma set_push_unique [simp]: "set (push_unique out x) = insert x (set out)"
  by (auto simp: push_unique_def)

lemma distinct_push_unique: "distinct out \<Longrightarrow> distinct (push_unique out x)"
  by (auto simp: push_unique_def)

lemma set_fold_push_unique [simp]:
  "set (fold (\<lambda>x out. push_unique out x) xs out) = set out \<union> set xs"
  by (induction xs arbitrary: out) auto

lemma distinct_fold_push_unique:
  "distinct out \<Longrightarrow> distinct (fold (\<lambda>x out. push_unique out x) xs out)"
  by (induction xs arbitrary: out) (auto simp: distinct_push_unique)

lemma find_SomeD: "find P xs = Some x \<Longrightarrow> x \<in> set xs \<and> P x"
  by (induction xs) (auto split: if_splits)

end
