(* ===== verification/Hashing.thy ===== *)
theory Hashing
  imports Prelude
begin

unbundle bit_operations_syntax

text \<open>
  Content digests and checksums (\<^verbatim>\<open>src/core/hash.cpp\<close>): FNV-1a over 64 bits, the incremental
  \<^verbatim>\<open>Digest\<close> the decisions carry, CRC-32C by table, and the hexadecimal printer. A digest in
  progress is its 64-bit state; \<open>dg_init\<close> is a fresh \<^verbatim>\<open>Digest\<close> and reading its value is the
  state itself.

  The lemmas show that the table driven CRC step is eight steps of the bitwise division, that
  one step of either function is injective in the state and in the byte, and hence that two
  inputs that differ in a single byte never share a checksum or a digest.
\<close>

type_synonym byte = u8

definition bytes_of :: "string \<Rightarrow> byte list" where
  "bytes_of s = map of_char s"

section \<open>FNV-1a and the incremental digest\<close>

definition fnv_offset :: u64 where
  "fnv_offset = 14695981039346656037"

definition fnv_prime :: u64 where
  "fnv_prime = 1099511628211"

definition fnv_step :: "u64 \<Rightarrow> byte \<Rightarrow> u64" where
  "fnv_step h b = (h XOR ucast b) * fnv_prime"

definition fnv1a64 :: "byte list \<Rightarrow> u64" where
  "fnv1a64 bs = foldl fnv_step fnv_offset bs"

definition mix :: "u64 \<Rightarrow> byte list \<Rightarrow> u64" where
  "mix seed bs = foldl fnv_step seed bs"

abbreviation dg_init :: u64 where
  "dg_init \<equiv> fnv_offset"

definition dg_str :: "string \<Rightarrow> u64 \<Rightarrow> u64" where
  "dg_str s h = mix h (bytes_of s)"

definition u64_be :: "u64 \<Rightarrow> byte list" where
  "u64_be v = map (\<lambda>i. ucast (drop_bit (8 * (7 - i)) v AND 0xFF)) [0..<8]"

definition u32_be :: "u32 \<Rightarrow> byte list" where
  "u32_be v = map (\<lambda>i. ucast (drop_bit (8 * (3 - i)) v AND 0xFF)) [0..<4]"

definition dg_u64 :: "u64 \<Rightarrow> u64 \<Rightarrow> u64" where
  "dg_u64 v h = mix h (u64_be v)"

definition dg_u32 :: "u32 \<Rightarrow> u64 \<Rightarrow> u64" where
  "dg_u32 v h = mix h (u32_be v)"

definition dg_i64 :: "nanos \<Rightarrow> u64 \<Rightarrow> u64" where
  "dg_i64 v h = dg_u64 (word_of_int v) h"

definition dg_bool :: "bool \<Rightarrow> u64 \<Rightarrow> u64" where
  "dg_bool v h = mix h [if v then 1 else 0]"

text \<open>\<^verbatim>\<open>size_t\<close> counters are fed through \<^verbatim>\<open>update_u64\<close>; a loop feeds its elements in order.\<close>

definition dg_len :: "'a list \<Rightarrow> u64 \<Rightarrow> u64" where
  "dg_len xs h = dg_u64 (of_nat (length xs)) h"

definition dg_each :: "('a \<Rightarrow> u64 \<Rightarrow> u64) \<Rightarrow> 'a list \<Rightarrow> u64 \<Rightarrow> u64" where
  "dg_each f xs h = fold f xs h"

section \<open>CRC-32C\<close>

definition crc_poly :: u32 where
  "crc_poly = 0x82F63B78"

definition crc_bit :: "u32 \<Rightarrow> u32" where
  "crc_bit crc = (if crc AND 1 \<noteq> 0 then drop_bit 1 crc XOR crc_poly else drop_bit 1 crc)"

definition crc_table :: "u32 \<Rightarrow> u32" where
  "crc_table i = (crc_bit ^^ 8) i"

definition crc_step :: "u32 \<Rightarrow> byte \<Rightarrow> u32" where
  "crc_step crc b = crc_table ((crc XOR ucast b) AND 0xFF) XOR drop_bit 8 crc"

definition crc32c :: "byte list \<Rightarrow> u32" where
  "crc32c bs = foldl crc_step 0xFFFFFFFF bs XOR 0xFFFFFFFF"

section \<open>Hexadecimal\<close>

definition hex_digit :: "nat \<Rightarrow> char" where
  "hex_digit d = ''0123456789abcdef'' ! d"

fun hex_loop :: "nat \<Rightarrow> 'a::len word \<Rightarrow> string \<Rightarrow> string" where
  "hex_loop 0 v out = out"
| "hex_loop (Suc n) v out = hex_loop n (drop_bit 4 v) (hex_digit (unat (v AND 0xF)) # out)"

definition hex_u64 :: "u64 \<Rightarrow> string" where
  "hex_u64 v = hex_loop 16 v []"

definition hex_u32 :: "u32 \<Rightarrow> string" where
  "hex_u32 v = hex_loop 8 v []"

section \<open>Injectivity of one step\<close>

text \<open>The FNV prime is odd, hence invertible modulo \<open>2 ^ 64\<close>.\<close>

lemma fnv_prime_inverse: "fnv_prime * 14886173955864302971 = 1"
  by (simp add: fnv_prime_def)

lemma fnv_step_inj: "fnv_step h b = fnv_step h' b' \<longleftrightarrow> h XOR ucast b = h' XOR ucast b'"
proof
  assume "fnv_step h b = fnv_step h' b'"
  then have "fnv_step h b * 14886173955864302971 = fnv_step h' b' * 14886173955864302971"
    by simp
  then show "h XOR ucast b = h' XOR ucast b'"
    by (simp add: fnv_step_def mult.assoc fnv_prime_inverse)
qed (simp add: fnv_step_def)

lemma xor_cancel_left: "(a XOR b = a XOR c) \<longleftrightarrow> b = (c :: 'a::len word)"
  by (metis xor.assoc xor_self_eq xor.left_neutral)

lemma xor_cancel_right: "(b XOR a = c XOR a) \<longleftrightarrow> b = (c :: 'a::len word)"
  by (metis xor_cancel_left xor.commute)

lemma ucast_byte_inj:
  fixes b c :: byte
  assumes "8 \<le> LENGTH('a)"
  shows "(ucast b :: 'a::len word) = ucast c \<longleftrightarrow> b = c"
proof
  assume eq: "(ucast b :: 'a word) = ucast c"
  show "b = c"
  proof (rule bit_word_eqI)
    fix n assume "n < LENGTH(8)"
    then show "bit b n = bit c n"
      using arg_cong [OF eq, of "\<lambda>w. bit w n"] assms by (simp add: bit_unsigned_iff)
  qed
qed simp

lemma foldl_inj_left:
  assumes "\<And>h h' b. f h b = f h' b \<Longrightarrow> h = h'"
  shows "foldl f h bs = foldl f h' bs \<Longrightarrow> h = h'"
proof (induction bs arbitrary: h h')
  case (Cons b bs)
  then have "f h b = f h' b" by simp
  then show ?case by (rule assms)
qed simp

lemma mix_single_byte: "b \<noteq> c \<Longrightarrow> mix h (pre @ b # post) \<noteq> mix h (pre @ c # post)"
proof
  assume "b \<noteq> c" and "mix h (pre @ b # post) = mix h (pre @ c # post)"
  then have "foldl fnv_step (fnv_step (foldl fnv_step h pre) b) post =
             foldl fnv_step (fnv_step (foldl fnv_step h pre) c) post"
    by (simp add: mix_def)
  then have "fnv_step (foldl fnv_step h pre) b = fnv_step (foldl fnv_step h pre) c"
    by (rule foldl_inj_left [rotated]) (simp add: fnv_step_inj xor_cancel_right)
  with \<open>b \<noteq> c\<close> show False
    by (simp add: fnv_step_inj xor_cancel_left ucast_byte_inj)
qed

section \<open>The CRC table and the bitwise division\<close>

lemma crc_bit_alt: "crc_bit x = drop_bit 1 x XOR (if bit x 0 then crc_poly else 0)"
  by (simp add: crc_bit_def bit_0 and_one_eq odd_iff_mod_2_eq_one)

lemma crc_bit_xor: "crc_bit (x XOR y) = crc_bit x XOR crc_bit y"
  by (simp add: crc_bit_alt bit_xor_iff drop_bit_xor xor.assoc xor.left_commute)

lemma crc_bits_xor: "(crc_bit ^^ n) (x XOR y) = (crc_bit ^^ n) x XOR (crc_bit ^^ n) y"
  by (induction n) (simp_all add: crc_bit_xor)

lemma crc_bits_shift:
  "(\<And>k. k < n \<Longrightarrow> \<not> bit x k) \<Longrightarrow> (crc_bit ^^ n) x = drop_bit n x"
proof (induction n arbitrary: x)
  case (Suc n)
  have "crc_bit x = drop_bit 1 x"
    using Suc.prems [of 0] by (simp add: crc_bit_alt)
  moreover have "(crc_bit ^^ n) (drop_bit 1 x) = drop_bit n (drop_bit 1 x)"
    using Suc.prems by (intro Suc.IH) (simp add: bit_drop_bit_eq)
  ultimately show ?case
    by (simp add: funpow_swap1 drop_bit_drop_bit)
qed simp

lemma low_high_split: "x = (x AND mask 8) XOR (x AND NOT (mask 8))" for x :: u32
  by (rule bit_word_eqI) (auto simp: bit_simps)

lemma drop_bit_ucast_byte: "drop_bit 8 (ucast (b :: byte) :: u32) = 0"
  by (rule bit_word_eqI) (auto simp: bit_simps bit_unsigned_iff dest: bit_imp_le_length)

lemma crc_step_bitwise: "crc_step crc b = (crc_bit ^^ 8) (crc XOR ucast b)"
proof -
  define x where "x = crc XOR (ucast b :: u32)"
  have "(crc_bit ^^ 8) (x AND NOT (mask 8)) = drop_bit 8 (x AND NOT (mask 8))"
    by (rule crc_bits_shift) (simp add: bit_simps)
  also have "\<dots> = drop_bit 8 x"
    by (rule bit_word_eqI) (auto simp: bit_simps dest: bit_imp_le_length)
  also have "\<dots> = drop_bit 8 crc"
    by (simp add: x_def drop_bit_xor drop_bit_ucast_byte)
  finally have high: "(crc_bit ^^ 8) (x AND NOT (mask 8)) = drop_bit 8 crc" .
  have "(crc_bit ^^ 8) x = (crc_bit ^^ 8) (x AND mask 8) XOR (crc_bit ^^ 8) (x AND NOT (mask 8))"
    using crc_bits_xor [of 8 "x AND mask 8" "x AND NOT (mask 8)"] low_high_split [of x] by simp
  then show ?thesis
    using high by (simp add: crc_step_def crc_table_def x_def mask_eq_exp_minus_1)
qed

lemma crc_poly_top: "bit crc_poly 31"
  by (simp add: crc_poly_def bit_numeral_rec)

lemma crc_bit_inj: "crc_bit x = crc_bit y \<Longrightarrow> x = y"
proof -
  assume eq: "crc_bit x = crc_bit y"
  have top: "bit (crc_bit z) 31 = bit z 0" for z
    using bit_imp_le_length [of z 32] by (auto simp: crc_bit_alt bit_simps crc_poly_top)
  with eq have low: "bit x 0 = bit y 0" by metis
  with eq have "drop_bit 1 x = drop_bit 1 y"
    by (simp add: crc_bit_alt xor_cancel_right)
  then have "bit x (Suc n) = bit y (Suc n)" for n
    by (metis bit_drop_bit_eq comp_apply plus_1_eq_Suc)
  with low have "bit x n = bit y n" for n by (cases n) auto
  then show "x = y" by (simp add: bit_eq_iff)
qed

lemma crc_step_inj: "crc_step h b = crc_step h' b' \<Longrightarrow> h XOR ucast b = h' XOR ucast b'"
proof -
  have "(crc_bit ^^ n) x = (crc_bit ^^ n) y \<Longrightarrow> x = y" for n x y
    by (induction n) (auto dest: crc_bit_inj)
  then show "crc_step h b = crc_step h' b' \<Longrightarrow> h XOR ucast b = h' XOR ucast b'"
    unfolding crc_step_bitwise by blast
qed

text \<open>The bitwise reference: eight divisions by the polynomial per byte.\<close>

definition crc32c_bitwise :: "byte list \<Rightarrow> u32" where
  "crc32c_bitwise bs = foldl (\<lambda>crc b. (crc_bit ^^ 8) (crc XOR ucast b)) 0xFFFFFFFF bs XOR 0xFFFFFFFF"

lemma crc32c_eq_bitwise: "crc32c bs = crc32c_bitwise bs"
  by (simp add: crc32c_def crc32c_bitwise_def crc_step_bitwise [abs_def])

lemma crc32c_byte_change: "b \<noteq> c \<Longrightarrow> crc32c (pre @ b # post) \<noteq> crc32c (pre @ c # post)"
proof
  assume "b \<noteq> c" and "crc32c (pre @ b # post) = crc32c (pre @ c # post)"
  then have "foldl crc_step (crc_step (foldl crc_step 0xFFFFFFFF pre) b) post =
             foldl crc_step (crc_step (foldl crc_step 0xFFFFFFFF pre) c) post"
    by (simp add: crc32c_def xor_cancel_right)
  then have "crc_step (foldl crc_step 0xFFFFFFFF pre) b = crc_step (foldl crc_step 0xFFFFFFFF pre) c"
    by (rule foldl_inj_left [rotated]) (auto dest: crc_step_inj simp: xor_cancel_right)
  with \<open>b \<noteq> c\<close> show False
    by (auto dest!: crc_step_inj simp: xor_cancel_left ucast_byte_inj)
qed

end
