(* ===== verification/Checked.thy ===== *)
theory Checked
  imports Prelude "HOL-Library.Signed_Division"
begin

text \<open>
  Checked arithmetic (\<^verbatim>\<open>include/mf/core/checked.hpp\<close>). The unsigned helpers are generic in the
  width of the word. A signed value is an \<open>int\<close> inside the range of a two's complement
  integer of \<open>w\<close> bits, and \<open>sdiv\<close> is the truncating division of the source language. The
  lemmas show that each guard, which divides or subtracts so as not to overflow itself,
  accepts exactly the operands whose mathematical result fits.
\<close>

definition checked_add :: "'a::len word \<Rightarrow> 'a word \<Rightarrow> 'a word option" where
  "checked_add a b = (if a > (- 1) - b then None else Some (a + b))"

definition checked_sub :: "'a::len word \<Rightarrow> 'a word \<Rightarrow> 'a word option" where
  "checked_sub a b = (if b > a then None else Some (a - b))"

definition checked_mul :: "'a::len word \<Rightarrow> 'a word \<Rightarrow> 'a word option" where
  "checked_mul a b =
     (if a = 0 \<or> b = 0 then Some 0
      else if a > (- 1) div b then None
      else Some (a * b))"

definition smax :: "nat \<Rightarrow> int" where
  "smax w = 2 ^ (w - 1) - 1"

definition smin :: "nat \<Rightarrow> int" where
  "smin w = - (2 ^ (w - 1))"

definition checked_mul_signed :: "nat \<Rightarrow> int \<Rightarrow> int \<Rightarrow> int option" where
  "checked_mul_signed w a b =
     (if a = 0 \<or> b = 0 then Some 0
      else if a > 0 then
        (if b > 0 then (if a > smax w sdiv b then None else Some (a * b))
         else (if b < smin w sdiv a then None else Some (a * b)))
      else
        (if b > 0 then (if a < smin w sdiv b then None else Some (a * b))
         else (if a < smax w sdiv b then None else Some (a * b))))"

definition narrow :: "int \<Rightarrow> int \<Rightarrow> int \<Rightarrow> int option" where
  "narrow lo hi v = (if lo \<le> v \<and> v \<le> hi then Some v else None)"

definition narrow_or :: "int \<Rightarrow> int \<Rightarrow> int \<Rightarrow> int \<Rightarrow> int" where
  "narrow_or lo hi v fallback = (case narrow lo hi v of Some r \<Rightarrow> r | None \<Rightarrow> fallback)"

definition saturate :: "int \<Rightarrow> int \<Rightarrow> int \<Rightarrow> int" where
  "saturate lo hi v = (if lo \<le> v \<and> v \<le> hi then v else if v < 0 then lo else hi)"

lemma unat_all_ones: "unat (- 1 :: 'a::len word) = 2 ^ LENGTH('a) - 1"
  by (simp add: unat_eq_nat_uint nat_diff_distrib uint_word_ariths zmod_minus1 nat_power_eq)

lemma unat_below: "unat (a :: 'a::len word) < 2 ^ LENGTH('a)"
  by simp

theorem checked_add_exact:
  fixes a b :: "'a::len word"
  shows "checked_add a b =
    (if unat a + unat b < 2 ^ LENGTH('a) then Some (a + b) else None)"
proof -
  have "unat ((- 1) - b) = 2 ^ LENGTH('a) - 1 - unat b"
    by (simp add: unat_sub unat_all_ones)
  moreover have "unat b < 2 ^ LENGTH('a)"
    by (rule unat_below)
  ultimately have "a > (- 1) - b \<longleftrightarrow> \<not> unat a + unat b < 2 ^ LENGTH('a)"
    unfolding word_less_nat_alt by linarith
  then show ?thesis
    by (simp add: checked_add_def)
qed

lemma checked_sub_exact:
  "checked_sub a b = (if unat b \<le> unat a then Some (a - b) else None)"
  by (auto simp: checked_sub_def word_less_nat_alt)

lemma checked_mul_exact:
  fixes a b :: "'a::len word"
  shows "checked_mul a b =
    (if unat a * unat b < 2 ^ LENGTH('a) then Some (a * b) else None)"
proof (cases "a = 0 \<or> b = 0")
  case True
  then show ?thesis by (auto simp: checked_mul_def)
next
  case False
  then have "0 < unat b" by (simp add: unat_gt_0)
  then have "unat a \<le> (2 ^ LENGTH('a) - 1) div unat b \<longleftrightarrow> unat a * unat b \<le> 2 ^ LENGTH('a) - 1"
    by (rule less_eq_div_iff_mult_less_eq)
  moreover have "unat a * unat b \<le> 2 ^ LENGTH('a) - 1 \<longleftrightarrow> unat a * unat b < 2 ^ LENGTH('a)"
    using less_eq_Suc_le [of _ "2 ^ LENGTH('a)"] by (cases "(2::nat) ^ LENGTH('a)") auto
  ultimately have "a > (- 1) div b \<longleftrightarrow> \<not> unat a * unat b < 2 ^ LENGTH('a)"
    unfolding word_less_nat_alt unat_div unat_all_ones by linarith
  with False show ?thesis
    by (simp add: checked_mul_def)
qed

text \<open>Truncating division of a bound, turned into inequalities between products.\<close>

lemma int_le_div_iff:
  fixes a b m :: int
  assumes "0 < b"
  shows "a \<le> m div b \<longleftrightarrow> a * b \<le> m"
proof
  assume "a \<le> m div b"
  with assms have "a * b \<le> (m div b) * b" by (simp add: mult_right_mono)
  also have "\<dots> \<le> m"
    using assms div_mult_mod_eq [of m b] pos_mod_sign [of b m] by linarith
  finally show "a * b \<le> m" .
next
  assume le: "a * b \<le> m"
  show "a \<le> m div b"
  proof (rule ccontr)
    assume "\<not> a \<le> m div b"
    then have "(m div b + 1) * b \<le> a * b" using assms by (simp add: mult_right_mono)
    moreover have "m < (m div b + 1) * b"
      using assms div_mult_mod_eq [of m b] pos_mod_bound [of b m] unfolding distrib_right by linarith
    ultimately show False using le by linarith
  qed
qed

lemma sdiv_pos_pos: "0 \<le> m \<Longrightarrow> 0 < b \<Longrightarrow> m sdiv b = m div (b::int)"
  by (cases "m = 0") (simp_all add: signed_divide_int_def)

lemma sdiv_neg_pos: "0 \<le> m \<Longrightarrow> 0 < b \<Longrightarrow> (- m) sdiv b = - (m div (b::int))"
  by (cases "m = 0") (simp_all add: signed_divide_int_def)

lemma sdiv_pos_neg: "0 \<le> m \<Longrightarrow> 0 < b \<Longrightarrow> m sdiv (- b) = - (m div (b::int))"
  by (cases "m = 0") (simp_all add: signed_divide_int_def)

lemmas sdiv_bounds = sdiv_pos_pos sdiv_neg_pos sdiv_pos_neg

theorem checked_mul_signed_exact:
  "checked_mul_signed w a b =
     (if smin w \<le> a * b \<and> a * b \<le> smax w then Some (a * b) else None)"
proof -
  define m where "m = (2::int) ^ (w - 1)"
  have m: "1 \<le> m" "smax w = m - 1" "smin w = - m"
    by (simp_all add: m_def smax_def smin_def)
  consider "a = 0 \<or> b = 0" | "0 < a" "0 < b" | "0 < a" "b < 0" | "a < 0" "0 < b" | "a < 0" "b < 0"
    by linarith
  then show ?thesis
  proof cases
    case 1
    then show ?thesis using m by (auto simp: checked_mul_signed_def)
  next
    case 2
    have "a \<le> (m - 1) div b \<longleftrightarrow> a * b \<le> m - 1"
      using 2 by (simp add: int_le_div_iff)
    moreover have "- m \<le> a * b" using mult_pos_pos [OF 2] m by linarith
    ultimately show ?thesis
      using 2 m by (auto simp: checked_mul_signed_def sdiv_bounds not_less)
  next
    case 3
    have "- b \<le> m div a \<longleftrightarrow> (- b) * a \<le> m"
      using 3 by (simp add: int_le_div_iff)
    moreover have "a * b < 0" using 3 by (simp add: mult_pos_neg)
    ultimately show ?thesis
      using 3 m by (auto simp: checked_mul_signed_def sdiv_bounds mult.commute)
  next
    case 4
    have "- a \<le> m div b \<longleftrightarrow> (- a) * b \<le> m"
      using 4 by (simp add: int_le_div_iff)
    moreover have "a * b < 0" using 4 by (simp add: mult_neg_pos)
    ultimately show ?thesis
      using 4 m by (auto simp: checked_mul_signed_def sdiv_bounds)
  next
    case 5
    have "- a \<le> (m - 1) div (- b) \<longleftrightarrow> (- a) * (- b) \<le> m - 1"
      using 5 int_le_div_iff [of "- b" "- a" "m - 1"] by simp
    moreover have "- m \<le> a * b" using mult_neg_neg [OF 5] m by linarith
    moreover have "(m - 1) sdiv b = - ((m - 1) div (- b))"
      using sdiv_pos_neg [of "m - 1" "- b"] 5 m by simp
    ultimately show ?thesis
      using 5 m by (auto simp: checked_mul_signed_def)
  qed
qed

end
