(* ===== verification/Ids.thy ===== *)
theory Ids
  imports Hashing Checked
begin

text \<open>
  Strongly typed identities (\<^verbatim>\<open>include/mf/core/id.hpp\<close>, \<^verbatim>\<open>src/core/id.cpp\<close>): decimal
  printing and parsing with explicit overflow rejection, the prefixed text form of an
  identity, and the composite attempt identity that fences every externally reported outcome.
  \<^verbatim>\<open>StrongId<Tag>\<close> is its 64-bit value under a type synonym per tag; zero is the invalid
  identity and \<open>next_id\<close> wraps around like the machine addition.

  The lemmas show that \<open>parse_u64\<close> accepts exactly the digit strings of at most twenty
  characters whose value fits into 64 bits, and that every text form parses back to the value
  it was printed from.
\<close>

type_synonym job_id = u64
type_synonym generation_id = u64
type_synonym attempt_ordinal = u64
type_synonym evidence_id = u64
type_synonym source_id = u64
type_synonym authority_id = u64
type_synonym controller_id = u64
type_synonym boot_epoch = u64
type_synonym revision = u64
type_synonym lease_id = u64
type_synonym pool_id = u64
type_synonym contract_id = u64
type_synonym window_id = u64
type_synonym requestor_id = u64
type_synonym quarantine_id = u64

definition id_valid :: "u64 \<Rightarrow> bool" where
  "id_valid v \<longleftrightarrow> v \<noteq> 0"

definition next_id :: "u64 \<Rightarrow> u64" where
  "next_id v = v + 1"

section \<open>Decimal text\<close>

definition digit_char :: "nat \<Rightarrow> char" where
  "digit_char d = char_of (48 + d)"

definition is_digit :: "char \<Rightarrow> bool" where
  "is_digit c \<longleftrightarrow> 48 \<le> (of_char c :: nat) \<and> (of_char c :: nat) \<le> 57"

definition digit_val :: "char \<Rightarrow> nat" where
  "digit_val c = of_char c - 48"

fun dec_string :: "nat \<Rightarrow> string" where
  "dec_string n = (if n < 10 then [digit_char n] else dec_string (n div 10) @ [digit_char (n mod 10)])"

declare dec_string.simps [simp del]

abbreviation dec_word :: "'a::len word \<Rightarrow> string" where
  "dec_word v \<equiv> dec_string (unat v)"

definition dec_int :: "int \<Rightarrow> string" where
  "dec_int i = (if i < 0 then CHR ''-'' # dec_string (nat (- i)) else dec_string (nat i))"

fun parse_u64_loop :: "u64 \<Rightarrow> string \<Rightarrow> u64 option" where
  "parse_u64_loop v [] = Some v"
| "parse_u64_loop v (c # cs) =
     (if \<not> is_digit c then None
      else let digit = of_nat (digit_val c) in
        if v > ((- 1) - digit) div 10 then None
        else parse_u64_loop (v * 10 + digit) cs)"

definition parse_u64 :: "string \<Rightarrow> u64 option" where
  "parse_u64 text = (if text = [] \<or> length text > 20 then None else parse_u64_loop 0 text)"

definition parse_u32 :: "string \<Rightarrow> u32 option" where
  "parse_u32 text =
     (case parse_u64 text of
        None \<Rightarrow> None
      | Some wide \<Rightarrow> map_option word_of_int (narrow 0 (2 ^ 32 - 1) (uint wide)))"

section \<open>Prefixed identities\<close>

definition to_string_id :: "string \<Rightarrow> u64 \<Rightarrow> string" where
  "to_string_id prefix v = prefix @ CHR '':'' # dec_word v"

definition parse_id :: "string \<Rightarrow> string \<Rightarrow> u64 option" where
  "parse_id prefix text =
     (if CHR '':'' \<notin> set text then None
      else if takeWhile (\<lambda>c. c \<noteq> CHR '':'') text \<noteq> prefix then None
      else parse_u64 (tl (dropWhile (\<lambda>c. c \<noteq> CHR '':'') text)))"

abbreviation "to_string_job \<equiv> to_string_id ''job''"
abbreviation "to_string_generation \<equiv> to_string_id ''gen''"
abbreviation "to_string_attempt_ordinal \<equiv> to_string_id ''att''"
abbreviation "to_string_evidence_id \<equiv> to_string_id ''ev''"
abbreviation "to_string_source \<equiv> to_string_id ''src''"
abbreviation "to_string_authority \<equiv> to_string_id ''auth''"
abbreviation "to_string_controller \<equiv> to_string_id ''ctl''"
abbreviation "to_string_boot_epoch \<equiv> to_string_id ''boot''"
abbreviation "to_string_revision \<equiv> to_string_id ''rev''"
abbreviation "to_string_lease \<equiv> to_string_id ''lease''"
abbreviation "to_string_pool \<equiv> to_string_id ''pool''"
abbreviation "to_string_contract \<equiv> to_string_id ''ctr''"
abbreviation "to_string_window \<equiv> to_string_id ''win''"
abbreviation "to_string_quarantine \<equiv> to_string_id ''quar''"

definition requestor_from_name :: "string \<Rightarrow> requestor_id" where
  "requestor_from_name name =
     (if name = [] then 1
      else let digest = fnv1a64 (bytes_of name) in if digest = 0 then 1 else digest)"

section \<open>Attempt identity\<close>

record attempt_id =
  at_job :: job_id
  at_generation :: generation_id
  at_ordinal :: attempt_ordinal

definition no_attempt :: attempt_id where
  "no_attempt = \<lparr>at_job = 0, at_generation = 0, at_ordinal = 0\<rparr>"

definition attempt_valid :: "attempt_id \<Rightarrow> bool" where
  "attempt_valid a \<longleftrightarrow> id_valid (at_job a) \<and> id_valid (at_generation a) \<and> id_valid (at_ordinal a)"

definition to_string_attempt :: "attempt_id \<Rightarrow> string" where
  "to_string_attempt a =
     to_string_job (at_job a) @ CHR ''/'' # to_string_generation (at_generation a) @
     CHR ''/'' # to_string_attempt_ordinal (at_ordinal a)"

text \<open>
  The parsing loop walks the pieces between slashes; \<open>text\<close> is what follows position
  \<^verbatim>\<open>pos\<close>, and the loop goes on only where a slash was found.
\<close>

lemma tl_dropWhile_shorter: "c \<in> set s \<Longrightarrow> length (tl (dropWhile (\<lambda>d. d \<noteq> c) s)) < length s"
proof -
  assume "c \<in> set s"
  then have "0 < length (dropWhile (\<lambda>d. d \<noteq> c) s)" by auto
  moreover have "length (dropWhile (\<lambda>d. d \<noteq> c) s) \<le> length s" by (rule length_dropWhile_le)
  ultimately show ?thesis unfolding length_tl by linarith
qed

function parse_attempt_loop :: "nat \<Rightarrow> string \<Rightarrow> attempt_id \<Rightarrow> (nat \<times> attempt_id) option" where
  "parse_attempt_loop part text a =
     (let piece = takeWhile (\<lambda>c. c \<noteq> CHR ''/'') text;
          step = (if part = 0 then map_option (\<lambda>v. a\<lparr>at_job := v\<rparr>) (parse_id ''job'' piece)
                  else if part = 1 then map_option (\<lambda>v. a\<lparr>at_generation := v\<rparr>) (parse_id ''gen'' piece)
                  else if part = 2 then map_option (\<lambda>v. a\<lparr>at_ordinal := v\<rparr>) (parse_id ''att'' piece)
                  else None)
      in case step of
           None \<Rightarrow> None
         | Some a' \<Rightarrow>
             if CHR ''/'' \<in> set text
             then parse_attempt_loop (Suc part) (tl (dropWhile (\<lambda>c. c \<noteq> CHR ''/'') text)) a'
             else Some (Suc part, a'))"
  by pat_completeness auto
termination
  by (relation "measure (\<lambda>(part, s, a). length s)") (auto simp del: length_tl intro: tl_dropWhile_shorter)

declare parse_attempt_loop.simps [simp del]

definition parse_attempt_id :: "string \<Rightarrow> attempt_id option" where
  "parse_attempt_id text =
     (case parse_attempt_loop 0 text no_attempt of
        None \<Rightarrow> None
      | Some (part, a) \<Rightarrow> if part \<noteq> 3 \<or> \<not> attempt_valid a then None else Some a)"

section \<open>Parsing inverts printing\<close>

definition dec_value :: "nat \<Rightarrow> string \<Rightarrow> nat" where
  "dec_value acc s = foldl (\<lambda>v c. v * 10 + digit_val c) acc s"

lemma digit_char_facts [simp]:
  "d < 10 \<Longrightarrow> is_digit (digit_char d)" "d < 10 \<Longrightarrow> digit_val (digit_char d) = d"
  by (simp_all add: is_digit_def digit_val_def digit_char_def)

lemma dec_value_ge: "acc \<le> dec_value acc s"
proof (induction s arbitrary: acc)
  case (Cons c s)
  have "acc \<le> acc * 10 + digit_val c" by simp
  also have "\<dots> \<le> dec_value acc (c # s)" using Cons by (simp add: dec_value_def)
  finally show ?case .
qed (simp add: dec_value_def)

lemma u64_digit_guard:
  assumes "d < 10"
  shows "v > ((- 1) - of_nat d) div 10 \<longleftrightarrow> \<not> unat (v :: u64) * 10 + d < 2 ^ 64"
proof -
  have "unat ((- 1) - of_nat d :: u64) = 2 ^ 64 - 1 - d"
    using assms by (simp add: unat_sub unat_all_ones unat_of_nat word_le_nat_alt)
  then have "unat (((- 1) - of_nat d :: u64) div 10) = (2 ^ 64 - 1 - d) div 10"
    by (simp add: unat_div)
  then show ?thesis
    using assms by (simp add: word_less_nat_alt) linarith
qed

lemma parse_u64_loop_spec:
  "parse_u64_loop v s =
     (if list_all is_digit s \<and> dec_value (unat v) s < 2 ^ 64
      then Some (of_nat (dec_value (unat v) s)) else None)"
proof (induction s arbitrary: v)
  case Nil
  show ?case using unat_below [of v] by (simp add: dec_value_def)
next
  case (Cons c s)
  show ?case
  proof (cases "is_digit c \<and> unat v * 10 + digit_val c < 2 ^ 64")
    case True
    then have d: "digit_val c < 10" by (auto simp: digit_val_def is_digit_def)
    have "unat (v * 10 + of_nat (digit_val c)) = unat v * 10 + digit_val c"
      using True d by (simp add: unat_word_ariths unat_of_nat)
    with True d show ?thesis
      using u64_digit_guard [OF d, of v] Cons.IH by (simp add: dec_value_def)
  next
    case False
    show ?thesis
    proof (cases "is_digit c")
      case True
      then have d: "digit_val c < 10" by (auto simp: digit_val_def is_digit_def)
      have "\<not> dec_value (unat v) (c # s) < 2 ^ 64"
        using False True dec_value_ge [of "unat v * 10 + digit_val c" s]
        by (simp add: dec_value_def)
      with True False show ?thesis
        using u64_digit_guard [OF d, of v] by simp
    qed simp
  qed
qed

lemma parse_u64_spec:
  "parse_u64 s =
     (if s \<noteq> [] \<and> length s \<le> 20 \<and> list_all is_digit s \<and> dec_value 0 s < 2 ^ 64
      then Some (of_nat (dec_value 0 s)) else None)"
  by (auto simp: parse_u64_def parse_u64_loop_spec)

lemma dec_string_digits: "list_all is_digit (dec_string n)"
  by (induction n rule: dec_string.induct) (subst dec_string.simps, simp)

lemma dec_string_value: "dec_value 0 (dec_string n) = n"
  by (induction n rule: dec_string.induct) (subst dec_string.simps, simp add: dec_value_def)

lemma dec_string_nonempty [simp]: "dec_string n \<noteq> []"
  by (subst dec_string.simps) simp

lemma dec_string_length: "n < 10 ^ k \<Longrightarrow> 0 < k \<Longrightarrow> length (dec_string n) \<le> k"
proof (induction k arbitrary: n)
  case (Suc k)
  show ?case
  proof (cases "n < 10")
    case False
    with Suc.prems have "n div 10 < 10 ^ k" "0 < k"
      by (auto simp: less_mult_imp_div_less mult.commute intro: gr0I)
    with Suc.IH False show ?thesis by (subst dec_string.simps) auto
  qed (subst dec_string.simps, simp)
qed simp

lemma parse_dec_string: "n < 2 ^ 64 \<Longrightarrow> parse_u64 (dec_string n) = Some (of_nat n)"
  using dec_string_length [of n 20] by (simp add: parse_u64_spec dec_string_digits dec_string_value)

lemma parse_u64_dec_word [simp]: "parse_u64 (dec_word (v :: u64)) = Some v"
  using parse_dec_string [of "unat v"] unat_below [of v] by simp

lemma parse_u32_dec_word [simp]: "parse_u32 (dec_word (v :: u32)) = Some v"
proof -
  have b: "unat v < 2 ^ 32" using unat_below [of v] by simp
  have "uint v < 2 ^ 32"
    using uint_lt2p [of v] by simp
  then have "uint v \<le> 2 ^ 32 - 1" and u: "uint (of_nat (unat v) :: u64) = uint v"
    by (simp_all add: unsigned_ucast_eq take_bit_int_eq_self)
  then show ?thesis
    using parse_dec_string [of "unat v"] b
    by (simp add: parse_u32_def narrow_def)
qed

lemma not_digit_chars: "\<not> is_digit CHR '':''" "\<not> is_digit CHR ''/''"
  by (simp_all add: is_digit_def)

lemma dec_string_no_sep [simp]:
  "CHR '':'' \<notin> set (dec_string n)" "CHR ''/'' \<notin> set (dec_string n)"
  using dec_string_digits [of n] not_digit_chars by (auto simp: list_all_iff)

lemma takeWhile_sep: "c \<notin> set xs \<Longrightarrow> takeWhile (\<lambda>d. d \<noteq> c) (xs @ c # ys) = xs"
  by (induction xs) auto

lemma dropWhile_sep: "c \<notin> set xs \<Longrightarrow> dropWhile (\<lambda>d. d \<noteq> c) (xs @ c # ys) = c # ys"
  by (induction xs) auto

lemma takeWhile_no_sep: "c \<notin> set xs \<Longrightarrow> takeWhile (\<lambda>d. d \<noteq> c) xs = xs"
  by (induction xs) auto

lemma parse_to_string_id:
  "CHR '':'' \<notin> set p \<Longrightarrow> parse_id p (to_string_id p v) = Some v"
  by (simp add: parse_id_def to_string_id_def takeWhile_sep dropWhile_sep)

lemma to_string_id_no_slash: "CHR ''/'' \<notin> set p \<Longrightarrow> CHR ''/'' \<notin> set (to_string_id p v)"
  by (simp add: to_string_id_def)

lemma parse_attempt_to_string:
  "parse_attempt_id (to_string_attempt a) = (if attempt_valid a then Some a else None)"
proof -
  have nosl: "CHR ''/'' \<notin> set (to_string_job u)" "CHR ''/'' \<notin> set (to_string_generation u)"
    "CHR ''/'' \<notin> set (to_string_attempt_ordinal u)" for u
    by (simp_all add: to_string_id_no_slash)
  have pj: "parse_id ''job'' (to_string_job u) = Some u"
    "parse_id ''gen'' (to_string_generation u) = Some u"
    "parse_id ''att'' (to_string_attempt_ordinal u) = Some u" for u
    by (simp_all add: parse_to_string_id)
  show ?thesis
    by (cases a) (simp add: parse_attempt_id_def to_string_attempt_def parse_attempt_loop.simps nosl pj
        takeWhile_sep dropWhile_sep takeWhile_no_sep no_attempt_def)
qed

lemma next_id_greater:
  assumes "v \<noteq> - 1"
  shows "v < next_id v"
proof -
  have "unat v \<noteq> unat (- 1 :: u64)" using assms by (metis word_unat_eq_iff)
  then have "unat v \<noteq> 2 ^ 64 - 1" by (simp add: unat_all_ones)
  moreover have "unat v < 2 ^ 64" using unat_below [of v] by simp
  ultimately have "Suc (unat v) < 2 ^ 64" by linarith
  then show ?thesis by (simp add: next_id_def word_less_nat_alt unat_word_ariths)
qed

end
