(* ===== verification/Results.thy ===== *)
theory Results
  imports Prelude
begin

text \<open>
  Outcome values (\<^verbatim>\<open>include/mf/core/result.hpp\<close>, \<^verbatim>\<open>src/core/result.cpp\<close>). The program never
  throws: \<^verbatim>\<open>Result<T>\<close> is a sum with the error on the left, \<^verbatim>\<open>Status\<close> is the result that
  carries no value. The human readable detail is part of the model, because the arbitrator
  branches on it.
\<close>

datatype error_code =
    Ok | InvalidArgument | NotFound | AlreadyExists | LimitExceeded | Overflow | StaleGeneration
  | StaleIncarnation | StaleRevision | StaleEvidence | StaleAttempt | StaleAuthority
  | PolicyDenied | StateConflict | WindowClosed | DependencyUnmet | EvidenceMissing | DrainFailed
  | DrainLeaseLost | RestorationFailed | Unauthorized | Busy | Cancelled | ShuttingDown | Timeout
  | IoError | CorruptState | VersionMismatch | Unsupported | Internal

fun to_string_error_code :: "error_code \<Rightarrow> string" where
  "to_string_error_code Ok = ''ok''"
| "to_string_error_code InvalidArgument = ''invalid-argument''"
| "to_string_error_code NotFound = ''not-found''"
| "to_string_error_code AlreadyExists = ''already-exists''"
| "to_string_error_code LimitExceeded = ''limit-exceeded''"
| "to_string_error_code Overflow = ''overflow''"
| "to_string_error_code StaleGeneration = ''stale-generation''"
| "to_string_error_code StaleIncarnation = ''stale-incarnation''"
| "to_string_error_code StaleRevision = ''stale-revision''"
| "to_string_error_code StaleEvidence = ''stale-evidence''"
| "to_string_error_code StaleAttempt = ''stale-attempt''"
| "to_string_error_code StaleAuthority = ''stale-authority''"
| "to_string_error_code PolicyDenied = ''policy-denied''"
| "to_string_error_code StateConflict = ''state-conflict''"
| "to_string_error_code WindowClosed = ''window-closed''"
| "to_string_error_code DependencyUnmet = ''dependency-unmet''"
| "to_string_error_code EvidenceMissing = ''evidence-missing''"
| "to_string_error_code DrainFailed = ''drain-failed''"
| "to_string_error_code DrainLeaseLost = ''drain-lease-lost''"
| "to_string_error_code RestorationFailed = ''restoration-failed''"
| "to_string_error_code Unauthorized = ''unauthorized''"
| "to_string_error_code Busy = ''busy''"
| "to_string_error_code Cancelled = ''cancelled''"
| "to_string_error_code ShuttingDown = ''shutting-down''"
| "to_string_error_code Timeout = ''timeout''"
| "to_string_error_code IoError = ''io-error''"
| "to_string_error_code CorruptState = ''corrupt-state''"
| "to_string_error_code VersionMismatch = ''version-mismatch''"
| "to_string_error_code Unsupported = ''unsupported''"
| "to_string_error_code Internal = ''internal''"

fun is_fence_error :: "error_code \<Rightarrow> bool" where
  "is_fence_error StaleGeneration = True"
| "is_fence_error StaleIncarnation = True"
| "is_fence_error StaleRevision = True"
| "is_fence_error StaleAttempt = True"
| "is_fence_error StaleAuthority = True"
| "is_fence_error _ = False"

datatype error = Error (err_code: error_code) (err_detail: string)

type_synonym 'a result = "error + 'a"
type_synonym status = "unit result"

definition make_error :: "error_code \<Rightarrow> string \<Rightarrow> error" where
  "make_error code detail = Error code detail"

definition format_error :: "error \<Rightarrow> string" where
  "format_error e = to_string_error_code (err_code e) @
     (if err_detail e = [] then [] else '': '' @ err_detail e)"

abbreviation ok_status :: status where
  "ok_status \<equiv> Inr ()"

definition internal_error :: "string \<Rightarrow> error" where
  "internal_error detail = make_error Internal detail"

definition invalid_argument :: "string \<Rightarrow> error" where
  "invalid_argument detail = make_error InvalidArgument detail"

definition not_found :: "string \<Rightarrow> error" where
  "not_found detail = make_error NotFound detail"

definition is_ok :: "'a result \<Rightarrow> bool" where
  "is_ok r = (case r of Inl _ \<Rightarrow> False | Inr _ \<Rightarrow> True)"

lemma is_ok_simps [simp]: "is_ok (Inr x)" "\<not> is_ok (Inl e)"
  by (simp_all add: is_ok_def)

lemma is_ok_iff: "is_ok r \<longleftrightarrow> (\<exists>x. r = Inr x)"
  by (cases r) simp_all

lemma error_code_simps [simp]:
  "err_code (make_error c d) = c" "err_detail (make_error c d) = d"
  "err_code (invalid_argument d) = InvalidArgument" "err_code (internal_error d) = Internal"
  "err_code (not_found d) = NotFound" "err_detail (invalid_argument d) = d"
  by (simp_all add: make_error_def invalid_argument_def internal_error_def not_found_def)

text \<open>A loop that stops at the first failing element.\<close>

fun for_status :: "('a \<Rightarrow> status) \<Rightarrow> 'a list \<Rightarrow> status" where
  "for_status f [] = ok_status"
| "for_status f (x # xs) = (case f x of Inl e \<Rightarrow> Inl e | Inr _ \<Rightarrow> for_status f xs)"

lemma for_status_ok: "for_status f xs = ok_status \<longleftrightarrow> (\<forall>x \<in> set xs. f x = ok_status)"
  by (induction xs) (auto split: sum.splits)

lemma for_status_cong [fundef_cong]:
  "xs = ys \<Longrightarrow> (\<And>x. x \<in> set ys \<Longrightarrow> f x = g x) \<Longrightarrow> for_status f xs = for_status g ys"
  by (induction xs arbitrary: ys) (auto split: sum.splits)

lemma ok_status_iff: "r = ok_status \<longleftrightarrow> is_ok r" for r :: status
  by (cases r) simp_all

end
