(* ===== verification/Identity.thy ===== *)
theory Identity
  imports Ids Results
begin

text \<open>
  Targets, failure domains and controller incarnations
  (\<^verbatim>\<open>include/mf/domain/identity.hpp\<close>, \<^verbatim>\<open>src/domain/identity.cpp\<close>). Target and domain
  identities carry the order of their members (kind first, then index) as instances of
  \<open>linorder\<close>, so that they can key the ordered tables.

  The lemmas show the text forms parse back, that the incarnation fence admits exactly the
  running incarnation and strictly newer epochs of the same controller, and that a record
  written before a restart is always fenced by the restarted process.
\<close>

datatype target_kind = TkUnknown | Link | Port | Switch | Rack | Pod | Site | ControlPlane

fun target_kind_code :: "target_kind \<Rightarrow> nat" where
  "target_kind_code TkUnknown = 0"
| "target_kind_code Link = 1"
| "target_kind_code Port = 2"
| "target_kind_code Switch = 3"
| "target_kind_code Rack = 4"
| "target_kind_code Pod = 5"
| "target_kind_code Site = 6"
| "target_kind_code ControlPlane = 7"

definition kTargetKindNames :: "(target_kind \<times> string) list" where
  "kTargetKindNames =
     [(TkUnknown, ''unknown''), (Link, ''link''), (Port, ''port''), (Switch, ''switch''),
      (Rack, ''rack''), (Pod, ''pod''), (Site, ''site''), (ControlPlane, ''control-plane'')]"

text \<open>The name tables are searched front to back, by value or by name.\<close>

definition name_of :: "('a \<times> string) list \<Rightarrow> 'a \<Rightarrow> string" where
  "name_of tab k = (case find (\<lambda>e. fst e = k) tab of Some e \<Rightarrow> snd e | None \<Rightarrow> ''unknown'')"

definition of_name :: "('a \<times> string) list \<Rightarrow> string \<Rightarrow> 'a option" where
  "of_name tab s = map_option fst (find (\<lambda>e. snd e = s) tab)"

definition to_string_target_kind :: "target_kind \<Rightarrow> string" where
  "to_string_target_kind k = name_of kTargetKindNames k"

definition parse_target_kind :: "string \<Rightarrow> target_kind option" where
  "parse_target_kind s = of_name kTargetKindNames s"

datatype target_id = TargetId (t_kind: target_kind) (t_index: u32)

definition target_valid :: "target_id \<Rightarrow> bool" where
  "target_valid t \<longleftrightarrow> t_kind t \<noteq> TkUnknown"

datatype domain_kind = DkUnknown | DkSite | DkPod | DkRack | Power | Plane | Zone | Custom

fun domain_kind_code :: "domain_kind \<Rightarrow> nat" where
  "domain_kind_code DkUnknown = 0"
| "domain_kind_code DkSite = 1"
| "domain_kind_code DkPod = 2"
| "domain_kind_code DkRack = 3"
| "domain_kind_code Power = 4"
| "domain_kind_code Plane = 5"
| "domain_kind_code Zone = 6"
| "domain_kind_code Custom = 7"

definition kDomainKindNames :: "(domain_kind \<times> string) list" where
  "kDomainKindNames =
     [(DkUnknown, ''unknown''), (DkSite, ''site''), (DkPod, ''pod''), (DkRack, ''rack''),
      (Power, ''power''), (Plane, ''plane''), (Zone, ''zone''), (Custom, ''custom'')]"

definition to_string_domain_kind :: "domain_kind \<Rightarrow> string" where
  "to_string_domain_kind k = name_of kDomainKindNames k"

definition parse_domain_kind :: "string \<Rightarrow> domain_kind option" where
  "parse_domain_kind s = of_name kDomainKindNames s"

datatype domain_id = DomainId (d_kind: domain_kind) (d_index: u32)

definition domain_valid :: "domain_id \<Rightarrow> bool" where
  "domain_valid d \<longleftrightarrow> d_kind d \<noteq> DkUnknown"

lemma target_kind_code_inj: "target_kind_code a = target_kind_code b \<longleftrightarrow> a = b"
  by (cases a; cases b) simp_all

lemma domain_kind_code_inj: "domain_kind_code a = domain_kind_code b \<longleftrightarrow> a = b"
  by (cases a; cases b) simp_all

definition target_key :: "target_id \<Rightarrow> nat \<times> u32" where
  "target_key t = (target_kind_code (t_kind t), t_index t)"

definition domain_key :: "domain_id \<Rightarrow> nat \<times> u32" where
  "domain_key d = (domain_kind_code (d_kind d), d_index d)"

lemma target_key_inj: "target_key a = target_key b \<longleftrightarrow> a = b"
  by (cases a; cases b) (simp add: target_key_def target_kind_code_inj)

lemma domain_key_inj: "domain_key a = domain_key b \<longleftrightarrow> a = b"
  by (cases a; cases b) (simp add: domain_key_def domain_kind_code_inj)

instantiation target_id :: linorder
begin
definition less_eq_target_id :: "target_id \<Rightarrow> target_id \<Rightarrow> bool" where
  "less_eq_target_id a b \<longleftrightarrow> target_key a \<le> target_key b"
definition less_target_id :: "target_id \<Rightarrow> target_id \<Rightarrow> bool" where
  "less_target_id a b \<longleftrightarrow> target_key a < target_key b"
instance
  by standard (auto simp: less_eq_target_id_def less_target_id_def target_key_inj [symmetric]
      less_le_not_le intro: order_trans)
end

instantiation domain_id :: linorder
begin
definition less_eq_domain_id :: "domain_id \<Rightarrow> domain_id \<Rightarrow> bool" where
  "less_eq_domain_id a b \<longleftrightarrow> domain_key a \<le> domain_key b"
definition less_domain_id :: "domain_id \<Rightarrow> domain_id \<Rightarrow> bool" where
  "less_domain_id a b \<longleftrightarrow> domain_key a < domain_key b"
instance
  by standard (auto simp: less_eq_domain_id_def less_domain_id_def domain_key_inj [symmetric]
      less_le_not_le intro: order_trans)
end

lemmas id_order_defs = less_eq_target_id_def less_target_id_def target_key_def
  less_eq_domain_id_def less_domain_id_def domain_key_def

definition dg_target :: "target_id \<Rightarrow> u64 \<Rightarrow> u64" where
  "dg_target t h = dg_u32 (t_index t) (dg_u32 (of_nat (target_kind_code (t_kind t))) h)"

definition dg_domain :: "domain_id \<Rightarrow> u64 \<Rightarrow> u64" where
  "dg_domain d h = dg_u32 (d_index d) (dg_u32 (of_nat (domain_kind_code (d_kind d))) h)"

section \<open>Text forms\<close>

definition split_prefixed_index :: "string \<Rightarrow> (string \<times> u32) option" where
  "split_prefixed_index s =
     (let prefix = takeWhile (\<lambda>c. c \<noteq> CHR '':'') s;
          rest = tl (dropWhile (\<lambda>c. c \<noteq> CHR '':'') s)
      in if CHR '':'' \<notin> set s \<or> prefix = [] \<or> rest = [] then None
         else case parse_u32 rest of None \<Rightarrow> None | Some index \<Rightarrow> Some (prefix, index))"

definition to_string_target :: "target_id \<Rightarrow> string" where
  "to_string_target t = to_string_target_kind (t_kind t) @ CHR '':'' # dec_word (t_index t)"

definition parse_target_id :: "string \<Rightarrow> target_id option" where
  "parse_target_id s =
     (case split_prefixed_index s of
        None \<Rightarrow> None
      | Some (prefix, index) \<Rightarrow>
          (case parse_target_kind prefix of
             None \<Rightarrow> None
           | Some kind \<Rightarrow> if kind = TkUnknown then None else Some (TargetId kind index)))"

definition to_string_domain :: "domain_id \<Rightarrow> string" where
  "to_string_domain d = to_string_domain_kind (d_kind d) @ CHR '':'' # dec_word (d_index d)"

definition parse_domain_id :: "string \<Rightarrow> domain_id option" where
  "parse_domain_id s =
     (case split_prefixed_index s of
        None \<Rightarrow> None
      | Some (prefix, index) \<Rightarrow>
          (case parse_domain_kind prefix of
             None \<Rightarrow> None
           | Some kind \<Rightarrow> if kind = DkUnknown then None else Some (DomainId kind index)))"

section \<open>Controller incarnations\<close>

record incarnation =
  ci_controller :: controller_id
  ci_epoch :: boot_epoch
  ci_nonce :: u64

definition no_incarnation :: incarnation where
  "no_incarnation = \<lparr>ci_controller = 0, ci_epoch = 0, ci_nonce = 0\<rparr>"

definition incarnation_valid :: "incarnation \<Rightarrow> bool" where
  "incarnation_valid i \<longleftrightarrow> id_valid (ci_controller i) \<and> id_valid (ci_epoch i) \<and> ci_nonce i \<noteq> 0"

definition to_string_incarnation :: "incarnation \<Rightarrow> string" where
  "to_string_incarnation i =
     to_string_controller (ci_controller i) @ CHR ''/'' # to_string_boot_epoch (ci_epoch i) @
     CHR ''/'' # dec_word (ci_nonce i)"

definition is_fenced_by :: "incarnation \<Rightarrow> incarnation \<Rightarrow> bool" where
  "is_fenced_by recorded current =
     (if ci_controller recorded \<noteq> ci_controller current then True
      else if ci_epoch recorded \<noteq> ci_epoch current then ci_epoch recorded < ci_epoch current
      else ci_nonce recorded \<noteq> ci_nonce current)"

function parse_incarnation_loop :: "nat \<Rightarrow> string \<Rightarrow> incarnation \<Rightarrow> (nat \<times> incarnation) option" where
  "parse_incarnation_loop part s i =
     (let piece = takeWhile (\<lambda>c. c \<noteq> CHR ''/'') s;
          step = (if part = 0 then map_option (\<lambda>v. i\<lparr>ci_controller := v\<rparr>) (parse_id ''ctl'' piece)
                  else if part = 1 then map_option (\<lambda>v. i\<lparr>ci_epoch := v\<rparr>) (parse_id ''boot'' piece)
                  else if part = 2 then map_option (\<lambda>v. i\<lparr>ci_nonce := v\<rparr>) (parse_u64 piece)
                  else None)
      in case step of
           None \<Rightarrow> None
         | Some i' \<Rightarrow>
             if CHR ''/'' \<in> set s
             then parse_incarnation_loop (Suc part) (tl (dropWhile (\<lambda>c. c \<noteq> CHR ''/'') s)) i'
             else Some (Suc part, i'))"
  by pat_completeness auto
termination
  by (relation "measure (\<lambda>(part, s, i). length s)") (auto simp del: length_tl intro: tl_dropWhile_shorter)

declare parse_incarnation_loop.simps [simp del]

definition parse_controller_incarnation :: "string \<Rightarrow> incarnation option" where
  "parse_controller_incarnation s =
     (case parse_incarnation_loop 0 s no_incarnation of
        None \<Rightarrow> None
      | Some (part, i) \<Rightarrow> if part \<noteq> 3 \<or> \<not> incarnation_valid i then None else Some i)"

section \<open>Round trips and the fence\<close>

lemma target_kind_names [simp]:
  "parse_target_kind (to_string_target_kind k) = Some k"
  "CHR '':'' \<notin> set (to_string_target_kind k)" "to_string_target_kind k \<noteq> []"
  by (cases k; simp add: parse_target_kind_def to_string_target_kind_def kTargetKindNames_def
        name_of_def of_name_def)+

lemma domain_kind_names [simp]:
  "parse_domain_kind (to_string_domain_kind d) = Some d"
  "CHR '':'' \<notin> set (to_string_domain_kind d)" "to_string_domain_kind d \<noteq> []"
  by (cases d; simp add: parse_domain_kind_def to_string_domain_kind_def kDomainKindNames_def
        name_of_def of_name_def)+

lemma split_prefixed [simp]:
  "CHR '':'' \<notin> set p \<Longrightarrow> p \<noteq> [] \<Longrightarrow>
   split_prefixed_index (p @ CHR '':'' # dec_word (v :: u32)) = Some (p, v)"
  by (simp add: split_prefixed_index_def takeWhile_sep dropWhile_sep)

lemma parse_to_string_target:
  "parse_target_id (to_string_target t) = (if target_valid t then Some t else None)"
  by (cases t) (simp add: parse_target_id_def to_string_target_def target_valid_def)

lemma parse_to_string_domain:
  "parse_domain_id (to_string_domain d) = (if domain_valid d then Some d else None)"
  by (cases d) (simp add: parse_domain_id_def to_string_domain_def domain_valid_def)

lemma parse_to_string_incarnation:
  "parse_controller_incarnation (to_string_incarnation i) = (if incarnation_valid i then Some i else None)"
proof -
  have nosl: "CHR ''/'' \<notin> set (to_string_controller u)" "CHR ''/'' \<notin> set (to_string_boot_epoch u)" for u
    by (simp_all add: to_string_id_no_slash)
  have p: "parse_id ''ctl'' (to_string_controller u) = Some u"
    "parse_id ''boot'' (to_string_boot_epoch u) = Some u" for u
    by (simp_all add: parse_to_string_id)
  show ?thesis
    by (cases i) (simp add: parse_controller_incarnation_def to_string_incarnation_def
        parse_incarnation_loop.simps nosl p takeWhile_sep dropWhile_sep takeWhile_no_sep no_incarnation_def)
qed

lemma is_fenced_by_refl [simp]: "\<not> is_fenced_by i i"
  by (simp add: is_fenced_by_def)

lemma not_fenced_iff:
  "\<not> is_fenced_by r c \<longleftrightarrow>
     ci_controller r = ci_controller c \<and> (ci_epoch c < ci_epoch r \<or> r = c)"
  by (cases r; cases c) (auto simp: is_fenced_by_def)

lemma fenced_by_restart:
  "ci_epoch recorded < ci_epoch current \<Longrightarrow> is_fenced_by recorded current"
  by (auto simp: is_fenced_by_def)

end
