(* ===== verification/Limits.thy ===== *)
theory Limits
  imports Results
begin

text \<open>
  The bounds of \<^verbatim>\<open>include/mf/core/limits.hpp\<close> that the modelled components enforce. Sizes are
  \<open>nat\<close>, durations are nanoseconds. The collection \<open>limits\<close> unfolds them.
\<close>

named_theorems limits \<open>values of the resource bounds\<close>

definition kMaxNameLength :: nat where
  [limits]: "kMaxNameLength = 96"

definition kMaxTitleLength :: nat where
  [limits]: "kMaxTitleLength = 160"

definition kMaxReasonLength :: nat where
  [limits]: "kMaxReasonLength = 512"

definition kMaxTargetsPerJob :: nat where
  [limits]: "kMaxTargetsPerJob = 4096"

definition kMaxDependenciesPerJob :: nat where
  [limits]: "kMaxDependenciesPerJob = 64"

definition kMaxJobHistoryEntries :: nat where
  [limits]: "kMaxJobHistoryEntries = 1024"

definition kMaxJobsTotal :: nat where
  [limits]: "kMaxJobsTotal = 65536"

definition kMaxJobsPerArbitration :: nat where
  [limits]: "kMaxJobsPerArbitration = 8192"

definition kMaxTargetsPerTopology :: nat where
  [limits]: "kMaxTargetsPerTopology = 65536"

definition kMaxDomainsPerTopology :: nat where
  [limits]: "kMaxDomainsPerTopology = 16384"

definition kMaxDomainsPerTarget :: nat where
  [limits]: "kMaxDomainsPerTarget = 64"

definition kMaxPoolsPerTopology :: nat where
  [limits]: "kMaxPoolsPerTopology = 4096"

definition kMaxMembersPerPool :: nat where
  [limits]: "kMaxMembersPerPool = 8192"

definition kMaxTopologyChainDepth :: nat where
  [limits]: "kMaxTopologyChainDepth = 32"

definition kMaxRedundancyRules :: nat where
  [limits]: "kMaxRedundancyRules = 4096"

definition kMaxDomainLimitRules :: nat where
  [limits]: "kMaxDomainLimitRules = 4096"

definition kMaxContracts :: nat where
  [limits]: "kMaxContracts = 4096"

definition kMaxWindowRules :: nat where
  [limits]: "kMaxWindowRules = 1024"

definition kMaxPriorityTiers :: nat where
  [limits]: "kMaxPriorityTiers = 16"

definition kMaxWindowTargets :: nat where
  [limits]: "kMaxWindowTargets = 4096"

definition kMaxEvidenceRecords :: nat where
  [limits]: "kMaxEvidenceRecords = 16384"

definition kMaxEvidenceSourcesPerKey :: nat where
  [limits]: "kMaxEvidenceSourcesPerKey = 16"

definition kMaxDrainTargetsPerRequest :: nat where
  [limits]: "kMaxDrainTargetsPerRequest = 512"

definition kMaxLiveReservations :: nat where
  [limits]: "kMaxLiveReservations = 4096"

definition kMaxAttemptsPerJob :: u32 where
  [limits]: "kMaxAttemptsPerJob = 64"

definition kMaxEvidenceTtlNanos :: nanos where
  [limits]: "kMaxEvidenceTtlNanos = 86400000000000"

definition kMinEvidenceTtlNanos :: nanos where
  [limits]: "kMinEvidenceTtlNanos = 1000000000"

definition kDefaultEvidenceTtlNanos :: nanos where
  [limits]: "kDefaultEvidenceTtlNanos = 30000000000"

definition kMaxClockSkewNanos :: nanos where
  [limits]: "kMaxClockSkewNanos = 5000000000"

definition kMaxPreconditionAgeNanos :: nanos where
  [limits]: "kMaxPreconditionAgeNanos = 60000000000"

definition kMinDrainLeaseNanos :: nanos where
  [limits]: "kMinDrainLeaseNanos = 1000000000"

definition kMaxDrainLeaseNanos :: nanos where
  [limits]: "kMaxDrainLeaseNanos = 3600000000000"

definition kDefaultDrainLeaseNanos :: nanos where
  [limits]: "kDefaultDrainLeaseNanos = 600000000000"

definition kMaxDrainLeaseSlackNanos :: nanos where
  [limits]: "kMaxDrainLeaseSlackNanos = 5000000000"

definition kDefaultAuthorityLeaseNanos :: nanos where
  [limits]: "kDefaultAuthorityLeaseNanos = 900000000000"

definition kMaxAuthorityLeaseNanos :: nanos where
  [limits]: "kMaxAuthorityLeaseNanos = 7200000000000"

end
