(* ===== verification/Topology.thy ===== *)
theory Topology
  imports Identity Limits
begin

text \<open>
  The declared topology (\<^verbatim>\<open>include/mf/domain/target.hpp\<close>, \<^verbatim>\<open>include/mf/domain/topology.hpp\<close>,
  \<^verbatim>\<open>src/domain/target.cpp\<close>, \<^verbatim>\<open>src/domain/topology.cpp\<close>): targets with their containment
  tree, failure domains and redundancy pools, and the three reverse indexes the class maintains
  beside its tables.

  The invariant \<open>topo_wf\<close> says that the indexes are exactly the inverses of the records; every
  mutator keeps it. For a topology that \<open>validate\<close> accepts, the bounded stack walk of
  \<open>subtree\<close> returns exactly the target and its descendants, so \<open>removal_set\<close> is exactly
  what a maintenance request takes out of service.
\<close>

section \<open>Target records\<close>

datatype health = HealthUnknown | Healthy | Degraded | Down | Retired

definition kHealthNames :: "(health \<times> string) list" where
  "kHealthNames = [(HealthUnknown, ''unknown''), (Healthy, ''healthy''), (Degraded, ''degraded''),
     (Down, ''down''), (Retired, ''retired'')]"

definition to_string_health :: "health \<Rightarrow> string" where
  "to_string_health h = name_of kHealthNames h"

definition parse_health :: "string \<Rightarrow> health option" where
  "parse_health s = of_name kHealthNames s"

definition is_serving :: "health \<Rightarrow> bool" where
  "is_serving h \<longleftrightarrow> h = Healthy \<or> h = Degraded"

definition is_degraded :: "health \<Rightarrow> bool" where
  "is_degraded h \<longleftrightarrow> h = Degraded"

record target_record =
  tr_id :: target_id
  tr_name :: string
  tr_parent :: "target_id option"
  tr_domains :: "domain_id list"
  tr_capacity_units :: u32
  tr_maintainable :: bool

definition in_domain :: "target_record \<Rightarrow> domain_id \<Rightarrow> bool" where
  "in_domain r d \<longleftrightarrow> d \<in> set (tr_domains r)"

definition validate_target_record :: "target_record \<Rightarrow> status" where
  "validate_target_record r =
     (if \<not> target_valid (tr_id r) then Inl (invalid_argument ''target id is not valid'')
      else if length (tr_name r) > kMaxNameLength then
        Inl (make_error LimitExceeded ''target name exceeds maximum length'')
      else if length (tr_domains r) > kMaxDomainsPerTarget then
        Inl (make_error LimitExceeded ''target belongs to too many failure domains'')
      else if tr_capacity_units r = 0 then
        Inl (invalid_argument ''target capacity_units must be greater than zero'')
      else if adjacent_dup (sort (tr_domains r)) then
        Inl (invalid_argument ''target lists the same failure domain twice'')
      else ok_status)"

section \<open>The topology\<close>

record domain_record =
  dr_id :: domain_id
  dr_name :: string
  dr_correlated :: bool

record pool_record =
  pr_id :: pool_id
  pr_name :: string
  pr_members :: "target_id list"

record topology =
  tp_targets :: "(target_id, target_record) omap"
  tp_domains :: "(domain_id, domain_record) omap"
  tp_pools :: "(pool_id, pool_record) omap"
  tp_domain_members :: "(domain_id, target_id list) omap"
  tp_target_pools :: "(target_id, pool_id list) omap"
  tp_children :: "(target_id, target_id list) omap"
  tp_revision :: revision

definition empty_topology :: topology where
  "empty_topology = \<lparr>tp_targets = [], tp_domains = [], tp_pools = [], tp_domain_members = [],
     tp_target_pools = [], tp_children = [], tp_revision = 0\<rparr>"

definition touch :: "topology \<Rightarrow> topology" where
  "touch t = t\<lparr>tp_revision := next_id (tp_revision t)\<rparr>"

definition index_at :: "('k, 'a list) omap \<Rightarrow> 'k \<Rightarrow> 'a list" where
  "index_at m k = (case om_find m k of Some xs \<Rightarrow> xs | None \<Rightarrow> [])"

text \<open>\<^verbatim>\<open>map[key]\<close> creates an empty vector when the key is absent, then the vector is edited.\<close>

definition index_drop :: "'a \<Rightarrow> 'k::linorder \<Rightarrow> ('k, 'a list) omap \<Rightarrow> ('k, 'a list) omap" where
  "index_drop x k m = om_set k (filter (\<lambda>y. y \<noteq> x) (index_at m k)) m"

definition index_insert :: "'a::linorder \<Rightarrow> 'k::linorder \<Rightarrow> ('k, 'a list) omap \<Rightarrow> ('k, 'a list) omap" where
  "index_insert x k m =
     om_set k (if x \<in> set (index_at m k) then index_at m k else sort (index_at m k @ [x])) m"

definition target :: "topology \<Rightarrow> target_id \<Rightarrow> target_record option" where
  "target t i = om_find (tp_targets t) i"

definition domain :: "topology \<Rightarrow> domain_id \<Rightarrow> domain_record option" where
  "domain t i = om_find (tp_domains t) i"

definition pool :: "topology \<Rightarrow> pool_id \<Rightarrow> pool_record option" where
  "pool t i = om_find (tp_pools t) i"

definition contains :: "topology \<Rightarrow> target_id \<Rightarrow> bool" where
  "contains t i \<longleftrightarrow> target t i \<noteq> None"

definition domain_members :: "topology \<Rightarrow> domain_id \<Rightarrow> target_id list" where
  "domain_members t d = index_at (tp_domain_members t) d"

definition pools_containing :: "topology \<Rightarrow> target_id \<Rightarrow> pool_id list" where
  "pools_containing t i = index_at (tp_target_pools t) i"

definition children :: "topology \<Rightarrow> target_id \<Rightarrow> target_id list" where
  "children t i = index_at (tp_children t) i"

definition add_domain :: "domain_record \<Rightarrow> topology \<Rightarrow> topology result" where
  "add_domain r t =
     (if \<not> domain_valid (dr_id r) then Inl (invalid_argument ''domain id is not valid'')
      else if length (dr_name r) > kMaxNameLength then
        Inl (make_error LimitExceeded ''domain name exceeds maximum length'')
      else if length (tp_domains t) \<ge> kMaxDomainsPerTopology \<and> domain t (dr_id r) = None then
        Inl (make_error LimitExceeded ''topology reached the maximum number of domains'')
      else Inr (touch (t\<lparr>tp_domains := om_set (dr_id r) r (tp_domains t)\<rparr>)))"

text \<open>The body of \<open>add_target\<close> after its guards: unlink the old record, then link the new one.\<close>

definition unlink_target :: "target_id \<Rightarrow> target_record option \<Rightarrow> topology \<Rightarrow> topology" where
  "unlink_target i existing t =
     (case existing of
        None \<Rightarrow> t
      | Some old \<Rightarrow>
          t\<lparr>tp_domain_members := fold (index_drop i) (tr_domains old) (tp_domain_members t),
            tp_children := (case tr_parent old of None \<Rightarrow> tp_children t
                            | Some p \<Rightarrow> index_drop i p (tp_children t))\<rparr>)"

definition link_target :: "target_record \<Rightarrow> topology \<Rightarrow> topology" where
  "link_target r t =
     t\<lparr>tp_targets := om_set (tr_id r) r (tp_targets t),
       tp_domain_members := fold (index_insert (tr_id r)) (tr_domains r) (tp_domain_members t),
       tp_children := (case tr_parent r of None \<Rightarrow> tp_children t
                       | Some p \<Rightarrow> index_insert (tr_id r) p (tp_children t))\<rparr>"

definition check_parent :: "topology \<Rightarrow> target_record \<Rightarrow> status" where
  "check_parent t r =
     (case tr_parent r of
        None \<Rightarrow> ok_status
      | Some p \<Rightarrow>
          if p = tr_id r then Inl (invalid_argument ''target cannot be its own parent'')
          else if target t p = None then
            Inl (make_error NotFound
              (''parent target '' @ to_string_target p @ '' must exist before its child''))
          else ok_status)"

definition check_member_domain :: "topology \<Rightarrow> domain_id \<Rightarrow> status" where
  "check_member_domain t d =
     (if \<not> domain_valid d then
        Inl (invalid_argument ''target references an invalid failure domain'')
      else if domain t d = None then
        Inl (make_error NotFound (''failure domain '' @ to_string_domain d @
          '' must be declared before the targets that belong to it''))
      else ok_status)"

definition add_target :: "target_record \<Rightarrow> topology \<Rightarrow> topology result" where
  "add_target r t =
     (case validate_target_record r of
        Inl e \<Rightarrow> Inl e
      | Inr _ \<Rightarrow>
          if length (tp_targets t) \<ge> kMaxTargetsPerTopology \<and> target t (tr_id r) = None then
            Inl (make_error LimitExceeded ''topology reached the maximum number of targets'')
          else (case check_parent t r of
            Inl e \<Rightarrow> Inl e
          | Inr _ \<Rightarrow>
              (case for_status (check_member_domain t) (tr_domains r) of
                 Inl e \<Rightarrow> Inl e
               | Inr _ \<Rightarrow>
                   Inr (touch (link_target r (unlink_target (tr_id r) (target t (tr_id r)) t))))))"

definition check_pool_member :: "topology \<Rightarrow> target_id \<Rightarrow> status" where
  "check_pool_member t m =
     (if target t m = None then
        Inl (make_error NotFound (''pool member '' @ to_string_target m @ '' is not a declared target''))
      else ok_status)"

definition add_pool :: "pool_record \<Rightarrow> topology \<Rightarrow> topology result" where
  "add_pool r t =
     (if \<not> id_valid (pr_id r) then Inl (invalid_argument ''pool id is not valid'')
      else if length (pr_name r) > kMaxNameLength then
        Inl (make_error LimitExceeded ''pool name exceeds maximum length'')
      else if length (pr_members r) > kMaxMembersPerPool then
        Inl (make_error LimitExceeded ''pool exceeds the maximum member count'')
      else if length (tp_pools t) \<ge> kMaxPoolsPerTopology \<and> pool t (pr_id r) = None then
        Inl (make_error LimitExceeded ''topology reached the maximum number of pools'')
      else if pr_members r = [] then Inl (invalid_argument ''pool must have at least one member'')
      else (case for_status (check_pool_member t) (pr_members r) of
        Inl e \<Rightarrow> Inl e
      | Inr _ \<Rightarrow>
          if adjacent_dup (sort (pr_members r)) then
            Inl (invalid_argument ''pool lists the same member twice'')
          else
            let dropped = (case pool t (pr_id r) of
                  None \<Rightarrow> tp_target_pools t
                | Some old \<Rightarrow> fold (index_drop (pr_id r)) (pr_members old) (tp_target_pools t))
            in Inr (touch (t\<lparr>
                 tp_pools := om_set (pr_id r) r (tp_pools t),
                 tp_target_pools := fold (index_insert (pr_id r)) (pr_members r) dropped\<rparr>))))"

text \<open>\<open>ancestors\<close> walks at most \<open>kMaxTopologyChainDepth\<close> parents.\<close>

fun ancestors_loop :: "topology \<Rightarrow> nat \<Rightarrow> target_record option \<Rightarrow> target_id list" where
  "ancestors_loop t 0 r = []"
| "ancestors_loop t (Suc depth) r =
     (case r of
        None \<Rightarrow> []
      | Some rec \<Rightarrow>
          (case tr_parent rec of
             None \<Rightarrow> []
           | Some p \<Rightarrow> p # ancestors_loop t depth (target t p)))"

definition ancestors :: "topology \<Rightarrow> target_id \<Rightarrow> target_id list" where
  "ancestors t i = ancestors_loop t kMaxTopologyChainDepth (target t i)"

text \<open>
  The stack of \<open>subtree\<close> is a list whose head is the back of the vector: pushing the children
  in reverse puts the first child on top.
\<close>

function subtree_loop :: "topology \<Rightarrow> nat \<Rightarrow> target_id list \<Rightarrow> target_id list \<Rightarrow> target_id list" where
  "subtree_loop t guard stack out =
     (case stack of
        [] \<Rightarrow> out
      | current # rest \<Rightarrow>
          if Suc guard > kMaxTargetsPerTopology then out @ [current]
          else subtree_loop t (Suc guard) (children t current @ rest) (out @ [current]))"
  by pat_completeness auto
termination
  by (relation "measure (\<lambda>(t, guard, stack, out). kMaxTargetsPerTopology - guard)") auto

declare subtree_loop.simps [simp del]

definition subtree :: "topology \<Rightarrow> target_id \<Rightarrow> target_id list" where
  "subtree t i = (if target t i = None then [] else sort_unique (subtree_loop t 0 [i] []))"

definition removal_set :: "topology \<Rightarrow> target_id list \<Rightarrow> target_id list" where
  "removal_set t requested =
     sort (fold (\<lambda>i out. fold (\<lambda>m out. push_unique out m) (subtree t i) out) requested [])"

definition domains_of :: "topology \<Rightarrow> target_id list \<Rightarrow> domain_id list" where
  "domains_of t targets =
     sort (fold (\<lambda>i out. case target t i of
                   None \<Rightarrow> out
                 | Some r \<Rightarrow> fold (\<lambda>d out. push_unique out d) (tr_domains r) out) targets [])"

definition pools_of :: "topology \<Rightarrow> target_id list \<Rightarrow> pool_id list" where
  "pools_of t targets =
     sort (fold (\<lambda>i out. fold (\<lambda>p out. push_unique out p) (pools_containing t i) out) targets [])"

text \<open>The ancestor walk of \<open>validate\<close>; \<open>seen\<close> is the set of the targets it has left.\<close>

function chain_walk :: "topology \<Rightarrow> target_id \<Rightarrow> target_record \<Rightarrow> target_id list \<Rightarrow> status" where
  "chain_walk t i cursor seen =
     (case tr_parent cursor of
        None \<Rightarrow> ok_status
      | Some p \<Rightarrow>
          if tr_id cursor \<in> set seen then
            Inl (make_error CorruptState
              (''target '' @ to_string_target i @ '' is part of a containment cycle''))
          else (case target t p of
            None \<Rightarrow> Inl (make_error CorruptState
              (''target '' @ to_string_target i @ '' has a dangling parent chain''))
          | Some up \<Rightarrow> chain_walk t i up (tr_id cursor # seen)))"
  by pat_completeness auto
termination
proof (relation "measure (\<lambda>(t, i, cursor, seen).
    card (insert (tr_id cursor) (tr_id ` snd ` set (tp_targets t)) - set seen))", goal_cases)
  case (2 t i cursor seen p up)
  let ?ids = "tr_id ` snd ` set (tp_targets t)"
  have "tr_id up \<in> ?ids"
    using 2 by (auto simp: target_def dest!: om_value_in)
  then have "insert (tr_id up) ?ids - set (tr_id cursor # seen)
      \<subset> insert (tr_id cursor) ?ids - set seen"
    using 2 by (auto simp: insert_absorb)
  then show ?case by (auto intro!: psubset_card_mono)
qed simp

declare chain_walk.simps [simp del]

definition validate_target_entry :: "topology \<Rightarrow> target_id \<times> target_record \<Rightarrow> status" where
  "validate_target_entry t = (\<lambda>(i, r).
     case validate_target_record r of
       Inl e \<Rightarrow> Inl e
     | Inr _ \<Rightarrow>
         if (case tr_parent r of None \<Rightarrow> False | Some p \<Rightarrow> p = i \<or> target t p = None) then
           Inl (make_error CorruptState (''target '' @ to_string_target i @ '' has an unresolved parent''))
         else (case for_status (\<lambda>d. if domain t d = None then
                   Inl (make_error CorruptState (''target '' @ to_string_target i @
                     '' references undeclared domain '' @ to_string_domain d))
                 else ok_status) (tr_domains r) of
             Inl e \<Rightarrow> Inl e
           | Inr _ \<Rightarrow> chain_walk t i r []))"

definition validate_pool_entry :: "topology \<Rightarrow> pool_id \<times> pool_record \<Rightarrow> status" where
  "validate_pool_entry t = (\<lambda>(i, r).
     if pr_members r = [] then
       Inl (make_error CorruptState (''pool '' @ to_string_pool i @ '' has no members''))
     else for_status (\<lambda>m. if target t m = None then
              Inl (make_error CorruptState (''pool '' @ to_string_pool i @
                '' references undeclared target '' @ to_string_target m))
            else ok_status) (pr_members r))"

definition validate_topology :: "topology \<Rightarrow> status" where
  "validate_topology t =
     (if length (tp_targets t) > kMaxTargetsPerTopology then
        Inl (make_error LimitExceeded ''too many targets'')
      else if length (tp_domains t) > kMaxDomainsPerTopology then
        Inl (make_error LimitExceeded ''too many failure domains'')
      else if length (tp_pools t) > kMaxPoolsPerTopology then
        Inl (make_error LimitExceeded ''too many pools'')
      else (case for_status (validate_target_entry t) (tp_targets t) of
        Inl e \<Rightarrow> Inl e
      | Inr _ \<Rightarrow> for_status (validate_pool_entry t) (tp_pools t)))"

definition dg_target_entry :: "target_id \<times> target_record \<Rightarrow> u64 \<Rightarrow> u64" where
  "dg_target_entry e h =
     (let r = snd e;
          h = dg_str (tr_name r) (dg_target (fst e) (dg_str ''T'' h));
          h = dg_bool (tr_parent r \<noteq> None) h;
          h = (case tr_parent r of None \<Rightarrow> h | Some p \<Rightarrow> dg_target p h);
          h = dg_each dg_domain (tr_domains r) (dg_len (tr_domains r) h)
      in dg_bool (tr_maintainable r) (dg_u32 (tr_capacity_units r) h))"

definition dg_domain_entry :: "domain_id \<times> domain_record \<Rightarrow> u64 \<Rightarrow> u64" where
  "dg_domain_entry e h =
     dg_bool (dr_correlated (snd e)) (dg_str (dr_name (snd e)) (dg_domain (fst e) (dg_str ''D'' h)))"

definition dg_pool_entry :: "pool_id \<times> pool_record \<Rightarrow> u64 \<Rightarrow> u64" where
  "dg_pool_entry e h =
     dg_each dg_target (pr_members (snd e)) (dg_len (pr_members (snd e))
       (dg_str (pr_name (snd e)) (dg_u64 (fst e) (dg_str ''P'' h))))"

definition topology_digest :: "topology \<Rightarrow> u64" where
  "topology_digest t =
     (let h = dg_str ''mf.topology.v1'' dg_init;
          h = dg_each dg_target_entry (tp_targets t) (dg_len (tp_targets t) h);
          h = dg_each dg_domain_entry (tp_domains t) (dg_len (tp_domains t) h)
      in dg_each dg_pool_entry (tp_pools t) (dg_len (tp_pools t) h))"


section \<open>The invariant and its preservation\<close>

definition ascending :: "'a::linorder list \<Rightarrow> bool" where
  "ascending xs \<longleftrightarrow> sorted xs \<and> distinct xs"

definition target_entry_ok :: "topology \<Rightarrow> target_id \<Rightarrow> target_record \<Rightarrow> bool" where
  "target_entry_ok t i r \<longleftrightarrow> tr_id r = i \<and> validate_target_record r = ok_status \<and>
     check_parent t r = ok_status \<and> (\<forall>d \<in> set (tr_domains r). domain t d \<noteq> None)"

definition pool_entry_ok :: "topology \<Rightarrow> pool_id \<Rightarrow> pool_record \<Rightarrow> bool" where
  "pool_entry_ok t i r \<longleftrightarrow> pr_id r = i \<and> pr_members r \<noteq> [] \<and> distinct (pr_members r) \<and>
     (\<forall>m \<in> set (pr_members r). target t m \<noteq> None)"

definition tables_ok :: "topology \<Rightarrow> bool" where
  "tables_ok t \<longleftrightarrow> om_ok (tp_targets t) \<and> om_ok (tp_domains t) \<and> om_ok (tp_pools t) \<and>
     om_ok (tp_domain_members t) \<and> om_ok (tp_target_pools t) \<and> om_ok (tp_children t)"

definition entries_ok :: "topology \<Rightarrow> bool" where
  "entries_ok t \<longleftrightarrow> (\<forall>i r. target t i = Some r \<longrightarrow> target_entry_ok t i r) \<and>
     (\<forall>i r. pool t i = Some r \<longrightarrow> pool_entry_ok t i r)"

definition indexes_ok :: "topology \<Rightarrow> bool" where
  "indexes_ok t \<longleftrightarrow>
     (\<forall>d. ascending (domain_members t d) \<and>
        set (domain_members t d) = {i. \<exists>r. target t i = Some r \<and> d \<in> set (tr_domains r)}) \<and>
     (\<forall>p. ascending (children t p) \<and>
        set (children t p) = {i. \<exists>r. target t i = Some r \<and> tr_parent r = Some p}) \<and>
     (\<forall>i. ascending (pools_containing t i) \<and>
        set (pools_containing t i) = {p. \<exists>r. pool t p = Some r \<and> i \<in> set (pr_members r)})"

definition within_limits :: "topology \<Rightarrow> bool" where
  "within_limits t \<longleftrightarrow> length (tp_targets t) \<le> kMaxTargetsPerTopology \<and>
     length (tp_domains t) \<le> kMaxDomainsPerTopology \<and> length (tp_pools t) \<le> kMaxPoolsPerTopology"

definition topo_wf :: "topology \<Rightarrow> bool" where
  "topo_wf t \<longleftrightarrow> tables_ok t \<and> entries_ok t \<and> indexes_ok t \<and> within_limits t"

lemmas topo_wf_defs = topo_wf_def tables_ok_def entries_ok_def indexes_ok_def within_limits_def

lemmas lookup_defs = target_def domain_def pool_def domain_members_def pools_containing_def children_def

lemma ascending_Nil [simp]: "ascending []"
  by (simp add: ascending_def)

lemma index_at_drop:
  "index_at (index_drop x k m) k' = (if k' = k then filter (\<lambda>y. y \<noteq> x) (index_at m k) else index_at m k')"
  by (simp add: index_at_def index_drop_def table_simps)

lemma index_at_insert:
  "index_at (index_insert x k m) k' =
     (if k' = k then (if x \<in> set (index_at m k) then index_at m k else sort (index_at m k @ [x]))
      else index_at m k')"
  by (simp add: index_at_def index_insert_def table_simps)

lemma index_drop_all:
  "set (index_at (fold (index_drop x) ks m) k) = set (index_at m k) - (if k \<in> set ks then {x} else {})"
  "(\<forall>k. ascending (index_at m k)) \<Longrightarrow> ascending (index_at (fold (index_drop x) ks m) k)"
  by (induction ks arbitrary: m) (auto simp: index_at_drop ascending_def sorted_wrt_filter)

lemma index_insert_all:
  "set (index_at (fold (index_insert x) ks m) k) = set (index_at m k) \<union> (if k \<in> set ks then {x} else {})"
  "(\<forall>k. ascending (index_at m k)) \<Longrightarrow> ascending (index_at (fold (index_insert x) ks m) k)"
  by (induction ks arbitrary: m) (auto simp: index_at_insert ascending_def)

lemma om_ok_index [table_inv]:
  "om_ok m \<Longrightarrow> om_ok (index_drop x k m)" "om_ok m \<Longrightarrow> om_ok (index_insert y k m)"
  by (simp_all add: index_drop_def index_insert_def table_inv)

lemma om_ok_index_fold [table_inv]:
  "om_ok m \<Longrightarrow> om_ok (fold (index_drop x) ks m)" "om_ok m \<Longrightarrow> om_ok (fold (index_insert y) ks m)"
  by (induction ks arbitrary: m) (simp_all add: table_inv)

lemma lookup_touch [simp]:
  "target (touch t) i = target t i" "domain (touch t) d = domain t d" "pool (touch t) p = pool t p"
  "domain_members (touch t) d = domain_members t d" "children (touch t) i = children t i"
  "pools_containing (touch t) i = pools_containing t i"
  by (simp_all add: touch_def lookup_defs)

lemma length_om_set_le:
  "om_ok m \<Longrightarrow> length m \<le> n \<Longrightarrow> \<not> (n \<le> length m \<and> om_find m k = None) \<Longrightarrow> length (om_set k v m) \<le> n"
  by (cases "om_find m k") (auto simp: om.length_set_fresh om.length_set_known)

lemma empty_topology_wf: "topo_wf empty_topology"
  by (simp add: topo_wf_defs empty_topology_def lookup_defs index_at_def)

lemma target_entry_ok_mono:
  assumes "target_entry_ok t i r" "\<And>i. target t i \<noteq> None \<Longrightarrow> target t' i \<noteq> None"
    "\<And>d. domain t d \<noteq> None \<Longrightarrow> domain t' d \<noteq> None"
  shows "target_entry_ok t' i r"
proof -
  have "check_parent t' r = ok_status"
  proof (cases "tr_parent r")
    case (Some p)
    then show ?thesis
      using assms(1) assms(2) [of p] by (auto simp: target_entry_ok_def check_parent_def split: if_splits)
  qed (simp add: check_parent_def)
  then show ?thesis using assms(1,3) by (simp add: target_entry_ok_def)
qed

lemma pool_entry_ok_mono:
  "pool_entry_ok t i r \<Longrightarrow> (\<And>i. target t i \<noteq> None \<Longrightarrow> target t' i \<noteq> None) \<Longrightarrow> pool_entry_ok t' i r"
  by (auto simp: pool_entry_ok_def)

lemma add_domain_wf:
  assumes "topo_wf t" "add_domain r t = Inr t'"
  shows "topo_wf t'"
proof -
  have t': "t' = touch (t\<lparr>tp_domains := om_set (dr_id r) r (tp_domains t)\<rparr>)"
    and room: "\<not> (length (tp_domains t) \<ge> kMaxDomainsPerTopology \<and> domain t (dr_id r) = None)"
    using assms(2) by (auto simp: add_domain_def split: if_splits)
  have "length (tp_domains t') \<le> kMaxDomainsPerTopology"
    using assms(1) room by (auto simp: t' topo_wf_defs touch_def lookup_defs intro!: length_om_set_le)
  moreover have same: "target t' = target t" "pool t' = pool t" "domain_members t' = domain_members t"
    "children t' = children t" "pools_containing t' = pools_containing t"
    by (auto simp: t' touch_def lookup_defs)
  moreover have "domain t d \<noteq> None \<Longrightarrow> domain t' d \<noteq> None" for d
    by (auto simp: t' touch_def lookup_defs table_simps)
  then have "target_entry_ok t i q \<Longrightarrow> target_entry_ok t' i q" "pool_entry_ok t p v \<Longrightarrow> pool_entry_ok t' p v"
    for i q p v
    by (auto elim!: target_entry_ok_mono pool_entry_ok_mono simp: same)
  moreover have "tables_ok t'" "tp_targets t' = tp_targets t" "tp_pools t' = tp_pools t"
    using assms(1) by (simp_all add: topo_wf_def tables_ok_def t' touch_def table_inv)
  ultimately show ?thesis
    using assms(1) by (simp add: topo_wf_def entries_ok_def indexes_ok_def within_limits_def)
qed

lemma add_target_result:
  assumes "add_target r t = Inr t'"
  shows "t' = touch (link_target r (unlink_target (tr_id r) (target t (tr_id r)) t))"
    and "\<not> (length (tp_targets t) \<ge> kMaxTargetsPerTopology \<and> target t (tr_id r) = None)"
    and "target_entry_ok t (tr_id r) r"
  using assms
  by (auto simp: add_target_def target_entry_ok_def for_status_ok check_member_domain_def
      split: sum.splits if_splits)

lemma link_unlink_lookups:
  assumes "indexes_ok t" and "t' = touch (link_target r (unlink_target (tr_id r) (target t (tr_id r)) t))"
  shows "target t' i = (if i = tr_id r then Some r else target t i)"
    and "domain t' = domain t" and "pool t' = pool t" and "pools_containing t' = pools_containing t"
    and "ascending (domain_members t' d)" and "ascending (children t' p)"
    and "set (domain_members t' d) = set (domain_members t d) - {tr_id r} \<union> (if d \<in> set (tr_domains r) then {tr_id r} else {})"
    and "set (children t' p) = set (children t p) - {tr_id r} \<union> (if tr_parent r = Some p then {tr_id r} else {})"
proof -
  have asc: "\<forall>k. ascending (index_at (tp_domain_members t) k)" "\<forall>k. ascending (index_at (tp_children t) k)"
    using assms(1) by (auto simp: indexes_ok_def domain_members_def children_def)
  note defs = assms(2) link_target_def unlink_target_def touch_def lookup_defs
  show "target t' i = (if i = tr_id r then Some r else target t i)"
    by (auto simp: defs table_simps split: option.splits)
  show "domain t' = domain t" "pool t' = pool t" "pools_containing t' = pools_containing t"
    by (auto simp: defs split: option.splits)
  show "ascending (domain_members t' d)"
    using asc by (auto simp: defs index_insert_all index_drop_all split: option.splits)
  show "ascending (children t' p)"
    using asc by (auto simp: defs index_at_insert index_at_drop ascending_def sorted_wrt_filter split: option.splits)
  have dom: "x \<in> set (index_at (tp_domain_members t) d) \<longleftrightarrow>
      (\<exists>r. om_find (tp_targets t) x = Some r \<and> d \<in> set (tr_domains r))" for x
    using assms(1) unfolding indexes_ok_def lookup_defs by blast
  show "set (domain_members t' d) = set (domain_members t d) - {tr_id r} \<union> (if d \<in> set (tr_domains r) then {tr_id r} else {})"
    using dom by (auto simp: defs index_insert_all index_drop_all split: option.splits)
  have par: "x \<in> set (index_at (tp_children t) p) \<longleftrightarrow>
      (\<exists>r. om_find (tp_targets t) x = Some r \<and> tr_parent r = Some p)" for x
    using assms(1) unfolding indexes_ok_def lookup_defs by blast
  show "set (children t' p) = set (children t p) - {tr_id r} \<union> (if tr_parent r = Some p then {tr_id r} else {})"
    using par by (auto simp: defs index_at_insert index_at_drop split: option.splits)
qed

lemma add_target_wf:
  assumes wf: "topo_wf t" and add: "add_target r t = Inr t'"
  shows "topo_wf t'"
proof -
  note t' = add_target_result(1) [OF add] and room = add_target_result(2) [OF add]
  have idx: "indexes_ok t" using wf by (simp add: topo_wf_def)
  note lk = link_unlink_lookups [OF idx t']
  have grow: "target t i \<noteq> None \<Longrightarrow> target t' i \<noteq> None" for i by (simp add: lk)
  have "tables_ok t'"
    using wf by (auto simp: topo_wf_def tables_ok_def t' touch_def link_target_def unlink_target_def
        table_inv split: option.splits)
  moreover have "within_limits t'"
    using wf room by (auto simp: topo_wf_defs t' touch_def link_target_def unlink_target_def target_def
        intro!: length_om_set_le split: option.splits)
  moreover have "entries_ok t'"
    using wf target_entry_ok_mono [of t _ _ t'] grow add_target_result(3) [OF add]
    pool_entry_ok_mono [of t _ _ t']
    by (auto simp: topo_wf_def entries_ok_def lk)
  moreover have "indexes_ok t'"
    unfolding indexes_ok_def
  proof (intro conjI allI)
    fix d p
    show "set (domain_members t' d) = {i. \<exists>r. target t' i = Some r \<and> d \<in> set (tr_domains r)}"
      using idx unfolding lk indexes_ok_def by (auto split: if_splits)
    show "set (children t' p) = {i. \<exists>r. target t' i = Some r \<and> tr_parent r = Some p}"
      using idx unfolding lk indexes_ok_def by (auto split: if_splits)
  qed (use idx in \<open>simp_all add: lk indexes_ok_def\<close>)
  ultimately show ?thesis by (simp add: topo_wf_def)
qed

lemma add_pool_result:
  assumes "add_pool r t = Inr t'"
  shows "t' = touch (t\<lparr>tp_pools := om_set (pr_id r) r (tp_pools t),
      tp_target_pools := fold (index_insert (pr_id r)) (pr_members r)
        (case pool t (pr_id r) of None \<Rightarrow> tp_target_pools t
         | Some old \<Rightarrow> fold (index_drop (pr_id r)) (pr_members old) (tp_target_pools t))\<rparr>)"
    and "\<not> (length (tp_pools t) \<ge> kMaxPoolsPerTopology \<and> pool t (pr_id r) = None)"
    and "pool_entry_ok t (pr_id r) r"
  using assms
  by (auto simp: add_pool_def pool_entry_ok_def for_status_ok check_pool_member_def
      adjacent_dup_sort Let_def split: sum.splits if_splits)

lemma add_pool_wf:
  assumes wf: "topo_wf t" and add: "add_pool r t = Inr t'"
  shows "topo_wf t'"
proof -
  note t' = add_pool_result(1) [OF add] and room = add_pool_result(2) [OF add]
  have same: "target t' = target t" "domain t' = domain t" "domain_members t' = domain_members t"
    "children t' = children t"
    by (auto simp: t' touch_def lookup_defs)
  have pools: "pool t' p = (if p = pr_id r then Some r else pool t p)" for p
    by (simp add: t' touch_def pool_def table_simps)
  have asc: "\<forall>k. ascending (index_at (tp_target_pools t) k)"
    and inv: "\<And>i. set (index_at (tp_target_pools t) i) = {p. \<exists>r. pool t p = Some r \<and> i \<in> set (pr_members r)}"
    using wf unfolding topo_wf_def indexes_ok_def pools_containing_def by blast+
  have "ascending (pools_containing t' i)" for i
    using asc by (auto simp: t' touch_def pools_containing_def index_insert_all index_drop_all split: option.splits)
  moreover have "set (pools_containing t' i) = {p. \<exists>r. pool t' p = Some r \<and> i \<in> set (pr_members r)}" for i
  proof -
    have "set (pools_containing t' i) = set (index_at (tp_target_pools t) i) - {pr_id r} \<union>
        (if i \<in> set (pr_members r) then {pr_id r} else {})"
      using inv [of i] unfolding t' touch_def pools_containing_def
      by (cases "pool t (pr_id r)") (auto simp: index_insert_all index_drop_all)
    then show ?thesis unfolding inv pools by auto
  qed
  moreover have "tables_ok t'"
    using wf by (auto simp: topo_wf_def tables_ok_def t' touch_def table_inv split: option.splits)
  moreover have "within_limits t'"
    using wf room by (auto simp: topo_wf_defs t' touch_def pool_def intro!: length_om_set_le)
  moreover have "entries_ok t'"
  proof -
    have "target_entry_ok t i q \<Longrightarrow> target_entry_ok t' i q" "pool_entry_ok t p v \<Longrightarrow> pool_entry_ok t' p v"
      for i q p v
      by (auto elim!: target_entry_ok_mono pool_entry_ok_mono simp: same)
    then show ?thesis
      using wf add_pool_result(3) [OF add] by (auto simp: topo_wf_def entries_ok_def same pools)
  qed
  ultimately show ?thesis
    using wf unfolding topo_wf_def indexes_ok_def same by blast
qed

section \<open>Containment\<close>

definition containment :: "topology \<Rightarrow> (target_id \<times> target_id) set" where
  "containment t = {(p, c). \<exists>r. target t c = Some r \<and> tr_parent r = Some p}"

definition descendants :: "topology \<Rightarrow> target_id \<Rightarrow> target_id set" where
  "descendants t i = {c. (i, c) \<in> (containment t)\<^sup>*}"

lemma children_containment: "indexes_ok t \<Longrightarrow> c \<in> set (children t p) \<longleftrightarrow> (p, c) \<in> containment t"
  unfolding indexes_ok_def containment_def by blast

lemma containment_parent_unique:
  "(p, c) \<in> containment t \<Longrightarrow> (q, c) \<in> containment t \<Longrightarrow> p = q"
  by (auto simp: containment_def)

lemma chain_walk_acc:
  "chain_walk t i r seen = ok_status \<Longrightarrow> entries_ok t \<Longrightarrow> target t (tr_id r) = Some r \<Longrightarrow>
   tr_id r \<in> Wellfounded.acc (containment t)"
proof (induction t i r seen rule: chain_walk.induct)
  case (1 t i cursor seen)
  show ?case
  proof (cases "tr_parent cursor")
    case None
    show ?thesis
      by (rule accI) (use 1 None in \<open>auto simp: containment_def\<close>)
  next
    case (Some p)
    with 1(2) obtain up where up: "target t p = Some up" "tr_id cursor \<notin> set seen"
      "chain_walk t i up (tr_id cursor # seen) = ok_status"
      by (auto simp: chain_walk.simps [of t i cursor] split: if_splits option.splits)
    then have "tr_id up = p"
      using 1(3) by (auto simp: entries_ok_def target_entry_ok_def)
    with 1(1) [OF Some up(2,1,3) 1(3)] up have "p \<in> Wellfounded.acc (containment t)" by simp
    show ?thesis
      by (rule accI) (use 1 Some \<open>p \<in> _\<close> in \<open>auto simp: containment_def\<close>)
  qed
qed

lemma validate_topology_acyclic:
  assumes "validate_topology t = ok_status" "topo_wf t"
  shows "acyclic (containment t)"
proof -
  have "i \<in> Wellfounded.acc (containment t)" for i
  proof (cases "target t i")
    case None
    show ?thesis by (rule accI) (use None in \<open>auto simp: containment_def\<close>)
  next
    case (Some r)
    have wf: "entries_ok t" "om_ok (tp_targets t)"
      using assms(2) by (auto simp: topo_wf_def tables_ok_def)
    then have "tr_id r = i" using Some by (auto simp: entries_ok_def target_entry_ok_def)
    moreover have "(i, r) \<in> set (tp_targets t)"
      using om_in_items [OF wf(2), of "(i, r)"] Some by (simp add: target_def)
    then have "validate_target_entry t (i, r) = ok_status"
      using assms(1) by (auto simp: validate_topology_def for_status_ok split: if_splits sum.splits)
    then have "chain_walk t i r [] = ok_status"
      by (simp add: validate_target_entry_def split: if_splits sum.splits)
    ultimately show ?thesis using chain_walk_acc [OF _ wf(1)] Some by auto
  qed
  then show ?thesis using wf_iff_acc wf_acyclic by blast
qed

text \<open>What the stack walk has established after a prefix of its iterations.\<close>

definition walk_inv :: "topology \<Rightarrow> target_id \<Rightarrow> target_id list \<Rightarrow> target_id list \<Rightarrow> bool" where
  "walk_inv t i stack out \<longleftrightarrow> distinct (out @ stack) \<and> set (out @ stack) \<subseteq> descendants t i \<and>
     i \<in> set (out @ stack) \<and>
     (\<forall>y \<in> set (out @ stack). target t y \<noteq> None \<and> (y = i \<or> (\<exists>p \<in> set out. (p, y) \<in> containment t))) \<and>
     (\<forall>p \<in> set out. \<forall>c. (p, c) \<in> containment t \<longrightarrow> c \<in> set (out @ stack))"

lemma walk_inv_step:
  assumes inv: "walk_inv t i (current # rest) out" and idx: "indexes_ok t" and acy: "acyclic (containment t)"
  shows "walk_inv t i (children t current @ rest) (out @ [current])"
proof -
  have kids: "c \<in> set (children t current) \<longleftrightarrow> (current, c) \<in> containment t" for c
    by (rule children_containment [OF idx])
  have cur: "current \<in> descendants t i" "current \<notin> set out"
    using inv by (auto simp: walk_inv_def)
  have fresh: "c \<notin> set (out @ current # rest)" if "(current, c) \<in> containment t" for c
  proof
    assume "c \<in> set (out @ current # rest)"
    then have "c = i \<or> (\<exists>p \<in> set out. (p, c) \<in> containment t)"
      using inv by (auto simp: walk_inv_def)
    moreover have "c \<noteq> i"
      using that cur(1) acy by (auto simp: acyclic_def descendants_def dest: rtrancl_into_trancl1)
    ultimately show False using containment_parent_unique [OF that] cur(2) by blast
  qed
  have "distinct (children t current)" using idx by (simp add: indexes_ok_def ascending_def)
  then have "distinct ((out @ [current]) @ children t current @ rest)"
    using inv fresh by (auto simp: walk_inv_def kids)
  moreover have "set (children t current) \<subseteq> descendants t i"
    using cur(1) by (auto simp: kids descendants_def intro: rtrancl_into_rtrancl)
  moreover have "target t c \<noteq> None" if "(current, c) \<in> containment t" for c
    using that by (auto simp: containment_def)
  ultimately show ?thesis
    using inv by (auto simp: walk_inv_def kids)
qed

lemma walk_inv_room:
  assumes "walk_inv t i (current # rest) out" "topo_wf t"
  shows "length out < kMaxTargetsPerTopology"
proof -
  have "\<forall>y \<in> set (out @ [current]). target t y \<noteq> None"
    using assms(1) by (simp add: walk_inv_def)
  then have "set (out @ [current]) \<subseteq> fst ` set (tp_targets t)"
    unfolding target_def om_find_def by (metis map_of_eq_None_iff subsetI)
  then have "card (set (out @ [current])) \<le> card (set (map fst (tp_targets t)))"
    by (intro card_mono) auto
  also have "\<dots> \<le> length (tp_targets t)" by (metis card_length length_map)
  also have "\<dots> \<le> kMaxTargetsPerTopology" using assms(2) by (simp add: topo_wf_defs)
  finally show ?thesis
    using assms(1) by (simp add: walk_inv_def distinct_card)
qed

lemma subtree_loop_exact:
  assumes "walk_inv t i stack out" "guard = length out" "topo_wf t" "acyclic (containment t)"
  shows "set (subtree_loop t guard stack out) = descendants t i"
  using assms
proof (induction t guard stack out rule: subtree_loop.induct)
  case (1 t guard stack out)
  show ?case
  proof (cases stack)
    case Nil
    have "c \<in> set out" if "(i, c) \<in> (containment t)\<^sup>*" for c
      using that by (induction rule: rtrancl_induct) (use 1(2) Nil in \<open>auto simp: walk_inv_def\<close>)
    then show ?thesis
      using 1(2) Nil by (auto simp: subtree_loop.simps [of t guard] walk_inv_def descendants_def)
  next
    case (Cons current rest)
    have idx: "indexes_ok t" using 1(4) by (simp add: topo_wf_def)
    have room: "\<not> Suc guard > kMaxTargetsPerTopology"
      using walk_inv_room [OF 1(2) [unfolded Cons] 1(4)] 1(3) by simp
    have "walk_inv t i (children t current @ rest) (out @ [current])"
      by (rule walk_inv_step [OF 1(2) [unfolded Cons] idx 1(5)])
    with 1(1) [OF Cons room] 1(3-5) have
      "set (subtree_loop t (Suc guard) (children t current @ rest) (out @ [current])) = descendants t i"
      by simp
    with Cons room show ?thesis
      by (subst subtree_loop.simps) simp
  qed
qed

lemma subtree_exact:
  assumes "topo_wf t" "acyclic (containment t)"
  shows "set (subtree t i) = (if contains t i then descendants t i else {})"
proof (cases "contains t i")
  case True
  then have "walk_inv t i [i] []"
    by (auto simp: walk_inv_def descendants_def contains_def)
  from subtree_loop_exact [OF this _ assms] True show ?thesis
    by (auto simp: subtree_def contains_def)
qed (simp add: subtree_def contains_def)

lemma set_fold_push_all:
  "set (fold (\<lambda>i out. fold (\<lambda>m out. push_unique out m) (f i) out) xs out) = set out \<union> (\<Union>i \<in> set xs. set (f i))"
  by (induction xs arbitrary: out) auto

lemma distinct_fold_push_all:
  "distinct out \<Longrightarrow> distinct (fold (\<lambda>i out. fold (\<lambda>m out. push_unique out m) (f i) out) xs out)"
  by (induction xs arbitrary: out) (auto simp: distinct_fold_push_unique)

lemma removal_set_ascending: "ascending (removal_set t requested)"
  by (simp add: removal_set_def ascending_def distinct_fold_push_all)

lemma set_removal_set: "set (removal_set t requested) = (\<Union>i \<in> set requested. set (subtree t i))"
  by (simp add: removal_set_def set_fold_push_all)

lemma domains_of_fold:
  "domains_of t targets = sort (fold (\<lambda>i out. fold (\<lambda>d out. push_unique out d)
     (case target t i of None \<Rightarrow> [] | Some r \<Rightarrow> tr_domains r) out) targets [])"
  unfolding domains_of_def
  by (rule arg_cong [where f = sort], rule arg_cong2 [where f = "\<lambda>f. fold f targets"])
    (auto simp: fun_eq_iff split: option.splits)

lemma set_domains_of:
  "set (domains_of t targets) = {d. \<exists>i \<in> set targets. \<exists>r. target t i = Some r \<and> d \<in> set (tr_domains r)}"
  by (auto simp: domains_of_fold set_fold_push_all split: option.splits dest: sym)

lemma set_pools_of: "set (pools_of t targets) = (\<Union>i \<in> set targets. set (pools_containing t i))"
  by (simp add: pools_of_def set_fold_push_all)

lemma domains_pools_ascending: "ascending (domains_of t targets)" "ascending (pools_of t targets)"
  by (simp_all add: domains_of_fold pools_of_def ascending_def distinct_fold_push_all)

lemma parse_to_string_health: "parse_health (to_string_health h) = Some h"
  by (cases h) (simp_all add: parse_health_def to_string_health_def of_name_def name_of_def kHealthNames_def)

end
