(* ===== verification/Times.thy ===== *)
theory Times
  imports Ids
begin

text \<open>
  Rendering of instants and durations (\<^verbatim>\<open>src/core/time.cpp\<close>). Instants are nanoseconds since
  the epoch as \<open>int\<close>; division and remainder are the truncating ones of the source, and the
  padded conversions of \<^verbatim>\<open>snprintf\<close> are \<open>pad_dec\<close> and \<open>pad_year\<close>. The unsigned
  intermediate values of the calendar conversion stay below 146097, as \<open>day_of_era_bounds\<close>
  shows, so no reduction modulo the word size occurs in them.
\<close>

definition kNanosPerMicrosecond :: nanos where "kNanosPerMicrosecond = 1000"
definition kNanosPerMillisecond :: nanos where "kNanosPerMillisecond = 1000000"
definition kNanosPerSecond :: nanos where "kNanosPerSecond = 1000000000"
definition kNanosPerMinute :: nanos where "kNanosPerMinute = 60 * kNanosPerSecond"
definition kNanosPerHour :: nanos where "kNanosPerHour = 60 * kNanosPerMinute"
definition kSecondsPerDay :: int where "kSecondsPerDay = 86400"

lemmas nanos_defs = kNanosPerMicrosecond_def kNanosPerMillisecond_def kNanosPerSecond_def
  kNanosPerMinute_def kNanosPerHour_def kSecondsPerDay_def

record civil =
  cv_year :: int
  cv_month :: int
  cv_day :: int

definition era_of_days :: "int \<Rightarrow> int" where
  "era_of_days z = (if z \<ge> 0 then z else z - 146096) sdiv 146097"

definition civil_from_days :: "int \<Rightarrow> civil" where
  "civil_from_days z0 =
     (let z = z0 + 719468;
          era = era_of_days z;
          doe = z - era * 146097;
          yoe = (doe - doe div 1460 + doe div 36524 - doe div 146096) div 365;
          y = yoe + era * 400;
          doy = doe - (365 * yoe + yoe div 4 - yoe div 100);
          mp = (5 * doy + 2) div 153;
          d = doy - (153 * mp + 2) div 5 + 1;
          m = (if mp < 10 then mp + 3 else mp - 9);
          year = y + (if m \<le> 2 then 1 else 0)
      in \<lparr>cv_year = year, cv_month = m, cv_day = d\<rparr>)"

definition days_from_civil :: "int \<Rightarrow> int \<Rightarrow> int \<Rightarrow> int" where
  "days_from_civil y0 m d =
     (let y = y0 - (if m \<le> 2 then 1 else 0);
          era = (if y \<ge> 0 then y else y - 399) sdiv 400;
          yoe = y - era * 400;
          doy = (153 * (if m > 2 then m - 3 else m + 9) + 2) div 5 + d - 1;
          doe = yoe * 365 + yoe div 4 - yoe div 100 + doy
      in era * 146097 + doe - 719468)"

definition pad_dec :: "nat \<Rightarrow> int \<Rightarrow> string" where
  "pad_dec w n = (let s = dec_string (nat n) in replicate (w - length s) CHR ''0'' @ s)"

definition pad_year :: "int \<Rightarrow> string" where
  "pad_year y = (if y < 0 then CHR ''-'' # pad_dec 3 (- y) else pad_dec 4 y)"

definition format_time :: "nanos \<Rightarrow> string" where
  "format_time value =
     (let seconds0 = value sdiv kNanosPerSecond;
          fraction0 = value smod kNanosPerSecond;
          fraction = (if fraction0 < 0 then fraction0 + kNanosPerSecond else fraction0);
          seconds = (if fraction0 < 0 then seconds0 - 1 else seconds0);
          days0 = seconds sdiv kSecondsPerDay;
          sod0 = seconds smod kSecondsPerDay;
          sod = (if sod0 < 0 then sod0 + kSecondsPerDay else sod0);
          days = (if sod0 < 0 then days0 - 1 else days0);
          c = civil_from_days days
      in pad_year (cv_year c) @ ''-'' @ pad_dec 2 (cv_month c) @ ''-'' @ pad_dec 2 (cv_day c) @ ''T'' @
         pad_dec 2 (sod sdiv 3600) @ '':'' @ pad_dec 2 ((sod smod 3600) sdiv 60) @ '':'' @
         pad_dec 2 (sod smod 60) @ ''.'' @ pad_dec 9 fraction @ ''Z'')"

definition trim_zeros :: "string \<Rightarrow> string" where
  "trim_zeros s = rev (dropWhile (\<lambda>c. c = CHR ''0'') (rev s))"

definition format_duration :: "nanos \<Rightarrow> string" where
  "format_duration value =
     (let magnitude = \<bar>value\<bar>;
          out = (if value < 0 then ''-'' else []);
          seconds = magnitude div kNanosPerSecond;
          remainder = magnitude mod kNanosPerSecond
      in if magnitude < 1000 then out @ dec_string (nat magnitude) @ ''ns''
         else if magnitude < 1000000 then
           out @ trim_zeros (dec_string (nat (magnitude div 1000)) @ ''.'' @ pad_dec 3 (magnitude mod 1000) @ ''us'')
         else if magnitude < 1000000000 then
           out @ trim_zeros (dec_string (nat (magnitude div 1000000)) @ ''.'' @ pad_dec 6 (magnitude mod 1000000) @ ''ms'')
         else
           out @ (if seconds \<ge> 3600 then dec_string (nat (seconds div 3600)) @ ''h'' else []) @
           (if seconds \<ge> 60 then dec_string (nat ((seconds mod 3600) div 60)) @ ''m'' else []) @
           (if seconds > 0 \<or> remainder > 0 then
              (if remainder = 0 then dec_string (nat (seconds mod 60)) @ ''s''
               else trim_zeros (dec_string (nat (seconds mod 60)) @ ''.'' @ pad_dec 9 remainder @ ''s''))
            else ''0s''))"

lemma era_is_floor: "era_of_days z = z div 146097"
proof (cases "z \<ge> 0")
  case True
  then show ?thesis by (simp add: era_of_days_def sdiv_pos_pos)
next
  case False
  define n where "n = 146096 - z"
  have "(z - 146096) sdiv 146097 = - (n div 146097)"
    using sdiv_neg_pos [of n 146097] False by (simp add: n_def)
  also have "n div 146097 = - (z div 146097)"
  proof (rule int_div_pos_eq)
    show "n = 146097 * - (z div 146097) + (146096 - z mod 146097)"
      using mult_div_mod_eq [of 146097 z] unfolding n_def by linarith
    show "0 \<le> 146096 - z mod 146097" "146096 - z mod 146097 < 146097"
      using pos_mod_bound [of 146097 z] pos_mod_sign [of 146097 z] by linarith+
  qed
  finally show ?thesis using False by (simp add: era_of_days_def)
qed

lemma day_of_era_bounds:
  "0 \<le> z - era_of_days z * 146097" "z - era_of_days z * 146097 < 146097"
  unfolding era_is_floor using pos_mod_bound [of 146097 z] pos_mod_sign [of 146097 z]
  by (simp_all add: minus_div_mult_eq_mod)

end
