(* ===== verification/Evidence.thy ===== *)
theory Evidence
  imports Topology Times
begin

text \<open>
  Aged observations (\<^verbatim>\<open>include/mf/domain/evidence.hpp\<close>, \<^verbatim>\<open>src/domain/evidence.cpp\<close>): the
  newest record per kind, subject and source in a bounded table, and the judgement of its
  freshness under the running incarnation. A rejected observation still moves a counter of the
  store, so \<open>observe\<close> returns the status and the store.

  The lemmas show that \<open>observe\<close> keeps the store well formed and within its capacity, that
  revisions and observation times never regress and only expired records are evicted, and that
  a record is judged fresh exactly when it is bound to the queried job and attempt, is not
  from the future, is not fenced by a restart, and is within its time to live.
\<close>

section \<open>Data\<close>

datatype evidence_kind =
    TargetHealth | PoolRedundancy | ContractAvailability | DrainLeaseState | RestorationCheck
  | MaintenanceCompletion | ControlPlaneQuorum

fun evidence_kind_code :: "evidence_kind \<Rightarrow> nat" where
  "evidence_kind_code TargetHealth = 1"
| "evidence_kind_code PoolRedundancy = 2"
| "evidence_kind_code ContractAvailability = 3"
| "evidence_kind_code DrainLeaseState = 4"
| "evidence_kind_code RestorationCheck = 5"
| "evidence_kind_code MaintenanceCompletion = 6"
| "evidence_kind_code ControlPlaneQuorum = 7"

definition kKindNames :: "(evidence_kind \<times> string) list" where
  "kKindNames =
     [(TargetHealth, ''target-health''), (PoolRedundancy, ''pool-redundancy''),
      (ContractAvailability, ''contract-availability''), (DrainLeaseState, ''drain-lease-state''),
      (RestorationCheck, ''restoration-check''), (MaintenanceCompletion, ''maintenance-completion''),
      (ControlPlaneQuorum, ''control-plane-quorum'')]"

definition to_string_evidence_kind :: "evidence_kind \<Rightarrow> string" where
  "to_string_evidence_kind k = name_of kKindNames k"

definition parse_evidence_kind :: "string \<Rightarrow> evidence_kind option" where
  "parse_evidence_kind s = of_name kKindNames s"

datatype evidence_class = Volatile | Durable

fun evidence_class_code :: "evidence_class \<Rightarrow> u32" where
  "evidence_class_code Volatile = 0"
| "evidence_class_code Durable = 1"

fun health_code :: "health \<Rightarrow> u32" where
  "health_code HealthUnknown = 0"
| "health_code Healthy = 1"
| "health_code Degraded = 2"
| "health_code Down = 3"
| "health_code Retired = 4"

definition default_evidence_class :: "evidence_kind \<Rightarrow> evidence_class" where
  "default_evidence_class k = Volatile"

datatype subject_kind = SkNone | SkTarget | SkDomain | SkPool | SkContract | SkGlobal

fun subject_kind_code :: "subject_kind \<Rightarrow> nat" where
  "subject_kind_code SkNone = 0"
| "subject_kind_code SkTarget = 1"
| "subject_kind_code SkDomain = 2"
| "subject_kind_code SkPool = 3"
| "subject_kind_code SkContract = 4"
| "subject_kind_code SkGlobal = 5"

definition to_string_subject_kind :: "subject_kind \<Rightarrow> string" where
  "to_string_subject_kind k = (case k of
     SkNone \<Rightarrow> ''none'' | SkTarget \<Rightarrow> ''target'' | SkDomain \<Rightarrow> ''domain'' | SkPool \<Rightarrow> ''pool''
   | SkContract \<Rightarrow> ''contract'' | SkGlobal \<Rightarrow> ''global'')"

datatype evidence_subject =
  EvidenceSubject (sub_kind: subject_kind) (sub_target: target_id) (sub_domain: domain_id)
    (sub_pool: pool_id) (sub_contract: contract_id)

datatype evidence_key =
  EvidenceKey (ek_kind: evidence_kind) (ek_subject: evidence_subject) (ek_source: source_id)

abbreviation no_target :: target_id where
  "no_target \<equiv> TargetId TkUnknown 0"

abbreviation no_domain :: domain_id where
  "no_domain \<equiv> DomainId DkUnknown 0"

definition subject_of :: "target_id \<Rightarrow> evidence_subject" where
  "subject_of t = EvidenceSubject SkTarget t no_domain 0 0"

definition of_domain :: "domain_id \<Rightarrow> evidence_subject" where
  "of_domain d = EvidenceSubject SkDomain no_target d 0 0"

definition of_pool :: "pool_id \<Rightarrow> evidence_subject" where
  "of_pool p = EvidenceSubject SkPool no_target no_domain p 0"

definition of_contract :: "contract_id \<Rightarrow> evidence_subject" where
  "of_contract c = EvidenceSubject SkContract no_target no_domain 0 c"

definition global_subject :: evidence_subject where
  "global_subject = EvidenceSubject SkGlobal no_target no_domain 0 0"

definition subject_valid :: "evidence_subject \<Rightarrow> bool" where
  "subject_valid s \<longleftrightarrow> sub_kind s \<noteq> SkNone"

text \<open>The defaulted three-way comparisons order members lexicographically.\<close>

definition subject_key :: "evidence_subject \<Rightarrow> nat \<times> target_id \<times> domain_id \<times> u64 \<times> u64" where
  "subject_key s = (subject_kind_code (sub_kind s), sub_target s, sub_domain s, sub_pool s, sub_contract s)"

lemma subject_kind_code_inj: "subject_kind_code a = subject_kind_code b \<longleftrightarrow> a = b"
  by (cases a; cases b) simp_all

lemma evidence_kind_code_inj: "evidence_kind_code a = evidence_kind_code b \<longleftrightarrow> a = b"
  by (cases a; cases b) simp_all

instantiation evidence_kind :: linorder
begin
definition less_eq_evidence_kind :: "evidence_kind \<Rightarrow> evidence_kind \<Rightarrow> bool" where
  "less_eq_evidence_kind a b \<longleftrightarrow> evidence_kind_code a \<le> evidence_kind_code b"
definition less_evidence_kind :: "evidence_kind \<Rightarrow> evidence_kind \<Rightarrow> bool" where
  "less_evidence_kind a b \<longleftrightarrow> evidence_kind_code a < evidence_kind_code b"
instance
  by standard (auto simp: less_eq_evidence_kind_def less_evidence_kind_def
      evidence_kind_code_inj [symmetric] less_le_not_le intro: order_trans)
end

lemma subject_key_inj: "subject_key a = subject_key b \<longleftrightarrow> a = b"
  by (cases a; cases b) (simp add: subject_key_def subject_kind_code_inj)

instantiation evidence_subject :: linorder
begin
definition less_eq_evidence_subject :: "evidence_subject \<Rightarrow> evidence_subject \<Rightarrow> bool" where
  "less_eq_evidence_subject a b \<longleftrightarrow> subject_key a \<le> subject_key b"
definition less_evidence_subject :: "evidence_subject \<Rightarrow> evidence_subject \<Rightarrow> bool" where
  "less_evidence_subject a b \<longleftrightarrow> subject_key a < subject_key b"
instance
  by standard (auto simp: less_eq_evidence_subject_def less_evidence_subject_def
      subject_key_inj [symmetric] less_le_not_le intro: order_trans)
end

definition key_order :: "evidence_key \<Rightarrow> nat \<times> evidence_subject \<times> u64" where
  "key_order k = (evidence_kind_code (ek_kind k), ek_subject k, ek_source k)"

lemma key_order_inj: "key_order a = key_order b \<longleftrightarrow> a = b"
  by (cases a; cases b) (simp add: key_order_def evidence_kind_code_inj)

instantiation evidence_key :: linorder
begin
definition less_eq_evidence_key :: "evidence_key \<Rightarrow> evidence_key \<Rightarrow> bool" where
  "less_eq_evidence_key a b \<longleftrightarrow> key_order a \<le> key_order b"
definition less_evidence_key :: "evidence_key \<Rightarrow> evidence_key \<Rightarrow> bool" where
  "less_evidence_key a b \<longleftrightarrow> key_order a < key_order b"
instance
  by standard (auto simp: less_eq_evidence_key_def less_evidence_key_def
      key_order_inj [symmetric] less_le_not_le intro: order_trans)
end

lemmas evidence_order_defs = less_eq_evidence_key_def less_evidence_key_def key_order_def
  less_eq_evidence_subject_def less_evidence_subject_def subject_key_def id_order_defs

definition to_string_subject :: "evidence_subject \<Rightarrow> string" where
  "to_string_subject s = (case sub_kind s of
     SkTarget \<Rightarrow> to_string_target (sub_target s)
   | SkDomain \<Rightarrow> to_string_domain (sub_domain s)
   | SkPool \<Rightarrow> to_string_pool (sub_pool s)
   | SkContract \<Rightarrow> to_string_contract (sub_contract s)
   | SkGlobal \<Rightarrow> ''global''
   | SkNone \<Rightarrow> ''none'')"

definition parse_evidence_subject :: "string \<Rightarrow> evidence_subject option" where
  "parse_evidence_subject s =
     (if s = ''global'' then Some global_subject
      else case parse_target_id s of
        Some t \<Rightarrow> Some (subject_of t)
      | None \<Rightarrow> (case parse_domain_id s of
          Some d \<Rightarrow> Some (of_domain d)
        | None \<Rightarrow> (case parse_id ''pool'' s of
            Some p \<Rightarrow> Some (of_pool p)
          | None \<Rightarrow> (case parse_id ''ctr'' s of
              Some c \<Rightarrow> Some (of_contract c)
            | None \<Rightarrow> None))))"

definition to_string_evidence_key :: "evidence_key \<Rightarrow> string" where
  "to_string_evidence_key k =
     to_string_evidence_kind (ek_kind k) @ CHR ''@'' # to_string_subject (ek_subject k) @
     CHR ''#'' # to_string_source (ek_source k)"

record evidence_payload =
  ep_health :: health
  ep_available_units :: u32
  ep_total_units :: u32
  ep_result :: bool
  ep_count :: u32

record evidence_record =
  er_id :: evidence_id
  er_key :: evidence_key
  er_revision :: revision
  er_observed_at :: nanos
  er_ttl :: nanos
  er_klass :: evidence_class
  er_payload :: evidence_payload
  er_observed_by :: incarnation
  er_job :: job_id
  er_attempt :: attempt_id
  er_digest :: u64

definition evidence_valid :: "evidence_record \<Rightarrow> bool" where
  "evidence_valid r \<longleftrightarrow> id_valid (er_id r) \<and> id_valid (er_revision r) \<and>
     id_valid (ek_source (er_key r)) \<and> subject_valid (ek_subject (er_key r)) \<and>
     incarnation_valid (er_observed_by r) \<and> er_ttl r > 0 \<and> er_ttl r \<le> kMaxEvidenceTtlNanos"

datatype freshness_state =
  Fresh | Missing | Expired | FutureDated | ForeignIncarnation | AttemptMismatch | JobMismatch

definition to_string_freshness :: "freshness_state \<Rightarrow> string" where
  "to_string_freshness s = (case s of
     Fresh \<Rightarrow> ''fresh'' | Missing \<Rightarrow> ''missing'' | Expired \<Rightarrow> ''expired'' | FutureDated \<Rightarrow> ''future-dated''
   | ForeignIncarnation \<Rightarrow> ''foreign-incarnation'' | AttemptMismatch \<Rightarrow> ''attempt-mismatch''
   | JobMismatch \<Rightarrow> ''job-mismatch'')"

record freshness =
  fr_state :: freshness_state
  fr_age :: nanos
  fr_ttl :: nanos
  fr_detail :: string

definition fresh :: "freshness \<Rightarrow> bool" where
  "fresh f \<longleftrightarrow> fr_state f = Fresh"

record evidence_query =
  eq_key :: evidence_key
  eq_current :: incarnation
  eq_now :: nanos
  eq_job :: job_id
  eq_attempt :: attempt_id

section \<open>The store\<close>

record evidence_store =
  es_records :: "(evidence_key, evidence_record) omap"
  es_capacity :: nat
  es_observations :: u64
  es_rejections :: u64
  es_evictions :: u64

definition new_evidence_store :: "nat \<Rightarrow> evidence_store" where
  "new_evidence_store capacity =
     \<lparr>es_records = [], es_capacity = (if capacity = 0 then 1 else min capacity kMaxEvidenceRecords),
      es_observations = 0, es_rejections = 0, es_evictions = 0\<rparr>"

definition evidence_digest :: "evidence_record \<Rightarrow> u64" where
  "evidence_digest r =
     (let h = dg_str ''mf.evidence.v1'' dg_init;
          h = dg_u32 (of_nat (evidence_kind_code (ek_kind (er_key r)))) h;
          h = dg_str (to_string_subject (ek_subject (er_key r))) h;
          h = dg_u64 (ek_source (er_key r)) h;
          h = dg_u64 (er_revision r) h;
          h = dg_i64 (er_observed_at r) h;
          h = dg_i64 (er_ttl r) h;
          h = dg_u32 (evidence_class_code (er_klass r)) h;
          h = dg_u32 (health_code (ep_health (er_payload r))) h;
          h = dg_u32 (ep_available_units (er_payload r)) h;
          h = dg_u32 (ep_total_units (er_payload r)) h;
          h = dg_bool (ep_result (er_payload r)) h;
          h = dg_u32 (ep_count (er_payload r)) h;
          h = dg_str (to_string_incarnation (er_observed_by r)) h
      in dg_u64 (er_job r) h)"

definition expired_by :: "nanos \<Rightarrow> evidence_record \<Rightarrow> bool" where
  "expired_by now r \<longleftrightarrow> er_observed_at r + er_ttl r \<le> now"

definition evict_expired :: "nanos \<Rightarrow> evidence_store \<Rightarrow> bool \<times> evidence_store" where
  "evict_expired now s =
     (let gone = filter (\<lambda>e. expired_by now (snd e)) (es_records s)
      in (gone \<noteq> [],
          s\<lparr>es_records := om_filter (\<lambda>r. \<not> expired_by now r) (es_records s),
            es_evictions := es_evictions s + of_nat (length gone)\<rparr>))"

definition rejected :: "error \<Rightarrow> evidence_store \<Rightarrow> status \<times> evidence_store" where
  "rejected e s = (Inl e, s\<lparr>es_rejections := es_rejections s + 1\<rparr>)"

definition accepted :: "evidence_record \<Rightarrow> evidence_store \<Rightarrow> status \<times> evidence_store" where
  "accepted r s = (ok_status, s\<lparr>es_records := om_set (er_key r) r (es_records s),
     es_observations := es_observations s + 1\<rparr>)"

definition seal_digest :: "evidence_record \<Rightarrow> evidence_record" where
  "seal_digest r = (if er_digest r = 0 then r\<lparr>er_digest := evidence_digest r\<rparr> else r)"

definition observe :: "evidence_record \<Rightarrow> evidence_store \<Rightarrow> status \<times> evidence_store" where
  "observe r0 s =
     (if \<not> evidence_valid r0 then
        rejected (invalid_argument ''evidence record is not well formed'') s
      else
        let r = seal_digest r0 in
        case om_find (es_records s) (er_key r) of
          Some existing \<Rightarrow>
            if er_revision r \<le> er_revision existing then
              rejected (make_error StaleRevision
                (''evidence revision '' @ to_string_revision (er_revision r) @
                 '' does not advance the stored revision '' @
                 to_string_revision (er_revision existing) @ '' for '' @
                 to_string_evidence_key (er_key r))) s
            else if er_observed_at r < er_observed_at existing then
              rejected (make_error StaleEvidence
                (''evidence observation time regressed for '' @ to_string_evidence_key (er_key r))) s
            else accepted r s
        | None \<Rightarrow>
            if length (es_records s) \<ge> es_capacity s then
              (case evict_expired (er_observed_at r) s of (freed, s') \<Rightarrow>
                 if \<not> freed then
                   rejected (make_error LimitExceeded
                     ''evidence store is full and holds no expired record to evict'') s'
                 else accepted r s')
            else accepted r s)"

definition find_evidence :: "evidence_store \<Rightarrow> evidence_key \<Rightarrow> evidence_record option" where
  "find_evidence s k = om_find (es_records s) k"

definition evaluate :: "evidence_store \<Rightarrow> evidence_query \<Rightarrow> freshness" where
  "evaluate s q =
     (case find_evidence s (eq_key q) of
        None \<Rightarrow> \<lparr>fr_state = Missing, fr_age = 0, fr_ttl = 0,
                 fr_detail = ''no observation recorded for '' @ to_string_evidence_key (eq_key q)\<rparr>
      | Some r \<Rightarrow>
          let judge = (\<lambda>st d. \<lparr>fr_state = st, fr_age = eq_now q - er_observed_at r,
                               fr_ttl = er_ttl r, fr_detail = d\<rparr>)
          in if id_valid (eq_job q) \<and> id_valid (er_job r) \<and> er_job r \<noteq> eq_job q then
               judge JobMismatch (''observation belongs to job '' @ to_string_job (er_job r))
             else if attempt_valid (eq_attempt q) \<and> attempt_valid (er_attempt r) \<and>
                     er_attempt r \<noteq> eq_attempt q then
               judge AttemptMismatch
                 (''observation belongs to attempt '' @ to_string_attempt (er_attempt r))
             else if er_observed_at r - eq_now q > kMaxClockSkewNanos then
               judge FutureDated
                 (''observation is dated in the future by '' @
                  format_duration (er_observed_at r - eq_now q))
             else if er_klass r = Volatile \<and> is_fenced_by (er_observed_by r) (eq_current q) then
               judge ForeignIncarnation
                 (''observation was produced by incarnation '' @
                  to_string_incarnation (er_observed_by r) @
                  '' and must be re-observed by the running incarnation'')
             else if eq_now q > er_observed_at r + er_ttl r then
               judge Expired
                 (''observation is '' @ format_duration (eq_now q - er_observed_at r) @
                  '' old, ttl is '' @ format_duration (er_ttl r))
             else judge Fresh (''fresh observation from '' @ to_string_source (ek_source (eq_key q))))"

definition plain_query :: "evidence_key \<Rightarrow> incarnation \<Rightarrow> nanos \<Rightarrow> evidence_query" where
  "plain_query k current now =
     \<lparr>eq_key = k, eq_current = current, eq_now = now, eq_job = 0, eq_attempt = no_attempt\<rparr>"

definition fresh_sources ::
    "evidence_store \<Rightarrow> evidence_kind \<Rightarrow> evidence_subject \<Rightarrow> incarnation \<Rightarrow> nanos \<Rightarrow> source_id list" where
  "fresh_sources s kind subject current now =
     sort_unique (map (\<lambda>e. ek_source (fst e))
       (filter (\<lambda>e. ek_kind (fst e) = kind \<and> ek_subject (fst e) = subject \<and>
                    fresh (evaluate s (plain_query (fst e) current now))) (es_records s)))"

definition fresh_source_count ::
    "evidence_store \<Rightarrow> evidence_kind \<Rightarrow> evidence_subject \<Rightarrow> incarnation \<Rightarrow> nanos \<Rightarrow> nat" where
  "fresh_source_count s kind subject current now = length (fresh_sources s kind subject current now)"

definition records_for ::
    "evidence_store \<Rightarrow> evidence_kind \<Rightarrow> evidence_subject \<Rightarrow> evidence_record list" where
  "records_for s kind subject =
     map snd (filter (\<lambda>e. ek_kind (fst e) = kind \<and> ek_subject (fst e) = subject) (es_records s))"

definition clear_evidence :: "evidence_store \<Rightarrow> evidence_store" where
  "clear_evidence s = s\<lparr>es_records := [], es_observations := 0, es_rejections := 0, es_evictions := 0\<rparr>"

section \<open>Well-formedness and monotonicity\<close>

definition evidence_wf :: "evidence_store \<Rightarrow> bool" where
  "evidence_wf s \<longleftrightarrow> om_ok (es_records s) \<and> length (es_records s) \<le> es_capacity s \<and>
     (\<forall>k r. find_evidence s k = Some r \<longrightarrow> er_key r = k \<and> evidence_valid r)"

lemma seal_digest_same [simp]:
  "er_key (seal_digest r) = er_key r" "er_revision (seal_digest r) = er_revision r"
  "er_observed_at (seal_digest r) = er_observed_at r" "evidence_valid (seal_digest r) = evidence_valid r"
  by (simp_all add: seal_digest_def evidence_valid_def)

lemma new_evidence_store_wf: "evidence_wf (new_evidence_store n)"
  by (simp add: evidence_wf_def new_evidence_store_def find_evidence_def)

text \<open>Every outcome of \<open>observe\<close> is one of four.\<close>

lemma observe_cases:
  obtains (rejected) e where "observe r s = rejected e s"
  | (updated) old where "observe r s = accepted (seal_digest r) s" "evidence_valid r"
      "find_evidence s (er_key r) = Some old" "er_revision old < er_revision r"
      "er_observed_at old \<le> er_observed_at r"
  | (inserted) "observe r s = accepted (seal_digest r) s" "evidence_valid r"
      "find_evidence s (er_key r) = None" "length (es_records s) < es_capacity s"
  | (full) e s' where "observe r s = rejected e s'" "evict_expired (er_observed_at r) s = (False, s')"
  | (replaced) s' where "observe r s = accepted (seal_digest r) s'" "evidence_valid r"
      "find_evidence s (er_key r) = None" "evict_expired (er_observed_at r) s = (True, s')"
proof (cases "evidence_valid r")
  case False
  then show ?thesis using rejected by (simp add: observe_def)
next
  case valid: True
  note obs = observe_def [of r s] Let_def valid find_evidence_def
  show ?thesis
  proof (cases "find_evidence s (er_key r)")
    case None
    obtain freed s' where ev: "evict_expired (er_observed_at r) s = (freed, s')" by fastforce
    show ?thesis
    proof (cases "es_capacity s \<le> length (es_records s)")
      case True
      then show ?thesis
        using full replaced None ev by (cases freed) (simp_all add: obs)
    next
      case False
      then show ?thesis using inserted None by (simp add: obs)
    qed
  next
    case (Some old)
    consider (stale) "er_revision r \<le> er_revision old" | (regressed) "er_observed_at r < er_observed_at old"
      | (newer) "er_revision old < er_revision r" "er_observed_at old \<le> er_observed_at r"
      by fastforce
    then show ?thesis
    proof cases
      case stale
      then show ?thesis using rejected Some by (simp add: obs)
    next
      case regressed
      then show ?thesis using rejected Some by (cases "er_revision r \<le> er_revision old") (simp_all add: obs)
    next
      case newer
      then have "\<not> er_revision r \<le> er_revision old" "\<not> er_observed_at r < er_observed_at old" by auto
      then have "observe r s = accepted (seal_digest r) s" using Some by (simp add: obs)
      then show ?thesis using updated valid Some newer by blast
    qed
  qed
qed

lemma evict_expired_nothing: "evict_expired now s = (False, s') \<Longrightarrow> s' = s"
  by (auto simp: evict_expired_def Let_def om_filter_def filter_empty_conv)

lemma find_evict:
  assumes "om_ok (es_records s)" "evict_expired now s = (b, s')"
  shows "find_evidence s' k = (case find_evidence s k of
           Some r \<Rightarrow> if expired_by now r then None else Some r | None \<Rightarrow> None)"
  using assms by (auto simp: evict_expired_def Let_def find_evidence_def om_find_filter split: option.splits)

lemma evict_expired_room:
  assumes "evict_expired now s = (True, s')"
  shows "length (es_records s') < length (es_records s)" "es_capacity s' = es_capacity s"
  using assms
  by (auto simp: evict_expired_def Let_def om_filter_def filter_empty_conv intro!: length_filter_less)

lemma evict_expired_wf:
  assumes "evidence_wf s" "evict_expired now s = (b, s')"
  shows "evidence_wf s'"
proof -
  have "om_ok (es_records s)" using assms(1) by (simp add: evidence_wf_def)
  note f = find_evict [OF this assms(2)]
  have "om_ok (es_records s')" "length (es_records s') \<le> length (es_records s)" "es_capacity s' = es_capacity s"
    using assms om_ok_filter [of "es_records s" "\<lambda>r. \<not> expired_by now r"]
    by (auto simp: evidence_wf_def evict_expired_def Let_def om_filter_def)
  then show ?thesis
    using assms(1) by (auto simp: evidence_wf_def f split: option.splits if_splits)
qed

lemma find_rejected [simp]: "find_evidence (snd (rejected e s)) k = find_evidence s k"
  by (simp add: rejected_def find_evidence_def)

lemma find_accepted [simp]:
  "find_evidence (snd (accepted r s)) k = (if k = er_key r then Some r else find_evidence s k)"
  by (simp add: accepted_def find_evidence_def table_simps)

lemma evidence_wf_rejected: "evidence_wf s \<Longrightarrow> evidence_wf (snd (rejected e s))"
  by (simp add: evidence_wf_def) (simp add: rejected_def)

lemma evidence_wf_accepted:
  assumes "evidence_wf s" "evidence_valid r"
    "find_evidence s (er_key r) \<noteq> None \<or> length (es_records s) < es_capacity s"
  shows "evidence_wf (snd (accepted r s))"
proof -
  have ok: "om_ok (es_records s)" and len: "length (es_records s) \<le> es_capacity s"
    using assms(1) by (simp_all add: evidence_wf_def)
  have "length (om_set (er_key r) r (es_records s)) \<le> es_capacity s"
    using assms(3) len by (intro length_om_set_le [OF ok]) (auto simp: find_evidence_def)
  with assms ok show ?thesis
    by (auto simp: evidence_wf_def) (simp_all add: accepted_def table_inv)
qed

lemma observe_keeps_wf:
  assumes "evidence_wf s"
  shows "evidence_wf (snd (observe r s))"
proof (cases rule: observe_cases [of r s])
  case (full e s')
  then show ?thesis
    using evict_expired_nothing assms by (auto intro: evidence_wf_rejected)
next
  case (replaced s')
  note room = evict_expired_room [OF replaced(4)]
  have "length (es_records s') < es_capacity s'"
    using room assms by (simp add: evidence_wf_def)
  then show ?thesis
    using replaced evict_expired_wf [OF assms replaced(4)] by (auto intro!: evidence_wf_accepted)
qed (use assms in \<open>auto intro!: evidence_wf_rejected evidence_wf_accepted\<close>)

text \<open>No observation regresses the revision or the time of a key, and only expired records go.\<close>

lemma observe_monotone:
  assumes "evidence_wf s" "find_evidence s k = Some old"
  shows "case find_evidence (snd (observe r s)) k of
           Some new \<Rightarrow> er_revision old \<le> er_revision new \<and> er_observed_at old \<le> er_observed_at new \<and>
                      (new = old \<or> er_revision old < er_revision new)
         | None \<Rightarrow> expired_by (er_observed_at r) old"
proof (cases rule: observe_cases [of r s])
  case (full e s')
  then show ?thesis using evict_expired_nothing [OF full(2)] assms by auto
next
  case (replaced s')
  then show ?thesis
    using find_evict [OF _ replaced(4), of k] assms by (auto simp: evidence_wf_def)
qed (use assms in auto)

lemma observe_ok_stores:
  assumes "fst (observe r s) = ok_status"
  shows "find_evidence (snd (observe r s)) (er_key r) = Some (seal_digest r)"
  by (cases rule: observe_cases [of r s]) (use assms in \<open>auto simp: rejected_def\<close>)

section \<open>Freshness\<close>

definition bound_to :: "evidence_query \<Rightarrow> evidence_record \<Rightarrow> bool" where
  "bound_to q r \<longleftrightarrow> (id_valid (eq_job q) \<longrightarrow> id_valid (er_job r) \<longrightarrow> er_job r = eq_job q) \<and>
     (attempt_valid (eq_attempt q) \<longrightarrow> attempt_valid (er_attempt r) \<longrightarrow> er_attempt r = eq_attempt q)"

lemma evaluate_fresh_iff:
  "fresh (evaluate s q) \<longleftrightarrow>
     (\<exists>r. find_evidence s (eq_key q) = Some r \<and> bound_to q r \<and>
          er_observed_at r \<le> eq_now q + kMaxClockSkewNanos \<and>
          (er_klass r = Volatile \<longrightarrow> \<not> is_fenced_by (er_observed_by r) (eq_current q)) \<and>
          eq_now q \<le> er_observed_at r + er_ttl r)"
  unfolding evaluate_def fresh_def bound_to_def
  by (cases "find_evidence s (eq_key q)") (auto simp: Let_def)

lemma fresh_sources_iff:
  assumes "om_ok (es_records s)"
  shows "src \<in> set (fresh_sources s kind subject current now) \<longleftrightarrow>
    fresh (evaluate s (plain_query (EvidenceKey kind subject src) current now))"
proof -
  have "fresh (evaluate s (plain_query k current now)) \<Longrightarrow> \<exists>r. (k, r) \<in> set (es_records s)" for k
    using om_in_items [OF assms] by (auto simp: evaluate_fresh_iff plain_query_def find_evidence_def)
  then show ?thesis
    unfolding fresh_sources_def
    by (auto simp: image_iff) (metis evidence_key.exhaust_sel fst_conv evidence_key.sel)+
qed

lemma fresh_sources_ascending: "ascending (fresh_sources s kind subject current now)"
  by (simp add: fresh_sources_def ascending_def)

lemma parse_to_string_evidence_kind: "parse_evidence_kind (to_string_evidence_kind k) = Some k"
  by (cases k) (simp_all add: parse_evidence_kind_def to_string_evidence_kind_def of_name_def name_of_def kKindNames_def)

end
