(* ===== verification/Windows.thy ===== *)
theory Windows
  imports Identity
begin

text \<open>
  Maintenance windows (\<^verbatim>\<open>include/mf/domain/window.hpp\<close>, \<^verbatim>\<open>src/domain/window.cpp\<close>). A
  window gates admission only. \<^verbatim>\<open>std::sort\<close> orders the applicable windows by id; among windows
  that share an id the source leaves the order open, and the model takes the stable one.

  The lemmas characterise when a start is admitted, and say that the window reported with an
  open verdict is the applicable one with the smallest id among those that are open.
\<close>

datatype on_window_close = FinishActiveStep | ExtendToComplete | AbortAndRestore

fun on_close_code :: "on_window_close \<Rightarrow> u32" where
  "on_close_code FinishActiveStep = 0"
| "on_close_code ExtendToComplete = 1"
| "on_close_code AbortAndRestore = 2"

definition to_string_on_close :: "on_window_close \<Rightarrow> string" where
  "to_string_on_close p = (case p of
     FinishActiveStep \<Rightarrow> ''finish-active-step''
   | ExtendToComplete \<Rightarrow> ''extend-to-complete''
   | AbortAndRestore \<Rightarrow> ''abort-and-restore'')"

definition parse_on_window_close :: "string \<Rightarrow> on_window_close option" where
  "parse_on_window_close s =
     (if s = ''finish-active-step'' \<or> s = ''finish'' then Some FinishActiveStep
      else if s = ''extend-to-complete'' \<or> s = ''extend'' then Some ExtendToComplete
      else if s = ''abort-and-restore'' \<or> s = ''abort'' then Some AbortAndRestore
      else None)"

record window =
  w_id :: window_id
  w_name :: string
  w_opens_at :: nanos
  w_closes_at :: nanos
  w_min_lead_time :: nanos
  w_abort_grace :: nanos
  w_on_close :: on_window_close
  w_targets :: "target_id list"

definition applies_to :: "window \<Rightarrow> target_id \<Rightarrow> bool" where
  "applies_to w t = (if w_targets w = [] then True else t \<in> set (w_targets w))"

definition covers_instant :: "window \<Rightarrow> nanos \<Rightarrow> bool" where
  "covers_instant w i \<longleftrightarrow> i \<ge> w_opens_at w \<and> i < w_closes_at w"

definition window_closed_after :: "window \<Rightarrow> nanos \<Rightarrow> bool" where
  "window_closed_after w now \<longleftrightarrow> now \<ge> w_closes_at w"

datatype window_verdict =
  NoWindowConfigured | Open | NotYetOpen | TooLateToStart | Closed | NoMatchingWindow

definition to_string_verdict :: "window_verdict \<Rightarrow> string" where
  "to_string_verdict v = (case v of
     NoWindowConfigured \<Rightarrow> ''no-window-configured'' | Open \<Rightarrow> ''open'' | NotYetOpen \<Rightarrow> ''not-yet-open''
   | TooLateToStart \<Rightarrow> ''too-late-to-start'' | Closed \<Rightarrow> ''closed'' | NoMatchingWindow \<Rightarrow> ''no-matching-window'')"

record window_evaluation =
  we_verdict :: window_verdict
  we_window :: window_id
  we_closes_at :: nanos
  we_remaining :: nanos
  we_detail :: string

definition allows_start :: "window_evaluation \<Rightarrow> bool" where
  "allows_start e \<longleftrightarrow> we_verdict e = Open \<or> we_verdict e = NoWindowConfigured"

definition window_matches :: "target_id list \<Rightarrow> window \<Rightarrow> bool" where
  "window_matches targets w \<longleftrightarrow> targets = [] \<or> (\<exists>t \<in> set targets. applies_to w t)"

definition classify_window :: "nanos \<Rightarrow> window \<Rightarrow> window_verdict" where
  "classify_window now w =
     (if now < w_opens_at w then NotYetOpen
      else if now \<ge> w_closes_at w then Closed
      else if w_closes_at w - now < w_min_lead_time w then TooLateToStart
      else Open)"

definition window_detail :: "window \<Rightarrow> window_verdict \<Rightarrow> string" where
  "window_detail w v = (case v of
     Open \<Rightarrow> ''window '' @ to_string_window (w_id w) @ '' is open with lead time satisfied''
   | NotYetOpen \<Rightarrow> ''window '' @ to_string_window (w_id w) @ '' has not opened yet''
   | TooLateToStart \<Rightarrow> ''window '' @ to_string_window (w_id w) @ '' closes sooner than the required lead time''
   | Closed \<Rightarrow> ''window '' @ to_string_window (w_id w) @ '' is closed''
   | _ \<Rightarrow> [])"

definition evaluate_window :: "window list \<Rightarrow> target_id list \<Rightarrow> nanos \<Rightarrow> bool \<Rightarrow> window_evaluation" where
  "evaluate_window windows targets now require_window =
     (let applicable = sort_key w_id (filter (window_matches targets) windows) in
      case applicable of
        [] \<Rightarrow>
          (if require_window then
             \<lparr>we_verdict = NoMatchingWindow, we_window = 0, we_closes_at = 0, we_remaining = 0,
              we_detail = ''policy requires a maintenance window and none matches the job targets''\<rparr>
           else
             \<lparr>we_verdict = NoWindowConfigured, we_window = 0, we_closes_at = 0, we_remaining = 0,
              we_detail = ''no maintenance window configured; admission is not window gated''\<rparr>)
      | front # _ \<Rightarrow>
          let best_open = find (\<lambda>w. classify_window now w = Open) applicable;
              chosen = (case best_open of Some w \<Rightarrow> w | None \<Rightarrow> front);
              verdict = (if best_open \<noteq> None then Open else classify_window now chosen)
          in \<lparr>we_verdict = verdict, we_window = w_id chosen, we_closes_at = w_closes_at chosen,
              we_remaining = w_closes_at chosen - now, we_detail = window_detail chosen verdict\<rparr>)"

section \<open>Lemmas\<close>

lemma classify_open_iff:
  "classify_window now w = Open \<longleftrightarrow> covers_instant w now \<and> w_min_lead_time w \<le> w_closes_at w - now"
  by (auto simp: classify_window_def covers_instant_def)

lemma classify_cases: "classify_window now w \<in> {Open, NotYetOpen, Closed, TooLateToStart}"
  by (simp add: classify_window_def)

definition applicable_windows :: "window list \<Rightarrow> target_id list \<Rightarrow> window set" where
  "applicable_windows windows targets = {w \<in> set windows. window_matches targets w}"

lemma applicable_sorted:
  "set (sort_key w_id (filter (window_matches targets) windows)) = applicable_windows windows targets"
  by (simp add: applicable_windows_def)

lemma find_sorted_least:
  "sorted (map f xs) \<Longrightarrow> find P xs = Some x \<Longrightarrow> y \<in> set xs \<Longrightarrow> P y \<Longrightarrow> f x \<le> f y"
  by (induction xs) (auto split: if_splits)

lemma evaluate_window_none:
  assumes "applicable_windows windows targets = {}"
  shows "we_verdict (evaluate_window windows targets now req) = (if req then NoMatchingWindow else NoWindowConfigured)"
proof -
  have "filter (window_matches targets) windows = []"
    using assms by (auto simp: applicable_windows_def filter_empty_conv)
  then show ?thesis by (simp add: evaluate_window_def Let_def)
qed

lemma evaluate_window_some:
  assumes "applicable_windows windows targets \<noteq> {}"
  obtains chosen where
    "chosen \<in> applicable_windows windows targets"
    "we_verdict (evaluate_window windows targets now req) = classify_window now chosen"
    "we_window (evaluate_window windows targets now req) = w_id chosen"
    "\<And>w. w \<in> applicable_windows windows targets \<Longrightarrow> classify_window now w = Open \<Longrightarrow>
       classify_window now chosen = Open \<and> w_id chosen \<le> w_id w"
    "\<And>w. w \<in> applicable_windows windows targets \<Longrightarrow> classify_window now chosen \<noteq> Open \<Longrightarrow> w_id chosen \<le> w_id w"
proof -
  let ?ws = "sort_key w_id (filter (window_matches targets) windows)"
  have sorted: "sorted (map w_id ?ws)" by simp
  have set: "set ?ws = applicable_windows windows targets" by (rule applicable_sorted)
  with assms obtain front rest where ws: "?ws = front # rest" by (cases ?ws) auto
  note ev = evaluate_window_def [of windows targets now req] ws Let_def
  show ?thesis
  proof (cases "find (\<lambda>w. classify_window now w = Open) ?ws")
    case None
    then have no: "classify_window now w \<noteq> Open" if "w \<in> applicable_windows windows targets" for w
      using that set by (auto simp: find_None_iff)
    have front: "front \<in> applicable_windows windows targets" using ws set by auto
    have least: "w_id front \<le> w_id w" if "w \<in> applicable_windows windows targets" for w
      using that sorted set unfolding ws by auto
    show ?thesis
      by (rule that [of front]) (use None ws front no least in \<open>simp_all add: ev\<close>)
  next
    case (Some w)
    then have w: "w \<in> applicable_windows windows targets" "classify_window now w = Open"
      using set find_SomeD [OF Some] by simp_all
    have least: "w_id w \<le> w_id v" if "v \<in> applicable_windows windows targets" "classify_window now v = Open" for v
      using find_sorted_least [OF sorted Some, of v] that by (simp add: applicable_windows_def)
    show ?thesis
      by (rule that [of w]) (use Some ws w least in \<open>simp_all add: ev\<close>)
  qed
qed

lemma allows_start_iff:
  "allows_start (evaluate_window windows targets now req) \<longleftrightarrow>
     (if applicable_windows windows targets = {} then \<not> req
      else \<exists>w \<in> applicable_windows windows targets. classify_window now w = Open)"
proof (cases "applicable_windows windows targets = {}")
  case True
  then show ?thesis by (simp add: allows_start_def evaluate_window_none)
next
  case False
  obtain c where "c \<in> applicable_windows windows targets"
    "we_verdict (evaluate_window windows targets now req) = classify_window now c"
    "\<And>w. w \<in> applicable_windows windows targets \<Longrightarrow> classify_window now w = Open \<Longrightarrow> classify_window now c = Open"
    by (rule evaluate_window_some [OF False, of now req]) blast
  with False show ?thesis
    using classify_cases [of now c] by (auto simp: allows_start_def)
qed

lemma parse_to_string_on_close: "parse_on_window_close (to_string_on_close p) = Some p"
  by (cases p) (simp_all add: parse_on_window_close_def to_string_on_close_def)

end
