(* ===== verification/Policies.thy ===== *)
theory Policies
  imports Evidence Windows
begin

text \<open>
  Operator policy (\<^verbatim>\<open>include/mf/domain/policy.hpp\<close>, \<^verbatim>\<open>src/domain/policy.cpp\<close>): redundancy,
  failure-domain, headroom and availability rules, windows, priority tiers and evidence bounds.
  Counts are 32-bit words with the wrap-around of the source.

  The lemmas say what \<open>validate\<close> guarantees about each rule (in particular that the required
  number of serving units does not wrap), which contracts a set of targets touches, and that
  tiers rank in the order of their indices with unknown tiers last.
\<close>

record redundancy_rule =
  rr_pool :: pool_id
  rr_min_viable :: u32
  rr_tolerated_losses :: u32
  rr_name :: string

definition required_serving_units :: "redundancy_rule \<Rightarrow> u32" where
  "required_serving_units r = rr_min_viable r + rr_tolerated_losses r"

record domain_limit_rule =
  dl_domain :: domain_id
  dl_max_out :: u32
  dl_name :: string

record headroom_rule =
  hr_pool :: pool_id
  hr_reserve_units :: u32
  hr_name :: string

record contract =
  c_id :: contract_id
  c_name :: string
  c_members :: "target_id list"
  c_min_available :: u32
  c_require_fresh_evidence :: bool

record priority_tier =
  pt_index :: u32
  pt_name :: string

record policy =
  po_redundancy :: "redundancy_rule list"
  po_domain_limits :: "domain_limit_rule list"
  po_headroom :: "headroom_rule list"
  po_contracts :: "contract list"
  po_windows :: "window list"
  po_tiers :: "priority_tier list"
  po_evidence_ttl :: "(evidence_kind, nanos) omap"
  po_min_evidence_sources :: u32
  po_require_window :: bool
  po_max_precondition_age :: nanos
  po_default_duration :: nanos
  po_max_concurrent_jobs :: u32
  po_authority_lease :: nanos
  po_drain_lease :: nanos
  po_max_drain_failures_before_block :: u32
  po_max_verification_attempts :: u32
  po_max_restoration_attempts :: u32
  po_revision :: revision

definition default_policy :: policy where
  "default_policy = \<lparr>po_redundancy = [], po_domain_limits = [], po_headroom = [], po_contracts = [],
     po_windows = [], po_tiers = [], po_evidence_ttl = [], po_min_evidence_sources = 1,
     po_require_window = False, po_max_precondition_age = kMaxPreconditionAgeNanos,
     po_default_duration = 10 * kNanosPerMinute, po_max_concurrent_jobs = 64,
     po_authority_lease = kDefaultAuthorityLeaseNanos, po_drain_lease = kDefaultDrainLeaseNanos,
     po_max_drain_failures_before_block = 3, po_max_verification_attempts = 3,
     po_max_restoration_attempts = 3, po_revision = 0\<rparr>"

definition default_redundancy_rule :: "pool_id \<Rightarrow> redundancy_rule" where
  "default_redundancy_rule p =
     \<lparr>rr_pool = p, rr_min_viable = 1, rr_tolerated_losses = 0, rr_name = ''conservative-default''\<rparr>"

definition redundancy_for :: "policy \<Rightarrow> pool_id \<Rightarrow> redundancy_rule" where
  "redundancy_for po p =
     (case find (\<lambda>r. rr_pool r = p) (po_redundancy po) of
        Some r \<Rightarrow> r | None \<Rightarrow> default_redundancy_rule p)"

definition headroom_for :: "policy \<Rightarrow> pool_id \<Rightarrow> headroom_rule option" where
  "headroom_for po p = find (\<lambda>r. hr_pool r = p) (po_headroom po)"

definition domain_limits_for :: "policy \<Rightarrow> domain_id \<Rightarrow> domain_limit_rule list" where
  "domain_limits_for po d = filter (\<lambda>r. dl_domain r = d) (po_domain_limits po)"

definition has_domain_limit :: "policy \<Rightarrow> domain_id \<Rightarrow> bool" where
  "has_domain_limit po d \<longleftrightarrow> (\<exists>r \<in> set (po_domain_limits po). dl_domain r = d)"

definition policy_contract :: "policy \<Rightarrow> contract_id \<Rightarrow> contract option" where
  "policy_contract po i = find (\<lambda>c. c_id c = i) (po_contracts po)"

definition contracts_touching :: "policy \<Rightarrow> target_id list \<Rightarrow> contract list" where
  "contracts_touching po targets =
     sort_key c_id (filter (\<lambda>c. \<exists>m \<in> set (c_members c). m \<in> set targets) (po_contracts po))"

definition ttl_for :: "policy \<Rightarrow> evidence_kind \<Rightarrow> nanos" where
  "ttl_for po k = (case om_find (po_evidence_ttl po) k of
     None \<Rightarrow> kDefaultEvidenceTtlNanos | Some t \<Rightarrow> t)"

definition has_ttl :: "policy \<Rightarrow> evidence_kind \<Rightarrow> bool" where
  "has_ttl po k \<longleftrightarrow> om_find (po_evidence_ttl po) k \<noteq> None"

fun index_in :: "'a \<Rightarrow> 'a list \<Rightarrow> nat \<Rightarrow> nat option" where
  "index_in x [] i = None"
| "index_in x (y # ys) i = (if y = x then Some i else index_in x ys (Suc i))"

definition tier_rank :: "policy \<Rightarrow> u32 \<Rightarrow> u32" where
  "tier_rank po t =
     (let indices = sort_unique (map pt_index (po_tiers po)) in
      case index_in t indices 0 of
        Some i \<Rightarrow> of_nat i
      | None \<Rightarrow> of_nat (length indices))"

definition known_tier :: "policy \<Rightarrow> u32 \<Rightarrow> bool" where
  "known_tier po t \<longleftrightarrow> (\<exists>p \<in> set (po_tiers po). pt_index p = t)"

definition policy_window :: "policy \<Rightarrow> window_id \<Rightarrow> window option" where
  "policy_window po i = find (\<lambda>w. w_id w = i) (po_windows po)"

section \<open>Validation\<close>

definition validate_bounds :: "policy \<Rightarrow> status" where
  "validate_bounds po =
     (if length (po_redundancy po) > kMaxRedundancyRules then
        Inl (make_error LimitExceeded ''too many redundancy rules'')
      else if length (po_domain_limits po) > kMaxDomainLimitRules then
        Inl (make_error LimitExceeded ''too many failure-domain limit rules'')
      else if length (po_contracts po) > kMaxContracts then
        Inl (make_error LimitExceeded ''too many availability contracts'')
      else if length (po_windows po) > kMaxWindowRules then
        Inl (make_error LimitExceeded ''too many maintenance windows'')
      else if length (po_tiers po) > kMaxPriorityTiers then
        Inl (make_error LimitExceeded ''too many priority tiers'')
      else if po_min_evidence_sources po = 0 \<or>
              unat (po_min_evidence_sources po) > kMaxEvidenceSourcesPerKey then
        Inl (invalid_argument ''min_evidence_sources is out of range'')
      else if po_max_precondition_age po \<le> 0 \<or>
              po_max_precondition_age po > kMaxPreconditionAgeNanos then
        Inl (invalid_argument ''max_precondition_age is out of range'')
      else if po_default_duration po \<le> 0 then
        Inl (invalid_argument ''default_duration must be positive'')
      else if po_max_concurrent_jobs po = 0 \<or>
              unat (po_max_concurrent_jobs po) > kMaxLiveReservations then
        Inl (invalid_argument ''max_concurrent_jobs is out of range'')
      else if po_authority_lease po < kMinDrainLeaseNanos \<or>
              po_authority_lease po > kMaxAuthorityLeaseNanos then
        Inl (invalid_argument ''authority_lease is out of range'')
      else if po_drain_lease po < kMinDrainLeaseNanos \<or> po_drain_lease po > kMaxDrainLeaseNanos then
        Inl (invalid_argument ''drain_lease is out of range'')
      else if po_max_drain_failures_before_block po = 0 \<or> po_max_verification_attempts po = 0 \<or>
              po_max_restoration_attempts po = 0 then
        Inl (invalid_argument ''retry bounds must be at least one'')
      else if \<not> known_tier po 0 \<and> po_tiers po \<noteq> [] then
        Inl (invalid_argument ''priority tier 0 must be declared'')
      else ok_status)"

definition validate_redundancy :: "redundancy_rule \<Rightarrow> status" where
  "validate_redundancy r =
     (if \<not> id_valid (rr_pool r) then
        Inl (invalid_argument ''redundancy rule references an invalid pool'')
      else if rr_min_viable r = 0 then
        Inl (invalid_argument ''redundancy rule min_viable must be at least one'')
      else if rr_min_viable r + rr_tolerated_losses r < rr_min_viable r then
        Inl (make_error Overflow ''redundancy rule requirement overflowed'')
      else ok_status)"

definition validate_domain_limit :: "domain_limit_rule \<Rightarrow> status" where
  "validate_domain_limit r =
     (if \<not> domain_valid (dl_domain r) then
        Inl (invalid_argument ''failure-domain rule references an invalid domain'')
      else if dl_max_out r = 0 then
        Inl (invalid_argument ''failure-domain rule max_out must be at least one'')
      else ok_status)"

definition validate_contract :: "contract \<Rightarrow> status" where
  "validate_contract c =
     (if \<not> id_valid (c_id c) then Inl (invalid_argument ''contract id is not valid'')
      else if c_members c = [] then
        Inl (invalid_argument (''contract '' @ to_string_contract (c_id c) @ '' has no members''))
      else if c_min_available c = 0 \<or> unat (c_min_available c) > length (c_members c) then
        Inl (invalid_argument
          (''contract '' @ to_string_contract (c_id c) @ '' min_available is out of range''))
      else if adjacent_dup (sort (c_members c)) then
        Inl (invalid_argument (''contract '' @ to_string_contract (c_id c) @ '' repeats a member''))
      else ok_status)"

definition validate_window :: "window \<Rightarrow> status" where
  "validate_window w =
     (if \<not> id_valid (w_id w) then Inl (invalid_argument ''window id is not valid'')
      else if w_closes_at w \<le> w_opens_at w then
        Inl (invalid_argument (''window '' @ to_string_window (w_id w) @ '' closes before it opens''))
      else if w_min_lead_time w < 0 \<or> w_abort_grace w < 0 then
        Inl (invalid_argument
          (''window '' @ to_string_window (w_id w) @ '' has a negative duration bound''))
      else if length (w_targets w) > kMaxWindowTargets then
        Inl (make_error LimitExceeded ''window target list is too large'')
      else ok_status)"

definition validate_ttl :: "evidence_kind \<times> nanos \<Rightarrow> status" where
  "validate_ttl e =
     (if snd e < kMinEvidenceTtlNanos \<or> snd e > kMaxEvidenceTtlNanos then
        Inl (invalid_argument
          (''evidence ttl for '' @ to_string_evidence_kind (fst e) @ '' is out of range''))
      else ok_status)"

fun validate_tiers :: "u32 list \<Rightarrow> priority_tier list \<Rightarrow> status" where
  "validate_tiers seen [] = ok_status"
| "validate_tiers seen (t # ts) =
     (if pt_index t \<in> set seen then
        Inl (invalid_argument (''priority tier '' @ dec_word (pt_index t) @ '' is declared twice''))
      else validate_tiers (pt_index t # seen) ts)"

definition and_then :: "status \<Rightarrow> status \<Rightarrow> status" where
  "and_then a b = (case a of Inl e \<Rightarrow> Inl e | Inr _ \<Rightarrow> b)"

definition validate_policy :: "policy \<Rightarrow> status" where
  "validate_policy po =
     and_then (validate_bounds po)
    (and_then (for_status validate_redundancy (po_redundancy po))
    (and_then (for_status validate_domain_limit (po_domain_limits po))
    (and_then (for_status validate_contract (po_contracts po))
    (and_then (for_status validate_window (po_windows po))
    (and_then (for_status validate_ttl (po_evidence_ttl po))
              (validate_tiers [] (po_tiers po)))))))"

definition policy_digest :: "policy \<Rightarrow> u64" where
  "policy_digest po =
     (let h = dg_str ''mf.policy.v1'' dg_init;
          h = dg_each (\<lambda>r h. dg_str (rr_name r) (dg_u32 (rr_tolerated_losses r)
                (dg_u32 (rr_min_viable r) (dg_u64 (rr_pool r) h))))
              (po_redundancy po) (dg_len (po_redundancy po) h);
          h = dg_each (\<lambda>r h. dg_str (dl_name r) (dg_u32 (dl_max_out r) (dg_domain (dl_domain r) h)))
              (po_domain_limits po) (dg_len (po_domain_limits po) h);
          h = dg_each (\<lambda>r h. dg_str (hr_name r) (dg_u32 (hr_reserve_units r) (dg_u64 (hr_pool r) h)))
              (po_headroom po) (dg_len (po_headroom po) h);
          h = dg_each (\<lambda>c h. dg_bool (c_require_fresh_evidence c) (dg_u32 (c_min_available c)
                (dg_each dg_target (c_members c) (dg_len (c_members c)
                  (dg_str (c_name c) (dg_u64 (c_id c) h))))))
              (po_contracts po) (dg_len (po_contracts po) h);
          h = dg_each (\<lambda>w h. dg_each dg_target (w_targets w) (dg_len (w_targets w)
                (dg_u32 (on_close_code (w_on_close w)) (dg_i64 (w_abort_grace w)
                  (dg_i64 (w_min_lead_time w) (dg_i64 (w_closes_at w) (dg_i64 (w_opens_at w)
                    (dg_str (w_name w) (dg_u64 (w_id w) h)))))))))
              (po_windows po) (dg_len (po_windows po) h);
          h = dg_each (\<lambda>t h. dg_str (pt_name t) (dg_u32 (pt_index t) h))
              (po_tiers po) (dg_len (po_tiers po) h);
          h = dg_each (\<lambda>e h. dg_i64 (snd e) (dg_u32 (of_nat (evidence_kind_code (fst e))) h))
              (po_evidence_ttl po) (dg_len (po_evidence_ttl po) h);
          h = dg_u32 (po_min_evidence_sources po) h;
          h = dg_bool (po_require_window po) h;
          h = dg_i64 (po_max_precondition_age po) h;
          h = dg_i64 (po_default_duration po) h;
          h = dg_u32 (po_max_concurrent_jobs po) h;
          h = dg_i64 (po_authority_lease po) h;
          h = dg_i64 (po_drain_lease po) h;
          h = dg_u32 (po_max_drain_failures_before_block po) h;
          h = dg_u32 (po_max_verification_attempts po) h
      in dg_u32 (po_max_restoration_attempts po) h)"

section \<open>Lemmas\<close>

lemma and_then_ok: "and_then a b = ok_status \<longleftrightarrow> a = ok_status \<and> b = ok_status"
  by (cases a) (simp_all add: and_then_def)

lemma validate_tiers_ok:
  "validate_tiers seen ts = ok_status \<longleftrightarrow> distinct (map pt_index ts) \<and> set (map pt_index ts) \<inter> set seen = {}"
  by (induction ts arbitrary: seen) auto

lemma word_no_wrap: "a \<le> a + b \<longleftrightarrow> unat (a + b) = unat a + unat b" for a b :: "'a::len word"
  by (metis le_add1 unat_plus_simple word_le_nat_alt)

lemma validate_redundancy_ok:
  "validate_redundancy r = ok_status \<longleftrightarrow> id_valid (rr_pool r) \<and> rr_min_viable r \<noteq> 0 \<and>
     unat (required_serving_units r) = unat (rr_min_viable r) + unat (rr_tolerated_losses r)"
  using word_no_wrap [of "rr_min_viable r" "rr_tolerated_losses r"]
  by (auto simp: validate_redundancy_def required_serving_units_def not_less)

lemma validate_contract_ok:
  "validate_contract c = ok_status \<longleftrightarrow> id_valid (c_id c) \<and> distinct (c_members c) \<and>
     0 < unat (c_min_available c) \<and> unat (c_min_available c) \<le> length (c_members c)"
  by (auto simp: validate_contract_def adjacent_dup_sort unat_gt_0)

lemma validate_policy_ok:
  "validate_policy po = ok_status \<longleftrightarrow>
     validate_bounds po = ok_status \<and>
     (\<forall>r \<in> set (po_redundancy po). validate_redundancy r = ok_status) \<and>
     (\<forall>r \<in> set (po_domain_limits po). validate_domain_limit r = ok_status) \<and>
     (\<forall>c \<in> set (po_contracts po). validate_contract c = ok_status) \<and>
     (\<forall>w \<in> set (po_windows po). validate_window w = ok_status) \<and>
     (\<forall>e \<in> set (po_evidence_ttl po). validate_ttl e = ok_status) \<and>
     distinct (map pt_index (po_tiers po))"
  by (simp add: validate_policy_def and_then_ok for_status_ok validate_tiers_ok)

lemma redundancy_for_valid:
  assumes "validate_policy po = ok_status"
  shows "unat (required_serving_units (redundancy_for po p)) =
     unat (rr_min_viable (redundancy_for po p)) + unat (rr_tolerated_losses (redundancy_for po p))"
    and "0 < unat (rr_min_viable (redundancy_for po p))"
  using assms
  by (auto simp: redundancy_for_def validate_policy_ok validate_redundancy_ok default_redundancy_rule_def
      required_serving_units_def unat_gt_0 dest!: find_SomeD split: option.splits)

lemma set_contracts_touching:
  "set (contracts_touching po targets) = {c \<in> set (po_contracts po). set (c_members c) \<inter> set targets \<noteq> {}}"
  by (auto simp: contracts_touching_def)

lemma index_in_spec:
  "index_in x ys i = (if x \<in> set ys then Some (i + length (takeWhile (\<lambda>y. y \<noteq> x) ys)) else None)"
  by (induction ys arbitrary: i) auto

lemma length_takeWhile_ascending:
  assumes "sorted ys" "distinct ys" "x \<in> set ys" "y \<in> set ys" "x < y"
  shows "length (takeWhile (\<lambda>z. z \<noteq> x) ys) < length (takeWhile (\<lambda>z. z \<noteq> y) ys)"
  using assms by (induction ys) auto

lemma length_takeWhile_less: "x \<in> set ys \<Longrightarrow> length (takeWhile (\<lambda>z. z \<noteq> x) ys) < length ys"
  by (induction ys) auto

lemma unat_tier_rank:
  assumes "length (po_tiers po) \<le> kMaxPriorityTiers"
  shows "unat (tier_rank po t) =
    (let is = sort_unique (map pt_index (po_tiers po)) in
     if known_tier po t then length (takeWhile (\<lambda>z. z \<noteq> t) is) else length is)"
proof -
  let ?is = "sort_unique (map pt_index (po_tiers po))"
  have "length ?is \<le> length (po_tiers po)"
    by (metis distinct_card distinct_sort_unique card_length length_map set_sort_unique)
  then have len: "length ?is \<le> 16" using assms by (simp add: limits)
  have known: "t \<in> set ?is \<longleftrightarrow> known_tier po t" by (auto simp: known_tier_def)
  have "length (takeWhile (\<lambda>z. z \<noteq> t) ?is) \<le> 16" using length_takeWhile_le len le_trans by blast
  with len known show ?thesis
    by (simp add: tier_rank_def Let_def index_in_spec unat_of_nat)
qed

lemma tier_rank_order:
  assumes "length (po_tiers po) \<le> kMaxPriorityTiers" "known_tier po s"
  shows "known_tier po t \<Longrightarrow> s < t \<Longrightarrow> tier_rank po s < tier_rank po t"
    and "\<not> known_tier po t \<Longrightarrow> tier_rank po s < tier_rank po t"
proof -
  let ?is = "sort_unique (map pt_index (po_tiers po))"
  have mem: "u \<in> set ?is \<longleftrightarrow> known_tier po u" for u by (auto simp: known_tier_def)
  show "tier_rank po s < tier_rank po t" if "known_tier po t" "s < t"
    using that assms mem length_takeWhile_ascending [of ?is s t]
    by (simp add: word_less_nat_alt unat_tier_rank Let_def)
  show "tier_rank po s < tier_rank po t" if "\<not> known_tier po t"
    using that assms mem length_takeWhile_less [of s ?is]
    by (simp add: word_less_nat_alt unat_tier_rank Let_def)
qed

end
