(* ===== verification/Readiness.thy ===== *)
theory Readiness
  imports Policies
begin

text \<open>
  The readiness view (\<^verbatim>\<open>include/mf/engine/readiness.hpp\<close>, \<^verbatim>\<open>src/engine/readiness.cpp\<close>): the
  health of every target as the engine sees it, built only from evidence that is fresh under
  the running incarnation, taking the worst report of all fresh sources.

  The lemmas show that a target is fresh exactly when enough independent sources report on it,
  and that a target counts as serving only when every one of its fresh sources says so.
\<close>

definition health_severity :: "health \<Rightarrow> nat" where
  "health_severity h = (case h of
     Healthy \<Rightarrow> 0 | Degraded \<Rightarrow> 1 | Down \<Rightarrow> 2 | Retired \<Rightarrow> 3 | HealthUnknown \<Rightarrow> 4)"

record target_readiness =
  rd_target :: target_id
  rd_health :: health
  rd_fresh :: bool
  rd_fresh_sources :: nat
  rd_source :: source_id
  rd_observed_at :: nanos
  rd_state :: freshness_state
  rd_detail :: string

record readiness_view =
  rv_entries :: "(target_id, target_readiness) omap"
  rv_built_at :: nanos

text \<open>The variables of the loop over the fresh sources of one target.\<close>

record source_scan =
  sc_worst :: health
  sc_first :: bool
  sc_source :: source_id
  sc_observed_at :: nanos

definition scan_source :: "evidence_store \<Rightarrow> evidence_subject \<Rightarrow> source_id \<Rightarrow> source_scan \<Rightarrow> source_scan" where
  "scan_source evidence subject src sc =
     (case find_evidence evidence (EvidenceKey TargetHealth subject src) of
        None \<Rightarrow> sc
      | Some observation \<Rightarrow>
          let h = ep_health (er_payload observation);
              sc1 = (if sc_first sc \<or> health_severity h > health_severity (sc_worst sc)
                     then sc\<lparr>sc_worst := h\<rparr> else sc)
          in if sc_first sc then
               sc1\<lparr>sc_source := src, sc_observed_at := er_observed_at observation, sc_first := False\<rparr>
             else if src < sc_source sc1 then sc1\<lparr>sc_source := src\<rparr> else sc1)"

definition readiness_of ::
    "evidence_store \<Rightarrow> policy \<Rightarrow> incarnation \<Rightarrow> nanos \<Rightarrow> target_id \<Rightarrow> target_readiness" where
  "readiness_of evidence po current now i =
     (let sources = fresh_sources evidence TargetHealth (subject_of i) current now;
          is_fresh = length sources \<ge> unat (po_min_evidence_sources po)
      in if sources = [] then
           \<lparr>rd_target = i, rd_health = HealthUnknown, rd_fresh = is_fresh,
            rd_fresh_sources = length sources, rd_source = 0, rd_observed_at = 0, rd_state = Missing,
            rd_detail = ''no fresh target-health evidence from the running incarnation''\<rparr>
         else
           let sc = fold (scan_source evidence (subject_of i)) sources
                 \<lparr>sc_worst = Healthy, sc_first = True, sc_source = 0, sc_observed_at = 0\<rparr>
           in \<lparr>rd_target = i, rd_health = sc_worst sc, rd_fresh = is_fresh,
               rd_fresh_sources = length sources, rd_source = sc_source sc,
               rd_observed_at = sc_observed_at sc, rd_state = Fresh,
               rd_detail = (if is_fresh then
                   ''fresh target-health evidence from '' @ dec_string (length sources) @ '' source(s)''
                 else ''target-health evidence from fewer sources than policy requires'')\<rparr>)"

definition build_view ::
    "topology \<Rightarrow> evidence_store \<Rightarrow> policy \<Rightarrow> incarnation \<Rightarrow> nanos \<Rightarrow> readiness_view" where
  "build_view topo evidence po current now =
     \<lparr>rv_entries = fold (\<lambda>e m. om_emplace (fst e) (readiness_of evidence po current now (fst e)) m)
        (tp_targets topo) [],
      rv_built_at = now\<rparr>"

definition get_readiness :: "readiness_view \<Rightarrow> target_id \<Rightarrow> target_readiness option" where
  "get_readiness v i = om_find (rv_entries v) i"

definition health_of :: "readiness_view \<Rightarrow> target_id \<Rightarrow> health" where
  "health_of v i = (case get_readiness v i of None \<Rightarrow> HealthUnknown | Some e \<Rightarrow> rd_health e)"

definition is_fresh :: "readiness_view \<Rightarrow> target_id \<Rightarrow> bool" where
  "is_fresh v i = (case get_readiness v i of None \<Rightarrow> False | Some e \<Rightarrow> rd_fresh e)"

definition view_is_serving :: "readiness_view \<Rightarrow> target_id \<Rightarrow> bool" where
  "view_is_serving v i =
     (case get_readiness v i of
        None \<Rightarrow> False
      | Some e \<Rightarrow> if \<not> rd_fresh e then False else is_serving (rd_health e))"

definition unfresh :: "readiness_view \<Rightarrow> target_id list \<Rightarrow> target_id list" where
  "unfresh v scope = sort_unique (filter (\<lambda>t. \<not> is_fresh v t) scope)"

definition view_digest :: "readiness_view \<Rightarrow> u64" where
  "view_digest v =
     dg_each (\<lambda>e h.
        let h = dg_target (fst e) h;
            h = dg_u32 (health_code (rd_health (snd e))) h;
            h = dg_bool (rd_fresh (snd e)) h;
            h = dg_u64 (of_nat (rd_fresh_sources (snd e))) h
        in dg_i64 (rd_observed_at (snd e)) h)
      (rv_entries v) (dg_len (rv_entries v) (dg_i64 (rv_built_at v) (dg_str ''mf.readiness.v1'' dg_init)))"

section \<open>Lemmas\<close>

lemma om_find_fold_emplace:
  "om_find (fold (\<lambda>e m. om_emplace (fst e) (f (fst e)) m) es m) k =
     (case om_find m k of Some v \<Rightarrow> Some v | None \<Rightarrow> if k \<in> fst ` set es then Some (f k) else None)"
  by (induction es arbitrary: m) (auto simp: om_emplace_def table_simps split: option.splits)

lemma get_build_view:
  "get_readiness (build_view topo ev po cur now) i =
     (if contains topo i then Some (readiness_of ev po cur now i) else None)"
proof -
  have "contains topo i \<longleftrightarrow> i \<in> fst ` set (tp_targets topo)"
    by (auto simp: contains_def target_def om_find_def map_of_eq_None_iff)
  then show ?thesis by (simp add: get_readiness_def build_view_def om_find_fold_emplace)
qed

lemma is_fresh_build:
  "is_fresh (build_view topo ev po cur now) i \<longleftrightarrow> contains topo i \<and>
     unat (po_min_evidence_sources po) \<le> fresh_source_count ev TargetHealth (subject_of i) cur now"
  by (simp add: is_fresh_def get_build_view readiness_of_def fresh_source_count_def Let_def)

lemma view_serving_iff: "view_is_serving v i \<longleftrightarrow> is_fresh v i \<and> is_serving (health_of v i)"
  by (auto simp: view_is_serving_def is_fresh_def health_of_def split: option.splits)

lemma serving_severity: "is_serving h \<longleftrightarrow> health_severity h \<le> 1"
  by (cases h) (simp_all add: is_serving_def health_severity_def)

lemma scan_source_worst:
  "health_severity (sc_worst sc) \<le> health_severity (sc_worst (scan_source ev sub src sc)) \<or> sc_first sc"
  "find_evidence ev (EvidenceKey TargetHealth sub src) = Some r \<Longrightarrow>
     health_severity (ep_health (er_payload r)) \<le> health_severity (sc_worst (scan_source ev sub src sc))"
  "sc_first (scan_source ev sub src sc) \<Longrightarrow> sc_first sc"
  "find_evidence ev (EvidenceKey TargetHealth sub src) = Some r \<Longrightarrow> \<not> sc_first (scan_source ev sub src sc)"
  by (auto simp: scan_source_def Let_def split: option.splits if_splits)

lemma scan_keeps_worst:
  "\<not> sc_first sc \<Longrightarrow>
   health_severity (sc_worst sc) \<le> health_severity (sc_worst (fold (scan_source ev sub) srcs sc))"
proof (induction srcs arbitrary: sc)
  case (Cons src srcs)
  show ?case
    using Cons.IH [of "scan_source ev sub src sc"] Cons.prems scan_source_worst(1) [of sc ev sub src]
      scan_source_worst(3) [of ev sub src sc]
    by (simp, meson le_trans)
qed simp

lemma scan_covers:
  "src \<in> set srcs \<Longrightarrow> find_evidence ev (EvidenceKey TargetHealth sub src) = Some r \<Longrightarrow>
   health_severity (ep_health (er_payload r)) \<le> health_severity (sc_worst (fold (scan_source ev sub) srcs sc))"
proof (induction srcs arbitrary: sc)
  case (Cons x srcs)
  show ?case
  proof (cases "x = src")
    case True
    let ?sc = "scan_source ev sub src sc"
    have "health_severity (ep_health (er_payload r)) \<le> health_severity (sc_worst ?sc)"
      by (rule scan_source_worst(2) [OF Cons.prems(2)])
    also have "\<dots> \<le> health_severity (sc_worst (fold (scan_source ev sub) srcs ?sc))"
      by (rule scan_keeps_worst) (rule scan_source_worst(4) [OF Cons.prems(2)])
    finally show ?thesis using True by simp
  next
    case False
    with Cons show ?thesis by simp
  qed
qed simp

lemma serving_all_sources:
  assumes "view_is_serving (build_view topo ev po cur now) i"
    and "src \<in> set (fresh_sources ev TargetHealth (subject_of i) cur now)"
    and "find_evidence ev (EvidenceKey TargetHealth (subject_of i) src) = Some r"
  shows "is_serving (ep_health (er_payload r))"
proof -
  have "is_serving (rd_health (readiness_of ev po cur now i))"
    using assms(1) by (auto simp: view_is_serving_def get_build_view split: if_splits)
  moreover have "health_severity (ep_health (er_payload r)) \<le> health_severity (rd_health (readiness_of ev po cur now i))"
    using scan_covers [OF assms(2,3)] assms(2) by (auto simp: readiness_of_def Let_def)
  ultimately show ?thesis by (simp add: serving_severity)
qed

lemma serving_has_source:
  assumes "view_is_serving (build_view topo ev po cur now) i"
  shows "contains topo i" "fresh_sources ev TargetHealth (subject_of i) cur now \<noteq> []"
    "unat (po_min_evidence_sources po) \<le> fresh_source_count ev TargetHealth (subject_of i) cur now"
  using assms
  by (auto simp: view_is_serving_def get_build_view readiness_of_def fresh_source_count_def Let_def
      is_serving_def split: if_splits)

lemma set_unfresh: "set (unfresh v scope) = {t \<in> set scope. \<not> is_fresh v t}"
  by (auto simp: unfresh_def)

end
