(* ===== verification/Ledger.thy ===== *)
theory Ledger
  imports Topology Times
begin

text \<open>
  The authority ledger (\<^verbatim>\<open>include/mf/domain/authority.hpp\<close>, \<^verbatim>\<open>src/domain/authority.cpp\<close>), the
  single point that serialises the right to hold capacity out of service. \<open>reserve\<close> counts
  its refusals, so it returns the ledger with either outcome; the other operations leave the
  ledger alone when they fail.

  The locale \<open>id_allocator\<close> states the contract of an allocator that is advanced past every
  record recovered into its table. It is interpreted on the ledger here and on the quarantine
  table in the theory of jobs. The lemmas show the exact effect of every operation on the
  table, that leases stay bounded, that at most one reservation exists per job generation, and
  what expiry and incarnation fencing leave behind.
\<close>

section \<open>Identifier allocation\<close>

locale id_allocator =
  fixes allocator_next :: "'s \<Rightarrow> u64"
    and held :: "'s \<Rightarrow> u64 set"
    and allocate :: "'s \<Rightarrow> u64 \<times> 's"
    and adopt_record :: "'r \<Rightarrow> 's \<Rightarrow> 's result"
    and record_id :: "'r \<Rightarrow> u64"
  assumes allocate_next: "fst (allocate s) = allocator_next s"
    and adopt_held: "adopt_record r s = Inr s' \<Longrightarrow> held s' = insert (record_id r) (held s)"
    and adopt_next: "adopt_record r s = Inr s' \<Longrightarrow> allocator_next s' =
          (if record_id r \<ge> allocator_next s then next_id (record_id r) else allocator_next s)"
begin

lemma allocate_fresh: "\<forall>i \<in> held s. i < allocator_next s \<Longrightarrow> fst (allocate s) \<notin> held s"
  by (auto simp: allocate_next)

lemma adopt_below:
  assumes "\<forall>i \<in> held s. i < allocator_next s" "adopt_record r s = Inr s'" "record_id r \<noteq> - 1"
  shows "\<forall>i \<in> held s'. i < allocator_next s'"
proof -
  have up: "record_id r < next_id (record_id r)"
    using assms(3) by (rule next_id_greater)
  show ?thesis
    using assms(1) up unfolding adopt_held [OF assms(2)] adopt_next [OF assms(2)]
    by (auto intro: less_le_trans less_trans)
qed

text \<open>Recovery: adopting any sequence of records leaves the next identifier unused.\<close>

fun adopt_all :: "'r list \<Rightarrow> 's \<Rightarrow> 's result" where
  "adopt_all [] s = Inr s"
| "adopt_all (r # rs) s = (case adopt_record r s of Inl e \<Rightarrow> Inl e | Inr s' \<Rightarrow> adopt_all rs s')"

lemma adopt_all_fresh:
  "\<forall>i \<in> held s. i < allocator_next s \<Longrightarrow> adopt_all rs s = Inr s' \<Longrightarrow> - 1 \<notin> record_id ` set rs \<Longrightarrow>
   held s' = held s \<union> record_id ` set rs \<and> fst (allocate s') \<notin> held s'"
proof (induction rs arbitrary: s)
  case Nil
  then show ?case by (auto simp: allocate_next)
next
  case (Cons r rs)
  then obtain s1 where s1: "adopt_record r s = Inr s1" "adopt_all rs s1 = Inr s'"
    by (auto split: sum.splits)
  have "\<forall>i \<in> held s1. i < allocator_next s1"
    using adopt_below [OF Cons.prems(1) s1(1)] Cons.prems(3) by auto
  from Cons.IH [OF this s1(2)] Cons.prems(3) adopt_held [OF s1(1)] show ?case by auto
qed

end

section \<open>Reservations\<close>

record reservation =
  ra_id :: authority_id
  ra_job :: job_id
  ra_generation :: generation_id
  ra_attempt :: attempt_id
  ra_owner :: incarnation
  ra_targets :: "target_id list"
  ra_domains :: "domain_id list"
  ra_pools :: "pool_id list"
  ra_revision :: revision
  ra_granted_at :: nanos
  ra_expires_at :: nanos
  ra_digest :: u64

definition live_at :: "nanos \<Rightarrow> reservation \<Rightarrow> bool" where
  "live_at now r \<longleftrightarrow> now < ra_expires_at r"

definition covers :: "reservation \<Rightarrow> target_id \<Rightarrow> bool" where
  "covers r t \<longleftrightarrow> t \<in> set (ra_targets r)"

definition reservation_to_text :: "reservation \<Rightarrow> string" where
  "reservation_to_text r =
     to_string_authority (ra_id r) @ '' job='' @ to_string_job (ra_job r) @
     '' gen='' @ to_string_generation (ra_generation r) @
     '' owner='' @ to_string_incarnation (ra_owner r) @
     '' targets='' @ dec_string (length (ra_targets r)) @
     '' expires='' @ format_time (ra_expires_at r)"

definition reservation_digest :: "reservation \<Rightarrow> u64" where
  "reservation_digest r =
     (let h = dg_str ''mf.authority.v1'' dg_init;
          h = dg_u64 (ra_id r) h;
          h = dg_u64 (ra_job r) h;
          h = dg_u64 (ra_generation r) h;
          h = dg_str (to_string_attempt (ra_attempt r)) h;
          h = dg_str (to_string_incarnation (ra_owner r)) h;
          h = dg_each dg_target (ra_targets r) (dg_len (ra_targets r) h);
          h = dg_each dg_domain (ra_domains r) (dg_len (ra_domains r) h);
          h = dg_each dg_u64 (ra_pools r) (dg_len (ra_pools r) h);
          h = dg_i64 (ra_granted_at r) h
      in dg_i64 (ra_expires_at r) h)"

section \<open>The ledger\<close>

record ledger =
  lg_reservations :: "(authority_id, reservation) omap"
  lg_next_id :: authority_id
  lg_default_lease :: nanos
  lg_granted :: u64
  lg_denied :: u64
  lg_expired :: u64

definition new_ledger :: "nanos \<Rightarrow> ledger" where
  "new_ledger default_lease =
     \<lparr>lg_reservations = [], lg_next_id = 1,
      lg_default_lease = (if default_lease \<le> 0 then kDefaultAuthorityLeaseNanos else default_lease),
      lg_granted = 0, lg_denied = 0, lg_expired = 0\<rparr>"

definition find_reservation :: "ledger \<Rightarrow> authority_id \<Rightarrow> reservation option" where
  "find_reservation l i = om_find (lg_reservations l) i"

definition find_for_job :: "ledger \<Rightarrow> job_id \<Rightarrow> generation_id \<Rightarrow> reservation option" where
  "find_for_job l job generation =
     find (\<lambda>r. ra_job r = job \<and> ra_generation r = generation) (om_values (lg_reservations l))"

definition take_authority_id :: "ledger \<Rightarrow> authority_id \<times> ledger" where
  "take_authority_id l = (lg_next_id l, l\<lparr>lg_next_id := next_id (lg_next_id l)\<rparr>)"

definition deny :: "error \<Rightarrow> ledger \<Rightarrow> authority_id result \<times> ledger" where
  "deny e l = (Inl e, l\<lparr>lg_denied := lg_denied l + 1\<rparr>)"

definition reserve :: "reservation \<Rightarrow> ledger \<Rightarrow> authority_id result \<times> ledger" where
  "reserve r l =
     (if \<not> id_valid (ra_job r) \<or> \<not> id_valid (ra_generation r) then
        deny (invalid_argument ''authority reservation is missing a job or generation'') l
      else if \<not> attempt_valid (ra_attempt r) then
        deny (invalid_argument ''authority reservation is missing an attempt identity'') l
      else if \<not> incarnation_valid (ra_owner r) then
        deny (invalid_argument ''authority reservation is missing an owning incarnation'') l
      else if ra_targets r = [] then
        deny (invalid_argument ''authority reservation covers no targets'') l
      else if ra_expires_at r \<le> ra_granted_at r then
        deny (invalid_argument ''authority reservation lease is not positive'') l
      else if ra_expires_at r - ra_granted_at r > kMaxAuthorityLeaseNanos then
        deny (invalid_argument ''authority reservation lease exceeds the maximum'') l
      else if find_for_job l (ra_job r) (ra_generation r) \<noteq> None then
        deny (make_error AlreadyExists
          (''job '' @ to_string_job (ra_job r) @ '' generation '' @
           to_string_generation (ra_generation r) @ '' already holds maintenance authority'')) l
      else if length (lg_reservations l) \<ge> kMaxLiveReservations then
        deny (make_error LimitExceeded ''authority ledger is at capacity'') l
      else
        let (i, l1) = take_authority_id l;
            r1 = r\<lparr>ra_id := i, ra_revision := 1\<rparr>;
            r2 = r1\<lparr>ra_digest := reservation_digest r1\<rparr>
        in (Inr i, l1\<lparr>lg_reservations := om_emplace i r2 (lg_reservations l1),
                      lg_granted := lg_granted l1 + 1\<rparr>))"

definition adopt_reservation :: "reservation \<Rightarrow> ledger \<Rightarrow> ledger result" where
  "adopt_reservation r0 l =
     (if \<not> id_valid (ra_id r0) \<or> \<not> id_valid (ra_job r0) then
        Inl (invalid_argument ''persisted authority reservation is not well formed'')
      else
        let r = (if ra_digest r0 = 0 then r0\<lparr>ra_digest := reservation_digest r0\<rparr> else r0);
            n = (if ra_id r \<ge> lg_next_id l then next_id (ra_id r) else lg_next_id l)
        in Inr (l\<lparr>lg_next_id := n, lg_reservations := om_set (ra_id r) r (lg_reservations l)\<rparr>))"

definition erase_reservation :: "authority_id \<Rightarrow> ledger \<Rightarrow> nat \<times> ledger" where
  "erase_reservation i l =
     (if find_reservation l i = None then 0 else 1,
      l\<lparr>lg_reservations := om_erase i (lg_reservations l)\<rparr>)"

definition not_held :: "authority_id \<Rightarrow> error" where
  "not_held i = make_error NotFound (''authority reservation '' @ to_string_authority i @ '' is not held'')"

definition release :: "authority_id \<Rightarrow> incarnation \<Rightarrow> ledger \<Rightarrow> ledger result" where
  "release i current l =
     (case find_reservation l i of
        None \<Rightarrow> Inl (not_held i)
      | Some r \<Rightarrow>
          if ra_owner r \<noteq> current then
            Inl (make_error StaleIncarnation
              (''authority reservation '' @ to_string_authority i @ '' is owned by incarnation '' @
               to_string_incarnation (ra_owner r) @ '', not '' @ to_string_incarnation current))
          else Inr (l\<lparr>lg_reservations := om_erase i (lg_reservations l)\<rparr>))"

definition renew :: "authority_id \<Rightarrow> attempt_id \<Rightarrow> incarnation \<Rightarrow> nanos \<Rightarrow> nanos \<Rightarrow> ledger \<Rightarrow> ledger result" where
  "renew i attempt current extension now l =
     (case find_reservation l i of
        None \<Rightarrow> Inl (not_held i)
      | Some r \<Rightarrow>
          if ra_owner r \<noteq> current then
            Inl (make_error StaleIncarnation
              (''authority reservation '' @ to_string_authority i @ '' is owned by incarnation '' @
               to_string_incarnation (ra_owner r)))
          else if ra_attempt r \<noteq> attempt then
            Inl (make_error StaleAttempt
              (''authority reservation '' @ to_string_authority i @ '' belongs to attempt '' @
               to_string_attempt (ra_attempt r) @ '', not '' @ to_string_attempt attempt))
          else if extension \<le> 0 then
            Inl (invalid_argument ''authority renewal must extend by a positive duration'')
          else
            let base = (if ra_expires_at r > now then ra_expires_at r else now) in
            if extension > kMaxAuthorityLeaseNanos - (base - now) then
              Inl (invalid_argument ''authority renewal would exceed the maximum lease'')
            else
              let r1 = r\<lparr>ra_expires_at := base + extension, ra_revision := next_id (ra_revision r)\<rparr>;
                  r2 = r1\<lparr>ra_digest := reservation_digest r1\<rparr>
              in Inr (l\<lparr>lg_reservations := om_set i r2 (lg_reservations l)\<rparr>))"

definition consume :: "authority_id \<Rightarrow> incarnation \<Rightarrow> ledger \<Rightarrow> status" where
  "consume i current l =
     (case find_reservation l i of
        None \<Rightarrow> Inl (not_held i)
      | Some r \<Rightarrow>
          if ra_owner r \<noteq> current then
            Inl (make_error StaleIncarnation
              (''authority reservation '' @ to_string_authority i @ '' is owned by incarnation '' @
               to_string_incarnation (ra_owner r)))
          else ok_status)"

definition expire :: "nanos \<Rightarrow> ledger \<Rightarrow> nat \<times> ledger" where
  "expire now l =
     (let removed = length (filter (\<lambda>e. \<not> live_at now (snd e)) (lg_reservations l))
      in (removed, l\<lparr>lg_reservations := om_filter (live_at now) (lg_reservations l),
                     lg_expired := lg_expired l + of_nat removed\<rparr>))"

definition fence_older_incarnations :: "incarnation \<Rightarrow> ledger \<Rightarrow> reservation list \<times> ledger" where
  "fence_older_incarnations current l =
     (sort_key ra_id (filter (\<lambda>r. is_fenced_by (ra_owner r) current) (om_values (lg_reservations l))),
      l\<lparr>lg_reservations := om_filter (\<lambda>r. \<not> is_fenced_by (ra_owner r) current) (lg_reservations l)\<rparr>)"

definition live :: "nanos \<Rightarrow> ledger \<Rightarrow> reservation list" where
  "live now l = filter (live_at now) (om_values (lg_reservations l))"

definition reserved_targets :: "nanos \<Rightarrow> ledger \<Rightarrow> target_id list" where
  "reserved_targets now l =
     sort (fold (\<lambda>r out. fold (\<lambda>t out. push_unique out t) (ra_targets r) out) (live now l) [])"

definition clear_ledger :: "ledger \<Rightarrow> ledger" where
  "clear_ledger l = l\<lparr>lg_reservations := [], lg_next_id := 1, lg_granted := 0, lg_denied := 0, lg_expired := 0\<rparr>"

section \<open>Invariant\<close>

definition ledger_ids :: "ledger \<Rightarrow> authority_id set" where
  "ledger_ids l = fst ` set (lg_reservations l)"

definition ledger_wf :: "ledger \<Rightarrow> bool" where
  "ledger_wf l \<longleftrightarrow> om_ok (lg_reservations l) \<and>
     (\<forall>i r. find_reservation l i = Some r \<longrightarrow> ra_id r = i \<and> i < lg_next_id l) \<and>
     (\<forall>i j r q. find_reservation l i = Some r \<longrightarrow> find_reservation l j = Some q \<longrightarrow>
        ra_job r = ra_job q \<longrightarrow> ra_generation r = ra_generation q \<longrightarrow> i = j)"

interpretation ledger_ids: id_allocator lg_next_id ledger_ids take_authority_id adopt_reservation ra_id
proof unfold_locales
  fix l :: ledger and r l'
  show "fst (take_authority_id l) = lg_next_id l" by (simp add: take_authority_id_def)
  assume adopt: "adopt_reservation r l = Inr l'"
  define q where "q = (if ra_digest r = 0 then r\<lparr>ra_digest := reservation_digest r\<rparr> else r)"
  have q: "ra_id q = ra_id r" by (simp add: q_def)
  have l': "l' = l\<lparr>lg_next_id := (if ra_id r \<ge> lg_next_id l then next_id (ra_id r) else lg_next_id l),
       lg_reservations := om_set (ra_id r) q (lg_reservations l)\<rparr>"
    using adopt q unfolding adopt_reservation_def Let_def q_def [symmetric] by (simp split: if_splits)
  show "ledger_ids l' = insert (ra_id r) (ledger_ids l)"
    by (simp add: l' ledger_ids_def set_keys_om_set)
  show "lg_next_id l' = (if ra_id r \<ge> lg_next_id l then next_id (ra_id r) else lg_next_id l)"
    by (simp add: l')
qed

lemma ledger_wf_ok: "ledger_wf l \<Longrightarrow> om_ok (lg_reservations l)"
  by (simp add: ledger_wf_def)

lemma in_reservations:
  "ledger_wf l \<Longrightarrow> r \<in> set (om_values (lg_reservations l)) \<longleftrightarrow> find_reservation l (ra_id r) = Some r"
proof
  assume wf: "ledger_wf l" and "r \<in> set (om_values (lg_reservations l))"
  then obtain i where "(i, r) \<in> set (lg_reservations l)" by auto
  then have "find_reservation l i = Some r"
    using om_in_items [OF ledger_wf_ok [OF wf], of "(i, r)"] by (simp add: find_reservation_def)
  with wf show "find_reservation l (ra_id r) = Some r" by (auto simp: ledger_wf_def)
next
  assume "find_reservation l (ra_id r) = Some r"
  then show "r \<in> set (om_values (lg_reservations l))"
    using om_value_in by (fastforce simp: find_reservation_def)
qed

lemma new_ledger_wf: "ledger_wf (new_ledger d)"
  by (simp add: ledger_wf_def new_ledger_def find_reservation_def)

text \<open>Removing reservations, by any of the operations that do, keeps the invariant.\<close>

lemma ledger_wf_shrink:
  assumes "ledger_wf l" "om_ok (lg_reservations l')" "lg_next_id l' = lg_next_id l"
    "\<And>i r. find_reservation l' i = Some r \<Longrightarrow> find_reservation l i = Some r"
  shows "ledger_wf l'"
  unfolding ledger_wf_def using assms(1) unfolding ledger_wf_def
  by (metis assms(2-4))

lemma find_after_filter:
  "om_ok (lg_reservations l) \<Longrightarrow> lg_reservations l' = om_filter P (lg_reservations l) \<Longrightarrow>
   find_reservation l' i = (case find_reservation l i of Some r \<Rightarrow> if P r then Some r else None | None \<Rightarrow> None)"
  by (simp add: find_reservation_def om_find_filter)

lemma filter_wf:
  assumes "ledger_wf l" "lg_reservations l' = om_filter P (lg_reservations l)" "lg_next_id l' = lg_next_id l"
  shows "ledger_wf l'"
  using assms find_after_filter [OF ledger_wf_ok assms(2)]
  by (intro ledger_wf_shrink [OF assms(1)]) (auto simp: ledger_wf_ok table_inv split: option.splits if_splits)

lemma expire_wf: "ledger_wf l \<Longrightarrow> ledger_wf (snd (expire now l))"
  by (rule filter_wf [where P = "live_at now"]) (simp_all add: expire_def Let_def)

lemma expire_exact:
  "ledger_wf l \<Longrightarrow> find_reservation (snd (expire now l)) i =
     (case find_reservation l i of Some r \<Rightarrow> if live_at now r then Some r else None | None \<Rightarrow> None)"
  by (rule find_after_filter [OF ledger_wf_ok]) (simp_all add: expire_def Let_def)

lemma fence_wf: "ledger_wf l \<Longrightarrow> ledger_wf (snd (fence_older_incarnations c l))"
  by (rule filter_wf [where P = "\<lambda>r. \<not> is_fenced_by (ra_owner r) c"]) (simp_all add: fence_older_incarnations_def)

lemma fence_exact:
  assumes "ledger_wf l"
  shows "find_reservation (snd (fence_older_incarnations c l)) i =
     (case find_reservation l i of Some r \<Rightarrow> if is_fenced_by (ra_owner r) c then None else Some r | None \<Rightarrow> None)"
    and "r \<in> set (fst (fence_older_incarnations c l)) \<longleftrightarrow>
       find_reservation l (ra_id r) = Some r \<and> is_fenced_by (ra_owner r) c"
    and "sorted (map ra_id (fst (fence_older_incarnations c l)))"
proof -
  show "find_reservation (snd (fence_older_incarnations c l)) i =
     (case find_reservation l i of Some r \<Rightarrow> if is_fenced_by (ra_owner r) c then None else Some r | None \<Rightarrow> None)"
    by (subst find_after_filter [OF ledger_wf_ok [OF assms], where P = "\<lambda>r. \<not> is_fenced_by (ra_owner r) c"])
      (auto simp: fence_older_incarnations_def split: option.splits)
  show "r \<in> set (fst (fence_older_incarnations c l)) \<longleftrightarrow>
       find_reservation l (ra_id r) = Some r \<and> is_fenced_by (ra_owner r) c"
    using in_reservations [OF assms, of r] by (auto simp: fence_older_incarnations_def)
qed (simp add: fence_older_incarnations_def)

lemma release_exact:
  "release i c l = Inr l' \<longleftrightarrow>
     (\<exists>r. find_reservation l i = Some r \<and> ra_owner r = c) \<and>
     l' = l\<lparr>lg_reservations := om_erase i (lg_reservations l)\<rparr>"
  by (auto simp: release_def split: option.splits if_splits)

lemma release_wf:
  assumes "ledger_wf l" "release i c l = Inr l'"
  shows "ledger_wf l'"
  using assms by (intro ledger_wf_shrink [OF assms(1)])
    (auto simp: release_exact ledger_wf_def find_reservation_def table_inv table_simps split: if_splits)

definition renewed :: "nanos \<Rightarrow> nanos \<Rightarrow> reservation \<Rightarrow> reservation" where
  "renewed extension now r =
     (let r1 = r\<lparr>ra_expires_at := max (ra_expires_at r) now + extension, ra_revision := next_id (ra_revision r)\<rparr>
      in r1\<lparr>ra_digest := reservation_digest r1\<rparr>)"

lemma renewed_simps [simp]:
  "ra_id (renewed e n r) = ra_id r" "ra_job (renewed e n r) = ra_job r"
  "ra_generation (renewed e n r) = ra_generation r" "ra_targets (renewed e n r) = ra_targets r"
  "ra_owner (renewed e n r) = ra_owner r" "ra_attempt (renewed e n r) = ra_attempt r"
  "ra_expires_at (renewed e n r) = max (ra_expires_at r) n + e"
  by (simp_all add: renewed_def Let_def)

lemma renew_exact:
  "renew i a c extension now l = Inr l' \<longleftrightarrow>
     (\<exists>r. find_reservation l i = Some r \<and> ra_owner r = c \<and> ra_attempt r = a \<and> 0 < extension \<and>
          max (ra_expires_at r) now + extension \<le> now + kMaxAuthorityLeaseNanos \<and>
          l' = l\<lparr>lg_reservations := om_set i (renewed extension now r) (lg_reservations l)\<rparr>)"
proof (cases "find_reservation l i")
  case None
  then show ?thesis by (simp add: renew_def)
next
  case (Some r)
  have base: "(if ra_expires_at r > now then ra_expires_at r else now) = max (ra_expires_at r) now" by simp
  have bound: "extension > kMaxAuthorityLeaseNanos - (max (ra_expires_at r) now - now) \<longleftrightarrow>
      \<not> max (ra_expires_at r) now + extension \<le> now + kMaxAuthorityLeaseNanos" by linarith
  have "renew i a c extension now l = Inr l' \<longleftrightarrow> ra_owner r = c \<and> ra_attempt r = a \<and> 0 < extension \<and>
      max (ra_expires_at r) now + extension \<le> now + kMaxAuthorityLeaseNanos \<and>
      l\<lparr>lg_reservations := om_set i (renewed extension now r) (lg_reservations l)\<rparr> = l'"
    unfolding renew_def Some option.case base Let_def bound renewed_def by (simp add: not_le)
  with Some show ?thesis by auto
qed

lemma renew_wf:
  assumes "ledger_wf l" "renew i a c extension now l = Inr l'"
  shows "ledger_wf l'"
proof -
  obtain r where r: "find_reservation l i = Some r"
    and l': "l' = l\<lparr>lg_reservations := om_set i (renewed extension now r) (lg_reservations l)\<rparr>"
    using assms(2) by (auto simp: renew_exact)
  have find: "find_reservation l' j = (if j = i then Some (renewed extension now r) else find_reservation l j)" for j
    by (simp add: l' find_reservation_def table_simps)
  show ?thesis
    using assms(1) r unfolding ledger_wf_def find
    by (auto simp: l' table_inv split: if_splits)
qed

definition granted_reservation :: "reservation \<Rightarrow> authority_id \<Rightarrow> reservation" where
  "granted_reservation r i =
     (let r1 = r\<lparr>ra_id := i, ra_revision := 1\<rparr> in r1\<lparr>ra_digest := reservation_digest r1\<rparr>)"

lemma granted_simps [simp]:
  "ra_id (granted_reservation r i) = i" "ra_job (granted_reservation r i) = ra_job r"
  "ra_generation (granted_reservation r i) = ra_generation r"
  "ra_targets (granted_reservation r i) = ra_targets r" "ra_owner (granted_reservation r i) = ra_owner r"
  "ra_attempt (granted_reservation r i) = ra_attempt r"
  "ra_expires_at (granted_reservation r i) = ra_expires_at r"
  "ra_granted_at (granted_reservation r i) = ra_granted_at r"
  by (simp_all add: granted_reservation_def Let_def)

definition reserve_guard :: "reservation \<Rightarrow> ledger \<Rightarrow> bool" where
  "reserve_guard r l \<longleftrightarrow> id_valid (ra_job r) \<and> id_valid (ra_generation r) \<and> attempt_valid (ra_attempt r) \<and>
     incarnation_valid (ra_owner r) \<and> ra_targets r \<noteq> [] \<and> ra_granted_at r < ra_expires_at r \<and>
     ra_expires_at r \<le> ra_granted_at r + kMaxAuthorityLeaseNanos \<and>
     find_for_job l (ra_job r) (ra_generation r) = None \<and> length (lg_reservations l) < kMaxLiveReservations"

lemma reserve_granted_iff: "is_ok (fst (reserve r l)) \<longleftrightarrow> reserve_guard r l"
  by (auto simp: reserve_def reserve_guard_def deny_def take_authority_id_def Let_def)

lemma reserve_exact:
  "reserve_guard r l \<Longrightarrow> reserve r l =
     (Inr (lg_next_id l), l\<lparr>lg_next_id := next_id (lg_next_id l),
        lg_reservations := om_emplace (lg_next_id l) (granted_reservation r (lg_next_id l)) (lg_reservations l),
        lg_granted := lg_granted l + 1\<rparr>)"
  by (simp add: reserve_def reserve_guard_def take_authority_id_def granted_reservation_def Let_def)

lemma reserve_denied:
  "\<not> reserve_guard r l \<Longrightarrow> lg_reservations (snd (reserve r l)) = lg_reservations l \<and>
     lg_next_id (snd (reserve r l)) = lg_next_id l"
  by (auto simp: reserve_def reserve_guard_def deny_def)

lemma ledger_next_unused: "ledger_wf l \<Longrightarrow> find_reservation l (lg_next_id l) = None"
  by (cases "find_reservation l (lg_next_id l)") (auto simp: ledger_wf_def)

lemma find_after_reserve:
  assumes "ledger_wf l" "reserve_guard r l"
  shows "find_reservation (snd (reserve r l)) i =
    (if i = lg_next_id l then Some (granted_reservation r i) else find_reservation l i)"
  using ledger_next_unused [OF assms(1)] assms(2)
  by (simp add: reserve_exact om_emplace_fresh find_reservation_def table_simps)

lemma find_for_job_None:
  assumes "ledger_wf l"
  shows "find_for_job l j g = None \<longleftrightarrow>
     (\<forall>i r. find_reservation l i = Some r \<longrightarrow> \<not> (ra_job r = j \<and> ra_generation r = g))"
proof -
  have "find_for_job l j g = None \<longleftrightarrow>
      (\<forall>r \<in> set (om_values (lg_reservations l)). \<not> (ra_job r = j \<and> ra_generation r = g))"
    unfolding find_for_job_def find_None_iff by blast
  moreover have "find_reservation l i = Some r \<Longrightarrow> find_reservation l (ra_id r) = Some r" for i r
    using assms by (auto simp: ledger_wf_def)
  ultimately show ?thesis unfolding Ball_def in_reservations [OF assms] by blast
qed

lemma find_for_job_Some:
  "ledger_wf l \<Longrightarrow> find_for_job l j g = Some r \<Longrightarrow>
     find_reservation l (ra_id r) = Some r \<and> ra_job r = j \<and> ra_generation r = g"
  using in_reservations [of l r] by (auto simp: find_for_job_def dest!: find_SomeD)

lemma reserve_wf:
  assumes wf: "ledger_wf l" and room: "lg_next_id l \<noteq> - 1"
  shows "ledger_wf (snd (reserve r l))"
proof (cases "reserve_guard r l")
  case False
  then show ?thesis
    using wf reserve_denied [OF False] by (auto simp: ledger_wf_def find_reservation_def)
next
  case True
  note find = find_after_reserve [OF wf True]
  have up: "lg_next_id l < next_id (lg_next_id l)" by (rule next_id_greater [OF room])
  have ok: "om_ok (lg_reservations (snd (reserve r l)))"
    using wf True by (simp add: reserve_exact ledger_wf_def table_inv)
  have next_id: "lg_next_id (snd (reserve r l)) = next_id (lg_next_id l)"
    using True by (simp add: reserve_exact)
  have new: "\<not> (ra_job q = ra_job r \<and> ra_generation q = ra_generation r)" if "find_reservation l i = Some q" for i q
    using True that find_for_job_None [OF wf] by (auto simp: reserve_guard_def)
  show ?thesis
    unfolding ledger_wf_def find next_id
  proof (intro conjI allI impI ok)
    fix i j q p
    show "ra_id q = i" "i < next_id (lg_next_id l)"
      if "(if i = lg_next_id l then Some (granted_reservation r i) else find_reservation l i) = Some q"
      using that wf up by (auto simp: ledger_wf_def split: if_splits intro: less_trans)
    show "i = j"
      if "(if i = lg_next_id l then Some (granted_reservation r i) else find_reservation l i) = Some q"
        "(if j = lg_next_id l then Some (granted_reservation r j) else find_reservation l j) = Some p"
        "ra_job q = ra_job p" "ra_generation q = ra_generation p"
      using that new [of j p] new [of i q] wf by (auto simp: ledger_wf_def split: if_splits)
  qed
qed

lemma reserved_targets_ascending: "ascending (reserved_targets now l)"
  by (simp add: reserved_targets_def ascending_def distinct_fold_push_all)

lemma set_reserved_targets: "set (reserved_targets now l) = (\<Union>r \<in> set (live now l). set (ra_targets r))"
  by (simp add: reserved_targets_def set_fold_push_all)

lemma in_live: "ledger_wf l \<Longrightarrow> r \<in> set (live now l) \<longleftrightarrow> find_reservation l (ra_id r) = Some r \<and> live_at now r"
  using in_reservations [of l r] by (auto simp: live_def)

end
