(* ===== verification/Lifecycle.thy ===== *)
theory Lifecycle
  imports Identity "HOL-Library.Sublist"
begin

text \<open>
  The maintenance lifecycle (\<^verbatim>\<open>include/mf/domain/lifecycle.hpp\<close>, \<^verbatim>\<open>src/domain/lifecycle.cpp\<close>).
  \<open>check_transition\<close> keeps every branch of the source with its reason text. The lifecycle as a
  machine is the relation \<open>lifecycle_run\<close>: a job starts in \<open>Proposed\<close> with no service
  removed, moves only along allowed transitions, and its sticky flag becomes true on entering
  \<open>InMaintenance\<close>.

  The lemmas characterise the allowed transitions, show by rule induction that a job that
  removed service never returns to planning and is never cancelled, that service is removed at
  most once, from \<open>Ready\<close>, and that completion always passes through removal and restoration.
\<close>

datatype job_state =
    Proposed | Validated | Prerequisites | Ready | InMaintenance | Verifying | Restoring
  | Complete | Blocked | JobCancelled | Failed

fun job_state_code :: "job_state \<Rightarrow> nat" where
  "job_state_code Proposed = 0"
| "job_state_code Validated = 1"
| "job_state_code Prerequisites = 2"
| "job_state_code Ready = 3"
| "job_state_code InMaintenance = 4"
| "job_state_code Verifying = 5"
| "job_state_code Restoring = 6"
| "job_state_code Complete = 7"
| "job_state_code Blocked = 8"
| "job_state_code JobCancelled = 9"
| "job_state_code Failed = 10"

definition all_job_states :: "job_state list" where
  "all_job_states =
     [Proposed, Validated, Prerequisites, Ready, InMaintenance, Verifying, Restoring, Complete,
      Blocked, JobCancelled, Failed]"

definition kStateNames :: "(job_state \<times> string \<times> string) list" where
  "kStateNames =
     [(Proposed, ''proposed'', ''request recorded, not yet validated''),
      (Validated, ''validated'', ''request shape and policy binding accepted''),
      (Prerequisites, ''prerequisites'', ''authority, drain and evidence prerequisites pending''),
      (Ready, ''ready'', ''all preconditions authoritatively satisfied and fresh''),
      (InMaintenance, ''in-maintenance'', ''service removed, external maintenance running''),
      (Verifying, ''verifying'', ''post-maintenance verification of the affected scope''),
      (Restoring, ''restoring'', ''returning the scope to normal service''),
      (Complete, ''complete'', ''restored and verified''),
      (Blocked, ''blocked'', ''held by policy, evidence or an external failure''),
      (JobCancelled, ''cancelled'', ''withdrawn before any service was removed''),
      (Failed, ''failed'', ''terminal failure; scope may still be quarantined'')]"

definition to_string_job_state :: "job_state \<Rightarrow> string" where
  "to_string_job_state s =
     (case find (\<lambda>e. fst e = s) kStateNames of Some e \<Rightarrow> fst (snd e) | None \<Rightarrow> ''unknown'')"

definition describe :: "job_state \<Rightarrow> string" where
  "describe s =
     (case find (\<lambda>e. fst e = s) kStateNames of Some e \<Rightarrow> snd (snd e) | None \<Rightarrow> ''unknown'')"

definition parse_job_state :: "string \<Rightarrow> job_state option" where
  "parse_job_state s = map_option fst (find (\<lambda>e. fst (snd e) = s) kStateNames)"

fun stage_index :: "job_state \<Rightarrow> nat option" where
  "stage_index Proposed = Some 0"
| "stage_index Validated = Some 1"
| "stage_index Prerequisites = Some 2"
| "stage_index Ready = Some 3"
| "stage_index InMaintenance = Some 4"
| "stage_index Verifying = Some 5"
| "stage_index Restoring = Some 6"
| "stage_index Complete = Some 7"
| "stage_index Blocked = None"
| "stage_index JobCancelled = None"
| "stage_index Failed = None"

definition is_terminal :: "job_state \<Rightarrow> bool" where
  "is_terminal s \<longleftrightarrow> s = Complete \<or> s = JobCancelled \<or> s = Failed"

definition holds_resources :: "job_state \<Rightarrow> bool" where
  "holds_resources s \<longleftrightarrow> s = Prerequisites \<or> s = Ready \<or> s = InMaintenance \<or> s = Verifying \<or>
     s = Restoring \<or> s = Blocked"

definition stage_removes_service :: "job_state \<Rightarrow> bool" where
  "stage_removes_service s \<longleftrightarrow> s = InMaintenance \<or> s = Verifying \<or> s = Restoring"

datatype transition_check = TransitionCheck (tc_allowed: bool) (tc_reason: string)

definition check_transition :: "job_state \<Rightarrow> job_state \<Rightarrow> bool \<Rightarrow> transition_check" where
  "check_transition from to service_removed =
     (if from = to then TransitionCheck False ''no-op transition''
      else if is_terminal from then TransitionCheck False ''source state is terminal''
      else if to = JobCancelled then
        (if service_removed
         then TransitionCheck False ''service has been removed; the scope must be restored, not cancelled''
         else TransitionCheck True ''withdrawn before service removal'')
      else if to = Failed then TransitionCheck True ''failure is legal from any non-terminal state''
      else if to = Blocked then TransitionCheck True ''any non-terminal state may become blocked''
      else if from = Blocked then
        (if stage_index to = None
         then TransitionCheck False ''blocked jobs may only resume onto the lifecycle chain''
         else if service_removed then
           (if to = Verifying \<or> to = Restoring
            then TransitionCheck True ''resuming toward restoration''
            else TransitionCheck False
              ''service was removed; a blocked job may only resume at verifying or restoring'')
         else if to = Prerequisites \<or> to = Ready
         then TransitionCheck True ''resuming onto the lifecycle chain''
         else TransitionCheck False
           ''a blocked job that removed no service must re-enter at prerequisites or ready, never at a removal or verification stage'')
      else
        (case (stage_index from, stage_index to) of
           (Some from_stage, Some to_stage) \<Rightarrow>
             if to_stage = from_stage + 1
             then TransitionCheck True ''advance to the next lifecycle stage''
             else if to_stage < from_stage then
               (if service_removed
                then TransitionCheck False ''service has been removed; backward transitions are forbidden''
                else if to_stage = 0 then TransitionCheck False ''a job never returns to proposed''
                else TransitionCheck True ''backward transition permitted before service removal'')
             else TransitionCheck False ''lifecycle stages cannot be skipped''
         | _ \<Rightarrow> TransitionCheck False ''unsupported transition''))"

definition allowed_next_states :: "job_state \<Rightarrow> bool \<Rightarrow> job_state list" where
  "allowed_next_states from service_removed =
     filter (\<lambda>candidate. tc_allowed (check_transition from candidate service_removed)) all_job_states"

section \<open>The lifecycle as a machine\<close>

inductive lifecycle_run :: "job_state list \<Rightarrow> job_state \<Rightarrow> bool \<Rightarrow> bool" where
  propose: "lifecycle_run [Proposed] Proposed False"
| advance: "lifecycle_run h s r \<Longrightarrow> tc_allowed (check_transition s t r) \<Longrightarrow>
     lifecycle_run (h @ [t]) t (r \<or> t = InMaintenance)"

inductive_cases lifecycle_runE: "lifecycle_run h s r"

section \<open>What the rules allow\<close>

text \<open>A pure characterisation of the allowed pairs, without the reason texts.\<close>

lemma check_transition_allowed_iff:
  "tc_allowed (check_transition s t r) \<longleftrightarrow>
     s \<noteq> t \<and> \<not> is_terminal s \<and>
     (t = Failed \<or> t = Blocked \<or> (t = JobCancelled \<and> \<not> r) \<or>
      (s = Blocked \<and> (if r then t = Verifying \<or> t = Restoring else t = Prerequisites \<or> t = Ready)) \<or>
      (\<exists>i j. stage_index s = Some i \<and> stage_index t = Some j \<and>
         (j = Suc i \<or> (j < i \<and> \<not> r \<and> 0 < j))))"
  by (cases s; cases t; cases r) (simp_all add: check_transition_def is_terminal_def)

lemma job_state_in_all: "s \<in> set all_job_states"
  by (cases s) (simp_all add: all_job_states_def)

lemma allowed_next_states_iff:
  "t \<in> set (allowed_next_states s r) \<longleftrightarrow> tc_allowed (check_transition s t r)"
  by (simp add: allowed_next_states_def job_state_in_all)

lemma allowed_next_states_ascending:
  "sorted_wrt (<) (map job_state_code (allowed_next_states s r))"
  by (simp add: allowed_next_states_def sorted_wrt_map sorted_wrt_filter all_job_states_def)

lemma terminal_iff_stuck: "is_terminal s \<longleftrightarrow> allowed_next_states s r = []"
proof
  assume "is_terminal s"
  then show "allowed_next_states s r = []"
    by (simp add: allowed_next_states_def check_transition_allowed_iff)
next
  assume "allowed_next_states s r = []"
  then have "\<not> tc_allowed (check_transition s Failed r)"
    using allowed_next_states_iff [of Failed s r] by simp
  then show "is_terminal s"
    by (auto simp: check_transition_allowed_iff is_terminal_def)
qed

lemma parse_to_string_job_state: "parse_job_state (to_string_job_state s) = Some s"
  by (cases s) (simp_all add: parse_job_state_def to_string_job_state_def kStateNames_def)

section \<open>Invariants of every run\<close>

text \<open>The facts one transition needs, read off the characterisation.\<close>

lemma step_removed:
  "tc_allowed (check_transition s t True) \<Longrightarrow> s \<notin> {Proposed, Validated, Prerequisites, Ready} \<Longrightarrow>
   t \<in> {Verifying, Restoring, Complete, Blocked, Failed}"
  by (cases s; cases t) (simp_all add: check_transition_allowed_iff is_terminal_def)

lemma step_not_removed:
  "tc_allowed (check_transition s t False) \<Longrightarrow> s \<notin> {InMaintenance, Verifying, Restoring, Complete} \<Longrightarrow>
   t \<in> {Verifying, Restoring, Complete} \<Longrightarrow> False"
  by (cases s; cases t) (simp_all add: check_transition_allowed_iff is_terminal_def)

lemma into_maintenance:
  "tc_allowed (check_transition s InMaintenance r) \<Longrightarrow>
   s = Ready \<or> (\<not> r \<and> s \<in> {Verifying, Restoring})"
  by (cases s; cases r) (simp_all add: check_transition_allowed_iff is_terminal_def)

lemma into_complete: "tc_allowed (check_transition s Complete r) \<Longrightarrow> s = Restoring"
  by (cases s; cases r) (simp_all add: check_transition_allowed_iff is_terminal_def)

lemma run_current: "lifecycle_run h s r \<Longrightarrow> h \<noteq> [] \<and> last h = s"
  by (induction rule: lifecycle_run.induct) auto

lemma run_states:
  "lifecycle_run h s r \<Longrightarrow>
     (r \<longrightarrow> s \<notin> {Proposed, Validated, Prerequisites, Ready, JobCancelled}) \<and>
     (\<not> r \<longrightarrow> s \<notin> {InMaintenance, Verifying, Restoring, Complete})"
proof (induction rule: lifecycle_run.induct)
  case (advance h s r t)
  show ?case
  proof (cases r)
    case True
    with advance step_removed [of s t] show ?thesis by auto
  next
    case False
    with advance step_not_removed [of s t] show ?thesis by auto
  qed
qed simp

lemma run_removals:
  "lifecycle_run h s r \<Longrightarrow> count_list h InMaintenance = (if r then 1 else 0)"
proof (induction rule: lifecycle_run.induct)
  case (advance h s r t)
  show ?case
  proof (cases "t = InMaintenance")
    case True
    then have "s = Ready"
      using into_maintenance [of s r] advance.hyps run_states [OF advance.hyps(1)] by auto
    then have "\<not> r" using run_states [OF advance.hyps(1)] by auto
    with True advance.IH show ?thesis by simp
  qed (use advance.IH in simp)
qed simp

lemma run_removed_from_ready: "lifecycle_run h s r \<Longrightarrow> r \<Longrightarrow> subseq [Ready, InMaintenance] h"
proof (induction rule: lifecycle_run.induct)
  case (advance h s r t)
  show ?case
  proof (cases r)
    case True
    with advance.IH show ?thesis by (auto intro: subseq_order.order_trans)
  next
    case False
    with advance have t: "t = InMaintenance" by simp
    then have "s = Ready"
      using into_maintenance [of s r] advance.hyps run_states [OF advance.hyps(1)] by auto
    then have "Ready \<in> set h"
      using run_current [OF advance.hyps(1)] by (metis last_in_set)
    then have "subseq [Ready] h" by (simp add: subseq_singleton_left)
    then have "subseq ([Ready] @ [t]) (h @ [t])" by (rule list_emb_append_mono) simp
    with t show ?thesis by simp
  qed
qed simp

lemma run_restoring:
  "lifecycle_run h s r \<Longrightarrow> s = Restoring \<Longrightarrow> subseq [Ready, InMaintenance, Restoring] h"
proof (induction rule: lifecycle_run.induct)
  case (advance h s r t)
  then have "r" using run_states [OF lifecycle_run.advance [OF advance.hyps]] by auto
  then have "subseq [Ready, InMaintenance] h"
    by (rule run_removed_from_ready [OF advance.hyps(1)])
  then have "subseq ([Ready, InMaintenance] @ [t]) (h @ [t])" by (rule list_emb_append_mono) simp
  with advance.prems show ?case by simp
qed simp

lemma run_complete:
  "lifecycle_run h s r \<Longrightarrow> s = Complete \<Longrightarrow> subseq [Ready, InMaintenance, Restoring, Complete] h"
proof (induction rule: lifecycle_run.induct)
  case (advance h s r t)
  then have "s = Restoring" using into_complete by auto
  then have "subseq [Ready, InMaintenance, Restoring] h"
    by (rule run_restoring [OF advance.hyps(1)])
  then have "subseq ([Ready, InMaintenance, Restoring] @ [t]) (h @ [t])"
    by (rule list_emb_append_mono) simp
  with advance.prems show ?case by simp
qed simp

end
