(* ===== verification/Jobs.thy ===== *)
theory Jobs
  imports Ledger Lifecycle Windows
begin

text \<open>
  Maintenance jobs (\<^verbatim>\<open>include/mf/domain/job.hpp\<close>, \<^verbatim>\<open>src/domain/job.cpp\<close>) and the bounded
  surface of drain requests (\<^verbatim>\<open>include/mf/domain/drain.hpp\<close>, \<^verbatim>\<open>src/domain/drain.cpp\<close>): block
  reasons, attempts and history, the job record with its digest and snapshot, the job table
  with its revision fence, and the quarantine table.

  The lemmas show that the history stays bounded and keeps its newest entries, that an update
  of a job succeeds exactly when it is one revision ahead of the stored one (so of two writers
  that read the same revision the second is refused), that recovered quarantine identifiers
  are never reissued, and that \<open>find_open_for_target\<close> returns the newest open record.
\<close>

section \<open>Block reasons and attempts\<close>

datatype block_reason =
    BrNone | TargetUnknown | TargetNotMaintainable | EvidenceMissingOrStale | RedundancyViolation
  | FailureDomainLimit | ContractViolation | CapacityHeadroom | ConflictingMaintenance
  | BrDependencyUnmet | WindowUnavailable | AuthorityDenied | BrDrainFailed | BrDrainLeaseLost
  | AwaitingCompletionReport | VerificationFailed | BrRestorationFailed | ReconciledAfterRestart
  | ControlPlaneUnsafe | BrPolicyDenied | OperatorHold | BrOverflow

definition kBlockNames :: "(block_reason \<times> string) list" where
  "kBlockNames =
     [(BrNone, ''none''), (TargetUnknown, ''target-unknown''),
      (TargetNotMaintainable, ''target-not-maintainable''),
      (EvidenceMissingOrStale, ''evidence-missing-or-stale''),
      (RedundancyViolation, ''redundancy-violation''), (FailureDomainLimit, ''failure-domain-limit''),
      (ContractViolation, ''contract-violation''), (CapacityHeadroom, ''capacity-headroom''),
      (ConflictingMaintenance, ''conflicting-maintenance''), (BrDependencyUnmet, ''dependency-unmet''),
      (WindowUnavailable, ''window-unavailable''), (AuthorityDenied, ''authority-denied''),
      (BrDrainFailed, ''drain-failed''), (BrDrainLeaseLost, ''drain-lease-lost''),
      (AwaitingCompletionReport, ''awaiting-completion-report''),
      (VerificationFailed, ''verification-failed''), (BrRestorationFailed, ''restoration-failed''),
      (ReconciledAfterRestart, ''reconciled-after-restart''), (ControlPlaneUnsafe, ''control-plane-unsafe''),
      (BrPolicyDenied, ''policy-denied''), (OperatorHold, ''operator-hold''), (BrOverflow, ''overflow'')]"

definition block_reason_code :: "block_reason \<Rightarrow> u32" where
  "block_reason_code r = of_nat (length (takeWhile (\<lambda>e. fst e \<noteq> r) kBlockNames))"

definition to_string_block :: "block_reason \<Rightarrow> string" where
  "to_string_block r = name_of kBlockNames r"

definition parse_block_reason :: "string \<Rightarrow> block_reason option" where
  "parse_block_reason s = of_name kBlockNames s"

definition is_safety_block :: "block_reason \<Rightarrow> bool" where
  "is_safety_block r \<longleftrightarrow> r \<in> {EvidenceMissingOrStale, RedundancyViolation, FailureDomainLimit,
     ContractViolation, CapacityHeadroom, ConflictingMaintenance, BrDrainLeaseLost,
     ControlPlaneUnsafe, TargetNotMaintainable, TargetUnknown}"

datatype attempt_outcome = Running | Succeeded | AoFailed | Fenced | AoCancelled

definition kOutcomeNames :: "(attempt_outcome \<times> string) list" where
  "kOutcomeNames = [(Running, ''running''), (Succeeded, ''succeeded''), (AoFailed, ''failed''),
     (Fenced, ''fenced''), (AoCancelled, ''cancelled'')]"

definition to_string_outcome :: "attempt_outcome \<Rightarrow> string" where
  "to_string_outcome r = name_of kOutcomeNames r"

definition parse_attempt_outcome :: "string \<Rightarrow> attempt_outcome option" where
  "parse_attempt_outcome s = of_name kOutcomeNames s"

record maintenance_request =
  mr_title :: string
  mr_reason :: string
  mr_targets :: "target_id list"
  mr_depends_on :: "job_id list"
  mr_window_filter :: "window_id list"
  mr_priority :: u32
  mr_estimated_duration :: nanos
  mr_requires_drain :: bool
  mr_requestor :: requestor_id

record attempt_record =
  ar_id :: attempt_id
  ar_started_at :: nanos
  ar_ended_at :: nanos
  ar_outcome :: attempt_outcome
  ar_detail :: string

record history_entry =
  he_at :: nanos
  he_from :: job_state
  he_to :: job_state
  he_reason :: block_reason
  he_detail :: string
  he_by :: incarnation

section \<open>The job record\<close>

record job =
  j_id :: job_id
  j_generation :: generation_id
  j_revision :: revision
  j_title :: string
  j_reason :: string
  j_targets :: "target_id list"
  j_removal_set :: "target_id list"
  j_depends_on :: "job_id list"
  j_window_filter :: "window_id list"
  j_priority :: u32
  j_estimated_duration :: nanos
  j_requires_drain :: bool
  j_requestor :: requestor_id
  j_state :: job_state
  j_block :: block_reason
  j_block_detail :: string
  j_last_detail :: string
  j_policy_revision :: revision
  j_topology_revision :: revision
  j_policy_digest :: u64
  j_topology_digest :: u64
  j_authority :: authority_id
  j_lease :: lease_id
  j_active_attempt :: attempt_id
  j_next_attempt :: attempt_ordinal
  j_attempts :: "attempt_record list"
  j_history :: "history_entry list"
  j_history_dropped :: u32
  j_service_removed :: bool
  j_overrun :: bool
  j_approved :: bool
  j_approved_by :: string
  j_created_at :: nanos
  j_updated_at :: nanos
  j_started_at :: nanos
  j_completed_at :: nanos
  j_preconditions_at :: nanos
  j_preconditions_digest :: u64
  j_preconditions_policy_revision :: revision
  j_preconditions_topology_revision :: revision
  j_preconditions_satisfied :: bool
  j_verification_passes :: u32
  j_verification_failures :: u32
  j_restoration_failures :: u32
  j_drain_failures :: u32
  j_verification_started_at :: nanos
  j_restoration_started_at :: nanos
  j_maintenance_failed :: bool
  j_window_extended :: bool
  j_window :: window_id
  j_on_close :: on_window_close
  j_window_closes_at :: nanos
  j_owner :: incarnation

definition new_job :: job where
  "new_job = \<lparr>j_id = 0, j_generation = 1, j_revision = 0, j_title = [], j_reason = [], j_targets = [],
     j_removal_set = [], j_depends_on = [], j_window_filter = [], j_priority = 0,
     j_estimated_duration = 0, j_requires_drain = True, j_requestor = 0, j_state = Proposed,
     j_block = BrNone, j_block_detail = [], j_last_detail = [], j_policy_revision = 0,
     j_topology_revision = 0, j_policy_digest = 0, j_topology_digest = 0, j_authority = 0, j_lease = 0,
     j_active_attempt = no_attempt, j_next_attempt = 1, j_attempts = [], j_history = [],
     j_history_dropped = 0, j_service_removed = False, j_overrun = False, j_approved = False,
     j_approved_by = [], j_created_at = 0, j_updated_at = 0, j_started_at = 0, j_completed_at = 0,
     j_preconditions_at = 0, j_preconditions_digest = 0, j_preconditions_policy_revision = 0,
     j_preconditions_topology_revision = 0, j_preconditions_satisfied = False,
     j_verification_passes = 0, j_verification_failures = 0, j_restoration_failures = 0,
     j_drain_failures = 0, j_verification_started_at = 0, j_restoration_started_at = 0,
     j_maintenance_failed = False, j_window_extended = False, j_window = 0,
     j_on_close = FinishActiveStep, j_window_closes_at = 0, j_owner = no_incarnation\<rparr>"

definition active_attempt_record :: "job \<Rightarrow> attempt_record option" where
  "active_attempt_record j =
     (if \<not> attempt_valid (j_active_attempt j) then None
      else find (\<lambda>r. ar_id r = j_active_attempt j) (j_attempts j))"

definition push_history :: "history_entry \<Rightarrow> job \<Rightarrow> job" where
  "push_history e j =
     (let h = j_history j @ [e];
          excess = length h - kMaxJobHistoryEntries
      in if length h > kMaxJobHistoryEntries then
           j\<lparr>j_history := drop excess h, j_history_dropped := j_history_dropped j + of_nat excess\<rparr>
         else j\<lparr>j_history := h\<rparr>)"

definition job_digest :: "job \<Rightarrow> u64" where
  "job_digest j =
     (let h = dg_str ''mf.job.v1'' dg_init;
          h = dg_u64 (j_generation j) (dg_u64 (j_id j) h);
          h = dg_str (j_reason j) (dg_str (j_title j) h);
          h = dg_each dg_target (j_targets j) (dg_len (j_targets j) h);
          h = dg_each dg_target (j_removal_set j) (dg_len (j_removal_set j) h);
          h = dg_each dg_u64 (j_depends_on j) (dg_len (j_depends_on j) h);
          h = dg_u32 (j_priority j) h;
          h = dg_i64 (j_estimated_duration j) h;
          h = dg_bool (j_requires_drain j) h;
          h = dg_u64 (j_requestor j) h;
          h = dg_u32 (of_nat (job_state_code (j_state j))) h;
          h = dg_u32 (block_reason_code (j_block j)) h;
          h = dg_bool (j_service_removed j) h;
          h = dg_bool (j_overrun j) h;
          h = dg_bool (j_approved j) h;
          h = dg_u64 (j_authority j) h;
          h = dg_u64 (j_lease j) h;
          h = dg_str (to_string_attempt (j_active_attempt j)) h;
          h = dg_u64 (j_next_attempt j) h;
          h = dg_i64 (j_created_at j) h;
          h = dg_i64 (j_updated_at j) h;
          h = dg_i64 (j_started_at j) h;
          h = dg_i64 (j_completed_at j) h;
          h = dg_u64 (j_preconditions_digest j) h;
          h = dg_i64 (j_preconditions_at j) h;
          h = dg_bool (j_preconditions_satisfied j) h;
          h = dg_u32 (j_verification_passes j) h;
          h = dg_u32 (j_verification_failures j) h;
          h = dg_u32 (j_restoration_failures j) h;
          h = dg_u32 (j_drain_failures j) h;
          h = dg_i64 (j_verification_started_at j) h;
          h = dg_i64 (j_restoration_started_at j) h;
          h = dg_bool (j_maintenance_failed j) h
      in dg_bool (j_window_extended j) h)"

record job_snapshot =
  sn_id :: job_id
  sn_generation :: generation_id
  sn_revision :: revision
  sn_state :: job_state
  sn_block :: block_reason
  sn_block_detail :: string
  sn_targets :: "target_id list"
  sn_priority :: u32
  sn_service_removed :: bool
  sn_overrun :: bool
  sn_authority :: authority_id
  sn_lease :: lease_id
  sn_active_attempt :: attempt_id
  sn_created_at :: nanos
  sn_updated_at :: nanos

definition snapshot :: "job \<Rightarrow> job_snapshot" where
  "snapshot j = \<lparr>sn_id = j_id j, sn_generation = j_generation j, sn_revision = j_revision j,
     sn_state = j_state j, sn_block = j_block j, sn_block_detail = j_block_detail j,
     sn_targets = j_targets j, sn_priority = j_priority j, sn_service_removed = j_service_removed j,
     sn_overrun = j_overrun j, sn_authority = j_authority j, sn_lease = j_lease j,
     sn_active_attempt = j_active_attempt j, sn_created_at = j_created_at j,
     sn_updated_at = j_updated_at j\<rparr>"

fun join_targets :: "target_id list \<Rightarrow> string" where
  "join_targets [] = []"
| "join_targets [t] = to_string_target t"
| "join_targets (t # ts) = to_string_target t @ CHR '','' # join_targets ts"

definition job_to_text :: "job \<Rightarrow> string" where
  "job_to_text j =
     to_string_job (j_id j) @ '' gen='' @ to_string_generation (j_generation j) @
     '' state='' @ to_string_job_state (j_state j) @
     (if j_block j \<noteq> BrNone then '' block='' @ to_string_block (j_block j) else []) @
     '' targets=['' @ join_targets (j_targets j) @ '']'' @
     '' authority='' @ to_string_authority (j_authority j) @ '' lease='' @ to_string_lease (j_lease j)"

section \<open>The job table\<close>

record job_table =
  jt_jobs :: "(job_id, job) omap"
  jt_next_id :: job_id

definition empty_job_table :: job_table where
  "empty_job_table = \<lparr>jt_jobs = [], jt_next_id = 1\<rparr>"

definition find_job :: "job_table \<Rightarrow> job_id \<Rightarrow> job option" where
  "find_job t i = om_find (jt_jobs t) i"

definition insert_job :: "job \<Rightarrow> job_table \<Rightarrow> job_table result" where
  "insert_job j t =
     (if \<not> id_valid (j_id j) then Inl (invalid_argument ''job id is not valid'')
      else if length (jt_jobs t) \<ge> kMaxJobsTotal \<and> find_job t (j_id j) = None then
        Inl (make_error LimitExceeded ''job table is at capacity'')
      else if find_job t (j_id j) \<noteq> None then
        Inl (make_error AlreadyExists (''job '' @ to_string_job (j_id j) @ '' already exists''))
      else Inr (t\<lparr>jt_jobs := om_emplace (j_id j) j (jt_jobs t)\<rparr>))"

definition put_job :: "job \<Rightarrow> job_table \<Rightarrow> job_table result" where
  "put_job j t =
     (case find_job t (j_id j) of
        None \<Rightarrow> Inl (make_error NotFound (''job '' @ to_string_job (j_id j) @ '' does not exist''))
      | Some old \<Rightarrow>
          if j_revision j \<noteq> next_id (j_revision old) then
            Inl (make_error StaleRevision
              (''replacement for job '' @ to_string_job (j_id j) @ '' is at revision '' @
               to_string_revision (j_revision j) @ '' but the stored revision is '' @
               to_string_revision (j_revision old)))
          else Inr (t\<lparr>jt_jobs := om_set (j_id j) j (jt_jobs t)\<rparr>))"

definition adopt_job :: "job \<Rightarrow> job_table \<Rightarrow> job_table result" where
  "adopt_job j t =
     (if \<not> id_valid (j_id j) then Inl (invalid_argument ''adopted job has no identity'')
      else Inr (t\<lparr>jt_jobs := om_set (j_id j) j (jt_jobs t)\<rparr>))"

definition erase_job :: "job_id \<Rightarrow> job_table \<Rightarrow> job_table result" where
  "erase_job i t =
     (if find_job t i = None then
        Inl (make_error NotFound (''job '' @ to_string_job i @ '' does not exist''))
      else Inr (t\<lparr>jt_jobs := om_erase i (jt_jobs t)\<rparr>))"

definition allocate_job_id :: "job_table \<Rightarrow> job_id \<times> job_table" where
  "allocate_job_id t = (jt_next_id t, t\<lparr>jt_next_id := next_id (jt_next_id t)\<rparr>)"

definition set_next_job_id :: "job_id \<Rightarrow> job_table \<Rightarrow> job_table" where
  "set_next_job_id n t = t\<lparr>jt_next_id := n\<rparr>"

definition job_table_digest :: "job_table \<Rightarrow> u64" where
  "job_table_digest t =
     dg_each (\<lambda>e h. dg_u64 (job_digest (snd e)) (dg_u64 (fst e) h)) (jt_jobs t)
       (dg_len (jt_jobs t) (dg_str ''mf.jobtable.v1'' dg_init))"

definition clear_jobs :: "job_table \<Rightarrow> job_table" where
  "clear_jobs t = t\<lparr>jt_jobs := [], jt_next_id := 1\<rparr>"

section \<open>Quarantine\<close>

record quarantine_record =
  q_id :: quarantine_id
  q_target :: target_id
  q_job :: job_id
  q_generation :: generation_id
  q_reason :: block_reason
  q_detail :: string
  q_created_at :: nanos
  q_created_by :: incarnation
  q_cleared :: bool
  q_cleared_at :: nanos
  q_cleared_by :: string
  q_digest :: u64

definition quarantine_digest :: "quarantine_record \<Rightarrow> u64" where
  "quarantine_digest r =
     (let h = dg_str ''mf.quarantine.v1'' dg_init;
          h = dg_target (q_target r) (dg_u64 (q_id r) h);
          h = dg_u64 (q_generation r) (dg_u64 (q_job r) h);
          h = dg_u32 (block_reason_code (q_reason r)) h;
          h = dg_str (q_detail r) h;
          h = dg_i64 (q_created_at r) h;
          h = dg_str (to_string_incarnation (q_created_by r)) h;
          h = dg_bool (q_cleared r) h
      in dg_i64 (q_cleared_at r) h)"

record quarantine_table =
  qt_records :: "(quarantine_id, quarantine_record) omap"
  qt_next_id :: quarantine_id

definition empty_quarantine :: quarantine_table where
  "empty_quarantine = \<lparr>qt_records = [], qt_next_id = 1\<rparr>"

definition find_quarantine :: "quarantine_table \<Rightarrow> quarantine_id \<Rightarrow> quarantine_record option" where
  "find_quarantine t i = om_find (qt_records t) i"

definition seal_quarantine :: "quarantine_record \<Rightarrow> quarantine_record" where
  "seal_quarantine r = (if q_digest r = 0 then r\<lparr>q_digest := quarantine_digest r\<rparr> else r)"

definition insert_quarantine :: "quarantine_record \<Rightarrow> quarantine_table \<Rightarrow> quarantine_table result" where
  "insert_quarantine r t =
     (if \<not> id_valid (q_id r) \<or> \<not> target_valid (q_target r) then
        Inl (invalid_argument ''quarantine record is not well formed'')
      else if find_quarantine t (q_id r) \<noteq> None then
        Inl (make_error AlreadyExists (''quarantine '' @ to_string_quarantine (q_id r) @ '' already exists''))
      else Inr (t\<lparr>qt_records := om_emplace (q_id r) (seal_quarantine r) (qt_records t)\<rparr>))"

definition adopt_quarantine :: "quarantine_record \<Rightarrow> quarantine_table \<Rightarrow> quarantine_table result" where
  "adopt_quarantine r t =
     (if \<not> id_valid (q_id r) \<or> \<not> target_valid (q_target r) then
        Inl (invalid_argument ''persisted quarantine record is not well formed'')
      else Inr (t\<lparr>
        qt_next_id := (if q_id r \<ge> qt_next_id t then next_id (q_id r) else qt_next_id t),
        qt_records := om_set (q_id r) (seal_quarantine r) (qt_records t)\<rparr>))"

definition put_quarantine :: "quarantine_record \<Rightarrow> quarantine_table \<Rightarrow> quarantine_table result" where
  "put_quarantine r t =
     (if find_quarantine t (q_id r) = None then
        Inl (make_error NotFound (''quarantine '' @ to_string_quarantine (q_id r) @ '' does not exist''))
      else Inr (t\<lparr>qt_records := om_set (q_id r) (r\<lparr>q_digest := quarantine_digest r\<rparr>) (qt_records t)\<rparr>))"

definition erase_quarantine :: "quarantine_id \<Rightarrow> quarantine_table \<Rightarrow> quarantine_table result" where
  "erase_quarantine i t =
     (if find_quarantine t i = None then
        Inl (make_error NotFound (''quarantine '' @ to_string_quarantine i @ '' does not exist''))
      else Inr (t\<lparr>qt_records := om_erase i (qt_records t)\<rparr>))"

definition better_quarantine :: "quarantine_record option \<Rightarrow> quarantine_record \<Rightarrow> quarantine_record option" where
  "better_quarantine best r =
     (case best of
        None \<Rightarrow> Some r
      | Some b \<Rightarrow>
          if q_created_at r > q_created_at b \<or> (q_created_at r = q_created_at b \<and> q_id r < q_id b)
          then Some r else Some b)"

definition find_open_for_target :: "quarantine_table \<Rightarrow> target_id \<Rightarrow> quarantine_record option" where
  "find_open_for_target t tgt =
     fold (\<lambda>r best. if q_cleared r \<or> q_target r \<noteq> tgt then best else better_quarantine best r)
       (om_values (qt_records t)) None"

definition allocate_quarantine_id :: "quarantine_table \<Rightarrow> quarantine_id \<times> quarantine_table" where
  "allocate_quarantine_id t = (qt_next_id t, t\<lparr>qt_next_id := next_id (qt_next_id t)\<rparr>)"

definition clear_quarantine :: "quarantine_table \<Rightarrow> quarantine_table" where
  "clear_quarantine t = t\<lparr>qt_records := [], qt_next_id := 1\<rparr>"

section \<open>Request shapes\<close>

definition validate_request_shape :: "maintenance_request \<Rightarrow> status" where
  "validate_request_shape r =
     (if mr_title r = [] \<or> length (mr_title r) > kMaxTitleLength then
        Inl (invalid_argument ''request title is empty or too long'')
      else if length (mr_reason r) > kMaxReasonLength then
        Inl (make_error LimitExceeded ''request reason exceeds the maximum length'')
      else if mr_targets r = [] then
        Inl (invalid_argument ''request must name at least one target'')
      else if length (mr_targets r) > kMaxTargetsPerJob then
        Inl (make_error LimitExceeded ''request exceeds the maximum target count'')
      else if length (mr_depends_on r) > kMaxDependenciesPerJob then
        Inl (make_error LimitExceeded ''request exceeds the maximum dependency count'')
      else if adjacent_dup (sort (mr_targets r)) then
        Inl (invalid_argument ''request repeats a target'')
      else if \<exists>t \<in> set (mr_targets r). \<not> target_valid t then
        Inl (invalid_argument ''request contains an invalid target id'')
      else if adjacent_dup (sort (mr_depends_on r)) then
        Inl (invalid_argument ''request repeats a dependency'')
      else if mr_estimated_duration r < 0 then
        Inl (invalid_argument ''request estimated_duration must not be negative'')
      else if \<not> id_valid (mr_requestor r) then
        Inl (invalid_argument ''request must name a requestor'')
      else ok_status)"

datatype drain_state = DsUnknown | Draining | Drained | DsFailed | Released | DsNotFound

definition kDrainNames :: "(drain_state \<times> string) list" where
  "kDrainNames = [(DsUnknown, ''unknown''), (Draining, ''draining''), (Drained, ''drained''),
     (DsFailed, ''failed''), (Released, ''released''), (DsNotFound, ''not-found'')]"

definition to_string_drain :: "drain_state \<Rightarrow> string" where
  "to_string_drain s = name_of kDrainNames s"

definition parse_drain_state :: "string \<Rightarrow> drain_state option" where
  "parse_drain_state s = of_name kDrainNames s"

record drain_request =
  dq_job :: job_id
  dq_generation :: generation_id
  dq_attempt :: attempt_id
  dq_targets :: "target_id list"
  dq_lease_duration :: nanos
  dq_reason :: string
  dq_requester :: incarnation

record drain_lease =
  le_id :: lease_id
  le_targets :: "target_id list"
  le_granted_at :: nanos
  le_expires_at :: nanos
  le_state :: drain_state
  le_attempt :: attempt_id
  le_owner :: incarnation
  le_epoch :: u64

definition validate_drain_request :: "drain_request \<Rightarrow> status" where
  "validate_drain_request r =
     (if \<not> id_valid (dq_job r) \<or> \<not> id_valid (dq_generation r) \<or> \<not> attempt_valid (dq_attempt r) then
        Inl (invalid_argument ''drain request is missing job, generation or attempt identity'')
      else if \<not> incarnation_valid (dq_requester r) then
        Inl (invalid_argument ''drain request is missing the requesting incarnation'')
      else if dq_targets r = [] then Inl (invalid_argument ''drain request has no targets'')
      else if length (dq_targets r) > kMaxDrainTargetsPerRequest then
        Inl (make_error LimitExceeded ''drain request exceeds the target limit'')
      else if dq_lease_duration r < kMinDrainLeaseNanos \<or> dq_lease_duration r > kMaxDrainLeaseNanos then
        Inl (invalid_argument ''drain lease duration is out of range'')
      else if adjacent_dup (sort (dq_targets r)) then
        Inl (invalid_argument ''drain request repeats a target'')
      else if \<exists>t \<in> set (dq_targets r). \<not> target_valid t then
        Inl (invalid_argument ''drain request contains an invalid target id'')
      else ok_status)"

section \<open>Lemmas\<close>

lemma parse_to_string_block: "parse_block_reason (to_string_block r) = Some r"
  by (cases r) (simp_all add: parse_block_reason_def to_string_block_def of_name_def name_of_def kBlockNames_def)

lemma parse_to_string_outcome: "parse_attempt_outcome (to_string_outcome r) = Some r"
  by (cases r) (simp_all add: parse_attempt_outcome_def to_string_outcome_def of_name_def name_of_def kOutcomeNames_def)

lemma parse_to_string_drain: "parse_drain_state (to_string_drain r) = Some r"
  by (cases r) (simp_all add: parse_drain_state_def to_string_drain_def of_name_def name_of_def kDrainNames_def)

lemma push_history_recent:
  "j_history (push_history e j) =
     drop (Suc (length (j_history j)) - kMaxJobHistoryEntries) (j_history j @ [e])"
  by (simp add: push_history_def Let_def)

lemma push_history_dropped:
  "j_history_dropped (push_history e j) =
     j_history_dropped j + of_nat (Suc (length (j_history j)) - kMaxJobHistoryEntries)"
  by (simp add: push_history_def Let_def)

lemma push_history_bounded:
  "length (j_history (push_history e j)) \<le> kMaxJobHistoryEntries" "last (j_history (push_history e j)) = e"
  by (auto simp: push_history_recent limits last_drop)

definition job_table_wf :: "job_table \<Rightarrow> bool" where
  "job_table_wf t \<longleftrightarrow> om_ok (jt_jobs t) \<and> length (jt_jobs t) \<le> kMaxJobsTotal \<and>
     (\<forall>i j. find_job t i = Some j \<longrightarrow> j_id j = i \<and> id_valid i)"

lemma insert_job_exact:
  "insert_job j t = Inr t' \<longleftrightarrow> id_valid (j_id j) \<and> length (jt_jobs t) < kMaxJobsTotal \<and>
     find_job t (j_id j) = None \<and> t' = t\<lparr>jt_jobs := om_set (j_id j) j (jt_jobs t)\<rparr>"
  by (auto simp: insert_job_def find_job_def om_emplace_def)

lemma put_job_exact:
  "put_job j t = Inr t' \<longleftrightarrow>
     (\<exists>old. find_job t (j_id j) = Some old \<and> j_revision j = next_id (j_revision old)) \<and>
     t' = t\<lparr>jt_jobs := om_set (j_id j) j (jt_jobs t)\<rparr>"
  by (auto simp: put_job_def split: option.splits)

lemma erase_job_exact:
  "erase_job i t = Inr t' \<longleftrightarrow> find_job t i \<noteq> None \<and> t' = t\<lparr>jt_jobs := om_erase i (jt_jobs t)\<rparr>"
  by (auto simp: erase_job_def)

lemma find_job_set [simp]:
  "find_job (t\<lparr>jt_jobs := om_set i j m\<rparr>) k = (if k = i then Some j else om_find m k)"
  "find_job (t\<lparr>jt_jobs := om_erase i m\<rparr>) k = (if k = i then None else om_find m k)"
  by (simp_all add: find_job_def table_simps)

lemma insert_job_wf: "job_table_wf t \<Longrightarrow> insert_job j t = Inr t' \<Longrightarrow> job_table_wf t'"
  using length_om_set_le [of "jt_jobs t" kMaxJobsTotal "j_id j" j]
  by (auto simp: insert_job_exact job_table_wf_def table_inv find_job_def table_simps)

lemma put_job_wf:
  assumes "job_table_wf t" "put_job j t = Inr t'"
  shows "job_table_wf t'"
proof -
  obtain old where old: "find_job t (j_id j) = Some old"
    and t': "t' = t\<lparr>jt_jobs := om_set (j_id j) j (jt_jobs t)\<rparr>"
    using assms(2) by (auto simp: put_job_exact)
  then have "length (om_set (j_id j) j (jt_jobs t)) = length (jt_jobs t)"
    using assms(1) om.length_set_known [of "jt_jobs t" "j_id j" old j] by (simp add: job_table_wf_def find_job_def)
  then show ?thesis
    using assms(1) old by (auto simp: t' job_table_wf_def table_inv find_job_def table_simps)
qed

lemma erase_job_wf:
  assumes "job_table_wf t" "erase_job i t = Inr t'"
  shows "job_table_wf t'"
proof -
  have t': "t' = t\<lparr>jt_jobs := om_erase i (jt_jobs t)\<rparr>" using assms(2) by (simp add: erase_job_exact)
  have "length (om_erase i (jt_jobs t)) \<le> length (jt_jobs t)" by (simp add: om_erase_def)
  then show ?thesis
    using assms(1) by (auto simp: t' job_table_wf_def table_inv find_job_def table_simps)
qed

lemma next_id_moves: "next_id r \<noteq> r"
  by (simp add: next_id_def)

lemma put_job_conflict:
  assumes "put_job a t = Inr t'" "j_id b = j_id a" "j_revision b = j_revision a"
  shows "\<exists>d. put_job b t' = Inl (make_error StaleRevision d)"
  using assms next_id_moves [of "j_revision a"] by (auto simp: put_job_exact put_job_def [of b])

definition quarantine_ids :: "quarantine_table \<Rightarrow> quarantine_id set" where
  "quarantine_ids t = fst ` set (qt_records t)"

interpretation quarantine_ids: id_allocator qt_next_id quarantine_ids allocate_quarantine_id adopt_quarantine q_id
proof unfold_locales
  fix t :: quarantine_table and r t'
  show "fst (allocate_quarantine_id t) = qt_next_id t" by (simp add: allocate_quarantine_id_def)
  assume adopt: "adopt_quarantine r t = Inr t'"
  then have t': "t' = t\<lparr>
      qt_next_id := (if q_id r \<ge> qt_next_id t then next_id (q_id r) else qt_next_id t),
      qt_records := om_set (q_id r) (seal_quarantine r) (qt_records t)\<rparr>"
    by (simp add: adopt_quarantine_def split: if_splits)
  show "quarantine_ids t' = insert (q_id r) (quarantine_ids t)"
    by (simp add: t' quarantine_ids_def set_keys_om_set)
  show "qt_next_id t' = (if q_id r \<ge> qt_next_id t then next_id (q_id r) else qt_next_id t)"
    by (simp add: t')
qed

definition newer_quarantine :: "quarantine_record \<Rightarrow> quarantine_record \<Rightarrow> bool" where
  "newer_quarantine b r \<longleftrightarrow> q_created_at r < q_created_at b \<or> (q_created_at r = q_created_at b \<and> q_id b \<le> q_id r)"

definition open_on :: "target_id \<Rightarrow> quarantine_record \<Rightarrow> bool" where
  "open_on tgt r \<longleftrightarrow> \<not> q_cleared r \<and> q_target r = tgt"

lemma newer_quarantine_trans: "newer_quarantine a b \<Longrightarrow> newer_quarantine b c \<Longrightarrow> newer_quarantine a c"
  by (auto simp: newer_quarantine_def)

lemma better_quarantine_newest:
  "\<exists>b. better_quarantine best r = Some b \<and> b \<in> insert r (set_option best) \<and>
     (\<forall>x \<in> insert r (set_option best). newer_quarantine b x)"
  by (cases best) (auto simp: better_quarantine_def newer_quarantine_def)

definition newest_of :: "quarantine_record set \<Rightarrow> quarantine_record option \<Rightarrow> bool" where
  "newest_of S best \<longleftrightarrow> (best = None \<longleftrightarrow> S = {}) \<and>
     (\<forall>b. best = Some b \<longrightarrow> b \<in> S \<and> (\<forall>x \<in> S. newer_quarantine b x))"

lemma newest_of_merge:
  assumes "newest_of S (Some b)" "newest_of (insert b R) best"
  shows "newest_of (S \<union> R) best"
proof -
  obtain c where c: "best = Some c" "c \<in> insert b R" "\<forall>x \<in> insert b R. newer_quarantine c x"
    using assms(2) by (cases best) (auto simp: newest_of_def)
  have b: "b \<in> S" "\<forall>x \<in> S. newer_quarantine b x" using assms(1) by (auto simp: newest_of_def)
  have "newer_quarantine c x" if "x \<in> S" for x
    using newer_quarantine_trans [of c b x] b c that by simp
  with b c show ?thesis by (auto simp: newest_of_def)
qed

lemma scan_quarantine:
  "newest_of (set_option best \<union> {r \<in> set rs. open_on tgt r})
     (fold (\<lambda>r best. if q_cleared r \<or> q_target r \<noteq> tgt then best else better_quarantine best r) rs best)"
proof (induction rs arbitrary: best)
  case Nil
  then show ?case by (cases best) (auto simp: newest_of_def newer_quarantine_def)
next
  case (Cons r rs)
  show ?case
  proof (cases "open_on tgt r")
    case False
    then have "{x \<in> set (r # rs). open_on tgt x} = {x \<in> set rs. open_on tgt x}" by auto
    moreover have "q_cleared r \<or> q_target r \<noteq> tgt" using False by (auto simp: open_on_def)
    ultimately show ?thesis using Cons.IH [of best] by (simp only: fold_simps if_True)
  next
    case True
    from better_quarantine_newest [of best r]
    obtain b where b: "better_quarantine best r = Some b" "b \<in> insert r (set_option best)"
      "\<forall>x \<in> insert r (set_option best). newer_quarantine b x"
      by (elim exE conjE) (rule that)
    then have "newest_of (insert r (set_option best)) (Some b)" by (auto simp: newest_of_def)
    from newest_of_merge [OF this, of "{x \<in> set rs. open_on tgt x}"] Cons.IH [of "Some b"]
    have "newest_of (insert r (set_option best) \<union> {x \<in> set rs. open_on tgt x})
        (fold (\<lambda>r best. if q_cleared r \<or> q_target r \<noteq> tgt then best else better_quarantine best r) rs (Some b))"
      by simp
    moreover have "insert r (set_option best) \<union> {x \<in> set rs. open_on tgt x} =
        set_option best \<union> {x \<in> set (r # rs). open_on tgt x}" using True by auto
    ultimately show ?thesis using True b(1) by (simp add: open_on_def)
  qed
qed

lemma find_open_newest:
  "newest_of {r \<in> set (om_values (qt_records t)). open_on tgt r} (find_open_for_target t tgt)"
  using scan_quarantine [of None "om_values (qt_records t)" tgt] by (simp add: find_open_for_target_def)

lemma validate_request_shape_ok:
  "validate_request_shape r = ok_status \<longleftrightarrow>
     mr_title r \<noteq> [] \<and> length (mr_title r) \<le> kMaxTitleLength \<and> length (mr_reason r) \<le> kMaxReasonLength \<and>
     mr_targets r \<noteq> [] \<and> length (mr_targets r) \<le> kMaxTargetsPerJob \<and>
     length (mr_depends_on r) \<le> kMaxDependenciesPerJob \<and> distinct (mr_targets r) \<and>
     (\<forall>t \<in> set (mr_targets r). target_valid t) \<and> distinct (mr_depends_on r) \<and>
     0 \<le> mr_estimated_duration r \<and> id_valid (mr_requestor r)"
  by (auto simp: validate_request_shape_def adjacent_dup_sort)

lemma validate_drain_request_ok:
  "validate_drain_request r = ok_status \<longleftrightarrow>
     id_valid (dq_job r) \<and> id_valid (dq_generation r) \<and> attempt_valid (dq_attempt r) \<and>
     incarnation_valid (dq_requester r) \<and> dq_targets r \<noteq> [] \<and>
     length (dq_targets r) \<le> kMaxDrainTargetsPerRequest \<and> distinct (dq_targets r) \<and>
     (\<forall>t \<in> set (dq_targets r). target_valid t) \<and>
     kMinDrainLeaseNanos \<le> dq_lease_duration r \<and> dq_lease_duration r \<le> kMaxDrainLeaseNanos"
  by (auto simp: validate_drain_request_def adjacent_dup_sort)

end
