(* ===== verification/Impact.thy ===== *)
theory Impact
  imports Readiness Jobs
begin

text \<open>
  Capacity impact (\<^verbatim>\<open>include/mf/engine/impact.hpp\<close>, \<^verbatim>\<open>src/engine/impact.cpp\<close>): the projection
  that decides whether a removal is safe. Unit counts are 32-bit words and wrap as in the
  source; member counts are cast from the number of loop increments. The two loops that collect
  the touched pools and domains are the loops of \<open>pools_of\<close> and \<open>domains_of\<close>.

  The specification \<open>safe_removal\<close> is stated over sets of targets and unbounded numbers. The
  main lemma is that a satisfied projection extends a safe baseline to a safe union; a wrapped
  sum of serving units can only under-count, so the wrap-around is on the conservative side
  there. The locale \<open>joint_safety\<close> captures what the authority components rely on.
\<close>

section \<open>Data\<close>

record target_impact =
  ti_target :: target_id
  ti_exists :: bool
  ti_maintainable :: bool
  ti_covered_by_baseline :: bool
  ti_planned :: bool
  ti_evidence_fresh :: bool
  ti_health :: health
  ti_detail :: string

record pool_impact =
  pi_pool :: pool_id
  pi_name :: string
  pi_total_units :: u32
  pi_serving_units :: u32
  pi_unknown_units :: u32
  pi_removed_serving_units :: u32
  pi_remaining_units :: u32
  pi_required_units :: u32
  pi_reserve_units :: u32
  pi_satisfied :: bool
  pi_rule :: string
  pi_reason :: string

record domain_impact =
  di_domain :: domain_id
  di_name :: string
  di_limited :: bool
  di_out_before :: u32
  di_out_after :: u32
  di_max_out :: u32
  di_satisfied :: bool
  di_rule :: string
  di_reason :: string

record contract_impact =
  co_contract :: contract_id
  co_name :: string
  co_available_before :: u32
  co_available_after :: u32
  co_min_available :: u32
  co_satisfied :: bool
  co_reason :: string

record capacity_impact =
  im_targets :: "target_impact list"
  im_pools :: "pool_impact list"
  im_domains :: "domain_impact list"
  im_contracts :: "contract_impact list"
  im_planned_count :: u32
  im_baseline_count :: u32
  im_satisfied :: bool
  im_digest :: u64

definition no_impact :: capacity_impact where
  "no_impact = \<lparr>im_targets = [], im_pools = [], im_domains = [], im_contracts = [],
     im_planned_count = 0, im_baseline_count = 0, im_satisfied = True, im_digest = 0\<rparr>"

record impact_input =
  in_topology :: topology
  in_policy :: policy
  in_readiness :: readiness_view
  in_baseline_removed :: "target_id list"
  in_planned_removed :: "target_id list"
  in_require_full_evidence :: bool

definition impact_block_reason :: "capacity_impact \<Rightarrow> block_reason option" where
  "impact_block_reason im =
     (if \<exists>e \<in> set (im_targets im). \<not> ti_exists e then Some TargetUnknown
      else if \<exists>e \<in> set (im_targets im). ti_planned e \<and> \<not> ti_maintainable e then
        Some TargetNotMaintainable
      else if \<exists>e \<in> set (im_pools im). \<not> pi_satisfied e then Some RedundancyViolation
      else if \<exists>e \<in> set (im_domains im). \<not> di_satisfied e then Some FailureDomainLimit
      else if \<exists>e \<in> set (im_contracts im). \<not> co_satisfied e then Some ContractViolation
      else None)"

fun first_target_violation :: "target_impact list \<Rightarrow> string" where
  "first_target_violation [] = []"
| "first_target_violation (e # es) =
     (if \<not> ti_exists e then
        ''target '' @ to_string_target (ti_target e) @ '' is not declared in the topology''
      else if ti_planned e \<and> \<not> ti_maintainable e then
        ''target '' @ to_string_target (ti_target e) @ '' is marked not maintainable''
      else first_target_violation es)"

definition first_violation :: "capacity_impact \<Rightarrow> string" where
  "first_violation im =
     (case find (\<lambda>e. \<not> pi_satisfied e) (im_pools im) of
        Some e \<Rightarrow> pi_reason e
      | None \<Rightarrow> (case find (\<lambda>e. \<not> di_satisfied e) (im_domains im) of
          Some e \<Rightarrow> di_reason e
        | None \<Rightarrow> (case find (\<lambda>e. \<not> co_satisfied e) (im_contracts im) of
            Some e \<Rightarrow> co_reason e
          | None \<Rightarrow> first_target_violation (im_targets im))))"

definition impact_summary :: "capacity_impact \<Rightarrow> string" where
  "impact_summary im =
     ''planned='' @ dec_word (im_planned_count im) @ '' baseline='' @ dec_word (im_baseline_count im) @
     '' pools='' @ dec_string (length (im_pools im)) @ '' domains='' @ dec_string (length (im_domains im)) @
     '' contracts='' @ dec_string (length (im_contracts im)) @
     (if im_satisfied im then '' satisfied'' else '' UNSATISFIED'')"

section \<open>The projection\<close>

definition impact_of_target ::
    "topology \<Rightarrow> readiness_view \<Rightarrow> target_id list \<Rightarrow> target_id list \<Rightarrow> target_id \<Rightarrow> target_impact" where
  "impact_of_target topo rv baseline planned t =
     (let record = target topo t;
          known = record \<noteq> None;
          fresh = is_fresh rv t;
          health = health_of rv t
      in \<lparr>ti_target = t, ti_exists = known,
          ti_maintainable = (case record of None \<Rightarrow> False | Some r \<Rightarrow> tr_maintainable r),
          ti_covered_by_baseline = (t \<in> set baseline), ti_planned = (t \<in> set planned),
          ti_evidence_fresh = fresh, ti_health = health,
          ti_detail = (if \<not> known then ''not declared in the topology''
                       else if \<not> fresh then ''no fresh health evidence''
                       else ''health='' @ to_string_health health)\<rparr>)"

record pool_tally =
  ty_total :: u32
  ty_serving :: u32
  ty_unknown :: u32
  ty_removed_serving :: u32

definition member_units :: "topology \<Rightarrow> target_id \<Rightarrow> u32" where
  "member_units topo m = (case target topo m of None \<Rightarrow> 1 | Some r \<Rightarrow> tr_capacity_units r)"

definition tally_member ::
    "topology \<Rightarrow> readiness_view \<Rightarrow> target_id list \<Rightarrow> target_id list \<Rightarrow> target_id \<Rightarrow> pool_tally \<Rightarrow> pool_tally" where
  "tally_member topo rv baseline planned m ty =
     (let units = member_units topo m;
          out = (m \<in> set baseline \<or> m \<in> set planned);
          ty = ty\<lparr>ty_total := ty_total ty + units\<rparr>
      in if \<not> is_fresh rv m then ty\<lparr>ty_unknown := ty_unknown ty + units\<rparr>
         else
           let ty = (if \<not> out \<and> is_serving (health_of rv m)
                     then ty\<lparr>ty_serving := ty_serving ty + units\<rparr> else ty)
           in if out \<and> is_serving (health_of rv m)
              then ty\<lparr>ty_removed_serving := ty_removed_serving ty + units\<rparr> else ty)"

definition tally_pool ::
    "topology \<Rightarrow> readiness_view \<Rightarrow> target_id list \<Rightarrow> target_id list \<Rightarrow> target_id list \<Rightarrow> pool_tally" where
  "tally_pool topo rv baseline planned members =
     fold (tally_member topo rv baseline planned) members
       \<lparr>ty_total = 0, ty_serving = 0, ty_unknown = 0, ty_removed_serving = 0\<rparr>"

definition impact_of_pool :: "impact_input \<Rightarrow> target_id list \<Rightarrow> target_id list \<Rightarrow> pool_record \<Rightarrow> pool_id \<Rightarrow> pool_impact" where
  "impact_of_pool inp baseline planned record p =
     (let rule = redundancy_for (in_policy inp) p;
          required = required_serving_units rule;
          headroom = headroom_for (in_policy inp) p;
          reserve_units = (case headroom of None \<Rightarrow> 0 | Some h \<Rightarrow> hr_reserve_units h);
          rule_name = (if rr_name rule = [] then ''redundancy'' else rr_name rule) @
            (case headroom of None \<Rightarrow> [] | Some h \<Rightarrow> if hr_name h = [] then [] else ''+'' @ hr_name h);
          ty = tally_pool (in_topology inp) (in_readiness inp) baseline planned (pr_members record);
          required_total = required + reserve_units;
          short = ty_serving ty < required_total;
          reason0 = (if short then
              ''pool '' @ to_string_pool p @ '' would keep '' @ dec_word (ty_serving ty) @
              '' serving unit(s); policy requires '' @ dec_word required_total @
              '' ('' @ dec_word required @ '' redundancy + '' @ dec_word reserve_units @ '' reserve)''
            else []);
          reason = (if in_require_full_evidence inp \<and> ty_unknown ty > 0 then
              reason0 @ (if reason0 = [] then [] else ''; '') @ dec_word (ty_unknown ty) @
              '' unit(s) have no fresh health evidence and do not count toward the '' @ ''requirement''
            else reason0)
      in \<lparr>pi_pool = p, pi_name = pr_name record, pi_total_units = ty_total ty,
          pi_serving_units = ty_serving ty + ty_removed_serving ty, pi_unknown_units = ty_unknown ty,
          pi_removed_serving_units = ty_removed_serving ty, pi_remaining_units = ty_serving ty,
          pi_required_units = required, pi_reserve_units = reserve_units,
          pi_satisfied = (\<not> short), pi_rule = rule_name, pi_reason = reason\<rparr>)"

fun join_rule_names :: "string \<Rightarrow> domain_limit_rule list \<Rightarrow> string" where
  "join_rule_names acc [] = acc"
| "join_rule_names acc (r # rs) =
     join_rule_names (if dl_name r = [] then acc
       else (if acc = [] then acc else acc @ '','') @ dl_name r) rs"

definition impact_of_domain ::
    "impact_input \<Rightarrow> target_id list \<Rightarrow> target_id list \<Rightarrow> domain_record \<Rightarrow> domain_id \<Rightarrow> domain_impact" where
  "impact_of_domain inp baseline planned record d =
     (let rules = domain_limits_for (in_policy inp) d;
          limited = (rules \<noteq> []);
          max_out = fold (\<lambda>r m. max m (dl_max_out r)) rules 0;
          rule_name = (let n = join_rule_names [] rules in if n = [] then ''domain-limit'' else n);
          members = domain_members (in_topology inp) d;
          out_before = of_nat (length (filter (\<lambda>m. m \<in> set baseline) members));
          out_after = of_nat (length (filter (\<lambda>m. m \<in> set baseline \<or> m \<in> set planned) members));
          bad = (limited \<and> out_after > max_out)
      in \<lparr>di_domain = d, di_name = dr_name record, di_limited = limited, di_out_before = out_before,
          di_out_after = out_after, di_max_out = max_out, di_satisfied = (\<not> bad), di_rule = rule_name,
          di_reason = (if bad then
              ''correlated failure domain '' @ to_string_domain d @ '' would have '' @ dec_word out_after @
              '' member(s) out of service; policy allows '' @ dec_word max_out
            else [])\<rparr>)"

definition impact_of_contract ::
    "impact_input \<Rightarrow> target_id list \<Rightarrow> target_id list \<Rightarrow> contract \<Rightarrow> contract_impact" where
  "impact_of_contract inp baseline planned c =
     (let rv = in_readiness inp;
          serving = (\<lambda>m. is_fresh rv m \<and> is_serving (health_of rv m));
          before = of_nat (length (filter (\<lambda>m. serving m \<and> m \<notin> set baseline) (c_members c)));
          after = of_nat (length (filter
            (\<lambda>m. serving m \<and> m \<notin> set baseline \<and> m \<notin> set planned) (c_members c)));
          bad = (after < c_min_available c)
      in \<lparr>co_contract = c_id c, co_name = c_name c, co_available_before = before,
          co_available_after = after, co_min_available = c_min_available c, co_satisfied = (\<not> bad),
          co_reason = (if bad then
              ''contract '' @ to_string_contract (c_id c) @ '' ('' @ c_name c @ '') would keep '' @
              dec_word after @ '' of '' @ dec_string (length (c_members c)) @
              '' member(s) available; minimum is '' @ dec_word (c_min_available c)
            else [])\<rparr>)"

definition impact_digest :: "capacity_impact \<Rightarrow> u64" where
  "impact_digest im =
     (let h = dg_str ''mf.impact.v1'' dg_init;
          h = dg_u64 (ucast (im_planned_count im)) h;
          h = dg_u64 (ucast (im_baseline_count im)) h;
          h = dg_bool (im_satisfied im) h;
          h = dg_each (\<lambda>e h. dg_u32 (health_code (ti_health e)) (dg_bool (ti_evidence_fresh e)
                (dg_bool (ti_planned e) (dg_bool (ti_covered_by_baseline e)
                  (dg_bool (ti_maintainable e) (dg_bool (ti_exists e)
                    (dg_target (ti_target e) h))))))) (im_targets im) h;
          h = dg_each (\<lambda>e h. dg_bool (pi_satisfied e) (dg_u32 (pi_reserve_units e)
                (dg_u32 (pi_required_units e) (dg_u32 (pi_remaining_units e)
                  (dg_u32 (pi_unknown_units e) (dg_u32 (pi_serving_units e)
                    (dg_u32 (pi_total_units e) (dg_u64 (pi_pool e) h)))))))) (im_pools im) h;
          h = dg_each (\<lambda>e h. dg_bool (di_satisfied e) (dg_u32 (di_max_out e)
                (dg_u32 (di_out_after e) (dg_u32 (di_out_before e) (dg_domain (di_domain e) h)))))
              (im_domains im) h
      in dg_each (\<lambda>e h. dg_bool (co_satisfied e) (dg_u32 (co_min_available e)
           (dg_u32 (co_available_after e) (dg_u32 (co_available_before e) (dg_u64 (co_contract e) h)))))
         (im_contracts im) h)"

definition compute_impact :: "impact_input \<Rightarrow> capacity_impact" where
  "compute_impact inp =
     (let topo = in_topology inp;
          baseline = sort_unique (in_baseline_removed inp);
          planned = sort_unique (in_planned_removed inp);
          all_out = sort (fold (\<lambda>t out. push_unique out t) planned baseline);
          targets = map (impact_of_target topo (in_readiness inp) baseline planned) all_out;
          pools = List.map_filter (\<lambda>p. map_option
            (\<lambda>r. impact_of_pool inp baseline planned r p) (pool topo p)) (pools_of topo all_out);
          domains = List.map_filter (\<lambda>d. map_option
            (\<lambda>r. impact_of_domain inp baseline planned r d) (domain topo d)) (domains_of topo all_out);
          contracts = map (impact_of_contract inp baseline planned)
            (contracts_touching (in_policy inp) planned);
          satisfied = (list_all (\<lambda>e. ti_exists e \<and> \<not> (ti_planned e \<and> \<not> ti_maintainable e)) targets \<and>
            list_all pi_satisfied pools \<and> list_all di_satisfied domains \<and>
            list_all co_satisfied contracts);
          im = \<lparr>im_targets = targets, im_pools = pools, im_domains = domains, im_contracts = contracts,
                im_planned_count = of_nat (length planned), im_baseline_count = of_nat (length baseline),
                im_satisfied = satisfied, im_digest = 0\<rparr>
      in im\<lparr>im_digest := impact_digest im\<rparr>)"

section \<open>Specification\<close>

text \<open>
  The contract of a safety judgement, over which targets are out of service: nothing out is
  safe, taking less out is safe, and an admissible plan may be added to a safe baseline.
\<close>

locale joint_safety =
  fixes safe :: "'t set \<Rightarrow> bool"
    and admissible :: "'t set \<Rightarrow> 't set \<Rightarrow> bool"
  assumes safe_none: "safe {}"
    and safe_fewer: "safe B \<Longrightarrow> A \<subseteq> B \<Longrightarrow> safe A"
    and safe_grant: "safe B \<Longrightarrow> admissible B P \<Longrightarrow> safe (B \<union> P)"
begin

inductive reachable :: "'t set \<Rightarrow> bool" where
  none: "reachable {}"
| grant: "reachable B \<Longrightarrow> admissible B P \<Longrightarrow> reachable (B \<union> P)"
| withdraw: "reachable B \<Longrightarrow> A \<subseteq> B \<Longrightarrow> reachable A"

lemma reachable_safe: "reachable B \<Longrightarrow> safe B"
  by (induction rule: reachable.induct) (auto intro: safe_none safe_grant safe_fewer)

lemma grants_safe:
  "safe B \<Longrightarrow> (\<forall>i < length Ps. admissible (B \<union> \<Union> (set (take i Ps))) (Ps ! i)) \<Longrightarrow> safe (B \<union> \<Union> (set Ps))"
proof (induction Ps rule: rev_induct)
  case (snoc P Ps)
  have "safe (B \<union> \<Union> (set Ps))"
    using snoc by (metis (no_types, lifting) length_append less_Suc_eq_le less_or_eq_imp_le nth_append
        take_append append_Nil2 diff_is_0_eq' take0 trans_less_add1)
  moreover have "admissible (B \<union> \<Union> (set Ps)) P"
    using snoc.prems(2) by (auto dest: spec [of _ "length Ps"])
  ultimately show ?case using safe_grant [of "B \<union> \<Union> (set Ps)" P] by (simp add: Un_ac)
qed simp

end

definition pool_requirement :: "policy \<Rightarrow> pool_id \<Rightarrow> u32" where
  "pool_requirement po p = required_serving_units (redundancy_for po p) +
     (case headroom_for po p of None \<Rightarrow> 0 | Some h \<Rightarrow> hr_reserve_units h)"

definition reserve_of :: "policy \<Rightarrow> pool_id \<Rightarrow> nat" where
  "reserve_of po p = (case headroom_for po p of None \<Rightarrow> 0 | Some h \<Rightarrow> unat (hr_reserve_units h))"

definition reserve_fits :: "policy \<Rightarrow> pool_id \<Rightarrow> bool" where
  "reserve_fits po p \<longleftrightarrow>
     unat (pool_requirement po p) = unat (required_serving_units (redundancy_for po p)) + reserve_of po p"

definition domain_allowance :: "policy \<Rightarrow> domain_id \<Rightarrow> u32" where
  "domain_allowance po d = fold (\<lambda>r m. max m (dl_max_out r)) (domain_limits_for po d) 0"

definition surviving_units :: "topology \<Rightarrow> readiness_view \<Rightarrow> target_id set \<Rightarrow> target_id list \<Rightarrow> nat" where
  "surviving_units topo rv S members =
     (\<Sum>m \<leftarrow> members. if view_is_serving rv m \<and> m \<notin> S then unat (member_units topo m) else 0)"

definition surviving_members :: "readiness_view \<Rightarrow> target_id set \<Rightarrow> target_id list \<Rightarrow> nat" where
  "surviving_members rv S members = length (filter (\<lambda>m. view_is_serving rv m \<and> m \<notin> S) members)"

definition pools_safe :: "topology \<Rightarrow> policy \<Rightarrow> readiness_view \<Rightarrow> target_id set \<Rightarrow> bool" where
  "pools_safe topo po rv S \<longleftrightarrow> (\<forall>p r. pool topo p = Some r \<longrightarrow> set (pr_members r) \<inter> S \<noteq> {} \<longrightarrow>
     unat (pool_requirement po p) \<le> surviving_units topo rv S (pr_members r))"

definition domains_safe :: "topology \<Rightarrow> policy \<Rightarrow> target_id set \<Rightarrow> bool" where
  "domains_safe topo po S \<longleftrightarrow> (\<forall>d. has_domain_limit po d \<longrightarrow> domain topo d \<noteq> None \<longrightarrow>
     card (set (domain_members topo d) \<inter> S) \<le> unat (domain_allowance po d))"

definition contract_safe :: "readiness_view \<Rightarrow> target_id set \<Rightarrow> contract \<Rightarrow> bool" where
  "contract_safe rv S c \<longleftrightarrow> (set (c_members c) \<inter> S \<noteq> {} \<longrightarrow>
     unat (c_min_available c) \<le> surviving_members rv S (c_members c))"

definition safe_removal :: "topology \<Rightarrow> policy \<Rightarrow> readiness_view \<Rightarrow> target_id set \<Rightarrow> bool" where
  "safe_removal topo po rv S \<longleftrightarrow> (\<forall>t \<in> S. contains topo t) \<and> pools_safe topo po rv S \<and>
     domains_safe topo po S \<and> (\<forall>c \<in> set (po_contracts po). contract_safe rv S c)"

definition plan_impact :: "topology \<Rightarrow> policy \<Rightarrow> readiness_view \<Rightarrow> target_id list \<Rightarrow> target_id list \<Rightarrow> capacity_impact" where
  "plan_impact topo po rv baseline planned = compute_impact
     \<lparr>in_topology = topo, in_policy = po, in_readiness = rv, in_baseline_removed = baseline,
      in_planned_removed = planned, in_require_full_evidence = True\<rparr>"

definition admissible_removal ::
    "topology \<Rightarrow> policy \<Rightarrow> readiness_view \<Rightarrow> target_id set \<Rightarrow> target_id set \<Rightarrow> bool" where
  "admissible_removal topo po rv B P \<longleftrightarrow> topo_wf topo \<and>
     (\<exists>b p. set b = B \<and> set p = P \<and> im_satisfied (plan_impact topo po rv b p))"

section \<open>Lemmas\<close>

lemma unat_add_le: "unat (a + b) \<le> unat a + unat b" for a b :: "'a::len word"
  by (simp add: unat_word_ariths)

lemma unat_sum_list_le: "unat (\<Sum>x \<leftarrow> xs. f x) \<le> (\<Sum>x \<leftarrow> xs. unat (f x))" for f :: "'b \<Rightarrow> 'a::len word"
proof (induction xs)
  case (Cons x xs)
  have "unat (f x + (\<Sum>y \<leftarrow> xs. f y)) \<le> unat (f x) + unat (\<Sum>y \<leftarrow> xs. f y)" by (rule unat_add_le)
  with Cons show ?case by simp
qed simp

lemma tally_serving:
  "ty_serving (fold (tally_member topo rv baseline planned) members ty) = ty_serving ty +
     (\<Sum>m \<leftarrow> members. if view_is_serving rv m \<and> m \<notin> set baseline \<union> set planned then member_units topo m else 0)"
proof (induction members arbitrary: ty)
  case (Cons m members)
  have "ty_serving (tally_member topo rv baseline planned m ty) = ty_serving ty +
      (if view_is_serving rv m \<and> m \<notin> set baseline \<union> set planned then member_units topo m else 0)"
    by (simp add: tally_member_def Let_def view_serving_iff)
  then show ?case by (simp add: Cons.IH)
qed simp

lemma tally_pool_survivors:
  "unat (ty_serving (tally_pool topo rv baseline planned members))
     \<le> surviving_units topo rv (set baseline \<union> set planned) members"
proof -
  have "ty_serving (tally_pool topo rv baseline planned members) =
      (\<Sum>m \<leftarrow> members. if view_is_serving rv m \<and> m \<notin> set baseline \<union> set planned then member_units topo m else 0)"
    by (simp add: tally_pool_def tally_serving)
  also have "unat \<dots> \<le> (\<Sum>m \<leftarrow> members. unat (if view_is_serving rv m \<and> m \<notin> set baseline \<union> set planned
      then member_units topo m else 0))" by (rule unat_sum_list_le)
  also have "\<dots> = surviving_units topo rv (set baseline \<union> set planned) members"
    unfolding surviving_units_def by (rule arg_cong [where f = sum_list], rule map_cong) auto
  finally show ?thesis .
qed

lemma pool_satisfied_survivors:
  assumes "pi_satisfied (impact_of_pool inp baseline planned r p)"
  shows "unat (pool_requirement (in_policy inp) p) \<le>
    surviving_units (in_topology inp) (in_readiness inp) (set baseline \<union> set planned) (pr_members r)"
proof -
  have "pool_requirement (in_policy inp) p \<le>
      ty_serving (tally_pool (in_topology inp) (in_readiness inp) baseline planned (pr_members r))"
    using assms by (simp add: impact_of_pool_def pool_requirement_def Let_def not_less)
  then show ?thesis
    using tally_pool_survivors le_trans unfolding word_le_nat_alt by blast
qed

lemma unat_of_nat_le: "unat (of_nat n :: 'a::len word) \<le> n"
  by (simp add: unat_of_nat)

lemma contract_satisfied_survivors:
  assumes "co_satisfied (impact_of_contract inp baseline planned c)"
  shows "contract_safe (in_readiness inp) (set baseline \<union> set planned) c"
proof -
  let ?n = "surviving_members (in_readiness inp) (set baseline \<union> set planned) (c_members c)"
  have "c_min_available c \<le> of_nat ?n"
    using assms
    by (simp add: impact_of_contract_def Let_def not_less surviving_members_def view_serving_iff conj_ac)
  then have "unat (c_min_available c) \<le> unat (of_nat ?n :: u32)" by (simp add: word_le_nat_alt)
  also have "\<dots> \<le> ?n" by (rule unat_of_nat_le)
  finally show ?thesis by (simp add: contract_safe_def)
qed

lemma domain_members_bound:
  assumes "topo_wf topo"
  shows "length (domain_members topo d) \<le> kMaxTargetsPerTopology" "distinct (domain_members topo d)"
proof -
  have idx: "ascending (domain_members topo d)"
    "set (domain_members topo d) \<subseteq> fst ` set (tp_targets topo)"
    using assms by (auto simp: topo_wf_def indexes_ok_def target_def om_find_def dest!: map_of_SomeD
        intro: rev_image_eqI)
  then show "distinct (domain_members topo d)" by (simp add: ascending_def)
  then have "length (domain_members topo d) = card (set (domain_members topo d))" by (simp add: distinct_card)
  also have "\<dots> \<le> card (set (map fst (tp_targets topo)))" using idx(2) by (intro card_mono) auto
  also have "\<dots> \<le> length (tp_targets topo)" by (metis card_length length_map)
  also have "\<dots> \<le> kMaxTargetsPerTopology" using assms by (simp add: topo_wf_defs)
  finally show "length (domain_members topo d) \<le> kMaxTargetsPerTopology" .
qed

lemma domain_satisfied_bound:
  assumes "di_satisfied (impact_of_domain inp baseline planned r d)" "topo_wf (in_topology inp)"
    "has_domain_limit (in_policy inp) d"
  shows "card (set (domain_members (in_topology inp) d) \<inter> (set baseline \<union> set planned))
     \<le> unat (domain_allowance (in_policy inp) d)"
proof -
  let ?ms = "domain_members (in_topology inp) d"
  let ?out = "filter (\<lambda>m. m \<in> set baseline \<or> m \<in> set planned) ?ms"
  have len: "length ?out \<le> kMaxTargetsPerTopology"
    using domain_members_bound(1) [OF assms(2)] length_filter_le le_trans by blast
  have "card (set ?ms \<inter> (set baseline \<union> set planned)) = card (set ?out)"
    by (rule arg_cong [where f = card]) auto
  also have "\<dots> = length ?out"
    using domain_members_bound(2) [OF assms(2)] by (intro distinct_card) simp
  also have "\<dots> = unat (of_nat (length ?out) :: u32)"
    using len by (simp add: unat_of_nat limits)
  also have "\<dots> \<le> unat (domain_allowance (in_policy inp) d)"
    using assms(1,3)
    by (auto simp: impact_of_domain_def Let_def domain_allowance_def not_less word_le_nat_alt
        has_domain_limit_def domain_limits_for_def filter_empty_conv)
  finally show ?thesis .
qed

lemma in_map_filter: "x \<in> set xs \<Longrightarrow> f x = Some y \<Longrightarrow> y \<in> set (List.map_filter f xs)"
  by (force simp: List.map_filter_def)

text \<open>What a projection that keeps capacity says about each part.\<close>

definition capacity_kept :: "capacity_impact \<Rightarrow> bool" where
  "capacity_kept im \<longleftrightarrow> list_all pi_satisfied (im_pools im) \<and> list_all di_satisfied (im_domains im) \<and>
     list_all co_satisfied (im_contracts im)"

lemma satisfied_capacity: "im_satisfied (compute_impact inp) \<Longrightarrow> capacity_kept (compute_impact inp)"
  by (simp add: capacity_kept_def compute_impact_def Let_def)

lemma satisfied_targets:
  assumes "im_satisfied (compute_impact inp)"
  shows "t \<in> set (in_baseline_removed inp) \<union> set (in_planned_removed inp) \<Longrightarrow> contains (in_topology inp) t"
    and "t \<in> set (in_planned_removed inp) \<Longrightarrow> target (in_topology inp) t = Some r \<Longrightarrow> tr_maintainable r"
  using assms
  by (auto simp: compute_impact_def Let_def list_all_iff impact_of_target_def contains_def
      dest!: bspec [of _ _ t] split: option.splits)

lemma capacity_parts:
  fixes inp :: impact_input
  defines "baseline \<equiv> sort_unique (in_baseline_removed inp)"
    and "planned \<equiv> sort_unique (in_planned_removed inp)"
  assumes "capacity_kept (compute_impact inp)"
  shows "p \<in> set (pools_of (in_topology inp) (in_baseline_removed inp @ in_planned_removed inp)) \<Longrightarrow>
       pool (in_topology inp) p = Some q \<Longrightarrow> pi_satisfied (impact_of_pool inp baseline planned q p)"
    and "d \<in> set (domains_of (in_topology inp) (in_baseline_removed inp @ in_planned_removed inp)) \<Longrightarrow>
       domain (in_topology inp) d = Some e \<Longrightarrow> di_satisfied (impact_of_domain inp baseline planned e d)"
    and "c \<in> set (contracts_touching (in_policy inp) planned) \<Longrightarrow>
       co_satisfied (impact_of_contract inp baseline planned c)"
proof -
  let ?all = "sort (fold (\<lambda>t out. push_unique out t) planned baseline)"
  have all: "set ?all = set (in_baseline_removed inp @ in_planned_removed inp)"
    by (simp add: baseline_def planned_def)
  have sat: "list_all pi_satisfied (List.map_filter (\<lambda>p. map_option
       (\<lambda>r. impact_of_pool inp baseline planned r p) (pool (in_topology inp) p)) (pools_of (in_topology inp) ?all))"
    "list_all di_satisfied (List.map_filter (\<lambda>d. map_option
       (\<lambda>r. impact_of_domain inp baseline planned r d) (domain (in_topology inp) d)) (domains_of (in_topology inp) ?all))"
    "list_all co_satisfied (map (impact_of_contract inp baseline planned) (contracts_touching (in_policy inp) planned))"
    using assms(3) unfolding capacity_kept_def compute_impact_def Let_def baseline_def planned_def by simp_all
  have pools: "set (pools_of (in_topology inp) ?all) = set (pools_of (in_topology inp) (in_baseline_removed inp @ in_planned_removed inp))"
    and domains: "set (domains_of (in_topology inp) ?all) = set (domains_of (in_topology inp) (in_baseline_removed inp @ in_planned_removed inp))"
    unfolding set_pools_of set_domains_of all by (rule refl)+
  show "pi_satisfied (impact_of_pool inp baseline planned q p)"
    if "p \<in> set (pools_of (in_topology inp) (in_baseline_removed inp @ in_planned_removed inp))"
      "pool (in_topology inp) p = Some q"
    using sat(1) that in_map_filter [of p _ _ "impact_of_pool inp baseline planned q p"]
    unfolding list_all_iff pools [symmetric] by simp
  show "di_satisfied (impact_of_domain inp baseline planned e d)"
    if "d \<in> set (domains_of (in_topology inp) (in_baseline_removed inp @ in_planned_removed inp))"
      "domain (in_topology inp) d = Some e"
    using sat(2) that in_map_filter [of d _ _ "impact_of_domain inp baseline planned e d"]
    unfolding list_all_iff domains [symmetric] by simp
  show "co_satisfied (impact_of_contract inp baseline planned c)"
    if "c \<in> set (contracts_touching (in_policy inp) planned)"
    using sat(3) that by (simp add: list_all_iff)
qed

lemma kept_pools_domains:
  assumes "capacity_kept (compute_impact inp)" "topo_wf (in_topology inp)"
    and out: "S = set (in_baseline_removed inp) \<union> set (in_planned_removed inp)"
  shows "pools_safe (in_topology inp) (in_policy inp) (in_readiness inp) S"
    and "domains_safe (in_topology inp) (in_policy inp) S"
proof -
  let ?topo = "in_topology inp"
  have idx: "indexes_ok ?topo" using assms(2) by (simp add: topo_wf_def)
  note parts = capacity_parts [OF assms(1)]
  have S: "set (sort_unique (in_baseline_removed inp)) \<union> set (sort_unique (in_planned_removed inp)) = S"
    by (simp add: out)
  show "pools_safe ?topo (in_policy inp) (in_readiness inp) S"
    unfolding pools_safe_def
  proof (intro allI impI)
    fix p r assume p: "pool ?topo p = Some r" and touched: "set (pr_members r) \<inter> S \<noteq> {}"
    then have "p \<in> set (pools_of ?topo (in_baseline_removed inp @ in_planned_removed inp))"
      using idx by (auto simp: set_pools_of indexes_ok_def out)
    from parts(1) [OF this p] show "unat (pool_requirement (in_policy inp) p) \<le>
        surviving_units ?topo (in_readiness inp) S (pr_members r)"
      using pool_satisfied_survivors S by metis
  qed
  show "domains_safe ?topo (in_policy inp) S"
    unfolding domains_safe_def
  proof (intro allI impI)
    fix d assume limit: "has_domain_limit (in_policy inp) d" and "domain ?topo d \<noteq> None"
    then obtain e where e: "domain ?topo d = Some e" by blast
    show "card (set (domain_members ?topo d) \<inter> S) \<le> unat (domain_allowance (in_policy inp) d)"
    proof (cases "set (domain_members ?topo d) \<inter> S = {}")
      case False
      then have "d \<in> set (domains_of ?topo (in_baseline_removed inp @ in_planned_removed inp))"
        using idx by (auto simp: set_domains_of indexes_ok_def out)
      from domain_satisfied_bound [OF parts(2) [OF this e] assms(2) limit] show ?thesis
        using S by simp
    qed simp
  qed
qed

lemma kept_contract:
  assumes "capacity_kept (compute_impact inp)" "c \<in> set (po_contracts (in_policy inp))"
    and "set (c_members c) \<inter> set (in_planned_removed inp) \<noteq> {}"
  shows "contract_safe (in_readiness inp) (set (in_baseline_removed inp) \<union> set (in_planned_removed inp)) c"
proof -
  have "c \<in> set (contracts_touching (in_policy inp) (sort_unique (in_planned_removed inp)))"
    using assms(2,3) by (simp add: set_contracts_touching)
  from contract_satisfied_survivors [OF capacity_parts(3) [OF assms(1) this]] show ?thesis by simp
qed

lemma contract_safe_untouched:
  assumes "contract_safe rv B c" "set (c_members c) \<inter> P = {}"
  shows "contract_safe rv (B \<union> P) c"
proof -
  have "surviving_members rv (B \<union> P) (c_members c) = surviving_members rv B (c_members c)"
    unfolding surviving_members_def using assms(2)
    by (intro arg_cong [where f = length] filter_cong refl) auto
  moreover have "set (c_members c) \<inter> (B \<union> P) = set (c_members c) \<inter> B" using assms(2) by auto
  ultimately show ?thesis using assms(1) by (simp add: contract_safe_def)
qed

lemma impact_extends_safety:
  assumes "im_satisfied (compute_impact inp)" "topo_wf (in_topology inp)"
    and "safe_removal (in_topology inp) (in_policy inp) (in_readiness inp) (set (in_baseline_removed inp))"
  shows "safe_removal (in_topology inp) (in_policy inp) (in_readiness inp)
    (set (in_baseline_removed inp) \<union> set (in_planned_removed inp))"
proof -
  have "contract_safe (in_readiness inp) (set (in_baseline_removed inp) \<union> set (in_planned_removed inp)) c"
    if "c \<in> set (po_contracts (in_policy inp))" for c
    using that assms(3) kept_contract [OF satisfied_capacity [OF assms(1)] that] contract_safe_untouched
    by (cases "set (c_members c) \<inter> set (in_planned_removed inp) = {}") (auto simp: safe_removal_def)
  then show ?thesis
    using kept_pools_domains [OF satisfied_capacity [OF assms(1)] assms(2) refl] satisfied_targets(1) [OF assms(1)]
    by (simp add: safe_removal_def)
qed

lemma surviving_antimono:
  assumes "A \<subseteq> B"
  shows "surviving_units topo rv B ms \<le> surviving_units topo rv A ms"
    and "surviving_members rv B ms \<le> surviving_members rv A ms"
  using assms by (induction ms) (auto simp: surviving_units_def surviving_members_def)

lemma safe_removal_fewer:
  assumes "safe_removal topo po rv B" "A \<subseteq> B"
  shows "safe_removal topo po rv A"
proof -
  note anti = surviving_antimono [OF assms(2)]
  have "pools_safe topo po rv A"
    using assms anti(1) unfolding safe_removal_def pools_safe_def by (meson le_trans disjoint_iff subset_iff)
  moreover have "card (set (domain_members topo d) \<inter> A) \<le> card (set (domain_members topo d) \<inter> B)" for d
    using assms(2) by (intro card_mono) auto
  then have "domains_safe topo po A"
    using assms(1) unfolding safe_removal_def domains_safe_def by (meson le_trans)
  moreover have "contract_safe rv A c" if "contract_safe rv B c" for c
    using that assms(2) anti(2) unfolding contract_safe_def by (meson le_trans disjoint_iff subset_iff)
  ultimately show ?thesis using assms unfolding safe_removal_def by blast
qed

lemma safe_removal_none: "safe_removal topo po rv {}"
  by (simp add: safe_removal_def pools_safe_def domains_safe_def contract_safe_def)

lemma admissible_extends:
  assumes "safe_removal topo po rv B" "admissible_removal topo po rv B P"
  shows "safe_removal topo po rv (B \<union> P)"
proof -
  obtain b p where "set b = B" "set p = P" "im_satisfied (plan_impact topo po rv b p)" "topo_wf topo"
    using assms(2) by (auto simp: admissible_removal_def)
  with impact_extends_safety [of "\<lparr>in_topology = topo, in_policy = po, in_readiness = rv,
      in_baseline_removed = b, in_planned_removed = p, in_require_full_evidence = True\<rparr>"] assms(1)
  show ?thesis by (simp add: plan_impact_def)
qed

interpretation removal: joint_safety "safe_removal topo po rv" "admissible_removal topo po rv" for topo po rv
  by unfold_locales (rule safe_removal_none, erule (1) safe_removal_fewer, erule (1) admissible_extends)

text \<open>The verdict agrees with the reported reason.\<close>

lemma block_reason_iff: "impact_block_reason (compute_impact inp) = None \<longleftrightarrow> im_satisfied (compute_impact inp)"
  by (auto simp: impact_block_reason_def compute_impact_def Let_def list_all_iff)

end
