(* ===== verification/Acquire.thy ===== *)
theory Acquire
  imports Impact
begin

text \<open>
  Authority acquisition (\<^verbatim>\<open>include/mf/engine/authority.hpp\<close>, \<^verbatim>\<open>src/engine/authority.cpp\<close>). The
  context carries values where the source has pointers, so the null-pointer guard has no
  counterpart; the ledger is threaded through and the projection written to \<^verbatim>\<open>impact_out\<close> is
  the third component of the result (\<open>no_impact\<close> while it has not been written).

  The lemmas show that a grant leaves a ledger whose live reservations, taken together, are
  safe and pairwise disjoint when they were so before, and that a refusal changes no
  reservation.
\<close>

record acquire_context =
  ac_topology :: topology
  ac_policy :: policy
  ac_readiness :: readiness_view
  ac_job :: job_id
  ac_generation :: generation_id
  ac_attempt :: attempt_id
  ac_removal_set :: "target_id list"
  ac_current :: incarnation
  ac_now :: nanos
  ac_lease_duration :: nanos

definition conflict_error :: "reservation \<Rightarrow> authority_id \<Rightarrow> target_id \<Rightarrow> error" where
  "conflict_error r i t = make_error PolicyDenied
     (''maintenance authority '' @ to_string_authority i @ '' held by job '' @ to_string_job (ra_job r) @
      '' already covers target '' @ to_string_target t)"

definition check_conflict :: "acquire_context \<Rightarrow> authority_id \<times> reservation \<Rightarrow> status" where
  "check_conflict ctx = (\<lambda>(i, r).
     if \<not> live_at (ac_now ctx) r then ok_status
     else if ra_job r = ac_job ctx \<and> ra_generation r = ac_generation ctx then ok_status
     else for_status (\<lambda>t. if covers r t then Inl (conflict_error r i t) else ok_status)
            (ac_removal_set ctx))"

definition clamp_lease :: "nanos \<Rightarrow> nanos" where
  "clamp_lease lease =
     (if lease < kMinDrainLeaseNanos then kMinDrainLeaseNanos
      else if lease > kMaxAuthorityLeaseNanos then kMaxAuthorityLeaseNanos else lease)"

definition planned_reservation :: "acquire_context \<Rightarrow> reservation" where
  "planned_reservation ctx =
     (let lease = clamp_lease (if ac_lease_duration ctx > 0 then ac_lease_duration ctx
                               else po_authority_lease (ac_policy ctx));
          targets = sort_unique (ac_removal_set ctx)
      in \<lparr>ra_id = 0, ra_job = ac_job ctx, ra_generation = ac_generation ctx, ra_attempt = ac_attempt ctx,
          ra_owner = ac_current ctx, ra_targets = targets,
          ra_domains = domains_of (ac_topology ctx) targets, ra_pools = pools_of (ac_topology ctx) targets,
          ra_revision = 0, ra_granted_at = ac_now ctx, ra_expires_at = ac_now ctx + lease, ra_digest = 0\<rparr>)"

definition acquire_authority ::
    "acquire_context \<Rightarrow> ledger \<Rightarrow> authority_id result \<times> ledger \<times> capacity_impact" where
  "acquire_authority ctx l =
     (if \<not> id_valid (ac_job ctx) \<or> \<not> id_valid (ac_generation ctx) \<or> \<not> attempt_valid (ac_attempt ctx) then
        (Inl (invalid_argument ''authority acquisition requires job, generation and attempt identity''),
         l, no_impact)
      else if ac_removal_set ctx = [] then
        (Inl (invalid_argument ''authority acquisition requires a non-empty removal set''), l, no_impact)
      else case unfresh (ac_readiness ctx) (ac_removal_set ctx) of
        t # ts \<Rightarrow>
          (Inl (make_error StaleEvidence
             (''no fresh health evidence for target '' @ to_string_target t @ '' ('' @
              dec_string (length (t # ts)) @ '' of '' @ dec_string (length (ac_removal_set ctx)) @
              '' target(s) in the removal set)'')), l, no_impact)
      | [] \<Rightarrow>
          (case for_status (check_conflict ctx) (lg_reservations l) of
             Inl e \<Rightarrow> (Inl e, l, no_impact)
           | Inr _ \<Rightarrow>
               let im = plan_impact (ac_topology ctx) (ac_policy ctx) (ac_readiness ctx)
                          (reserved_targets (ac_now ctx) l) (ac_removal_set ctx)
               in if \<not> im_satisfied im then
                    (Inl (make_error PolicyDenied
                       (''removal would violate '' @
                        to_string_block (case impact_block_reason im of Some r \<Rightarrow> r | None \<Rightarrow> BrPolicyDenied) @
                        '': '' @ first_violation im)), l, im)
                  else (case reserve (planned_reservation ctx) l of (res, l') \<Rightarrow> (res, l', im))))"

section \<open>Lemmas\<close>

definition live_disjoint :: "nanos \<Rightarrow> ledger \<Rightarrow> bool" where
  "live_disjoint now l \<longleftrightarrow> (\<forall>i j r q. find_reservation l i = Some r \<longrightarrow> find_reservation l j = Some q \<longrightarrow>
     live_at now r \<longrightarrow> live_at now q \<longrightarrow> i \<noteq> j \<longrightarrow> set (ra_targets r) \<inter> set (ra_targets q) = {})"

abbreviation live_safe :: "topology \<Rightarrow> policy \<Rightarrow> readiness_view \<Rightarrow> nanos \<Rightarrow> ledger \<Rightarrow> bool" where
  "live_safe topo po rv now l \<equiv> safe_removal topo po rv (set (reserved_targets now l))"

lemma clamp_lease_bounds:
  "kMinDrainLeaseNanos \<le> clamp_lease x" "clamp_lease x \<le> kMaxAuthorityLeaseNanos" "0 < clamp_lease x"
  by (simp_all add: clamp_lease_def limits)

lemma planned_simps [simp]:
  "ra_job (planned_reservation ctx) = ac_job ctx" "ra_generation (planned_reservation ctx) = ac_generation ctx"
  "ra_targets (planned_reservation ctx) = sort_unique (ac_removal_set ctx)"
  "ra_granted_at (planned_reservation ctx) = ac_now ctx" "ra_owner (planned_reservation ctx) = ac_current ctx"
  "ra_attempt (planned_reservation ctx) = ac_attempt ctx"
  by (simp_all add: planned_reservation_def Let_def)

lemma planned_lease:
  "ac_now ctx < ra_expires_at (planned_reservation ctx)"
  "ra_expires_at (planned_reservation ctx) \<le> ac_now ctx + kMaxAuthorityLeaseNanos"
  using clamp_lease_bounds by (simp_all add: planned_reservation_def Let_def)

lemma check_conflict_ok:
  "check_conflict ctx (i, r) = ok_status \<longleftrightarrow>
     (live_at (ac_now ctx) r \<longrightarrow> \<not> (ra_job r = ac_job ctx \<and> ra_generation r = ac_generation ctx) \<longrightarrow>
        set (ra_targets r) \<inter> set (ac_removal_set ctx) = {})"
  by (auto simp: check_conflict_def for_status_ok covers_def)

definition grantable :: "acquire_context \<Rightarrow> ledger \<Rightarrow> bool" where
  "grantable ctx l \<longleftrightarrow> id_valid (ac_job ctx) \<and> id_valid (ac_generation ctx) \<and> attempt_valid (ac_attempt ctx) \<and>
     ac_removal_set ctx \<noteq> [] \<and> (\<forall>t \<in> set (ac_removal_set ctx). is_fresh (ac_readiness ctx) t) \<and>
     (\<forall>e \<in> set (lg_reservations l). check_conflict ctx e = ok_status) \<and>
     im_satisfied (plan_impact (ac_topology ctx) (ac_policy ctx) (ac_readiness ctx)
       (reserved_targets (ac_now ctx) l) (ac_removal_set ctx)) \<and>
     reserve_guard (planned_reservation ctx) l"

lemma unfresh_empty: "unfresh v scope = [] \<longleftrightarrow> (\<forall>t \<in> set scope. is_fresh v t)"
  by (auto simp: unfresh_def filter_empty_conv)

text \<open>A grant happens exactly under \<open>grantable\<close>, and then it is the ledger's own reservation.\<close>

lemma acquire_granted:
  assumes "grantable ctx l"
  shows "fst (acquire_authority ctx l) = Inr (lg_next_id l)"
    and "fst (snd (acquire_authority ctx l)) = snd (reserve (planned_reservation ctx) l)"
proof -
  have u: "unfresh (ac_readiness ctx) (ac_removal_set ctx) = []"
    using assms by (simp add: grantable_def unfresh_empty)
  have c: "for_status (check_conflict ctx) (lg_reservations l) = ok_status"
    using assms by (simp add: grantable_def for_status_ok)
  have g: "reserve_guard (planned_reservation ctx) l" using assms by (simp add: grantable_def)
  have "acquire_authority ctx l = (fst (reserve (planned_reservation ctx) l), snd (reserve (planned_reservation ctx) l),
      plan_impact (ac_topology ctx) (ac_policy ctx) (ac_readiness ctx)
       (reserved_targets (ac_now ctx) l) (ac_removal_set ctx))"
    using assms unfolding acquire_authority_def u c by (simp add: grantable_def Let_def case_prod_unfold)
  then show "fst (acquire_authority ctx l) = Inr (lg_next_id l)"
    "fst (snd (acquire_authority ctx l)) = snd (reserve (planned_reservation ctx) l)"
    using reserve_exact [OF g] by simp_all
qed

lemma acquire_refused:
  assumes "\<not> grantable ctx l"
  shows "\<not> is_ok (fst (acquire_authority ctx l))"
    and "lg_reservations (fst (snd (acquire_authority ctx l))) = lg_reservations l"
    and "lg_next_id (fst (snd (acquire_authority ctx l))) = lg_next_id l"
proof -
  let ?im = "plan_impact (ac_topology ctx) (ac_policy ctx) (ac_readiness ctx)
       (reserved_targets (ac_now ctx) l) (ac_removal_set ctx)"
  let ?res = "reserve (planned_reservation ctx) l"
  have "\<not> is_ok (fst (acquire_authority ctx l)) \<and>
      lg_reservations (fst (snd (acquire_authority ctx l))) = lg_reservations l \<and>
      lg_next_id (fst (snd (acquire_authority ctx l))) = lg_next_id l"
  proof (cases "unfresh (ac_readiness ctx) (ac_removal_set ctx)")
    case Cons
    then show ?thesis by (simp add: acquire_authority_def)
  next
    case Nil
    then have fresh: "\<forall>t \<in> set (ac_removal_set ctx). is_fresh (ac_readiness ctx) t" by (simp add: unfresh_empty)
    show ?thesis
    proof (cases "for_status (check_conflict ctx) (lg_reservations l) = ok_status \<and> im_satisfied ?im \<and>
        id_valid (ac_job ctx) \<and> id_valid (ac_generation ctx) \<and> attempt_valid (ac_attempt ctx) \<and> ac_removal_set ctx \<noteq> []")
      case True
      then have "\<not> reserve_guard (planned_reservation ctx) l"
        using assms fresh by (simp add: grantable_def for_status_ok)
      with True Nil show ?thesis
        using reserve_granted_iff [of "planned_reservation ctx" l] reserve_denied [of "planned_reservation ctx" l]
        by (simp add: acquire_authority_def Let_def case_prod_unfold)
    next
      case False
      with Nil show ?thesis
        by (auto simp: acquire_authority_def Let_def split: sum.splits)
    qed
  qed
  then show "\<not> is_ok (fst (acquire_authority ctx l))"
    "lg_reservations (fst (snd (acquire_authority ctx l))) = lg_reservations l"
    "lg_next_id (fst (snd (acquire_authority ctx l))) = lg_next_id l" by blast+
qed

lemma same_reservations:
  assumes "lg_reservations l' = lg_reservations l"
  shows "find_reservation l' = find_reservation l" "reserved_targets now l' = reserved_targets now l"
    "live now l' = live now l" "live_disjoint now l' = live_disjoint now l" "find_for_job l' = find_for_job l"
  using assms by (auto simp: find_reservation_def reserved_targets_def live_def live_disjoint_def fun_eq_iff find_for_job_def)

lemma grant_reserved_targets:
  assumes wf: "ledger_wf l" and g: "reserve_guard r l" and wf': "ledger_wf (snd (reserve r l))"
    and live: "live_at now r"
  shows "set (reserved_targets now (snd (reserve r l))) = set (reserved_targets now l) \<union> set (ra_targets r)"
proof -
  note find = find_after_reserve [OF wf g]
  have fresh: "find_reservation l (lg_next_id l) = None" by (rule ledger_next_unused [OF wf])
  have "q \<in> set (live now (snd (reserve r l))) \<longleftrightarrow>
      q = granted_reservation r (lg_next_id l) \<or> q \<in> set (live now l)" for q
    using fresh live unfolding in_live [OF wf] in_live [OF wf'] find by (auto simp: live_at_def)
  then have "set (live now (snd (reserve r l))) = insert (granted_reservation r (lg_next_id l)) (set (live now l))"
    by blast
  then show ?thesis by (auto simp: set_reserved_targets)
qed

lemma acquire_keeps_wf:
  assumes "ledger_wf l" "lg_next_id l \<noteq> - 1"
  shows "ledger_wf (fst (snd (acquire_authority ctx l)))"
proof (cases "grantable ctx l")
  case True
  then show ?thesis using acquire_granted(2) [OF True] reserve_wf [OF assms] by simp
next
  case False
  then show ?thesis
    using assms(1) acquire_refused [OF False] same_reservations [OF acquire_refused(2) [OF False]]
    by (simp add: ledger_wf_def)
qed

lemma acquire_safe:
  assumes "ledger_wf l" "lg_next_id l \<noteq> - 1" "topo_wf (ac_topology ctx)"
    and "live_safe (ac_topology ctx) (ac_policy ctx) (ac_readiness ctx) (ac_now ctx) l"
  shows "live_safe (ac_topology ctx) (ac_policy ctx) (ac_readiness ctx) (ac_now ctx)
    (fst (snd (acquire_authority ctx l)))"
proof (cases "grantable ctx l")
  case True
  let ?r = "planned_reservation ctx"
  have g: "reserve_guard ?r l" using True by (simp add: grantable_def)
  have "live_at (ac_now ctx) ?r" using planned_lease by (simp add: live_at_def)
  from grant_reserved_targets [OF assms(1) g reserve_wf [OF assms(1,2)] this]
  have out: "set (reserved_targets (ac_now ctx) (fst (snd (acquire_authority ctx l)))) =
      set (reserved_targets (ac_now ctx) l) \<union> set (ac_removal_set ctx)"
    using acquire_granted(2) [OF True] by simp
  have "admissible_removal (ac_topology ctx) (ac_policy ctx) (ac_readiness ctx)
      (set (reserved_targets (ac_now ctx) l)) (set (ac_removal_set ctx))"
    using True assms(3) by (auto simp: admissible_removal_def grantable_def)
  from removal.safe_grant [OF assms(4) this] show ?thesis by (simp add: out)
next
  case False
  then show ?thesis
    using assms(4) same_reservations(2) [OF acquire_refused(2) [OF False]] by simp
qed

lemma acquire_disjoint:
  assumes "ledger_wf l" "live_disjoint (ac_now ctx) l"
  shows "live_disjoint (ac_now ctx) (fst (snd (acquire_authority ctx l)))"
proof (cases "grantable ctx l")
  case True
  have g: "reserve_guard (planned_reservation ctx) l" using True by (simp add: grantable_def)
  note find = find_after_reserve [OF assms(1) g]
  have apart: "set (ra_targets q) \<inter> set (ac_removal_set ctx) = {}"
    if "find_reservation l j = Some q" "live_at (ac_now ctx) q" for j q
  proof -
    have "\<not> (ra_job q = ac_job ctx \<and> ra_generation q = ac_generation ctx)"
      using g that find_for_job_None [OF assms(1)] by (auto simp: reserve_guard_def)
    moreover have "(j, q) \<in> set (lg_reservations l)"
      using om_in_items [OF ledger_wf_ok [OF assms(1)], of "(j, q)"] that by (simp add: find_reservation_def)
    then have "check_conflict ctx (j, q) = ok_status" using True by (auto simp: grantable_def)
    ultimately show ?thesis using that(2) by (simp add: check_conflict_ok)
  qed
  show ?thesis
    unfolding acquire_granted(2) [OF True] live_disjoint_def find
  proof (intro allI impI)
    fix i j r q
    assume "(if i = lg_next_id l then Some (granted_reservation (planned_reservation ctx) i) else find_reservation l i) = Some r"
      "(if j = lg_next_id l then Some (granted_reservation (planned_reservation ctx) j) else find_reservation l j) = Some q"
      "live_at (ac_now ctx) r" "live_at (ac_now ctx) q" "i \<noteq> j"
    then show "set (ra_targets r) \<inter> set (ra_targets q) = {}"
      using assms(2) apart [of i r] apart [of j q]
      by (cases "i = lg_next_id l"; cases "j = lg_next_id l") (auto simp: live_disjoint_def)
  qed
next
  case False
  then show ?thesis
    using assms(2) same_reservations(4) [OF acquire_refused(2) [OF False]] by simp
qed

end
