(* ===== verification/Arbitrator.thy ===== *)
theory Arbitrator
  imports Acquire "HOL-Library.Multiset"
begin

text \<open>
  Deterministic arbitration (\<^verbatim>\<open>include/mf/engine/arbitrator.hpp\<close>,
  \<^verbatim>\<open>src/engine/arbitrator.cpp\<close>). The loop over the ordered candidates threads the ledger, the
  report and the projection of the first grant.

  The lemmas show that candidates are decided in the total order of tier rank, creation time
  and identity, that a pass keeps the ledger well formed, jointly safe and disjoint, never
  withdraws authority, and grants at most the configured number of jobs.
\<close>

record arbitration_candidate =
  ca_job :: job_id
  ca_tier :: u32
  ca_tier_rank :: u32
  ca_created_at :: nanos
  ca_ordering_key :: string

datatype arbitration_outcome = Granted | Denied | Deferred

fun outcome_code :: "arbitration_outcome \<Rightarrow> u32" where
  "outcome_code Granted = 0"
| "outcome_code Denied = 1"
| "outcome_code Deferred = 2"

definition to_string_arbitration :: "arbitration_outcome \<Rightarrow> string" where
  "to_string_arbitration o' = (case o' of
     Granted \<Rightarrow> ''granted'' | Denied \<Rightarrow> ''denied'' | Deferred \<Rightarrow> ''deferred'')"

definition candidate_of :: "policy \<Rightarrow> job \<Rightarrow> arbitration_candidate" where
  "candidate_of po j =
     (let rank = tier_rank po (j_priority j)
      in \<lparr>ca_job = j_id j, ca_tier = j_priority j, ca_tier_rank = rank, ca_created_at = j_created_at j,
          ca_ordering_key = ''tier='' @ dec_word (j_priority j) @ '' rank='' @ dec_word rank @
            '' created='' @ dec_int (j_created_at j) @ '' job='' @ to_string_job (j_id j)\<rparr>)"

definition candidate_key :: "arbitration_candidate \<Rightarrow> u32 \<times> int \<times> u64" where
  "candidate_key c = (ca_tier_rank c, ca_created_at c, ca_job c)"

definition order_candidates :: "job list \<Rightarrow> policy \<Rightarrow> arbitration_candidate list" where
  "order_candidates jobs po = sort_key candidate_key (map (candidate_of po) jobs)"

record arbitration_decision =
  ad_job :: job_id
  ad_outcome :: arbitration_outcome
  ad_position :: nat
  ad_tier_rank :: u32
  ad_created_at :: nanos
  ad_ordering_key :: string
  ad_reason :: block_reason
  ad_detail :: string
  ad_authority :: authority_id
  ad_impact_digest :: u64

record arbitration_report =
  rp_decisions :: "arbitration_decision list"
  rp_at :: nanos
  rp_by :: incarnation
  rp_policy_revision :: revision
  rp_topology_revision :: revision
  rp_policy_digest :: u64
  rp_topology_digest :: u64
  rp_granted :: nat
  rp_denied :: nat
  rp_deferred :: nat
  rp_digest :: u64

definition report_to_text :: "arbitration_report \<Rightarrow> string" where
  "report_to_text r =
     ''arbitration at '' @ format_time (rp_at r) @ '' by '' @ to_string_incarnation (rp_by r) @ [CHR 0x0A] @
     concat (map (\<lambda>d. ''  '' @ to_string_job (ad_job d) @ '' '' @ to_string_arbitration (ad_outcome d) @
       '' ['' @ ad_ordering_key d @ '']'' @
       (if ad_detail d = [] then [] else '' -- '' @ ad_detail d) @ [CHR 0x0A]) (rp_decisions r))"

record arbitration_context =
  ax_topology :: topology
  ax_policy :: policy
  ax_readiness :: readiness_view
  ax_jobs :: job_table
  ax_candidates :: "job_id list"
  ax_current :: incarnation
  ax_now :: nanos

record arbitration_state =
  as_ledger :: ledger
  as_report :: arbitration_report
  as_impact :: "capacity_impact option"

fun has_substring :: "string \<Rightarrow> string \<Rightarrow> bool" where
  "has_substring needle [] = (needle = [])"
| "has_substring needle (c # cs) = (take (length needle) (c # cs) = needle \<or> has_substring needle cs)"

definition open_decision :: "nat \<Rightarrow> arbitration_candidate \<Rightarrow> arbitration_decision" where
  "open_decision position c =
     \<lparr>ad_job = ca_job c, ad_outcome = Deferred, ad_position = position, ad_tier_rank = ca_tier_rank c,
      ad_created_at = ca_created_at c, ad_ordering_key = ca_ordering_key c, ad_reason = BrNone,
      ad_detail = [], ad_authority = 0, ad_impact_digest = 0\<rparr>"

definition record_decision :: "arbitration_decision \<Rightarrow> arbitration_state \<Rightarrow> arbitration_state" where
  "record_decision d st =
     (let r = as_report st;
          r = r\<lparr>rp_decisions := rp_decisions r @ [d]\<rparr>
      in st\<lparr>as_report := (case ad_outcome d of
           Granted \<Rightarrow> r\<lparr>rp_granted := rp_granted r + 1\<rparr>
         | Denied \<Rightarrow> r\<lparr>rp_denied := rp_denied r + 1\<rparr>
         | Deferred \<Rightarrow> r\<lparr>rp_deferred := rp_deferred r + 1\<rparr>)\<rparr>)"

definition acquire_for :: "arbitration_context \<Rightarrow> job \<Rightarrow> acquire_context" where
  "acquire_for ax j =
     \<lparr>ac_topology = ax_topology ax, ac_policy = ax_policy ax, ac_readiness = ax_readiness ax,
      ac_job = j_id j, ac_generation = j_generation j, ac_attempt = j_active_attempt j,
      ac_removal_set = j_removal_set j, ac_current = ax_current ax, ac_now = ax_now ax,
      ac_lease_duration = 0\<rparr>"

definition denial_reason :: "error \<Rightarrow> capacity_impact \<Rightarrow> block_reason" where
  "denial_reason e im =
     (if err_code e = StaleEvidence then EvidenceMissingOrStale
      else if has_substring ''already covers target'' (err_detail e) then ConflictingMaintenance
      else case impact_block_reason im of Some r \<Rightarrow> r | None \<Rightarrow> AuthorityDenied)"

definition held_by :: "arbitration_context \<Rightarrow> job \<Rightarrow> ledger \<Rightarrow> reservation option" where
  "held_by ax j l =
     (if attempt_valid (j_active_attempt j) then
        case find_for_job l (j_id j) (j_generation j) of
          Some r \<Rightarrow> if live_at (ax_now ax) r \<and> ra_attempt r = j_active_attempt j then Some r else None
        | None \<Rightarrow> None
      else None)"

definition arbitrate_step ::
    "arbitration_context \<Rightarrow> nat \<times> arbitration_candidate \<Rightarrow> arbitration_state \<Rightarrow> arbitration_state" where
  "arbitrate_step ax pc st =
     (let d = open_decision (fst pc) (snd pc) in
      case find_job (ax_jobs ax) (ca_job (snd pc)) of
        None \<Rightarrow> record_decision (d\<lparr>ad_outcome := Denied, ad_reason := TargetUnknown,
                  ad_detail := ''job disappeared during arbitration''\<rparr>) st
      | Some j \<Rightarrow>
          (case held_by ax j (as_ledger st) of
             Some r \<Rightarrow> record_decision (d\<lparr>ad_outcome := Deferred, ad_reason := BrNone,
                  ad_authority := ra_id r,
                  ad_detail := ''job already holds live maintenance authority '' @ to_string_authority (ra_id r)\<rparr>) st
           | None \<Rightarrow>
               if rp_granted (as_report st) \<ge> unat (po_max_concurrent_jobs (ax_policy ax)) then
                 record_decision (d\<lparr>ad_outcome := Denied, ad_reason := AuthorityDenied,
                   ad_detail := ''concurrency limit reached: policy allows '' @
                     dec_word (po_max_concurrent_jobs (ax_policy ax)) @ '' concurrent maintenance job(s)''\<rparr>) st
               else
                 (case acquire_authority (acquire_for ax j) (as_ledger st) of (granted, l', im) \<Rightarrow>
                    let st' = st\<lparr>as_ledger := l'\<rparr>;
                        d' = d\<lparr>ad_impact_digest := im_digest im\<rparr>
                    in case granted of
                         Inl e \<Rightarrow> record_decision (d'\<lparr>ad_outcome := Denied,
                           ad_reason := denial_reason e im, ad_detail := err_detail e\<rparr>) st'
                       | Inr i \<Rightarrow>
                           record_decision (d'\<lparr>ad_outcome := Granted, ad_authority := i,
                             ad_detail := ''granted maintenance authority '' @ to_string_authority i @
                               '' with '' @ impact_summary im\<rparr>)
                             (if rp_granted (as_report st') = 0 then st'\<lparr>as_impact := Some im\<rparr> else st'))))"

definition report_digest :: "arbitration_report \<Rightarrow> u64" where
  "report_digest r =
     (let h = dg_str ''mf.arbitration.v1'' dg_init;
          h = dg_i64 (rp_at r) h;
          h = dg_str (to_string_incarnation (rp_by r)) h;
          h = dg_u64 (rp_policy_revision r) h;
          h = dg_u64 (rp_policy_digest r) h;
          h = dg_u64 (rp_topology_revision r) h;
          h = dg_u64 (rp_topology_digest r) h
      in dg_each (\<lambda>d h.
           let h = dg_u64 (ad_job d) h;
               h = dg_u32 (outcome_code (ad_outcome d)) h;
               h = dg_u64 (of_nat (ad_position d)) h;
               h = dg_u32 (ad_tier_rank d) h;
               h = dg_i64 (ad_created_at d) h;
               h = dg_str (ad_ordering_key d) h;
               h = dg_u32 (block_reason_code (ad_reason d)) h;
               h = dg_str (ad_detail d) h
           in dg_u64 (ad_authority d) h) (rp_decisions r) h)"

definition selected_jobs :: "arbitration_context \<Rightarrow> job list" where
  "selected_jobs ax = List.map_filter (find_job (ax_jobs ax)) (ax_candidates ax)"

definition open_report :: "arbitration_context \<Rightarrow> arbitration_report" where
  "open_report ax = \<lparr>rp_decisions = [], rp_at = ax_now ax, rp_by = ax_current ax,
     rp_policy_revision = po_revision (ax_policy ax), rp_topology_revision = tp_revision (ax_topology ax),
     rp_policy_digest = policy_digest (ax_policy ax), rp_topology_digest = topology_digest (ax_topology ax),
     rp_granted = 0, rp_denied = 0, rp_deferred = 0, rp_digest = 0\<rparr>"

definition arbitrate_loop :: "arbitration_context \<Rightarrow> ledger \<Rightarrow> arbitration_state" where
  "arbitrate_loop ax l =
     fold (arbitrate_step ax) (List.enumerate 0 (order_candidates (selected_jobs ax) (ax_policy ax)))
       \<lparr>as_ledger = l, as_report = open_report ax, as_impact = None\<rparr>"

definition arbitrate :: "arbitration_context \<Rightarrow> ledger \<Rightarrow> arbitration_state" where
  "arbitrate ax l =
     (let st = arbitrate_loop ax l
      in st\<lparr>as_report := (as_report st)\<lparr>rp_digest := report_digest (as_report st)\<rparr>\<rparr>)"

section \<open>Lemmas\<close>

lemma order_candidates_sorted:
  "sorted (map candidate_key (order_candidates jobs po))"
  "mset (order_candidates jobs po) = mset (map (candidate_of po) jobs)"
  by (simp_all add: order_candidates_def)

lemma record_decision_ledger [simp]: "as_ledger (record_decision d st) = as_ledger st"
  by (simp add: record_decision_def Let_def)

text \<open>The ledger after one candidate is the old one or the result of one acquisition.\<close>

lemma step_ledger:
  obtains "as_ledger (arbitrate_step ax pc st) = as_ledger st"
  | j where "find_job (ax_jobs ax) (ca_job (snd pc)) = Some j"
      "as_ledger (arbitrate_step ax pc st) = fst (snd (acquire_authority (acquire_for ax j) (as_ledger st)))"
proof (cases "find_job (ax_jobs ax) (ca_job (snd pc))")
  case None
  then show ?thesis using that(1) by (simp add: arbitrate_step_def Let_def)
next
  case (Some j)
  show ?thesis
  proof (cases "held_by ax j (as_ledger st) = None \<and>
      \<not> rp_granted (as_report st) \<ge> unat (po_max_concurrent_jobs (ax_policy ax))")
    case True
    have "as_ledger (arbitrate_step ax pc st) = fst (snd (acquire_authority (acquire_for ax j) (as_ledger st)))"
      using True Some by (simp add: arbitrate_step_def Let_def case_prod_unfold split: sum.split)
    then show ?thesis using that(2) Some by blast
  next
    case False
    then have "as_ledger (arbitrate_step ax pc st) = as_ledger st"
      using Some by (auto simp: arbitrate_step_def Let_def split: option.splits)
    then show ?thesis using that(1) by blast
  qed
qed

definition ledger_room :: "nat \<Rightarrow> ledger \<Rightarrow> bool" where
  "ledger_room n l \<longleftrightarrow> unat (lg_next_id l) + n < 2 ^ 64"

definition authority_inv :: "topology \<Rightarrow> policy \<Rightarrow> readiness_view \<Rightarrow> nanos \<Rightarrow> ledger \<Rightarrow> bool" where
  "authority_inv topo po rv now l \<longleftrightarrow> ledger_wf l \<and> live_safe topo po rv now l \<and> live_disjoint now l"

lemma ledger_room_max: "ledger_room (Suc n) l \<Longrightarrow> lg_next_id l \<noteq> - 1"
  using unat_all_ones [where 'a = 64] by (auto simp: ledger_room_def)

lemma acquire_room:
  assumes "ledger_room (Suc n) l"
  shows "ledger_room n (fst (snd (acquire_authority ctx l)))"
proof (cases "grantable ctx l")
  case True
  have "reserve_guard (planned_reservation ctx) l" using True by (simp add: grantable_def)
  then have "lg_next_id (fst (snd (acquire_authority ctx l))) = lg_next_id l + 1"
    using acquire_granted(2) [OF True] by (simp add: reserve_exact next_id_def)
  moreover have "unat (lg_next_id l + 1) \<le> unat (lg_next_id l) + 1"
    using unat_add_le [of "lg_next_id l" 1] by simp
  ultimately show ?thesis using assms by (simp add: ledger_room_def)
next
  case False
  then show ?thesis using assms acquire_refused(3) [OF False] by (simp add: ledger_room_def)
qed

lemma step_inv:
  assumes "topo_wf (ax_topology ax)" "ledger_room (Suc n) (as_ledger st)"
    and "authority_inv (ax_topology ax) (ax_policy ax) (ax_readiness ax) (ax_now ax) (as_ledger st)"
  shows "authority_inv (ax_topology ax) (ax_policy ax) (ax_readiness ax) (ax_now ax)
      (as_ledger (arbitrate_step ax pc st))"
    and "ledger_room n (as_ledger (arbitrate_step ax pc st))"
proof -
  have room: "lg_next_id (as_ledger st) \<noteq> - 1" by (rule ledger_room_max [OF assms(2)])
  have "authority_inv (ax_topology ax) (ax_policy ax) (ax_readiness ax) (ax_now ax)
      (as_ledger (arbitrate_step ax pc st)) \<and> ledger_room n (as_ledger (arbitrate_step ax pc st))"
  proof (cases rule: step_ledger [of ax pc st])
    case 1
    then show ?thesis using assms by (simp add: ledger_room_def)
  next
    case (2 j)
    have "authority_inv (ax_topology ax) (ax_policy ax) (ax_readiness ax) (ax_now ax)
        (fst (snd (acquire_authority (acquire_for ax j) (as_ledger st))))"
      using assms acquire_keeps_wf [OF _ room] acquire_safe [of "as_ledger st" "acquire_for ax j"]
        acquire_disjoint [of "as_ledger st" "acquire_for ax j"] room
      by (simp add: authority_inv_def acquire_for_def)
    then show ?thesis using 2 acquire_room [OF assms(2)] by simp
  qed
  then show "authority_inv (ax_topology ax) (ax_policy ax) (ax_readiness ax) (ax_now ax)
      (as_ledger (arbitrate_step ax pc st))"
    "ledger_room n (as_ledger (arbitrate_step ax pc st))" by blast+
qed

lemma steps_inv:
  "topo_wf (ax_topology ax) \<Longrightarrow> ledger_room (length pcs) (as_ledger st) \<Longrightarrow>
   authority_inv (ax_topology ax) (ax_policy ax) (ax_readiness ax) (ax_now ax) (as_ledger st) \<Longrightarrow>
   authority_inv (ax_topology ax) (ax_policy ax) (ax_readiness ax) (ax_now ax)
     (as_ledger (fold (arbitrate_step ax) pcs st))"
proof (induction pcs arbitrary: st)
  case (Cons pc pcs)
  from step_inv [OF Cons.prems(1) Cons.prems(2) [simplified] Cons.prems(3), of pc] Cons show ?case by simp
qed simp

lemma selected_length: "length (order_candidates (selected_jobs ax) po) \<le> length (ax_candidates ax)"
  by (simp add: order_candidates_def selected_jobs_def List.map_filter_def)

lemma arbitrate_inv:
  assumes "topo_wf (ax_topology ax)" "ledger_room (length (ax_candidates ax)) l"
    and "authority_inv (ax_topology ax) (ax_policy ax) (ax_readiness ax) (ax_now ax) l"
  shows "authority_inv (ax_topology ax) (ax_policy ax) (ax_readiness ax) (ax_now ax) (as_ledger (arbitrate ax l))"
proof -
  have "ledger_room (length (List.enumerate 0 (order_candidates (selected_jobs ax) (ax_policy ax)))) l"
    using assms(2) selected_length [of ax "ax_policy ax"] by (simp add: ledger_room_def)
  then show ?thesis
    using steps_inv [OF assms(1), of _ "\<lparr>as_ledger = l, as_report = open_report ax, as_impact = None\<rparr>"] assms(3)
    by (simp add: arbitrate_def arbitrate_loop_def Let_def)
qed

text \<open>Exclusive authority needs no view of the fabric: a pass keeps it under any topology, policy and readiness.\<close>

lemma steps_exclusive:
  "ledger_room (length pcs) (as_ledger st) \<Longrightarrow> ledger_wf (as_ledger st) \<Longrightarrow> live_disjoint (ax_now ax) (as_ledger st) \<Longrightarrow>
   ledger_wf (as_ledger (fold (arbitrate_step ax) pcs st)) \<and> live_disjoint (ax_now ax) (as_ledger (fold (arbitrate_step ax) pcs st))"
proof (induction pcs arbitrary: st)
  case (Cons pc pcs)
  have room: "ledger_room (Suc (length pcs)) (as_ledger st)" using Cons.prems(1) by simp
  let ?st = "arbitrate_step ax pc st"
  have "ledger_room (length pcs) (as_ledger ?st) \<and> ledger_wf (as_ledger ?st) \<and> live_disjoint (ax_now ax) (as_ledger ?st)"
  proof (cases rule: step_ledger [of ax pc st])
    case 1
    then show ?thesis using Cons.prems by (simp add: ledger_room_def)
  next
    case (2 j)
    have "ac_now (acquire_for ax j) = ax_now ax" by (simp add: acquire_for_def)
    then show ?thesis
      using 2 acquire_room [OF room] acquire_keeps_wf [OF Cons.prems(2) ledger_room_max [OF room]]
        acquire_disjoint [OF Cons.prems(2), of "acquire_for ax j"] Cons.prems(3) by simp
  qed
  with Cons.IH show ?case by simp
qed simp

lemma arbitrate_exclusive:
  assumes "ledger_room (length (ax_candidates ax)) l" "ledger_wf l" "live_disjoint (ax_now ax) l"
  shows "ledger_wf (as_ledger (arbitrate ax l)) \<and> live_disjoint (ax_now ax) (as_ledger (arbitrate ax l))"
proof -
  have "ledger_room (length (List.enumerate 0 (order_candidates (selected_jobs ax) (ax_policy ax)))) l"
    using assms(1) selected_length [of ax "ax_policy ax"] by (simp add: ledger_room_def)
  then show ?thesis
    using steps_exclusive [of _ "\<lparr>as_ledger = l, as_report = open_report ax, as_impact = None\<rparr>" ax] assms(2,3)
    by (simp add: arbitrate_def arbitrate_loop_def Let_def)
qed

text \<open>Every candidate receives exactly one decision, in order.\<close>

lemma record_decision_report:
  "rp_decisions (as_report (record_decision d st)) = rp_decisions (as_report st) @ [d]"
  "rp_granted (as_report (record_decision d st)) =
     rp_granted (as_report st) + (if ad_outcome d = Granted then 1 else 0)"
  by (auto simp: record_decision_def Let_def split: arbitration_outcome.split)

definition decided :: "arbitration_context \<Rightarrow> nat \<times> arbitration_candidate \<Rightarrow> arbitration_state \<Rightarrow> arbitration_decision \<Rightarrow> bool" where
  "decided ax pc st d \<longleftrightarrow> ad_job d = ca_job (snd pc) \<and> ad_position d = fst pc \<and>
     (ad_outcome d = Granted \<longrightarrow> rp_granted (as_report st) < unat (po_max_concurrent_jobs (ax_policy ax)))"

lemma step_form:
  "\<exists>d st'. arbitrate_step ax pc st = record_decision d st' \<and> as_report st' = as_report st \<and> decided ax pc st d"
proof (cases "find_job (ax_jobs ax) (ca_job (snd pc))")
  case None
  show ?thesis
    by (intro exI conjI, (simp add: arbitrate_step_def None Let_def; rule refl))
      (simp_all add: decided_def open_decision_def)
next
  case j: (Some j)
  show ?thesis
  proof (cases "held_by ax j (as_ledger st)")
    case (Some r)
    show ?thesis
      by (intro exI conjI, (simp add: arbitrate_step_def j Some Let_def; rule refl))
        (simp_all add: decided_def open_decision_def)
  next
    case free: None
    obtain granted l' im where acq: "acquire_authority (acquire_for ax j) (as_ledger st) = (granted, l', im)"
      by (cases "acquire_authority (acquire_for ax j) (as_ledger st)") auto
    show ?thesis
    proof (cases "rp_granted (as_report st) \<ge> unat (po_max_concurrent_jobs (ax_policy ax))")
      case True
      show ?thesis
        by (intro exI conjI, (simp add: arbitrate_step_def j free True Let_def; rule refl))
          (simp_all add: decided_def open_decision_def)
    next
      case False
      show ?thesis
      proof (cases granted)
        case (Inl e)
        show ?thesis
          by (intro exI conjI, (simp add: arbitrate_step_def j free False acq Inl Let_def; rule refl))
            (simp_all add: decided_def open_decision_def)
      next
        case (Inr i)
        show ?thesis
        proof -
          let ?d = "(open_decision (fst pc) (snd pc))\<lparr>ad_impact_digest := im_digest im, ad_outcome := Granted,
            ad_authority := i, ad_detail := ''granted maintenance authority '' @ to_string_authority i @
              '' with '' @ impact_summary im\<rparr>"
          let ?st = "if rp_granted (as_report st) = 0 then st\<lparr>as_ledger := l', as_impact := Some im\<rparr>
            else st\<lparr>as_ledger := l'\<rparr>"
          have "arbitrate_step ax pc st = record_decision ?d ?st"
            using False by (simp add: arbitrate_step_def j free acq Inr Let_def)
          moreover have "as_report ?st = as_report st" "decided ax pc st ?d"
            using False by (simp_all add: decided_def open_decision_def)
          ultimately show ?thesis by blast
        qed
      qed
    qed
  qed
qed

lemma step_decision:
  obtains d where "rp_decisions (as_report (arbitrate_step ax pc st)) = rp_decisions (as_report st) @ [d]"
    "rp_granted (as_report (arbitrate_step ax pc st)) =
       rp_granted (as_report st) + (if ad_outcome d = Granted then 1 else 0)"
    "decided ax pc st d"
proof -
  from step_form [of ax pc st] obtain d st' where "arbitrate_step ax pc st = record_decision d st'"
    "as_report st' = as_report st" "decided ax pc st d" by blast
  then show ?thesis using that by (simp add: record_decision_report)
qed

lemma steps_decisions:
  "map ad_job (rp_decisions (as_report (fold (arbitrate_step ax) pcs st))) =
     map ad_job (rp_decisions (as_report st)) @ map (ca_job \<circ> snd) pcs \<and>
   map ad_position (rp_decisions (as_report (fold (arbitrate_step ax) pcs st))) =
     map ad_position (rp_decisions (as_report st)) @ map fst pcs"
proof (induction pcs arbitrary: st)
  case (Cons pc pcs)
  obtain d where "rp_decisions (as_report (arbitrate_step ax pc st)) = rp_decisions (as_report st) @ [d]"
    "decided ax pc st d" by (rule step_decision)
  then show ?case using Cons.IH [of "arbitrate_step ax pc st"] by (simp add: decided_def)
qed simp

lemma steps_granted:
  "rp_granted (as_report st) \<le> unat (po_max_concurrent_jobs (ax_policy ax)) \<Longrightarrow>
   rp_granted (as_report (fold (arbitrate_step ax) pcs st)) \<le> unat (po_max_concurrent_jobs (ax_policy ax))"
proof (induction pcs arbitrary: st)
  case (Cons pc pcs)
  obtain d where "rp_granted (as_report (arbitrate_step ax pc st)) =
       rp_granted (as_report st) + (if ad_outcome d = Granted then 1 else 0)" "decided ax pc st d"
    by (rule step_decision)
  then have "rp_granted (as_report (arbitrate_step ax pc st)) \<le> unat (po_max_concurrent_jobs (ax_policy ax))"
    using Cons.prems by (auto simp: decided_def)
  then show ?case using Cons.IH by simp
qed simp

lemma acquire_keeps_held:
  assumes "ledger_wf l" "find_reservation l i = Some r"
  shows "find_reservation (fst (snd (acquire_authority ctx l))) i = Some r"
proof (cases "grantable ctx l")
  case True
  have "reserve_guard (planned_reservation ctx) l" using True by (simp add: grantable_def)
  then show ?thesis
    using find_after_reserve [OF assms(1)] acquire_granted(2) [OF True] assms ledger_next_unused [OF assms(1)] by auto
next
  case False
  then show ?thesis using assms(2) same_reservations(1) [OF acquire_refused(2) [OF False]] by simp
qed

lemma step_keeps_held:
  assumes "ledger_wf (as_ledger st)" "ledger_room (Suc n) (as_ledger st)" "find_reservation (as_ledger st) i = Some r"
  shows "find_reservation (as_ledger (arbitrate_step ax pc st)) i = Some r"
    and "ledger_wf (as_ledger (arbitrate_step ax pc st))" and "ledger_room n (as_ledger (arbitrate_step ax pc st))"
proof -
  have "find_reservation (as_ledger (arbitrate_step ax pc st)) i = Some r \<and>
      ledger_wf (as_ledger (arbitrate_step ax pc st)) \<and> ledger_room n (as_ledger (arbitrate_step ax pc st))"
  proof (cases rule: step_ledger [of ax pc st])
    case 1
    then show ?thesis using assms by (simp add: ledger_room_def)
  next
    case (2 j)
    then show ?thesis
      using acquire_keeps_held [OF assms(1,3)] acquire_keeps_wf [OF assms(1) ledger_room_max [OF assms(2)]]
        acquire_room [OF assms(2)] by simp
  qed
  then show "find_reservation (as_ledger (arbitrate_step ax pc st)) i = Some r"
    "ledger_wf (as_ledger (arbitrate_step ax pc st))" "ledger_room n (as_ledger (arbitrate_step ax pc st))" by blast+
qed

lemma steps_keep_held:
  "ledger_wf (as_ledger st) \<Longrightarrow> ledger_room (length pcs) (as_ledger st) \<Longrightarrow>
   find_reservation (as_ledger st) i = Some r \<Longrightarrow>
   find_reservation (as_ledger (fold (arbitrate_step ax) pcs st)) i = Some r"
proof (induction pcs arbitrary: st)
  case (Cons pc pcs)
  from step_keeps_held [OF Cons.prems(1) Cons.prems(2) [simplified] Cons.prems(3), of ax pc] Cons.IH
  show ?case by simp
qed simp

lemma arbitrate_keeps_held:
  assumes "ledger_wf l" "ledger_room (length (ax_candidates ax)) l" "find_reservation l i = Some r"
  shows "find_reservation (as_ledger (arbitrate ax l)) i = Some r"
proof -
  have "ledger_room (length (List.enumerate 0 (order_candidates (selected_jobs ax) (ax_policy ax)))) l"
    using assms(2) selected_length [of ax "ax_policy ax"] by (simp add: ledger_room_def)
  then show ?thesis
    using steps_keep_held [of "\<lparr>as_ledger = l, as_report = open_report ax, as_impact = None\<rparr>"] assms
    by (simp add: arbitrate_def arbitrate_loop_def Let_def)
qed

text \<open>The outcome of one candidate, given the state its predecessors left.\<close>

lemma step_outcome:
  "ad_outcome (last (rp_decisions (as_report (arbitrate_step ax pc st)))) = Granted \<longleftrightarrow>
     (\<exists>j. find_job (ax_jobs ax) (ca_job (snd pc)) = Some j \<and> held_by ax j (as_ledger st) = None \<and>
        rp_granted (as_report st) < unat (po_max_concurrent_jobs (ax_policy ax)) \<and>
        grantable (acquire_for ax j) (as_ledger st))"
proof (cases "find_job (ax_jobs ax) (ca_job (snd pc))")
  case None
  then show ?thesis by (simp add: arbitrate_step_def Let_def record_decision_report open_decision_def)
next
  case j: (Some j)
  obtain g l' im where acq: "acquire_authority (acquire_for ax j) (as_ledger st) = (g, l', im)"
    by (cases "acquire_authority (acquire_for ax j) (as_ledger st)") auto
  have "is_ok g \<longleftrightarrow> grantable (acquire_for ax j) (as_ledger st)"
    using acquire_granted(1) [of "acquire_for ax j" "as_ledger st"] acquire_refused(1) [of "acquire_for ax j" "as_ledger st"]
    by (cases "grantable (acquire_for ax j) (as_ledger st)") (simp_all add: acq)
  then show ?thesis
    by (auto simp: arbitrate_step_def j acq Let_def record_decision_report open_decision_def is_ok_iff
        split: option.split sum.split)
qed

end
