(* ===== verification/Authority_Run.thy ===== *)
theory Authority_Run
  imports Arbitrator
begin

text \<open>
  Maintenance authority over time. The controller changes the ledger by arbitration passes,
  releases, renewals, expiry sweeps and incarnation fencing, all at its current instant, and time
  moves on in between. \<open>authority_run W revived now l\<close> is the transition system of these steps:
  each pass sees some topology, policy and readiness view of the set \<open>W\<close>, and \<open>revived\<close> records
  whether some renewal met a reservation that had already expired.

  \<^verbatim>\<open>AuthorityLedger::renew\<close> does not ask whether the reservation is still live, so a renewal can
  bring an expired one back. \<^verbatim>\<open>Controller::tick\<close> sweeps expired reservations before it renews, but
  it ignores a sweep whose journal write failed, so the ledger alone does not rule this out. Histories
  without such a renewal keep the live reservations disjoint and, as long as the fabric looks the same
  to every pass, jointly safe. With one, a reservation granted in between and the one brought back can
  cover the same target.
\<close>

inductive authority_run :: "(topology \<times> policy \<times> readiness_view) set \<Rightarrow> bool \<Rightarrow> nanos \<Rightarrow> ledger \<Rightarrow> bool"
  for W where
  start: "authority_run W False now (new_ledger d)"
| pass: "authority_run W revived now l \<Longrightarrow> (ax_topology ax, ax_policy ax, ax_readiness ax) \<in> W \<Longrightarrow> ax_now ax = now \<Longrightarrow>
    ledger_room (length (ax_candidates ax)) l \<Longrightarrow> authority_run W revived now (as_ledger (arbitrate ax l))"
| release: "authority_run W revived now l \<Longrightarrow> release i c l = Inr l' \<Longrightarrow> authority_run W revived now l'"
| renew: "authority_run W revived now l \<Longrightarrow> find_reservation l i = Some r \<Longrightarrow> renew i a c e now l = Inr l' \<Longrightarrow>
    authority_run W (revived \<or> \<not> live_at now r) now l'"
| expire: "authority_run W revived now l \<Longrightarrow> authority_run W revived now (snd (expire now l))"
| fence: "authority_run W revived now l \<Longrightarrow> authority_run W revived now (snd (fence_older_incarnations c l))"
| wait: "authority_run W revived now l \<Longrightarrow> now \<le> now' \<Longrightarrow> authority_run W revived now' l"

inductive_cases authority_runE: "authority_run W revived now l"

lemma in_reserved:
  assumes "ledger_wf l"
  shows "t \<in> set (reserved_targets now l) \<longleftrightarrow>
     (\<exists>i r. find_reservation l i = Some r \<and> live_at now r \<and> t \<in> set (ra_targets r))"
proof -
  have "find_reservation l i = Some r \<Longrightarrow> ra_id r = i" for i r
    using assms by (auto simp: ledger_wf_def)
  then show ?thesis unfolding set_reserved_targets UN_iff Bex_def in_live [OF assms] by metis
qed

text \<open>Whatever only narrows the live reservations keeps them disjoint and jointly safe.\<close>

definition narrows :: "nanos \<Rightarrow> ledger \<Rightarrow> nanos \<Rightarrow> ledger \<Rightarrow> bool" where
  "narrows now l now' l' \<longleftrightarrow> (\<forall>i r. find_reservation l' i = Some r \<longrightarrow> live_at now' r \<longrightarrow>
     (\<exists>q. find_reservation l i = Some q \<and> live_at now q \<and> ra_targets q = ra_targets r))"

lemma narrows_reserved:
  assumes "narrows now l now' l'" "ledger_wf l" "ledger_wf l'"
  shows "set (reserved_targets now' l') \<subseteq> set (reserved_targets now l)"
  using assms(1) unfolding narrows_def in_reserved [OF assms(2)] in_reserved [OF assms(3)] subset_iff by (metis (no_types))

lemma narrows_disjoint: "narrows now l now' l' \<Longrightarrow> live_disjoint now l \<Longrightarrow> live_disjoint now' l'"
  unfolding narrows_def live_disjoint_def by (metis (no_types))

lemma authority_inv_narrow:
  assumes inv: "authority_inv topo po rv now l" and wf: "ledger_wf l'"
    and narrow: "\<And>i r. find_reservation l' i = Some r \<Longrightarrow> live_at now' r \<Longrightarrow>
        \<exists>q. find_reservation l i = Some q \<and> live_at now q \<and> ra_targets q = ra_targets r"
  shows "authority_inv topo po rv now' l'"
proof -
  have n: "narrows now l now' l'" using narrow by (auto simp: narrows_def)
  then show ?thesis
    using inv wf narrows_reserved [OF n _ wf] narrows_disjoint [OF n] removal.safe_fewer
    unfolding authority_inv_def by blast
qed

text \<open>The invariant of a history.\<close>

definition run_inv :: "(topology \<times> policy \<times> readiness_view) set \<Rightarrow> nanos \<Rightarrow> ledger \<Rightarrow> bool" where
  "run_inv W now l \<longleftrightarrow> ledger_wf l \<and> live_disjoint now l \<and>
     (\<forall>topo po rv. W = {(topo, po, rv)} \<longrightarrow> topo_wf topo \<longrightarrow> live_safe topo po rv now l)"

lemma run_inv_narrow:
  assumes "run_inv W now l" "ledger_wf l'" "narrows now l now' l'"
  shows "run_inv W now' l'"
  using assms narrows_reserved [OF assms(3) _ assms(2)] narrows_disjoint [OF assms(3)] removal.safe_fewer
  unfolding run_inv_def by metis

lemma authority_inv_new: "authority_inv topo po rv now (new_ledger d)"
proof -
  have "live_disjoint now (new_ledger d)" "reserved_targets now (new_ledger d) = []"
    by (simp_all add: live_disjoint_def find_reservation_def new_ledger_def reserved_targets_def live_def)
  then show ?thesis by (simp add: authority_inv_def new_ledger_wf removal.safe_none)
qed

lemma run_inv_pass:
  assumes "run_inv W (ax_now ax) l" "(ax_topology ax, ax_policy ax, ax_readiness ax) \<in> W"
    "ledger_room (length (ax_candidates ax)) l"
  shows "run_inv W (ax_now ax) (as_ledger (arbitrate ax l))"
proof -
  have "live_safe topo po rv (ax_now ax) (as_ledger (arbitrate ax l))" if "W = {(topo, po, rv)}" "topo_wf topo" for topo po rv
    using arbitrate_inv [of ax l] assms that by (simp add: run_inv_def authority_inv_def)
  then show ?thesis using arbitrate_exclusive [OF assms(3)] assms(1) by (simp add: run_inv_def)
qed

lemma renew_narrow:
  assumes "find_reservation l i = Some r" "live_at now r" "renew i a c e now l = Inr l'"
    and "find_reservation l' j = Some q" "live_at now q"
  shows "\<exists>p. find_reservation l j = Some p \<and> live_at now p \<and> ra_targets p = ra_targets q"
  using assms by (auto simp: renew_exact find_reservation_def table_simps split: if_splits)

lemma renew_narrows:
  "find_reservation l i = Some r \<Longrightarrow> live_at now r \<Longrightarrow> renew i a c e now l = Inr l' \<Longrightarrow> narrows now l now l'"
  unfolding narrows_def using renew_narrow by blast

lemma ledger_narrows:
  "release i c l = Inr l' \<Longrightarrow> narrows now l now l'"
  "ledger_wf l \<Longrightarrow> narrows now l now (snd (expire now l))"
  "ledger_wf l \<Longrightarrow> narrows now l now (snd (fence_older_incarnations c l))"
  "now \<le> now' \<Longrightarrow> narrows now l now' l"
  unfolding narrows_def
  subgoal by (auto simp: release_exact find_reservation_def table_simps split: if_splits)
  subgoal by (auto simp: expire_exact split: option.splits if_splits)
  subgoal by (auto simp: fence_exact(1) split: option.splits if_splits)
  subgoal by (auto simp: live_at_def)
  done

lemma authority_run_inv:
  "authority_run W revived now l \<Longrightarrow> \<not> revived \<Longrightarrow> run_inv W now l"
proof (induction rule: authority_run.induct)
  case (start now d)
  show ?case using authority_inv_new by (auto simp: run_inv_def authority_inv_def)
next
  case (pass revived now l ax)
  then show ?case using run_inv_pass by blast
next
  case (release revived now l i c l')
  then have "ledger_wf l'" using release_wf by (auto simp: run_inv_def)
  then show ?case using run_inv_narrow ledger_narrows(1) [OF release.hyps(2)] release by blast
next
  case (renew revived now l i r a c e l')
  then have "ledger_wf l'" using renew_wf by (auto simp: run_inv_def)
  then show ?case using run_inv_narrow renew_narrows [OF renew.hyps(2) _ renew.hyps(3)] renew by blast
next
  case (expire revived now l)
  then have wf: "ledger_wf l" by (simp add: run_inv_def)
  show ?case using run_inv_narrow [OF expire.IH [OF expire.prems] expire_wf [OF wf] ledger_narrows(2) [OF wf]] .
next
  case (fence revived now l c)
  then have wf: "ledger_wf l" by (simp add: run_inv_def)
  show ?case using run_inv_narrow [OF fence.IH [OF fence.prems] fence_wf [OF wf] ledger_narrows(3) [OF wf]] .
next
  case (wait revived now l now')
  then have wf: "ledger_wf l" by (simp add: run_inv_def)
  show ?case using run_inv_narrow [OF wait.IH [OF wait.prems] wf ledger_narrows(4) [OF wait.hyps(2)]] .
qed

section \<open>Renewing what has expired\<close>

text \<open>A renewal of an expired reservation succeeds, and the reservation is live beside whatever was granted since.\<close>

lemma renew_revives:
  assumes "find_reservation l i = Some a" "\<not> live_at now a" "0 < e" "e \<le> kMaxAuthorityLeaseNanos"
  shows "\<exists>l'. renew i (ra_attempt a) (ra_owner a) e now l = Inr l' \<and> find_reservation l' i = Some (renewed e now a) \<and>
    live_at now (renewed e now a) \<and> (\<forall>k. k \<noteq> i \<longrightarrow> find_reservation l' k = find_reservation l k)"
proof -
  have "max (ra_expires_at a) now = now" using assms(2) by (simp add: live_at_def)
  then show ?thesis using assms by (auto simp: renew_exact find_reservation_def table_simps live_at_def)
qed

lemma revived_overlaps:
  assumes "find_reservation l i = Some a" "\<not> live_at now a" "find_reservation l k = Some b" "live_at now b"
    and "set (ra_targets a) \<inter> set (ra_targets b) \<noteq> {}" "renew i attempt owner e now l = Inr l'"
  shows "\<not> live_disjoint now l'"
proof -
  have ik: "k \<noteq> i" using assms(1-4) by auto
  have l': "find_reservation l' i = Some (renewed e now a)" "find_reservation l' k = Some b" "0 < e"
    using assms(1,3,6) ik by (auto simp: renew_exact find_reservation_def table_simps)
  have "live_at now (renewed e now a)" using l'(3) by (simp add: live_at_def)
  then show ?thesis using l' ik assms(4,5) unfolding live_disjoint_def by (metis renewed_simps(4))
qed

end
