(* ===== verification/Preconditions.thy ===== *)
theory Preconditions
  imports Acquire
begin

text \<open>
  Precondition evaluation (\<^verbatim>\<open>include/mf/engine/preconditions.hpp\<close>,
  \<^verbatim>\<open>src/engine/preconditions.cpp\<close>). Each block of \<^verbatim>\<open>evaluate_preconditions\<close> that adds a result
  is a definition here. The evidence store, the ledger, the job table and the precomputed
  projection are optional in the source and are options here; the job, topology, policy and
  readiness view are values, so the missing-context branch has no counterpart.

  The lemmas say what it means that every precondition is satisfied, part by part, and that the
  counters and the verdict agree with the results.
\<close>

section \<open>Data\<close>

datatype precondition_kind =
    PolicyBound | RequestShape | TargetsKnown | TargetsMaintainable | DependencySatisfied
  | EvidenceFresh | Redundancy | FailureDomain | PkCapacityHeadroom | PkContractAvailability
  | PkConflictingMaintenance | WindowAdmissible | PkControlPlaneQuorum | AuthorityReserved
  | DrainAcquired

definition kPreconditionNames :: "(precondition_kind \<times> string) list" where
  "kPreconditionNames =
     [(PolicyBound, ''policy-bound''), (RequestShape, ''request-shape''), (TargetsKnown, ''targets-known''),
      (TargetsMaintainable, ''targets-maintainable''), (DependencySatisfied, ''dependency-satisfied''),
      (EvidenceFresh, ''evidence-fresh''), (Redundancy, ''redundancy''), (FailureDomain, ''failure-domain''),
      (PkCapacityHeadroom, ''capacity-headroom''), (PkContractAvailability, ''contract-availability''),
      (PkConflictingMaintenance, ''conflicting-maintenance''), (WindowAdmissible, ''window-admissible''),
      (PkControlPlaneQuorum, ''control-plane-quorum''), (AuthorityReserved, ''authority-reserved''),
      (DrainAcquired, ''drain-acquired'')]"

definition precondition_code :: "precondition_kind \<Rightarrow> u32" where
  "precondition_code k = of_nat (length (takeWhile (\<lambda>e. fst e \<noteq> k) kPreconditionNames))"

definition to_string_precondition :: "precondition_kind \<Rightarrow> string" where
  "to_string_precondition k = name_of kPreconditionNames k"

definition parse_precondition_kind :: "string \<Rightarrow> precondition_kind option" where
  "parse_precondition_kind s = of_name kPreconditionNames s"

datatype precondition_status = Satisfied | Violated | Pending

fun status_code :: "precondition_status \<Rightarrow> u32" where
  "status_code Satisfied = 0"
| "status_code Violated = 1"
| "status_code Pending = 2"

definition to_string_status :: "precondition_status \<Rightarrow> string" where
  "to_string_status s = (case s of
     Satisfied \<Rightarrow> ''satisfied'' | Violated \<Rightarrow> ''violated'' | Pending \<Rightarrow> ''pending'')"

datatype precondition_result =
  PreResult (pc_kind: precondition_kind) (pc_status: precondition_status) (pc_reason: block_reason)
    (pc_code: string) (pc_detail: string)

record precondition_set =
  ps_results :: "precondition_result list"
  ps_satisfied :: nat
  ps_violated :: nat
  ps_pending :: nat
  ps_all_satisfied :: bool
  ps_evaluated_at :: nanos
  ps_evaluated_by :: incarnation
  ps_policy_revision :: revision
  ps_topology_revision :: revision
  ps_policy_digest :: u64
  ps_topology_digest :: u64
  ps_readiness_digest :: u64
  ps_impact_digest :: u64
  ps_digest :: u64

definition pre_first_violation :: "precondition_set \<Rightarrow> block_reason option" where
  "pre_first_violation s = map_option pc_reason (find (\<lambda>r. pc_status r = Violated) (ps_results s))"

definition find_precondition :: "precondition_set \<Rightarrow> precondition_kind \<Rightarrow> precondition_result option" where
  "find_precondition s k = find (\<lambda>r. pc_kind r = k) (ps_results s)"

definition preconditions_to_text :: "precondition_set \<Rightarrow> string" where
  "preconditions_to_text s = concat (map (\<lambda>r. ''  ['' @ to_string_status (pc_status r) @ ''] '' @
     to_string_precondition (pc_kind r) @ (if pc_detail r = [] then [] else '' -- '' @ pc_detail r) @
     [CHR 0x0A]) (ps_results s))"

definition requires_operator_action :: "block_reason \<Rightarrow> bool" where
  "requires_operator_action r = is_safety_block r"

record precondition_context =
  px_job :: job
  px_topology :: topology
  px_policy :: policy
  px_evidence :: "evidence_store option"
  px_ledger :: "ledger option"
  px_jobs :: "job_table option"
  px_readiness :: readiness_view
  px_current :: incarnation
  px_now :: nanos
  px_check_authority :: bool
  px_check_drain :: bool
  px_impact_in :: "capacity_impact option"

abbreviation met :: "precondition_kind \<Rightarrow> string \<Rightarrow> string \<Rightarrow> precondition_result" where
  "met k code detail \<equiv> PreResult k Satisfied BrNone code detail"

section \<open>The checks, in order\<close>

definition check_policy_bound :: "precondition_context \<Rightarrow> precondition_result" where
  "check_policy_bound px =
     (let j = px_job px; po = px_policy px in
      if id_valid (j_policy_revision j) \<and> j_policy_revision j \<noteq> po_revision po then
        PreResult PolicyBound Violated BrPolicyDenied ''policy-revision-changed''
          (''job was validated under policy revision '' @ to_string_revision (j_policy_revision j) @
           '' but the current policy revision is '' @ to_string_revision (po_revision po))
      else met PolicyBound ''policy-revision-current''
        (''policy revision '' @ to_string_revision (po_revision po) @ '', topology revision '' @
         to_string_revision (tp_revision (px_topology px))))"

definition request_of :: "job \<Rightarrow> maintenance_request" where
  "request_of j = \<lparr>mr_title = j_title j, mr_reason = j_reason j, mr_targets = j_targets j,
     mr_depends_on = j_depends_on j, mr_window_filter = j_window_filter j, mr_priority = j_priority j,
     mr_estimated_duration = j_estimated_duration j, mr_requires_drain = j_requires_drain j,
     mr_requestor = j_requestor j\<rparr>"

definition check_request_shape :: "precondition_context \<Rightarrow> precondition_result" where
  "check_request_shape px =
     (case validate_request_shape (request_of (px_job px)) of
        Inr _ \<Rightarrow> met RequestShape ''request-shape-valid'' ''request shape is valid''
      | Inl e \<Rightarrow> PreResult RequestShape Violated BrPolicyDenied ''request-shape-invalid'' (format_error e))"

definition check_targets_known :: "precondition_context \<Rightarrow> precondition_result" where
  "check_targets_known px =
     (case filter (\<lambda>t. target (px_topology px) t = None) (j_targets (px_job px)) of
        [] \<Rightarrow> met TargetsKnown ''targets-known''
          (dec_string (length (j_targets (px_job px))) @ '' requested target(s) exist; removal set is '' @
           dec_string (length (j_removal_set (px_job px))) @ '' target(s)'')
      | t # _ \<Rightarrow> PreResult TargetsKnown Violated TargetUnknown ''targets-unknown''
          (''undeclared target(s): '' @ to_string_target t))"

definition check_maintainable :: "precondition_context \<Rightarrow> precondition_result" where
  "check_maintainable px =
     (case filter (\<lambda>t. case target (px_topology px) t of None \<Rightarrow> False | Some r \<Rightarrow> \<not> tr_maintainable r)
             (j_targets (px_job px)) of
        [] \<Rightarrow> met TargetsMaintainable ''targets-maintainable'' ''every requested target is maintainable''
      | t # _ \<Rightarrow> PreResult TargetsMaintainable Violated TargetNotMaintainable ''target-not-maintainable''
          (''target '' @ to_string_target t @ '' is marked not maintainable''))"

text \<open>A dependency is complete, unfinished, or can never complete.\<close>

definition dependency_state :: "job_table \<Rightarrow> job_id \<Rightarrow> (string + string) option" where
  "dependency_state jobs d =
     (case find_job jobs d of
        None \<Rightarrow> Some (Inl (to_string_job d @ '' (missing)''))
      | Some other \<Rightarrow>
          let label = to_string_job d @ '' ('' @ to_string_job_state (j_state other) @ '')'' in
          if j_state other = Complete then None
          else if j_state other = JobCancelled \<or> j_state other = Failed then Some (Inl label)
          else Some (Inr label))"

definition check_dependencies :: "precondition_context \<Rightarrow> precondition_result" where
  "check_dependencies px =
     (let states = (case px_jobs px of None \<Rightarrow> []
            | Some jobs \<Rightarrow> List.map_filter (dependency_state jobs) (j_depends_on (px_job px)));
          broken = List.map_filter (\<lambda>s. case s of Inl x \<Rightarrow> Some x | Inr _ \<Rightarrow> None) states;
          unfinished = List.map_filter (\<lambda>s. case s of Inl _ \<Rightarrow> None | Inr x \<Rightarrow> Some x) states
      in case broken of
           b # _ \<Rightarrow> PreResult DependencySatisfied Violated BrDependencyUnmet ''dependency-failed''
             (''dependency '' @ b @ '' can never complete'')
         | [] \<Rightarrow> (case unfinished of
             u # _ \<Rightarrow> PreResult DependencySatisfied Pending BrDependencyUnmet ''dependency-pending''
               (''waiting for dependency '' @ u)
           | [] \<Rightarrow> met DependencySatisfied ''dependency-satisfied''
               (dec_string (length (j_depends_on (px_job px))) @ '' dependency(ies) complete'')))"

definition check_evidence_fresh :: "precondition_context \<Rightarrow> precondition_result" where
  "check_evidence_fresh px =
     (let scope = j_removal_set (px_job px); stale = unfresh (px_readiness px) scope in
      case stale of
        [] \<Rightarrow> met EvidenceFresh ''evidence-fresh''
          (dec_string (length scope) @ '' target(s) have fresh health evidence from at least '' @
           dec_word (po_min_evidence_sources (px_policy px)) @ '' source(s)'')
      | t # _ \<Rightarrow> PreResult EvidenceFresh Violated EvidenceMissingOrStale ''evidence-stale''
          (''target '' @ to_string_target t @ '' lacks fresh evidence: '' @
           (case get_readiness (px_readiness px) t of Some e \<Rightarrow> rd_detail e | None \<Rightarrow> ''no observation'') @
           '' ('' @ dec_string (length stale) @ '' of '' @ dec_string (length scope) @ '' target(s) affected)''))"

definition pre_baseline :: "precondition_context \<Rightarrow> target_id list" where
  "pre_baseline px =
     (let reserved = (case px_ledger px of None \<Rightarrow> [] | Some l \<Rightarrow> reserved_targets (px_now px) l) in
      case px_jobs px of
        None \<Rightarrow> reserved
      | Some jobs \<Rightarrow>
          fold (\<lambda>e out.
              if fst e = j_id (px_job px) \<or> \<not> stage_removes_service (j_state (snd e)) then out
              else fold (\<lambda>t out. push_unique out t) (j_removal_set (snd e)) out)
            (jt_jobs jobs) reserved)"

definition pre_impact :: "precondition_context \<Rightarrow> capacity_impact" where
  "pre_impact px =
     (case px_impact_in px of
        Some im \<Rightarrow> im
      | None \<Rightarrow> plan_impact (px_topology px) (px_policy px) (px_readiness px) (pre_baseline px)
                  (j_removal_set (px_job px)))"

definition check_redundancy :: "capacity_impact \<Rightarrow> precondition_result" where
  "check_redundancy im =
     (case filter (\<lambda>e. \<not> pi_satisfied e) (im_pools im) of
        [] \<Rightarrow> met Redundancy ''redundancy-satisfied''
          (dec_string (length (im_pools im)) @ '' affected pool(s) keep their redundancy budget'')
      | e # _ \<Rightarrow> PreResult Redundancy Violated RedundancyViolation ''redundancy-violated'' (pi_reason e))"

definition check_failure_domain :: "capacity_impact \<Rightarrow> precondition_result" where
  "check_failure_domain im =
     (case filter (\<lambda>e. \<not> di_satisfied e) (im_domains im) of
        [] \<Rightarrow> met FailureDomain ''failure-domain-satisfied''
          (dec_string (length (im_domains im)) @ '' affected failure domain(s) within limits'')
      | e # _ \<Rightarrow> PreResult FailureDomain Violated FailureDomainLimit ''failure-domain-violated'' (di_reason e))"

definition check_headroom :: "capacity_impact \<Rightarrow> precondition_result" where
  "check_headroom im =
     (case filter (\<lambda>e. pi_reserve_units e > 0 \<and> pi_remaining_units e < pi_required_units e + pi_reserve_units e)
             (im_pools im) of
        [] \<Rightarrow> met PkCapacityHeadroom ''headroom-satisfied'' ''capacity reserve policy is preserved''
      | e # _ \<Rightarrow> PreResult PkCapacityHeadroom Violated CapacityHeadroom ''headroom-violated''
          (''pool '' @ to_string_pool (pi_pool e) @ '' would keep '' @ dec_word (pi_remaining_units e) @
           '' unit(s); policy reserves '' @ dec_word (pi_reserve_units e) @ '' beyond the redundancy minimum''))"

definition check_contracts :: "capacity_impact \<Rightarrow> precondition_result" where
  "check_contracts im =
     (case filter (\<lambda>e. \<not> co_satisfied e) (im_contracts im) of
        [] \<Rightarrow> met PkContractAvailability ''contracts-satisfied''
          (dec_string (length (im_contracts im)) @ '' affected workload contract(s) satisfied'')
      | e # _ \<Rightarrow> PreResult PkContractAvailability Violated ContractViolation ''contract-violated'' (co_reason e))"

definition intersects :: "target_id list \<Rightarrow> target_id list \<Rightarrow> bool" where
  "intersects a b \<longleftrightarrow> (\<exists>t \<in> set a. t \<in> set b)"

definition committed :: "precondition_context \<Rightarrow> job \<Rightarrow> bool" where
  "committed px other \<longleftrightarrow> stage_removes_service (j_state other) \<or>
     (case px_ledger px of
        None \<Rightarrow> False
      | Some l \<Rightarrow> (case find_for_job l (j_id other) (j_generation other) of
          None \<Rightarrow> False | Some held \<Rightarrow> live_at (px_now px) held))"

definition job_conflicts :: "precondition_context \<Rightarrow> string list" where
  "job_conflicts px =
     (case px_jobs px of
        None \<Rightarrow> []
      | Some jobs \<Rightarrow> List.map_filter (\<lambda>e.
          if fst e \<noteq> j_id (px_job px) \<and> committed px (snd e) \<and>
             intersects (j_removal_set (snd e)) (j_removal_set (px_job px)) then
            Some (to_string_job (fst e) @ '' already holds the same scope ('' @
              to_string_job_state (j_state (snd e)) @ '')'')
          else None) (jt_jobs jobs))"

definition ledger_conflicts :: "precondition_context \<Rightarrow> string list \<Rightarrow> string list" where
  "ledger_conflicts px found =
     (case px_ledger px of
        None \<Rightarrow> found
      | Some l \<Rightarrow> fold (\<lambda>e out.
          if ra_job (snd e) = j_id (px_job px) \<or> \<not> live_at (px_now px) (snd e) then out
          else if intersects (ra_targets (snd e)) (j_removal_set (px_job px)) then
            push_unique out (''maintenance authority '' @ to_string_authority (fst e) @ '' held by job '' @
              to_string_job (ra_job (snd e)) @ '' covers the same scope'')
          else out) (lg_reservations l) found)"

definition check_conflicts :: "precondition_context \<Rightarrow> precondition_result" where
  "check_conflicts px =
     (case ledger_conflicts px (job_conflicts px) of
        [] \<Rightarrow> met PkConflictingMaintenance ''no-conflict'' ''no other job or reservation claims this scope''
      | c # _ \<Rightarrow> PreResult PkConflictingMaintenance Violated ConflictingMaintenance
          ''conflicting-maintenance'' c)"

definition check_window :: "precondition_context \<Rightarrow> precondition_result" where
  "check_window px =
     (let ev = evaluate_window (po_windows (px_policy px)) (j_targets (px_job px)) (px_now px)
                 (po_require_window (px_policy px))
      in if allows_start ev then met WindowAdmissible ''window-open'' (we_detail ev)
         else PreResult WindowAdmissible Violated WindowUnavailable
           (''window-'' @ to_string_verdict (we_verdict ev)) (we_detail ev))"

text \<open>The loop over the sources \<open>1 .. kMaxEvidenceSourcesPerKey\<close> with its running detail.\<close>

fun quorum_scan :: "evidence_store \<Rightarrow> incarnation \<Rightarrow> nanos \<Rightarrow> u64 list \<Rightarrow> string \<Rightarrow> bool \<times> string" where
  "quorum_scan ev current now [] detail = (False, detail)"
| "quorum_scan ev current now (src # srcs) detail =
     (let key = EvidenceKey ControlPlaneQuorum global_subject src in
      case find_evidence ev key of
        None \<Rightarrow> quorum_scan ev current now srcs detail
      | Some r \<Rightarrow>
          let f = evaluate ev (plain_query key current now) in
          if fresh f \<and> ep_result (er_payload r) then
            (True, ''control-plane quorum proven by '' @ to_string_source src)
          else quorum_scan ev current now srcs
            (''control-plane quorum observation is '' @ to_string_freshness (fr_state f)))"

definition evidence_sources :: "u64 list" where
  "evidence_sources = map of_nat [1..<Suc kMaxEvidenceSourcesPerKey]"

definition check_quorum :: "precondition_context \<Rightarrow> precondition_result" where
  "check_quorum px =
     (if \<not> (\<exists>t \<in> set (j_removal_set (px_job px)). t_kind t = ControlPlane) then
        met PkControlPlaneQuorum ''control-plane-not-affected''
          ''the removal set contains no control-plane component''
      else case px_evidence px of
        None \<Rightarrow> PreResult PkControlPlaneQuorum Pending ControlPlaneUnsafe
          ''control-plane-evidence-unavailable'' ''no evidence store is available to prove control-plane quorum''
      | Some ev \<Rightarrow>
          (case quorum_scan ev (px_current px) (px_now px) evidence_sources
                  ''no control-plane quorum observation'' of
             (True, detail) \<Rightarrow> met PkControlPlaneQuorum ''control-plane-quorum-proven'' detail
           | (False, detail) \<Rightarrow> PreResult PkControlPlaneQuorum Violated ControlPlaneUnsafe
               ''control-plane-quorum-unproven'' detail))"

definition check_authority :: "precondition_context \<Rightarrow> precondition_result" where
  "check_authority px =
     (if \<not> px_check_authority px then
        PreResult AuthorityReserved Pending AuthorityDenied ''authority-not-requested''
          ''authority is acquired during the prerequisites stage''
      else case px_ledger px of
        None \<Rightarrow> PreResult AuthorityReserved Violated AuthorityDenied ''authority-ledger-unavailable''
          ''maintenance authority cannot be verified without a ledger''
      | Some l \<Rightarrow>
          let j = px_job px;
              not_live = PreResult AuthorityReserved Pending AuthorityDenied ''authority-not-held''
                ''job does not currently hold live maintenance authority''
          in case find_for_job l (j_id j) (j_generation j) of
               None \<Rightarrow> not_live
             | Some r \<Rightarrow>
                 if \<not> live_at (px_now px) r then not_live
                 else if ra_attempt r \<noteq> j_active_attempt j then
                   PreResult AuthorityReserved Violated AuthorityDenied ''authority-attempt-mismatch''
                     (''authority '' @ to_string_authority (ra_id r) @ '' belongs to attempt '' @
                      to_string_attempt (ra_attempt r) @ '' but the active attempt is '' @
                      to_string_attempt (j_active_attempt j))
                 else met AuthorityReserved ''authority-held''
                   (''authority '' @ to_string_authority (ra_id r) @ '' covers '' @
                    dec_string (length (ra_targets r)) @ '' target(s) until '' @
                    format_time (ra_expires_at r)))"

definition drain_query :: "precondition_context \<Rightarrow> target_id \<Rightarrow> u64 \<Rightarrow> evidence_query" where
  "drain_query px t src =
     \<lparr>eq_key = EvidenceKey DrainLeaseState (subject_of t) src, eq_current = px_current px,
      eq_now = px_now px, eq_job = j_id (px_job px), eq_attempt = j_active_attempt (px_job px)\<rparr>"

definition drain_confirmed :: "precondition_context \<Rightarrow> evidence_store \<Rightarrow> target_id \<Rightarrow> bool" where
  "drain_confirmed px ev t \<longleftrightarrow> (\<exists>src \<in> set evidence_sources.
     case find_evidence ev (EvidenceKey DrainLeaseState (subject_of t) src) of
       None \<Rightarrow> False
     | Some r \<Rightarrow> fresh (evaluate ev (drain_query px t src)) \<and> ep_result (er_payload r))"

definition check_drain :: "precondition_context \<Rightarrow> precondition_result" where
  "check_drain px =
     (let j = px_job px in
      if px_check_drain px \<and> j_requires_drain j then
        if \<not> id_valid (j_lease j) then
          PreResult DrainAcquired Pending BrDrainFailed ''drain-not-held'' ''job does not hold a drain lease''
        else (case px_evidence px of
          None \<Rightarrow> PreResult DrainAcquired Violated BrDrainFailed ''drain-evidence-unavailable''
            ''drain confirmation cannot be verified without an evidence store''
        | Some ev \<Rightarrow>
            (let unconfirmed = filter (\<lambda>t. \<not> drain_confirmed px ev t) (j_removal_set j) in
             case unconfirmed of
               [] \<Rightarrow> met DrainAcquired ''drain-confirmed''
                 (''drain lease '' @ to_string_lease (j_lease j) @
                  '' is confirmed for every target in the removal set'')
             | t # _ \<Rightarrow> PreResult DrainAcquired Violated BrDrainFailed ''drain-unconfirmed''
                 (''drain is not confirmed for target '' @ to_string_target t @ '' ('' @
                  dec_string (length unconfirmed) @ '' target(s) unconfirmed)'')))
      else if px_check_drain px then
        met DrainAcquired ''drain-not-required'' ''the request does not require a drain''
      else PreResult DrainAcquired Pending BrDrainFailed ''drain-not-requested''
        ''drain is acquired during the prerequisites stage'')"

definition preconditions_digest :: "precondition_set \<Rightarrow> u64" where
  "preconditions_digest s =
     (let h = dg_str ''mf.preconditions.v1'' dg_init;
          h = dg_each (\<lambda>r h. dg_str (pc_detail r) (dg_str (pc_code r) (dg_u32 (block_reason_code (pc_reason r))
                (dg_u32 (status_code (pc_status r)) (dg_u32 (precondition_code (pc_kind r)) h)))))
              (ps_results s) (dg_len (ps_results s) h);
          h = dg_u64 (ps_policy_revision s) h;
          h = dg_u64 (ps_policy_digest s) h;
          h = dg_u64 (ps_topology_revision s) h;
          h = dg_u64 (ps_topology_digest s) h;
          h = dg_u64 (ps_readiness_digest s) h;
          h = dg_u64 (ps_impact_digest s) h
      in dg_str (to_string_incarnation (ps_evaluated_by s)) h)"

definition precondition_results :: "precondition_context \<Rightarrow> capacity_impact \<Rightarrow> precondition_result list" where
  "precondition_results px im =
     [check_policy_bound px, check_request_shape px, check_targets_known px, check_maintainable px,
      check_dependencies px, check_evidence_fresh px, check_redundancy im, check_failure_domain im,
      check_headroom im, check_contracts im, check_conflicts px, check_window px, check_quorum px,
      check_authority px, check_drain px]"

definition evaluate_preconditions :: "precondition_context \<Rightarrow> precondition_set" where
  "evaluate_preconditions px =
     (let im = pre_impact px;
          results = precondition_results px im;
          count = (\<lambda>st. length (filter (\<lambda>r. pc_status r = st) results));
          s = \<lparr>ps_results = results, ps_satisfied = count Satisfied, ps_violated = count Violated,
               ps_pending = count Pending,
               ps_all_satisfied = (count Violated = 0 \<and> count Pending = 0),
               ps_evaluated_at = px_now px, ps_evaluated_by = px_current px,
               ps_policy_revision = po_revision (px_policy px),
               ps_topology_revision = tp_revision (px_topology px),
               ps_policy_digest = policy_digest (px_policy px),
               ps_topology_digest = topology_digest (px_topology px),
               ps_readiness_digest = view_digest (px_readiness px), ps_impact_digest = im_digest im,
               ps_digest = 0\<rparr>
      in s\<lparr>ps_digest := preconditions_digest s\<rparr>)"

section \<open>Lemmas\<close>

lemma all_satisfied_iff:
  "ps_all_satisfied (evaluate_preconditions px) \<longleftrightarrow>
     (\<forall>r \<in> set (precondition_results px (pre_impact px)). pc_status r = Satisfied)"
proof -
  have "(length (filter (\<lambda>r. pc_status r = Violated) rs) = 0 \<and> length (filter (\<lambda>r. pc_status r = Pending) rs) = 0)
      \<longleftrightarrow> (\<forall>r \<in> set rs. pc_status r = Satisfied)" for rs
    by (auto simp: filter_empty_conv) (metis precondition_status.exhaust)
  then show ?thesis by (simp add: evaluate_preconditions_def Let_def)
qed

lemma counts_add_up:
  "ps_satisfied (evaluate_preconditions px) + ps_violated (evaluate_preconditions px) +
   ps_pending (evaluate_preconditions px) = 15"
proof -
  have "length (filter (\<lambda>r. pc_status r = Satisfied) rs) + length (filter (\<lambda>r. pc_status r = Violated) rs) +
      length (filter (\<lambda>r. pc_status r = Pending) rs) = length rs" for rs
  proof (induction rs)
    case (Cons r rs)
    then show ?case by (cases "pc_status r") simp_all
  qed simp
  from this [of "precondition_results px (pre_impact px)"] show ?thesis
    by (simp add: evaluate_preconditions_def Let_def precondition_results_def)
qed

lemma case_filter_status:
  "pc_status (case filter P xs of [] \<Rightarrow> a | x # r \<Rightarrow> f x r) = Satisfied \<longleftrightarrow>
     (if \<forall>x \<in> set xs. \<not> P x then pc_status a = Satisfied
      else pc_status (f (hd (filter P xs)) (tl (filter P xs))) = Satisfied)"
  by (cases "filter P xs") (auto simp: filter_empty_conv dest: filter_eq_ConsD)

named_theorems met_iff \<open>when each check is satisfied\<close>

lemma policy_bound_met [met_iff]: "pc_status (check_policy_bound px) = Satisfied \<longleftrightarrow>
    (id_valid (j_policy_revision (px_job px)) \<longrightarrow> j_policy_revision (px_job px) = po_revision (px_policy px))"
  by (simp add: check_policy_bound_def Let_def)

lemma request_shape_met [met_iff]: "pc_status (check_request_shape px) = Satisfied \<longleftrightarrow>
    validate_request_shape (request_of (px_job px)) = ok_status"
  by (simp add: check_request_shape_def split: sum.split)

lemma targets_known_met [met_iff]: "pc_status (check_targets_known px) = Satisfied \<longleftrightarrow>
    (\<forall>t \<in> set (j_targets (px_job px)). contains (px_topology px) t)"
  by (simp add: check_targets_known_def case_filter_status contains_def)

lemma maintainable_met [met_iff]: "pc_status (check_maintainable px) = Satisfied \<longleftrightarrow>
    (\<forall>t \<in> set (j_targets (px_job px)). \<forall>r. target (px_topology px) t = Some r \<longrightarrow> tr_maintainable r)"
  by (auto simp: check_maintainable_def case_filter_status split: option.splits)

lemma map_filter_Nil: "List.map_filter f xs = [] \<longleftrightarrow> (\<forall>x \<in> set xs. f x = None)"
  by (auto simp: List.map_filter_def filter_empty_conv)

lemma dependency_complete: "dependency_state jobs d = None \<longleftrightarrow>
    (\<exists>other. find_job jobs d = Some other \<and> j_state other = Complete)"
  by (auto simp: dependency_state_def Let_def split: option.splits)

lemma dependencies_met [met_iff]: "pc_status (check_dependencies px) = Satisfied \<longleftrightarrow>
    (\<forall>jobs. px_jobs px = Some jobs \<longrightarrow> (\<forall>d \<in> set (j_depends_on (px_job px)).
       \<exists>other. find_job jobs d = Some other \<and> j_state other = Complete))"
proof -
  have sides: "(List.map_filter (\<lambda>s. case s of Inl x \<Rightarrow> Some x | Inr _ \<Rightarrow> None) ss = [] \<and>
      List.map_filter (\<lambda>s. case s of Inl _ \<Rightarrow> None | Inr x \<Rightarrow> Some x) ss = []) \<longleftrightarrow> ss = []"
    for ss :: "(string + string) list"
    by (cases ss) (auto simp: map_filter_Nil split: sum.splits)
  define ss where "ss = (case px_jobs px of None \<Rightarrow> [] | Some jobs \<Rightarrow>
      List.map_filter (dependency_state jobs) (j_depends_on (px_job px)))"
  have "pc_status (check_dependencies px) = Satisfied \<longleftrightarrow> ss = []"
    unfolding check_dependencies_def Let_def ss_def [symmetric] sides [symmetric]
    by (cases "List.map_filter (\<lambda>s. case s of Inl x \<Rightarrow> Some x | Inr _ \<Rightarrow> None) ss";
        cases "List.map_filter (\<lambda>s. case s of Inl _ \<Rightarrow> None | Inr x \<Rightarrow> Some x) ss") simp_all
  then show ?thesis
    by (auto simp: ss_def map_filter_Nil dependency_complete split: option.splits)
qed

lemma evidence_met [met_iff]: "pc_status (check_evidence_fresh px) = Satisfied \<longleftrightarrow>
    (\<forall>t \<in> set (j_removal_set (px_job px)). is_fresh (px_readiness px) t)"
  unfolding unfresh_empty [symmetric] by (simp add: check_evidence_fresh_def Let_def split: list.split)

lemma impact_checks_met [met_iff]:
  "pc_status (check_redundancy im) = Satisfied \<longleftrightarrow> (\<forall>e \<in> set (im_pools im). pi_satisfied e)"
  "pc_status (check_failure_domain im) = Satisfied \<longleftrightarrow> (\<forall>e \<in> set (im_domains im). di_satisfied e)"
  "pc_status (check_contracts im) = Satisfied \<longleftrightarrow> (\<forall>e \<in> set (im_contracts im). co_satisfied e)"
  by (simp_all add: check_redundancy_def check_failure_domain_def check_contracts_def case_filter_status)

lemma set_ledger_conflicts:
  "ledger_conflicts px found = [] \<longleftrightarrow> found = [] \<and> (\<forall>l. px_ledger px = Some l \<longrightarrow>
     (\<forall>e \<in> set (lg_reservations l). ra_job (snd e) \<noteq> j_id (px_job px) \<longrightarrow> live_at (px_now px) (snd e) \<longrightarrow>
        set (ra_targets (snd e)) \<inter> set (j_removal_set (px_job px)) = {}))"
proof -
  have push: "push_unique out x \<noteq> []" for out :: "string list" and x by (auto simp: push_unique_def)
  have "fold (\<lambda>e out. if ra_job (snd e) = j_id (px_job px) \<or> \<not> live_at (px_now px) (snd e) then out
          else if intersects (ra_targets (snd e)) (j_removal_set (px_job px)) then
            push_unique out (f e) else out) es found = [] \<longleftrightarrow>
      found = [] \<and> (\<forall>e \<in> set es. ra_job (snd e) \<noteq> j_id (px_job px) \<longrightarrow> live_at (px_now px) (snd e) \<longrightarrow>
        set (ra_targets (snd e)) \<inter> set (j_removal_set (px_job px)) = {})"
    for f and es :: "(authority_id \<times> reservation) list"
    by (induction es arbitrary: found) (auto simp: intersects_def push)
  then show ?thesis by (simp add: ledger_conflicts_def split: option.split)
qed

lemma conflicts_met [met_iff]: "pc_status (check_conflicts px) = Satisfied \<longleftrightarrow>
    (\<forall>jobs. px_jobs px = Some jobs \<longrightarrow> (\<forall>e \<in> set (jt_jobs jobs). fst e \<noteq> j_id (px_job px) \<longrightarrow>
       committed px (snd e) \<longrightarrow> set (j_removal_set (snd e)) \<inter> set (j_removal_set (px_job px)) = {})) \<and>
    (\<forall>l. px_ledger px = Some l \<longrightarrow> (\<forall>e \<in> set (lg_reservations l). ra_job (snd e) \<noteq> j_id (px_job px) \<longrightarrow>
       live_at (px_now px) (snd e) \<longrightarrow> set (ra_targets (snd e)) \<inter> set (j_removal_set (px_job px)) = {}))"
proof -
  have "pc_status (check_conflicts px) = Satisfied \<longleftrightarrow> ledger_conflicts px (job_conflicts px) = []"
    by (simp add: check_conflicts_def split: list.split)
  moreover have "job_conflicts px = [] \<longleftrightarrow> (\<forall>jobs. px_jobs px = Some jobs \<longrightarrow>
      (\<forall>e \<in> set (jt_jobs jobs). fst e \<noteq> j_id (px_job px) \<longrightarrow>
       committed px (snd e) \<longrightarrow> set (j_removal_set (snd e)) \<inter> set (j_removal_set (px_job px)) = {}))"
    by (auto simp: job_conflicts_def map_filter_Nil intersects_def split: option.splits if_splits)
  ultimately show ?thesis by (simp add: set_ledger_conflicts)
qed

lemma window_met [met_iff]: "pc_status (check_window px) = Satisfied \<longleftrightarrow>
    allows_start (evaluate_window (po_windows (px_policy px)) (j_targets (px_job px)) (px_now px)
      (po_require_window (px_policy px)))"
  by (simp add: check_window_def Let_def)

lemma quorum_scan_proven:
  "fst (quorum_scan ev current now srcs detail) \<longleftrightarrow>
     (\<exists>src \<in> set srcs. \<exists>r. find_evidence ev (EvidenceKey ControlPlaneQuorum global_subject src) = Some r \<and>
        fresh (evaluate ev (plain_query (EvidenceKey ControlPlaneQuorum global_subject src) current now)) \<and>
        ep_result (er_payload r))"
  by (induction srcs arbitrary: detail) (auto simp: Let_def split: option.split)

lemma quorum_met [met_iff]: "pc_status (check_quorum px) = Satisfied \<longleftrightarrow>
    ((\<exists>t \<in> set (j_removal_set (px_job px)). t_kind t = ControlPlane) \<longrightarrow>
      (\<exists>ev. px_evidence px = Some ev \<and> (\<exists>src \<in> set evidence_sources. \<exists>r.
         find_evidence ev (EvidenceKey ControlPlaneQuorum global_subject src) = Some r \<and>
         fresh (evaluate ev (plain_query (EvidenceKey ControlPlaneQuorum global_subject src)
           (px_current px) (px_now px))) \<and> ep_result (er_payload r))))"
proof -
  have "pc_status (case q of (True, detail) \<Rightarrow> met PkControlPlaneQuorum a detail
      | (False, detail) \<Rightarrow> PreResult PkControlPlaneQuorum Violated ControlPlaneUnsafe b detail) = Satisfied \<longleftrightarrow> fst q"
    for q a b by (cases q; cases "fst q") auto
  then show ?thesis
    by (auto simp: check_quorum_def quorum_scan_proven split: option.splits)
qed

lemma authority_met [met_iff]: "pc_status (check_authority px) = Satisfied \<longleftrightarrow>
    px_check_authority px \<and> (\<exists>l r. px_ledger px = Some l \<and>
      find_for_job l (j_id (px_job px)) (j_generation (px_job px)) = Some r \<and>
      live_at (px_now px) r \<and> ra_attempt r = j_active_attempt (px_job px))"
  by (auto simp: check_authority_def Let_def split: option.split)

lemma drain_met [met_iff]: "pc_status (check_drain px) = Satisfied \<longleftrightarrow>
    px_check_drain px \<and> (j_requires_drain (px_job px) \<longrightarrow> id_valid (j_lease (px_job px)) \<and>
      (\<exists>ev. px_evidence px = Some ev \<and> (\<forall>t \<in> set (j_removal_set (px_job px)). drain_confirmed px ev t)))"
  by (auto simp: check_drain_def Let_def case_filter_status split: option.split)

lemma drain_confirmed_iff:
  "drain_confirmed px ev t \<longleftrightarrow> (\<exists>src \<in> set evidence_sources. \<exists>r.
     find_evidence ev (EvidenceKey DrainLeaseState (subject_of t) src) = Some r \<and>
     fresh (evaluate ev (drain_query px t src)) \<and> ep_result (er_payload r))"
  by (auto simp: drain_confirmed_def split: option.splits)

lemma set_pre_baseline:
  assumes "px_ledger px = Some l" "px_jobs px = Some jobs"
  shows "set (pre_baseline px) = set (reserved_targets (px_now px) l) \<union>
    (\<Union>e \<in> {e \<in> set (jt_jobs jobs). fst e \<noteq> j_id (px_job px) \<and> stage_removes_service (j_state (snd e))}.
       set (j_removal_set (snd e)))"
proof -
  have "set (fold (\<lambda>e out. if fst e = j_id (px_job px) \<or> \<not> stage_removes_service (j_state (snd e)) then out
        else fold (\<lambda>t out. push_unique out t) (j_removal_set (snd e)) out) es out) = set out \<union>
      (\<Union>e \<in> {e \<in> set es. fst e \<noteq> j_id (px_job px) \<and> stage_removes_service (j_state (snd e))}.
         set (j_removal_set (snd e)))" for es :: "(job_id \<times> job) list" and out
    by (induction es arbitrary: out) auto
  then show ?thesis by (simp add: pre_baseline_def assms)
qed

lemma all_satisfied_capacity: "ps_all_satisfied (evaluate_preconditions px) \<Longrightarrow> capacity_kept (pre_impact px)"
  unfolding all_satisfied_iff precondition_results_def capacity_kept_def list_all_iff
  by (simp add: impact_checks_met)

lemma headroom_implied: "pc_status (check_redundancy (compute_impact inp)) = Satisfied \<Longrightarrow>
    pc_status (check_headroom (compute_impact inp)) = Satisfied"
proof -
  assume "pc_status (check_redundancy (compute_impact inp)) = Satisfied"
  moreover have "pi_satisfied e \<longleftrightarrow> \<not> pi_remaining_units e < pi_required_units e + pi_reserve_units e"
    if "e \<in> set (im_pools (compute_impact inp))" for e
    using that
    by (auto simp: compute_impact_def Let_def List.map_filter_def impact_of_pool_def)
  ultimately show ?thesis by (auto simp: check_headroom_def case_filter_status impact_checks_met)
qed

end
