(* ===== verification/Scheduler.thy ===== *)
theory Scheduler
  imports Jobs Policies
begin

text \<open>
  Tick planning (\<^verbatim>\<open>include/mf/engine/scheduler.hpp\<close>, \<^verbatim>\<open>src/engine/scheduler.cpp\<close>) and the fence
  checks of the runtime (\<^verbatim>\<open>src/runtime/fencing.cpp\<close>). The planner classifies the job table into
  work lists and changes nothing.

  The lemmas characterise each work list over a well formed table and show that every job that
  is neither proposed nor terminal is in the list of its stage.
\<close>

definition renewal_margin :: "policy \<Rightarrow> nanos" where
  "renewal_margin po =
     (let margin = po_authority_lease po sdiv 4 in
      if margin < kNanosPerSecond then kNanosPerSecond else margin)"

record selection =
  sl_validated :: "job_id list"
  sl_runnable :: "job_id list"
  sl_in_maintenance :: "job_id list"
  sl_verifying :: "job_id list"
  sl_restoring :: "job_id list"
  sl_overrun :: "job_id list"
  sl_expiring :: "job_id list"
  sl_blocked :: "job_id list"
  sl_renewal_margin :: nanos
  sl_digest :: u64

definition no_selection :: selection where
  "no_selection = \<lparr>sl_validated = [], sl_runnable = [], sl_in_maintenance = [], sl_verifying = [],
     sl_restoring = [], sl_overrun = [], sl_expiring = [], sl_blocked = [], sl_renewal_margin = 0,
     sl_digest = 0\<rparr>"

definition classify_stage :: "nanos \<Rightarrow> job \<Rightarrow> selection \<Rightarrow> selection" where
  "classify_stage now j sl = (case j_state j of
     Validated \<Rightarrow> sl\<lparr>sl_validated := sl_validated sl @ [j_id j], sl_runnable := sl_runnable sl @ [j_id j]\<rparr>
   | Prerequisites \<Rightarrow> sl\<lparr>sl_runnable := sl_runnable sl @ [j_id j]\<rparr>
   | Ready \<Rightarrow> sl\<lparr>sl_runnable := sl_runnable sl @ [j_id j]\<rparr>
   | Blocked \<Rightarrow> sl\<lparr>sl_blocked := sl_blocked sl @ [j_id j], sl_runnable := sl_runnable sl @ [j_id j]\<rparr>
   | InMaintenance \<Rightarrow>
       sl\<lparr>sl_in_maintenance := sl_in_maintenance sl @ [j_id j],
          sl_overrun := (if j_window_closes_at j > 0 \<and> now \<ge> j_window_closes_at j
                         then sl_overrun sl @ [j_id j] else sl_overrun sl)\<rparr>
   | Verifying \<Rightarrow> sl\<lparr>sl_verifying := sl_verifying sl @ [j_id j]\<rparr>
   | Restoring \<Rightarrow> sl\<lparr>sl_restoring := sl_restoring sl @ [j_id j]\<rparr>
   | _ \<Rightarrow> sl)"

definition classify_job :: "nanos \<Rightarrow> job \<Rightarrow> selection \<Rightarrow> selection" where
  "classify_job now j sl =
     (let sl = classify_stage now j sl in
      if holds_resources (j_state j) \<and> (id_valid (j_authority j) \<or> id_valid (j_lease j))
      then sl\<lparr>sl_expiring := sl_expiring sl @ [j_id j]\<rparr> else sl)"

definition sort_selection :: "selection \<Rightarrow> selection" where
  "sort_selection sl = sl\<lparr>sl_validated := sort_unique (sl_validated sl),
     sl_runnable := sort_unique (sl_runnable sl), sl_in_maintenance := sort_unique (sl_in_maintenance sl),
     sl_verifying := sort_unique (sl_verifying sl), sl_restoring := sort_unique (sl_restoring sl),
     sl_overrun := sort_unique (sl_overrun sl), sl_expiring := sort_unique (sl_expiring sl),
     sl_blocked := sort_unique (sl_blocked sl)\<rparr>"

definition dg_list :: "string \<Rightarrow> job_id list \<Rightarrow> u64 \<Rightarrow> u64" where
  "dg_list tag ids h = dg_each dg_u64 ids (dg_len ids (dg_str tag h))"

definition selection_digest :: "nanos \<Rightarrow> selection \<Rightarrow> u64" where
  "selection_digest now sl =
     (let h = dg_i64 now (dg_str ''mf.scheduler.v1'' dg_init);
          h = dg_list ''a'' (sl_validated sl) h;
          h = dg_list ''r'' (sl_runnable sl) h;
          h = dg_list ''m'' (sl_in_maintenance sl) h;
          h = dg_list ''v'' (sl_verifying sl) h;
          h = dg_list ''s'' (sl_restoring sl) h;
          h = dg_list ''o'' (sl_overrun sl) h;
          h = dg_list ''e'' (sl_expiring sl) h
      in dg_list ''b'' (sl_blocked sl) h)"

definition plan_tick :: "job_table \<Rightarrow> policy \<Rightarrow> nanos \<Rightarrow> selection" where
  "plan_tick jobs po now =
     (let sl = sort_selection (fold (classify_job now) (om_values (jt_jobs jobs))
                 (no_selection\<lparr>sl_renewal_margin := renewal_margin po\<rparr>))
      in sl\<lparr>sl_digest := selection_digest now sl\<rparr>)"

section \<open>Fence checks\<close>

definition require_current_incarnation :: "incarnation \<Rightarrow> incarnation \<Rightarrow> string \<Rightarrow> status" where
  "require_current_incarnation recorded current what =
     (if recorded = current then ok_status
      else Inl (make_error StaleIncarnation (what @ '' carries incarnation '' @
        to_string_incarnation recorded @ '' but the running incarnation is '' @
        to_string_incarnation current)))"

definition require_attempt :: "attempt_id \<Rightarrow> attempt_id \<Rightarrow> string \<Rightarrow> status" where
  "require_attempt recorded expected what =
     (if recorded = expected then ok_status
      else Inl (make_error StaleAttempt (what @ '' carries attempt '' @ to_string_attempt recorded @
        '' but the current attempt is '' @ to_string_attempt expected)))"

definition require_generation :: "generation_id \<Rightarrow> generation_id \<Rightarrow> string \<Rightarrow> status" where
  "require_generation recorded expected what =
     (if recorded = expected then ok_status
      else Inl (make_error StaleGeneration (what @ '' carries generation '' @
        to_string_generation recorded @ '' but the current generation is '' @
        to_string_generation expected)))"

definition require_revision :: "revision \<Rightarrow> revision \<Rightarrow> string \<Rightarrow> status" where
  "require_revision recorded expected what =
     (if recorded = expected then ok_status
      else Inl (make_error StaleRevision (what @ '' carries revision '' @ to_string_revision recorded @
        '' but the current revision is '' @ to_string_revision expected)))"

section \<open>Lemmas\<close>

definition overran :: "nanos \<Rightarrow> job \<Rightarrow> bool" where
  "overran now j \<longleftrightarrow> j_state j = InMaintenance \<and> j_window_closes_at j > 0 \<and> now \<ge> j_window_closes_at j"

definition may_expire :: "job \<Rightarrow> bool" where
  "may_expire j \<longleftrightarrow> holds_resources (j_state j) \<and> (id_valid (j_authority j) \<or> id_valid (j_lease j))"

lemma classify_stage_lists:
  "sl_validated (classify_stage now j sl) = sl_validated sl @ (if j_state j = Validated then [j_id j] else [])"
  "sl_runnable (classify_stage now j sl) = sl_runnable sl @ (if j_state j \<in> {Validated, Prerequisites, Ready, Blocked} then [j_id j] else [])"
  "sl_in_maintenance (classify_stage now j sl) = sl_in_maintenance sl @ (if j_state j = InMaintenance then [j_id j] else [])"
  "sl_verifying (classify_stage now j sl) = sl_verifying sl @ (if j_state j = Verifying then [j_id j] else [])"
  "sl_restoring (classify_stage now j sl) = sl_restoring sl @ (if j_state j = Restoring then [j_id j] else [])"
  "sl_overrun (classify_stage now j sl) = sl_overrun sl @ (if overran now j then [j_id j] else [])"
  "sl_blocked (classify_stage now j sl) = sl_blocked sl @ (if j_state j = Blocked then [j_id j] else [])"
  "sl_expiring (classify_stage now j sl) = sl_expiring sl"
  unfolding classify_stage_def overran_def by (cases "j_state j"; simp)+

lemma classify_one:
  "sl_validated (classify_job now j sl) = sl_validated sl @ (if j_state j = Validated then [j_id j] else [])"
  "sl_runnable (classify_job now j sl) = sl_runnable sl @ (if j_state j \<in> {Validated, Prerequisites, Ready, Blocked} then [j_id j] else [])"
  "sl_in_maintenance (classify_job now j sl) = sl_in_maintenance sl @ (if j_state j = InMaintenance then [j_id j] else [])"
  "sl_verifying (classify_job now j sl) = sl_verifying sl @ (if j_state j = Verifying then [j_id j] else [])"
  "sl_restoring (classify_job now j sl) = sl_restoring sl @ (if j_state j = Restoring then [j_id j] else [])"
  "sl_overrun (classify_job now j sl) = sl_overrun sl @ (if overran now j then [j_id j] else [])"
  "sl_blocked (classify_job now j sl) = sl_blocked sl @ (if j_state j = Blocked then [j_id j] else [])"
  "sl_expiring (classify_job now j sl) = sl_expiring sl @ (if may_expire j then [j_id j] else [])"
  unfolding classify_job_def Let_def may_expire_def by (simp_all add: classify_stage_lists)

text \<open>Each list collects the jobs of one predicate, in table order.\<close>

lemma classify_all:
  assumes "\<And>j sl. field (classify_job now j sl) = field sl @ (if P j then [j_id j] else [])"
  shows "field (fold (classify_job now) js sl) = field sl @ map j_id (filter P js)"
  by (induction js arbitrary: sl) (simp_all add: assms)

lemmas classify_lists = classify_one [THEN classify_all [where P = "\<lambda>j. Q j" for Q]]

lemma in_plan:
  assumes "job_table_wf jobs"
  shows "i \<in> j_id ` {j \<in> set (om_values (jt_jobs jobs)). P j} \<longleftrightarrow> (\<exists>j. find_job jobs i = Some j \<and> P j)"
proof -
  have item: "(k, j) \<in> set (jt_jobs jobs) \<longleftrightarrow> find_job jobs k = Some j" for k j
    using assms om_in_items [of "jt_jobs jobs" "(k, j)"] by (simp add: job_table_wf_def find_job_def)
  have "j \<in> set (om_values (jt_jobs jobs)) \<longleftrightarrow> find_job jobs (j_id j) = Some j" for j
  proof
    assume "j \<in> set (om_values (jt_jobs jobs))"
    then obtain k where "find_job jobs k = Some j" using item by auto
    with assms show "find_job jobs (j_id j) = Some j" by (auto simp: job_table_wf_def)
  next
    assume "find_job jobs (j_id j) = Some j"
    then show "j \<in> set (om_values (jt_jobs jobs))" using item by (metis image_eqI set_map snd_conv)
  qed
  moreover have "find_job jobs i = Some j \<Longrightarrow> j_id j = i" for j
    using assms by (auto simp: job_table_wf_def)
  ultimately show ?thesis by auto
qed

lemma plan_tick_lists:
  assumes "job_table_wf jobs"
  shows "i \<in> set (sl_validated (plan_tick jobs po now)) \<longleftrightarrow> (\<exists>j. find_job jobs i = Some j \<and> j_state j = Validated)"
    and "i \<in> set (sl_runnable (plan_tick jobs po now)) \<longleftrightarrow>
      (\<exists>j. find_job jobs i = Some j \<and> j_state j \<in> {Validated, Prerequisites, Ready, Blocked})"
    and "i \<in> set (sl_in_maintenance (plan_tick jobs po now)) \<longleftrightarrow> (\<exists>j. find_job jobs i = Some j \<and> j_state j = InMaintenance)"
    and "i \<in> set (sl_verifying (plan_tick jobs po now)) \<longleftrightarrow> (\<exists>j. find_job jobs i = Some j \<and> j_state j = Verifying)"
    and "i \<in> set (sl_restoring (plan_tick jobs po now)) \<longleftrightarrow> (\<exists>j. find_job jobs i = Some j \<and> j_state j = Restoring)"
    and "i \<in> set (sl_overrun (plan_tick jobs po now)) \<longleftrightarrow> (\<exists>j. find_job jobs i = Some j \<and> overran now j)"
    and "i \<in> set (sl_expiring (plan_tick jobs po now)) \<longleftrightarrow> (\<exists>j. find_job jobs i = Some j \<and> may_expire j)"
    and "i \<in> set (sl_blocked (plan_tick jobs po now)) \<longleftrightarrow> (\<exists>j. find_job jobs i = Some j \<and> j_state j = Blocked)"
  unfolding in_plan [OF assms, symmetric]
  by (simp_all add: plan_tick_def Let_def sort_selection_def classify_lists no_selection_def)

end
