(* ===== verification/Examples.thy ===== *)
theory Examples
  imports Authority_Run Preconditions Scheduler
begin

text \<open>
  A small concrete fabric, built with the operations of the model: three switches in one power
  domain and one redundancy pool, a policy that keeps two units serving and lets one member of
  the domain out, healthy evidence from one source, and two jobs that each want one switch. The
  lemmas evaluate the model on it; the properties are exercised at these values.
\<close>

definition sw :: "u32 \<Rightarrow> target_id" where
  "sw i = TargetId Switch i"

definition power1 :: domain_id where
  "power1 = DomainId Power 1"

definition demo_switch :: "u32 \<Rightarrow> target_record" where
  "demo_switch i = \<lparr>tr_id = sw i, tr_name = ''sw'', tr_parent = None, tr_domains = [power1],
     tr_capacity_units = 1, tr_maintainable = True\<rparr>"

definition demo_pool :: pool_record where
  "demo_pool = \<lparr>pr_id = 1, pr_name = ''spines'', pr_members = [sw 1, sw 2, sw 3]\<rparr>"

definition demo_domain :: domain_record where
  "demo_domain = \<lparr>dr_id = power1, dr_name = ''feed'', dr_correlated = True\<rparr>"

definition demo_stage :: "u32 list \<Rightarrow> topology" where
  "demo_stage is = \<lparr>tp_targets = map (\<lambda>i. (sw i, demo_switch i)) is, tp_domains = [(power1, demo_domain)],
     tp_pools = [], tp_domain_members = (if is = [] then [] else [(power1, map sw is)]),
     tp_target_pools = [], tp_children = [], tp_revision = 1 + of_nat (length is)\<rparr>"

definition demo_topology :: topology where
  "demo_topology = (demo_stage [1, 2, 3])\<lparr>tp_pools := [(1, demo_pool)],
     tp_target_pools := [(sw 1, [1]), (sw 2, [1]), (sw 3, [1])], tp_revision := 5\<rparr>"

definition demo_contract :: contract where
  "demo_contract = \<lparr>c_id = 1, c_name = ''tier'', c_members = [sw 1, sw 2, sw 3], c_min_available = 2,
     c_require_fresh_evidence = True\<rparr>"

definition demo_policy :: policy where
  "demo_policy = default_policy\<lparr>
     po_redundancy := [\<lparr>rr_pool = 1, rr_min_viable = 1, rr_tolerated_losses = 1, rr_name = ''n+1''\<rparr>],
     po_domain_limits := [\<lparr>dl_domain = power1, dl_max_out = 1, dl_name = ''one-feed''\<rparr>],
     po_contracts := [demo_contract], po_revision := 1\<rparr>"

definition demo_self :: incarnation where
  "demo_self = \<lparr>ci_controller = 1, ci_epoch = 2, ci_nonce = 7\<rparr>"

definition demo_evidence :: "u32 \<Rightarrow> evidence_record" where
  "demo_evidence i = \<lparr>er_id = 1, er_key = EvidenceKey TargetHealth (subject_of (sw i)) 1, er_revision = 1,
     er_observed_at = 100, er_ttl = 1000, er_klass = Volatile,
     er_payload = \<lparr>ep_health = Healthy, ep_available_units = 1, ep_total_units = 1, ep_result = True, ep_count = 0\<rparr>,
     er_observed_by = demo_self, er_job = 0, er_attempt = no_attempt, er_digest = 1\<rparr>"

definition demo_store :: evidence_store where
  "demo_store = (new_evidence_store 16)\<lparr>es_records := map (\<lambda>i. (er_key (demo_evidence i), demo_evidence i)) [1, 2, 3],
     es_observations := 3\<rparr>"

definition demo_view :: readiness_view where
  "demo_view = build_view demo_topology demo_store demo_policy demo_self 200"

definition demo_attempt :: "job_id \<Rightarrow> attempt_id" where
  "demo_attempt i = \<lparr>at_job = i, at_generation = 1, at_ordinal = 1\<rparr>"

definition demo_job :: "job_id \<Rightarrow> u32 \<Rightarrow> job" where
  "demo_job i s = new_job\<lparr>j_id := i, j_revision := 1, j_title := ''swap'', j_targets := [sw s],
     j_removal_set := [sw s], j_requestor := 9, j_state := Prerequisites,
     j_active_attempt := demo_attempt i, j_created_at := 50\<rparr>"

definition demo_jobs :: job_table where
  "demo_jobs = \<lparr>jt_jobs = [(1, demo_job 1 1), (2, demo_job 2 2)], jt_next_id = 3\<rparr>"

definition demo_arbitration :: arbitration_context where
  "demo_arbitration = \<lparr>ax_topology = demo_topology, ax_policy = demo_policy, ax_readiness = demo_view,
     ax_jobs = demo_jobs, ax_candidates = [2, 1], ax_current = demo_self, ax_now = 200\<rparr>"

section \<open>Evaluation\<close>

lemmas table_eval = limits id_valid_def target_valid_def domain_valid_def next_id_def id_order_defs touch_def
  om_emplace_def om_erase_def om_filter_def om_find_def index_at_def index_insert_def index_drop_def

lemmas demo_defs = demo_switch_def demo_pool_def demo_domain_def sw_def power1_def demo_stage_def

lemmas add_target_eval = add_target_def target_def domain_def validate_target_record_def check_parent_def
  check_member_domain_def link_target_def unlink_target_def

lemma demo_steps:
  "add_domain demo_domain empty_topology = Inr (demo_stage [])"
  "add_target (demo_switch 1) (demo_stage []) = Inr (demo_stage [1])"
  "add_target (demo_switch 2) (demo_stage [1]) = Inr (demo_stage [1, 2])"
  "add_target (demo_switch 3) (demo_stage [1, 2]) = Inr (demo_stage [1, 2, 3])"
  by (simp_all add: add_domain_def empty_topology_def add_target_eval demo_defs table_eval)

lemma demo_pool_checks:
  "fold (index_insert (1::u64)) [sw 1, sw 2, sw 3] [] = [(sw 1, [1]), (sw 2, [1]), (sw 3, [1])]"
  "adjacent_dup (sort [sw 1, sw 2, sw 3]) = False"
  "for_status (check_pool_member (demo_stage [1, 2, 3])) [sw 1, sw 2, sw 3] = ok_status"
  "pool (demo_stage [1, 2, 3]) 1 = None"
  by (simp add: sw_def table_eval, simp add: sw_def id_order_defs,
      simp add: check_pool_member_def target_def demo_defs table_eval,
      simp add: pool_def demo_stage_def om_find_def)

lemma demo_pool_step: "add_pool demo_pool (demo_stage [1, 2, 3]) = Inr demo_topology"
proof -
  have p: "pr_id demo_pool = 1" "pr_members demo_pool = [sw 1, sw 2, sw 3]" "pr_name demo_pool = ''spines''"
    by (simp_all add: demo_pool_def)
  have t: "tp_pools (demo_stage [1, 2, 3]) = []" "tp_target_pools (demo_stage [1, 2, 3]) = []"
    by (simp_all add: demo_stage_def)
  show ?thesis
    unfolding add_pool_def p demo_pool_checks t Let_def option.case sum.case
    by (simp add: id_valid_def limits)
      (simp add: sw_def demo_topology_def touch_def next_id_def demo_stage_def)
qed

lemma demo_topology_wf: "topo_wf demo_topology"
proof -
  have "topo_wf (demo_stage [])" by (rule add_domain_wf [OF empty_topology_wf demo_steps(1)])
  then have "topo_wf (demo_stage [1])" by (rule add_target_wf [OF _ demo_steps(2)])
  then have "topo_wf (demo_stage [1, 2])" by (rule add_target_wf [OF _ demo_steps(3)])
  then have "topo_wf (demo_stage [1, 2, 3])" by (rule add_target_wf [OF _ demo_steps(4)])
  then show ?thesis by (rule add_pool_wf [OF _ demo_pool_step])
qed

lemma demo_topology_valid: "validate_topology demo_topology = ok_status"
  by (simp add: validate_topology_def demo_topology_def demo_defs table_eval validate_target_entry_def
      validate_target_record_def chain_walk.simps validate_pool_entry_def target_def domain_def)

lemma demo_policy_valid: "validate_policy demo_policy = ok_status"
  by (simp add: validate_policy_ok validate_bounds_def validate_redundancy_def validate_domain_limit_def
      validate_contract_ok required_serving_units_def demo_policy_def default_policy_def demo_contract_def
      demo_defs table_eval and_then_def nanos_defs)

lemma demo_targets:
  "target demo_topology (sw i) = (if i \<in> {1, 2, 3} then Some (demo_switch i) else None)"
  by (simp add: target_def demo_topology_def demo_defs om_find_def)

lemmas evidence_eval = demo_store_def demo_evidence_def new_evidence_store_def subject_of_def sw_def
  find_evidence_def om_find_def evidence_order_defs

lemma demo_observations:
  "observe (demo_evidence 1) (new_evidence_store 16) =
     (ok_status, (new_evidence_store 16)\<lparr>es_records := [(er_key (demo_evidence 1), demo_evidence 1)], es_observations := 1\<rparr>)"
  by (simp add: observe_def evidence_valid_def seal_digest_def accepted_def demo_evidence_def new_evidence_store_def
      id_valid_def subject_valid_def subject_of_def incarnation_valid_def demo_self_def limits)

lemma demo_fresh_sources:
  "i \<in> {1, 2, 3} \<Longrightarrow> fresh_sources demo_store TargetHealth (subject_of (sw i)) demo_self 200 = [1]"
  by (auto simp: fresh_sources_def evidence_eval sort_unique_def fresh_def evaluate_def plain_query_def Let_def
      id_valid_def attempt_valid_def no_attempt_def limits)

lemma demo_readiness:
  "i \<in> {1, 2, 3} \<Longrightarrow> rd_fresh (readiness_of demo_store demo_policy demo_self 200 (sw i)) \<and>
     rd_health (readiness_of demo_store demo_policy demo_self 200 (sw i)) = Healthy"
  using demo_fresh_sources [of i]
  by (auto simp: readiness_of_def Let_def scan_source_def evidence_eval demo_policy_def default_policy_def)

lemma demo_serving:
  "i \<in> {1, 2, 3} \<Longrightarrow> is_fresh demo_view (sw i) \<and> health_of demo_view (sw i) = Healthy \<and> view_is_serving demo_view (sw i)"
  using demo_readiness [of i]
  by (auto simp: demo_view_def is_fresh_def health_of_def view_is_serving_def get_build_view contains_def demo_targets
      is_serving_def)

lemma demo_lookups:
  "pools_of demo_topology [sw 1] = [1]" "domains_of demo_topology [sw 1] = [power1]"
  "pool demo_topology 1 = Some demo_pool" "domain demo_topology power1 = Some demo_domain"
  "domain_members demo_topology power1 = [sw 1, sw 2, sw 3]"
  "contracts_touching demo_policy [sw 1] = [demo_contract]"
  by (simp_all add: pools_of_def domains_of_def pools_containing_def push_unique_def demo_topology_def
      demo_defs index_at_def om_find_def target_def pool_def domain_def domain_members_def
      contracts_touching_def demo_policy_def demo_contract_def default_policy_def)

lemma demo_members: "member_units demo_topology (sw i) = 1" if "i \<in> {1, 2, 3}"
  using that by (auto simp: member_units_def demo_targets demo_switch_def)

lemma demo_rules:
  "redundancy_for demo_policy 1 = \<lparr>rr_pool = 1, rr_min_viable = 1, rr_tolerated_losses = 1, rr_name = ''n+1''\<rparr>"
  "headroom_for demo_policy 1 = None"
  "domain_limits_for demo_policy power1 = [\<lparr>dl_domain = power1, dl_max_out = 1, dl_name = ''one-feed''\<rparr>]"
  by (simp_all add: redundancy_for_def headroom_for_def domain_limits_for_def demo_policy_def default_policy_def)

lemmas demo_healthy = demo_serving [of 1, simplified] demo_serving [of 2, simplified] demo_serving [of 3, simplified]

lemma demo_distinct: "sw 1 \<noteq> sw 2" "sw 1 \<noteq> sw 3" "sw 2 \<noteq> sw 1" "sw 3 \<noteq> sw 1"
  by (simp_all add: sw_def)

text \<open>Taking the first switch out, alone or when it is already out, is safe.\<close>

definition demo_plan :: "target_id list \<Rightarrow> impact_input" where
  "demo_plan b = \<lparr>in_topology = demo_topology, in_policy = demo_policy, in_readiness = demo_view,
     in_baseline_removed = b, in_planned_removed = [sw 1], in_require_full_evidence = True\<rparr>"

lemma demo_pool_satisfied:
  assumes "set b \<subseteq> {sw 1}"
  shows "pi_satisfied (impact_of_pool (demo_plan b) b [sw 1] demo_pool 1)"
proof -
  have out: "sw 2 \<notin> set b" "sw 3 \<notin> set b" using assms demo_distinct by auto
  have "ty_serving (tally_pool demo_topology demo_view b [sw 1] [sw 1, sw 2, sw 3]) = 2"
    unfolding tally_pool_def tally_serving using out demo_distinct demo_healthy
    by (simp add: demo_members)
  then show ?thesis
    by (simp add: impact_of_pool_def Let_def demo_plan_def demo_rules demo_pool_def required_serving_units_def)
qed

lemma demo_domain_satisfied:
  assumes "set b \<subseteq> {sw 1}"
  shows "di_satisfied (impact_of_domain (demo_plan b) b [sw 1] demo_domain power1)"
proof -
  have "filter (\<lambda>m. m \<in> set b \<or> m \<in> set [sw 1]) [sw 1, sw 2, sw 3] = [sw 1]"
    using assms demo_distinct by auto
  then show ?thesis
    by (simp add: impact_of_domain_def Let_def demo_plan_def demo_rules demo_lookups del: filter.simps)
qed

lemma demo_contract_satisfied:
  assumes "set b \<subseteq> {sw 1}"
  shows "co_satisfied (impact_of_contract (demo_plan b) b [sw 1] demo_contract)"
proof -
  have "filter (\<lambda>m. (is_fresh demo_view m \<and> is_serving (health_of demo_view m)) \<and> m \<notin> set b \<and> m \<notin> set [sw 1])
      [sw 1, sw 2, sw 3] = [sw 2, sw 3]"
    using assms demo_distinct demo_healthy by (auto simp: is_serving_def)
  then show ?thesis
    by (simp add: impact_of_contract_def Let_def demo_plan_def demo_contract_def del: filter.simps)
qed

lemma demo_impact:
  assumes "b = [] \<or> b = [sw 1]"
  shows "im_satisfied (plan_impact demo_topology demo_policy demo_view b [sw 1])"
proof -
  have su: "sort_unique b = b" "sort_unique [sw 1] = [sw 1]" using assms by (auto simp: sort_unique_def)
  have all: "sort (fold (\<lambda>t out. push_unique out t) [sw 1] b) = [sw 1]"
    using assms by (auto simp: push_unique_def)
  have "set b \<subseteq> {sw 1}" using assms by auto
  note parts = demo_pool_satisfied [OF this] demo_domain_satisfied [OF this] demo_contract_satisfied [OF this]
  have plan: "plan_impact demo_topology demo_policy demo_view b [sw 1] = compute_impact (demo_plan b)"
    by (simp add: plan_impact_def demo_plan_def)
  have fields: "in_topology (demo_plan b) = demo_topology" "in_policy (demo_plan b) = demo_policy"
    "in_baseline_removed (demo_plan b) = b" "in_planned_removed (demo_plan b) = [sw 1]" by (simp_all add: demo_plan_def)
  have "ti_exists (impact_of_target demo_topology (in_readiness (demo_plan b)) b [sw 1] (sw 1))"
    "ti_maintainable (impact_of_target demo_topology (in_readiness (demo_plan b)) b [sw 1] (sw 1))"
    by (simp_all add: impact_of_target_def Let_def demo_targets demo_switch_def)
  with parts show ?thesis
    unfolding plan compute_impact_def Let_def fields su all demo_lookups
    by (simp add: List.map_filter_def demo_lookups)
qed

section \<open>A grant and a start\<close>

definition demo_reservation :: reservation where
  "demo_reservation = granted_reservation (planned_reservation (acquire_for demo_arbitration (demo_job 1 1))) 1"

definition demo_ledger :: ledger where
  "demo_ledger = (new_ledger 0)\<lparr>lg_next_id := 2, lg_reservations := [(1, demo_reservation)], lg_granted := 1\<rparr>"

lemma demo_acquire_fields:
  "ac_removal_set (acquire_for demo_arbitration (demo_job 1 1)) = [sw 1]"
  "ac_now (acquire_for demo_arbitration (demo_job 1 1)) = 200"
  "ac_job (acquire_for demo_arbitration (demo_job 1 1)) = 1"
  "ac_generation (acquire_for demo_arbitration (demo_job 1 1)) = 1"
  "ac_attempt (acquire_for demo_arbitration (demo_job 1 1)) = demo_attempt 1"
  "ac_current (acquire_for demo_arbitration (demo_job 1 1)) = demo_self"
  "ac_topology (acquire_for demo_arbitration (demo_job 1 1)) = demo_topology"
  "ac_policy (acquire_for demo_arbitration (demo_job 1 1)) = demo_policy"
  "ac_readiness (acquire_for demo_arbitration (demo_job 1 1)) = demo_view"
  by (simp_all add: acquire_for_def demo_arbitration_def demo_job_def new_job_def)

lemma demo_valid_ids: "attempt_valid (demo_attempt 1)" "incarnation_valid demo_self"
  by (simp_all add: attempt_valid_def demo_attempt_def incarnation_valid_def demo_self_def id_valid_def)

lemma demo_guard: "reserve_guard (planned_reservation (acquire_for demo_arbitration (demo_job 1 1))) (new_ledger 0)"
  using planned_lease [of "acquire_for demo_arbitration (demo_job 1 1)"]
  by (simp add: reserve_guard_def demo_acquire_fields demo_valid_ids id_valid_def find_for_job_def new_ledger_def limits)

lemma demo_grantable: "grantable (acquire_for demo_arbitration (demo_job 1 1)) (new_ledger 0)"
  using demo_guard demo_impact [of "[]"] demo_healthy
  by (simp add: grantable_def demo_acquire_fields demo_valid_ids id_valid_def new_ledger_def
      reserved_targets_def live_def)

lemma demo_grant:
  "acquire_authority (acquire_for demo_arbitration (demo_job 1 1)) (new_ledger 0) =
     (Inr 1, demo_ledger, snd (snd (acquire_authority (acquire_for demo_arbitration (demo_job 1 1)) (new_ledger 0))))"
proof -
  have "snd (reserve (planned_reservation (acquire_for demo_arbitration (demo_job 1 1))) (new_ledger 0)) = demo_ledger"
    using demo_guard
    by (simp add: reserve_exact demo_ledger_def demo_reservation_def new_ledger_def next_id_def om_emplace_def)
  then show ?thesis
    using acquire_granted [OF demo_grantable]
    by (cases "acquire_authority (acquire_for demo_arbitration (demo_job 1 1)) (new_ledger 0)")
      (simp add: new_ledger_def)
qed

lemma demo_ledger_wf: "ledger_wf demo_ledger"
  using reserve_wf [OF new_ledger_wf, of 0 "planned_reservation (acquire_for demo_arbitration (demo_job 1 1))"] demo_guard
  by (simp add: reserve_exact demo_ledger_def demo_reservation_def new_ledger_def next_id_def om_emplace_def)

definition demo_ready :: job where
  "demo_ready = (demo_job 1 1)\<lparr>j_requires_drain := False, j_state := Ready, j_preconditions_at := 200\<rparr>"

definition demo_preconditions :: precondition_context where
  "demo_preconditions = \<lparr>px_job = demo_ready, px_topology = demo_topology, px_policy = demo_policy,
     px_evidence = Some demo_store, px_ledger = Some demo_ledger, px_jobs = Some demo_jobs,
     px_readiness = demo_view, px_current = demo_self, px_now = 200, px_check_authority = True,
     px_check_drain = True, px_impact_in = None\<rparr>"

lemma demo_ready_fields:
  "j_id demo_ready = 1" "j_generation demo_ready = 1" "j_removal_set demo_ready = [sw 1]" "j_targets demo_ready = [sw 1]"
  "j_depends_on demo_ready = []" "j_policy_revision demo_ready = 0" "j_active_attempt demo_ready = demo_attempt 1"
  "j_requires_drain demo_ready = False" "j_state demo_ready = Ready" "j_preconditions_at demo_ready = 200"
  by (simp_all add: demo_ready_def demo_job_def new_job_def)

lemma demo_reservation_fields:
  "ra_job demo_reservation = 1" "ra_generation demo_reservation = 1" "ra_attempt demo_reservation = demo_attempt 1"
  "ra_targets demo_reservation = [sw 1]" "live_at 200 demo_reservation"
  using planned_lease(1) [of "acquire_for demo_arbitration (demo_job 1 1)"]
  by (simp_all add: demo_reservation_def demo_acquire_fields sort_unique_def live_at_def)

lemma demo_baseline: "pre_baseline demo_preconditions = [sw 1]"
  by (simp add: pre_baseline_def demo_preconditions_def demo_ledger_def reserved_targets_def live_def
      demo_reservation_fields push_unique_def demo_jobs_def demo_ready_fields demo_job_def stage_removes_service_def)

lemma demo_shape: "validate_request_shape (request_of demo_ready) = ok_status"
  by (simp add: validate_request_shape_ok request_of_def demo_ready_def demo_job_def new_job_def limits
      sw_def target_valid_def id_valid_def)

lemma demo_window: "allows_start (evaluate_window (po_windows demo_policy) ts now (po_require_window demo_policy))"
  by (simp add: evaluate_window_def demo_policy_def default_policy_def allows_start_def)

lemma demo_context:
  "px_job demo_preconditions = demo_ready" "px_topology demo_preconditions = demo_topology"
  "px_policy demo_preconditions = demo_policy" "px_evidence demo_preconditions = Some demo_store"
  "px_ledger demo_preconditions = Some demo_ledger" "px_jobs demo_preconditions = Some demo_jobs"
  "px_readiness demo_preconditions = demo_view" "px_current demo_preconditions = demo_self"
  "px_now demo_preconditions = 200" "px_check_authority demo_preconditions"
  "px_check_drain demo_preconditions" "px_impact_in demo_preconditions = None"
  by (simp_all add: demo_preconditions_def)

lemma demo_pre_impact: "pre_impact demo_preconditions = compute_impact (demo_plan [sw 1])"
  unfolding pre_impact_def demo_baseline by (simp add: demo_context demo_ready_fields plan_impact_def demo_plan_def)

lemma demo_no_conflict: "set (j_removal_set (snd e)) \<inter> set (j_removal_set demo_ready) = {}"
  if "e \<in> set (jt_jobs demo_jobs)" "fst e \<noteq> j_id demo_ready"
  using that by (auto simp: demo_jobs_def demo_ready_fields) (simp add: demo_job_def sw_def)

lemma demo_all_satisfied: "ps_all_satisfied (evaluate_preconditions demo_preconditions)"
proof -
  have "im_satisfied (compute_impact (demo_plan [sw 1]))"
    using demo_impact [of "[sw 1]"] by (simp add: plan_impact_def demo_plan_def)
  then have parts: "\<forall>e \<in> set (im_pools (compute_impact (demo_plan [sw 1]))). pi_satisfied e"
    "\<forall>e \<in> set (im_domains (compute_impact (demo_plan [sw 1]))). di_satisfied e"
    "\<forall>e \<in> set (im_contracts (compute_impact (demo_plan [sw 1]))). co_satisfied e"
    by (simp_all add: compute_impact_def Let_def list_all_iff)
  then have head: "pc_status (check_headroom (compute_impact (demo_plan [sw 1]))) = Satisfied"
    by (intro headroom_implied) (simp add: met_iff)
  have known: "contains demo_topology (sw 1)" "tr_maintainable (demo_switch 1)"
    by (simp_all add: contains_def demo_targets demo_switch_def)
  have own: "find_for_job demo_ledger 1 1 = Some demo_reservation"
    by (simp add: find_for_job_def demo_ledger_def demo_reservation_fields)
  have lone: "ra_job (snd e) = 1" if "e \<in> set (lg_reservations demo_ledger)" for e
    using that by (simp add: demo_ledger_def demo_reservation_fields)
  have "pc_status (check_conflicts demo_preconditions) = Satisfied"
    unfolding conflicts_met demo_context using demo_no_conflict lone by (auto simp: demo_ready_fields)
  with parts head known own show ?thesis
    unfolding all_satisfied_iff precondition_results_def demo_pre_impact
    using demo_healthy demo_reservation_fields demo_shape demo_window [of "[sw 1]"]
    by (simp add: policy_bound_met request_shape_met targets_known_met maintainable_met dependencies_met
        evidence_met impact_checks_met window_met quorum_met authority_met drain_met demo_context
        demo_ready_fields demo_targets id_valid_def)
      (simp add: sw_def)
qed

end
