(* ===== verification/State_Properties.thy ===== *)
theory State_Properties
  imports Examples
begin

text \<open>
  Properties of the stateful components taken one at a time: the evidence store and the readiness
  view built from it, the topology, the reservation ledger, and identifier recovery.
\<close>

section \<open>Evidence and readiness\<close>

text \<open>
  C38. A target counts as serving only on proof: if the readiness view built from the evidence
  store says a target is serving, the target is declared, at least the policy's minimum number of
  sources (and at least one) have fresh health evidence about it, and every one of those fresh
  sources reports a serving health.
\<close>
theorem serving_needs_fresh_proof:
  assumes "view_is_serving (build_view topo ev po cur now) i"
  shows "contains topo i \<and> fresh_sources ev TargetHealth (subject_of i) cur now \<noteq> [] \<and>
    unat (po_min_evidence_sources po) \<le> fresh_source_count ev TargetHealth (subject_of i) cur now \<and>
    (\<forall>src \<in> set (fresh_sources ev TargetHealth (subject_of i) cur now). \<forall>r.
       find_evidence ev (EvidenceKey TargetHealth (subject_of i) src) = Some r \<longrightarrow>
       is_serving (ep_health (er_payload r)))"
  using serving_has_source [OF assms] serving_all_sources [OF assms] by blast

theorem serving_needs_fresh_proof_witness:
  "fresh_sources demo_store TargetHealth (subject_of (sw 1)) demo_self 200 \<noteq> []"
  using serving_needs_fresh_proof [of demo_topology demo_store demo_policy demo_self 200 "sw 1"] demo_healthy(1)
  by (simp add: demo_view_def)

text \<open>
  Freshness is exact: a query is answered fresh iff a record is stored under its key that is
  bound to the query's job and attempt (when both sides name one), is not dated further into the
  future than the allowed clock skew, was not observed by a fenced incarnation if it is volatile,
  and has not outlived its time to live.
\<close>
theorem freshness_exact:
  "fresh (evaluate s q) \<longleftrightarrow>
     (\<exists>r. find_evidence s (eq_key q) = Some r \<and> bound_to q r \<and>
          er_observed_at r \<le> eq_now q + kMaxClockSkewNanos \<and>
          (er_klass r = Volatile \<longrightarrow> \<not> is_fenced_by (er_observed_by r) (eq_current q)) \<and>
          eq_now q \<le> er_observed_at r + er_ttl r)"
  by (rule evaluate_fresh_iff)

theorem freshness_exact_witness:
  "fresh (evaluate demo_store (plain_query (EvidenceKey TargetHealth (subject_of (sw 1)) 1) demo_self 200))"
  unfolding freshness_exact
  by (simp add: evidence_eval plain_query_def bound_to_def id_valid_def attempt_valid_def no_attempt_def limits)

text \<open>
  A restart invalidates what the previous incarnation saw: volatile evidence observed under
  an older epoch, or by another controller, is never fresh for the current incarnation, whatever
  its age.
\<close>
theorem restart_fences_evidence:
  assumes "find_evidence s (eq_key q) = Some r" "er_klass r = Volatile"
    and "ci_epoch (er_observed_by r) < ci_epoch (eq_current q) \<or>
         ci_controller (er_observed_by r) \<noteq> ci_controller (eq_current q)"
  shows "\<not> fresh (evaluate s q)"
  using assms by (auto simp: evaluate_fresh_iff is_fenced_by_def incarnation_valid_def)

theorem restart_fences_evidence_witness:
  "\<not> fresh (evaluate demo_store (plain_query (EvidenceKey TargetHealth (subject_of (sw 1)) 1)
     (demo_self\<lparr>ci_epoch := 3\<rparr>) 200))"
  by (rule restart_fences_evidence [where r = "demo_evidence 1"])
    (simp_all add: evidence_eval plain_query_def demo_self_def)

text \<open>
  Evidence moves forward only: whatever is observed, a stored record is afterwards the same,
  or replaced by one with a greater revision that was not observed earlier, or gone because it had
  expired by the time of the new observation.
\<close>
theorem observation_monotone:
  assumes "evidence_wf s" "find_evidence s k = Some old"
  shows "case find_evidence (snd (observe r s)) k of
           Some new \<Rightarrow> er_revision old \<le> er_revision new \<and> er_observed_at old \<le> er_observed_at new \<and>
                      (new = old \<or> er_revision old < er_revision new)
         | None \<Rightarrow> expired_by (er_observed_at r) old"
  using assms by (rule observe_monotone)

theorem observation_monotone_witness:
  "case find_evidence (snd (observe (demo_evidence 2) (snd (observe (demo_evidence 1) (new_evidence_store 16)))))
      (er_key (demo_evidence 1)) of
     Some new \<Rightarrow> er_revision (demo_evidence 1) \<le> er_revision new
   | None \<Rightarrow> expired_by 100 (demo_evidence 1)"
proof -
  have "find_evidence (snd (observe (demo_evidence 1) (new_evidence_store 16))) (er_key (demo_evidence 1)) =
      Some (demo_evidence 1)"
    by (simp add: demo_observations find_evidence_def om_find_def)
  moreover have "er_observed_at (demo_evidence 2) = 100" by (simp add: demo_evidence_def)
  ultimately show ?thesis
    using observation_monotone [OF observe_keeps_wf [OF new_evidence_store_wf], of "demo_evidence 1" 16
        "er_key (demo_evidence 1)" "demo_evidence 1" "demo_evidence 2"]
    by (simp split: option.splits)
qed

text \<open>
  The evidence store stays bounded and well formed under every observation: it never holds
  more records than its capacity, every record is valid and filed under its own key, and an
  accepted observation is the one found afterwards.
\<close>
theorem observation_bounded:
  assumes "evidence_wf s"
  shows "evidence_wf (snd (observe r s)) \<and>
    (fst (observe r s) = ok_status \<longrightarrow> find_evidence (snd (observe r s)) (er_key r) = Some (seal_digest r))"
  using observe_keeps_wf [OF assms] observe_ok_stores by blast

theorem observation_bounded_witness:
  "evidence_wf (snd (observe (demo_evidence 1) (new_evidence_store 16)))"
  using observation_bounded [OF new_evidence_store_wf, of "demo_evidence 1" 16] by simp

section \<open>Topology\<close>

text \<open>
  C39. The removal set of a request is exactly the requested targets that are declared and
  everything contained in them, at any depth, in ascending order without repetition: the guarded
  worklist of \<open>subtree\<close> never stops early on a validated topology.
\<close>
theorem removal_set_exact:
  assumes "topo_wf t" "validate_topology t = ok_status"
  shows "set (removal_set t requested) = (\<Union>i \<in> {i \<in> set requested. contains t i}. descendants t i) \<and>
    sorted (removal_set t requested) \<and> distinct (removal_set t requested)"
proof -
  have "acyclic (containment t)" by (rule validate_topology_acyclic [OF assms(2,1)])
  then have "set (removal_set t requested) = (\<Union>i \<in> {i \<in> set requested. contains t i}. descendants t i)"
    by (auto simp: set_removal_set subtree_exact [OF assms(1)])
  then show ?thesis using removal_set_ascending [of t requested] by (simp add: ascending_def)
qed

theorem removal_set_exact_witness: "sw 1 \<in> set (removal_set demo_topology [sw 1])"
  using removal_set_exact [OF demo_topology_wf demo_topology_valid, of "[sw 1]"]
  by (simp add: contains_def demo_targets descendants_def)

text \<open>
  Declaring a domain, a target or a pool keeps the topology well formed: tables stay sorted,
  every record refers only to declared domains, parents and members, the three derived indexes
  agree with the records, and the resource bounds hold.
\<close>
theorem declarations_keep_topology:
  assumes "topo_wf t"
  shows "(add_domain d t = Inr t1 \<longrightarrow> topo_wf t1) \<and> (add_target r t = Inr t2 \<longrightarrow> topo_wf t2) \<and>
    (add_pool p t = Inr t3 \<longrightarrow> topo_wf t3)"
  using assms add_domain_wf add_target_wf add_pool_wf by blast

theorem declarations_keep_topology_witness: "topo_wf (demo_stage [])"
  using declarations_keep_topology [OF empty_topology_wf, of demo_domain "demo_stage []"] demo_steps(1) by simp

section \<open>The reservation ledger\<close>

text \<open>
  The ledger accepts a reservation exactly when its guard holds (valid identities, targets
  named, a lease that ends after it starts and within the maximum, room in the ledger, no
  reservation for the same job generation), files it under the next identifier, and leaves every
  stored reservation as it was; a refusal stores nothing.
\<close>
theorem reserve_effect:
  assumes "ledger_wf l"
  shows "(is_ok (fst (reserve r l)) \<longleftrightarrow> reserve_guard r l) \<and>
    (find_reservation (snd (reserve r l)) i =
      (if reserve_guard r l \<and> i = lg_next_id l then Some (granted_reservation r i) else find_reservation l i))"
  using reserve_granted_iff [of r l] find_after_reserve [OF assms, of r i] reserve_denied [of r l]
  by (cases "reserve_guard r l") (simp_all add: find_reservation_def)

theorem reserve_effect_witness:
  "is_ok (fst (reserve (planned_reservation (acquire_for demo_arbitration (demo_job 1 1))) (new_ledger 0)))"
  using reserve_effect [OF new_ledger_wf] demo_guard by blast

text \<open>
  Every operation keeps the ledger well formed: entries sit under their own identifier, below
  the next one to be issued, and one job generation holds at most one reservation.
\<close>
theorem ledger_operations_wf:
  assumes "ledger_wf l" "lg_next_id l \<noteq> - 1"
  shows "ledger_wf (snd (reserve r l)) \<and> (release i c l = Inr l1 \<longrightarrow> ledger_wf l1) \<and>
    (renew i a c e now l = Inr l2 \<longrightarrow> ledger_wf l2) \<and> ledger_wf (snd (expire now l)) \<and>
    ledger_wf (snd (fence_older_incarnations c l))"
  using assms reserve_wf release_wf renew_wf expire_wf fence_wf by blast

theorem ledger_operations_wf_witness: "ledger_wf (snd (expire 200 demo_ledger))"
proof -
  have "lg_next_id demo_ledger \<noteq> - 1" by (simp add: demo_ledger_def)
  then show ?thesis using ledger_operations_wf [OF demo_ledger_wf] by blast
qed

text \<open>
  Only the owning incarnation can give authority back: a release succeeds exactly when the
  reservation exists and the caller is its owner, and then removes that reservation only.
\<close>
theorem release_by_owner:
  assumes "ledger_wf l"
  shows "(is_ok (release i c l) \<longleftrightarrow> (\<exists>r. find_reservation l i = Some r \<and> ra_owner r = c)) \<and>
    (\<forall>l' j. release i c l = Inr l' \<longrightarrow> find_reservation l' j = (if j = i then None else find_reservation l j))"
  by (auto simp: is_ok_iff release_exact find_reservation_def om_find_erase)

theorem release_by_owner_witness: "is_ok (release 1 demo_self demo_ledger)"
proof -
  have "\<exists>r. find_reservation demo_ledger 1 = Some r \<and> ra_owner r = demo_self"
    by (simp add: demo_ledger_def find_reservation_def om_find_def demo_reservation_def demo_acquire_fields)
  then show ?thesis using release_by_owner [OF demo_ledger_wf, of 1 demo_self] by blast
qed

text \<open>
  A renewal never extends a lease beyond the maximum from now, and only the owner's current
  attempt may renew: when it succeeds the reservation keeps its targets and job, and expires
  strictly later than before and than now, by at most the maximum lease from now.
\<close>
theorem renewal_bounded:
  assumes "renew i a c extension now l = Inr l'"
  shows "\<exists>r q. find_reservation l i = Some r \<and> ra_owner r = c \<and> ra_attempt r = a \<and>
    find_reservation l' i = Some q \<and> ra_targets q = ra_targets r \<and> ra_job q = ra_job r \<and>
    ra_expires_at r < ra_expires_at q \<and> now < ra_expires_at q \<and>
    ra_expires_at q \<le> now + kMaxAuthorityLeaseNanos"
proof -
  obtain r where r: "find_reservation l i = Some r" "ra_owner r = c" "ra_attempt r = a" "0 < extension"
    "max (ra_expires_at r) now + extension \<le> now + kMaxAuthorityLeaseNanos"
    "l' = l\<lparr>lg_reservations := om_set i (renewed extension now r) (lg_reservations l)\<rparr>"
    using assms unfolding renew_exact by blast
  then have "find_reservation l' i = Some (renewed extension now r)"
    by (simp add: find_reservation_def om_find_set)
  with r show ?thesis by (intro exI [of _ r] exI [of _ "renewed extension now r"]) auto
qed

theorem renewal_bounded_witness:
  "\<exists>l'. renew 1 (demo_attempt 1) demo_self 1 200 demo_ledger = Inr l' \<and>
     (\<exists>q. find_reservation l' 1 = Some q \<and> 200 < ra_expires_at q \<and> ra_expires_at q \<le> 200 + kMaxAuthorityLeaseNanos)"
proof -
  have found: "find_reservation demo_ledger 1 = Some demo_reservation"
    by (simp add: demo_ledger_def find_reservation_def om_find_def)
  have "ra_owner demo_reservation = demo_self" "ra_expires_at demo_reservation < 200 + kMaxAuthorityLeaseNanos"
    by (simp_all add: demo_reservation_def demo_acquire_fields)
      (simp add: planned_reservation_def Let_def demo_acquire_fields acquire_for_def demo_arbitration_def
        demo_policy_def default_policy_def clamp_lease_def limits nanos_defs)
  with found obtain l' where "renew 1 (demo_attempt 1) demo_self 1 200 demo_ledger = Inr l'"
    unfolding renew_exact by (auto simp: demo_reservation_fields limits)
  with renewal_bounded [OF this] show ?thesis by blast
qed

text \<open>
  Expiry and fencing remove exactly what they should: after an expiry sweep precisely the
  live reservations remain, and after fencing precisely those not owned by a fenced incarnation;
  the fenced ones are all reported, in identifier order.
\<close>
theorem sweeps_exact:
  assumes "ledger_wf l"
  shows "(find_reservation (snd (expire now l)) i =
      (case find_reservation l i of Some r \<Rightarrow> if live_at now r then Some r else None | None \<Rightarrow> None)) \<and>
    (find_reservation (snd (fence_older_incarnations c l)) i =
      (case find_reservation l i of Some r \<Rightarrow> if is_fenced_by (ra_owner r) c then None else Some r | None \<Rightarrow> None)) \<and>
    (r \<in> set (fst (fence_older_incarnations c l)) \<longleftrightarrow>
       find_reservation l (ra_id r) = Some r \<and> is_fenced_by (ra_owner r) c) \<and>
    (sorted (map ra_id (fst (fence_older_incarnations c l))))"
  using expire_exact [OF assms] fence_exact [OF assms] by simp

theorem sweeps_exact_witness: "find_reservation (snd (expire 200 demo_ledger)) 1 = Some demo_reservation"
  using sweeps_exact [OF demo_ledger_wf, of 200 1] demo_reservation_fields(5)
  by (simp add: demo_ledger_def find_reservation_def om_find_def)

text \<open>
  Recovery never reissues an identifier: after adopting any sequence of recovered reservations
  (or quarantine records), the next identifier the table allocates belongs to none of the records
  it holds, provided no recovered record carries the last 64-bit value.
\<close>
theorem recovery_never_reissues:
  assumes "ledger_ids.adopt_all rs l = Inr l'" "\<forall>i \<in> ledger_ids l. i < lg_next_id l" "- 1 \<notin> ra_id ` set rs"
    and "quarantine_ids.adopt_all qs t = Inr t'" "\<forall>i \<in> quarantine_ids t. i < qt_next_id t" "- 1 \<notin> q_id ` set qs"
  shows "ra_id ` set rs \<subseteq> ledger_ids l' \<and> fst (take_authority_id l') \<notin> ledger_ids l' \<and>
    q_id ` set qs \<subseteq> quarantine_ids t' \<and> fst (allocate_quarantine_id t') \<notin> quarantine_ids t'"
  using ledger_ids.adopt_all_fresh [OF assms(2,1,3)] quarantine_ids.adopt_all_fresh [OF assms(5,4,6)] by blast

theorem recovery_never_reissues_witness:
  "\<exists>l'. adopt_reservation demo_reservation (new_ledger 0) = Inr l' \<and> fst (take_authority_id l') \<notin> ledger_ids l' \<and>
     fst (allocate_quarantine_id empty_quarantine) \<notin> quarantine_ids empty_quarantine"
proof -
  have "ra_id demo_reservation = 1" "ra_job demo_reservation = 1"
    by (simp add: demo_reservation_def, rule demo_reservation_fields)
  then have "is_ok (adopt_reservation demo_reservation (new_ledger 0))"
    by (simp add: adopt_reservation_def Let_def id_valid_def)
  then obtain l' where l': "adopt_reservation demo_reservation (new_ledger 0) = Inr l'" by (auto simp: is_ok_iff)
  then have "ledger_ids.adopt_all [demo_reservation] (new_ledger 0) = Inr l'" by simp
  moreover have "ra_id demo_reservation = 1" by (simp add: demo_reservation_def)
  ultimately show ?thesis
    using l' recovery_never_reissues [of "[demo_reservation]" "new_ledger 0" l' "[]" empty_quarantine empty_quarantine]
    by (auto simp: ledger_ids_def quarantine_ids_def new_ledger_def empty_quarantine_def)
qed

end
