(* ===== verification/Core_Properties.thy ===== *)
theory Core_Properties
  imports Examples
begin

text \<open>
  Properties of the components without shared state: the job lifecycle rules, the job and
  quarantine tables, windows, tier order, the tick plan, and the core library of checked
  arithmetic, identifiers in text form and checksums.
\<close>

section \<open>Jobs\<close>

text \<open>
  C40. No job completes without the full cycle: in every history the transition rules allow, a job
  that is complete was ready, then entered maintenance, then was restored, in this order; and no
  history enters maintenance more than once.
\<close>
theorem completion_needs_full_cycle:
  assumes "lifecycle_run h s r"
  shows "(s = Complete \<longrightarrow> subseq [Ready, InMaintenance, Restoring, Complete] h) \<and>
    count_list h InMaintenance \<le> 1 \<and> (s = JobCancelled \<longrightarrow> InMaintenance \<notin> set h)"
proof -
  have "count_list h InMaintenance = (if r then 1 else 0)" by (rule run_removals [OF assms])
  moreover have "s = JobCancelled \<longrightarrow> \<not> r" using run_states [OF assms] by auto
  ultimately show ?thesis using run_complete [OF assms] by (auto simp: count_list_0_iff)
qed

theorem completion_needs_full_cycle_witness:
  "\<exists>h. lifecycle_run h Complete True \<and> length h = 8 \<and> subseq [Ready, InMaintenance, Restoring, Complete] h \<and>
     count_list h InMaintenance \<le> 1"
proof -
  have "lifecycle_run [Proposed, Validated, Prerequisites, Ready, InMaintenance, Verifying, Restoring, Complete] Complete True"
    using propose [THEN advance, of Validated, THEN advance, of Prerequisites, THEN advance, of Ready,
        THEN advance, of InMaintenance, THEN advance, of Verifying, THEN advance, of Restoring, THEN advance, of Complete]
    by (simp add: check_transition_allowed_iff is_terminal_def)
  from this completion_needs_full_cycle [OF this] show ?thesis by (intro exI conjI) auto
qed

text \<open>
  The list of states a job may enter next agrees with the transition check, is in code
  order without repetition, and is empty exactly for the terminal states.
\<close>
theorem next_states_exact:
  "(set (allowed_next_states s r) = {t. tc_allowed (check_transition s t r)}) \<and>
    (sorted_wrt (<) (map job_state_code (allowed_next_states s r))) \<and>
    (allowed_next_states s r = [] \<longleftrightarrow> is_terminal s)"
  using allowed_next_states_iff allowed_next_states_ascending terminal_iff_stuck by blast

text \<open>
  Two writers that read the same revision of a job cannot both succeed: after one update is
  accepted, an update of the same job computed from the same revision is refused as stale.
\<close>
theorem lost_update_impossible:
  assumes "put_job a t = Inr t'" "j_id b = j_id a" "j_revision b = j_revision a"
  shows "\<exists>d. put_job b t' = Inl (make_error StaleRevision d)"
  using assms by (rule put_job_conflict)

theorem lost_update_impossible_witness:
  "\<exists>t' d. put_job ((demo_job 1 1)\<lparr>j_revision := 2\<rparr>) demo_jobs = Inr t' \<and>
     put_job ((demo_job 1 1)\<lparr>j_revision := 2, j_title := ''late''\<rparr>) t' = Inl (make_error StaleRevision d)"
proof -
  let ?a = "(demo_job 1 1)\<lparr>j_revision := 2\<rparr>"
  have "is_ok (put_job ?a demo_jobs)"
    unfolding is_ok_iff put_job_exact
    by (simp add: demo_jobs_def find_job_def om_find_def demo_job_def new_job_def next_id_def)
  then obtain t' where t': "put_job ?a demo_jobs = Inr t'" by (auto simp: is_ok_iff)
  from lost_update_impossible [OF t', of "?a\<lparr>j_title := ''late''\<rparr>"] t' show ?thesis by auto
qed

text \<open>
  A job's history is bounded and keeps the most recent entries: after a push it holds the last
  entries of the old history with the new one at the end, never more than the bound, and the count
  of dropped entries grows by exactly the number removed.
\<close>
theorem history_bounded:
  "(j_history (push_history e j) = drop (Suc (length (j_history j)) - kMaxJobHistoryEntries) (j_history j @ [e])) \<and>
    (length (j_history (push_history e j)) \<le> kMaxJobHistoryEntries) \<and>
    (last (j_history (push_history e j)) = e) \<and>
    (j_history_dropped (push_history e j) =
     j_history_dropped j + of_nat (Suc (length (j_history j)) - kMaxJobHistoryEntries))"
  by (intro conjI push_history_recent push_history_bounded push_history_dropped)

text \<open>
  The open quarantine reported for a target is the most recent one: the lookup returns a record
  exactly when some uncleared record names the target, and none of these is newer (later created,
  or created at the same time with a smaller identifier).
\<close>
theorem open_quarantine_newest:
  "newest_of {r \<in> set (om_values (qt_records t)). open_on tgt r} (find_open_for_target t tgt)"
  by (rule find_open_newest)

section \<open>Windows, tiers and the tick plan\<close>

text \<open>
  A start is admitted exactly when some window that applies to the targets is open with enough
  time left for its lead time, or, where no window applies, when policy does not require one.
\<close>
theorem window_admission_exact:
  "allows_start (evaluate_window windows targets now req) \<longleftrightarrow>
     (if applicable_windows windows targets = {} then \<not> req
      else \<exists>w \<in> applicable_windows windows targets.
        w_opens_at w \<le> now \<and> now < w_closes_at w \<and> w_min_lead_time w \<le> w_closes_at w - now)"
  unfolding allows_start_iff classify_open_iff by (auto simp: covers_instant_def)

text \<open>
  Tier ranks order the tiers by index and put unknown tiers last, so that arbitration serves
  every declared tier before any undeclared one.
\<close>
theorem tier_order:
  assumes "length (po_tiers po) \<le> kMaxPriorityTiers" "known_tier po s"
  shows "(known_tier po t \<and> s < t \<longrightarrow> tier_rank po s < tier_rank po t) \<and>
    (\<not> known_tier po t \<longrightarrow> tier_rank po s < tier_rank po t)"
  using tier_rank_order [OF assms] by blast

theorem tier_order_witness:
  "tier_rank (demo_policy\<lparr>po_tiers := [\<lparr>pt_index = 0, pt_name = ''gold''\<rparr>]\<rparr>) 0
     < tier_rank (demo_policy\<lparr>po_tiers := [\<lparr>pt_index = 0, pt_name = ''gold''\<rparr>]\<rparr>) 5"
  using tier_order [of "demo_policy\<lparr>po_tiers := [\<lparr>pt_index = 0, pt_name = ''gold''\<rparr>]\<rparr>" 0 5]
  by (simp add: known_tier_def limits)

text \<open>
  The tick plan misses no job and invents none: every list of the plan holds exactly the jobs
  of the table in the states it is for, the overrun list exactly the jobs in maintenance whose
  window has closed, and the expiring list exactly the jobs that hold resources.
\<close>
theorem tick_plan_exact:
  assumes "job_table_wf jobs"
  shows "(i \<in> set (sl_runnable (plan_tick jobs po now)) \<longleftrightarrow>
      (\<exists>j. find_job jobs i = Some j \<and> j_state j \<in> {Validated, Prerequisites, Ready, Blocked})) \<and>
    (i \<in> set (sl_in_maintenance (plan_tick jobs po now)) \<longleftrightarrow> (\<exists>j. find_job jobs i = Some j \<and> j_state j = InMaintenance)) \<and>
    (i \<in> set (sl_verifying (plan_tick jobs po now)) \<longleftrightarrow> (\<exists>j. find_job jobs i = Some j \<and> j_state j = Verifying)) \<and>
    (i \<in> set (sl_restoring (plan_tick jobs po now)) \<longleftrightarrow> (\<exists>j. find_job jobs i = Some j \<and> j_state j = Restoring)) \<and>
    (i \<in> set (sl_overrun (plan_tick jobs po now)) \<longleftrightarrow> (\<exists>j. find_job jobs i = Some j \<and> overran now j)) \<and>
    (i \<in> set (sl_expiring (plan_tick jobs po now)) \<longleftrightarrow> (\<exists>j. find_job jobs i = Some j \<and> may_expire j))"
  by (intro conjI plan_tick_lists [OF assms])

theorem tick_plan_exact_witness: "1 \<in> set (sl_runnable (plan_tick demo_jobs demo_policy 200))"
proof -
  have "job_table_wf demo_jobs"
    by (simp add: job_table_wf_def demo_jobs_def om_ok_def find_job_def om_find_def demo_job_def new_job_def
        id_valid_def limits)
  from tick_plan_exact [OF this, of 1 demo_policy 200] show ?thesis
    by (simp add: demo_jobs_def find_job_def om_find_def demo_job_def)
qed

section \<open>The core library\<close>

text \<open>
  Checked arithmetic is exact: addition, subtraction and multiplication of unsigned words and
  multiplication of signed ones return the mathematical result when it is representable and nothing
  otherwise.
\<close>
theorem checked_arithmetic_exact:
  fixes a b :: "'a::len word"
  shows "(checked_add a b = (if unat a + unat b < 2 ^ LENGTH('a) then Some (a + b) else None)) \<and>
    (checked_sub a b = (if unat b \<le> unat a then Some (a - b) else None)) \<and>
    (checked_mul a b = (if unat a * unat b < 2 ^ LENGTH('a) then Some (a * b) else None)) \<and>
    (checked_mul_signed w x y = (if smin w \<le> x * y \<and> x * y \<le> smax w then Some (x * y) else None))"
  by (intro conjI checked_add_exact checked_sub_exact checked_mul_exact checked_mul_signed_exact)

text \<open>
  Decimal parsing is exact and inverts printing: \<open>parse_u64\<close> accepts precisely the non-empty
  digit strings of at most twenty characters whose value fits 64 bits, returns that value, and
  reads back every printed number.
\<close>
theorem decimal_exact:
  "(parse_u64 s =
     (if s \<noteq> [] \<and> length s \<le> 20 \<and> list_all is_digit s \<and> dec_value 0 s < 2 ^ 64
      then Some (of_nat (dec_value 0 s)) else None)) \<and>
    (parse_u64 (dec_word v) = Some v)"
  by (intro conjI parse_u64_spec parse_u64_dec_word)

text \<open>
  The text forms of identities parse back: a target, a failure domain, a controller
  incarnation and an attempt are read back from their text exactly when they are valid.
\<close>
theorem identity_round_trips:
  "(parse_target_id (to_string_target t) = (if target_valid t then Some t else None)) \<and>
    (parse_domain_id (to_string_domain d) = (if domain_valid d then Some d else None)) \<and>
    (parse_controller_incarnation (to_string_incarnation i) = (if incarnation_valid i then Some i else None)) \<and>
    (parse_attempt_id (to_string_attempt a) = (if attempt_valid a then Some a else None))"
  by (intro conjI parse_to_string_target parse_to_string_domain parse_to_string_incarnation parse_attempt_to_string)

text \<open>
  The table-driven CRC-32C equals the bit-by-bit division by the Castagnoli polynomial, and
  both it and the FNV-1a digest detect every change of a single byte.
\<close>
theorem checksums_detect_byte_change:
  assumes "b \<noteq> c"
  shows "(crc32c bs = crc32c_bitwise bs) \<and>
    (crc32c (pre @ b # post) \<noteq> crc32c (pre @ c # post)) \<and>
    (mix h (pre @ b # post) \<noteq> mix h (pre @ c # post))"
  by (intro conjI crc32c_eq_bitwise crc32c_byte_change [OF assms] mix_single_byte [OF assms])

theorem checksums_detect_byte_change_witness: "crc32c ([1, 2] @ 3 # [4]) \<noteq> crc32c ([1, 2] @ 5 # [4])"
  using checksums_detect_byte_change [of 3 5 "[]" "[1, 2]" "[4]"] by simp

end
