(* ===== verification/Bytes.thy ===== *)
theory Bytes
  imports Hashing Results
begin

text \<open>
  Bounds-checked binary encoding (\<^verbatim>\<open>include/mf/core/bytes.hpp\<close>, \<^verbatim>\<open>src/core/bytes.cpp\<close>). A
  \<^verbatim>\<open>ByteWriter\<close> is its buffer and the overflow flag; the bytes each operation appends are
  definitions of their own. A \<^verbatim>\<open>ByteReader\<close> is the bytes from its offset on and the sticky
  \<^verbatim>\<open>ok_\<close> flag: once a read fails, every later read fails and yields zero.

  The locale \<open>codec\<close> states what a pair of a writer and a reader promises, namely that reading
  consumes exactly what was written and yields the value; lists of items then read back as well.
\<close>

section \<open>Writing\<close>

definition w_u8 :: "u8 \<Rightarrow> byte list" where
  "w_u8 v = [v]"

definition w_u16 :: "u16 \<Rightarrow> byte list" where
  "w_u16 v = w_u8 (ucast (drop_bit 8 v)) @ w_u8 (ucast v)"

definition w_u32 :: "u32 \<Rightarrow> byte list" where
  "w_u32 v = w_u16 (ucast (drop_bit 16 v)) @ w_u16 (ucast v)"

definition w_u64 :: "u64 \<Rightarrow> byte list" where
  "w_u64 v = w_u32 (ucast (drop_bit 32 v)) @ w_u32 (ucast v)"

definition w_i64 :: "nanos \<Rightarrow> byte list" where
  "w_i64 v = w_u64 (word_of_int v)"

definition w_bool :: "bool \<Rightarrow> byte list" where
  "w_bool b = w_u8 (if b then 1 else 0)"

text \<open>A string or blob over its bound is replaced by an empty one and the overflow flag is set.\<close>

definition str_fits :: "nat \<Rightarrow> string \<Rightarrow> bool" where
  "str_fits limit s \<longleftrightarrow> length s \<le> limit \<and> length s \<le> 65535"

definition w_str :: "nat \<Rightarrow> string \<Rightarrow> byte list" where
  "w_str limit s = (if str_fits limit s then w_u16 (of_nat (length s)) @ bytes_of s else w_u16 0)"

definition blob_fits :: "nat \<Rightarrow> byte list \<Rightarrow> bool" where
  "blob_fits limit d \<longleftrightarrow> length d \<le> limit \<and> length d \<le> 4294967295"

definition w_blob :: "nat \<Rightarrow> byte list \<Rightarrow> byte list" where
  "w_blob limit d = (if blob_fits limit d then w_u32 (of_nat (length d)) @ d else w_u32 0)"

record byte_writer =
  bw_buffer :: "byte list"
  bw_overflowed :: bool

definition new_writer :: byte_writer where
  "new_writer = \<lparr>bw_buffer = [], bw_overflowed = False\<rparr>"

definition bw_raw :: "byte list \<Rightarrow> byte_writer \<Rightarrow> byte_writer" where
  "bw_raw d w = w\<lparr>bw_buffer := bw_buffer w @ d\<rparr>"

definition bw_str :: "string \<Rightarrow> nat \<Rightarrow> byte_writer \<Rightarrow> byte_writer" where
  "bw_str s limit w = w\<lparr>bw_buffer := bw_buffer w @ w_str limit s,
     bw_overflowed := bw_overflowed w \<or> \<not> str_fits limit s\<rparr>"

definition bw_blob :: "byte list \<Rightarrow> nat \<Rightarrow> byte_writer \<Rightarrow> byte_writer" where
  "bw_blob d limit w = w\<lparr>bw_buffer := bw_buffer w @ w_blob limit d,
     bw_overflowed := bw_overflowed w \<or> \<not> blob_fits limit d\<rparr>"

definition patch_u32 :: "nat \<Rightarrow> u32 \<Rightarrow> byte_writer \<Rightarrow> byte_writer" where
  "patch_u32 offset v w =
     (if offset + 4 > length (bw_buffer w) then w\<lparr>bw_overflowed := True\<rparr>
      else w\<lparr>bw_buffer := take offset (bw_buffer w) @ u32_be v @ drop (offset + 4) (bw_buffer w)\<rparr>)"

section \<open>Reading\<close>

datatype reader = Reader (rd_rest: "byte list") (rd_ok: bool)

definition new_reader :: "byte list \<Rightarrow> reader" where
  "new_reader d = Reader d True"

definition at_end :: "reader \<Rightarrow> bool" where
  "at_end r \<longleftrightarrow> rd_ok r \<and> rd_rest r = []"

definition rd_remaining :: "reader \<Rightarrow> nat" where
  "rd_remaining r = (if rd_ok r then length (rd_rest r) else 0)"

definition rd_need :: "nat \<Rightarrow> reader \<Rightarrow> bool \<times> reader" where
  "rd_need n r =
     (if \<not> rd_ok r then (False, r)
      else if n > length (rd_rest r) then (False, Reader (rd_rest r) False)
      else (True, r))"

definition rd_u8 :: "reader \<Rightarrow> u8 \<times> reader" where
  "rd_u8 r = (case rd_need 1 r of
     (False, r) \<Rightarrow> (0, r)
   | (True, r) \<Rightarrow> (hd (rd_rest r), Reader (tl (rd_rest r)) True))"

definition rd_u16 :: "reader \<Rightarrow> u16 \<times> reader" where
  "rd_u16 r = (let (hi, r) = rd_u8 r; (lo, r) = rd_u8 r in (push_bit 8 (ucast hi) OR ucast lo, r))"

definition rd_u32 :: "reader \<Rightarrow> u32 \<times> reader" where
  "rd_u32 r = (let (hi, r) = rd_u16 r; (lo, r) = rd_u16 r in (push_bit 16 (ucast hi) OR ucast lo, r))"

definition rd_u64 :: "reader \<Rightarrow> u64 \<times> reader" where
  "rd_u64 r = (let (hi, r) = rd_u32 r; (lo, r) = rd_u32 r in (push_bit 32 (ucast hi) OR ucast lo, r))"

definition rd_i64 :: "reader \<Rightarrow> nanos \<times> reader" where
  "rd_i64 r = (let (v, r) = rd_u64 r in (sint v, r))"

definition rd_bool :: "reader \<Rightarrow> bool \<times> reader" where
  "rd_bool r = (let (v, r) = rd_u8 r in (v \<noteq> 0, r))"

definition rd_raw :: "nat \<Rightarrow> reader \<Rightarrow> byte list \<times> reader" where
  "rd_raw n r =
     (if n = 0 then ([], r)
      else case rd_need n r of
        (False, r) \<Rightarrow> (replicate n 0, r)
      | (True, r) \<Rightarrow> (take n (rd_rest r), Reader (drop n (rd_rest r)) True))"

definition string_of_bytes :: "byte list \<Rightarrow> string" where
  "string_of_bytes d = map (\<lambda>b. char_of (unat b)) d"

definition rd_str :: "nat \<Rightarrow> reader \<Rightarrow> string \<times> reader" where
  "rd_str limit r =
     (let (len, r) = rd_u16 r in
      if \<not> rd_ok r \<or> unat len > limit then ([], Reader (rd_rest r) False)
      else case rd_need (unat len) r of
        (False, r) \<Rightarrow> ([], r)
      | (True, r) \<Rightarrow> (string_of_bytes (take (unat len) (rd_rest r)), Reader (drop (unat len) (rd_rest r)) True))"

definition rd_blob :: "nat \<Rightarrow> reader \<Rightarrow> byte list \<times> reader" where
  "rd_blob limit r =
     (let (len, r) = rd_u32 r in
      if \<not> rd_ok r \<or> unat len > limit then ([], Reader (rd_rest r) False)
      else case rd_need (unat len) r of
        (False, r) \<Rightarrow> ([], r)
      | (True, r) \<Rightarrow> (take (unat len) (rd_rest r), Reader (drop (unat len) (rd_rest r)) True))"

section \<open>Codecs\<close>

text \<open>
  A decoder is a reader that may also refuse. \<open>read_items\<close> is the counted loop every list decoder
  runs: it stops at the first refusal.
\<close>

type_synonym 'a decoder = "reader \<Rightarrow> ('a \<times> reader) result"

definition plain :: "(reader \<Rightarrow> 'a \<times> reader) \<Rightarrow> 'a decoder" where
  "plain rd r = Inr (rd r)"

definition dbind :: "('a \<times> reader) result \<Rightarrow> ('a \<Rightarrow> reader \<Rightarrow> 'b result) \<Rightarrow> 'b result" where
  "dbind m f = (case m of Inl e \<Rightarrow> Inl e | Inr (x, r) \<Rightarrow> f x r)"

fun read_items :: "'a decoder \<Rightarrow> nat \<Rightarrow> 'a list decoder" where
  "read_items dec 0 r = Inr ([], r)"
| "read_items dec (Suc n) r = dbind (dec r) (\<lambda>x r. dbind (read_items dec n r) (\<lambda>xs r. Inr (x # xs, r)))"

definition w_items :: "('a \<Rightarrow> byte list) \<Rightarrow> 'a list \<Rightarrow> byte list" where
  "w_items w xs = concat (map w xs)"

named_theorems reads_back \<open>reading what was written\<close>

locale codec =
  fixes wr :: "'a \<Rightarrow> byte list" and dec :: "'a decoder" and fits :: "'a \<Rightarrow> bool"
  assumes read_back: "fits x \<Longrightarrow> dec (Reader (wr x @ rest) True) = Inr (x, Reader rest True)"
begin

lemma items_back:
  "list_all fits xs \<Longrightarrow> read_items dec (length xs) (Reader (w_items wr xs @ rest) True) = Inr (xs, Reader rest True)"
proof (induction xs)
  case (Cons x xs)
  have "dec (Reader (wr x @ w_items wr xs @ rest) True) = Inr (x, Reader (w_items wr xs @ rest) True)"
    using Cons.prems by (intro read_back) simp
  with Cons show ?case by (simp add: w_items_def dbind_def)
qed (simp add: w_items_def)

lemma written_injective:
  assumes "fits x" "fits y" "wr x = wr y"
  shows "x = y"
  using read_back [OF assms(1), of "[]"] read_back [OF assms(2), of "[]"] assms(3) by simp

end

lemma dbind_simps [simp]: "dbind (Inl e) f = Inl e" "dbind (Inr (x, r)) f = f x r"
  by (simp_all add: dbind_def)

section \<open>Reading what was written\<close>

lemma u8_back [reads_back]: "rd_u8 (Reader (w_u8 v @ rest) True) = (v, Reader rest True)"
  by (simp add: rd_u8_def rd_need_def w_u8_def)

lemma word_join:
  fixes v :: "'a::len word"
  assumes "LENGTH('b::len) = k" "LENGTH('a) = 2 * k"
  shows "push_bit k (ucast (ucast (drop_bit k v) :: 'b word) :: 'a word) OR ucast (ucast v :: 'b word) = v"
  using assms by (intro bit_word_eqI) (auto simp: bit_simps)

lemma u16_back [reads_back]: "rd_u16 (Reader (w_u16 v @ rest) True) = (v, Reader rest True)"
  using word_join [where 'a = 16 and 'b = 8 and k = 8 and v = v]
  by (simp add: rd_u16_def w_u16_def u8_back)

lemma u32_back [reads_back]: "rd_u32 (Reader (w_u32 v @ rest) True) = (v, Reader rest True)"
  using word_join [where 'a = 32 and 'b = 16 and k = 16 and v = v]
  by (simp add: rd_u32_def w_u32_def u16_back)

lemma u64_back [reads_back]: "rd_u64 (Reader (w_u64 v @ rest) True) = (v, Reader rest True)"
  using word_join [where 'a = 64 and 'b = 32 and k = 32 and v = v]
  by (simp add: rd_u64_def w_u64_def u32_back)

definition i64_fits :: "nanos \<Rightarrow> bool" where
  "i64_fits v \<longleftrightarrow> - (2 ^ 63) \<le> v \<and> v < 2 ^ 63"

lemma i64_back [reads_back]: "i64_fits v \<Longrightarrow> rd_i64 (Reader (w_i64 v @ rest) True) = (v, Reader rest True)"
  by (simp add: rd_i64_def w_i64_def u64_back i64_fits_def signed_of_int signed_take_bit_int_eq_self)

lemma bool_back [reads_back]: "rd_bool (Reader (w_bool b @ rest) True) = (b, Reader rest True)"
  by (simp add: rd_bool_def w_bool_def u8_back)

lemma unat_of_char: "unat (of_char c :: byte) = of_char c"
proof -
  have "unat (of_nat (of_char c) :: byte) = of_char c"
    using nat_of_char_less_256 [of c] by (simp add: unat_of_nat take_bit_nat_eq_self)
  then show ?thesis by (simp add: of_nat_of_char)
qed

lemma string_bytes [simp]: "string_of_bytes (bytes_of s) = s" "length (bytes_of s) = length s"
  by (simp_all add: string_of_bytes_def bytes_of_def comp_def unat_of_char)

lemma str_back [reads_back]: "str_fits limit s \<Longrightarrow> rd_str limit (Reader (w_str limit s @ rest) True) = (s, Reader rest True)"
  by (simp add: rd_str_def w_str_def u16_back rd_need_def str_fits_def unat_of_nat take_bit_nat_eq_self)

lemma blob_back [reads_back]: "blob_fits limit d \<Longrightarrow> rd_blob limit (Reader (w_blob limit d @ rest) True) = (d, Reader rest True)"
  by (simp add: rd_blob_def w_blob_def u32_back rd_need_def blob_fits_def unat_of_nat take_bit_nat_eq_self)

interpretation u64_codec: codec w_u64 "plain rd_u64" "\<lambda>_. True"
  by unfold_locales (simp add: plain_def u64_back)

interpretation u32_codec: codec w_u32 "plain rd_u32" "\<lambda>_. True"
  by unfold_locales (simp add: plain_def u32_back)

interpretation str_codec: codec "w_str limit" "plain (rd_str limit)" "str_fits limit" for limit
  by unfold_locales (simp add: plain_def str_back)

lemma w_lengths [simp]:
  "length (w_u8 a) = 1" "length (w_u16 b) = 2" "length (w_u32 c) = 4" "length (w_u64 d) = 8"
  "length (w_i64 e) = 8" "length (w_bool f) = 1"
  by (simp_all add: w_u8_def w_u16_def w_u32_def w_u64_def w_i64_def w_bool_def)

text \<open>A failed reader stays failed, and no read ever goes past the data.\<close>

lemma rd_sticky:
  "\<not> rd_ok r \<Longrightarrow> rd_u8 r = (0, r)" "\<not> rd_ok r \<Longrightarrow> rd_u16 r = (0, r)" "\<not> rd_ok r \<Longrightarrow> rd_u32 r = (0, r)"
  "\<not> rd_ok r \<Longrightarrow> rd_u64 r = (0, r)"
  by (simp_all add: rd_u8_def rd_need_def rd_u16_def rd_u32_def rd_u64_def)

end
