(* ===== verification/Record_Codecs.thy ===== *)
theory Record_Codecs
  imports Bytes Evidence Ledger Jobs
begin

text \<open>
  Record encodings (\<^verbatim>\<open>include/mf/store/records.hpp\<close>, \<^verbatim>\<open>src/store/records.cpp\<close>): identities and
  lists of them, and the evidence, reservation, lease, quarantine, boot, marker, erasure and
  transaction records. No encoder looks at the overflow flag of its writer, so an encoder is the
  bytes it writes. Each record type has a predicate saying which values fit its layout, and the
  lemmas show that such a value is read back unchanged.
\<close>

section \<open>Record types\<close>

datatype record_type =
    RtUnknown | RtTransaction | RtTopology | RtPolicy | RtJob | RtEvidence | RtReservation | RtLease
  | RtQuarantine | RtBoot | RtJobErased | RtReservationErased | RtLeaseErased | RtQuarantineErased | RtMarker

definition kRecordTypeNames :: "(record_type \<times> string) list" where
  "kRecordTypeNames =
     [(RtUnknown, ''unknown''), (RtTransaction, ''transaction''), (RtTopology, ''topology''),
      (RtPolicy, ''policy''), (RtJob, ''job''), (RtEvidence, ''evidence''), (RtReservation, ''reservation''),
      (RtLease, ''lease''), (RtQuarantine, ''quarantine''), (RtBoot, ''boot''), (RtJobErased, ''job-erased''),
      (RtReservationErased, ''reservation-erased''), (RtLeaseErased, ''lease-erased''),
      (RtQuarantineErased, ''quarantine-erased''), (RtMarker, ''marker'')]"

definition to_string_record_type :: "record_type \<Rightarrow> string" where
  "to_string_record_type t = name_of kRecordTypeNames t"

definition all_record_types :: "record_type list" where
  "all_record_types = map fst kRecordTypeNames"

definition record_type_code :: "record_type \<Rightarrow> u16" where
  "record_type_code t = of_nat (length (takeWhile (\<lambda>u. u \<noteq> t) all_record_types))"

definition is_known_record_type :: "u16 \<Rightarrow> bool" where
  "is_known_record_type v \<longleftrightarrow> v \<ge> record_type_code RtTransaction \<and> v \<le> record_type_code RtMarker"

text \<open>The cast of a known code to the enumeration.\<close>

definition record_type_of :: "u16 \<Rightarrow> record_type" where
  "record_type_of v = all_record_types ! unat v"

datatype jrecord = JRecord (jr_type: record_type) (jr_payload: "byte list")

definition kMaxJournalRecordBytes :: nat where
  [limits]: "kMaxJournalRecordBytes = 4 * 1024 * 1024"

definition kMaxRecordsPerTransaction :: nat where
  [limits]: "kMaxRecordsPerTransaction = 512"

definition kMaxDetailLength :: nat where
  [limits]: "kMaxDetailLength = 1024"

definition validate_record :: "jrecord \<Rightarrow> status" where
  "validate_record rec =
     (if jr_type rec = RtUnknown \<or> \<not> is_known_record_type (record_type_code (jr_type rec)) then
        Inl (make_error CorruptState ''record has an unrecognised type'')
      else if length (jr_payload rec) > kMaxJournalRecordBytes then
        Inl (make_error LimitExceeded ''record payload exceeds the journal bound'')
      else ok_status)"

section \<open>Enumerations\<close>

text \<open>Casting a code to an enumeration, after the decoder's range check.\<close>

definition enum_of :: "'a list \<Rightarrow> u32 \<Rightarrow> 'a option" where
  "enum_of values c = (if unat c < length values then Some (values ! unat c) else None)"

definition all_target_kinds :: "target_kind list" where
  "all_target_kinds = [TkUnknown, Link, Port, Switch, Rack, Pod, Site, ControlPlane]"

definition all_domain_kinds :: "domain_kind list" where
  "all_domain_kinds = [DkUnknown, DkSite, DkPod, DkRack, Power, Plane, Zone, Custom]"

definition all_evidence_kinds :: "evidence_kind list" where
  "all_evidence_kinds = [TargetHealth, PoolRedundancy, ContractAvailability, DrainLeaseState, RestorationCheck,
     MaintenanceCompletion, ControlPlaneQuorum]"

definition all_subject_kinds :: "subject_kind list" where
  "all_subject_kinds = [SkNone, SkTarget, SkDomain, SkPool, SkContract, SkGlobal]"

definition all_healths :: "health list" where
  "all_healths = [HealthUnknown, Healthy, Degraded, Down, Retired]"

definition all_evidence_classes :: "evidence_class list" where
  "all_evidence_classes = [Volatile, Durable]"

definition drain_state_code :: "drain_state \<Rightarrow> u32" where
  "drain_state_code s = of_nat (length (takeWhile (\<lambda>e. fst e \<noteq> s) kDrainNames))"

definition attempt_outcome_code :: "attempt_outcome \<Rightarrow> u32" where
  "attempt_outcome_code s = of_nat (length (takeWhile (\<lambda>e. fst e \<noteq> s) kOutcomeNames))"

section \<open>Identities and lists\<close>

definition w_target :: "target_id \<Rightarrow> byte list" where
  "w_target t = w_u32 (of_nat (target_kind_code (t_kind t))) @ w_u32 (t_index t)"

definition rd_target :: "reader \<Rightarrow> target_id \<times> reader" where
  "rd_target r =
     (let (kind, r) = rd_u32 r; (index, r) = rd_u32 r in
      (TargetId (case enum_of all_target_kinds kind of Some k \<Rightarrow> k | None \<Rightarrow> TkUnknown) index, r))"

definition w_domain :: "domain_id \<Rightarrow> byte list" where
  "w_domain d = w_u32 (of_nat (domain_kind_code (d_kind d))) @ w_u32 (d_index d)"

definition rd_domain :: "reader \<Rightarrow> domain_id \<times> reader" where
  "rd_domain r =
     (let (kind, r) = rd_u32 r; (index, r) = rd_u32 r in
      (DomainId (case enum_of all_domain_kinds kind of Some k \<Rightarrow> k | None \<Rightarrow> DkUnknown) index, r))"

definition w_counted :: "('a \<Rightarrow> byte list) \<Rightarrow> 'a list \<Rightarrow> byte list" where
  "w_counted w xs = w_u32 (of_nat (length xs)) @ w_items w xs"

definition w_target_list :: "target_id list \<Rightarrow> byte list" where
  "w_target_list ts = w_counted w_target ts"

text \<open>The counted loop: the count is checked before anything is read on its strength.\<close>

definition rd_counted :: "string \<Rightarrow> nat \<Rightarrow> 'a decoder \<Rightarrow> 'a list decoder" where
  "rd_counted what limit dec r =
     (let (count, r) = rd_u32 r in
      if \<not> rd_ok r \<or> unat count > limit then Inl (make_error CorruptState what)
      else read_items dec (unat count) r)"

definition rd_target_entry :: "target_id decoder" where
  "rd_target_entry r =
     (let (t, r) = rd_target r in
      if \<not> rd_ok r \<or> \<not> target_valid t then
        Inl (make_error CorruptState ''target list contains an invalid identity'')
      else Inr (t, r))"

definition rd_target_list :: "nat \<Rightarrow> target_id list decoder" where
  "rd_target_list limit = rd_counted ''target list exceeds the accepted bound'' limit rd_target_entry"

definition rd_domain_entry :: "domain_id decoder" where
  "rd_domain_entry r =
     (let (d, r) = rd_domain r in
      if \<not> rd_ok r \<or> \<not> domain_valid d then
        Inl (make_error CorruptState ''domain list contains an invalid identity'')
      else Inr (d, r))"

definition rd_domain_list :: "nat \<Rightarrow> domain_id list decoder" where
  "rd_domain_list limit = rd_counted ''domain list exceeds the accepted bound'' limit rd_domain_entry"

definition w_attempt :: "attempt_id \<Rightarrow> byte list" where
  "w_attempt a = w_u64 (at_job a) @ w_u64 (at_generation a) @ w_u64 (at_ordinal a)"

definition rd_attempt :: "reader \<Rightarrow> attempt_id \<times> reader" where
  "rd_attempt r =
     (let (j, r) = rd_u64 r; (g, r) = rd_u64 r; (n, r) = rd_u64 r in
      (\<lparr>at_job = j, at_generation = g, at_ordinal = n\<rparr>, r))"

definition w_incarnation :: "incarnation \<Rightarrow> byte list" where
  "w_incarnation i = w_u64 (ci_controller i) @ w_u64 (ci_epoch i) @ w_u64 (ci_nonce i)"

definition rd_incarnation :: "reader \<Rightarrow> incarnation \<times> reader" where
  "rd_incarnation r =
     (let (c, r) = rd_u64 r; (e, r) = rd_u64 r; (n, r) = rd_u64 r in
      (\<lparr>ci_controller = c, ci_epoch = e, ci_nonce = n\<rparr>, r))"

definition kLayout :: u16 where
  "kLayout = 1"

definition check_layout :: "string \<Rightarrow> reader \<Rightarrow> reader result" where
  "check_layout what r =
     (let (layout, r) = rd_u16 r in
      if \<not> rd_ok r then Inl (make_error CorruptState (what @ '' record is truncated''))
      else if layout \<noteq> kLayout then
        Inl (make_error VersionMismatch (what @ '' record layout '' @ dec_word layout @
          '' is not supported (expected '' @ dec_word kLayout @ '')''))
      else Inr r)"

text \<open>The frame of every layout-checked decoder: type, layout, body, then end and validity checks.\<close>

definition decode_with ::
    "record_type \<Rightarrow> string \<Rightarrow> string \<Rightarrow> (reader \<Rightarrow> ('a \<times> reader) result) \<Rightarrow> ('a \<Rightarrow> status) \<Rightarrow> string \<Rightarrow> jrecord \<Rightarrow> 'a result" where
  "decode_with ty article what body accept malformed rec =
     (if jr_type rec \<noteq> ty then Inl (invalid_argument (''record is not '' @ article @ '' '' @ what @ '' record''))
      else case check_layout what (new_reader (jr_payload rec)) of
        Inl e \<Rightarrow> Inl e
      | Inr r \<Rightarrow> dbind (body r) (\<lambda>x r.
          if \<not> rd_ok r \<or> \<not> at_end r then Inl (make_error CorruptState malformed)
          else case accept x of Inl e \<Rightarrow> Inl e | Inr _ \<Rightarrow> Inr x))"

definition accept_if :: "bool \<Rightarrow> string \<Rightarrow> status" where
  "accept_if ok detail = (if ok then ok_status else Inl (make_error CorruptState detail))"

section \<open>Erasure and marker records\<close>

definition encode_erased :: "record_type \<Rightarrow> u64 \<Rightarrow> jrecord" where
  "encode_erased ty i = JRecord ty (w_u64 i)"

definition decode_erased :: "record_type \<Rightarrow> string \<Rightarrow> jrecord \<Rightarrow> u64 result" where
  "decode_erased ty what rec =
     (if jr_type rec \<noteq> ty then Inl (invalid_argument (''record is not a '' @ what @ '' record''))
      else let (i, r) = rd_u64 (new_reader (jr_payload rec)) in
        if \<not> rd_ok r \<or> \<not> at_end r \<or> \<not> id_valid i then
          Inl (make_error CorruptState (what @ '' record is malformed''))
        else Inr i)"

definition encode_job_erased_record :: "job_id \<Rightarrow> jrecord" where
  "encode_job_erased_record i = encode_erased RtJobErased i"

definition decode_job_erased_record :: "jrecord \<Rightarrow> job_id result" where
  "decode_job_erased_record rec = decode_erased RtJobErased ''job-erased'' rec"

definition encode_reservation_erased_record :: "authority_id \<Rightarrow> jrecord" where
  "encode_reservation_erased_record i = encode_erased RtReservationErased i"

definition decode_reservation_erased_record :: "jrecord \<Rightarrow> authority_id result" where
  "decode_reservation_erased_record rec = decode_erased RtReservationErased ''reservation-erased'' rec"

definition encode_lease_erased_record :: "lease_id \<Rightarrow> jrecord" where
  "encode_lease_erased_record i = encode_erased RtLeaseErased i"

definition decode_lease_erased_record :: "jrecord \<Rightarrow> lease_id result" where
  "decode_lease_erased_record rec = decode_erased RtLeaseErased ''lease-erased'' rec"

definition encode_marker_record :: "u64 \<Rightarrow> jrecord" where
  "encode_marker_record v = JRecord RtMarker (w_u64 v)"

section \<open>Boot records\<close>

definition encode_boot_record :: "incarnation \<Rightarrow> boot_epoch \<Rightarrow> jrecord" where
  "encode_boot_record i prior = JRecord RtBoot (w_u16 kLayout @ w_incarnation i @ w_u64 prior)"

definition decode_boot_record :: "jrecord \<Rightarrow> (incarnation \<times> boot_epoch) result" where
  "decode_boot_record = decode_with RtBoot ''a'' ''boot''
     (\<lambda>r. let (i, r) = rd_incarnation r; (prior, r) = rd_u64 r in Inr ((i, prior), r))
     (\<lambda>x. accept_if (incarnation_valid (fst x)) ''boot record is not well formed'')
     ''boot record is malformed''"

section \<open>Evidence records\<close>

definition encode_evidence_record :: "evidence_record \<Rightarrow> jrecord" where
  "encode_evidence_record e =
     (let key = er_key e; subject = ek_subject key; payload = er_payload e in
      JRecord RtEvidence
        (w_u16 kLayout @ w_u64 (er_id e) @ w_u32 (of_nat (evidence_kind_code (ek_kind key))) @
         w_u32 (of_nat (subject_kind_code (sub_kind subject))) @ w_target (sub_target subject) @
         w_domain (sub_domain subject) @ w_u64 (sub_pool subject) @ w_u64 (sub_contract subject) @
         w_u64 (ek_source key) @ w_u64 (er_revision e) @ w_i64 (er_observed_at e) @ w_i64 (er_ttl e) @
         w_u32 (evidence_class_code (er_klass e)) @ w_u32 (health_code (ep_health payload)) @
         w_u32 (ep_available_units payload) @ w_u32 (ep_total_units payload) @ w_bool (ep_result payload) @
         w_u32 (ep_count payload) @ w_incarnation (er_observed_by e) @ w_u64 (er_job e) @
         w_attempt (er_attempt e) @ w_u64 (er_digest e)))"

definition rd_evidence_key :: "evidence_key decoder" where
  "rd_evidence_key r =
     (let (kind, r) = rd_u32 r; (subject_kind, r) = rd_u32 r in
      if kind = 0 then Inl (make_error CorruptState ''evidence record has an unknown key kind'')
      else case (enum_of all_evidence_kinds (kind - 1), enum_of all_subject_kinds subject_kind) of
        (Some k, Some sk) \<Rightarrow>
          let (target, r) = rd_target r; (domain, r) = rd_domain r; (pool, r) = rd_u64 r;
              (contract, r) = rd_u64 r; (source, r) = rd_u64 r in
          Inr (EvidenceKey k (EvidenceSubject sk target domain pool contract) source, r)
      | _ \<Rightarrow> Inl (make_error CorruptState ''evidence record has an unknown key kind''))"

definition rd_evidence_payload :: "reader \<Rightarrow> health \<Rightarrow> evidence_payload \<times> reader" where
  "rd_evidence_payload r health =
     (let (available, r) = rd_u32 r; (total, r) = rd_u32 r; (res, r) = rd_bool r; (count, r) = rd_u32 r in
      (\<lparr>ep_health = health, ep_available_units = available, ep_total_units = total, ep_result = res,
        ep_count = count\<rparr>, r))"

definition rd_evidence :: "evidence_record decoder" where
  "rd_evidence r =
     (let (i, r) = rd_u64 r in
      dbind (rd_evidence_key r) (\<lambda>key r.
        let (rev, r) = rd_u64 r; (observed_at, r) = rd_i64 r; (ttl, r) = rd_i64 r;
            (klass, r) = rd_u32 r; (health, r) = rd_u32 r in
        case (enum_of all_evidence_classes klass, enum_of all_healths health) of
          (Some k, Some h) \<Rightarrow>
            let (payload, r) = rd_evidence_payload r h; (observed_by, r) = rd_incarnation r;
                (j, r) = rd_u64 r; (attempt, r) = rd_attempt r; (digest, r) = rd_u64 r in
            Inr (\<lparr>er_id = i, er_key = key, er_revision = rev, er_observed_at = observed_at, er_ttl = ttl,
                  er_klass = k, er_payload = payload, er_observed_by = observed_by, er_job = j,
                  er_attempt = attempt, er_digest = digest\<rparr>, r)
        | _ \<Rightarrow> Inl (make_error CorruptState ''evidence record has an unknown enumeration'')))"

definition decode_evidence_record :: "jrecord \<Rightarrow> evidence_record result" where
  "decode_evidence_record = decode_with RtEvidence ''an'' ''evidence'' rd_evidence
     (\<lambda>e. accept_if (evidence_valid e) ''evidence record is not well formed'')
     ''evidence record is malformed''"

section \<open>Reservation records\<close>

definition encode_reservation_record :: "reservation \<Rightarrow> jrecord" where
  "encode_reservation_record a = JRecord RtReservation
     (w_u16 kLayout @ w_u64 (ra_id a) @ w_u64 (ra_job a) @ w_u64 (ra_generation a) @
      w_attempt (ra_attempt a) @ w_incarnation (ra_owner a) @ w_target_list (ra_targets a) @
      w_counted w_domain (ra_domains a) @ w_counted w_u64 (ra_pools a) @ w_u64 (ra_revision a) @
      w_i64 (ra_granted_at a) @ w_i64 (ra_expires_at a) @ w_u64 (ra_digest a))"

definition rd_reservation :: "reservation decoder" where
  "rd_reservation r =
     (let (i, r) = rd_u64 r; (j, r) = rd_u64 r; (g, r) = rd_u64 r; (attempt, r) = rd_attempt r;
          (owner, r) = rd_incarnation r in
      dbind (rd_target_list kMaxTargetsPerTopology r) (\<lambda>targets r.
      dbind (rd_counted ''reservation domain count exceeds the bound'' kMaxDomainsPerTopology (plain rd_domain) r) (\<lambda>domains r.
      dbind (rd_counted ''reservation pool count exceeds the bound'' kMaxPoolsPerTopology (plain rd_u64) r) (\<lambda>pools r.
        let (rev, r) = rd_u64 r; (granted_at, r) = rd_i64 r; (expires_at, r) = rd_i64 r; (digest, r) = rd_u64 r in
        Inr (\<lparr>ra_id = i, ra_job = j, ra_generation = g, ra_attempt = attempt, ra_owner = owner,
              ra_targets = targets, ra_domains = domains, ra_pools = pools, ra_revision = rev,
              ra_granted_at = granted_at, ra_expires_at = expires_at, ra_digest = digest\<rparr>, r)))))"

definition reservation_acceptable :: "reservation \<Rightarrow> bool" where
  "reservation_acceptable a \<longleftrightarrow> id_valid (ra_id a) \<and> id_valid (ra_job a) \<and> attempt_valid (ra_attempt a) \<and>
     incarnation_valid (ra_owner a)"

definition decode_reservation_record :: "jrecord \<Rightarrow> reservation result" where
  "decode_reservation_record = decode_with RtReservation ''a'' ''reservation'' rd_reservation
     (\<lambda>a. accept_if (reservation_acceptable a) ''reservation record is not well formed'')
     ''reservation record is malformed''"

section \<open>Lease records\<close>

definition encode_lease_record :: "drain_lease \<Rightarrow> jrecord" where
  "encode_lease_record l = JRecord RtLease
     (w_u16 kLayout @ w_u64 (le_id l) @ w_target_list (le_targets l) @ w_i64 (le_granted_at l) @
      w_i64 (le_expires_at l) @ w_u32 (drain_state_code (le_state l)) @ w_attempt (le_attempt l) @
      w_incarnation (le_owner l) @ w_u64 (le_epoch l))"

definition rd_lease :: "drain_lease decoder" where
  "rd_lease r =
     (let (i, r) = rd_u64 r in
      dbind (rd_target_list kMaxDrainTargetsPerRequest r) (\<lambda>targets r.
        let (granted_at, r) = rd_i64 r; (expires_at, r) = rd_i64 r; (state, r) = rd_u32 r in
        case enum_of (map fst kDrainNames) state of
          None \<Rightarrow> Inl (make_error CorruptState ''lease record carries an unknown drain state'')
        | Some st \<Rightarrow>
            let (attempt, r) = rd_attempt r; (owner, r) = rd_incarnation r; (epoch, r) = rd_u64 r in
            Inr (\<lparr>le_id = i, le_targets = targets, le_granted_at = granted_at, le_expires_at = expires_at,
                  le_state = st, le_attempt = attempt, le_owner = owner, le_epoch = epoch\<rparr>, r)))"

definition decode_lease_record :: "jrecord \<Rightarrow> drain_lease result" where
  "decode_lease_record = decode_with RtLease ''a'' ''lease'' rd_lease
     (\<lambda>l. accept_if (id_valid (le_id l)) ''lease record is not well formed'')
     ''lease record is malformed''"

section \<open>Quarantine records\<close>

definition encode_quarantine_record :: "quarantine_record \<Rightarrow> jrecord" where
  "encode_quarantine_record q = JRecord RtQuarantine
     (w_u16 kLayout @ w_u64 (q_id q) @ w_target (q_target q) @ w_u64 (q_job q) @ w_u64 (q_generation q) @
      w_u32 (block_reason_code (q_reason q)) @ w_str kMaxDetailLength (q_detail q) @ w_i64 (q_created_at q) @
      w_incarnation (q_created_by q) @ w_bool (q_cleared q) @ w_i64 (q_cleared_at q) @
      w_str kMaxNameLength (q_cleared_by q) @ w_u64 (q_digest q))"

definition rd_quarantine :: "quarantine_record decoder" where
  "rd_quarantine r =
     (let (i, r) = rd_u64 r; (target, r) = rd_target r; (j, r) = rd_u64 r; (g, r) = rd_u64 r;
          (reason, r) = rd_u32 r in
      case enum_of (map fst kBlockNames) reason of
        None \<Rightarrow> Inl (make_error CorruptState ''quarantine record carries an unknown reason'')
      | Some why \<Rightarrow>
          let (detail, r) = rd_str kMaxDetailLength r; (created_at, r) = rd_i64 r;
              (created_by, r) = rd_incarnation r; (cleared, r) = rd_bool r; (cleared_at, r) = rd_i64 r;
              (cleared_by, r) = rd_str kMaxNameLength r; (digest, r) = rd_u64 r in
          Inr (\<lparr>q_id = i, q_target = target, q_job = j, q_generation = g, q_reason = why, q_detail = detail,
                q_created_at = created_at, q_created_by = created_by, q_cleared = cleared,
                q_cleared_at = cleared_at, q_cleared_by = cleared_by, q_digest = digest\<rparr>, r))"

definition decode_quarantine_record :: "jrecord \<Rightarrow> quarantine_record result" where
  "decode_quarantine_record = decode_with RtQuarantine ''a'' ''quarantine'' rd_quarantine
     (\<lambda>q. accept_if (id_valid (q_id q) \<and> target_valid (q_target q)) ''quarantine record is not well formed'')
     ''quarantine record is malformed''"

section \<open>Transaction records\<close>

definition w_inner :: "jrecord \<Rightarrow> byte list" where
  "w_inner rec = w_u32 (ucast (record_type_code (jr_type rec))) @ w_blob kMaxJournalRecordBytes (jr_payload rec)"

definition encode_transaction_record :: "jrecord list \<Rightarrow> jrecord" where
  "encode_transaction_record recs = JRecord RtTransaction (w_u16 kLayout @ w_counted w_inner recs)"

text \<open>The type is read as 32 bits, and looked up after being cut to 16.\<close>

definition rd_inner :: "jrecord decoder" where
  "rd_inner r =
     (let (ty, r) = rd_u32 r in
      if \<not> is_known_record_type (ucast ty) \<or> ty = ucast (record_type_code RtTransaction) then
        Inl (make_error CorruptState ''transaction contains an unusable record type'')
      else let (payload, r) = rd_blob kMaxJournalRecordBytes r in
        if \<not> rd_ok r then Inl (make_error CorruptState ''transaction record is malformed'')
        else Inr (JRecord (record_type_of (ucast ty)) payload, r))"

definition decode_transaction_record :: "jrecord \<Rightarrow> jrecord list result" where
  "decode_transaction_record rec =
     (if jr_type rec \<noteq> RtTransaction then Inl (invalid_argument ''record is not a transaction record'')
      else case check_layout ''transaction'' (new_reader (jr_payload rec)) of
        Inl e \<Rightarrow> Inl e
      | Inr r \<Rightarrow>
          let (count, r) = rd_u32 r in
          if \<not> rd_ok r \<or> count = 0 \<or> unat count > kMaxRecordsPerTransaction then
            Inl (make_error CorruptState ''transaction record count is out of range'')
          else dbind (read_items rd_inner (unat count) r) (\<lambda>recs r.
            if \<not> at_end r then Inl (make_error CorruptState ''transaction record has trailing bytes'')
            else Inr recs))"

section \<open>Reading back\<close>

lemma enum_position:
  assumes "x \<in> set values" "length values < 2 ^ 32"
  shows "enum_of values (of_nat (length (takeWhile (\<lambda>u. u \<noteq> x) values))) = Some x"
proof -
  let ?n = "length (takeWhile (\<lambda>u. u \<noteq> x) values)"
  have "\<exists>u \<in> set values. u = x" using assms(1) by blast
  then have less: "?n < length values" using assms(1) by (metis (full_types) length_takeWhile_le nat_less_le takeWhile_eq_all_conv takeWhile_eq_take take_all)
  moreover have "values ! ?n = x" using nth_length_takeWhile [OF less] by simp
  moreover have "unat (of_nat ?n :: u32) = ?n"
    using less assms(2) by (simp add: unat_of_nat take_bit_nat_eq_self)
  ultimately show ?thesis by (simp add: enum_of_def)
qed

lemma name_position:
  assumes "x \<in> fst ` set names" "length names < 2 ^ 32"
  shows "enum_of (map fst names) (of_nat (length (takeWhile (\<lambda>e. fst e \<noteq> x) names))) = Some x"
proof -
  have "length (takeWhile (\<lambda>e. fst e \<noteq> x) names) = length (takeWhile (\<lambda>u. u \<noteq> x) (map fst names))"
    by (simp add: takeWhile_map comp_def)
  with assms enum_position [of x "map fst names"] show ?thesis by simp
qed

lemma target_kind_back: "enum_of all_target_kinds (of_nat (target_kind_code k)) = Some k"
  by (cases k) (simp_all add: enum_of_def all_target_kinds_def)

lemma domain_kind_back: "enum_of all_domain_kinds (of_nat (domain_kind_code k)) = Some k"
  by (cases k) (simp_all add: enum_of_def all_domain_kinds_def)

lemma evidence_kind_back: "enum_of all_evidence_kinds (of_nat (evidence_kind_code k) - 1) = Some k"
  by (cases k) (simp_all add: enum_of_def all_evidence_kinds_def)

lemma evidence_kind_nonzero: "of_nat (evidence_kind_code k) \<noteq> (0 :: u32)"
  by (cases k) simp_all

lemma subject_kind_back: "enum_of all_subject_kinds (of_nat (subject_kind_code k)) = Some k"
  by (cases k) (simp_all add: enum_of_def all_subject_kinds_def)

lemma health_back: "enum_of all_healths (health_code h) = Some h"
  by (cases h) (simp_all add: enum_of_def all_healths_def)

lemma evidence_class_back: "enum_of all_evidence_classes (evidence_class_code c) = Some c"
  by (cases c) (simp_all add: enum_of_def all_evidence_classes_def)

lemma drain_state_back: "enum_of (map fst kDrainNames) (drain_state_code s) = Some s"
  unfolding drain_state_code_def by (rule name_position) (cases s; simp add: kDrainNames_def)+

lemma block_reason_back: "enum_of (map fst kBlockNames) (block_reason_code b) = Some b"
  unfolding block_reason_code_def by (rule name_position) (cases b; simp add: kBlockNames_def)+

lemmas enum_backs = target_kind_back domain_kind_back evidence_kind_back evidence_kind_nonzero subject_kind_back
  health_back evidence_class_back drain_state_back block_reason_back

lemma target_back [reads_back]: "rd_target (Reader (w_target t @ rest) True) = (t, Reader rest True)"
  by (simp add: rd_target_def w_target_def reads_back target_kind_back)

lemma domain_back [reads_back]: "rd_domain (Reader (w_domain d @ rest) True) = (d, Reader rest True)"
  by (simp add: rd_domain_def w_domain_def reads_back domain_kind_back)

lemma attempt_back [reads_back]: "rd_attempt (Reader (w_attempt a @ rest) True) = (a, Reader rest True)"
  by (simp add: rd_attempt_def w_attempt_def reads_back)

lemma incarnation_back [reads_back]: "rd_incarnation (Reader (w_incarnation i @ rest) True) = (i, Reader rest True)"
  by (simp add: rd_incarnation_def w_incarnation_def reads_back)

context codec
begin

lemma counted_back:
  assumes "list_all fits xs" "length xs \<le> limit" "length xs < 2 ^ 32"
  shows "rd_counted what limit dec (Reader (w_counted wr xs @ rest) True) = Inr (xs, Reader rest True)"
proof -
  have "unat (of_nat (length xs) :: u32) = length xs"
    using assms(3) by (simp add: unat_of_nat take_bit_nat_eq_self)
  with assms(1,2) show ?thesis by (simp add: rd_counted_def w_counted_def u32_back items_back)
qed

end

interpretation target_codec: codec w_target rd_target_entry target_valid
  by unfold_locales (simp add: rd_target_entry_def target_back)

interpretation domain_codec: codec w_domain "plain rd_domain" "\<lambda>_. True"
  by unfold_locales (simp add: plain_def domain_back)

interpretation domain_entry_codec: codec w_domain rd_domain_entry domain_valid
  by unfold_locales (simp add: rd_domain_entry_def domain_back)

lemma list_all_True [simp]: "list_all (\<lambda>_. True) xs"
  by (induction xs) simp_all

lemma target_list_back:
  assumes "list_all target_valid ts" "length ts \<le> limit" "limit < 2 ^ 32"
  shows "rd_target_list limit (Reader (w_target_list ts @ rest) True) = Inr (ts, Reader rest True)"
  unfolding rd_target_list_def w_target_list_def using assms by (intro target_codec.counted_back) simp_all

lemma layout_back: "check_layout what (Reader (w_u16 kLayout @ rest) True) = Inr (Reader rest True)"
  by (simp add: check_layout_def u16_back)

lemma decode_with_back:
  assumes "body (Reader bytes True) = Inr (x, Reader [] True)" "accept x = ok_status"
  shows "decode_with ty article what body accept malformed (JRecord ty (w_u16 kLayout @ bytes)) = Inr x"
  using assms by (simp add: decode_with_def new_reader_def layout_back at_end_def)

text \<open>
  What the store relies on: a record carries its type, and the value it was made from comes back.
\<close>

locale record_codec =
  fixes enc :: "'a \<Rightarrow> jrecord" and decode :: "jrecord \<Rightarrow> 'a result" and ty :: record_type and fits :: "'a \<Rightarrow> bool"
  assumes typed: "jr_type (enc x) = ty"
    and decode_enc: "fits x \<Longrightarrow> decode (enc x) = Inr x"
begin

lemma enc_injective: "fits x \<Longrightarrow> fits y \<Longrightarrow> enc x = enc y \<Longrightarrow> x = y"
  by (metis decode_enc sum.inject(2))

end

interpretation job_erased_rec: record_codec encode_job_erased_record decode_job_erased_record RtJobErased id_valid
  by unfold_locales (simp_all add: encode_job_erased_record_def decode_job_erased_record_def encode_erased_def
    decode_erased_def new_reader_def u64_back [where rest = "[]", simplified] at_end_def)

interpretation reservation_erased_rec: record_codec encode_reservation_erased_record
    decode_reservation_erased_record RtReservationErased id_valid
  by unfold_locales (simp_all add: encode_reservation_erased_record_def decode_reservation_erased_record_def
    encode_erased_def decode_erased_def new_reader_def u64_back [where rest = "[]", simplified] at_end_def)

interpretation lease_erased_rec: record_codec encode_lease_erased_record decode_lease_erased_record
    RtLeaseErased id_valid
  by unfold_locales (simp_all add: encode_lease_erased_record_def decode_lease_erased_record_def
    encode_erased_def decode_erased_def new_reader_def u64_back [where rest = "[]", simplified] at_end_def)

text \<open>The last field of a layout: nothing is left behind it.\<close>

lemmas u64_last = u64_back [where rest = "[]", simplified]

lemma accepts [simp]: "b \<Longrightarrow> accept_if b detail = ok_status"
  by (simp add: accept_if_def)

interpretation boot_rec: record_codec "\<lambda>x. encode_boot_record (fst x) (snd x)" decode_boot_record RtBoot
    "\<lambda>x. incarnation_valid (fst x)"
proof
  fix x :: "incarnation \<times> boot_epoch"
  assume ok: "incarnation_valid (fst x)"
  show "decode_boot_record (encode_boot_record (fst x) (snd x)) = Inr x"
    unfolding decode_boot_record_def encode_boot_record_def
    by (rule decode_with_back) (simp_all add: incarnation_back u64_last ok)
qed (simp add: encode_boot_record_def)

subsection \<open>Evidence\<close>

definition evidence_fits :: "evidence_record \<Rightarrow> bool" where
  "evidence_fits e \<longleftrightarrow> evidence_valid e \<and> i64_fits (er_observed_at e) \<and> i64_fits (er_ttl e)"

lemma evidence_key_back:
  "rd_evidence_key (Reader (w_u32 (of_nat (evidence_kind_code (ek_kind k))) @
     w_u32 (of_nat (subject_kind_code (sub_kind (ek_subject k)))) @ w_target (sub_target (ek_subject k)) @
     w_domain (sub_domain (ek_subject k)) @ w_u64 (sub_pool (ek_subject k)) @
     w_u64 (sub_contract (ek_subject k)) @ w_u64 (ek_source k) @ rest) True) = Inr (k, Reader rest True)"
  by (simp add: rd_evidence_key_def reads_back enum_backs)

lemma evidence_payload_back:
  "rd_evidence_payload (Reader (w_u32 (ep_available_units p) @ w_u32 (ep_total_units p) @ w_bool (ep_result p) @
     w_u32 (ep_count p) @ rest) True) (ep_health p) = (p, Reader rest True)"
  by (simp add: rd_evidence_payload_def reads_back)

interpretation evidence_rec: record_codec encode_evidence_record decode_evidence_record RtEvidence evidence_fits
proof
  fix e assume ok: "evidence_fits e"
  then have fits: "i64_fits (er_observed_at e)" "i64_fits (er_ttl e)" "evidence_valid e"
    by (simp_all add: evidence_fits_def)
  show "decode_evidence_record (encode_evidence_record e) = Inr e"
    unfolding decode_evidence_record_def encode_evidence_record_def Let_def
    by (rule decode_with_back)
      (simp_all add: rd_evidence_def u64_back evidence_key_back fits i64_back u32_back enum_backs
        evidence_payload_back incarnation_back attempt_back u64_last)
qed (simp add: encode_evidence_record_def Let_def)

subsection \<open>Reservations\<close>

definition reservation_fits :: "reservation \<Rightarrow> bool" where
  "reservation_fits a \<longleftrightarrow> reservation_acceptable a \<and> list_all target_valid (ra_targets a) \<and>
     length (ra_targets a) \<le> kMaxTargetsPerTopology \<and> length (ra_domains a) \<le> kMaxDomainsPerTopology \<and>
     length (ra_pools a) \<le> kMaxPoolsPerTopology \<and> i64_fits (ra_granted_at a) \<and> i64_fits (ra_expires_at a)"

interpretation reservation_rec: record_codec encode_reservation_record decode_reservation_record RtReservation
    reservation_fits
proof
  fix a assume ok: "reservation_fits a"
  then have fits: "i64_fits (ra_granted_at a)" "i64_fits (ra_expires_at a)" "reservation_acceptable a"
    by (simp_all add: reservation_fits_def)
  have lists:
    "rd_target_list kMaxTargetsPerTopology (Reader (w_target_list (ra_targets a) @ rest) True) = Inr (ra_targets a, Reader rest True)"
    "rd_counted what kMaxDomainsPerTopology (plain rd_domain) (Reader (w_counted w_domain (ra_domains a) @ rest) True) =
       Inr (ra_domains a, Reader rest True)"
    "rd_counted what kMaxPoolsPerTopology (plain rd_u64) (Reader (w_counted w_u64 (ra_pools a) @ rest) True) =
       Inr (ra_pools a, Reader rest True)" for what rest
    using ok by (intro target_list_back domain_codec.counted_back u64_codec.counted_back;
      simp add: reservation_fits_def limits)+
  show "decode_reservation_record (encode_reservation_record a) = Inr a"
    unfolding decode_reservation_record_def encode_reservation_record_def
    by (rule decode_with_back)
      (simp_all add: rd_reservation_def u64_back attempt_back incarnation_back lists i64_back fits u64_last)
qed (simp add: encode_reservation_record_def)

subsection \<open>Leases\<close>

definition lease_fits :: "drain_lease \<Rightarrow> bool" where
  "lease_fits l \<longleftrightarrow> id_valid (le_id l) \<and> list_all target_valid (le_targets l) \<and>
     length (le_targets l) \<le> kMaxDrainTargetsPerRequest \<and> i64_fits (le_granted_at l) \<and> i64_fits (le_expires_at l)"

interpretation lease_rec: record_codec encode_lease_record decode_lease_record RtLease lease_fits
proof
  fix l assume ok: "lease_fits l"
  then have fits: "i64_fits (le_granted_at l)" "i64_fits (le_expires_at l)" "id_valid (le_id l)"
    by (simp_all add: lease_fits_def)
  have targets: "rd_target_list kMaxDrainTargetsPerRequest (Reader (w_target_list (le_targets l) @ rest) True) =
      Inr (le_targets l, Reader rest True)" for rest
    using ok by (intro target_list_back) (simp_all add: lease_fits_def limits)
  show "decode_lease_record (encode_lease_record l) = Inr l"
    unfolding decode_lease_record_def encode_lease_record_def
    by (rule decode_with_back)
      (simp_all add: rd_lease_def u64_back targets i64_back u32_back drain_state_back attempt_back incarnation_back
        fits u64_last)
qed (simp add: encode_lease_record_def)

subsection \<open>Quarantines\<close>

definition quarantine_fits :: "quarantine_record \<Rightarrow> bool" where
  "quarantine_fits q \<longleftrightarrow> id_valid (q_id q) \<and> target_valid (q_target q) \<and> str_fits kMaxDetailLength (q_detail q) \<and>
     str_fits kMaxNameLength (q_cleared_by q) \<and> i64_fits (q_created_at q) \<and> i64_fits (q_cleared_at q)"

interpretation quarantine_rec: record_codec encode_quarantine_record decode_quarantine_record RtQuarantine quarantine_fits
proof
  fix q assume ok: "quarantine_fits q"
  then have fits: "i64_fits (q_created_at q)" "i64_fits (q_cleared_at q)" "str_fits kMaxDetailLength (q_detail q)"
      "str_fits kMaxNameLength (q_cleared_by q)" "id_valid (q_id q)" "target_valid (q_target q)"
    by (simp_all add: quarantine_fits_def)
  show "decode_quarantine_record (encode_quarantine_record q) = Inr q"
    unfolding decode_quarantine_record_def encode_quarantine_record_def
    by (rule decode_with_back)
      (simp_all add: rd_quarantine_def u64_back target_back i64_back u32_back str_back bool_back block_reason_back
        incarnation_back fits u64_last)
qed (simp add: encode_quarantine_record_def)

subsection \<open>Transactions\<close>

lemma record_type_codes: "unat (record_type_code t) < length all_record_types" "record_type_of (record_type_code t) = t"
  by (cases t; simp add: record_type_code_def record_type_of_def all_record_types_def kRecordTypeNames_def)+

lemma known_types: "is_known_record_type (record_type_code t) \<longleftrightarrow> t \<noteq> RtUnknown"
  by (cases t) (simp_all add: is_known_record_type_def record_type_code_def all_record_types_def kRecordTypeNames_def)

lemma transaction_code: "record_type_code t = record_type_code RtTransaction \<longleftrightarrow> t = RtTransaction"
  by (metis record_type_codes(2))

definition inner_fits :: "jrecord \<Rightarrow> bool" where
  "inner_fits rec \<longleftrightarrow> jr_type rec \<noteq> RtUnknown \<and> jr_type rec \<noteq> RtTransaction \<and>
     length (jr_payload rec) \<le> kMaxJournalRecordBytes"

lemma ucast_code: "ucast (ucast (c :: u16) :: u32) = c"
  by (intro bit_word_eqI) (auto simp: bit_simps)

lemma ucast_code_eq: "(ucast (c :: u16) :: u32) = ucast (d :: u16) \<longleftrightarrow> c = d"
  by (metis ucast_code)

interpretation inner_codec: codec w_inner rd_inner inner_fits
proof
  fix rec rest assume ok: "inner_fits rec"
  then have "blob_fits kMaxJournalRecordBytes (jr_payload rec)"
    by (simp add: inner_fits_def blob_fits_def limits)
  with ok show "rd_inner (Reader (w_inner rec @ rest) True) = Inr (rec, Reader rest True)"
    by (simp add: rd_inner_def w_inner_def u32_back blob_back ucast_code ucast_code_eq known_types transaction_code
      record_type_codes inner_fits_def)
qed

definition transaction_fits :: "jrecord list \<Rightarrow> bool" where
  "transaction_fits recs \<longleftrightarrow> recs \<noteq> [] \<and> length recs \<le> kMaxRecordsPerTransaction \<and> list_all inner_fits recs"

interpretation transaction_rec: record_codec encode_transaction_record decode_transaction_record RtTransaction
    transaction_fits
proof
  fix recs assume ok: "transaction_fits recs"
  then have len: "unat (of_nat (length recs) :: u32) = length recs" "(of_nat (length recs) :: u32) \<noteq> 0"
    by (auto simp: transaction_fits_def limits unat_of_nat take_bit_nat_eq_self word_of_nat_eq_0_iff dest: dvd_imp_le)
  have items: "read_items rd_inner (length recs) (Reader (w_items w_inner recs) True) = Inr (recs, Reader [] True)"
    using inner_codec.items_back [of recs "[]"] ok by (simp add: transaction_fits_def)
  show "decode_transaction_record (encode_transaction_record recs) = Inr recs"
    using ok by (simp add: decode_transaction_record_def encode_transaction_record_def new_reader_def layout_back
      w_counted_def u32_back len items at_end_def transaction_fits_def)
qed (simp add: encode_transaction_record_def)

end
