(* ===== verification/Journal.thy ===== *)
theory Journal
  imports Record_Codecs Checked
begin

text \<open>
  The write-ahead journal (\<^verbatim>\<open>include/mf/store/journal.hpp\<close>, \<^verbatim>\<open>src/store/journal.cpp\<close>). The file is
  the list of its bytes; the stream position is at its end whenever something is written. The
  outcome of every call into the C library is an argument: \<open>io_env\<close> says which calls succeed and,
  for a failed write, how many bytes still reached the file.

  A frame is a 24-byte header (type, two zero bytes, sequence, length, payload checksum, header
  checksum) and a payload. \<open>read_frame\<close> is one turn of the replay loop. The lemmas show that the
  frames written are read back, that a cut-off tail is never delivered, that one changed byte stops
  the replay exactly before the frame it is in, and what compaction does to the sequence numbers.
\<close>

section \<open>Layout\<close>

definition kMagic :: u32 where
  "kMagic = 0x4D464A31"

definition kJournalVersion :: u16 where
  "kJournalVersion = 1"

definition kFileHeaderBytes :: nat where
  [limits]: "kFileHeaderBytes = 12"

definition kFrameHeaderBytes :: nat where
  [limits]: "kFrameHeaderBytes = 24"

definition kMaxJournalRecords :: u64 where
  [limits]: "kMaxJournalRecords = 4000000"

definition kMaxJournalBytes :: u64 where
  [limits]: "kMaxJournalBytes = 512 * 1024 * 1024"

text \<open>Despite its name, \<^verbatim>\<open>read_u32_le\<close> reads the most significant byte first.\<close>

definition read_u32_le :: "byte list \<Rightarrow> u32" where
  "read_u32_le p =
     push_bit 24 (ucast (p ! 0)) OR push_bit 16 (ucast (p ! 1)) OR push_bit 8 (ucast (p ! 2)) OR ucast (p ! 3)"

definition read_u64_be :: "byte list \<Rightarrow> u64" where
  "read_u64_be p = foldl (\<lambda>v i. push_bit 8 v OR ucast (p ! i)) 0 [0..<8]"

definition write_u32_be :: "u32 \<Rightarrow> byte list" where
  "write_u32_be v = map (\<lambda>k. ucast (drop_bit k v)) [24, 16, 8, 0]"

definition write_u64_be :: "u64 \<Rightarrow> byte list" where
  "write_u64_be v = map (\<lambda>i. ucast (drop_bit (8 * (7 - i)) v)) [0..<8]"

definition read_u16_be :: "byte list \<Rightarrow> u16" where
  "read_u16_be p = push_bit 8 (ucast (p ! 0)) OR ucast (p ! 1)"

definition write_u16_be :: "u16 \<Rightarrow> byte list" where
  "write_u16_be v = [ucast (drop_bit 8 v), ucast v]"

definition file_header :: "byte list" where
  "file_header = write_u32_be kMagic @ write_u16_be kJournalVersion @ write_u32_be 0 @ [0, 0]"

definition frame_prefix :: "record_type \<Rightarrow> u64 \<Rightarrow> byte list \<Rightarrow> byte list" where
  "frame_prefix ty seq payload =
     write_u16_be (record_type_code ty) @ [0, 0] @ write_u64_be seq @
     write_u32_be (of_nat (length payload)) @ write_u32_be (crc32c payload)"

definition frame_header :: "record_type \<Rightarrow> u64 \<Rightarrow> byte list \<Rightarrow> byte list" where
  "frame_header ty seq payload =
     (let h = frame_prefix ty seq payload in h @ write_u32_be (crc32c h))"

definition validate_journal_header :: "u32 \<Rightarrow> u16 \<Rightarrow> status" where
  "validate_journal_header magic version =
     (if magic \<noteq> kMagic then
        Inl (make_error CorruptState ''journal magic does not match Maintenance Fabric'')
      else if version \<noteq> kJournalVersion then
        Inl (make_error VersionMismatch (''journal layout revision '' @ dec_word version @
          '' is not supported by this runtime (expected '' @ dec_word kJournalVersion @ '')''))
      else ok_status)"

section \<open>State and environment\<close>

text \<open>A write that fails leaves a prefix of its bytes in the file.\<close>

datatype write_outcome = WriteOk | WriteFailed nat

definition fwrite :: "write_outcome \<Rightarrow> byte list \<Rightarrow> byte list \<Rightarrow> bool \<times> byte list" where
  "fwrite w d contents = (case w of
     WriteOk \<Rightarrow> (True, contents @ d)
   | WriteFailed n \<Rightarrow> (False, contents @ take n d))"

record io_env =
  io_mkdir :: bool
  io_open :: bool
  io_seek :: bool
  io_seek_end :: bool
  io_read :: bool
  io_header :: write_outcome
  io_payload :: write_outcome
  io_flush :: bool
  io_sync :: bool
  io_truncate :: bool
  io_create :: bool
  io_frame_header :: "u64 \<Rightarrow> bool"
  io_frame_payload :: "u64 \<Rightarrow> bool"
  io_close :: bool
  io_rename :: bool

definition io_ok :: io_env where
  "io_ok = \<lparr>io_mkdir = True, io_open = True, io_seek = True, io_seek_end = True, io_read = True, io_header = WriteOk,
     io_payload = WriteOk, io_flush = True, io_sync = True, io_truncate = True, io_create = True,
     io_frame_header = (\<lambda>_. True), io_frame_payload = (\<lambda>_. True), io_close = True, io_rename = True\<rparr>"

record journal_options =
  jo_path :: string
  jo_create_if_missing :: bool
  jo_create_parent_directories :: bool
  jo_max_bytes :: u64
  jo_max_records :: u64

definition default_journal_options :: "string \<Rightarrow> bool \<Rightarrow> journal_options" where
  "default_journal_options path create =
     \<lparr>jo_path = path, jo_create_if_missing = create, jo_create_parent_directories = True,
      jo_max_bytes = kMaxJournalBytes, jo_max_records = kMaxJournalRecords\<rparr>"

record journal =
  jn_options :: journal_options
  jn_open :: bool
  jn_file :: "byte list"
  jn_bytes :: u64
  jn_records :: u64
  jn_next_seq :: u64
  jn_replayed :: bool

definition io_error :: "string \<Rightarrow> error" where
  "io_error detail = make_error IoError detail"

definition sync_file :: "io_env \<Rightarrow> status" where
  "sync_file io = (if \<not> io_flush io then Inl (io_error ''failed to flush the journal'')
     else if \<not> io_sync io then Inl (io_error ''failed to fsync the journal'') else ok_status)"

text \<open>
  Opening. \<open>contents\<close> is the file at the path, if there is one; the result carries the file after
  the call. Moving the journal into the result does not carry \<^verbatim>\<open>replayed_\<close>, which is false again.
\<close>

definition new_journal :: "journal_options \<Rightarrow> byte list \<Rightarrow> journal" where
  "new_journal opts contents =
     \<lparr>jn_options = opts, jn_open = True, jn_file = contents, jn_bytes = of_nat (length contents),
      jn_records = 0, jn_next_seq = 1, jn_replayed = False\<rparr>"

definition journal_open :: "io_env \<Rightarrow> journal_options \<Rightarrow> byte list option \<Rightarrow> journal result" where
  "journal_open io opts contents =
     (if jo_path opts = [] then Inl (invalid_argument ''journal path is empty'')
      else if jo_create_parent_directories opts \<and> \<not> io_mkdir io then
        Inl (io_error ''cannot create journal directory'')
      else if contents = None \<and> \<not> jo_create_if_missing opts then
        Inl (make_error NotFound (''journal file does not exist: '' @ jo_path opts))
      else if \<not> io_open io then Inl (io_error (''cannot open journal file: '' @ jo_path opts))
      else case contents of
        None \<Rightarrow>
          if io_header io \<noteq> WriteOk then Inl (io_error ''cannot write the journal header'')
          else (case sync_file io of Inl e \<Rightarrow> Inl e | Inr _ \<Rightarrow> Inr (new_journal opts file_header))
      | Some d \<Rightarrow>
          if length d < kFileHeaderBytes then Inl (make_error CorruptState ''journal is shorter than its header'')
          else if \<not> io_seek io then Inl (io_error ''cannot seek the journal'')
          else if \<not> io_read io then Inl (io_error ''cannot read the journal header'')
          else (case validate_journal_header (read_u32_le d) (read_u16_be (drop 4 d)) of
              Inl e \<Rightarrow> Inl e
            | Inr _ \<Rightarrow> Inr (new_journal opts d)))"

section \<open>Replay\<close>

text \<open>
  One turn of the loop on the bytes still unread: either the reason to stop, or the records to
  deliver and the size of the frame.
\<close>

definition read_frame :: "u64 \<Rightarrow> byte list \<Rightarrow> string + (jrecord list \<times> nat)" where
  "read_frame expected rest =
     (if length rest < kFrameHeaderBytes then Inl ''final frame header is truncated''
      else if crc32c (take 20 rest) \<noteq> read_u32_le (drop 20 rest) then Inl ''frame header checksum mismatch''
      else
        let ty = read_u16_be rest; seq = read_u64_be (drop 4 rest);
            len = read_u32_le (drop 12 rest); payload_crc = read_u32_le (drop 16 rest) in
        if \<not> is_known_record_type ty then Inl ''frame declares an unrecognised record type''
        else if unat len > kMaxJournalRecordBytes then Inl ''frame length exceeds the accepted bound''
        else if seq \<noteq> expected then Inl ''frame sequence is out of order''
        else if length (drop kFrameHeaderBytes rest) < unat len then Inl ''final frame payload is truncated''
        else
          let payload = take (unat len) (drop kFrameHeaderBytes rest) in
          if crc32c payload \<noteq> payload_crc then Inl ''frame payload checksum mismatch''
          else
            let rec = JRecord (record_type_of ty) payload in
            if jr_type rec = RtTransaction then
              (case decode_transaction_record rec of
                 Inl e \<Rightarrow> Inl ''transaction frame could not be decoded''
               | Inr recs \<Rightarrow> Inr (recs, kFrameHeaderBytes + unat len))
            else Inr ([rec], kFrameHeaderBytes + unat len))"

lemma read_frame_size: "read_frame expected rest = Inr (recs, n) \<Longrightarrow> 24 \<le> n \<and> n \<le> length rest"
  by (auto simp: read_frame_def Let_def kFrameHeaderBytes_def split: if_splits sum.splits)

record replay_run =
  rr_delivered :: "jrecord list"
  rr_frames :: nat
  rr_offset :: nat
  rr_detail :: string
  rr_expected :: u64

function replay_loop :: "u64 \<Rightarrow> nat \<Rightarrow> byte list \<Rightarrow> replay_run" where
  "replay_loop expected offset rest =
     (if rest = [] then
        \<lparr>rr_delivered = [], rr_frames = 0, rr_offset = offset, rr_detail = [], rr_expected = expected\<rparr>
      else case read_frame expected rest of
        Inl detail \<Rightarrow>
          \<lparr>rr_delivered = [], rr_frames = 0, rr_offset = offset, rr_detail = detail, rr_expected = expected\<rparr>
      | Inr (recs, n) \<Rightarrow>
          let run = replay_loop (expected + 1) (offset + n) (drop n rest) in
          run\<lparr>rr_delivered := recs @ rr_delivered run, rr_frames := Suc (rr_frames run)\<rparr>)"
  by pat_completeness auto
termination
proof (relation "measure (\<lambda>(_, _, rest). length rest)")
  fix expected offset and rest :: "byte list" and y recs n
  assume "rest \<noteq> []" "read_frame expected rest = Inr y" "(recs, n) = y"
  then have "24 \<le> n" "rest \<noteq> []" using read_frame_size [of expected rest recs n] by auto
  then show "((expected + 1, offset + n, drop n rest), expected, offset, rest) \<in> measure (\<lambda>(_, _, rest). length rest)"
    by (cases rest) auto
qed simp

declare replay_loop.simps [simp del]

record replay_stats =
  rs_frames :: nat
  rs_records :: nat
  rs_bytes :: nat
  rs_truncated_bytes :: nat
  rs_first_bad_offset :: nat
  rs_truncated :: bool
  rs_detail :: string

definition no_stats :: replay_stats where
  "no_stats = \<lparr>rs_frames = 0, rs_records = 0, rs_bytes = 0, rs_truncated_bytes = 0, rs_first_bad_offset = 0,
     rs_truncated = False, rs_detail = []\<rparr>"

text \<open>
  \<^verbatim>\<open>Journal::replay\<close>: the records handed to the visitor in order, the statistics, and the journal
  after the call, whose file is cut where the intact frames end.
\<close>

definition replay :: "io_env \<Rightarrow> journal \<Rightarrow> status \<times> jrecord list \<times> replay_stats \<times> journal" where
  "replay io j =
     (let size = length (jn_file j) in
      if \<not> jn_open j then (Inl (io_error ''journal is not open''), [], no_stats, j)
      else if size < kFileHeaderBytes then
        (Inl (make_error CorruptState ''journal is shorter than its header''), [], no_stats, j)
      else if \<not> io_seek io then (Inl (io_error ''cannot seek the journal''), [], no_stats, j)
      else
        let run = replay_loop 1 kFileHeaderBytes (drop kFileHeaderBytes (jn_file j));
            offset = rr_offset run;
            truncated = offset < size;
            stats = \<lparr>rs_frames = rr_frames run, rs_records = length (rr_delivered run), rs_bytes = offset,
              rs_truncated_bytes = size - offset, rs_first_bad_offset = offset, rs_truncated = truncated,
              rs_detail = (if truncated \<and> rr_detail run = [] then
                 ''journal ends with bytes that are not a complete frame'' else rr_detail run)\<rparr>;
            done = j\<lparr>jn_file := take offset (jn_file j), jn_next_seq := rr_expected run,
              jn_records := of_nat (rr_frames run), jn_bytes := of_nat offset\<rparr> in
        if truncated \<and> \<not> io_truncate io then
          (Inl (io_error ''failed to truncate the journal''), rr_delivered run, stats, j)
        else case (if truncated then sync_file io else ok_status) of
          Inl e \<Rightarrow> (Inl e, rr_delivered run, stats, j\<lparr>jn_file := take offset (jn_file j)\<rparr>)
        | Inr _ \<Rightarrow>
            if \<not> io_seek_end io then
              (Inl (io_error ''cannot seek the journal to its end''), rr_delivered run, stats, done)
            else (ok_status, rr_delivered run, stats, done\<lparr>jn_replayed := True\<rparr>))"

section \<open>Appending\<close>

definition write_frame :: "io_env \<Rightarrow> record_type \<Rightarrow> u64 \<Rightarrow> byte list \<Rightarrow> journal \<Rightarrow> status \<times> journal" where
  "write_frame io ty seq payload j =
     (if \<not> jn_open j then (Inl (io_error ''journal is not open''), j)
      else if length payload > kMaxJournalRecordBytes then
        (Inl (make_error LimitExceeded ''record payload exceeds the journal bound''), j)
      else case checked_add (of_nat kFrameHeaderBytes) (of_nat (length payload) :: u64) of
        None \<Rightarrow> (Inl (make_error Overflow ''journal frame size overflowed''), j)
      | Some frame_bytes \<Rightarrow>
          (case checked_add (jn_bytes j) frame_bytes of
             None \<Rightarrow> (Inl (make_error LimitExceeded
               ''journal would exceed its configured byte bound; compaction is required''), j)
           | Some projected \<Rightarrow>
               if projected > jo_max_bytes (jn_options j) then
                 (Inl (make_error LimitExceeded
                   ''journal would exceed its configured byte bound; compaction is required''), j)
               else if jn_records j \<ge> jo_max_records (jn_options j) then
                 (Inl (make_error LimitExceeded
                   ''journal would exceed its configured record bound; compaction is required''), j)
               else case fwrite (io_header io) (frame_header ty seq payload) (jn_file j) of
                 (False, file) \<Rightarrow> (Inl (io_error ''failed to append a journal frame header''), j\<lparr>jn_file := file\<rparr>)
               | (True, file) \<Rightarrow>
                   (case (if payload = [] then (True, file) else fwrite (io_payload io) payload file) of
                      (False, file) \<Rightarrow> (Inl (io_error ''failed to append a journal frame payload''), j\<lparr>jn_file := file\<rparr>)
                    | (True, file) \<Rightarrow> (ok_status, j\<lparr>jn_file := file, jn_bytes := projected,
                        jn_records := jn_records j + 1\<rparr>))))"

definition ensure_replayed :: "journal \<Rightarrow> status" where
  "ensure_replayed j = (if jn_replayed j then ok_status
     else Inl (make_error StateConflict ''journal must be replayed before it accepts appends''))"

definition append_frame :: "io_env \<Rightarrow> jrecord \<Rightarrow> journal \<Rightarrow> status \<times> journal" where
  "append_frame io rec j =
     (case write_frame io (jr_type rec) (jn_next_seq j) (jr_payload rec) j of
        (Inl e, j) \<Rightarrow> (Inl e, j)
      | (Inr _, j) \<Rightarrow> (ok_status, j\<lparr>jn_next_seq := next_id (jn_next_seq j)\<rparr>))"

definition append_record :: "io_env \<Rightarrow> jrecord \<Rightarrow> journal \<Rightarrow> status \<times> journal" where
  "append_record io rec j =
     (case validate_record rec of
        Inl e \<Rightarrow> (Inl e, j)
      | Inr _ \<Rightarrow>
          if jr_type rec = RtTransaction then
            (Inl (invalid_argument ''use append_transaction for transactional records''), j)
          else case ensure_replayed j of
            Inl e \<Rightarrow> (Inl e, j)
          | Inr _ \<Rightarrow> append_frame io rec j)"

definition check_member :: "jrecord \<Rightarrow> status" where
  "check_member rec = (case validate_record rec of
     Inl e \<Rightarrow> Inl e
   | Inr _ \<Rightarrow> if jr_type rec = RtTransaction then Inl (invalid_argument ''transactions cannot nest'') else ok_status)"

definition append_transaction :: "io_env \<Rightarrow> jrecord list \<Rightarrow> journal \<Rightarrow> status \<times> journal" where
  "append_transaction io recs j =
     (if recs = [] then (Inl (invalid_argument ''transaction must contain at least one record''), j)
      else if length recs > kMaxRecordsPerTransaction then
        (Inl (make_error LimitExceeded ''transaction contains too many records''), j)
      else case for_status check_member recs of
        Inl e \<Rightarrow> (Inl e, j)
      | Inr _ \<Rightarrow>
          (case ensure_replayed j of
             Inl e \<Rightarrow> (Inl e, j)
           | Inr _ \<Rightarrow>
               let transaction = encode_transaction_record recs in
               if length (jr_payload transaction) > kMaxJournalRecordBytes then
                 (Inl (make_error LimitExceeded ''transaction exceeds the journal record bound''), j)
               else append_frame io transaction j))"

definition flush :: "io_env \<Rightarrow> journal \<Rightarrow> status" where
  "flush io j = (if \<not> jn_open j then Inl (io_error ''journal is not open'') else sync_file io)"

section \<open>Compaction\<close>

definition as_transaction :: "jrecord \<Rightarrow> jrecord" where
  "as_transaction rec = (if jr_type rec = RtTransaction then rec else encode_transaction_record [rec])"

text \<open>The loop over the records of the compacted file, from the bytes written so far.\<close>

fun rewrite_loop :: "io_env \<Rightarrow> u64 \<Rightarrow> u64 \<Rightarrow> byte list \<Rightarrow> jrecord list \<Rightarrow> (byte list) result" where
  "rewrite_loop io max_bytes seq out [] = Inr out"
| "rewrite_loop io max_bytes seq out (rec # recs) =
     (case validate_record rec of
        Inl e \<Rightarrow> Inl e
      | Inr _ \<Rightarrow>
          let encoded = as_transaction rec in
          if length (jr_payload encoded) > kMaxJournalRecordBytes then
            Inl (make_error LimitExceeded ''compaction record exceeds the journal bound'')
          else if \<not> io_frame_header io seq then Inl (io_error ''cannot write a compaction frame header'')
          else if jr_payload encoded \<noteq> [] \<and> \<not> io_frame_payload io seq then
            Inl (io_error ''cannot write a compaction frame payload'')
          else
            let out = out @ frame_header (jr_type encoded) seq (jr_payload encoded) @ jr_payload encoded in
            if of_nat (length out) > max_bytes then
              Inl (make_error LimitExceeded ''compacted journal exceeds its byte bound'')
            else rewrite_loop io max_bytes (seq + 1) out recs)"

definition rewrite :: "io_env \<Rightarrow> jrecord list \<Rightarrow> journal \<Rightarrow> status \<times> journal" where
  "rewrite io recs j =
     (if of_nat (length recs) > jo_max_records (jn_options j) then
        (Inl (make_error LimitExceeded ''compacted journal would exceed the record bound''), j)
      else if \<not> io_create io then (Inl (io_error ''cannot create the compaction target''), j)
      else if io_header io \<noteq> WriteOk then (Inl (io_error ''cannot write the compaction header''), j)
      else case rewrite_loop io (jo_max_bytes (jn_options j)) 1 file_header recs of
        Inl e \<Rightarrow> (Inl e, j)
      | Inr out \<Rightarrow>
          (case sync_file io of
             Inl e \<Rightarrow> (Inl e, j)
           | Inr _ \<Rightarrow>
               if \<not> io_close io then (Inl (io_error ''cannot close the compaction target''), j)
               else if \<not> io_rename io then
                 (Inl (io_error ''cannot install the compacted journal''), j\<lparr>jn_open := False\<rparr>)
               else case journal_open io (jn_options j) (Some out) of
                 Inl e \<Rightarrow> (Inl e, j\<lparr>jn_open := False, jn_file := out\<rparr>)
               | Inr reopened \<Rightarrow>
                   let done = reopened\<lparr>jn_next_seq := jn_next_seq j, jn_records := of_nat (length recs),
                     jn_replayed := jn_replayed j\<rparr> in
                   if \<not> io_seek_end io then
                     (Inl (io_error ''cannot seek the compacted journal to its end''), done)
                   else (ok_status, done\<lparr>jn_replayed := True\<rparr>)))"

definition journal_close :: "journal \<Rightarrow> journal" where
  "journal_close j = j\<lparr>jn_open := False\<rparr>"

section \<open>The frames of a file\<close>

text \<open>
  \<open>frame_bytes\<close> is what one append puts into the file, \<open>frames seq recs\<close> what a run of appends
  numbered from \<open>seq\<close> does, and \<open>delivered\<close> what the replay hands out for one of them.
\<close>

definition frame_bytes :: "u64 \<Rightarrow> jrecord \<Rightarrow> byte list" where
  "frame_bytes seq rec = frame_header (jr_type rec) seq (jr_payload rec) @ jr_payload rec"

fun frames :: "u64 \<Rightarrow> jrecord list \<Rightarrow> byte list" where
  "frames seq [] = []"
| "frames seq (rec # recs) = frame_bytes seq rec @ frames (seq + 1) recs"

definition delivered :: "jrecord \<Rightarrow> jrecord list" where
  "delivered rec = (if jr_type rec = RtTransaction then
     (case decode_transaction_record rec of Inl e \<Rightarrow> [] | Inr recs \<Rightarrow> recs) else [rec])"

definition frame_ok :: "jrecord \<Rightarrow> bool" where
  "frame_ok rec \<longleftrightarrow> jr_type rec \<noteq> RtUnknown \<and> length (jr_payload rec) \<le> kMaxJournalRecordBytes \<and>
     (jr_type rec = RtTransaction \<longrightarrow> is_ok (decode_transaction_record rec))"

subsection \<open>Numbers read back\<close>

lemma byte_lengths [simp]:
  "length (write_u32_be v) = 4" "length (write_u64_be w) = 8" "length (write_u16_be x) = 2"
  by (simp_all add: write_u32_be_def write_u64_be_def write_u16_be_def)

lemma u16_be_back: "read_u16_be (write_u16_be v @ rest) = v"
  by (intro bit_word_eqI) (auto simp: read_u16_be_def write_u16_be_def bit_simps)

lemma byte_step: "push_bit 8 (drop_bit (8 + m) v) OR ucast (ucast (drop_bit m v) :: byte) = drop_bit m (v :: 'a::len word)"
proof (rule bit_word_eqI)
  fix n assume "n < LENGTH('a)"
  then show "bit (push_bit 8 (drop_bit (8 + m) v) OR ucast (ucast (drop_bit m v) :: byte)) n \<longleftrightarrow> bit (drop_bit m v) n"
    by (cases "8 \<le> n") (auto simp: bit_simps add.commute add.left_commute)
qed

lemma word_tops: "drop_bit 64 (v :: u64) = 0" "drop_bit 32 (w :: u32) = 0"
  by (simp_all add: drop_bit_eq_zero_iff_not_bit_last)

lemma u32_be_back: "read_u32_le (write_u32_be v @ rest) = v"
proof -
  have "read_u32_le (write_u32_be v @ rest) =
     push_bit 24 (ucast (ucast (drop_bit 24 v) :: byte)) OR push_bit 16 (ucast (ucast (drop_bit 16 v) :: byte)) OR
     push_bit 8 (ucast (ucast (drop_bit 8 v) :: byte)) OR ucast (ucast v :: byte)"
    by (simp add: read_u32_le_def write_u32_be_def)
  also have "\<dots> = push_bit 8 (push_bit 8 (push_bit 8 (push_bit 8 (drop_bit (8 + 24) v) OR ucast (ucast (drop_bit 24 v) :: byte)) OR
     ucast (ucast (drop_bit (8 + 8) v) :: byte)) OR ucast (ucast (drop_bit (8 + 0) v) :: byte)) OR ucast (ucast (drop_bit 0 v) :: byte)"
    by (simp add: push_bit_or or.assoc word_tops)
  also have "\<dots> = v"
    by (simp add: byte_step [of 24 v, simplified] byte_step [of 16 v, simplified] byte_step [of 8 v, simplified] byte_step [of 0 v, simplified])
  finally show ?thesis .
qed

lemma u64_be_back: "read_u64_be (write_u64_be v @ rest) = v"
proof -
  have "read_u64_be (write_u64_be v @ rest) = foldl (\<lambda>x m. push_bit 8 x OR ucast (ucast (drop_bit m v) :: byte)) (drop_bit (8 + 56) v)
    [56, 48, 40, 32, 24, 16, 8, 0]"
    by (simp add: read_u64_be_def write_u64_be_def upt_rec word_tops)
  also have "\<dots> = v"
    using byte_step [of 56 v] byte_step [of 48 v] byte_step [of 40 v] byte_step [of 32 v] byte_step [of 24 v] byte_step [of 16 v]
      byte_step [of 8 v] byte_step [of 0 v] by (simp add: word_tops)
  finally show ?thesis .
qed

subsection \<open>Frames read back\<close>

lemma frame_lengths [simp]:
  "length (frame_prefix ty seq p) = 20" "length (frame_header ty seq p) = 24"
  "length (frame_bytes seq rec) = 24 + length (jr_payload rec)"
  by (simp_all add: frame_prefix_def frame_header_def frame_bytes_def Let_def)

lemma header_take: "take 20 (frame_header ty seq p @ rest) = frame_prefix ty seq p"
  by (simp add: frame_header_def Let_def)

lemma header_crc: "read_u32_le (drop 20 (frame_header ty seq p @ rest)) = crc32c (frame_prefix ty seq p)"
  by (simp add: frame_header_def Let_def u32_be_back)

lemma header_type: "read_u16_be (frame_header ty seq p @ rest) = record_type_code ty"
  by (simp add: frame_header_def frame_prefix_def Let_def u16_be_back)

lemma drop_append_length: "n = length xs \<Longrightarrow> drop n (xs @ ys) = ys"
  by simp

lemma header_sequence: "read_u64_be (drop 4 (frame_header ty seq p @ rest)) = seq"
  by (simp add: frame_header_def frame_prefix_def Let_def u64_be_back numeral_eq_Suc write_u16_be_def)

lemma header_length: "read_u32_le (drop 12 (frame_header ty seq p @ rest)) = of_nat (length p)"
  by (simp add: frame_header_def frame_prefix_def Let_def u32_be_back)

lemma header_payload_crc: "read_u32_le (drop 16 (frame_header ty seq p @ rest)) = crc32c p"
  by (simp add: frame_header_def frame_prefix_def Let_def u32_be_back)

lemmas header_fields = header_take header_crc header_type header_sequence header_length header_payload_crc

lemma payload_size:
  assumes "length p \<le> kMaxJournalRecordBytes"
  shows "unat (of_nat (length p) :: u32) = length p"
  using assms by (simp add: limits unat_of_nat take_bit_nat_eq_self)

lemma header_drop: "drop 24 (frame_header ty seq p @ rest) = rest"
  by simp

text \<open>What \<open>read_frame\<close> makes of an intact header, whatever follows it.\<close>

lemma read_intact_header:
  assumes "jr_type rec \<noteq> RtUnknown" "length (jr_payload rec) \<le> kMaxJournalRecordBytes"
  shows "read_frame seq (frame_header (jr_type rec) seq (jr_payload rec) @ rest) =
    (if length rest < length (jr_payload rec) then Inl ''final frame payload is truncated''
     else if crc32c (take (length (jr_payload rec)) rest) \<noteq> crc32c (jr_payload rec) then
       Inl ''frame payload checksum mismatch''
     else let rec' = JRecord (jr_type rec) (take (length (jr_payload rec)) rest) in
       if jr_type rec = RtTransaction then
         (case decode_transaction_record rec' of
            Inl e \<Rightarrow> Inl ''transaction frame could not be decoded''
          | Inr recs \<Rightarrow> Inr (recs, 24 + length (jr_payload rec)))
       else Inr ([rec'], 24 + length (jr_payload rec)))"
  unfolding read_frame_def Let_def kFrameHeaderBytes_def header_fields header_drop payload_size [OF assms(2)]
  using assms by (simp add: known_types record_type_codes)

lemma read_frame_back:
  assumes "frame_ok rec"
  shows "read_frame seq (frame_bytes seq rec @ rest) = Inr (delivered rec, 24 + length (jr_payload rec))"
proof -
  have ok: "jr_type rec \<noteq> RtUnknown" "length (jr_payload rec) \<le> kMaxJournalRecordBytes"
    "jr_type rec = RtTransaction \<Longrightarrow> is_ok (decode_transaction_record rec)"
    using assms by (simp_all add: frame_ok_def)
  show ?thesis
    using read_intact_header [OF ok(1,2), of seq "jr_payload rec @ rest"] ok(3)
    by (cases rec) (auto simp: frame_bytes_def delivered_def is_ok_iff split: sum.splits)
qed

lemma read_frame_cut:
  assumes "frame_ok rec" "n < 24 + length (jr_payload rec)"
  shows "\<exists>detail. read_frame seq (take n (frame_bytes seq rec)) = Inl detail"
proof (cases "n < 24")
  case True
  then show ?thesis using assms(2) by (simp add: read_frame_def kFrameHeaderBytes_def min_def)
next
  case False
  then have cut: "take n (frame_bytes seq rec) =
      frame_header (jr_type rec) seq (jr_payload rec) @ take (n - 24) (jr_payload rec)"
    by (simp add: frame_bytes_def)
  have "length (take (n - 24) (jr_payload rec)) < length (jr_payload rec)" using assms(2) False by auto
  moreover have "jr_type rec \<noteq> RtUnknown" "length (jr_payload rec) \<le> kMaxJournalRecordBytes"
    using assms(1) by (simp_all add: frame_ok_def)
  ultimately show ?thesis unfolding cut by (subst read_intact_header) auto
qed

subsection \<open>Replay over frames\<close>

lemma replay_intact:
  assumes "list_all frame_ok recs"
  shows "replay_loop seq offset (frames seq recs @ tail) =
    (let run = replay_loop (seq + of_nat (length recs)) (offset + length (frames seq recs)) tail in
     run\<lparr>rr_delivered := concat (map delivered recs) @ rr_delivered run,
       rr_frames := length recs + rr_frames run\<rparr>)"
  using assms
proof (induction recs arbitrary: seq offset)
  case (Cons rec recs)
  have nonempty: "frame_bytes seq rec \<noteq> []" by (metis frame_lengths(3) add_is_0 list.size(3) zero_neq_numeral)
  have "frame_ok rec" using Cons.prems by simp
  then have "replay_loop seq offset (frames seq (rec # recs) @ tail) =
    (let run = replay_loop (seq + 1) (offset + length (frame_bytes seq rec)) (frames (seq + 1) recs @ tail) in
     run\<lparr>rr_delivered := delivered rec @ rr_delivered run, rr_frames := Suc (rr_frames run)\<rparr>)"
    using nonempty by (simp add: replay_loop.simps [of seq] read_frame_back)
  then show ?case using Cons.prems by (simp add: Cons.IH Let_def add.assoc)
qed (simp add: Let_def)

lemma replay_empty:
  "replay_loop seq offset [] = \<lparr>rr_delivered = [], rr_frames = 0, rr_offset = offset, rr_detail = [], rr_expected = seq\<rparr>"
  by (simp add: replay_loop.simps)

lemma replay_stop:
  assumes "rest \<noteq> []" "read_frame seq rest = Inl detail"
  shows "replay_loop seq offset rest =
    \<lparr>rr_delivered = [], rr_frames = 0, rr_offset = offset, rr_detail = detail, rr_expected = seq\<rparr>"
  using assms by (simp add: replay_loop.simps)

lemma frames_append: "frames seq (xs @ ys) = frames seq xs @ frames (seq + of_nat (length xs)) ys"
  by (induction xs arbitrary: seq) (simp_all add: add.assoc)

text \<open>The number of frames that lie wholly within the first \<open>n\<close> bytes.\<close>

fun whole_frames :: "nat \<Rightarrow> jrecord list \<Rightarrow> nat" where
  "whole_frames n [] = 0"
| "whole_frames n (rec # recs) =
     (if 24 + length (jr_payload rec) \<le> n then Suc (whole_frames (n - (24 + length (jr_payload rec))) recs) else 0)"

lemma whole_frames_le: "whole_frames n recs \<le> length recs"
  by (induction recs arbitrary: n) simp_all

lemma whole_frames_fit: "length (frames seq (take (whole_frames n recs) recs)) \<le> n"
proof (induction recs arbitrary: n seq)
  case (Cons rec recs)
  show ?case using Cons.IH [of "seq + 1" "n - (24 + length (jr_payload rec))"] by auto
qed simp

lemma whole_frames_all: "length (frames seq recs) \<le> n \<Longrightarrow> whole_frames n recs = length recs"
proof (induction recs arbitrary: n seq)
  case (Cons rec recs)
  then have "length (frames (seq + 1) recs) \<le> n - (24 + length (jr_payload rec))" by simp
  with Cons.prems show ?case by (simp add: Cons.IH)
qed simp

lemma take_frames:
  "\<exists>tail. take n (frames seq recs) = frames seq (take (whole_frames n recs) recs) @ tail \<and>
     (tail = [] \<or> (\<exists>m. whole_frames n recs < length recs \<and> m < 24 + length (jr_payload (recs ! whole_frames n recs)) \<and>
        tail = take m (frame_bytes (seq + of_nat (whole_frames n recs)) (recs ! whole_frames n recs))))"
proof (induction recs arbitrary: n seq)
  case (Cons rec recs)
  show ?case
  proof (cases "24 + length (jr_payload rec) \<le> n")
    case True
    let ?m = "n - (24 + length (jr_payload rec))"
    obtain tail where tail: "take ?m (frames (seq + 1) recs) = frames (seq + 1) (take (whole_frames ?m recs) recs) @ tail"
      "tail = [] \<or> (\<exists>m. whole_frames ?m recs < length recs \<and> m < 24 + length (jr_payload (recs ! whole_frames ?m recs)) \<and>
        tail = take m (frame_bytes (seq + 1 + of_nat (whole_frames ?m recs)) (recs ! whole_frames ?m recs)))"
      using Cons.IH [of ?m "seq + 1"] by blast
    show ?thesis using True tail by (intro exI [of _ tail]) (simp add: add.assoc)
  next
    case False
    then have "take n (frames seq (rec # recs)) = take n (frame_bytes seq rec)" by simp
    moreover have "n < 24 + length (jr_payload rec)" using False by simp
    ultimately show ?thesis using False
      by (intro exI [of _ "take n (frame_bytes seq rec)"] conjI disjI2 exI [of _ n]) simp_all
  qed
qed simp

lemma replay_cut:
  assumes "list_all frame_ok recs"
  shows "rr_delivered (replay_loop seq offset (take n (frames seq recs))) =
       concat (map delivered (take (whole_frames n recs) recs)) \<and>
     rr_frames (replay_loop seq offset (take n (frames seq recs))) = whole_frames n recs \<and>
     rr_offset (replay_loop seq offset (take n (frames seq recs))) =
       offset + length (frames seq (take (whole_frames n recs) recs)) \<and>
     rr_expected (replay_loop seq offset (take n (frames seq recs))) = seq + of_nat (whole_frames n recs)"
proof -
  let ?k = "whole_frames n recs"
  have len: "length (take ?k recs) = ?k" using whole_frames_le [of n recs] by simp
  have ok: "list_all frame_ok (take ?k recs)" using assms by (auto simp: list_all_iff dest: in_set_takeD)
  obtain tail where tail: "take n (frames seq recs) = frames seq (take ?k recs) @ tail"
    "tail = [] \<or> (\<exists>m. ?k < length recs \<and> m < 24 + length (jr_payload (recs ! ?k)) \<and>
        tail = take m (frame_bytes (seq + of_nat ?k) (recs ! ?k)))"
    using take_frames by blast
  have "\<exists>detail. replay_loop (seq + of_nat ?k) off tail =
      \<lparr>rr_delivered = [], rr_frames = 0, rr_offset = off, rr_detail = detail, rr_expected = seq + of_nat ?k\<rparr>" for off
  proof (cases "tail = []")
    case False
    then obtain m where m: "?k < length recs" "m < 24 + length (jr_payload (recs ! ?k))"
        "tail = take m (frame_bytes (seq + of_nat ?k) (recs ! ?k))" using tail(2) by blast
    have "frame_ok (recs ! ?k)" using assms m(1) by (simp add: list_all_length)
    from read_frame_cut [OF this m(2), of "seq + of_nat ?k"] obtain detail
      where "read_frame (seq + of_nat ?k) tail = Inl detail" using m(3) by auto
    with False show ?thesis by (auto simp: replay_stop)
  qed (simp add: replay_empty)
  then obtain detail where stop: "replay_loop (seq + of_nat ?k) (offset + length (frames seq (take ?k recs))) tail =
      \<lparr>rr_delivered = [], rr_frames = 0, rr_offset = offset + length (frames seq (take ?k recs)), rr_detail = detail,
       rr_expected = seq + of_nat ?k\<rparr>" by blast
  show ?thesis using replay_intact [OF ok, of seq offset tail] unfolding tail(1) len stop Let_def by simp
qed

subsection \<open>A changed byte\<close>

lemma crc32c_update:
  assumes "i < length xs" "xs ! i \<noteq> b"
  shows "crc32c (xs[i := b]) \<noteq> crc32c xs"
  using crc32c_byte_change [OF assms(2), of "take i xs" "drop (Suc i) xs"] assms(1)
  by (simp add: upd_conv_take_nth_drop id_take_nth_drop [symmetric])

lemma u32_le_written:
  assumes "length p = 4"
  shows "write_u32_be (read_u32_le p) = p"
proof -
  obtain a b c d where p: "p = [a, b, c, d]" using assms by (auto simp: numeral_eq_Suc length_Suc_conv)
  show ?thesis by (auto simp: p read_u32_le_def write_u32_be_def bit_eq_iff bit_simps dest: bit_imp_le_length)
qed

lemma u32_le_take: "length p = 4 \<Longrightarrow> read_u32_le (p @ rest) = read_u32_le p"
  by (simp add: read_u32_le_def nth_append)

lemma read_frame_damaged:
  assumes "frame_ok rec" "i < 24 + length (jr_payload rec)" "frame_bytes seq rec ! i \<noteq> b"
  shows "\<exists>detail. read_frame seq ((frame_bytes seq rec)[i := b] @ rest) = Inl detail"
proof -
  let ?ty = "jr_type rec" and ?p = "jr_payload rec"
  let ?prefix = "frame_prefix ?ty seq ?p"
  have bytes: "frame_bytes seq rec = ?prefix @ write_u32_be (crc32c ?prefix) @ ?p"
    by (simp add: frame_bytes_def frame_header_def Let_def)
  consider "i < 20" | "20 \<le> i" "i < 24" | "24 \<le> i" by linarith
  then show ?thesis
  proof cases
    case 1
    have damaged: "(frame_bytes seq rec)[i := b] = ?prefix[i := b] @ write_u32_be (crc32c ?prefix) @ ?p"
      using 1 by (simp add: bytes list_update_append)
    have "crc32c (?prefix[i := b]) \<noteq> crc32c ?prefix"
      using 1 assms(3) by (intro crc32c_update) (simp_all add: bytes nth_append)
    then show ?thesis by (simp add: damaged read_frame_def kFrameHeaderBytes_def u32_be_back)
  next
    case 2
    let ?c = "(write_u32_be (crc32c ?prefix))[i - 20 := b]"
    have pos: "i - 20 < 4" using 2 by linarith
    have damaged: "(frame_bytes seq rec)[i := b] = ?prefix @ ?c @ ?p"
      using 2 pos by (simp add: bytes list_update_append)
    have "write_u32_be (crc32c ?prefix) ! (i - 20) \<noteq> b"
      using 2 pos assms(3) by (simp add: bytes nth_append)
    then have "?c \<noteq> write_u32_be (crc32c ?prefix)"
      using pos by (metis byte_lengths(1) nth_list_update_eq)
    then have "read_u32_le (?c @ ?p @ rest) \<noteq> crc32c ?prefix"
      using u32_le_written [of ?c] by (metis byte_lengths(1) length_list_update u32_be_back u32_le_take)
    then show ?thesis by (simp add: damaged read_frame_def kFrameHeaderBytes_def)
  next
    case 3
    have damaged: "(frame_bytes seq rec)[i := b] = frame_header ?ty seq ?p @ ?p[i - 24 := b]"
      using 3 by (simp add: frame_bytes_def list_update_append)
    have "crc32c (?p[i - 24 := b]) \<noteq> crc32c ?p"
      using 3 assms(2,3) by (intro crc32c_update) (auto simp: frame_bytes_def nth_append)
    then show ?thesis using assms(1) by (simp add: damaged read_intact_header frame_ok_def)
  qed
qed

section \<open>The journal as a durable log\<close>

text \<open>
  What a client of a log relies on: an acknowledged append extends the contents by the records
  given, and a refused one changes nothing as long as no write stopped half way. \<open>append_all\<close> runs
  a sequence of appends, each in its own environment, and keeps what was acknowledged.
\<close>

locale durable_log =
  fixes ready :: "'j \<Rightarrow> bool" and contents :: "'j \<Rightarrow> 'r list" and clean :: "'io \<Rightarrow> bool"
    and append_log :: "'io \<Rightarrow> 'r list \<Rightarrow> 'j \<Rightarrow> status \<times> 'j"
  assumes append_acknowledged:
      "ready j \<Longrightarrow> append_log io rs j = (Inr u, j') \<Longrightarrow> ready j' \<and> contents j' = contents j @ rs"
    and append_refused:
      "ready j \<Longrightarrow> clean io \<Longrightarrow> append_log io rs j = (Inl e, j') \<Longrightarrow> ready j' \<and> contents j' = contents j"
begin

fun append_all :: "('io \<times> 'r list) list \<Rightarrow> 'j \<Rightarrow> 'r list \<times> 'j" where
  "append_all [] j = ([], j)"
| "append_all ((io, rs) # steps) j =
     (case append_log io rs j of
        (Inl e, j) \<Rightarrow> append_all steps j
      | (Inr u, j) \<Rightarrow> (let (acked, j) = append_all steps j in (rs @ acked, j)))"

lemma append_all_contents:
  "ready j \<Longrightarrow> list_all (clean \<circ> fst) steps \<Longrightarrow> append_all steps j = (acked, j') \<Longrightarrow>
   ready j' \<and> contents j' = contents j @ acked"
proof (induction steps j arbitrary: acked rule: append_all.induct)
  case (2 io rs steps j)
  obtain st j1 where step: "append_log io rs j = (st, j1)" by (cases "append_log io rs j")
  show ?case
  proof (cases st)
    case (Inl e)
    have "ready j1 \<and> contents j1 = contents j" using append_refused 2(3,4) step Inl by auto
    then show ?thesis using 2(1) [of st j1 e acked] 2(4,5) step Inl by simp
  next
    case (Inr u)
    obtain acked1 j2 where rest: "append_all steps j1 = (acked1, j2)" by (cases "append_all steps j1")
    have "ready j1 \<and> contents j1 = contents j @ rs" using append_acknowledged 2(3) step Inr by blast
    then show ?thesis using 2(2) [of st j1 u acked1] 2(4,5) step Inr rest by simp
  qed
qed simp

end

definition journal_holds :: "journal \<Rightarrow> jrecord list \<Rightarrow> bool" where
  "journal_holds j recs \<longleftrightarrow> jn_open j \<and> jn_replayed j \<and> jn_file j = file_header @ frames 1 recs \<and>
     list_all frame_ok recs \<and> jn_next_seq j = 1 + of_nat (length recs)"

definition journal_ready :: "journal \<Rightarrow> bool" where
  "journal_ready j \<longleftrightarrow> (\<exists>recs. journal_holds j recs)"

definition journal_contents :: "journal \<Rightarrow> jrecord list" where
  "journal_contents j = fst (snd (replay io_ok j))"

text \<open>No write stops half way: it happens wholly or not at all.\<close>

definition clean_io :: "io_env \<Rightarrow> bool" where
  "clean_io io \<longleftrightarrow> io_header io \<in> {WriteOk, WriteFailed 0} \<and> io_payload io = WriteOk"

lemma header_size [simp]: "length file_header = 12"
  by (simp add: file_header_def)

lemma write_frame_ok:
  assumes "write_frame io ty seq p j = (Inr u, j')"
  shows "length p \<le> kMaxJournalRecordBytes \<and> jn_open j \<and>
    j' = j\<lparr>jn_file := jn_file j @ frame_header ty seq p @ p,
      jn_bytes := jn_bytes j + of_nat (24 + length p), jn_records := jn_records j + 1\<rparr>"
  using assms
  by (auto simp: write_frame_def fwrite_def checked_add_def kFrameHeaderBytes_def
    split: if_splits option.splits write_outcome.splits)

lemma write_frame_refused:
  assumes "write_frame io ty seq p j = (Inl e, j')" "clean_io io"
  shows "j' = j"
  using assms
  by (auto simp: write_frame_def fwrite_def clean_io_def split: if_splits option.splits write_outcome.splits)

lemma append_transaction_ok:
  assumes "append_transaction io recs j = (Inr u, j')"
  shows "transaction_fits recs \<and> frame_ok (encode_transaction_record recs) \<and> jn_open j \<and> jn_replayed j \<and>
    jn_file j' = jn_file j @ frame_bytes (jn_next_seq j) (encode_transaction_record recs) \<and>
    jn_next_seq j' = jn_next_seq j + 1 \<and> jn_open j' = jn_open j \<and> jn_replayed j' = jn_replayed j \<and>
    jn_options j' = jn_options j"
proof -
  from assms have bounds: "recs \<noteq> []" "length recs \<le> kMaxRecordsPerTransaction"
      "for_status check_member recs = ok_status" "jn_replayed j"
      "append_frame io (encode_transaction_record recs) j = (Inr u, j')"
    by (auto simp: append_transaction_def ensure_replayed_def Let_def split: if_splits sum.splits)
  have "inner_fits rec" if "rec \<in> set recs" for rec
    using bounds(3) that
    by (auto simp: for_status_ok check_member_def validate_record_def inner_fits_def split: if_splits sum.splits)
  then have fits: "transaction_fits recs" using bounds(1,2) by (simp add: transaction_fits_def list_all_iff)
  obtain j1 where written: "write_frame io RtTransaction (jn_next_seq j) (jr_payload (encode_transaction_record recs)) j = (Inr u, j1)"
      "j' = j1\<lparr>jn_next_seq := next_id (jn_next_seq j1)\<rparr>"
    using bounds(5) by (auto simp: append_frame_def transaction_rec.typed split: prod.splits sum.splits)
  have "frame_ok (encode_transaction_record recs)"
    using write_frame_ok [OF written(1)] transaction_rec.decode_enc [OF fits]
    by (simp add: frame_ok_def transaction_rec.typed)
  with write_frame_ok [OF written(1)] fits bounds(4) written(2) show ?thesis
    by (simp add: frame_bytes_def transaction_rec.typed next_id_def)
qed

lemma append_transaction_refused:
  assumes "append_transaction io recs j = (Inl e, j')" "clean_io io"
  shows "j' = j"
  using assms(1) write_frame_refused [OF _ assms(2)]
  by (auto simp: append_transaction_def append_frame_def Let_def split: if_splits sum.splits prod.splits)

lemma delivered_transaction: "transaction_fits recs \<Longrightarrow> delivered (encode_transaction_record recs) = recs"
  by (simp add: delivered_def transaction_rec.typed transaction_rec.decode_enc)

lemma replay_holding:
  assumes "jn_open j" "jn_file j = file_header @ frames 1 recs" "list_all frame_ok recs" "io_seek io" "io_seek_end io"
  shows "\<exists>stats. replay io j = (ok_status, concat (map delivered recs), stats,
      j\<lparr>jn_next_seq := 1 + of_nat (length recs), jn_records := of_nat (length recs),
        jn_bytes := of_nat (length (jn_file j)), jn_replayed := True\<rparr>) \<and>
    \<not> rs_truncated stats \<and> rs_frames stats = length recs"
proof -
  have run: "replay_loop 1 12 (frames 1 recs) = \<lparr>rr_delivered = concat (map delivered recs), rr_frames = length recs,
      rr_offset = 12 + length (frames 1 recs), rr_detail = [], rr_expected = 1 + of_nat (length recs)\<rparr>"
    using replay_intact [OF assms(3), of 1 12 "[]"] by (simp add: replay_empty Let_def)
  show ?thesis
    using assms by (simp add: replay_def Let_def kFileHeaderBytes_def run)
qed

lemma journal_contents_holding:
  assumes "jn_open j" "jn_file j = file_header @ frames 1 recs" "list_all frame_ok recs"
  shows "journal_contents j = concat (map delivered recs)"
  using replay_holding [OF assms, of io_ok] by (auto simp: journal_contents_def io_ok_def)

lemma append_holding:
  assumes "journal_holds j recs" "append_transaction io rs j = (Inr u, j')"
  shows "journal_holds j' (recs @ [encode_transaction_record rs]) \<and> journal_contents j' = journal_contents j @ rs"
proof -
  note effect = append_transaction_ok [OF assms(2)]
  have held: "journal_holds j' (recs @ [encode_transaction_record rs])"
    using effect assms(1) by (simp add: journal_holds_def frames_append)
  with assms(1) have "journal_contents j' = journal_contents j @ delivered (encode_transaction_record rs)"
    by (simp add: journal_holds_def journal_contents_holding)
  with held effect show ?thesis by (simp add: delivered_transaction)
qed

interpretation journal_log: durable_log journal_ready journal_contents clean_io append_transaction
proof
  fix j io rs u j' assume "journal_ready j" "append_transaction io rs j = (Inr u, j')"
  then show "journal_ready j' \<and> journal_contents j' = journal_contents j @ rs"
    using append_holding unfolding journal_ready_def by blast
next
  fix j io rs e j' assume "journal_ready j" "clean_io io" "append_transaction io rs j = (Inl e, j')"
  then show "journal_ready j' \<and> journal_contents j' = journal_contents j"
    using append_transaction_refused by blast
qed

section \<open>Crashes, damage and compaction\<close>

definition good_io :: "io_env \<Rightarrow> bool" where
  "good_io io \<longleftrightarrow> io_seek io \<and> io_seek_end io \<and> io_truncate io \<and> io_flush io \<and> io_sync io"

lemma good_io_ok [simp]: "good_io io_ok"
  by (simp add: good_io_def io_ok_def)

text \<open>The journal left by a replay whose loop ended after the frames \<open>recs\<close>.\<close>

lemma replay_recovers:
  assumes "jn_open j" "jn_file j = file_header @ frames 1 recs @ tail" "list_all frame_ok recs" "good_io io"
    and run: "rr_delivered (replay_loop 1 12 (frames 1 recs @ tail)) = concat (map delivered recs)"
      "rr_frames (replay_loop 1 12 (frames 1 recs @ tail)) = length recs"
      "rr_offset (replay_loop 1 12 (frames 1 recs @ tail)) = 12 + length (frames 1 recs)"
      "rr_expected (replay_loop 1 12 (frames 1 recs @ tail)) = 1 + of_nat (length recs)"
  shows "\<exists>stats j'. replay io j = (ok_status, concat (map delivered recs), stats, j') \<and> journal_holds j' recs \<and>
    rs_truncated_bytes stats = length tail"
  using assms by (cases tail) (simp_all add: replay_def Let_def kFileHeaderBytes_def good_io_def journal_holds_def sync_file_def)

lemma replay_after_cut:
  assumes "jn_open j" "jn_file j = take (12 + n) (file_header @ frames 1 recs)" "list_all frame_ok recs" "good_io io"
  shows "\<exists>stats j'. replay io j = (ok_status, concat (map delivered (take (whole_frames n recs) recs)), stats, j') \<and>
    journal_holds j' (take (whole_frames n recs) recs)"
proof -
  let ?k = "whole_frames n recs"
  obtain tail where tail: "take n (frames 1 recs) = frames 1 (take ?k recs) @ tail" using take_frames by blast
  have len: "length (take ?k recs) = ?k" using whole_frames_le [of n recs] by simp
  have ok: "list_all frame_ok (take ?k recs)" using assms(3) by (auto simp: list_all_iff dest: in_set_takeD)
  have on_disk: "jn_file j = file_header @ frames 1 (take ?k recs) @ tail" using assms(2) tail by simp
  show ?thesis
    using replay_recovers [OF assms(1) on_disk ok assms(4)] replay_cut [OF assms(3), of 1 12 n] unfolding tail len by auto
qed

lemma replay_stopped:
  assumes "list_all frame_ok recs" "tail \<noteq> []" "read_frame (1 + of_nat (length recs)) tail = Inl detail"
    and "jn_open j" "jn_file j = file_header @ frames 1 recs @ tail" "good_io io"
  shows "\<exists>stats j'. replay io j = (ok_status, concat (map delivered recs), stats, j') \<and> journal_holds j' recs \<and>
    rs_truncated_bytes stats = length tail"
  using replay_recovers [OF assms(4,5,1,6)] replay_intact [OF assms(1), of 1 12 tail] replay_stop [OF assms(2,3)]
  by (simp add: Let_def)

lemma replay_after_damage:
  assumes "list_all frame_ok pre" "frame_ok rec" "i < length (frame_bytes (1 + of_nat (length pre)) rec)"
    and "frame_bytes (1 + of_nat (length pre)) rec ! i \<noteq> b" "jn_open j" "good_io io"
    and "jn_file j = file_header @ frames 1 pre @ (frame_bytes (1 + of_nat (length pre)) rec)[i := b] @ rest"
  shows "\<exists>stats j'. replay io j = (ok_status, concat (map delivered pre), stats, j') \<and> journal_holds j' pre"
proof -
  let ?damaged = "(frame_bytes (1 + of_nat (length pre)) rec)[i := b]"
  obtain detail where stop: "read_frame (1 + of_nat (length pre)) (?damaged @ rest) = Inl detail"
    using read_frame_damaged [OF assms(2) _ assms(4)] assms(3) by auto
  have "?damaged @ rest \<noteq> []"
    by (metis append_is_Nil_conv assms(3) length_list_update list.size(3) not_less_zero)
  from replay_stopped [OF assms(1) this stop assms(5) assms(7) assms(6)] show ?thesis by blast
qed

lemma rewrite_loop_frames:
  assumes "rewrite_loop io max_bytes seq out recs = Inr out'"
  shows "out' = out @ frames seq (map as_transaction recs) \<and>
    (\<forall>rec \<in> set recs. validate_record rec = ok_status \<and>
       length (jr_payload (as_transaction rec)) \<le> kMaxJournalRecordBytes)"
  using assms
proof (induction recs arbitrary: seq out)
  case (Cons rec recs)
  then have valid: "validate_record rec = ok_status" "length (jr_payload (as_transaction rec)) \<le> kMaxJournalRecordBytes"
      "rewrite_loop io max_bytes (seq + 1) (out @ frame_bytes seq (as_transaction rec)) recs = Inr out'"
    by (auto simp: Let_def frame_bytes_def split: sum.splits if_splits)
  show ?case using Cons.IH [OF valid(3)] valid(1,2) by simp
qed simp

lemma as_transaction_ok:
  assumes "validate_record rec = ok_status" "length (jr_payload (as_transaction rec)) \<le> kMaxJournalRecordBytes"
    "jr_type rec \<noteq> RtTransaction"
  shows "frame_ok (as_transaction rec)" "delivered (as_transaction rec) = [rec]"
proof -
  have fits: "transaction_fits [rec]"
    using assms by (auto simp: transaction_fits_def inner_fits_def validate_record_def limits split: if_splits)
  show "frame_ok (as_transaction rec)" "delivered (as_transaction rec) = [rec]"
    using assms(2,3) transaction_rec.decode_enc [OF fits]
    by (simp_all add: as_transaction_def frame_ok_def delivered_def transaction_rec.typed)
qed

lemma rewrite_effect:
  assumes "rewrite io recs j = (Inr u, j')" "list_all (\<lambda>rec. jr_type rec \<noteq> RtTransaction) recs"
  shows "jn_file j' = file_header @ frames 1 (map as_transaction recs) \<and> list_all frame_ok (map as_transaction recs) \<and>
    concat (map delivered (map as_transaction recs)) = recs \<and> jn_open j' \<and> jn_replayed j' \<and>
    jn_next_seq j' = jn_next_seq j"
proof -
  obtain out where out: "rewrite_loop io (jo_max_bytes (jn_options j)) 1 file_header recs = Inr out"
      "jn_file j' = out" "jn_open j'" "jn_replayed j'" "jn_next_seq j' = jn_next_seq j"
    using assms(1)
    by (auto simp: rewrite_def journal_open_def new_journal_def Let_def split: if_splits sum.splits)
  note parts = rewrite_loop_frames [OF out(1)]
  have each: "frame_ok (as_transaction rec) \<and> delivered (as_transaction rec) = [rec]" if "rec \<in> set recs" for rec
    using parts that assms(2) as_transaction_ok [of rec] by (auto simp: list_all_iff)
  have "concat (map (delivered \<circ> as_transaction) recs) = concat (map (\<lambda>rec. [rec]) recs)"
    using each by (intro arg_cong [where f = concat] map_cong) simp_all
  also have "\<dots> = recs" by (induction recs) simp_all
  finally show ?thesis using out(2-5) parts each by (simp add: list_all_iff)
qed

lemma wrong_sequence_stops:
  assumes "seq \<noteq> expected" "frame_ok rec"
  shows "read_frame expected (frame_bytes seq rec @ rest) = Inl ''frame sequence is out of order''"
  unfolding read_frame_def Let_def kFrameHeaderBytes_def frame_bytes_def append_assoc header_fields
  using assms by (simp add: known_types payload_size frame_ok_def)

lemma compacted_then_appended:
  assumes "rewrite io recs j = (Inr u, j1)" "list_all (\<lambda>rec. jr_type rec \<noteq> RtTransaction) recs"
    and "append_transaction io' rs j1 = (Inr v, j2)" "jn_next_seq j \<noteq> 1 + of_nat (length recs)"
  shows "journal_contents j1 = recs \<and> journal_contents j2 = recs"
proof -
  let ?tx = "map as_transaction recs"
  note first = rewrite_effect [OF assms(1,2)] and second = append_transaction_ok [OF assms(3)]
  have on_disk: "jn_file j2 = file_header @ frames 1 ?tx @ frame_bytes (jn_next_seq j) (encode_transaction_record rs)"
    using first second by simp
  have stop: "read_frame (1 + of_nat (length ?tx)) (frame_bytes (jn_next_seq j) (encode_transaction_record rs)) =
      Inl ''frame sequence is out of order''"
    using wrong_sequence_stops [of "jn_next_seq j" "1 + of_nat (length ?tx)" "encode_transaction_record rs" "[]"]
      assms(4) second by simp
  have nonempty: "frame_bytes (jn_next_seq j) (encode_transaction_record rs) \<noteq> []"
    by (metis frame_lengths(3) add_is_0 list.size(3) zero_neq_numeral)
  obtain stats j3 where "replay io_ok j2 = (ok_status, concat (map delivered ?tx), stats, j3)"
    using replay_stopped [OF _ nonempty stop _ on_disk good_io_ok] first second by auto
  then have "journal_contents j2 = recs" using first by (simp add: journal_contents_def)
  moreover have "journal_contents j1 = recs" using journal_contents_holding [of j1 ?tx] first by simp
  ultimately show ?thesis by simp
qed

end
