(* ===== verification/Job_Codec.thy ===== *)
theory Job_Codec
  imports Record_Codecs
begin

text \<open>
  The job record of \<^verbatim>\<open>src/store/records.cpp\<close>: 53 fields with four kinds of lists. The encoder and the
  decoder are split at the same places into sections; a section of the decoder takes the record under
  construction (\<^verbatim>\<open>fresh\<close> in the source) and fills in its fields.

  The result is that every job whose strings, lists and times fit the layout is read back unchanged,
  so that a job survives the journal.
\<close>

section \<open>Writing\<close>

definition w_job_identity :: "job \<Rightarrow> byte list" where
  "w_job_identity j =
     w_u64 (j_id j) @ w_u64 (j_generation j) @ w_u64 (j_revision j) @ w_str kMaxTitleLength (j_title j) @
     w_str kMaxReasonLength (j_reason j) @ w_target_list (j_targets j) @ w_target_list (j_removal_set j) @
     w_counted w_u64 (j_depends_on j) @ w_counted w_u64 (j_window_filter j)"

definition w_job_state :: "job \<Rightarrow> byte list" where
  "w_job_state j =
     w_u32 (j_priority j) @ w_i64 (j_estimated_duration j) @ w_bool (j_requires_drain j) @ w_u64 (j_requestor j) @
     w_u32 (of_nat (job_state_code (j_state j))) @ w_u32 (block_reason_code (j_block j)) @
     w_str kMaxDetailLength (j_block_detail j) @ w_str kMaxDetailLength (j_last_detail j)"

definition w_job_refs :: "job \<Rightarrow> byte list" where
  "w_job_refs j =
     w_u64 (j_policy_revision j) @ w_u64 (j_topology_revision j) @ w_u64 (j_policy_digest j) @
     w_u64 (j_topology_digest j) @ w_u64 (j_authority j) @ w_u64 (j_lease j) @ w_attempt (j_active_attempt j) @
     w_u64 (j_next_attempt j)"

definition w_attempt_record :: "attempt_record \<Rightarrow> byte list" where
  "w_attempt_record a =
     w_attempt (ar_id a) @ w_i64 (ar_started_at a) @ w_i64 (ar_ended_at a) @
     w_u32 (attempt_outcome_code (ar_outcome a)) @ w_str kMaxDetailLength (ar_detail a)"

definition w_history_entry :: "history_entry \<Rightarrow> byte list" where
  "w_history_entry h =
     w_i64 (he_at h) @ w_u32 (of_nat (job_state_code (he_from h))) @ w_u32 (of_nat (job_state_code (he_to h))) @
     w_u32 (block_reason_code (he_reason h)) @ w_str kMaxDetailLength (he_detail h) @ w_incarnation (he_by h)"

definition w_job_flags :: "job \<Rightarrow> byte list" where
  "w_job_flags j =
     w_u32 (j_history_dropped j) @ w_bool (j_service_removed j) @ w_bool (j_overrun j) @ w_bool (j_approved j) @
     w_str kMaxNameLength (j_approved_by j) @ w_i64 (j_created_at j) @ w_i64 (j_updated_at j) @
     w_i64 (j_started_at j) @ w_i64 (j_completed_at j)"

definition w_job_preconditions :: "job \<Rightarrow> byte list" where
  "w_job_preconditions j =
     w_i64 (j_preconditions_at j) @ w_u64 (j_preconditions_digest j) @ w_u64 (j_preconditions_policy_revision j) @
     w_u64 (j_preconditions_topology_revision j) @ w_bool (j_preconditions_satisfied j) @
     w_u32 (j_verification_passes j) @ w_u32 (j_verification_failures j) @ w_u32 (j_restoration_failures j) @
     w_u32 (j_drain_failures j)"

definition w_job_tail :: "job \<Rightarrow> byte list" where
  "w_job_tail j =
     w_i64 (j_verification_started_at j) @ w_i64 (j_restoration_started_at j) @ w_bool (j_maintenance_failed j) @
     w_bool (j_window_extended j) @ w_u64 (j_window j) @ w_u32 (on_close_code (j_on_close j)) @
     w_i64 (j_window_closes_at j) @ w_incarnation (j_owner j)"

definition encode_job_record :: "job \<Rightarrow> jrecord" where
  "encode_job_record j = JRecord RtJob
     (w_u16 kLayout @ w_job_identity j @ w_job_state j @ w_job_refs j @
      w_counted w_attempt_record (j_attempts j) @ w_counted w_history_entry (j_history j) @
      w_job_flags j @ w_job_preconditions j @ w_job_tail j)"

section \<open>Reading\<close>

definition rd_job_identity :: "job \<Rightarrow> job decoder" where
  "rd_job_identity draft r =
     (let (i, r) = rd_u64 r; (g, r) = rd_u64 r; (rev, r) = rd_u64 r; (title, r) = rd_str kMaxTitleLength r;
          (reason, r) = rd_str kMaxReasonLength r in
      dbind (rd_target_list kMaxTargetsPerJob r) (\<lambda>targets r.
      dbind (rd_target_list kMaxTargetsPerTopology r) (\<lambda>removal r.
      dbind (rd_counted ''job dependency count exceeds the bound'' kMaxDependenciesPerJob (plain rd_u64) r) (\<lambda>deps r.
      dbind (rd_counted ''job window-filter count exceeds the bound'' kMaxWindowRules (plain rd_u64) r) (\<lambda>windows r.
        Inr (draft\<lparr>j_id := i, j_generation := g, j_revision := rev, j_title := title, j_reason := reason,
          j_targets := targets, j_removal_set := removal, j_depends_on := deps, j_window_filter := windows\<rparr>, r))))))"

definition rd_job_state :: "job \<Rightarrow> job decoder" where
  "rd_job_state draft r =
     (let (priority, r) = rd_u32 r; (duration, r) = rd_i64 r; (drain, r) = rd_bool r; (requestor, r) = rd_u64 r;
          (state, r) = rd_u32 r in
      case enum_of all_job_states state of
        None \<Rightarrow> Inl (make_error CorruptState ''job record carries an unknown lifecycle state'')
      | Some st \<Rightarrow>
          let (block, r) = rd_u32 r in
          (case enum_of (map fst kBlockNames) block of
             None \<Rightarrow> Inl (make_error CorruptState ''job record carries an unknown block reason'')
           | Some why \<Rightarrow>
               let (block_detail, r) = rd_str kMaxDetailLength r; (last_detail, r) = rd_str kMaxDetailLength r in
               Inr (draft\<lparr>j_priority := priority, j_estimated_duration := duration, j_requires_drain := drain,
                 j_requestor := requestor, j_state := st, j_block := why, j_block_detail := block_detail,
                 j_last_detail := last_detail\<rparr>, r)))"

definition rd_job_refs :: "job \<Rightarrow> job decoder" where
  "rd_job_refs draft r =
     (let (policy_rev, r) = rd_u64 r; (topology_rev, r) = rd_u64 r; (policy_dg, r) = rd_u64 r;
          (topology_dg, r) = rd_u64 r; (auth, r) = rd_u64 r; (lease, r) = rd_u64 r; (active, r) = rd_attempt r;
          (next_att, r) = rd_u64 r in
      Inr (draft\<lparr>j_policy_revision := policy_rev, j_topology_revision := topology_rev, j_policy_digest := policy_dg,
        j_topology_digest := topology_dg, j_authority := auth, j_lease := lease, j_active_attempt := active,
        j_next_attempt := next_att\<rparr>, r))"

definition rd_attempt_record :: "attempt_record decoder" where
  "rd_attempt_record r =
     (let (i, r) = rd_attempt r; (started, r) = rd_i64 r; (ended, r) = rd_i64 r; (outcome, r) = rd_u32 r in
      case enum_of (map fst kOutcomeNames) outcome of
        None \<Rightarrow> Inl (make_error CorruptState ''job record carries an unknown attempt outcome'')
      | Some out \<Rightarrow>
          let (detail, r) = rd_str kMaxDetailLength r in
          Inr (\<lparr>ar_id = i, ar_started_at = started, ar_ended_at = ended, ar_outcome = out, ar_detail = detail\<rparr>, r))"

definition rd_history_entry :: "history_entry decoder" where
  "rd_history_entry r =
     (let (at, r) = rd_i64 r; (from_code, r) = rd_u32 r; (to_code, r) = rd_u32 r; (reason, r) = rd_u32 r in
      case (enum_of all_job_states from_code, enum_of all_job_states to_code, enum_of (map fst kBlockNames) reason) of
        (Some s, Some t, Some why) \<Rightarrow>
          let (detail, r) = rd_str kMaxDetailLength r; (by_inc, r) = rd_incarnation r in
          Inr (\<lparr>he_at = at, he_from = s, he_to = t, he_reason = why, he_detail = detail, he_by = by_inc\<rparr>, r)
      | _ \<Rightarrow> Inl (make_error CorruptState ''job history entry is malformed''))"

definition rd_job_lists :: "job \<Rightarrow> job decoder" where
  "rd_job_lists draft r =
     dbind (rd_counted ''job attempt count exceeds the bound'' (unat kMaxAttemptsPerJob) rd_attempt_record r) (\<lambda>attempts r.
     dbind (rd_counted ''job history count exceeds the bound'' kMaxJobHistoryEntries rd_history_entry r) (\<lambda>history r.
       Inr (draft\<lparr>j_attempts := attempts, j_history := history\<rparr>, r)))"

definition rd_job_flags :: "job \<Rightarrow> job decoder" where
  "rd_job_flags draft r =
     (let (dropped, r) = rd_u32 r; (removed, r) = rd_bool r; (overrun, r) = rd_bool r; (approved, r) = rd_bool r;
          (approved_by, r) = rd_str kMaxNameLength r; (created, r) = rd_i64 r; (updated, r) = rd_i64 r;
          (started, r) = rd_i64 r; (completed, r) = rd_i64 r in
      Inr (draft\<lparr>j_history_dropped := dropped, j_service_removed := removed, j_overrun := overrun,
        j_approved := approved, j_approved_by := approved_by, j_created_at := created, j_updated_at := updated,
        j_started_at := started, j_completed_at := completed\<rparr>, r))"

definition rd_job_preconditions :: "job \<Rightarrow> job decoder" where
  "rd_job_preconditions draft r =
     (let (at, r) = rd_i64 r; (digest, r) = rd_u64 r; (policy_rev, r) = rd_u64 r; (topology_rev, r) = rd_u64 r;
          (satisfied, r) = rd_bool r; (passes, r) = rd_u32 r; (failures, r) = rd_u32 r;
          (restorations, r) = rd_u32 r; (drains, r) = rd_u32 r in
      Inr (draft\<lparr>j_preconditions_at := at, j_preconditions_digest := digest,
        j_preconditions_policy_revision := policy_rev, j_preconditions_topology_revision := topology_rev,
        j_preconditions_satisfied := satisfied, j_verification_passes := passes,
        j_verification_failures := failures, j_restoration_failures := restorations, j_drain_failures := drains\<rparr>, r))"

definition all_on_close :: "on_window_close list" where
  "all_on_close = [FinishActiveStep, ExtendToComplete, AbortAndRestore]"

definition rd_job_tail :: "job \<Rightarrow> job decoder" where
  "rd_job_tail draft r =
     (let (verification, r) = rd_i64 r; (restoration, r) = rd_i64 r; (failed, r) = rd_bool r;
          (extended, r) = rd_bool r; (win, r) = rd_u64 r; (on_close, r) = rd_u32 r in
      case enum_of all_on_close on_close of
        None \<Rightarrow> Inl (make_error CorruptState ''job record carries an unknown window policy'')
      | Some close \<Rightarrow>
          let (closes_at, r) = rd_i64 r; (owner, r) = rd_incarnation r in
          Inr (draft\<lparr>j_verification_started_at := verification, j_restoration_started_at := restoration,
            j_maintenance_failed := failed, j_window_extended := extended, j_window := win, j_on_close := close,
            j_window_closes_at := closes_at, j_owner := owner\<rparr>, r))"

definition rd_job :: "job decoder" where
  "rd_job r =
     dbind (rd_job_identity new_job r) (\<lambda>draft r. dbind (rd_job_state draft r) (\<lambda>draft r.
     dbind (rd_job_refs draft r) (\<lambda>draft r. dbind (rd_job_lists draft r) (\<lambda>draft r.
     dbind (rd_job_flags draft r) (\<lambda>draft r. dbind (rd_job_preconditions draft r) (\<lambda>draft r.
     rd_job_tail draft r))))))"

definition decode_job_record :: "jrecord \<Rightarrow> job result" where
  "decode_job_record = decode_with RtJob ''a'' ''job'' rd_job
     (\<lambda>j. accept_if (id_valid (j_id j) \<and> id_valid (j_generation j)) ''job record has an invalid identity'')
     ''job record is malformed or has trailing bytes''"

section \<open>Round trip\<close>

definition attempt_fits :: "attempt_record \<Rightarrow> bool" where
  "attempt_fits a \<longleftrightarrow> i64_fits (ar_started_at a) \<and> i64_fits (ar_ended_at a) \<and> str_fits kMaxDetailLength (ar_detail a)"

definition history_fits :: "history_entry \<Rightarrow> bool" where
  "history_fits h \<longleftrightarrow> i64_fits (he_at h) \<and> str_fits kMaxDetailLength (he_detail h)"

definition job_lists_fit :: "job \<Rightarrow> bool" where
  "job_lists_fit j \<longleftrightarrow> list_all target_valid (j_targets j) \<and> length (j_targets j) \<le> kMaxTargetsPerJob \<and>
     list_all target_valid (j_removal_set j) \<and> length (j_removal_set j) \<le> kMaxTargetsPerTopology \<and>
     length (j_depends_on j) \<le> kMaxDependenciesPerJob \<and> length (j_window_filter j) \<le> kMaxWindowRules \<and>
     list_all attempt_fits (j_attempts j) \<and> length (j_attempts j) \<le> unat kMaxAttemptsPerJob \<and>
     list_all history_fits (j_history j) \<and> length (j_history j) \<le> kMaxJobHistoryEntries"

definition job_strings_fit :: "job \<Rightarrow> bool" where
  "job_strings_fit j \<longleftrightarrow> str_fits kMaxTitleLength (j_title j) \<and> str_fits kMaxReasonLength (j_reason j) \<and>
     str_fits kMaxDetailLength (j_block_detail j) \<and> str_fits kMaxDetailLength (j_last_detail j) \<and>
     str_fits kMaxNameLength (j_approved_by j)"

definition job_times_fit :: "job \<Rightarrow> bool" where
  "job_times_fit j \<longleftrightarrow> i64_fits (j_estimated_duration j) \<and> i64_fits (j_created_at j) \<and> i64_fits (j_updated_at j) \<and>
     i64_fits (j_started_at j) \<and> i64_fits (j_completed_at j) \<and> i64_fits (j_preconditions_at j) \<and>
     i64_fits (j_verification_started_at j) \<and> i64_fits (j_restoration_started_at j) \<and> i64_fits (j_window_closes_at j)"

definition job_fits :: "job \<Rightarrow> bool" where
  "job_fits j \<longleftrightarrow> id_valid (j_id j) \<and> id_valid (j_generation j) \<and> job_lists_fit j \<and> job_strings_fit j \<and> job_times_fit j"

lemma job_state_back: "enum_of all_job_states (of_nat (job_state_code s)) = Some s"
  by (cases s) (simp_all add: enum_of_def all_job_states_def)

lemma outcome_back: "enum_of (map fst kOutcomeNames) (attempt_outcome_code s) = Some s"
  unfolding attempt_outcome_code_def by (rule name_position) (cases s; simp add: kOutcomeNames_def)+

lemma on_close_back: "enum_of all_on_close (on_close_code c) = Some c"
  by (cases c) (simp_all add: enum_of_def all_on_close_def)

interpretation attempt_codec: codec w_attempt_record rd_attempt_record attempt_fits
  by unfold_locales (simp add: w_attempt_record_def rd_attempt_record_def attempt_fits_def reads_back outcome_back)

interpretation history_codec: codec w_history_entry rd_history_entry history_fits
  by unfold_locales
    (simp add: w_history_entry_def rd_history_entry_def history_fits_def reads_back job_state_back block_reason_back)

lemma job_identity_back:
  assumes "job_fits j"
  shows "rd_job_identity draft (Reader (w_job_identity j @ rest) True) =
    Inr (draft\<lparr>j_id := j_id j, j_generation := j_generation j, j_revision := j_revision j, j_title := j_title j,
      j_reason := j_reason j, j_targets := j_targets j, j_removal_set := j_removal_set j,
      j_depends_on := j_depends_on j, j_window_filter := j_window_filter j\<rparr>, Reader rest True)"
proof -
  have strs: "str_fits kMaxTitleLength (j_title j)" "str_fits kMaxReasonLength (j_reason j)"
    using assms by (simp_all add: job_fits_def job_strings_fit_def)
  have lists:
    "rd_target_list kMaxTargetsPerJob (Reader (w_target_list (j_targets j) @ rest) True) = Inr (j_targets j, Reader rest True)"
    "rd_target_list kMaxTargetsPerTopology (Reader (w_target_list (j_removal_set j) @ rest) True) = Inr (j_removal_set j, Reader rest True)"
    "rd_counted what kMaxDependenciesPerJob (plain rd_u64) (Reader (w_counted w_u64 (j_depends_on j) @ rest) True) =
       Inr (j_depends_on j, Reader rest True)"
    "rd_counted what kMaxWindowRules (plain rd_u64) (Reader (w_counted w_u64 (j_window_filter j) @ rest) True) =
       Inr (j_window_filter j, Reader rest True)" for what rest
    using assms by (intro target_list_back u64_codec.counted_back;
      simp add: job_fits_def job_lists_fit_def limits)+
  show ?thesis by (simp add: rd_job_identity_def w_job_identity_def u64_back str_back strs lists)
qed

lemma job_state_section_back:
  assumes "job_fits j"
  shows "rd_job_state draft (Reader (w_job_state j @ rest) True) =
    Inr (draft\<lparr>j_priority := j_priority j, j_estimated_duration := j_estimated_duration j,
      j_requires_drain := j_requires_drain j, j_requestor := j_requestor j, j_state := j_state j,
      j_block := j_block j, j_block_detail := j_block_detail j, j_last_detail := j_last_detail j\<rparr>, Reader rest True)"
proof -
  have "str_fits kMaxDetailLength (j_block_detail j)" "str_fits kMaxDetailLength (j_last_detail j)"
      "i64_fits (j_estimated_duration j)"
    using assms by (simp_all add: job_fits_def job_strings_fit_def job_times_fit_def)
  then show ?thesis
    by (simp add: rd_job_state_def w_job_state_def reads_back job_state_back block_reason_back)
qed

lemma job_refs_back:
  "rd_job_refs draft (Reader (w_job_refs j @ rest) True) =
    Inr (draft\<lparr>j_policy_revision := j_policy_revision j, j_topology_revision := j_topology_revision j,
      j_policy_digest := j_policy_digest j, j_topology_digest := j_topology_digest j, j_authority := j_authority j,
      j_lease := j_lease j, j_active_attempt := j_active_attempt j, j_next_attempt := j_next_attempt j\<rparr>, Reader rest True)"
  by (simp add: rd_job_refs_def w_job_refs_def reads_back)

lemma job_lists_back:
  assumes "job_fits j"
  shows "rd_job_lists draft (Reader (w_counted w_attempt_record (j_attempts j) @
      w_counted w_history_entry (j_history j) @ rest) True) =
    Inr (draft\<lparr>j_attempts := j_attempts j, j_history := j_history j\<rparr>, Reader rest True)"
proof -
  have
    "rd_counted what (unat kMaxAttemptsPerJob) rd_attempt_record (Reader (w_counted w_attempt_record (j_attempts j) @ rest) True) =
       Inr (j_attempts j, Reader rest True)"
    "rd_counted what kMaxJobHistoryEntries rd_history_entry (Reader (w_counted w_history_entry (j_history j) @ rest) True) =
       Inr (j_history j, Reader rest True)" for what rest
    using assms by (intro attempt_codec.counted_back history_codec.counted_back;
      simp add: job_fits_def job_lists_fit_def limits)+
  then show ?thesis by (simp add: rd_job_lists_def)
qed

lemma job_flags_back:
  assumes "job_fits j"
  shows "rd_job_flags draft (Reader (w_job_flags j @ rest) True) =
    Inr (draft\<lparr>j_history_dropped := j_history_dropped j, j_service_removed := j_service_removed j,
      j_overrun := j_overrun j, j_approved := j_approved j, j_approved_by := j_approved_by j,
      j_created_at := j_created_at j, j_updated_at := j_updated_at j, j_started_at := j_started_at j,
      j_completed_at := j_completed_at j\<rparr>, Reader rest True)"
  using assms by (simp add: rd_job_flags_def w_job_flags_def reads_back job_fits_def job_strings_fit_def job_times_fit_def)

lemma job_preconditions_back:
  assumes "job_fits j"
  shows "rd_job_preconditions draft (Reader (w_job_preconditions j @ rest) True) =
    Inr (draft\<lparr>j_preconditions_at := j_preconditions_at j, j_preconditions_digest := j_preconditions_digest j,
      j_preconditions_policy_revision := j_preconditions_policy_revision j,
      j_preconditions_topology_revision := j_preconditions_topology_revision j,
      j_preconditions_satisfied := j_preconditions_satisfied j, j_verification_passes := j_verification_passes j,
      j_verification_failures := j_verification_failures j, j_restoration_failures := j_restoration_failures j,
      j_drain_failures := j_drain_failures j\<rparr>, Reader rest True)"
  using assms by (simp add: rd_job_preconditions_def w_job_preconditions_def reads_back job_fits_def job_times_fit_def)

lemma job_tail_back:
  assumes "job_fits j"
  shows "rd_job_tail draft (Reader (w_job_tail j @ rest) True) =
    Inr (draft\<lparr>j_verification_started_at := j_verification_started_at j,
      j_restoration_started_at := j_restoration_started_at j, j_maintenance_failed := j_maintenance_failed j,
      j_window_extended := j_window_extended j, j_window := j_window j, j_on_close := j_on_close j,
      j_window_closes_at := j_window_closes_at j, j_owner := j_owner j\<rparr>, Reader rest True)"
  using assms
  by (simp add: rd_job_tail_def w_job_tail_def reads_back on_close_back job_fits_def job_times_fit_def)

lemmas job_sections_back = job_identity_back job_state_section_back job_lists_back job_flags_back
  job_preconditions_back job_tail_back

interpretation job_rec: record_codec encode_job_record decode_job_record RtJob job_fits
proof
  fix j assume ok: "job_fits j"
  have tail: "rd_job_tail draft (Reader (w_job_tail j) True) =
      Inr (draft\<lparr>j_verification_started_at := j_verification_started_at j,
        j_restoration_started_at := j_restoration_started_at j, j_maintenance_failed := j_maintenance_failed j,
        j_window_extended := j_window_extended j, j_window := j_window j, j_on_close := j_on_close j,
        j_window_closes_at := j_window_closes_at j, j_owner := j_owner j\<rparr>, Reader [] True)" for draft
    using job_tail_back [OF ok, of draft "[]"] by simp
  show "decode_job_record (encode_job_record j) = Inr j"
    unfolding decode_job_record_def encode_job_record_def
    by (rule decode_with_back)
      (use ok in \<open>simp_all add: rd_job_def job_sections_back [OF ok] job_refs_back tail job_fits_def\<close>)
qed (simp add: encode_job_record_def)

end
