(* ===== verification/Policy_Codec.thy ===== *)
theory Policy_Codec
  imports Job_Codec Policies
begin

text \<open>
  The policy record of \<^verbatim>\<open>src/store/records.cpp\<close>: seven counted lists of rules and the scalar
  bounds. The revision is cut to 32 bits on the way out. A decoded policy must pass \<open>validate_policy\<close>;
  the layout has bounds of its own (names, contract members, headroom rules, target identities) that
  \<open>validate_policy\<close> does not check, so \<open>policy_fits\<close> lists them.
\<close>

section \<open>Writing\<close>

definition w_redundancy :: "redundancy_rule \<Rightarrow> byte list" where
  "w_redundancy x = w_u64 (rr_pool x) @ w_u32 (rr_min_viable x) @ w_u32 (rr_tolerated_losses x) @
     w_str kMaxNameLength (rr_name x)"

definition w_domain_limit :: "domain_limit_rule \<Rightarrow> byte list" where
  "w_domain_limit x = w_domain (dl_domain x) @ w_u32 (dl_max_out x) @ w_str kMaxNameLength (dl_name x)"

definition w_headroom :: "headroom_rule \<Rightarrow> byte list" where
  "w_headroom x = w_u64 (hr_pool x) @ w_u32 (hr_reserve_units x) @ w_str kMaxNameLength (hr_name x)"

definition w_contract :: "contract \<Rightarrow> byte list" where
  "w_contract x = w_u64 (c_id x) @ w_str kMaxNameLength (c_name x) @ w_target_list (c_members x) @
     w_u32 (c_min_available x) @ w_bool (c_require_fresh_evidence x)"

definition w_window :: "window \<Rightarrow> byte list" where
  "w_window x = w_u64 (w_id x) @ w_str kMaxNameLength (w_name x) @ w_i64 (w_opens_at x) @ w_i64 (w_closes_at x) @
     w_i64 (w_min_lead_time x) @ w_i64 (w_abort_grace x) @ w_u32 (on_close_code (w_on_close x)) @
     w_target_list (w_targets x)"

definition w_tier :: "priority_tier \<Rightarrow> byte list" where
  "w_tier x = w_u32 (pt_index x) @ w_str kMaxNameLength (pt_name x)"

definition w_ttl :: "evidence_kind \<times> nanos \<Rightarrow> byte list" where
  "w_ttl x = w_u32 (of_nat (evidence_kind_code (fst x))) @ w_i64 (snd x)"

definition w_policy_scalars :: "policy \<Rightarrow> byte list" where
  "w_policy_scalars p =
     w_u32 (po_min_evidence_sources p) @ w_bool (po_require_window p) @ w_i64 (po_max_precondition_age p) @
     w_i64 (po_default_duration p) @ w_u32 (po_max_concurrent_jobs p) @ w_i64 (po_authority_lease p) @
     w_i64 (po_drain_lease p) @ w_u32 (po_max_drain_failures_before_block p) @
     w_u32 (po_max_verification_attempts p) @ w_u32 (po_max_restoration_attempts p)"

definition encode_policy_record :: "policy \<Rightarrow> jrecord" where
  "encode_policy_record p = JRecord RtPolicy
     (w_u16 kLayout @ w_u32 (ucast (po_revision p)) @ w_counted w_redundancy (po_redundancy p) @
      w_counted w_domain_limit (po_domain_limits p) @ w_counted w_headroom (po_headroom p) @
      w_counted w_contract (po_contracts p) @ w_counted w_window (po_windows p) @
      w_counted w_tier (po_tiers p) @ w_counted w_ttl (po_evidence_ttl p) @ w_policy_scalars p)"

section \<open>Reading\<close>

definition policy_malformed :: error where
  "policy_malformed = make_error CorruptState ''policy record is malformed''"

definition rd_redundancy :: "redundancy_rule decoder" where
  "rd_redundancy r =
     (let (p, r) = rd_u64 r; (viable, r) = rd_u32 r; (losses, r) = rd_u32 r; (name, r) = rd_str kMaxNameLength r in
      if \<not> rd_ok r then Inl policy_malformed
      else Inr (\<lparr>rr_pool = p, rr_min_viable = viable, rr_tolerated_losses = losses, rr_name = name\<rparr>, r))"

definition rd_domain_limit :: "domain_limit_rule decoder" where
  "rd_domain_limit r =
     (let (d, r) = rd_domain r; (max_out, r) = rd_u32 r; (name, r) = rd_str kMaxNameLength r in
      if \<not> rd_ok r then Inl policy_malformed
      else Inr (\<lparr>dl_domain = d, dl_max_out = max_out, dl_name = name\<rparr>, r))"

definition rd_headroom :: "headroom_rule decoder" where
  "rd_headroom r =
     (let (p, r) = rd_u64 r; (units, r) = rd_u32 r; (name, r) = rd_str kMaxNameLength r in
      if \<not> rd_ok r then Inl policy_malformed
      else Inr (\<lparr>hr_pool = p, hr_reserve_units = units, hr_name = name\<rparr>, r))"

definition rd_contract :: "contract decoder" where
  "rd_contract r =
     (let (i, r) = rd_u64 r; (name, r) = rd_str kMaxNameLength r in
      dbind (rd_target_list kMaxMembersPerPool r) (\<lambda>members r.
        let (min_available, r) = rd_u32 r; (require, r) = rd_bool r in
        if \<not> rd_ok r then Inl policy_malformed
        else Inr (\<lparr>c_id = i, c_name = name, c_members = members, c_min_available = min_available,
          c_require_fresh_evidence = require\<rparr>, r)))"

definition rd_window :: "window decoder" where
  "rd_window r =
     (let (i, r) = rd_u64 r; (name, r) = rd_str kMaxNameLength r; (opens, r) = rd_i64 r; (closes, r) = rd_i64 r;
          (lead, r) = rd_i64 r; (grace, r) = rd_i64 r; (on_close, r) = rd_u32 r in
      case enum_of all_on_close on_close of
        None \<Rightarrow> Inl (make_error CorruptState ''policy window has an unknown close policy'')
      | Some close \<Rightarrow>
          dbind (rd_target_list kMaxWindowTargets r) (\<lambda>targets r.
            if \<not> rd_ok r then Inl policy_malformed
            else Inr (\<lparr>w_id = i, w_name = name, w_opens_at = opens, w_closes_at = closes, w_min_lead_time = lead,
              w_abort_grace = grace, w_on_close = close, w_targets = targets\<rparr>, r)))"

definition rd_tier :: "priority_tier decoder" where
  "rd_tier r =
     (let (index, r) = rd_u32 r; (name, r) = rd_str kMaxNameLength r in
      if \<not> rd_ok r then Inl policy_malformed
      else Inr (\<lparr>pt_index = index, pt_name = name\<rparr>, r))"

definition rd_ttl :: "(evidence_kind \<times> nanos) decoder" where
  "rd_ttl r =
     (let (kind, r) = rd_u32 r; (ttl, r) = rd_i64 r in
      if \<not> rd_ok r \<or> kind = 0 then Inl policy_malformed
      else case enum_of all_evidence_kinds (kind - 1) of
        None \<Rightarrow> Inl policy_malformed
      | Some k \<Rightarrow> Inr ((k, ttl), r))"

definition rd_policy_scalars :: "policy \<Rightarrow> policy decoder" where
  "rd_policy_scalars draft r =
     (let (sources, r) = rd_u32 r; (need_window, r) = rd_bool r; (age, r) = rd_i64 r; (duration, r) = rd_i64 r;
          (jobs, r) = rd_u32 r; (authority, r) = rd_i64 r; (drain, r) = rd_i64 r; (drains, r) = rd_u32 r;
          (verifications, r) = rd_u32 r; (restorations, r) = rd_u32 r in
      Inr (draft\<lparr>po_min_evidence_sources := sources, po_require_window := need_window,
        po_max_precondition_age := age, po_default_duration := duration, po_max_concurrent_jobs := jobs,
        po_authority_lease := authority, po_drain_lease := drain, po_max_drain_failures_before_block := drains,
        po_max_verification_attempts := verifications, po_max_restoration_attempts := restorations\<rparr>, r))"

definition assign_all :: "('k::linorder \<times> 'v) list \<Rightarrow> ('k, 'v) omap" where
  "assign_all xs = fold (\<lambda>e m. om_set (fst e) (snd e) m) xs []"

definition rd_policy :: "policy decoder" where
  "rd_policy r =
     (let (rev, r) = rd_u32 r in
      dbind (rd_counted ''policy redundancy count exceeds the bound'' kMaxRedundancyRules rd_redundancy r) (\<lambda>redundancy r.
      dbind (rd_counted ''policy domain-limit count exceeds the bound'' kMaxDomainLimitRules rd_domain_limit r) (\<lambda>limits r.
      dbind (rd_counted ''policy headroom count exceeds the bound'' kMaxRedundancyRules rd_headroom r) (\<lambda>headroom r.
      dbind (rd_counted ''policy contract count exceeds the bound'' kMaxContracts rd_contract r) (\<lambda>contracts r.
      dbind (rd_counted ''policy window count exceeds the bound'' kMaxWindowRules rd_window r) (\<lambda>windows r.
      dbind (rd_counted ''policy tier count exceeds the bound'' kMaxPriorityTiers rd_tier r) (\<lambda>tiers r.
      dbind (rd_counted ''policy evidence-ttl count exceeds the bound'' (length all_evidence_kinds) rd_ttl r) (\<lambda>ttls r.
        rd_policy_scalars (default_policy\<lparr>po_redundancy := redundancy, po_domain_limits := limits,
          po_headroom := headroom, po_contracts := contracts, po_windows := windows, po_tiers := tiers,
          po_evidence_ttl := assign_all ttls, po_revision := ucast rev\<rparr>) r))))))))"

definition decode_policy_record :: "jrecord \<Rightarrow> policy result" where
  "decode_policy_record = decode_with RtPolicy ''a'' ''policy'' rd_policy
     (\<lambda>p. case validate_policy p of
        Inl e \<Rightarrow> Inl (make_error CorruptState (err_detail e))
      | Inr _ \<Rightarrow> ok_status)
     ''policy record is malformed or has trailing bytes''"

section \<open>Round trip\<close>

definition name_fits :: "string \<Rightarrow> bool" where
  "name_fits s \<longleftrightarrow> str_fits kMaxNameLength s"

definition contract_fits :: "contract \<Rightarrow> bool" where
  "contract_fits c \<longleftrightarrow> name_fits (c_name c) \<and> list_all target_valid (c_members c) \<and>
     length (c_members c) \<le> kMaxMembersPerPool"

definition window_fits :: "window \<Rightarrow> bool" where
  "window_fits w \<longleftrightarrow> name_fits (w_name w) \<and> list_all target_valid (w_targets w) \<and>
     length (w_targets w) \<le> kMaxWindowTargets \<and> i64_fits (w_opens_at w) \<and> i64_fits (w_closes_at w) \<and>
     i64_fits (w_min_lead_time w) \<and> i64_fits (w_abort_grace w)"

definition policy_rules_fit :: "policy \<Rightarrow> bool" where
  "policy_rules_fit p \<longleftrightarrow> list_all (name_fits \<circ> rr_name) (po_redundancy p) \<and>
     list_all (name_fits \<circ> dl_name) (po_domain_limits p) \<and> list_all (name_fits \<circ> hr_name) (po_headroom p) \<and>
     length (po_headroom p) \<le> kMaxRedundancyRules \<and> list_all contract_fits (po_contracts p) \<and>
     list_all window_fits (po_windows p) \<and> list_all (name_fits \<circ> pt_name) (po_tiers p) \<and>
     list_all (i64_fits \<circ> snd) (po_evidence_ttl p) \<and> om_ok (po_evidence_ttl p)"

definition policy_fits :: "policy \<Rightarrow> bool" where
  "policy_fits p \<longleftrightarrow> validate_policy p = ok_status \<and> policy_rules_fit p \<and> unat (po_revision p) < 2 ^ 32 \<and>
     i64_fits (po_default_duration p)"

interpretation redundancy_codec: codec w_redundancy rd_redundancy "name_fits \<circ> rr_name"
  by unfold_locales (simp add: w_redundancy_def rd_redundancy_def name_fits_def reads_back)

interpretation domain_limit_codec: codec w_domain_limit rd_domain_limit "name_fits \<circ> dl_name"
  by unfold_locales (simp add: w_domain_limit_def rd_domain_limit_def name_fits_def reads_back)

interpretation headroom_codec: codec w_headroom rd_headroom "name_fits \<circ> hr_name"
  by unfold_locales (simp add: w_headroom_def rd_headroom_def name_fits_def reads_back)

interpretation tier_codec: codec w_tier rd_tier "name_fits \<circ> pt_name"
  by unfold_locales (simp add: w_tier_def rd_tier_def name_fits_def reads_back)

interpretation ttl_codec: codec w_ttl rd_ttl "i64_fits \<circ> snd"
  by unfold_locales (simp add: w_ttl_def rd_ttl_def reads_back enum_backs)

interpretation contract_codec: codec w_contract rd_contract contract_fits
proof
  fix c rest assume ok: "contract_fits c"
  have "rd_target_list kMaxMembersPerPool (Reader (w_target_list (c_members c) @ rest) True) = Inr (c_members c, Reader rest True)" for rest
    using ok by (intro target_list_back) (simp_all add: contract_fits_def limits)
  with ok show "rd_contract (Reader (w_contract c @ rest) True) = Inr (c, Reader rest True)"
    by (simp add: rd_contract_def w_contract_def contract_fits_def name_fits_def reads_back)
qed

interpretation window_codec: codec w_window rd_window window_fits
proof
  fix w rest assume ok: "window_fits w"
  have "rd_target_list kMaxWindowTargets (Reader (w_target_list (w_targets w) @ rest) True) = Inr (w_targets w, Reader rest True)" for rest
    using ok by (intro target_list_back) (simp_all add: window_fits_def limits)
  with ok show "rd_window (Reader (w_window w @ rest) True) = Inr (w, Reader rest True)"
    by (simp add: rd_window_def w_window_def window_fits_def name_fits_def reads_back on_close_back)
qed

lemma om_set_last: "\<forall>e \<in> set m. fst e < k \<Longrightarrow> om_set k v m = m @ [(k, v)]"
  by (induction m) auto

lemma assign_all_from:
  assumes "sorted_wrt (<) (map fst (m @ xs))"
  shows "fold (\<lambda>e m. om_set (fst e) (snd e) m) xs m = m @ xs"
  using assms
proof (induction xs arbitrary: m)
  case (Cons x xs)
  have "om_set (fst x) (snd x) m = m @ [x]"
    using Cons.prems by (subst om_set_last) (auto simp: sorted_wrt_append)
  moreover have "sorted_wrt (<) (map fst ((m @ [x]) @ xs))" using Cons.prems by simp
  ultimately show ?case using Cons.IH [of "m @ [x]"] by simp
qed simp

lemma assign_all_ordered: "om_ok m \<Longrightarrow> assign_all m = m"
  using assign_all_from [of "[]" m] by (simp add: assign_all_def om_ok_def)

lemma evidence_kinds_all: "k \<in> set all_evidence_kinds"
  by (cases k) (simp_all add: all_evidence_kinds_def)

lemma ttl_count:
  fixes m :: "(evidence_kind, nanos) omap"
  assumes "om_ok m"
  shows "length m \<le> length all_evidence_kinds"
proof -
  have "card (set (map fst m)) \<le> card (set all_evidence_kinds)"
    using evidence_kinds_all by (intro card_mono) auto
  also have "\<dots> \<le> length all_evidence_kinds" by (rule card_length)
  finally show ?thesis using om_ok_distinct [OF assms] distinct_card [of "map fst m"] by simp
qed

lemma policy_lists_back:
  assumes "policy_fits p"
  shows
    "rd_counted what kMaxRedundancyRules rd_redundancy (Reader (w_counted w_redundancy (po_redundancy p) @ rest) True) =
       Inr (po_redundancy p, Reader rest True)"
    "rd_counted what kMaxDomainLimitRules rd_domain_limit (Reader (w_counted w_domain_limit (po_domain_limits p) @ rest) True) =
       Inr (po_domain_limits p, Reader rest True)"
    "rd_counted what kMaxRedundancyRules rd_headroom (Reader (w_counted w_headroom (po_headroom p) @ rest) True) =
       Inr (po_headroom p, Reader rest True)"
    "rd_counted what kMaxContracts rd_contract (Reader (w_counted w_contract (po_contracts p) @ rest) True) =
       Inr (po_contracts p, Reader rest True)"
    "rd_counted what kMaxWindowRules rd_window (Reader (w_counted w_window (po_windows p) @ rest) True) =
       Inr (po_windows p, Reader rest True)"
    "rd_counted what kMaxPriorityTiers rd_tier (Reader (w_counted w_tier (po_tiers p) @ rest) True) =
       Inr (po_tiers p, Reader rest True)"
    "rd_counted what (length all_evidence_kinds) rd_ttl (Reader (w_counted w_ttl (po_evidence_ttl p) @ rest) True) =
       Inr (po_evidence_ttl p, Reader rest True)"
proof -
  have bounds: "length (po_redundancy p) \<le> kMaxRedundancyRules" "length (po_domain_limits p) \<le> kMaxDomainLimitRules"
      "length (po_contracts p) \<le> kMaxContracts" "length (po_windows p) \<le> kMaxWindowRules"
      "length (po_tiers p) \<le> kMaxPriorityTiers"
    using assms by (auto simp: policy_fits_def validate_policy_ok validate_bounds_def split: if_splits)
  have rules: "policy_rules_fit p" using assms by (simp add: policy_fits_def)
  then have ttls: "length (po_evidence_ttl p) \<le> length all_evidence_kinds"
    by (simp add: policy_rules_fit_def ttl_count)
  show
    "rd_counted what kMaxRedundancyRules rd_redundancy (Reader (w_counted w_redundancy (po_redundancy p) @ rest) True) =
       Inr (po_redundancy p, Reader rest True)"
    "rd_counted what kMaxDomainLimitRules rd_domain_limit (Reader (w_counted w_domain_limit (po_domain_limits p) @ rest) True) =
       Inr (po_domain_limits p, Reader rest True)"
    "rd_counted what kMaxRedundancyRules rd_headroom (Reader (w_counted w_headroom (po_headroom p) @ rest) True) =
       Inr (po_headroom p, Reader rest True)"
    "rd_counted what kMaxContracts rd_contract (Reader (w_counted w_contract (po_contracts p) @ rest) True) =
       Inr (po_contracts p, Reader rest True)"
    "rd_counted what kMaxWindowRules rd_window (Reader (w_counted w_window (po_windows p) @ rest) True) =
       Inr (po_windows p, Reader rest True)"
    "rd_counted what kMaxPriorityTiers rd_tier (Reader (w_counted w_tier (po_tiers p) @ rest) True) =
       Inr (po_tiers p, Reader rest True)"
    using rules bounds
    by (intro redundancy_codec.counted_back domain_limit_codec.counted_back headroom_codec.counted_back
      contract_codec.counted_back window_codec.counted_back tier_codec.counted_back;
      simp add: policy_rules_fit_def limits)+
  show "rd_counted what (length all_evidence_kinds) rd_ttl (Reader (w_counted w_ttl (po_evidence_ttl p) @ rest) True) =
       Inr (po_evidence_ttl p, Reader rest True)"
    using rules ttls by (intro ttl_codec.counted_back) (simp_all add: policy_rules_fit_def all_evidence_kinds_def)
qed

lemma policy_scalars_back:
  assumes "policy_fits p"
  shows "rd_policy_scalars draft (Reader (w_policy_scalars p) True) =
    Inr (draft\<lparr>po_min_evidence_sources := po_min_evidence_sources p, po_require_window := po_require_window p,
      po_max_precondition_age := po_max_precondition_age p, po_default_duration := po_default_duration p,
      po_max_concurrent_jobs := po_max_concurrent_jobs p, po_authority_lease := po_authority_lease p,
      po_drain_lease := po_drain_lease p,
      po_max_drain_failures_before_block := po_max_drain_failures_before_block p,
      po_max_verification_attempts := po_max_verification_attempts p,
      po_max_restoration_attempts := po_max_restoration_attempts p\<rparr>, Reader [] True)"
proof -
  have "i64_fits (po_max_precondition_age p)" "i64_fits (po_authority_lease p)" "i64_fits (po_drain_lease p)"
      "i64_fits (po_default_duration p)"
    using assms by (auto simp: policy_fits_def validate_policy_ok validate_bounds_def limits i64_fits_def split: if_splits)
  then show ?thesis
    by (simp add: rd_policy_scalars_def w_policy_scalars_def reads_back u32_back [where rest = "[]", simplified])
qed

lemma revision_back: "unat (v :: u64) < 2 ^ 32 \<Longrightarrow> ucast (ucast v :: u32) = v"
  by (simp add: word_unat_eq_iff unsigned_ucast_eq unsigned_take_bit_eq take_bit_nat_eq_self)

interpretation policy_rec: record_codec encode_policy_record decode_policy_record RtPolicy policy_fits
proof
  fix p assume ok: "policy_fits p"
  then have parts: "unat (po_revision p) < 2 ^ 32" "om_ok (po_evidence_ttl p)" "validate_policy p = ok_status"
    by (simp_all add: policy_fits_def policy_rules_fit_def)
  show "decode_policy_record (encode_policy_record p) = Inr p"
    unfolding decode_policy_record_def encode_policy_record_def
    by (rule decode_with_back)
      (simp_all add: rd_policy_def u32_back policy_lists_back [OF ok] policy_scalars_back [OF ok]
        revision_back [OF parts(1)] assign_all_ordered [OF parts(2)] parts(3))
qed (simp add: encode_policy_record_def)

end
