(* ===== verification/Topology_Codec.thy ===== *)
theory Topology_Codec
  imports Policy_Codec Topology "HOL-Library.Multiset"
begin

text \<open>
  The topology record of \<^verbatim>\<open>src/store/records.cpp\<close>. Targets are written parents first, ordered by
  the number of their ancestors, because the decoder declares them one by one through \<open>add_target\<close>,
  which wants the parent to exist. The revision is written cut to 32 bits and ignored on the way in.

  The result is that a topology whose records fit the layout and whose containment chains stay below
  the walk bound comes back with the same three tables and with indexes that are again exact.
\<close>

section \<open>Writing\<close>

definition w_domain_record :: "domain_id \<times> domain_record \<Rightarrow> byte list" where
  "w_domain_record e = w_domain (fst e) @ w_str kMaxNameLength (dr_name (snd e)) @ w_bool (dr_correlated (snd e))"

definition w_target_record :: "target_id \<times> target_record \<Rightarrow> byte list" where
  "w_target_record e =
     (let rec = snd e in
      w_target (fst e) @ w_str kMaxNameLength (tr_name rec) @ w_bool (tr_parent rec \<noteq> None) @
      (case tr_parent rec of None \<Rightarrow> [] | Some p \<Rightarrow> w_target p) @
      w_counted w_domain (tr_domains rec) @ w_u32 (tr_capacity_units rec) @ w_bool (tr_maintainable rec))"

definition w_pool_record :: "pool_id \<times> pool_record \<Rightarrow> byte list" where
  "w_pool_record e = w_u64 (fst e) @ w_str kMaxNameLength (pr_name (snd e)) @ w_target_list (pr_members (snd e))"

definition containment_order :: "topology \<Rightarrow> target_id list" where
  "containment_order t = map snd (sort (map (\<lambda>e. (length (ancestors t (fst e)), fst e)) (tp_targets t)))"

text \<open>\<^verbatim>\<open>targets().at(id)\<close> always finds the record: the identities come from the table.\<close>

definition targets_at :: "topology \<Rightarrow> target_id \<Rightarrow> target_id \<times> target_record" where
  "targets_at t i = (i, the (om_find (tp_targets t) i))"

definition encode_topology_record :: "topology \<Rightarrow> jrecord" where
  "encode_topology_record t = JRecord RtTopology
     (w_u16 kLayout @ w_u32 (ucast (tp_revision t)) @ w_counted w_domain_record (tp_domains t) @
      w_counted w_target_record (map (targets_at t) (containment_order t)) @
      w_counted w_pool_record (tp_pools t))"

section \<open>Reading\<close>

definition topology_malformed :: error where
  "topology_malformed = make_error CorruptState ''topology record is malformed''"

definition rd_domain_record :: "domain_record decoder" where
  "rd_domain_record r =
     (let (i, r) = rd_domain r; (name, r) = rd_str kMaxNameLength r; (correlated, r) = rd_bool r in
      if \<not> rd_ok r \<or> \<not> domain_valid i then Inl topology_malformed
      else Inr (\<lparr>dr_id = i, dr_name = name, dr_correlated = correlated\<rparr>, r))"

definition rd_parent :: "reader \<Rightarrow> target_id option \<times> reader" where
  "rd_parent r =
     (let (present, r) = rd_bool r in
      if present then let (p, r) = rd_target r in (Some p, r) else (None, r))"

definition rd_target_record :: "target_record decoder" where
  "rd_target_record r =
     (let (i, r) = rd_target r; (name, r) = rd_str kMaxNameLength r; (parent, r) = rd_parent r in
      dbind (rd_domain_list kMaxDomainsPerTarget r) (\<lambda>domains r.
        let (capacity, r) = rd_u32 r; (maintainable, r) = rd_bool r in
        if \<not> rd_ok r \<or> \<not> target_valid i then Inl topology_malformed
        else Inr (\<lparr>tr_id = i, tr_name = name, tr_parent = parent, tr_domains = domains,
          tr_capacity_units = capacity, tr_maintainable = maintainable\<rparr>, r)))"

definition rd_pool_record :: "pool_record decoder" where
  "rd_pool_record r =
     (let (i, r) = rd_u64 r; (name, r) = rd_str kMaxNameLength r in
      dbind (rd_target_list kMaxMembersPerPool r) (\<lambda>members r.
        if \<not> rd_ok r then Inl topology_malformed
        else Inr (\<lparr>pr_id = i, pr_name = name, pr_members = members\<rparr>, r)))"

text \<open>Read an item, declare it, go on: a refused declaration ends the loop.\<close>

fun declare_items :: "'a decoder \<Rightarrow> ('a \<Rightarrow> topology \<Rightarrow> topology result) \<Rightarrow> nat \<Rightarrow> topology \<Rightarrow> topology decoder" where
  "declare_items dec add 0 t r = Inr (t, r)"
| "declare_items dec add (Suc n) t r = dbind (dec r) (\<lambda>x r.
     case add x t of
       Inl e \<Rightarrow> Inl (make_error CorruptState (err_detail e))
     | Inr t \<Rightarrow> declare_items dec add n t r)"

definition declare_counted ::
    "string \<Rightarrow> nat \<Rightarrow> 'a decoder \<Rightarrow> ('a \<Rightarrow> topology \<Rightarrow> topology result) \<Rightarrow> topology \<Rightarrow> topology decoder" where
  "declare_counted what limit dec add t r =
     (let (count, r) = rd_u32 r in
      if \<not> rd_ok r \<or> unat count > limit then Inl (make_error CorruptState what)
      else declare_items dec add (unat count) t r)"

definition decode_topology_record :: "jrecord \<Rightarrow> topology result" where
  "decode_topology_record rec =
     (if jr_type rec \<noteq> RtTopology then Inl (invalid_argument ''record is not a topology record'')
      else case check_layout ''topology'' (new_reader (jr_payload rec)) of
        Inl e \<Rightarrow> Inl e
      | Inr r \<Rightarrow>
          let (stored_revision, r) = rd_u32 r in
          dbind (declare_counted ''topology domain count exceeds the bound'' kMaxDomainsPerTopology
            rd_domain_record add_domain empty_topology r) (\<lambda>t r.
          dbind (declare_counted ''topology target count exceeds the bound'' kMaxTargetsPerTopology
            rd_target_record add_target t r) (\<lambda>t r.
          dbind (declare_counted ''topology pool count exceeds the bound'' kMaxPoolsPerTopology
            rd_pool_record add_pool t r) (\<lambda>t r.
            if \<not> at_end r then Inl (make_error CorruptState ''topology record has trailing bytes'')
            else case validate_topology t of Inl e \<Rightarrow> Inl e | Inr _ \<Rightarrow> Inr t))))"

section \<open>Declaring a list of records\<close>

fun declare_all :: "('a \<Rightarrow> topology \<Rightarrow> topology result) \<Rightarrow> 'a list \<Rightarrow> topology \<Rightarrow> topology result" where
  "declare_all add [] t = Inr t"
| "declare_all add (x # xs) t = (case add x t of Inl e \<Rightarrow> Inl e | Inr t \<Rightarrow> declare_all add xs t)"

context codec
begin

lemma declared_back:
  assumes "list_all fits xs" "declare_all add xs t = Inr t'" "length xs \<le> limit" "length xs < 2 ^ 32"
  shows "declare_counted what limit dec add t (Reader (w_counted wr xs @ rest) True) = Inr (t', Reader rest True)"
proof -
  have items: "declare_items dec add (length xs) t (Reader (w_items wr xs @ rest) True) = Inr (t', Reader rest True)"
    using assms(1,2)
  proof (induction xs arbitrary: t)
    case (Cons x xs)
    obtain t1 where "add x t = Inr t1" "declare_all add xs t1 = Inr t'"
      using Cons.prems by (auto split: sum.splits)
    with Cons show ?case using read_back [of x "w_items wr xs @ rest"] by (simp add: w_items_def)
  qed (simp add: w_items_def)
  have "unat (of_nat (length xs) :: u32) = length xs"
    using assms(4) by (simp add: unat_of_nat take_bit_nat_eq_self)
  with assms(3) items show ?thesis by (simp add: declare_counted_def w_counted_def u32_back)
qed

end

lemma om_ext:
  assumes "om_ok m" "om_ok m'" "\<And>k. om_find m k = om_find m' k"
  shows "m = m'"
proof -
  have same: "set m = set m'" using assms by (auto simp: om_in_items)
  have "inj_on fst (set m)" using om_ok_distinct [OF assms(1)] by (simp add: distinct_map)
  then show ?thesis
    using assms(1,2) same by (intro map_sorted_distinct_set_unique [where f = fst])
      (auto simp: om_ok_def strict_sorted_iff)
qed

definition by_key :: "('a \<Rightarrow> 'k) \<Rightarrow> 'a list \<Rightarrow> 'k \<rightharpoonup> 'a" where
  "by_key key xs = map_of (map (\<lambda>x. (key x, x)) xs)"

lemma by_key_Cons:
  assumes "key x \<notin> key ` set xs"
  shows "m(key x \<mapsto> x) ++ by_key key xs = m ++ by_key key (x # xs)"
proof -
  have "map_of (map (\<lambda>x. (key x, x)) xs) (key x) = None"
    using assms by (simp add: map_of_eq_None_iff image_image)
  then show ?thesis by (simp add: by_key_def map_add_def fun_eq_iff split: option.split)
qed

lemma by_key_Nil [simp]: "by_key key [] = Map.empty"
  by (simp add: by_key_def)

text \<open>
  Declaring records with distinct keys into a table: each declaration sets one key, keeps the
  invariant and leaves the rest of the topology alone.
\<close>

lemma domains_declared:
  assumes "topo_wf t" "\<forall>d \<in> set ds. domain_valid (dr_id d) \<and> length (dr_name d) \<le> kMaxNameLength"
    and "length (tp_domains t) + length ds \<le> kMaxDomainsPerTopology" "distinct (map dr_id ds)"
  shows "\<exists>t'. declare_all add_domain ds t = Inr t' \<and> topo_wf t' \<and> target t' = target t \<and> pool t' = pool t \<and>
    tp_targets t' = tp_targets t \<and> tp_pools t' = tp_pools t \<and>
    domain t' = domain t ++ by_key dr_id ds"
  using assms
proof (induction ds arbitrary: t)
  case (Cons d ds)
  define t1 where "t1 = touch (t\<lparr>tp_domains := om_set (dr_id d) d (tp_domains t)\<rparr>)"
  have add: "add_domain d t = Inr t1" using Cons.prems by (auto simp: add_domain_def t1_def)
  have size: "length (tp_domains t1) \<le> Suc (length (tp_domains t))"
    using Cons.prems(1) by (cases "om_find (tp_domains t) (dr_id d)")
      (auto simp: t1_def touch_def topo_wf_defs om.length_set_fresh om.length_set_known)
  obtain t' where t': "declare_all add_domain ds t1 = Inr t'" "topo_wf t'" "target t' = target t1" "pool t' = pool t1"
      "tp_targets t' = tp_targets t1" "tp_pools t' = tp_pools t1"
      "domain t' = domain t1 ++ by_key dr_id ds"
    using Cons.IH [of t1] add_domain_wf [OF Cons.prems(1) add] Cons.prems(2-4) size by auto
  have "domain t1 = (domain t)(dr_id d \<mapsto> d)" by (auto simp: t1_def touch_def lookup_defs table_simps)
  then have "domain t' = domain t ++ by_key dr_id (d # ds)"
    using t'(7) Cons.prems(4) by (simp add: by_key_Cons)
  moreover have "target t1 = target t" "pool t1 = pool t" "tp_targets t1 = tp_targets t" "tp_pools t1 = tp_pools t"
    by (auto simp: t1_def touch_def lookup_defs)
  ultimately show ?case using add t' by simp
qed simp

fun parents_first :: "target_id set \<Rightarrow> target_record list \<Rightarrow> bool" where
  "parents_first known [] = True"
| "parents_first known (r # rs) =
     ((case tr_parent r of None \<Rightarrow> True | Some p \<Rightarrow> p \<in> known \<and> p \<noteq> tr_id r) \<and>
      parents_first (insert (tr_id r) known) rs)"

lemma targets_declared:
  assumes "topo_wf t" "length (tp_targets t) + length rs \<le> kMaxTargetsPerTopology" "distinct (map tr_id rs)"
    and "\<forall>r \<in> set rs. validate_target_record r = ok_status \<and>
      (\<forall>d \<in> set (tr_domains r). domain_valid d \<and> domain t d \<noteq> None)"
    and "parents_first (dom (target t)) rs"
  shows "\<exists>t'. declare_all add_target rs t = Inr t' \<and> topo_wf t' \<and> domain t' = domain t \<and> pool t' = pool t \<and>
    tp_domains t' = tp_domains t \<and> tp_pools t' = tp_pools t \<and>
    target t' = target t ++ by_key tr_id rs"
  using assms
proof (induction rs arbitrary: t)
  case (Cons r rs)
  define t1 where "t1 = touch (link_target r (unlink_target (tr_id r) (target t (tr_id r)) t))"
  have "check_parent t r = ok_status"
    using Cons.prems(5) by (auto simp: check_parent_def split: option.splits)
  moreover have "for_status (check_member_domain t) (tr_domains r) = ok_status"
    using Cons.prems(4) by (auto simp: for_status_ok check_member_domain_def)
  ultimately have add: "add_target r t = Inr t1"
    using Cons.prems(2,4) by (simp add: add_target_def t1_def)
  note wf1 = add_target_wf [OF Cons.prems(1) add]
  have "indexes_ok t" using Cons.prems(1) by (simp add: topo_wf_def)
  note lk = link_unlink_lookups [OF this t1_def]
  have tables: "tp_domains t1 = tp_domains t" "tp_pools t1 = tp_pools t"
    "tp_targets t1 = om_set (tr_id r) r (tp_targets t)"
    by (simp_all add: t1_def touch_def link_target_def unlink_target_def split: option.splits)
  have size: "length (tp_targets t1) \<le> Suc (length (tp_targets t))"
    using Cons.prems(1) by (cases "om_find (tp_targets t) (tr_id r)")
      (auto simp: tables topo_wf_defs om.length_set_fresh om.length_set_known)
  have target1: "target t1 = (target t)(tr_id r \<mapsto> r)" using lk(1) by auto
  then have "dom (target t1) = insert (tr_id r) (dom (target t))" by auto
  then have "parents_first (dom (target t1)) rs" using Cons.prems(5) by simp
  then obtain t' where t': "declare_all add_target rs t1 = Inr t'" "topo_wf t'" "domain t' = domain t1" "pool t' = pool t1"
      "tp_domains t' = tp_domains t1" "tp_pools t' = tp_pools t1"
      "target t' = target t1 ++ by_key tr_id rs"
    using Cons.IH [of t1] wf1 Cons.prems(2-4) size lk(2) by auto
  have "target t' = target t ++ by_key tr_id (r # rs)"
    using t'(7) target1 Cons.prems(3) by (simp add: by_key_Cons)
  then show ?case using add t' lk(2,3) tables by simp
qed simp

lemma pools_declared:
  assumes "topo_wf t" "length (tp_pools t) + length ps \<le> kMaxPoolsPerTopology" "distinct (map pr_id ps)"
    and "\<forall>p \<in> set ps. id_valid (pr_id p) \<and> length (pr_name p) \<le> kMaxNameLength \<and>
      length (pr_members p) \<le> kMaxMembersPerPool \<and> pr_members p \<noteq> [] \<and> distinct (pr_members p) \<and>
      (\<forall>m \<in> set (pr_members p). target t m \<noteq> None)"
  shows "\<exists>t'. declare_all add_pool ps t = Inr t' \<and> topo_wf t' \<and> domain t' = domain t \<and> target t' = target t \<and>
    tp_domains t' = tp_domains t \<and> tp_targets t' = tp_targets t \<and>
    pool t' = pool t ++ by_key pr_id ps"
  using assms
proof (induction ps arbitrary: t)
  case (Cons p ps)
  have "for_status (check_pool_member t) (pr_members p) = ok_status"
    using Cons.prems(4) by (auto simp: for_status_ok check_pool_member_def)
  then obtain t1 where add: "add_pool p t = Inr t1"
    using Cons.prems(2,4) by (auto simp: add_pool_def adjacent_dup_sort Let_def)
  note t1 = add_pool_result(1) [OF add] and wf1 = add_pool_wf [OF Cons.prems(1) add]
  have tables: "tp_domains t1 = tp_domains t" "tp_targets t1 = tp_targets t"
    "tp_pools t1 = om_set (pr_id p) p (tp_pools t)" "domain t1 = domain t" "target t1 = target t"
    by (auto simp: t1 touch_def lookup_defs)
  have size: "length (tp_pools t1) \<le> Suc (length (tp_pools t))"
    using Cons.prems(1) by (cases "om_find (tp_pools t) (pr_id p)")
      (auto simp: tables topo_wf_defs om.length_set_fresh om.length_set_known)
  obtain t' where t': "declare_all add_pool ps t1 = Inr t'" "topo_wf t'" "domain t' = domain t1" "target t' = target t1"
      "tp_domains t' = tp_domains t1" "tp_targets t' = tp_targets t1"
      "pool t' = pool t1 ++ by_key pr_id ps"
    using Cons.IH [of t1] wf1 Cons.prems(2-4) size tables by auto
  have "pool t1 = (pool t)(pr_id p \<mapsto> p)" by (auto simp: pool_def tables table_simps)
  then have "pool t' = pool t ++ by_key pr_id (p # ps)"
    using t'(7) Cons.prems(3) by (simp add: by_key_Cons)
  then show ?case using add t' tables by simp
qed simp

section \<open>Parents come first\<close>

lemma ancestors_loop_uncut:
  "length (ancestors_loop t n r) < n \<Longrightarrow> ancestors_loop t (Suc n) r = ancestors_loop t n r"
proof (induction n arbitrary: r)
  case (Suc n)
  show ?case
  proof (cases "r = None \<or> tr_parent (the r) = None")
    case False
    then obtain rec p where r: "r = Some rec" "tr_parent rec = Some p" by auto
    have step: "ancestors_loop t (Suc m) r = p # ancestors_loop t m (target t p)" for m using r by simp
    show ?thesis using Suc.prems Suc.IH [of "target t p"] by (simp only: step length_Cons Suc_less_eq)
  qed (cases r; auto)
qed simp

definition shallow :: "topology \<Rightarrow> bool" where
  "shallow t \<longleftrightarrow> (\<forall>e \<in> set (tp_targets t). length (ancestors t (fst e)) < kMaxTopologyChainDepth)"

lemma parent_depth:
  assumes "target t i = Some r" "tr_parent r = Some p" "length (ancestors t i) < kMaxTopologyChainDepth"
  shows "length (ancestors t p) < length (ancestors t i)"
proof -
  obtain n where n: "kMaxTopologyChainDepth = Suc n" by (simp add: kMaxTopologyChainDepth_def)
  have up: "ancestors t i = p # ancestors_loop t n (target t p)" using assms(1,2) by (simp add: ancestors_def n)
  then have "length (ancestors_loop t n (target t p)) < n" using assms(3) n by simp
  from ancestors_loop_uncut [OF this] up show ?thesis by (simp add: ancestors_def n del: ancestors_loop.simps)
qed

lemma parents_first_sorted:
  assumes "sorted (map f rs)"
    and "\<And>r p. r \<in> set rs \<Longrightarrow> tr_parent r = Some p \<Longrightarrow>
      p \<noteq> tr_id r \<and> (p \<in> known \<or> (\<exists>q \<in> set rs. tr_id q = p \<and> f q < (f r :: nat)))"
  shows "parents_first known rs"
  using assms
proof (induction rs arbitrary: known)
  case (Cons r rs)
  have low: "f r \<le> f q" if "q \<in> set (r # rs)" for q using Cons.prems(1) that by auto
  have first: "p \<in> known \<and> p \<noteq> tr_id r" if "tr_parent r = Some p" for p
    using Cons.prems(2) [of r p] that low by (meson leD list.set_intros(1))
  have "parents_first (insert (tr_id r) known) rs"
  proof (rule Cons.IH)
    show "sorted (map f rs)" using Cons.prems(1) by simp
    fix q p assume "q \<in> set rs" "tr_parent q = Some p"
    then show "p \<noteq> tr_id q \<and> (p \<in> insert (tr_id r) known \<or> (\<exists>x \<in> set rs. tr_id x = p \<and> f x < f q))"
      using Cons.prems(2) [of q p] by auto
  qed
  then show ?case using first by (simp split: option.split)
qed simp

definition ordered_records :: "topology \<Rightarrow> target_record list" where
  "ordered_records t = map (snd \<circ> targets_at t) (containment_order t)"

lemma containment_order_perm: "mset (containment_order t) = mset (map fst (tp_targets t))"
proof -
  have "mset (map snd (sort xs)) = mset (map snd xs)" for xs :: "(nat \<times> target_id) list"
    by (metis mset_map mset_sort)
  then show ?thesis by (simp add: containment_order_def comp_def multiset.map_comp)
qed

lemma set_containment_order: "set (containment_order t) = fst ` set (tp_targets t)"
  using containment_order_perm [of t] by (metis set_map set_mset_mset)

lemma containment_order_sorted: "sorted (map (\<lambda>i. length (ancestors t i)) (containment_order t))"
proof -
  let ?ps = "sort (map (\<lambda>e. (length (ancestors t (fst e)), fst e)) (tp_targets t))"
  have depths: "map (\<lambda>i. length (ancestors t i)) (map snd ?ps) = map fst ?ps" by (auto simp: comp_def)
  have "sorted_wrt (\<lambda>x y. fst x \<le> fst y) ?ps"
    by (rule sorted_wrt_mono_rel [OF _ sorted_sort]) (auto simp: less_eq_prod_def)
  then have "sorted (map fst ?ps)" by (simp add: sorted_map)
  then show ?thesis unfolding containment_order_def depths .
qed

lemma ordered_records_facts:
  assumes "topo_wf t"
  shows "map tr_id (ordered_records t) = containment_order t"
    and "set (ordered_records t) = snd ` set (tp_targets t)"
    and "length (ordered_records t) = length (tp_targets t)"
    and "distinct (map tr_id (ordered_records t))"
    and "map (targets_at t) (containment_order t) = map (\<lambda>r. (tr_id r, r)) (ordered_records t)"
proof -
  have tables: "om_ok (tp_targets t)" using assms by (simp add: topo_wf_defs)
  have at: "\<exists>r. om_find (tp_targets t) i = Some r \<and> tr_id r = i" if "i \<in> set (containment_order t)" for i
    using that assms om_in_items [OF tables]
    by (force simp: set_containment_order topo_wf_defs target_def target_entry_ok_def)
  then have at': "tr_id (snd (targets_at t i)) = i" if "i \<in> set (containment_order t)" for i
    using that by (force simp: targets_at_def)
  then show ids: "map tr_id (ordered_records t) = containment_order t"
    by (simp add: ordered_records_def comp_def map_idI)
  show "map (targets_at t) (containment_order t) = map (\<lambda>r. (tr_id r, r)) (ordered_records t)"
    using at' by (auto simp: ordered_records_def targets_at_def)
  have "distinct (map fst (tp_targets t))" using tables by (rule om_ok_distinct)
  then show "distinct (map tr_id (ordered_records t))"
    unfolding ids using containment_order_perm [of t] by (metis mset_eq_imp_distinct_iff)
  show "length (ordered_records t) = length (tp_targets t)"
    by (simp add: ordered_records_def containment_order_def)
  show "set (ordered_records t) = snd ` set (tp_targets t)"
  proof -
    have "set (ordered_records t) = (\<lambda>i. the (om_find (tp_targets t) i)) ` fst ` set (tp_targets t)"
      by (simp add: ordered_records_def targets_at_def set_containment_order image_image comp_def)
    also have "\<dots> = snd ` set (tp_targets t)"
      unfolding image_image by (rule image_cong) (simp_all add: om_in_items [OF tables])
    finally show ?thesis .
  qed
qed

section \<open>Round trip\<close>

definition topology_fits :: "topology \<Rightarrow> bool" where
  "topology_fits t \<longleftrightarrow> topo_wf t \<and> validate_topology t = ok_status \<and> shallow t \<and>
     (\<forall>e \<in> set (tp_domains t). dr_id (snd e) = fst e \<and> domain_valid (fst e) \<and> length (dr_name (snd e)) \<le> kMaxNameLength) \<and>
     (\<forall>e \<in> set (tp_pools t). id_valid (fst e) \<and> length (pr_name (snd e)) \<le> kMaxNameLength \<and>
        length (pr_members (snd e)) \<le> kMaxMembersPerPool)"

text \<open>Two topologies with the same declared records.\<close>

definition same_declared :: "topology \<Rightarrow> topology \<Rightarrow> bool" where
  "same_declared t t' \<longleftrightarrow> tp_targets t = tp_targets t' \<and> tp_domains t = tp_domains t' \<and> tp_pools t = tp_pools t'"

lemma name_fits_length: "length s \<le> kMaxNameLength \<Longrightarrow> str_fits kMaxNameLength s"
  by (simp add: str_fits_def limits)

interpretation domain_record_codec: codec "\<lambda>d. w_domain_record (dr_id d, d)" rd_domain_record
    "\<lambda>d. domain_valid (dr_id d) \<and> length (dr_name d) \<le> kMaxNameLength"
  by unfold_locales (simp add: w_domain_record_def rd_domain_record_def name_fits_length reads_back)

lemma parent_back:
  "rd_parent (Reader (w_bool (p \<noteq> None) @ (case p of None \<Rightarrow> [] | Some q \<Rightarrow> w_target q) @ rest) True) = (p, Reader rest True)"
  by (cases p) (simp_all add: rd_parent_def bool_back target_back)

interpretation target_record_codec: codec "\<lambda>r. w_target_record (tr_id r, r)" rd_target_record
    "\<lambda>r. validate_target_record r = ok_status \<and> list_all domain_valid (tr_domains r)"
proof
  fix r :: target_record and rest
  assume ok: "validate_target_record r = ok_status \<and> list_all domain_valid (tr_domains r)"
  then have fields: "target_valid (tr_id r)" "length (tr_name r) \<le> kMaxNameLength"
      "length (tr_domains r) \<le> kMaxDomainsPerTarget"
    by (auto simp: validate_target_record_def split: if_splits)
  have "rd_domain_list kMaxDomainsPerTarget (Reader (w_counted w_domain (tr_domains r) @ rest) True) =
      Inr (tr_domains r, Reader rest True)" for rest
    unfolding rd_domain_list_def using ok fields(3)
    by (intro domain_entry_codec.counted_back) (simp_all add: limits)
  then show "rd_target_record (Reader (w_target_record (tr_id r, r) @ rest) True) = Inr (r, Reader rest True)"
    using fields(1) by (simp add: rd_target_record_def w_target_record_def Let_def target_back str_back
      name_fits_length [OF fields(2)] parent_back u32_back bool_back del: not_None_eq)
qed

interpretation pool_record_codec: codec "\<lambda>p. w_pool_record (pr_id p, p)" rd_pool_record
    "\<lambda>p. length (pr_name p) \<le> kMaxNameLength \<and> list_all target_valid (pr_members p) \<and>
       length (pr_members p) \<le> kMaxMembersPerPool"
proof
  fix p :: pool_record and rest
  assume ok: "length (pr_name p) \<le> kMaxNameLength \<and> list_all target_valid (pr_members p) \<and>
       length (pr_members p) \<le> kMaxMembersPerPool"
  have "rd_target_list kMaxMembersPerPool (Reader (w_target_list (pr_members p) @ rest) True) =
      Inr (pr_members p, Reader rest True)" for rest
    using ok by (intro target_list_back) (simp_all add: limits)
  with ok show "rd_pool_record (Reader (w_pool_record (pr_id p, p) @ rest) True) = Inr (p, Reader rest True)"
    by (simp add: rd_pool_record_def w_pool_record_def u64_back str_back name_fits_length)
qed

lemma chain_walk_target: "target t = target t' \<Longrightarrow> chain_walk t i r seen = chain_walk t' i r seen"
proof (induction t i r seen rule: chain_walk.induct)
  case (1 t i cursor seen)
  then show ?case by (simp add: chain_walk.simps [of t] chain_walk.simps [of t'] split: option.split)
qed

lemma validate_same_declared:
  assumes "same_declared t t'"
  shows "validate_topology t = validate_topology t'"
proof -
  have lookups: "target t = target t'" "domain t = domain t'" using assms by (auto simp: same_declared_def lookup_defs)
  have walks: "chain_walk t = chain_walk t'" by (intro ext chain_walk_target lookups)
  have "validate_target_entry t = validate_target_entry t'" "validate_pool_entry t = validate_pool_entry t'"
    unfolding validate_target_entry_def validate_pool_entry_def lookups walks by (rule refl)+
  then show ?thesis using assms by (simp add: validate_topology_def same_declared_def split: sum.split)
qed

lemma by_key_table:
  assumes "om_ok m" "\<forall>e \<in> set m. key (snd e) = fst e" "set xs = snd ` set m" "distinct (map key xs)"
  shows "by_key key xs = om_find m"
proof
  fix k
  have "by_key key xs k = Some v \<longleftrightarrow> om_find m k = Some v" for v
  proof -
    have "distinct (map fst (map (\<lambda>x. (key x, x)) xs))" using assms(4) by (simp add: comp_def)
    then have "by_key key xs k = Some v \<longleftrightarrow> (k, v) \<in> (\<lambda>x. (key x, x)) ` set xs" by (simp add: by_key_def)
    also have "\<dots> \<longleftrightarrow> (k, v) \<in> set m" using assms(2,3) by force
    also have "\<dots> \<longleftrightarrow> om_find m k = Some v" using om_in_items [OF assms(1), of "(k, v)"] by simp
    finally show ?thesis .
  qed
  then show "by_key key xs k = om_find m k" by (metis not_Some_eq)
qed

lemma table_entries:
  assumes "topo_wf t"
  shows "e \<in> set (tp_targets t) \<Longrightarrow> target t (fst e) = Some (snd e) \<and> target_entry_ok t (fst e) (snd e)"
    and "p \<in> set (tp_pools t) \<Longrightarrow> pool_entry_ok t (fst p) (snd p)"
    and "target t i = Some r \<Longrightarrow> (i, r) \<in> set (tp_targets t)"
  using assms
  by (auto simp: topo_wf_def tables_ok_def entries_ok_def target_def pool_def om_in_items)

lemma ordered_parents_first:
  assumes "topo_wf t" "shallow t"
  shows "parents_first {} (ordered_records t)"
proof (rule parents_first_sorted [where f = "\<lambda>r. length (ancestors t (tr_id r))"])
  note rec_facts = ordered_records_facts [OF assms(1)] and entries = table_entries [OF assms(1)]
  show "sorted (map (\<lambda>r. length (ancestors t (tr_id r))) (ordered_records t))"
    using containment_order_sorted [of t] by (simp add: comp_def flip: rec_facts(1))
  fix r p assume "r \<in> set (ordered_records t)" and up: "tr_parent r = Some p"
  then obtain e where e: "e \<in> set (tp_targets t)" "r = snd e" using rec_facts(2) by auto
  have here: "target t (tr_id r) = Some r" "tr_id r = fst e" "check_parent t r = ok_status"
    using entries(1) [OF e(1)] e(2) by (auto simp: target_entry_ok_def)
  then obtain q where q: "target t p = Some q" "p \<noteq> tr_id r"
    using up by (auto simp: check_parent_def split: if_splits)
  have "length (ancestors t p) < length (ancestors t (tr_id r))"
    using parent_depth [OF here(1) up] assms(2) e(1) here(2) by (simp add: shallow_def)
  moreover have "tr_id q = p" "q \<in> set (ordered_records t)"
    using entries(1) [OF entries(3) [OF q(1)]] entries(3) [OF q(1)] rec_facts(2)
    by (auto simp: target_entry_ok_def intro: rev_image_eqI)
  ultimately show "p \<noteq> tr_id r \<and> (p \<in> {} \<or> (\<exists>q \<in> set (ordered_records t). tr_id q = p \<and>
      length (ancestors t (tr_id q)) < length (ancestors t (tr_id r))))" using q(2) by auto
qed

lemma domains_valid:
  assumes "topology_fits t" "domain t d \<noteq> None"
  shows "domain_valid d"
proof -
  obtain x where "om_find (tp_domains t) d = Some x" using assms(2) by (auto simp: domain_def)
  then have "(d, x) \<in> set (tp_domains t)"
    using assms(1) by (simp add: topology_fits_def topo_wf_def tables_ok_def om_in_items)
  then show ?thesis using assms(1) by (auto simp: topology_fits_def)
qed

lemma records_fit:
  assumes "topology_fits t" "r \<in> set (ordered_records t)"
  shows "validate_target_record r = ok_status \<and> (\<forall>d \<in> set (tr_domains r). domain_valid d \<and> domain t d \<noteq> None)"
proof -
  have wf: "topo_wf t" using assms(1) by (simp add: topology_fits_def)
  obtain e where e: "e \<in> set (tp_targets t)" "r = snd e" using ordered_records_facts(2) [OF wf] assms(2) by auto
  then show ?thesis
    using table_entries(1) [OF wf e(1)] domains_valid [OF assms(1)] by (auto simp: target_entry_ok_def)
qed

lemma pools_fit:
  assumes "topology_fits t" "p \<in> set (map snd (tp_pools t))"
  shows "id_valid (pr_id p) \<and> length (pr_name p) \<le> kMaxNameLength \<and> length (pr_members p) \<le> kMaxMembersPerPool \<and>
    pr_members p \<noteq> [] \<and> distinct (pr_members p) \<and> (\<forall>m \<in> set (pr_members p). target t m \<noteq> None)"
  using assms table_entries(2) [of t] by (auto simp: topology_fits_def pool_entry_ok_def)

lemma empty_lookups [simp]:
  "tp_targets empty_topology = []" "tp_pools empty_topology = []" "tp_domains empty_topology = []"
  "target empty_topology = Map.empty" "pool empty_topology = Map.empty" "domain empty_topology = Map.empty"
  by (auto simp: empty_topology_def lookup_defs)

lemma topology_rebuilt:
  assumes fits: "topology_fits t"
  shows "\<exists>t1 t2 t3. declare_all add_domain (map snd (tp_domains t)) empty_topology = Inr t1 \<and>
    declare_all add_target (ordered_records t) t1 = Inr t2 \<and>
    declare_all add_pool (map snd (tp_pools t)) t2 = Inr t3 \<and> topo_wf t3 \<and> same_declared t t3"
proof -
  have wf: "topo_wf t" and shallow: "shallow t" using fits by (simp_all add: topology_fits_def)
  then have tables: "om_ok (tp_targets t)" "om_ok (tp_domains t)" "om_ok (tp_pools t)" "within_limits t"
    by (simp_all add: topo_wf_def tables_ok_def)
  note rec_facts = ordered_records_facts [OF wf] and entries = table_entries [OF wf]
  have keys: "map (dr_id \<circ> snd) (tp_domains t) = map fst (tp_domains t)" "map (pr_id \<circ> snd) (tp_pools t) = map fst (tp_pools t)"
    using fits entries(2) by (auto simp: topology_fits_def pool_entry_ok_def)
  obtain t1 where t1: "declare_all add_domain (map snd (tp_domains t)) empty_topology = Inr t1" "topo_wf t1"
      "target t1 = Map.empty" "pool t1 = Map.empty" "tp_targets t1 = []" "tp_pools t1 = []"
      "domain t1 = by_key dr_id (map snd (tp_domains t))"
    using domains_declared [OF empty_topology_wf, of "map snd (tp_domains t)"] fits tables(4) om_ok_distinct [OF tables(2)]
    by (auto simp: keys topology_fits_def within_limits_def)
  have domains: "domain t1 = domain t"
    unfolding t1(7) using tables(2) fits om_ok_distinct [OF tables(2)]
    by (subst by_key_table) (auto simp: domain_def topology_fits_def keys)
  obtain t2 where t2: "declare_all add_target (ordered_records t) t1 = Inr t2" "topo_wf t2" "domain t2 = domain t1"
      "pool t2 = Map.empty" "tp_domains t2 = tp_domains t1" "tp_pools t2 = []"
      "target t2 = by_key tr_id (ordered_records t)"
    using targets_declared [OF t1(2), of "ordered_records t"] rec_facts tables(4) records_fit [OF fits]
      ordered_parents_first [OF wf shallow]
    by (auto simp: t1(3-6) domains within_limits_def)
  have targets: "target t2 = target t"
    unfolding t2(7) using tables(1) rec_facts entries(1)
    by (subst by_key_table) (auto simp: target_def target_entry_ok_def)
  obtain t3 where t3: "declare_all add_pool (map snd (tp_pools t)) t2 = Inr t3" "topo_wf t3" "domain t3 = domain t2"
      "target t3 = target t2" "pool t3 = by_key pr_id (map snd (tp_pools t))"
    using pools_declared [OF t2(2), of "map snd (tp_pools t)"] pools_fit [OF fits] tables(4) om_ok_distinct [OF tables(3)]
    by (auto simp: t2(4,6) targets keys within_limits_def)
  have pools: "pool t3 = pool t"
    unfolding t3(5) using tables(3) entries(2) om_ok_distinct [OF tables(3)]
    by (subst by_key_table) (auto simp: pool_def pool_entry_ok_def keys)
  have "same_declared t t3"
    using t3(2) tables(1-3) domains targets pools t3(3,4) t2(3)
    by (auto simp: same_declared_def topo_wf_def tables_ok_def lookup_defs fun_eq_iff intro!: om_ext)
  then show ?thesis using t1(1) t2(1) t3(1,2) by blast
qed

lemma members_valid:
  assumes "topology_fits t" "p \<in> set (map snd (tp_pools t))"
  shows "list_all target_valid (pr_members p)"
proof -
  have wf: "topo_wf t" using assms(1) by (simp add: topology_fits_def)
  have "target_valid m" if "target t m = Some r" for m r
    using table_entries(1) [OF wf table_entries(3) [OF wf that]]
    by (auto simp: target_entry_ok_def validate_target_record_def split: if_splits)
  then show ?thesis using pools_fit [OF assms] by (auto simp: list_all_iff)
qed

lemma keyed_items:
  assumes "\<forall>e \<in> set m. key (snd e) = fst e"
  shows "w_counted w m = w_counted (\<lambda>x. w (key x, x)) (map snd m)"
proof -
  have "w e = w (key (snd e), snd e)" if "e \<in> set m" for e using assms that by (metis prod.collapse)
  then have "map w m = map (\<lambda>x. w (key x, x)) (map snd m)" by simp
  then show ?thesis by (simp only: w_counted_def w_items_def length_map)
qed

lemma decode_encode_topology:
  assumes fits: "topology_fits t"
  shows "\<exists>t'. decode_topology_record (encode_topology_record t) = Inr t' \<and> topo_wf t' \<and> same_declared t t'"
proof -
  have wf: "topo_wf t" and valid: "validate_topology t = ok_status" using fits by (simp_all add: topology_fits_def)
  then have sizes: "within_limits t" by (simp add: topo_wf_def)
  obtain t1 t2 t3 where rebuilt: "declare_all add_domain (map snd (tp_domains t)) empty_topology = Inr t1"
      "declare_all add_target (ordered_records t) t1 = Inr t2" "declare_all add_pool (map snd (tp_pools t)) t2 = Inr t3"
      "topo_wf t3" "same_declared t t3"
    using topology_rebuilt [OF fits] by blast
  have w: "w_counted w_domain_record (tp_domains t) = w_counted (\<lambda>d. w_domain_record (dr_id d, d)) (map snd (tp_domains t))"
      "w_counted w_pool_record (tp_pools t) = w_counted (\<lambda>p. w_pool_record (pr_id p, p)) (map snd (tp_pools t))"
    using fits table_entries(2) [OF wf]
    by (intro keyed_items; auto simp: topology_fits_def pool_entry_ok_def)+
  have w': "w_counted w_target_record (map (targets_at t) (containment_order t)) =
      w_counted (\<lambda>r. w_target_record (tr_id r, r)) (ordered_records t)"
    by (simp add: ordered_records_facts(5) [OF wf] w_counted_def w_items_def comp_def)
  have d: "declare_counted what kMaxDomainsPerTopology rd_domain_record add_domain empty_topology
      (Reader (w_counted (\<lambda>d. w_domain_record (dr_id d, d)) (map snd (tp_domains t)) @ rest) True) =
      Inr (t1, Reader rest True)" for what rest
    using fits sizes rebuilt(1)
    by (intro domain_record_codec.declared_back) (auto simp: topology_fits_def list_all_iff within_limits_def limits)
  have e: "declare_counted what kMaxTargetsPerTopology rd_target_record add_target t1
      (Reader (w_counted (\<lambda>r. w_target_record (tr_id r, r)) (ordered_records t) @ rest) True) =
      Inr (t2, Reader rest True)" for what rest
    using records_fit [OF fits] sizes rebuilt(2) ordered_records_facts(3) [OF wf]
    by (intro target_record_codec.declared_back) (auto simp: list_all_iff within_limits_def limits)
  have p: "declare_counted what kMaxPoolsPerTopology rd_pool_record add_pool t2
      (Reader (w_counted (\<lambda>p. w_pool_record (pr_id p, p)) (map snd (tp_pools t)) @ []) True) =
      Inr (t3, Reader [] True)" for what
    using pools_fit [OF fits] members_valid [OF fits] sizes rebuilt(3)
    by (intro pool_record_codec.declared_back) (auto simp: list_all_iff within_limits_def limits)
  have "validate_topology t3 = ok_status" using validate_same_declared [OF rebuilt(5)] valid by simp
  then have "decode_topology_record (encode_topology_record t) = Inr t3"
    by (simp add: decode_topology_record_def encode_topology_record_def new_reader_def layout_back u32_back w w' d e
      p [simplified] at_end_def)
  then show ?thesis using rebuilt(4,5) by blast
qed

end
