(* ===== verification/Store.thy ===== *)
theory Store
  imports Journal Topology_Codec
begin

text \<open>
  The store (\<^verbatim>\<open>include/mf/store/store.hpp\<close>, \<^verbatim>\<open>src/store/store.cpp\<close>): the persisted state, the record
  interpreter \<open>apply_record\<close> that both replay and the committing operations use, and every operation
  that changes state. An operation returns its result and the store after it; a failed one returns
  whatever the source leaves behind, including identities it has used up.
\<close>

section \<open>State\<close>

record persisted_state =
  ps_topology :: topology
  ps_policy :: policy
  ps_jobs :: job_table
  ps_evidence :: evidence_store
  ps_ledger :: ledger
  ps_quarantines :: quarantine_table
  ps_leases :: "(lease_id, drain_lease) omap"
  ps_last_incarnation :: incarnation
  ps_boot_epoch :: boot_epoch
  ps_revision :: revision

record store_options =
  so_journal_path :: string
  so_create_if_missing :: bool
  so_evidence_capacity :: nat
  so_authority_lease :: nanos
  so_compaction_threshold :: u64

definition kStateFormatVersion :: u32 where
  "kStateFormatVersion = 1"

record recovery_report =
  rp_journal_created :: bool
  rp_format_version :: u32
  rp_frames :: nat
  rp_records :: nat
  rp_discarded :: nat
  rp_bytes :: nat
  rp_truncated_bytes :: nat
  rp_truncated :: bool
  rp_previous_boot :: boot_epoch
  rp_boot :: boot_epoch
  rp_jobs :: nat
  rp_reservations :: nat
  rp_leases :: nat
  rp_quarantines :: nat
  rp_evidence :: nat
  rp_detail :: string

definition empty_report :: recovery_report where
  "empty_report = \<lparr>rp_journal_created = False, rp_format_version = kStateFormatVersion, rp_frames = 0,
     rp_records = 0, rp_discarded = 0, rp_bytes = 0, rp_truncated_bytes = 0, rp_truncated = False,
     rp_previous_boot = 0, rp_boot = 0, rp_jobs = 0, rp_reservations = 0, rp_leases = 0, rp_quarantines = 0,
     rp_evidence = 0, rp_detail = []\<rparr>"

definition recovery_to_text :: "recovery_report \<Rightarrow> string" where
  "recovery_to_text r =
     ''recovery: frames='' @ dec_string (rp_frames r) @ '' records='' @ dec_string (rp_records r) @
     '' discarded='' @ dec_string (rp_discarded r) @ '' bytes='' @ dec_string (rp_bytes r) @
     (if rp_truncated r then '' truncated='' @ dec_string (rp_truncated_bytes r) @ '' bytes'' else []) @
     '' previous-boot='' @ to_string_boot_epoch (rp_previous_boot r) @ '' boot='' @ to_string_boot_epoch (rp_boot r) @
     '' jobs='' @ dec_string (rp_jobs r) @ '' reservations='' @ dec_string (rp_reservations r) @
     '' leases='' @ dec_string (rp_leases r) @ '' quarantines='' @ dec_string (rp_quarantines r) @
     '' evidence='' @ dec_string (rp_evidence r) @
     (if rp_detail r \<noteq> [] then '' -- '' @ rp_detail r else [])"

definition new_state :: "store_options \<Rightarrow> persisted_state" where
  "new_state opts = \<lparr>ps_topology = empty_topology, ps_policy = default_policy, ps_jobs = empty_job_table,
     ps_evidence = new_evidence_store (so_evidence_capacity opts), ps_ledger = new_ledger (so_authority_lease opts),
     ps_quarantines = empty_quarantine, ps_leases = [], ps_last_incarnation = no_incarnation, ps_boot_epoch = 0,
     ps_revision = 0\<rparr>"

record store =
  st_journal :: journal
  st_options :: store_options
  st_state :: persisted_state
  st_report :: recovery_report
  st_compactions :: u64
  st_evidence_sequence :: u64

definition new_store :: "journal \<Rightarrow> store_options \<Rightarrow> store" where
  "new_store j opts = \<lparr>st_journal = j, st_options = opts, st_state = new_state opts, st_report = empty_report,
     st_compactions = 0, st_evidence_sequence = 0\<rparr>"

section \<open>Applying a record\<close>

type_synonym memory = "persisted_state \<times> recovery_report"

definition discard :: "memory \<Rightarrow> memory" where
  "discard m = (fst m, (snd m)\<lparr>rp_discarded := Suc (rp_discarded (snd m))\<rparr>)"

text \<open>A record that cannot be decoded is an error when \<open>strict\<close>, and is counted otherwise.\<close>

definition undecodable :: "bool \<Rightarrow> error \<Rightarrow> memory \<Rightarrow> status \<times> memory" where
  "undecodable strict e m = (if strict then (Inl e, m) else (ok_status, discard m))"

definition replayed_one :: "recovery_report \<Rightarrow> recovery_report" where
  "replayed_one r = r\<lparr>rp_records := Suc (rp_records r)\<rparr>"

definition apply_topology :: "jrecord \<Rightarrow> bool \<Rightarrow> memory \<Rightarrow> status \<times> memory" where
  "apply_topology rec strict m = (case decode_topology_record rec of
     Inl e \<Rightarrow> undecodable strict e m
   | Inr t \<Rightarrow> (ok_status, (fst m)\<lparr>ps_topology := t\<rparr>, replayed_one (snd m)))"

definition apply_policy :: "jrecord \<Rightarrow> bool \<Rightarrow> memory \<Rightarrow> status \<times> memory" where
  "apply_policy rec strict m = (case decode_policy_record rec of
     Inl e \<Rightarrow> undecodable strict e m
   | Inr p \<Rightarrow> (ok_status, (fst m)\<lparr>ps_policy := p\<rparr>, replayed_one (snd m)))"

definition apply_job :: "jrecord \<Rightarrow> bool \<Rightarrow> memory \<Rightarrow> status \<times> memory" where
  "apply_job rec strict m = (case decode_job_record rec of
     Inl e \<Rightarrow> undecodable strict e m
   | Inr j \<Rightarrow>
       (case adopt_job j (ps_jobs (fst m)) of
          Inl e \<Rightarrow> (ok_status, discard m)
        | Inr t \<Rightarrow> (ok_status, (fst m)\<lparr>ps_jobs := t\<rparr>,
            replayed_one ((snd m)\<lparr>rp_jobs := Suc (rp_jobs (snd m))\<rparr>))))"

definition erase_job_quietly :: "job_id \<Rightarrow> job_table \<Rightarrow> job_table" where
  "erase_job_quietly i t = (case erase_job i t of Inl e \<Rightarrow> t | Inr t \<Rightarrow> t)"

definition apply_job_erased :: "jrecord \<Rightarrow> bool \<Rightarrow> memory \<Rightarrow> status \<times> memory" where
  "apply_job_erased rec strict m = (case decode_job_erased_record rec of
     Inl e \<Rightarrow> undecodable strict e m
   | Inr i \<Rightarrow> (ok_status, (fst m)\<lparr>ps_jobs := erase_job_quietly i (ps_jobs (fst m))\<rparr>, replayed_one (snd m)))"

definition apply_evidence :: "jrecord \<Rightarrow> bool \<Rightarrow> memory \<Rightarrow> status \<times> memory" where
  "apply_evidence rec strict m = (case decode_evidence_record rec of
     Inl e \<Rightarrow> undecodable strict e m
   | Inr e \<Rightarrow>
       (case observe e (ps_evidence (fst m)) of
          (Inl _, s) \<Rightarrow> (ok_status, discard ((fst m)\<lparr>ps_evidence := s\<rparr>, snd m))
        | (Inr _, s) \<Rightarrow> (ok_status, (fst m)\<lparr>ps_evidence := s\<rparr>,
            replayed_one ((snd m)\<lparr>rp_evidence := Suc (rp_evidence (snd m))\<rparr>))))"

definition apply_reservation :: "jrecord \<Rightarrow> bool \<Rightarrow> memory \<Rightarrow> status \<times> memory" where
  "apply_reservation rec strict m = (case decode_reservation_record rec of
     Inl e \<Rightarrow> undecodable strict e m
   | Inr a \<Rightarrow>
       (case adopt_reservation a (ps_ledger (fst m)) of
          Inl e \<Rightarrow> (ok_status, discard m)
        | Inr l \<Rightarrow> (ok_status, (fst m)\<lparr>ps_ledger := l\<rparr>,
            replayed_one ((snd m)\<lparr>rp_reservations := Suc (rp_reservations (snd m))\<rparr>))))"

definition apply_reservation_erased :: "jrecord \<Rightarrow> bool \<Rightarrow> memory \<Rightarrow> status \<times> memory" where
  "apply_reservation_erased rec strict m = (case decode_reservation_erased_record rec of
     Inl e \<Rightarrow> undecodable strict e m
   | Inr i \<Rightarrow> (ok_status, (fst m)\<lparr>ps_ledger := snd (erase_reservation i (ps_ledger (fst m)))\<rparr>,
       replayed_one (snd m)))"

definition apply_lease :: "jrecord \<Rightarrow> bool \<Rightarrow> memory \<Rightarrow> status \<times> memory" where
  "apply_lease rec strict m = (case decode_lease_record rec of
     Inl e \<Rightarrow> undecodable strict e m
   | Inr l \<Rightarrow> (ok_status, (fst m)\<lparr>ps_leases := om_set (le_id l) l (ps_leases (fst m))\<rparr>,
       replayed_one ((snd m)\<lparr>rp_leases := Suc (rp_leases (snd m))\<rparr>)))"

definition apply_lease_erased :: "jrecord \<Rightarrow> bool \<Rightarrow> memory \<Rightarrow> status \<times> memory" where
  "apply_lease_erased rec strict m = (case decode_lease_erased_record rec of
     Inl e \<Rightarrow> undecodable strict e m
   | Inr i \<Rightarrow> (ok_status, (fst m)\<lparr>ps_leases := om_erase i (ps_leases (fst m))\<rparr>, replayed_one (snd m)))"

definition apply_quarantine :: "jrecord \<Rightarrow> bool \<Rightarrow> memory \<Rightarrow> status \<times> memory" where
  "apply_quarantine rec strict m = (case decode_quarantine_record rec of
     Inl e \<Rightarrow> undecodable strict e m
   | Inr q \<Rightarrow>
       (case adopt_quarantine q (ps_quarantines (fst m)) of
          Inl e \<Rightarrow> (ok_status, discard m)
        | Inr t \<Rightarrow> (ok_status, (fst m)\<lparr>ps_quarantines := t\<rparr>,
            replayed_one ((snd m)\<lparr>rp_quarantines := Suc (rp_quarantines (snd m))\<rparr>))))"

definition apply_boot :: "jrecord \<Rightarrow> bool \<Rightarrow> memory \<Rightarrow> status \<times> memory" where
  "apply_boot rec strict m = (case decode_boot_record rec of
     Inl e \<Rightarrow> undecodable strict e m
   | Inr (i, prior) \<Rightarrow> (ok_status, (fst m)\<lparr>ps_last_incarnation := i, ps_boot_epoch := ci_epoch i\<rparr>,
       replayed_one (snd m)))"

definition apply_record :: "jrecord \<Rightarrow> bool \<Rightarrow> memory \<Rightarrow> status \<times> memory" where
  "apply_record rec strict m = (case jr_type rec of
     RtTopology \<Rightarrow> apply_topology rec strict m
   | RtPolicy \<Rightarrow> apply_policy rec strict m
   | RtJob \<Rightarrow> apply_job rec strict m
   | RtJobErased \<Rightarrow> apply_job_erased rec strict m
   | RtEvidence \<Rightarrow> apply_evidence rec strict m
   | RtReservation \<Rightarrow> apply_reservation rec strict m
   | RtReservationErased \<Rightarrow> apply_reservation_erased rec strict m
   | RtLease \<Rightarrow> apply_lease rec strict m
   | RtLeaseErased \<Rightarrow> apply_lease_erased rec strict m
   | RtQuarantine \<Rightarrow> apply_quarantine rec strict m
   | RtBoot \<Rightarrow> apply_boot rec strict m
   | RtMarker \<Rightarrow> (ok_status, fst m, replayed_one (snd m))
   | RtTransaction \<Rightarrow> (ok_status, discard m)
   | RtUnknown \<Rightarrow> (ok_status, discard m)
   | RtQuarantineErased \<Rightarrow> (ok_status, discard m))"

section \<open>Opening\<close>

text \<open>The visitor that replay calls; a strict refusal is only noted in the report.\<close>

definition replay_visit :: "jrecord \<Rightarrow> memory \<Rightarrow> memory" where
  "replay_visit rec m =
     (case apply_record rec (jr_type rec = RtTopology \<or> jr_type rec = RtPolicy) m of
        (Inl e, m) \<Rightarrow> (fst m, (snd m)\<lparr>rp_detail :=
          ''replay rejected a '' @ to_string_record_type (jr_type rec) @ '' record: '' @ err_detail e\<rparr>)
      | (Inr _, m) \<Rightarrow> m)"

definition recovered_next_job :: "job_table \<Rightarrow> job_id" where
  "recovered_next_job t = fold (\<lambda>e n. if fst e \<ge> n then next_id (fst e) else n) (jt_jobs t) 1"

definition store_open :: "io_env \<Rightarrow> store_options \<Rightarrow> byte list option \<Rightarrow> (store \<times> recovery_report) result" where
  "store_open io opts contents =
     (case journal_open io (default_journal_options (so_journal_path opts) (so_create_if_missing opts)) contents of
        Inl e \<Rightarrow> Inl e
      | Inr j0 \<Rightarrow>
          let st = new_store j0 opts;
              created = empty_report\<lparr>rp_journal_created := (contents = None)\<rparr>;
              (status, recs, stats, j1) = replay io j0;
              (s, rep) = fold replay_visit recs (st_state st, created) in
          (case status of
             Inl e \<Rightarrow> Inl e
           | Inr _ \<Rightarrow>
               let rep = rep\<lparr>rp_frames := rs_frames stats, rp_records := rs_records stats, rp_bytes := rs_bytes stats,
                     rp_truncated := rs_truncated stats, rp_truncated_bytes := rs_truncated_bytes stats,
                     rp_detail := (if rs_detail stats \<noteq> [] then rs_detail stats else rp_detail rep)\<rparr>;
                   s = s\<lparr>ps_jobs := set_next_job_id (recovered_next_job (ps_jobs s)) (ps_jobs s)\<rparr> in
               Inr (st\<lparr>st_journal := j1, st_state := s, st_report := rep\<rparr>, rep)))"

section \<open>Committing\<close>

definition bump :: "persisted_state \<Rightarrow> persisted_state" where
  "bump s = s\<lparr>ps_revision := next_id (ps_revision s)\<rparr>"

text \<open>The nonce is the caller's, or the clock's \<open>fallback\<close> when the caller passes zero.\<close>

definition begin_incarnation ::
    "io_env \<Rightarrow> u64 \<Rightarrow> controller_id \<Rightarrow> u64 \<Rightarrow> store \<Rightarrow> incarnation result \<times> store" where
  "begin_incarnation io fallback controller nonce st =
     (if \<not> id_valid controller then (Inl (invalid_argument ''controller id is not valid''), st)
      else
        let prior = ps_boot_epoch (st_state st);
            epoch = (if id_valid prior then next_id prior else 1);
            inc = \<lparr>ci_controller = controller, ci_epoch = epoch, ci_nonce = (if nonce = 0 then fallback else nonce)\<rparr> in
        (case append_transaction io [encode_boot_record inc prior] (st_journal st) of
           (Inl e, j) \<Rightarrow> (Inl e, st\<lparr>st_journal := j\<rparr>)
         | (Inr _, j) \<Rightarrow>
             (case flush io j of
                Inl e \<Rightarrow> (Inl e, st\<lparr>st_journal := j\<rparr>)
              | Inr _ \<Rightarrow> (Inr inc, st\<lparr>st_journal := j,
                  st_state := (st_state st)\<lparr>ps_last_incarnation := inc, ps_boot_epoch := epoch\<rparr>,
                  st_report := (st_report st)\<lparr>rp_previous_boot := prior, rp_boot := epoch\<rparr>\<rparr>))))"

fun apply_strictly :: "jrecord list \<Rightarrow> memory \<Rightarrow> status \<times> memory" where
  "apply_strictly [] m = (ok_status, m)"
| "apply_strictly (rec # recs) m =
     (case apply_record rec True m of
        (Inl e, m) \<Rightarrow> (Inl (make_error Internal
          (''journal accepted a record the store could not apply: '' @ err_detail e)), m)
      | (Inr _, m) \<Rightarrow> apply_strictly recs m)"

definition append_and_apply :: "io_env \<Rightarrow> jrecord list \<Rightarrow> store \<Rightarrow> status \<times> store" where
  "append_and_apply io recs st =
     (case for_status validate_record recs of
        Inl e \<Rightarrow> (Inl e, st)
      | Inr _ \<Rightarrow>
          (case append_transaction io recs (st_journal st) of
             (Inl e, j) \<Rightarrow> (Inl e, st\<lparr>st_journal := j\<rparr>)
           | (Inr _, j) \<Rightarrow>
               (case flush io j of
                  Inl e \<Rightarrow> (Inl e, st\<lparr>st_journal := j\<rparr>)
                | Inr _ \<Rightarrow>
                    (case apply_strictly recs (st_state st, st_report st) of
                       (Inl e, s, rep) \<Rightarrow> (Inl e, st\<lparr>st_journal := j, st_state := s, st_report := rep\<rparr>)
                     | (Inr _, s, rep) \<Rightarrow>
                         (ok_status, st\<lparr>st_journal := j, st_state := bump s, st_report := rep\<rparr>)))))"

definition commit_topology :: "io_env \<Rightarrow> topology \<Rightarrow> store \<Rightarrow> status \<times> store" where
  "commit_topology io t st = (case validate_topology t of
     Inl e \<Rightarrow> (Inl e, st)
   | Inr _ \<Rightarrow> append_and_apply io [encode_topology_record t] st)"

definition commit_policy :: "io_env \<Rightarrow> policy \<Rightarrow> store \<Rightarrow> status \<times> store" where
  "commit_policy io p st = (case validate_policy p of
     Inl e \<Rightarrow> (Inl e, st)
   | Inr _ \<Rightarrow> append_and_apply io [encode_policy_record p] st)"

definition with_jobs :: "job_table \<Rightarrow> store \<Rightarrow> store" where
  "with_jobs t st = st\<lparr>st_state := (st_state st)\<lparr>ps_jobs := t\<rparr>\<rparr>"

definition store_jobs :: "store \<Rightarrow> job_table" where
  "store_jobs st = ps_jobs (st_state st)"

text \<open>Rolling back ignores the result of \<^verbatim>\<open>adopt\<close>.\<close>

definition adopt_quietly :: "job \<Rightarrow> job_table \<Rightarrow> job_table" where
  "adopt_quietly j t = (case adopt_job j t of Inl e \<Rightarrow> t | Inr t \<Rightarrow> t)"

definition create_job :: "io_env \<Rightarrow> job \<Rightarrow> store \<Rightarrow> job_id result \<times> store" where
  "create_job io j st =
     (if length (jt_jobs (store_jobs st)) \<ge> kMaxJobsTotal then
        (Inl (make_error LimitExceeded ''job table is at capacity''), st)
      else
        let (i, t) = allocate_job_id (store_jobs st);
            st = with_jobs t st;
            j = j\<lparr>j_id := i, j_revision := 1\<rparr> in
        (case insert_job j t of
           Inl e \<Rightarrow> (Inl e, st)
         | Inr t \<Rightarrow>
             (case append_and_apply io [encode_job_record j] (with_jobs t st) of
                (Inl e, st) \<Rightarrow> (Inl e, with_jobs (erase_job_quietly i (store_jobs st)) st)
              | (Inr _, st) \<Rightarrow> (Inr i, st))))"

definition allocate_evidence_id :: "store \<Rightarrow> evidence_id \<times> store" where
  "allocate_evidence_id st =
     (let n = st_evidence_sequence st + 1;
          boot = ci_epoch (ps_last_incarnation (st_state st));
          epoch = (if id_valid boot then boot else 1) in
      (push_bit 40 epoch OR (n AND 0xFFFFFFFFFF), st\<lparr>st_evidence_sequence := n\<rparr>))"

definition with_quarantines :: "quarantine_table \<Rightarrow> store \<Rightarrow> store" where
  "with_quarantines t st = st\<lparr>st_state := (st_state st)\<lparr>ps_quarantines := t\<rparr>\<rparr>"

definition quarantine_target ::
    "io_env \<Rightarrow> target_id \<Rightarrow> job_id \<Rightarrow> generation_id \<Rightarrow> block_reason \<Rightarrow> string \<Rightarrow> nanos \<Rightarrow> incarnation \<Rightarrow>
     store \<Rightarrow> quarantine_id result \<times> store" where
  "quarantine_target io tgt job_ref generation reason detail now inc st =
     (let (i, t) = allocate_quarantine_id (ps_quarantines (st_state st));
          st = with_quarantines t st;
          r0 = \<lparr>q_id = i, q_target = tgt, q_job = job_ref, q_generation = generation, q_reason = reason,
            q_detail = detail, q_created_at = now, q_created_by = inc, q_cleared = False, q_cleared_at = 0,
            q_cleared_by = [], q_digest = 0\<rparr>;
          r = r0\<lparr>q_digest := quarantine_digest r0\<rparr> in
      (case insert_quarantine r t of
         Inl e \<Rightarrow> (Inl e, st)
       | Inr staging \<Rightarrow>
           (case append_transaction io [encode_quarantine_record r] (st_journal st) of
              (Inl e, j) \<Rightarrow> (Inl e, st\<lparr>st_journal := j\<rparr>)
            | (Inr _, j) \<Rightarrow>
                (Inr i, st\<lparr>st_journal := j, st_state := bump ((st_state st)\<lparr>ps_quarantines := staging\<rparr>)\<rparr>))))"

definition commit_job :: "io_env \<Rightarrow> job \<Rightarrow> store \<Rightarrow> status \<times> store" where
  "commit_job io j st =
     (let existing = find_job (store_jobs st) (j_id j) in
      case put_job j (store_jobs st) of
        Inl e \<Rightarrow> (Inl e, st)
      | Inr t \<Rightarrow>
          (case append_and_apply io [encode_job_record j] (with_jobs t st) of
             (Inl e, st) \<Rightarrow> (Inl e, with_jobs (case existing of
                 Some previous \<Rightarrow> adopt_quietly previous (store_jobs st)
               | None \<Rightarrow> erase_job_quietly (j_id j) (store_jobs st)) st)
           | (Inr _, st) \<Rightarrow> (ok_status, st)))"

text \<open>The staging loop of \<^verbatim>\<open>commit_jobs\<close>: the previous versions, oldest first, and the table so far.\<close>

fun stage_jobs :: "job list \<Rightarrow> job list \<Rightarrow> job_table \<Rightarrow> status \<times> job list \<times> job_table" where
  "stage_jobs [] previous t = (ok_status, previous, t)"
| "stage_jobs (j # js) previous t =
     (case find_job t (j_id j) of
        None \<Rightarrow> (Inl (make_error NotFound (''job '' @ to_string_job (j_id j) @ '' does not exist'')),
          previous, fold adopt_quietly previous t)
      | Some existing \<Rightarrow>
          (case put_job j t of
             Inl e \<Rightarrow> (Inl e, previous @ [existing], fold adopt_quietly (previous @ [existing]) t)
           | Inr t \<Rightarrow> stage_jobs js (previous @ [existing]) t))"

definition commit_jobs :: "io_env \<Rightarrow> job list \<Rightarrow> store \<Rightarrow> status \<times> store" where
  "commit_jobs io js st =
     (if js = [] then (Inl (invalid_argument ''no jobs supplied''), st)
      else case stage_jobs js [] (store_jobs st) of
        (Inl e, previous, t) \<Rightarrow> (Inl e, with_jobs t st)
      | (Inr _, previous, t) \<Rightarrow>
          (case append_and_apply io (map encode_job_record js) (with_jobs t st) of
             (Inl e, st) \<Rightarrow> (Inl e, with_jobs (fold adopt_quietly previous (store_jobs st)) st)
           | (Inr _, st) \<Rightarrow> (ok_status, st)))"

definition commit_job_erased :: "io_env \<Rightarrow> job_id \<Rightarrow> store \<Rightarrow> status \<times> store" where
  "commit_job_erased io i st =
     (case find_job (store_jobs st) i of
        None \<Rightarrow> (Inl (make_error NotFound (''job '' @ to_string_job i @ '' does not exist'')), st)
      | Some previous \<Rightarrow>
          (case erase_job i (store_jobs st) of
             Inl e \<Rightarrow> (Inl e, st)
           | Inr t \<Rightarrow>
               (case append_and_apply io [encode_job_erased_record i] (with_jobs t st) of
                  (Inl e, st) \<Rightarrow> (Inl e, with_jobs (adopt_quietly previous (store_jobs st)) st)
                | (Inr _, st) \<Rightarrow> (ok_status, st))))"

text \<open>
  The other operations stage the change on a copy, append the record without flushing, and install
  the copy when the append succeeded.
\<close>

definition append_then :: "io_env \<Rightarrow> jrecord list \<Rightarrow> persisted_state \<Rightarrow> store \<Rightarrow> status \<times> store" where
  "append_then io recs s st =
     (case append_transaction io recs (st_journal st) of
        (Inl e, j) \<Rightarrow> (Inl e, st\<lparr>st_journal := j\<rparr>)
      | (Inr _, j) \<Rightarrow> (ok_status, st\<lparr>st_journal := j, st_state := bump s\<rparr>))"

definition observe_evidence :: "io_env \<Rightarrow> evidence_record \<Rightarrow> store \<Rightarrow> status \<times> store" where
  "observe_evidence io e st =
     (case observe e (ps_evidence (st_state st)) of
        (Inl err, _) \<Rightarrow> (Inl err, st)
      | (Inr _, staging) \<Rightarrow> append_then io [encode_evidence_record e] ((st_state st)\<lparr>ps_evidence := staging\<rparr>) st)"

definition reserve_authority :: "io_env \<Rightarrow> reservation \<Rightarrow> store \<Rightarrow> authority_id result \<times> store" where
  "reserve_authority io a st =
     (case reserve a (ps_ledger (st_state st)) of
        (Inl e, _) \<Rightarrow> (Inl e, st)
      | (Inr i, staging) \<Rightarrow>
          (case find_reservation staging i of
             None \<Rightarrow> (Inl (internal_error ''authority ledger lost a reservation it just granted''), st)
           | Some stored \<Rightarrow>
               (case append_then io [encode_reservation_record stored] ((st_state st)\<lparr>ps_ledger := staging\<rparr>) st of
                  (Inl e, st) \<Rightarrow> (Inl e, st)
                | (Inr _, st) \<Rightarrow> (Inr i, st))))"

definition insert_authority :: "io_env \<Rightarrow> reservation \<Rightarrow> store \<Rightarrow> status \<times> store" where
  "insert_authority io a st =
     (case adopt_reservation a (ps_ledger (st_state st)) of
        Inl e \<Rightarrow> (Inl e, st)
      | Inr staging \<Rightarrow> append_then io [encode_reservation_record a] ((st_state st)\<lparr>ps_ledger := staging\<rparr>) st)"

definition release_authority :: "io_env \<Rightarrow> authority_id \<Rightarrow> incarnation \<Rightarrow> store \<Rightarrow> status \<times> store" where
  "release_authority io i current st =
     (case release i current (ps_ledger (st_state st)) of
        Inl e \<Rightarrow> (Inl e, st)
      | Inr staging \<Rightarrow> append_then io [encode_reservation_erased_record i] ((st_state st)\<lparr>ps_ledger := staging\<rparr>) st)"

definition renew_authority ::
    "io_env \<Rightarrow> authority_id \<Rightarrow> attempt_id \<Rightarrow> incarnation \<Rightarrow> nanos \<Rightarrow> nanos \<Rightarrow> store \<Rightarrow> status \<times> store" where
  "renew_authority io i attempt current extension now st =
     (case renew i attempt current extension now (ps_ledger (st_state st)) of
        Inl e \<Rightarrow> (Inl e, st)
      | Inr staging \<Rightarrow>
          (case find_reservation staging i of
             None \<Rightarrow> (Inl (internal_error ''authority ledger lost a reservation it just renewed''), st)
           | Some stored \<Rightarrow>
               append_then io [encode_reservation_record stored] ((st_state st)\<lparr>ps_ledger := staging\<rparr>) st))"

definition expire_authority :: "io_env \<Rightarrow> nanos \<Rightarrow> store \<Rightarrow> nat \<times> store" where
  "expire_authority io now st =
     (let expired = map fst (filter (\<lambda>e. \<not> live_at now (snd e)) (lg_reservations (ps_ledger (st_state st)))) in
      if expired = [] then (0, st)
      else
        let (removed, staging) = expire now (ps_ledger (st_state st)) in
        (case append_then io (map encode_reservation_erased_record expired) ((st_state st)\<lparr>ps_ledger := staging\<rparr>) st of
           (Inl e, st) \<Rightarrow> (0, st)
         | (Inr _, st) \<Rightarrow> (removed, st)))"

definition fence_authority :: "io_env \<Rightarrow> incarnation \<Rightarrow> store \<Rightarrow> reservation list \<times> store" where
  "fence_authority io current st =
     (let (revoked, staging) = fence_older_incarnations current (ps_ledger (st_state st)) in
      if revoked = [] then ([], st)
      else case append_then io (map (\<lambda>a. encode_reservation_erased_record (ra_id a)) revoked)
          ((st_state st)\<lparr>ps_ledger := staging\<rparr>) st of
        (Inl e, st) \<Rightarrow> ([], st)
      | (Inr _, st) \<Rightarrow> (revoked, st))"

definition commit_lease :: "io_env \<Rightarrow> drain_lease \<Rightarrow> store \<Rightarrow> status \<times> store" where
  "commit_lease io l st = append_then io [encode_lease_record l]
     ((st_state st)\<lparr>ps_leases := om_set (le_id l) l (ps_leases (st_state st))\<rparr>) st"

definition commit_lease_erased :: "io_env \<Rightarrow> lease_id \<Rightarrow> store \<Rightarrow> status \<times> store" where
  "commit_lease_erased io i st = append_then io [encode_lease_erased_record i]
     ((st_state st)\<lparr>ps_leases := om_erase i (ps_leases (st_state st))\<rparr>) st"

definition commit_quarantine :: "io_env \<Rightarrow> quarantine_record \<Rightarrow> store \<Rightarrow> status \<times> store" where
  "commit_quarantine io q st =
     (let t = ps_quarantines (st_state st) in
      case (if find_quarantine t (q_id q) = None then insert_quarantine q t else put_quarantine q t) of
        Inl e \<Rightarrow> (Inl e, st)
      | Inr staging \<Rightarrow> append_then io [encode_quarantine_record q] ((st_state st)\<lparr>ps_quarantines := staging\<rparr>) st)"

section \<open>Compaction\<close>

definition should_compact :: "store \<Rightarrow> bool" where
  "should_compact st \<longleftrightarrow> jn_records (st_journal st) \<ge> so_compaction_threshold (st_options st)"

definition survives_compaction :: "nanos \<Rightarrow> evidence_record \<Rightarrow> bool" where
  "survives_compaction now e \<longleftrightarrow> \<not> (er_klass e = Volatile \<and> now > er_observed_at e + er_ttl e)"

definition compacted_records :: "nanos \<Rightarrow> boot_epoch \<Rightarrow> persisted_state \<Rightarrow> jrecord list" where
  "compacted_records now prior s =
     [encode_topology_record (ps_topology s), encode_policy_record (ps_policy s)] @
     map (encode_job_record \<circ> snd) (jt_jobs (ps_jobs s)) @
     map (encode_reservation_record \<circ> snd) (lg_reservations (ps_ledger s)) @
     map (encode_lease_record \<circ> snd) (ps_leases s) @
     map (encode_quarantine_record \<circ> snd) (qt_records (ps_quarantines s)) @
     map encode_evidence_record (filter (survives_compaction now) (map snd (es_records (ps_evidence s)))) @
     (if incarnation_valid (ps_last_incarnation s) then [encode_boot_record (ps_last_incarnation s) prior] else [])"

definition compact :: "io_env \<Rightarrow> nanos \<Rightarrow> store \<Rightarrow> status \<times> store" where
  "compact io now st =
     (let recs = compacted_records now (rp_previous_boot (st_report st)) (st_state st) in
      if of_nat (length recs) > kMaxJournalRecords then
        (Inl (make_error LimitExceeded ''compacted state exceeds the journal record bound''), st)
      else case rewrite io recs (st_journal st) of
        (Inl e, j) \<Rightarrow> (Inl e, st\<lparr>st_journal := j\<rparr>)
      | (Inr _, j) \<Rightarrow> (ok_status, st\<lparr>st_journal := j, st_compactions := st_compactions st + 1\<rparr>))"

end
