(* ===== verification/Durability.thy ===== *)
theory Durability
  imports Store
begin

text \<open>
  What the store promises: memory is what the journal says. The abstract store is its \<open>durable\<close>
  view, the tables without statistics, allocators and reports, and a record acts on it by
  \<open>dv_apply\<close>. \<open>apply_record\<close> refines \<open>dv_apply\<close>, so the state rebuilt from a journal is the fold of
  \<open>dv_apply\<close> over its contents, and \<open>store_inv\<close> says that this is the view held in memory.
\<close>

section \<open>The durable view\<close>

record durable_view =
  dv_topology :: topology
  dv_policy :: policy
  dv_jobs :: "(job_id, job) omap"
  dv_evidence :: "(evidence_key, evidence_record) omap"
  dv_capacity :: nat
  dv_reservations :: "(authority_id, reservation) omap"
  dv_quarantines :: "(quarantine_id, quarantine_record) omap"
  dv_leases :: "(lease_id, drain_lease) omap"
  dv_incarnation :: incarnation
  dv_epoch :: boot_epoch

definition durable :: "persisted_state \<Rightarrow> durable_view" where
  "durable s = \<lparr>dv_topology = ps_topology s, dv_policy = ps_policy s, dv_jobs = jt_jobs (ps_jobs s),
     dv_evidence = es_records (ps_evidence s), dv_capacity = es_capacity (ps_evidence s),
     dv_reservations = lg_reservations (ps_ledger s), dv_quarantines = qt_records (ps_quarantines s),
     dv_leases = ps_leases s, dv_incarnation = ps_last_incarnation s, dv_epoch = ps_boot_epoch s\<rparr>"

definition evidence_table :: "nat \<Rightarrow> (evidence_key, evidence_record) omap \<Rightarrow> evidence_store" where
  "evidence_table capacity m =
     \<lparr>es_records = m, es_capacity = capacity, es_observations = 0, es_rejections = 0, es_evictions = 0\<rparr>"

definition observed_table ::
    "evidence_record \<Rightarrow> nat \<Rightarrow> (evidence_key, evidence_record) omap \<Rightarrow> (evidence_key, evidence_record) omap" where
  "observed_table e capacity m = es_records (snd (observe e (evidence_table capacity m)))"

definition seal_reservation :: "reservation \<Rightarrow> reservation" where
  "seal_reservation a = (if ra_digest a = 0 then a\<lparr>ra_digest := reservation_digest a\<rparr> else a)"

text \<open>The effect of a record; one that cannot be decoded has none.\<close>

definition dv_apply :: "jrecord \<Rightarrow> durable_view \<Rightarrow> durable_view" where
  "dv_apply rec v = (case jr_type rec of
     RtTopology \<Rightarrow> (case decode_topology_record rec of Inr t \<Rightarrow> v\<lparr>dv_topology := t\<rparr> | Inl _ \<Rightarrow> v)
   | RtPolicy \<Rightarrow> (case decode_policy_record rec of Inr p \<Rightarrow> v\<lparr>dv_policy := p\<rparr> | Inl _ \<Rightarrow> v)
   | RtJob \<Rightarrow> (case decode_job_record rec of Inr j \<Rightarrow>
       if id_valid (j_id j) then v\<lparr>dv_jobs := om_set (j_id j) j (dv_jobs v)\<rparr> else v | Inl _ \<Rightarrow> v)
   | RtJobErased \<Rightarrow> (case decode_job_erased_record rec of Inr i \<Rightarrow> v\<lparr>dv_jobs := om_erase i (dv_jobs v)\<rparr> | Inl _ \<Rightarrow> v)
   | RtEvidence \<Rightarrow> (case decode_evidence_record rec of
       Inr e \<Rightarrow> v\<lparr>dv_evidence := observed_table e (dv_capacity v) (dv_evidence v)\<rparr> | Inl _ \<Rightarrow> v)
   | RtReservation \<Rightarrow> (case decode_reservation_record rec of Inr a \<Rightarrow>
       if id_valid (ra_id a) \<and> id_valid (ra_job a) then
         v\<lparr>dv_reservations := om_set (ra_id a) (seal_reservation a) (dv_reservations v)\<rparr> else v | Inl _ \<Rightarrow> v)
   | RtReservationErased \<Rightarrow> (case decode_reservation_erased_record rec of
       Inr i \<Rightarrow> v\<lparr>dv_reservations := om_erase i (dv_reservations v)\<rparr> | Inl _ \<Rightarrow> v)
   | RtLease \<Rightarrow> (case decode_lease_record rec of Inr l \<Rightarrow> v\<lparr>dv_leases := om_set (le_id l) l (dv_leases v)\<rparr> | Inl _ \<Rightarrow> v)
   | RtLeaseErased \<Rightarrow> (case decode_lease_erased_record rec of Inr i \<Rightarrow> v\<lparr>dv_leases := om_erase i (dv_leases v)\<rparr> | Inl _ \<Rightarrow> v)
   | RtQuarantine \<Rightarrow> (case decode_quarantine_record rec of Inr q \<Rightarrow>
       if id_valid (q_id q) \<and> target_valid (q_target q) then
         v\<lparr>dv_quarantines := om_set (q_id q) (seal_quarantine q) (dv_quarantines v)\<rparr> else v | Inl _ \<Rightarrow> v)
   | RtBoot \<Rightarrow> (case decode_boot_record rec of
       Inr (i, prior) \<Rightarrow> v\<lparr>dv_incarnation := i, dv_epoch := ci_epoch i\<rparr> | Inl _ \<Rightarrow> v)
   | _ \<Rightarrow> v)"

lemma observe_table:
  "es_records (snd (observe e s)) = observed_table e (es_capacity s) (es_records s)"
  "es_capacity (snd (observe e s)) = es_capacity s"
  by (auto simp: observed_table_def evidence_table_def observe_def rejected_def accepted_def evict_expired_def Let_def
    split: option.splits prod.splits if_splits)

lemma observe_capacity: "observe e s = (r, s') \<Longrightarrow> es_capacity s' = es_capacity s"
  using observe_table(2) [of e s] by simp

lemma om_erase_absent: "om_find m k = None \<Longrightarrow> om_erase k m = m"
  by (induction m) (auto simp: om_find_def om_erase_def split: if_splits)

lemma durable_fields [simp]:
  "dv_topology (durable s) = ps_topology s" "dv_policy (durable s) = ps_policy s"
  "dv_jobs (durable s) = jt_jobs (ps_jobs s)" "dv_evidence (durable s) = es_records (ps_evidence s)"
  "dv_capacity (durable s) = es_capacity (ps_evidence s)" "dv_reservations (durable s) = lg_reservations (ps_ledger s)"
  "dv_quarantines (durable s) = qt_records (ps_quarantines s)" "dv_leases (durable s) = ps_leases s"
  "dv_incarnation (durable s) = ps_last_incarnation s" "dv_epoch (durable s) = ps_boot_epoch s"
  by (simp_all add: durable_def)

lemma durable_discard [simp]: "fst (discard m) = fst m"
  by (simp add: discard_def)

lemma durable_undecodable [simp]: "fst (snd (undecodable strict e m)) = fst m"
  by (simp add: undecodable_def)

text \<open>\<open>apply_record\<close> refines \<open>dv_apply\<close>, strict or not, whether it succeeds or not.\<close>

lemmas apply_defs = apply_topology_def apply_policy_def apply_job_def apply_job_erased_def apply_evidence_def
  apply_reservation_def apply_reservation_erased_def apply_lease_def apply_lease_erased_def apply_quarantine_def
  apply_boot_def

lemma erased_jobs: "jt_jobs (erase_job_quietly i t) = om_erase i (jt_jobs t)"
  by (auto simp: erase_job_quietly_def erase_job_def find_job_def om_erase_absent)

lemma apply_record_refines: "durable (fst (snd (apply_record rec strict m))) = dv_apply rec (durable (fst m))"
  by (cases "jr_type rec")
    (auto simp: apply_record_def dv_apply_def apply_defs durable_def erased_jobs observe_table(1) [symmetric]
      adopt_job_def adopt_reservation_def adopt_quarantine_def erase_reservation_def seal_reservation_def Let_def
      split: sum.splits prod.splits dest: observe_capacity)

section \<open>Well-formed views\<close>

definition keyed :: "('a \<Rightarrow> u64) \<Rightarrow> (u64, 'a) omap \<Rightarrow> bool" where
  "keyed key m \<longleftrightarrow> om_ok m \<and> (\<forall>i x. om_find m i = Some x \<longrightarrow> key x = i \<and> id_valid i)"

definition dv_wf :: "durable_view \<Rightarrow> bool" where
  "dv_wf v \<longleftrightarrow> keyed j_id (dv_jobs v) \<and> keyed ra_id (dv_reservations v) \<and> keyed q_id (dv_quarantines v) \<and>
     keyed le_id (dv_leases v)"

lemma keyed_set: "keyed key m \<Longrightarrow> key x = i \<Longrightarrow> id_valid i \<Longrightarrow> keyed key (om_set i x m)"
  by (simp add: keyed_def table_inv table_simps)

lemma keyed_erase: "keyed key m \<Longrightarrow> keyed key (om_erase i m)"
  by (simp add: keyed_def table_inv table_simps)

lemma decode_with_accepts:
  "decode_with ty article what body accept malformed rec = Inr x \<Longrightarrow> accept x = ok_status"
  by (auto simp: decode_with_def dbind_def split: if_splits sum.splits prod.splits)

lemma decoded_lease_valid: "decode_lease_record rec = Inr l \<Longrightarrow> id_valid (le_id l)"
  unfolding decode_lease_record_def by (drule decode_with_accepts) (simp add: accept_if_def split: if_splits)

lemma seal_keys [simp]: "ra_id (seal_reservation a) = ra_id a" "q_id (seal_quarantine q) = q_id q"
  by (simp_all add: seal_reservation_def seal_quarantine_def)

lemma dv_apply_wf: "dv_wf v \<Longrightarrow> dv_wf (dv_apply rec v)"
  by (cases "jr_type rec")
    (auto simp: dv_wf_def dv_apply_def keyed_set keyed_erase decoded_lease_valid split: sum.splits prod.splits)

lemma dv_fold_wf: "dv_wf v \<Longrightarrow> dv_wf (fold dv_apply recs v)"
  by (induction recs arbitrary: v) (simp_all add: dv_apply_wf)

section \<open>Memory is what the journal says\<close>

definition replayed_view :: "store_options \<Rightarrow> jrecord list \<Rightarrow> durable_view" where
  "replayed_view opts recs = fold dv_apply recs (durable (new_state opts))"

definition store_inv :: "store \<Rightarrow> bool" where
  "store_inv st \<longleftrightarrow> journal_ready (st_journal st) \<and>
     durable (st_state st) = replayed_view (st_options st) (journal_contents (st_journal st))"

definition synced_io :: "io_env \<Rightarrow> bool" where
  "synced_io io \<longleftrightarrow> clean_io io \<and> io_flush io \<and> io_sync io"

lemma new_state_wf: "dv_wf (durable (new_state opts))"
  by (simp add: dv_wf_def new_state_def keyed_def empty_job_table_def new_ledger_def empty_quarantine_def)

lemma store_inv_wf: "store_inv st \<Longrightarrow> dv_wf (durable (st_state st))"
  by (simp add: store_inv_def replayed_view_def dv_fold_wf new_state_wf)

lemma replay_visit_refines: "durable (fst (replay_visit rec m)) = dv_apply rec (durable (fst m))"
  using apply_record_refines [of rec "jr_type rec = RtTopology \<or> jr_type rec = RtPolicy" m]
  by (auto simp: replay_visit_def split: prod.splits sum.splits)

lemma replay_visits_refine: "durable (fst (fold replay_visit recs m)) = fold dv_apply recs (durable (fst m))"
  by (induction recs arbitrary: m) (simp_all add: replay_visit_refines)

lemma replayed_view_append: "replayed_view opts (xs @ ys) = fold dv_apply ys (replayed_view opts xs)"
  by (simp add: replayed_view_def)

lemma bump_durable [simp]: "durable (bump s) = durable s"
  by (simp add: bump_def durable_def)

text \<open>The two ways to commit, once for all operations.\<close>

lemma append_then_inv:
  assumes "store_inv st" "clean_io io" "fold dv_apply recs (durable (st_state st)) = durable s"
  shows "store_inv (snd (append_then io recs s st))"
proof -
  obtain status j where step: "append_transaction io recs (st_journal st) = (status, j)" by fastforce
  have ready: "journal_ready (st_journal st)" using assms(1) by (simp add: store_inv_def)
  show ?thesis
  proof (cases status)
    case (Inl e)
    then show ?thesis
      using journal_log.append_refused [OF ready assms(2)] step assms(1) by (simp add: append_then_def store_inv_def)
  next
    case (Inr u)
    have "journal_ready j \<and> journal_contents j = journal_contents (st_journal st) @ recs"
      using journal_log.append_acknowledged [OF ready] step Inr by blast
    then show ?thesis
      using step Inr assms(1,3) by (simp add: append_then_def store_inv_def replayed_view_append)
  qed
qed

lemma append_and_apply_one:
  assumes "journal_ready (st_journal st)" "synced_io io" "append_and_apply io [rec] st = (status, st')"
  shows "journal_ready (st_journal st') \<and> st_options st' = st_options st \<and>
    (durable (st_state st') = dv_apply rec (durable (st_state st)) \<and>
       journal_contents (st_journal st') = journal_contents (st_journal st) @ [rec] \<or>
     st_state st' = st_state st \<and> journal_contents (st_journal st') = journal_contents (st_journal st) \<and> \<not> is_ok status)"
proof -
  have clean: "clean_io io" and flushed: "\<And>j. jn_open j \<Longrightarrow> flush io j = ok_status"
    using assms(2) by (simp_all add: synced_io_def flush_def sync_file_def)
  show ?thesis
  proof (cases "for_status validate_record [rec]")
    case (Inl e)
    have "status = Inl e \<and> st' = st" using assms(3) unfolding append_and_apply_def Inl by simp
    then show ?thesis using assms(1) by simp
  next
    case valid: (Inr u)
    obtain st1 j where step: "append_transaction io [rec] (st_journal st) = (st1, j)" by fastforce
    show ?thesis
    proof (cases st1)
      case (Inl e)
      then show ?thesis
        using journal_log.append_refused [OF assms(1) clean] step valid assms(3) by (auto simp: append_and_apply_def)
    next
      case (Inr v)
      have next_j: "journal_ready j" "journal_contents j = journal_contents (st_journal st) @ [rec]"
        using journal_log.append_acknowledged [OF assms(1)] step Inr by blast+
      have "jn_open j" using append_transaction_ok [of io "[rec]" "st_journal st" v j] step Inr by simp
      obtain a s rep where ap: "apply_record rec True (st_state st, st_report st) = (a, s, rep)" using prod_cases3 by blast
      have "append_and_apply io [rec] st = (case apply_strictly [rec] (st_state st, st_report st) of
          (Inl e, s, rep) \<Rightarrow> (Inl e, st\<lparr>st_journal := j, st_state := s, st_report := rep\<rparr>)
        | (Inr _, s, rep) \<Rightarrow> (ok_status, st\<lparr>st_journal := j, st_state := bump s, st_report := rep\<rparr>))"
        unfolding append_and_apply_def valid step Inr by (simp add: flushed [OF \<open>jn_open j\<close>])
      then have "st_journal st' = j \<and> st_options st' = st_options st \<and> durable (st_state st') = durable s"
        using assms(3) ap by (cases a) auto
      moreover have "durable s = dv_apply rec (durable (st_state st))"
        using apply_record_refines [of rec True "(st_state st, st_report st)"] by (simp add: ap)
      ultimately show ?thesis using next_j by simp
    qed
  qed
qed

section \<open>The effect of the records\<close>

lemma dv_job: "job_fits j \<Longrightarrow> dv_apply (encode_job_record j) v = v\<lparr>dv_jobs := om_set (j_id j) j (dv_jobs v)\<rparr>"
  by (simp add: dv_apply_def job_rec.typed job_rec.decode_enc) (simp add: job_fits_def)

lemma dv_job_erased: "id_valid i \<Longrightarrow> dv_apply (encode_job_erased_record i) v = v\<lparr>dv_jobs := om_erase i (dv_jobs v)\<rparr>"
  by (simp add: dv_apply_def job_erased_rec.typed job_erased_rec.decode_enc)

lemma dv_observation: "evidence_fits e \<Longrightarrow>
    dv_apply (encode_evidence_record e) v = v\<lparr>dv_evidence := observed_table e (dv_capacity v) (dv_evidence v)\<rparr>"
  by (simp add: dv_apply_def evidence_rec.typed evidence_rec.decode_enc)

lemma dv_reservation: "reservation_fits a \<Longrightarrow>
    dv_apply (encode_reservation_record a) v = v\<lparr>dv_reservations := om_set (ra_id a) (seal_reservation a) (dv_reservations v)\<rparr>"
  by (simp add: dv_apply_def reservation_rec.typed reservation_rec.decode_enc)
    (simp add: reservation_fits_def reservation_acceptable_def)

lemma dv_reservation_erased: "id_valid i \<Longrightarrow>
    dv_apply (encode_reservation_erased_record i) v = v\<lparr>dv_reservations := om_erase i (dv_reservations v)\<rparr>"
  by (simp add: dv_apply_def reservation_erased_rec.typed reservation_erased_rec.decode_enc)

lemma dv_lease: "lease_fits l \<Longrightarrow> dv_apply (encode_lease_record l) v = v\<lparr>dv_leases := om_set (le_id l) l (dv_leases v)\<rparr>"
  by (simp add: dv_apply_def lease_rec.typed lease_rec.decode_enc)

lemma dv_lease_erased: "id_valid i \<Longrightarrow> dv_apply (encode_lease_erased_record i) v = v\<lparr>dv_leases := om_erase i (dv_leases v)\<rparr>"
  by (simp add: dv_apply_def lease_erased_rec.typed lease_erased_rec.decode_enc)

lemma dv_quarantine: "quarantine_fits q \<Longrightarrow>
    dv_apply (encode_quarantine_record q) v = v\<lparr>dv_quarantines := om_set (q_id q) (seal_quarantine q) (dv_quarantines v)\<rparr>"
  by (simp add: dv_apply_def quarantine_rec.typed quarantine_rec.decode_enc) (simp add: quarantine_fits_def)

lemma dv_boot: "incarnation_valid i \<Longrightarrow>
    dv_apply (encode_boot_record i prior) v = v\<lparr>dv_incarnation := i, dv_epoch := ci_epoch i\<rparr>"
  using boot_rec.typed [of "(i, prior)"] boot_rec.decode_enc [of "(i, prior)"] by (simp add: dv_apply_def)

lemmas dv_effects = dv_job dv_job_erased dv_observation dv_reservation dv_reservation_erased dv_lease dv_lease_erased
  dv_quarantine dv_boot

lemma dv_erase_all:
  "\<forall>i \<in> set is. id_valid i \<Longrightarrow> fold dv_apply (map encode_reservation_erased_record is) v =
     v\<lparr>dv_reservations := fold om_erase is (dv_reservations v)\<rparr>"
  by (induction "is" arbitrary: v) (simp_all add: dv_reservation_erased)

lemma fold_om_erase: "fold om_erase is m = filter (\<lambda>e. fst e \<notin> set is) m"
  by (induction "is" arbitrary: m) (auto simp: om_erase_def intro: filter_cong)

section \<open>The operations keep the invariant\<close>

lemma commit_topology_inv:
  assumes "store_inv st" "synced_io io"
  shows "store_inv (snd (commit_topology io t st))"
proof (cases "validate_topology t")
  case (Inr u)
  obtain status st' where step: "append_and_apply io [encode_topology_record t] st = (status, st')" by fastforce
  show ?thesis
    using append_and_apply_one [OF _ assms(2) step] assms(1) Inr step
    by (auto simp: commit_topology_def store_inv_def replayed_view_append)
qed (simp add: commit_topology_def assms)

lemma commit_policy_inv:
  assumes "store_inv st" "synced_io io"
  shows "store_inv (snd (commit_policy io p st))"
proof (cases "validate_policy p")
  case (Inr u)
  obtain status st' where step: "append_and_apply io [encode_policy_record p] st = (status, st')" by fastforce
  show ?thesis
    using append_and_apply_one [OF _ assms(2) step] assms(1) Inr step
    by (auto simp: commit_policy_def store_inv_def replayed_view_append)
qed (simp add: commit_policy_def assms)

lemma observe_evidence_inv:
  assumes "store_inv st" "clean_io io" "evidence_fits e"
  shows "store_inv (snd (observe_evidence io e st))"
proof -
  obtain status s where step: "observe e (ps_evidence (st_state st)) = (status, s)" by fastforce
  have view: "fold dv_apply [encode_evidence_record e] (durable (st_state st)) = durable ((st_state st)\<lparr>ps_evidence := s\<rparr>)"
    using observe_table [of e "ps_evidence (st_state st)"] step assms(3)
    by (simp add: dv_observation durable_def)
  show ?thesis
    using append_then_inv [OF assms(1,2) view] assms(1) step
    by (cases status) (simp_all add: observe_evidence_def)
qed

lemma seal_digested: "seal_reservation (a\<lparr>ra_digest := reservation_digest a\<rparr>) = a\<lparr>ra_digest := reservation_digest a\<rparr>"
proof -
  have "reservation_digest (a\<lparr>ra_digest := d\<rparr>) = reservation_digest a" for d by (simp add: reservation_digest_def)
  then show ?thesis by (simp add: seal_reservation_def)
qed

lemma insert_authority_inv:
  assumes "store_inv st" "clean_io io" "reservation_fits a"
  shows "store_inv (snd (insert_authority io a st))"
proof (cases "adopt_reservation a (ps_ledger (st_state st))")
  case (Inr l)
  have "fold dv_apply [encode_reservation_record a] (durable (st_state st)) = durable ((st_state st)\<lparr>ps_ledger := l\<rparr>)"
    using Inr assms(3)
    by (auto simp: dv_reservation durable_def adopt_reservation_def seal_reservation_def Let_def split: if_splits)
  then show ?thesis using append_then_inv [OF assms(1,2)] Inr by (simp add: insert_authority_def)
qed (simp add: insert_authority_def assms(1))

lemma reserve_authority_inv:
  assumes "store_inv st" "clean_io io"
    "find_reservation (ps_ledger (st_state st)) (lg_next_id (ps_ledger (st_state st))) = None"
    "reservation_fits (granted_reservation a (lg_next_id (ps_ledger (st_state st))))"
  shows "store_inv (snd (reserve_authority io a st))"
proof (cases "reserve_guard a (ps_ledger (st_state st))")
  case False
  then have "\<exists>e l. reserve a (ps_ledger (st_state st)) = (Inl e, l)"
    using reserve_granted_iff [of a "ps_ledger (st_state st)"]
    by (metis is_ok_simps(1) old.sum.exhaust prod.collapse)
  then show ?thesis using assms(1) by (auto simp: reserve_authority_def)
next
  case True
  let ?l = "ps_ledger (st_state st)"
  let ?a = "granted_reservation a (lg_next_id ?l)"
  let ?staging = "snd (reserve a ?l)"
  have unused: "om_find (lg_reservations ?l) (lg_next_id ?l) = None"
    using assms(3) by (simp add: find_reservation_def)
  have staged: "reserve a ?l = (Inr (lg_next_id ?l), ?staging)" "find_reservation ?staging (lg_next_id ?l) = Some ?a"
      "lg_reservations ?staging = om_set (lg_next_id ?l) ?a (lg_reservations ?l)"
    using reserve_exact [OF True] unused by (simp_all add: find_reservation_def om_emplace_fresh table_simps)
  have "seal_reservation ?a = ?a" by (simp add: granted_reservation_def Let_def seal_digested)
  then have view: "fold dv_apply [encode_reservation_record ?a] (durable (st_state st)) =
      durable ((st_state st)\<lparr>ps_ledger := ?staging\<rparr>)"
    using assms(4) staged(3) by (simp add: dv_reservation durable_def)
  show ?thesis
    using append_then_inv [OF assms(1,2) view] staged(1,2)
    by (auto simp: reserve_authority_def split: prod.splits sum.splits)
qed

lemma held_valid: "store_inv st \<Longrightarrow> find_reservation (ps_ledger (st_state st)) i = Some a \<Longrightarrow> ra_id a = i \<and> id_valid i"
  using store_inv_wf [of st] by (simp add: dv_wf_def keyed_def find_reservation_def)

lemma release_authority_inv:
  assumes "store_inv st" "clean_io io"
  shows "store_inv (snd (release_authority io i current st))"
proof (cases "release i current (ps_ledger (st_state st))")
  case (Inr l)
  then have "find_reservation (ps_ledger (st_state st)) i \<noteq> None" "lg_reservations l = om_erase i (lg_reservations (ps_ledger (st_state st)))"
    by (auto simp: release_def split: option.splits if_splits)
  with held_valid [OF assms(1)]
  have "fold dv_apply [encode_reservation_erased_record i] (durable (st_state st)) = durable ((st_state st)\<lparr>ps_ledger := l\<rparr>)"
    by (auto simp: dv_reservation_erased durable_def)
  then show ?thesis using append_then_inv [OF assms(1,2)] Inr by (simp add: release_authority_def)
qed (simp add: release_authority_def assms(1))

lemma renew_authority_inv:
  assumes "store_inv st" "clean_io io"
    "\<And>a. find_reservation (ps_ledger (st_state st)) i = Some a \<Longrightarrow> reservation_fits (renewed extension now a)"
  shows "store_inv (snd (renew_authority io i attempt current extension now st))"
proof (cases "renew i attempt current extension now (ps_ledger (st_state st))")
  case (Inr l)
  then obtain a where a: "find_reservation (ps_ledger (st_state st)) i = Some a"
      "lg_reservations l = om_set i (renewed extension now a) (lg_reservations (ps_ledger (st_state st)))"
    by (auto simp: renew_exact)
  then have stored: "find_reservation l i = Some (renewed extension now a)" by (simp add: find_reservation_def table_simps)
  have "seal_reservation (renewed extension now a) = renewed extension now a"
    by (simp add: renewed_def Let_def seal_digested)
  then have "fold dv_apply [encode_reservation_record (renewed extension now a)] (durable (st_state st)) =
      durable ((st_state st)\<lparr>ps_ledger := l\<rparr>)"
    using assms(3) [OF a(1)] a(2) held_valid [OF assms(1) a(1)] by (simp add: dv_reservation durable_def)
  then show ?thesis using append_then_inv [OF assms(1,2)] Inr stored by (simp add: renew_authority_def)
qed (simp add: renew_authority_def assms(1))

lemma keys_where:
  assumes "om_ok m"
  shows "fst ` {e \<in> set m. P (snd e)} = {i. \<exists>x. om_find m i = Some x \<and> P x}"
proof (intro set_eqI iffI)
  fix i assume "i \<in> {i. \<exists>x. om_find m i = Some x \<and> P x}"
  then obtain x where "(i, x) \<in> set m" "P x" using om_in_items [OF assms, of "(i, _)"] by auto
  then show "i \<in> fst ` {e \<in> set m. P (snd e)}" by force
qed (auto simp: om_in_items [OF assms])

lemma erased_by_ids:
  assumes "keyed key m" "set is = {i. \<exists>x. om_find m i = Some x \<and> P x}"
  shows "fold om_erase is m = om_filter (\<lambda>x. \<not> P x) m"
proof -
  have ok: "om_ok m" using assms(1) by (simp add: keyed_def)
  show ?thesis
    unfolding fold_om_erase om_filter_def
    by (rule filter_cong) (auto simp: assms(2) om_in_items [OF ok])
qed

lemma erase_ids_view:
  assumes "store_inv st" "set is = {i. \<exists>a. om_find (lg_reservations (ps_ledger (st_state st))) i = Some a \<and> P a}"
    and "lg_reservations l = om_filter (\<lambda>a. \<not> P a) (lg_reservations (ps_ledger (st_state st)))"
  shows "fold dv_apply (map encode_reservation_erased_record is) (durable (st_state st)) =
    durable ((st_state st)\<lparr>ps_ledger := l\<rparr>)"
proof -
  have held: "keyed ra_id (lg_reservations (ps_ledger (st_state st)))"
    using store_inv_wf [OF assms(1)] by (simp add: dv_wf_def)
  then have "\<forall>i \<in> set is. id_valid i" using assms(2) by (auto simp: keyed_def)
  from dv_erase_all [OF this] erased_by_ids [OF held assms(2)] assms(3) show ?thesis by (simp add: durable_def)
qed

lemma expire_authority_inv:
  assumes "store_inv st" "clean_io io"
  shows "store_inv (snd (expire_authority io now st))"
proof -
  let ?m = "lg_reservations (ps_ledger (st_state st))"
  let ?ids = "map fst (filter (\<lambda>e. \<not> live_at now (snd e)) ?m)"
  have ok: "om_ok ?m" using store_inv_wf [OF assms(1)] by (simp add: dv_wf_def keyed_def)
  have "set ?ids = {i. \<exists>a. om_find ?m i = Some a \<and> \<not> live_at now a}"
    using keys_where [OF ok, of "\<lambda>a. \<not> live_at now a"] by simp
  from erase_ids_view [OF assms(1) this, of "snd (expire now (ps_ledger (st_state st)))"]
  have view: "fold dv_apply (map encode_reservation_erased_record ?ids) (durable (st_state st)) =
      durable ((st_state st)\<lparr>ps_ledger := snd (expire now (ps_ledger (st_state st)))\<rparr>)"
    by (simp add: expire_def Let_def)
  show ?thesis
    using append_then_inv [OF assms(1,2) view] assms(1)
    by (auto simp: expire_authority_def expire_def Let_def split: prod.splits sum.splits)
qed

lemma fence_authority_inv:
  assumes "store_inv st" "clean_io io"
  shows "store_inv (snd (fence_authority io current st))"
proof -
  let ?m = "lg_reservations (ps_ledger (st_state st))"
  obtain revoked l where fence: "fence_older_incarnations current (ps_ledger (st_state st)) = (revoked, l)" by fastforce
  have held: "keyed ra_id ?m" using store_inv_wf [OF assms(1)] by (simp add: dv_wf_def)
  then have items: "e \<in> set ?m \<longleftrightarrow> om_find ?m (fst e) = Some (snd e)" for e by (simp add: keyed_def om_in_items)
  have revoked: "set revoked = {a \<in> snd ` set ?m. is_fenced_by (ra_owner a) current}"
    using fence by (force simp: fence_older_incarnations_def)
  have ids: "set (map ra_id revoked) = {i. \<exists>a. om_find ?m i = Some a \<and> is_fenced_by (ra_owner a) current}"
    using held items by (force simp: revoked keyed_def image_iff)
  have "lg_reservations l = om_filter (\<lambda>a. \<not> is_fenced_by (ra_owner a) current) ?m"
    using fence by (auto simp: fence_older_incarnations_def)
  from erase_ids_view [OF assms(1) ids this]
  have view: "fold dv_apply (map (\<lambda>a. encode_reservation_erased_record (ra_id a)) revoked) (durable (st_state st)) =
      durable ((st_state st)\<lparr>ps_ledger := l\<rparr>)"
    by (simp add: comp_def)
  show ?thesis
    using append_then_inv [OF assms(1,2) view] assms(1) fence
    by (auto simp: fence_authority_def split: prod.splits sum.splits)
qed

lemma commit_lease_inv:
  assumes "store_inv st" "clean_io io" "lease_fits l"
  shows "store_inv (snd (commit_lease io l st))"
  unfolding commit_lease_def using assms by (intro append_then_inv) (simp_all add: dv_lease durable_def)

lemma commit_lease_erased_inv:
  assumes "store_inv st" "clean_io io" "id_valid i"
  shows "store_inv (snd (commit_lease_erased io i st))"
  unfolding commit_lease_erased_def using assms by (intro append_then_inv) (simp_all add: dv_lease_erased durable_def)

lemma quarantine_digest_self: "quarantine_digest (q\<lparr>q_digest := d\<rparr>) = quarantine_digest q"
  by (simp add: quarantine_digest_def)

lemma seal_quarantine_digested: "q_digest q = quarantine_digest q \<Longrightarrow> seal_quarantine q = q"
  by (simp add: seal_quarantine_def)

lemma inserted_quarantine:
  "insert_quarantine q t = Inr t' \<Longrightarrow> qt_records t' = om_set (q_id q) (seal_quarantine q) (qt_records t)"
  by (auto simp: insert_quarantine_def find_quarantine_def om_emplace_fresh split: if_splits)

lemma commit_quarantine_inv:
  assumes "store_inv st" "clean_io io" "quarantine_fits q" "q_digest q = quarantine_digest q"
  shows "store_inv (snd (commit_quarantine io q st))"
proof -
  let ?t = "ps_quarantines (st_state st)"
  let ?staged = "if find_quarantine ?t (q_id q) = None then insert_quarantine q ?t else put_quarantine q ?t"
  show ?thesis
  proof (cases ?staged)
    case (Inr t)
    have "q\<lparr>q_digest := quarantine_digest q\<rparr> = q" using assms(4) by simp
    then have "qt_records t = om_set (q_id q) (seal_quarantine q) (qt_records ?t)"
      using Inr seal_quarantine_digested [OF assms(4)]
      by (auto simp: put_quarantine_def inserted_quarantine split: if_splits)
    then have "fold dv_apply [encode_quarantine_record q] (durable (st_state st)) = durable ((st_state st)\<lparr>ps_quarantines := t\<rparr>)"
      using assms(3) by (simp add: dv_quarantine durable_def)
    then show ?thesis using append_then_inv [OF assms(1,2)] Inr by (simp add: commit_quarantine_def)
  next
    case (Inl e)
    then show ?thesis using assms(1) by (simp add: commit_quarantine_def)
  qed
qed

lemma store_inv_cong:
  "store_inv st \<Longrightarrow> st_journal st' = st_journal st \<Longrightarrow> st_options st' = st_options st \<Longrightarrow>
   durable (st_state st') = durable (st_state st) \<Longrightarrow> store_inv st'"
  by (simp add: store_inv_def)

definition drafted_quarantine ::
    "target_id \<Rightarrow> job_id \<Rightarrow> generation_id \<Rightarrow> block_reason \<Rightarrow> string \<Rightarrow> nanos \<Rightarrow> incarnation \<Rightarrow> quarantine_id \<Rightarrow> quarantine_record" where
  "drafted_quarantine tgt j g reason detail now inc i =
     (let r = \<lparr>q_id = i, q_target = tgt, q_job = j, q_generation = g, q_reason = reason, q_detail = detail,
        q_created_at = now, q_created_by = inc, q_cleared = False, q_cleared_at = 0, q_cleared_by = [], q_digest = 0\<rparr>
      in r\<lparr>q_digest := quarantine_digest r\<rparr>)"

lemma quarantine_target_form:
  "quarantine_target io tgt j g reason detail now inc st =
     (let i = qt_next_id (ps_quarantines (st_state st));
          t = (ps_quarantines (st_state st))\<lparr>qt_next_id := next_id i\<rparr>;
          q = drafted_quarantine tgt j g reason detail now inc i;
          st = with_quarantines t st in
      case insert_quarantine q t of
        Inl e \<Rightarrow> (Inl e, st)
      | Inr staging \<Rightarrow>
          (case append_then io [encode_quarantine_record q] ((st_state st)\<lparr>ps_quarantines := staging\<rparr>) st of
             (Inl e, st) \<Rightarrow> (Inl e, st) | (Inr _, st) \<Rightarrow> (Inr i, st)))"
  by (simp add: quarantine_target_def allocate_quarantine_id_def drafted_quarantine_def append_then_def Let_def
    split: sum.splits prod.splits)

lemma quarantine_target_inv:
  assumes "store_inv st" "clean_io io"
    "quarantine_fits (drafted_quarantine tgt j g reason detail now inc (qt_next_id (ps_quarantines (st_state st))))"
  shows "store_inv (snd (quarantine_target io tgt j g reason detail now inc st))"
proof -
  let ?t = "ps_quarantines (st_state st)"
  let ?q = "drafted_quarantine tgt j g reason detail now inc (qt_next_id ?t)"
  let ?t1 = "?t\<lparr>qt_next_id := next_id (qt_next_id ?t)\<rparr>"
  let ?st1 = "with_quarantines ?t1 st"
  have inv1: "store_inv ?st1"
    by (rule store_inv_cong [OF assms(1)]) (simp_all add: with_quarantines_def durable_def)
  note step = quarantine_target_form [of io tgt j g reason detail now inc st, unfolded Let_def]
  show ?thesis
  proof (cases "insert_quarantine ?q ?t1")
    case (Inr staging)
    have "fold dv_apply [encode_quarantine_record ?q] (durable (st_state ?st1)) =
        durable ((st_state ?st1)\<lparr>ps_quarantines := staging\<rparr>)"
      using assms(3) inserted_quarantine [OF Inr] by (simp add: dv_quarantine durable_def with_quarantines_def)
    from append_then_inv [OF inv1 assms(2) this] show ?thesis
      unfolding step by (auto simp: Inr split: prod.splits sum.splits)
  qed (simp add: step inv1)
qed

end
