(* ===== verification/Recovery.thy ===== *)
theory Recovery
  imports Durability
begin

text \<open>
  Job commits, with their rollback: a job is put into the table first, then into the journal, and
  the table is put back when the journal refuses. Whatever happens, memory stays what the journal says.
\<close>

section \<open>Jobs\<close>

lemma om_set_twice: "om_ok m \<Longrightarrow> om_set k v (om_set k w m) = om_set k v m"
  by (intro om_ext) (simp_all add: table_inv table_simps)

lemma om_set_back: "om_ok m \<Longrightarrow> om_find m k = Some v \<Longrightarrow> om_set k v (om_set k w m) = m"
  by (intro om_ext) (auto simp: table_inv table_simps)

lemma om_erase_fresh: "om_ok m \<Longrightarrow> om_find m k = None \<Longrightarrow> om_erase k (om_set k v m) = m"
  by (intro om_ext) (auto simp: table_inv table_simps)

lemma om_set_erased: "om_ok m \<Longrightarrow> om_find m k = Some v \<Longrightarrow> om_set k v (om_erase k m) = m"
  by (intro om_ext) (auto simp: table_inv table_simps)

lemma jobs_keyed: "store_inv st \<Longrightarrow> keyed j_id (jt_jobs (store_jobs st))"
  using store_inv_wf [of st] by (simp add: dv_wf_def store_jobs_def)

lemma with_jobs_simps [simp]:
  "st_journal (with_jobs t st) = st_journal st" "st_options (with_jobs t st) = st_options st"
  "store_jobs (with_jobs t st) = t" "durable (st_state (with_jobs t st)) = (durable (st_state st))\<lparr>dv_jobs := jt_jobs t\<rparr>"
  by (simp_all add: with_jobs_def store_jobs_def durable_def)

lemma durable_jobs: "jt_jobs (store_jobs st) = dv_jobs (durable (st_state st))"
  by (simp add: store_jobs_def)

lemma durable_with_jobs [simp]: "(durable s)\<lparr>dv_jobs := jt_jobs (ps_jobs s)\<rparr> = durable s"
  by (simp add: durable_def)

text \<open>Records that can be applied are applied, all of them, once they are in the journal.\<close>

lemma apply_strictly_all:
  assumes "\<forall>rec \<in> set recs. \<forall>m. is_ok (fst (apply_record rec True m))"
  shows "\<exists>m'. apply_strictly recs m = (ok_status, m') \<and> durable (fst m') = fold dv_apply recs (durable (fst m))"
  using assms
proof (induction recs arbitrary: m)
  case (Cons rec recs)
  obtain a m1 where step: "apply_record rec True m = (a, m1)" by (cases "apply_record rec True m")
  have "is_ok (fst (apply_record rec True m))" using Cons.prems by (meson list.set_intros(1))
  then have "a = ok_status" using step by (simp add: is_ok_iff)
  moreover have "durable (fst m1) = dv_apply rec (durable (fst m))" using apply_record_refines [of rec True m] step by simp
  ultimately show ?case using Cons.IH [of m1] Cons.prems step by simp
qed simp

lemma append_and_apply_all:
  assumes "journal_ready (st_journal st)" "synced_io io" "append_and_apply io recs st = (status, st')"
    and "\<forall>rec \<in> set recs. \<forall>m. is_ok (fst (apply_record rec True m))"
  shows "journal_ready (st_journal st') \<and> st_options st' = st_options st \<and>
    (if is_ok status then durable (st_state st') = fold dv_apply recs (durable (st_state st)) \<and>
       journal_contents (st_journal st') = journal_contents (st_journal st) @ recs
     else st_state st' = st_state st \<and> journal_contents (st_journal st') = journal_contents (st_journal st))"
proof (cases "for_status validate_record recs")
  case (Inl e)
  have "status = Inl e \<and> st' = st" using assms(3) unfolding append_and_apply_def Inl by simp
  then show ?thesis using assms(1) by simp
next
  case valid: (Inr u)
  obtain s1 j where step: "append_transaction io recs (st_journal st) = (s1, j)" by fastforce
  show ?thesis
  proof (cases s1)
    case (Inl e)
    have "status = Inl e \<and> st' = st\<lparr>st_journal := j\<rparr>"
      using assms(3) unfolding append_and_apply_def valid step Inl by auto
    then show ?thesis
      using journal_log.append_refused [OF assms(1)] assms(2) step Inl by (auto simp: synced_io_def)
  next
    case (Inr v)
    have "jn_open j" using append_transaction_ok [of io recs "st_journal st" v j] step Inr by simp
    then have flushed: "flush io j = ok_status" using assms(2) by (simp add: synced_io_def flush_def sync_file_def)
    obtain s rep where applied: "apply_strictly recs (st_state st, st_report st) = (ok_status, s, rep)"
        "durable s = fold dv_apply recs (durable (st_state st))"
      using apply_strictly_all [OF assms(4), of "(st_state st, st_report st)"] by auto
    have "status = ok_status \<and> st' = st\<lparr>st_journal := j, st_state := bump s, st_report := rep\<rparr>"
      using assms(3) unfolding append_and_apply_def valid step Inr by (auto simp: flushed applied(1))
    moreover have "journal_ready j \<and> journal_contents j = journal_contents (st_journal st) @ recs"
      using journal_log.append_acknowledged [OF assms(1)] step Inr by blast
    ultimately show ?thesis using applied(2) by simp
  qed
qed

text \<open>
  A job commit changes the table, appends the records and, when that fails, changes the table back.
  \<open>staged\<close> is the table with the change, \<open>undo\<close> the way back; the records have the effect of the change.
\<close>

lemma job_commit_inv:
  assumes inv: "store_inv st" and io: "synced_io io"
    and effect: "\<And>v. dv_jobs v = jt_jobs (store_jobs st) \<or> dv_jobs v = jt_jobs staged \<Longrightarrow>
      fold dv_apply recs v = v\<lparr>dv_jobs := jt_jobs staged\<rparr>"
    and undo: "\<And>t. jt_jobs t = jt_jobs staged \<Longrightarrow> jt_jobs (undo t) = jt_jobs (store_jobs st)"
    and step: "append_and_apply io recs (with_jobs staged st) = (status, st')"
    and applies: "\<forall>rec \<in> set recs. \<forall>m. is_ok (fst (apply_record rec True m))"
  shows "store_inv (if is_ok status then st' else with_jobs (undo (store_jobs st')) st')"
proof -
  let ?v = "durable (st_state st)"
  have ready: "journal_ready (st_journal (with_jobs staged st))" using inv by (simp add: store_inv_def)
  note outcome = append_and_apply_all [OF ready io step applies]
  show ?thesis
  proof (cases "is_ok status")
    case True
    have "fold dv_apply recs (?v\<lparr>dv_jobs := jt_jobs staged\<rparr>) = fold dv_apply recs ?v"
      using effect [of "?v\<lparr>dv_jobs := jt_jobs staged\<rparr>"] effect [of ?v] by (simp add: durable_jobs)
    then show ?thesis using True outcome inv by (simp add: store_inv_def replayed_view_append)
  next
    case False
    then have same: "st_state st' = st_state (with_jobs staged st)" using outcome by simp
    then have "jt_jobs (store_jobs st') = jt_jobs staged" by (simp add: store_jobs_def with_jobs_def)
    from undo [OF this] have "durable (st_state (with_jobs (undo (store_jobs st')) st')) = ?v"
      using same by (simp add: store_jobs_def with_jobs_def durable_def)
    then show ?thesis using False outcome inv by (simp add: store_inv_def)
  qed
qed

lemma job_applies: "job_fits j \<Longrightarrow> is_ok (fst (apply_record (encode_job_record j) strict m))"
  by (simp add: apply_record_def job_rec.typed apply_job_def job_rec.decode_enc split: sum.split)

lemma job_erased_applies: "id_valid i \<Longrightarrow> is_ok (fst (apply_record (encode_job_erased_record i) strict m))"
  by (simp add: apply_record_def job_erased_rec.typed apply_job_erased_def job_erased_rec.decode_enc)

lemma adopted_jobs: "id_valid (j_id j) \<Longrightarrow> jt_jobs (adopt_quietly j t) = om_set (j_id j) j (jt_jobs t)"
  by (simp add: adopt_quietly_def adopt_job_def)

lemma commit_job_inv:
  assumes "store_inv st" "synced_io io" "job_fits j"
  shows "store_inv (snd (commit_job io j st))"
proof (cases "put_job j (store_jobs st)")
  case (Inr t)
  then obtain old where old: "om_find (jt_jobs (store_jobs st)) (j_id j) = Some old"
      "jt_jobs t = om_set (j_id j) j (jt_jobs (store_jobs st))"
    by (auto simp: put_job_def find_job_def split: option.splits if_splits)
  have table: "om_ok (jt_jobs (store_jobs st))" "j_id old = j_id j" "id_valid (j_id old)"
    using jobs_keyed [OF assms(1)] old(1) by (auto simp: keyed_def)
  obtain status st' where step: "append_and_apply io [encode_job_record j] (with_jobs t st) = (status, st')" by fastforce
  have "store_inv (if is_ok status then st' else with_jobs (adopt_quietly old (store_jobs st')) st')"
  proof (rule job_commit_inv [OF assms(1,2) _ _ step])
    show "fold dv_apply [encode_job_record j] v = v\<lparr>dv_jobs := jt_jobs t\<rparr>"
      if "dv_jobs v = jt_jobs (store_jobs st) \<or> dv_jobs v = jt_jobs t" for v
      using that assms(3) table(1) by (auto simp: dv_job old(2) om_set_twice)
    show "jt_jobs (adopt_quietly old t') = jt_jobs (store_jobs st)" if "jt_jobs t' = jt_jobs t" for t'
      using that table old by (simp add: adopted_jobs om_set_back)
    show "\<forall>rec \<in> set [encode_job_record j]. \<forall>m. is_ok (fst (apply_record rec True m))"
      using job_applies [OF assms(3)] by simp
  qed
  then show ?thesis
    using Inr step old(1) by (cases status) (simp_all add: commit_job_def find_job_def)
qed (simp add: commit_job_def assms(1))

lemma commit_job_erased_inv:
  assumes "store_inv st" "synced_io io"
  shows "store_inv (snd (commit_job_erased io i st))"
proof (cases "find_job (store_jobs st) i")
  case (Some old)
  have table: "om_ok (jt_jobs (store_jobs st))" "j_id old = i" "id_valid i"
    using jobs_keyed [OF assms(1)] Some by (auto simp: keyed_def find_job_def)
  let ?t = "(store_jobs st)\<lparr>jt_jobs := om_erase i (jt_jobs (store_jobs st))\<rparr>"
  obtain status st' where step: "append_and_apply io [encode_job_erased_record i] (with_jobs ?t st) = (status, st')" by fastforce
  have "store_inv (if is_ok status then st' else with_jobs (adopt_quietly old (store_jobs st')) st')"
  proof (rule job_commit_inv [OF assms(1,2) _ _ step])
    have twice: "om_erase i (om_erase i m) = om_erase i m" for m :: "(job_id, job) omap"
      by (simp add: om_erase_def)
    show "fold dv_apply [encode_job_erased_record i] v = v\<lparr>dv_jobs := jt_jobs ?t\<rparr>"
      if "dv_jobs v = jt_jobs (store_jobs st) \<or> dv_jobs v = jt_jobs ?t" for v
      using that table(3) by (auto simp: dv_job_erased twice)
    show "jt_jobs (adopt_quietly old t') = jt_jobs (store_jobs st)" if "jt_jobs t' = jt_jobs ?t" for t'
      using that table Some by (simp add: adopted_jobs om_set_erased find_job_def)
    show "\<forall>rec \<in> set [encode_job_erased_record i]. \<forall>m. is_ok (fst (apply_record rec True m))"
      using job_erased_applies [OF table(3)] by simp
  qed
  then show ?thesis
    using step Some by (cases status) (simp_all add: commit_job_erased_def erase_job_def)
qed (simp add: commit_job_erased_def assms(1))

lemma create_job_inv:
  assumes "store_inv st" "synced_io io" "job_fits (j\<lparr>j_id := jt_next_id (store_jobs st), j_revision := 1\<rparr>)"
  shows "store_inv (snd (create_job io j st))"
proof -
  let ?i = "jt_next_id (store_jobs st)"
  let ?j = "j\<lparr>j_id := ?i, j_revision := 1\<rparr>"
  let ?t = "(store_jobs st)\<lparr>jt_next_id := next_id ?i\<rparr>"
  let ?st = "with_jobs ?t st"
  have inv: "store_inv ?st"
    by (rule store_inv_cong [OF assms(1)]) (simp_all add: store_jobs_def)
  have ok: "om_ok (jt_jobs (store_jobs st))" using jobs_keyed [OF assms(1)] by (simp add: keyed_def)
  show ?thesis
  proof (cases "length (jt_jobs (store_jobs st)) \<ge> kMaxJobsTotal \<or> (\<exists>e. insert_job ?j ?t = Inl e)")
    case True
    then show ?thesis using assms(1) inv by (auto simp: create_job_def allocate_job_id_def)
  next
    case False
    then obtain t where t: "insert_job ?j ?t = Inr t" by (metis old.sum.exhaust)
    then have staged: "om_find (jt_jobs (store_jobs st)) ?i = None" "jt_jobs t = om_set ?i ?j (jt_jobs (store_jobs st))"
      by (auto simp: insert_job_def find_job_def om_emplace_fresh split: if_splits)
    obtain status st' where step: "append_and_apply io [encode_job_record ?j] (with_jobs t ?st) = (status, st')" by fastforce
    have "store_inv (if is_ok status then st' else with_jobs (erase_job_quietly ?i (store_jobs st')) st')"
    proof (rule job_commit_inv [OF inv assms(2) _ _ step])
      show "fold dv_apply [encode_job_record ?j] v = v\<lparr>dv_jobs := jt_jobs t\<rparr>"
        if "dv_jobs v = jt_jobs (store_jobs ?st) \<or> dv_jobs v = jt_jobs t" for v
        using that ok dv_job [OF assms(3), of v] by (auto simp: staged(2) om_set_twice)
      show "jt_jobs (erase_job_quietly ?i t') = jt_jobs (store_jobs ?st)" if "jt_jobs t' = jt_jobs t" for t'
        using that ok staged by (simp add: erased_jobs om_erase_fresh)
      show "\<forall>rec \<in> set [encode_job_record ?j]. \<forall>m. is_ok (fst (apply_record rec True m))"
        using job_applies [OF assms(3)] by simp
    qed
    then show ?thesis
      using False t step
      by (cases status) (simp_all add: create_job_def allocate_job_id_def)
  qed
qed

lemma durable_boot:
  "durable (s\<lparr>ps_last_incarnation := i, ps_boot_epoch := e\<rparr>) = (durable s)\<lparr>dv_incarnation := i, dv_epoch := e\<rparr>"
  by (simp add: durable_def)

lemma begin_incarnation_inv:
  assumes "store_inv st" "synced_io io" "nonce \<noteq> 0 \<or> fallback \<noteq> 0" "next_id (ps_boot_epoch (st_state st)) \<noteq> 0"
  shows "store_inv (snd (begin_incarnation io fallback controller nonce st))"
proof (cases "id_valid controller")
  case True
  define prior where "prior = ps_boot_epoch (st_state st)"
  define inc where "inc = \<lparr>ci_controller = controller, ci_epoch = (if id_valid prior then next_id prior else 1),
    ci_nonce = (if nonce = 0 then fallback else nonce)\<rparr>"
  have valid: "incarnation_valid inc" using True assms(3,4) by (auto simp: inc_def incarnation_valid_def id_valid_def prior_def)
  obtain status j where step: "append_transaction io [encode_boot_record inc prior] (st_journal st) = (status, j)" by fastforce
  have ready: "journal_ready (st_journal st)" and clean: "clean_io io" using assms by (simp_all add: store_inv_def synced_io_def)
  show ?thesis
  proof (cases status)
    case (Inl e)
    then show ?thesis
      using journal_log.append_refused [OF ready clean] step assms(1) True
      by (simp add: begin_incarnation_def Let_def store_inv_def flip: prior_def inc_def)
  next
    case (Inr u)
    have "jn_open j" using append_transaction_ok [of io _ "st_journal st" u j] step Inr by simp
    then have "flush io j = ok_status" using assms(2) by (simp add: synced_io_def flush_def sync_file_def)
    moreover have "journal_ready j \<and> journal_contents j = journal_contents (st_journal st) @ [encode_boot_record inc prior]"
      using journal_log.append_acknowledged [OF ready] step Inr by blast
    moreover have "ci_epoch inc = (if id_valid prior then next_id prior else 1)" by (simp add: inc_def)
    ultimately show ?thesis
      using step Inr assms(1) True valid
      by (simp add: begin_incarnation_def Let_def store_inv_def replayed_view_append dv_boot durable_boot
        flip: prior_def inc_def)
  qed
qed (simp add: begin_incarnation_def assms(1))

subsection \<open>Several jobs at once\<close>

definition put_all :: "job list \<Rightarrow> (job_id, job) omap \<Rightarrow> (job_id, job) omap" where
  "put_all js m = fold (\<lambda>j m. om_set (j_id j) j m) js m"

lemma put_all_ok: "om_ok m \<Longrightarrow> om_ok (put_all js m)"
  unfolding put_all_def by (induction js arbitrary: m) (simp_all add: table_inv)

lemma find_put_all:
  "distinct (map j_id js) \<Longrightarrow> om_find (put_all js m) k = (case by_key j_id js k of Some j \<Rightarrow> Some j | None \<Rightarrow> om_find m k)"
  unfolding put_all_def
proof (induction js arbitrary: m)
  case (Cons j js)
  have absent: "j_id j \<notin> fst ` (\<lambda>x. (j_id x, x)) ` set js" using Cons.prems by (auto simp: image_iff)
  then have "map_of (map (\<lambda>x. (j_id x, x)) js) (j_id j) = None" by (simp add: map_of_eq_None_iff)
  with Cons show ?case by (auto simp: by_key_def table_simps split: option.splits)
qed simp

lemma dv_put_all:
  "\<forall>j \<in> set js. job_fits j \<Longrightarrow> fold dv_apply (map encode_job_record js) v = v\<lparr>dv_jobs := put_all js (dv_jobs v)\<rparr>"
  by (induction js arbitrary: v) (simp_all add: put_all_def dv_job)

lemma put_all_twice: "om_ok m \<Longrightarrow> distinct (map j_id js) \<Longrightarrow> put_all js (put_all js m) = put_all js m"
  by (intro om_ext) (auto simp: put_all_ok find_put_all split: option.splits)

lemma adopt_all_jobs: "\<forall>j \<in> set js. id_valid (j_id j) \<Longrightarrow> jt_jobs (fold adopt_quietly js t) = put_all js (jt_jobs t)"
  by (induction js arbitrary: t) (simp_all add: put_all_def adopted_jobs)

text \<open>
  \<open>olds\<close> are the stored versions of the jobs \<open>js\<close>. Staging puts the new versions and remembers the old
  ones; putting the old ones back restores the table, because no job occurs twice.
\<close>

lemma put_olds_back:
  assumes "om_ok m" "distinct (map j_id js)" "map j_id olds = map j_id js"
    "\<forall>old0 \<in> set olds. om_find m (j_id old0) = Some old0"
  shows "put_all olds (put_all js m) = m"
proof (intro om_ext)
  fix k
  have "distinct (map j_id olds)" using assms(2,3) by simp
  moreover have "(by_key j_id olds k = None) = (by_key j_id js k = None)"
    using assms(3) by (simp add: by_key_def map_of_eq_None_iff image_image) (metis set_map)
  moreover have "om_find m k = Some x" if "by_key j_id olds k = Some x" for x
    using that assms(4) by (auto simp: by_key_def dest!: map_of_SomeD)
  ultimately show "om_find (put_all olds (put_all js m)) k = om_find m k"
    using assms(2) by (auto simp: find_put_all split: option.splits)
qed (simp_all add: assms(1) put_all_ok)

lemma stage_jobs_effect:
  assumes "keyed j_id (jt_jobs t0)" "distinct (map j_id (before @ js))" "map j_id olds = map j_id before"
    and "\<forall>old0 \<in> set olds. om_find (jt_jobs t0) (j_id old0) = Some old0" "jt_jobs t = put_all before (jt_jobs t0)"
    and "stage_jobs js olds t = (status, previous, t')"
  shows "if is_ok status then jt_jobs t' = put_all (before @ js) (jt_jobs t0) \<and> map j_id previous = map j_id (before @ js) \<and>
      (\<forall>old0 \<in> set previous. om_find (jt_jobs t0) (j_id old0) = Some old0)
    else jt_jobs t' = jt_jobs t0"
  using assms(2-6)
proof (induction js olds t arbitrary: before rule: stage_jobs.induct)
  case (1 previous t)
  then show ?case by auto
next
  case (2 j js olds t)
  have ok: "om_ok (jt_jobs t0)" using assms(1) by (simp add: keyed_def)
  have valid: "\<forall>old0 \<in> set olds. id_valid (j_id old0)" using 2(4) assms(1) by (auto simp: keyed_def)
  have fresh: "by_key j_id before (j_id j) = None"
    using 2(2) by (auto simp: by_key_def map_of_eq_None_iff image_image)
  have here: "find_job t (j_id j) = om_find (jt_jobs t0) (j_id j)"
    using 2(2) fresh by (simp add: find_job_def 2(5) find_put_all)
  show ?case
  proof (cases "find_job t (j_id j)")
    case None
    have "jt_jobs (fold adopt_quietly olds t) = jt_jobs t0"
      using put_olds_back [OF ok, of before olds] 2(2-5) by (simp add: adopt_all_jobs [OF valid])
    then show ?thesis using 2(6) None by auto
  next
    case (Some old)
    have old: "j_id old = j_id j" "id_valid (j_id old)" "om_find (jt_jobs t0) (j_id old) = Some old"
      using Some here assms(1) by (auto simp: keyed_def)
    have olds: "\<forall>old0 \<in> set (olds @ [old]). om_find (jt_jobs t0) (j_id old0) = Some old0 \<and> id_valid (j_id old0)"
      using 2(4) valid old by auto
    show ?thesis
    proof (cases "put_job j t")
      case (Inl e)
      have same: "om_set (j_id j) old (jt_jobs t) = jt_jobs t"
        using Some ok 2(5) old(1) by (intro om_ext) (auto simp: table_inv put_all_ok table_simps find_job_def)
      have "jt_jobs (fold adopt_quietly (olds @ [old]) t) = put_all [old] (put_all olds (jt_jobs t))"
        using olds adopt_all_jobs [of "olds @ [old]" t] by (simp add: put_all_def)
      also have "put_all olds (jt_jobs t) = jt_jobs t0"
        using put_olds_back [OF ok, of before olds] 2(2-5) by simp
      also have "put_all [old] (jt_jobs t0) = jt_jobs t0"
        using ok old by (intro om_ext) (auto simp: put_all_def table_inv table_simps)
      finally show ?thesis using 2(6) Some Inl by auto
    next
      case (Inr t1)
      then have t1: "jt_jobs t1 = put_all (before @ [j]) (jt_jobs t0)"
        using Some 2(5) by (auto simp: put_job_def put_all_def split: if_splits)
      have rest: "stage_jobs js (olds @ [old]) t1 = (status, previous, t')" using 2(6) Some Inr by simp
      show ?thesis
        using 2(1) [OF Some Inr, of "before @ [j]"] 2(2,3) olds t1 rest old(1) by simp
    qed
  qed
qed

lemma commit_jobs_inv:
  assumes "store_inv st" "synced_io io" "\<forall>j \<in> set js. job_fits j" "distinct (map j_id js)"
  shows "store_inv (snd (commit_jobs io js st))"
proof (cases "js = []")
  case False
  have keyed: "keyed j_id (jt_jobs (store_jobs st))" by (rule jobs_keyed [OF assms(1)])
  then have ok: "om_ok (jt_jobs (store_jobs st))" by (simp add: keyed_def)
  obtain status0 previous t where staged: "stage_jobs js [] (store_jobs st) = (status0, previous, t)" using prod_cases3 by blast
  note effect = stage_jobs_effect [OF keyed, of "[]" js "[]" "store_jobs st" status0 previous t, simplified]
  show ?thesis
  proof (cases "is_ok status0")
    case False
    then have "jt_jobs t = jt_jobs (store_jobs st)" using effect staged assms(4) by (simp add: put_all_def)
    then have "store_inv (with_jobs t st)" by (intro store_inv_cong [OF assms(1)]) (simp_all add: store_jobs_def)
    then show ?thesis using False \<open>js \<noteq> []\<close> staged by (cases status0) (simp_all add: commit_jobs_def)
  next
    case True
    then have stage: "jt_jobs t = put_all js (jt_jobs (store_jobs st))" "map j_id previous = map j_id js"
        "\<forall>old0 \<in> set previous. om_find (jt_jobs (store_jobs st)) (j_id old0) = Some old0"
      using effect staged assms(4) by (simp_all add: put_all_def)
    have valid: "\<forall>old0 \<in> set previous. id_valid (j_id old0)" using stage(3) keyed by (auto simp: keyed_def)
    obtain status st' where step: "append_and_apply io (map encode_job_record js) (with_jobs t st) = (status, st')" by fastforce
    have "store_inv (if is_ok status then st' else with_jobs (fold adopt_quietly previous (store_jobs st')) st')"
    proof (rule job_commit_inv [OF assms(1,2) _ _ step])
      show "fold dv_apply (map encode_job_record js) v = v\<lparr>dv_jobs := jt_jobs t\<rparr>"
        if "dv_jobs v = jt_jobs (store_jobs st) \<or> dv_jobs v = jt_jobs t" for v
        using that dv_put_all [OF assms(3)] put_all_twice [OF ok assms(4)] by (auto simp: stage(1))
      show "jt_jobs (fold adopt_quietly previous t') = jt_jobs (store_jobs st)" if "jt_jobs t' = jt_jobs t" for t'
        using that put_olds_back [OF ok assms(4) stage(2,3)] by (simp add: adopt_all_jobs [OF valid] stage(1))
      show "\<forall>rec \<in> set (map encode_job_record js). \<forall>m. is_ok (fst (apply_record rec True m))"
        using assms(3) job_applies by auto
    qed
    then show ?thesis
      using True \<open>js \<noteq> []\<close> staged step by (cases status0; cases status) (simp_all add: commit_jobs_def)
  qed
qed (simp add: commit_jobs_def assms(1))

end
