(* ===== verification/Store_Machine.thy ===== *)
theory Store_Machine
  imports Recovery
begin

text \<open>
  The store as a machine. \<open>store_op\<close> lists the operations that commit something, \<open>run_op\<close> runs one of
  them, and \<open>store_run\<close> a synced history of them, each in its own environment. Every such history keeps
  memory equal to what the journal says, so that opening the file again, also after a crash that cut
  it anywhere, gives back a state the store was in.

  The environments of a history are restricted to \<open>synced_io\<close>: a frame is written whole or not at all, and
  every flush and sync succeeds. After a failed sync the record is in the file and not in memory, and after
  a write that stopped half way later frames go behind the torn one. Compaction is not a step either, because
  what is committed after it is not read back; it is treated in \<open>Compaction\<close>.
\<close>

section \<open>Histories\<close>

datatype store_op =
    BeginIncarnation u64 controller_id u64
  | CommitTopology topology
  | CommitPolicy policy
  | CreateJob job
  | CommitJob job
  | CommitJobs "job list"
  | EraseJob job_id
  | ObserveEvidence evidence_record
  | AllocateEvidence
  | ReserveAuthority reservation
  | InsertAuthority reservation
  | ReleaseAuthority authority_id incarnation
  | RenewAuthority authority_id attempt_id incarnation nanos nanos
  | ExpireAuthority nanos
  | FenceAuthority incarnation
  | CommitLease drain_lease
  | EraseLease lease_id
  | CommitQuarantine quarantine_record
  | QuarantineTarget target_id job_id generation_id block_reason string nanos incarnation

fun run_op :: "io_env \<Rightarrow> store_op \<Rightarrow> store \<Rightarrow> store" where
  "run_op io (BeginIncarnation fallback controller nonce) st = snd (begin_incarnation io fallback controller nonce st)"
| "run_op io (CommitTopology t) st = snd (commit_topology io t st)"
| "run_op io (CommitPolicy p) st = snd (commit_policy io p st)"
| "run_op io (CreateJob j) st = snd (create_job io j st)"
| "run_op io (CommitJob j) st = snd (commit_job io j st)"
| "run_op io (CommitJobs js) st = snd (commit_jobs io js st)"
| "run_op io (EraseJob i) st = snd (commit_job_erased io i st)"
| "run_op io (ObserveEvidence e) st = snd (observe_evidence io e st)"
| "run_op io AllocateEvidence st = snd (allocate_evidence_id st)"
| "run_op io (ReserveAuthority a) st = snd (reserve_authority io a st)"
| "run_op io (InsertAuthority a) st = snd (insert_authority io a st)"
| "run_op io (ReleaseAuthority i current) st = snd (release_authority io i current st)"
| "run_op io (RenewAuthority i attempt current extension now) st =
     snd (renew_authority io i attempt current extension now st)"
| "run_op io (ExpireAuthority now) st = snd (expire_authority io now st)"
| "run_op io (FenceAuthority current) st = snd (fence_authority io current st)"
| "run_op io (CommitLease l) st = snd (commit_lease io l st)"
| "run_op io (EraseLease i) st = snd (commit_lease_erased io i st)"
| "run_op io (CommitQuarantine q) st = snd (commit_quarantine io q st)"
| "run_op io (QuarantineTarget tgt j g reason detail now inc) st =
     snd (quarantine_target io tgt j g reason detail now inc st)"

text \<open>
  What the callers keep to: what is written can be decoded again (the \<open>_fits\<close> predicates of the
  codecs), identities are not exhausted, and a batch names no job twice.
\<close>

fun op_fits :: "store_op \<Rightarrow> store \<Rightarrow> bool" where
  "op_fits (BeginIncarnation fallback controller nonce) st \<longleftrightarrow>
     (nonce \<noteq> 0 \<or> fallback \<noteq> 0) \<and> next_id (ps_boot_epoch (st_state st)) \<noteq> 0"
| "op_fits (CreateJob j) st \<longleftrightarrow> job_fits (j\<lparr>j_id := jt_next_id (store_jobs st), j_revision := 1\<rparr>)"
| "op_fits (CommitJob j) st \<longleftrightarrow> job_fits j"
| "op_fits (CommitJobs js) st \<longleftrightarrow> list_all job_fits js \<and> distinct (map j_id js)"
| "op_fits (ObserveEvidence e) st \<longleftrightarrow> evidence_fits e"
| "op_fits (ReserveAuthority a) st \<longleftrightarrow>
     (let l = ps_ledger (st_state st) in
      find_reservation l (lg_next_id l) = None \<and> reservation_fits (granted_reservation a (lg_next_id l)))"
| "op_fits (InsertAuthority a) st \<longleftrightarrow> reservation_fits a"
| "op_fits (RenewAuthority i attempt current extension now) st \<longleftrightarrow>
     (case find_reservation (ps_ledger (st_state st)) i of
        Some a \<Rightarrow> reservation_fits (renewed extension now a) | None \<Rightarrow> True)"
| "op_fits (CommitLease l) st \<longleftrightarrow> lease_fits l"
| "op_fits (EraseLease i) st \<longleftrightarrow> id_valid i"
| "op_fits (CommitQuarantine q) st \<longleftrightarrow> quarantine_fits q \<and> q_digest q = quarantine_digest q"
| "op_fits (QuarantineTarget tgt j g reason detail now inc) st \<longleftrightarrow>
     quarantine_fits (drafted_quarantine tgt j g reason detail now inc (qt_next_id (ps_quarantines (st_state st))))"
| "op_fits _ st \<longleftrightarrow> True"

inductive store_run :: "store \<Rightarrow> store \<Rightarrow> bool" where
  store_run_refl: "store_run st st"
| store_run_step: "store_run st st' \<Longrightarrow> synced_io io \<Longrightarrow> op_fits op st' \<Longrightarrow> store_run st (run_op io op st')"

lemma allocate_evidence_inv: "store_inv st \<Longrightarrow> store_inv (snd (allocate_evidence_id st))"
  by (erule store_inv_cong) (simp_all add: allocate_evidence_id_def Let_def)

lemmas operations_inv = begin_incarnation_inv commit_topology_inv commit_policy_inv create_job_inv commit_job_inv
  commit_jobs_inv commit_job_erased_inv observe_evidence_inv allocate_evidence_inv reserve_authority_inv
  insert_authority_inv release_authority_inv renew_authority_inv expire_authority_inv fence_authority_inv
  commit_lease_inv commit_lease_erased_inv commit_quarantine_inv quarantine_target_inv

lemma run_op_inv:
  assumes "store_inv st" "synced_io io" "op_fits op st"
  shows "store_inv (run_op io op st)"
proof -
  have "clean_io io" using assms(2) by (simp add: synced_io_def)
  with assms show ?thesis
    by (cases op) (simp_all add: operations_inv list_all_iff Let_def, auto intro: renew_authority_inv)
qed

lemma store_run_inv: "store_run st st' \<Longrightarrow> store_inv st \<Longrightarrow> store_inv st'"
  by (induction rule: store_run.induct) (auto intro: run_op_inv)

section \<open>What a step does to the file\<close>

text \<open>Each operation appends at most one transaction, and leaves the options alone.\<close>

definition one_append :: "io_env \<Rightarrow> store \<Rightarrow> store \<Rightarrow> bool" where
  "one_append io st st' \<longleftrightarrow> st_options st' = st_options st \<and>
     (st_journal st' = st_journal st \<or> (\<exists>recs. st_journal st' = snd (append_transaction io recs (st_journal st))))"

lemma one_append_same [simp]: "one_append io st st"
  by (simp add: one_append_def)

lemma one_append_staged [simp]:
  "one_append io (with_jobs t st) st' = one_append io st st'" "one_append io st (with_jobs t st') = one_append io st st'"
  "one_append io (with_quarantines q st) st' = one_append io st st'"
  "one_append io st (with_quarantines q st') = one_append io st st'"
  by (simp_all add: one_append_def with_quarantines_def)

lemma one_append_step:
  "append_transaction io recs (st_journal st) = (status, j) \<Longrightarrow> st_journal st' = j \<Longrightarrow> st_options st' = st_options st \<Longrightarrow>
   one_append io st st'"
  unfolding one_append_def by (metis snd_conv)

lemma append_then_once: "append_then io recs s st = (status, st') \<Longrightarrow> one_append io st st'"
  by (auto simp: append_then_def intro: one_append_step split: prod.splits sum.splits)

lemma append_and_apply_once: "append_and_apply io recs st = (status, st') \<Longrightarrow> one_append io st st'"
  by (auto simp: append_and_apply_def intro: one_append_step split: prod.splits sum.splits)

text \<open>The shapes of the commits, whatever they stage first and however they undo it.\<close>

lemma applied_once [simp]: "one_append io st (snd (append_and_apply io recs st))"
  by (cases "append_and_apply io recs st") (auto dest: append_and_apply_once)

lemma staged_once [simp]: "one_append io st (snd (append_then io recs s st))"
  by (cases "append_then io recs s st") (auto dest: append_then_once)

lemma job_commit_once [simp]:
  "one_append io st (snd (case append_and_apply io recs (with_jobs t st) of
     (Inl e, st) \<Rightarrow> (Inl e, with_jobs (undo st) st) | (Inr _, st) \<Rightarrow> (Inr v, st)))"
  by (auto dest: append_and_apply_once split: prod.splits sum.splits)

lemma staged_commit_once [simp]:
  "one_append io st (snd (case append_then io recs s st of (Inl e, st) \<Rightarrow> (f e, st) | (Inr _, st) \<Rightarrow> (v, st)))"
  by (auto dest: append_then_once split: prod.splits sum.splits)

lemma with_jobs_again [simp]: "with_jobs t (with_jobs t' st) = with_jobs t st"
  by (simp add: with_jobs_def)

lemma jobs_once:
  "one_append io st (snd (create_job io j st))" "one_append io st (snd (commit_job io j st))"
  "one_append io st (snd (commit_jobs io js st))" "one_append io st (snd (commit_job_erased io i st))"
  by (simp_all add: create_job_def allocate_job_id_def commit_job_def commit_jobs_def commit_job_erased_def Let_def
    split: sum.split option.split prod.split)

lemma declarations_once:
  "one_append io st (snd (commit_topology io t st))" "one_append io st (snd (commit_policy io p st))"
  by (simp_all add: commit_topology_def commit_policy_def split: sum.split)

lemma tables_once:
  "one_append io st (snd (observe_evidence io e st))" "one_append io st (snd (commit_lease io l st))"
  "one_append io st (snd (commit_lease_erased io i st))" "one_append io st (snd (commit_quarantine io q st))"
  by (simp_all add: observe_evidence_def commit_lease_def commit_lease_erased_def commit_quarantine_def Let_def
    split: sum.split prod.split)

lemma authority_once:
  "one_append io st (snd (reserve_authority io a st))" "one_append io st (snd (insert_authority io a st))"
  "one_append io st (snd (release_authority io i current st))"
  "one_append io st (snd (renew_authority io i attempt current extension now st))"
  "one_append io st (snd (expire_authority io now st))" "one_append io st (snd (fence_authority io current st))"
  by (simp_all add: reserve_authority_def insert_authority_def release_authority_def renew_authority_def
    expire_authority_def fence_authority_def Let_def split: sum.split prod.split option.split)

lemma begin_once: "one_append io st (snd (begin_incarnation io fallback controller nonce st))"
proof (cases "id_valid controller")
  case True
  define prior where "prior = ps_boot_epoch (st_state st)"
  define inc where "inc = \<lparr>ci_controller = controller, ci_epoch = (if id_valid prior then next_id prior else 1),
    ci_nonce = (if nonce = 0 then fallback else nonce)\<rparr>"
  obtain status j where step: "append_transaction io [encode_boot_record inc prior] (st_journal st) = (status, j)" by fastforce
  show ?thesis
    by (rule one_append_step [OF step])
      (use True step in \<open>simp_all add: begin_incarnation_def Let_def flip: prior_def inc_def split: sum.split\<close>)
qed (simp add: begin_incarnation_def)

lemma quarantine_target_once: "one_append io st (snd (quarantine_target io tgt j g reason detail now inc st))"
proof -
  have "one_append io st (snd (case append_then io recs s (with_quarantines t st) of
      (Inl e, st) \<Rightarrow> (Inl e, st) | (Inr _, st) \<Rightarrow> (Inr i, st)))" for recs s t and i :: quarantine_id
    using staged_commit_once [of io "with_quarantines t st" Inl "Inr i" recs s] unfolding one_append_staged .
  then show ?thesis by (simp add: quarantine_target_form Let_def split: sum.split)
qed

lemma run_op_once: "one_append io st (run_op io op st)"
  by (cases op) (simp_all add: begin_once quarantine_target_once jobs_once declarations_once
    tables_once authority_once, simp add: allocate_evidence_id_def Let_def one_append_def)

lemma run_op_options: "st_options (run_op io op st) = st_options st"
  using run_op_once [of io st op] by (simp add: one_append_def)

lemma run_op_file:
  assumes "journal_holds (st_journal st) recs" "synced_io io"
  shows "st_journal (run_op io op st) = st_journal st \<or>
    (\<exists>t. journal_holds (st_journal (run_op io op st)) (recs @ [t]))"
proof -
  let ?j = "st_journal (run_op io op st)"
  have "clean_io io" using assms(2) by (simp add: synced_io_def)
  have "?j = st_journal st \<or> (\<exists>rs status. append_transaction io rs (st_journal st) = (status, ?j))"
    using run_op_once [of io st op] unfolding one_append_def by (metis prod.collapse)
  then show ?thesis
  proof (elim disjE exE)
    fix rs status assume step: "append_transaction io rs (st_journal st) = (status, ?j)"
    show ?thesis
      using append_transaction_refused [OF _ \<open>clean_io io\<close>] append_holding [OF assms(1)] step by (cases status) blast+
  qed simp
qed

section \<open>Opening the file again\<close>

definition opens :: "io_env \<Rightarrow> bool" where
  "opens io \<longleftrightarrow> io_mkdir io \<and> io_open io \<and> io_read io \<and> good_io io"

text \<open>What a store opened on the file \<open>d\<close> holds.\<close>

definition reopened_view :: "io_env \<Rightarrow> store_options \<Rightarrow> byte list \<Rightarrow> durable_view option" where
  "reopened_view io opts d = (case store_open io opts (Some d) of
     Inl e \<Rightarrow> None | Inr (st, rep) \<Rightarrow> Some (durable (st_state st)))"

lemma header_accepted:
  "validate_journal_header (read_u32_le (file_header @ rest)) (read_u16_be (drop 4 (file_header @ rest))) = ok_status"
proof -
  have "drop 4 (file_header @ rest) = write_u16_be kJournalVersion @ drop 6 (file_header @ rest)"
    by (simp add: file_header_def numeral_eq_Suc write_u32_be_def write_u16_be_def)
  moreover have "read_u32_le (file_header @ rest) = kMagic"
    by (simp add: file_header_def u32_be_back)
  ultimately show ?thesis by (simp add: validate_journal_header_def u16_be_back)
qed

lemma store_open_replay:
  assumes "so_journal_path opts \<noteq> []" "opens io" "d = file_header @ rest"
    and "replay io (new_journal (default_journal_options (so_journal_path opts) (so_create_if_missing opts)) d) =
      (ok_status, recs, stats, j)"
  shows "\<exists>st rep. store_open io opts (Some d) = Inr (st, rep) \<and> st_journal st = j \<and> st_options st = opts \<and>
    durable (st_state st) = replayed_view opts recs"
proof -
  let ?o = "default_journal_options (so_journal_path opts) (so_create_if_missing opts)"
  have opened: "journal_open io ?o (Some d) = Inr (new_journal ?o d)"
    using assms(1,2) header_accepted [of rest] unfolding assms(3)
    by (simp add: journal_open_def default_journal_options_def opens_def good_io_def kFileHeaderBytes_def)
  obtain s rep where fold: "fold replay_visit recs (new_state opts, empty_report\<lparr>rp_journal_created := False\<rparr>) = (s, rep)"
    by fastforce
  have "durable s = replayed_view opts recs"
    using replay_visits_refine [of recs "(new_state opts, empty_report\<lparr>rp_journal_created := False\<rparr>)"] fold
    by (simp add: replayed_view_def)
  moreover have "durable (s\<lparr>ps_jobs := set_next_job_id n (ps_jobs s)\<rparr>) = durable s" for n
    by (simp add: durable_def set_next_job_id_def)
  ultimately show ?thesis
    by (simp add: store_open_def opened assms(4) new_store_def fold Let_def)
qed

lemma reopened_replay:
  assumes "so_journal_path opts \<noteq> []" "opens io" "d = file_header @ rest"
    and "replay io (new_journal (default_journal_options (so_journal_path opts) (so_create_if_missing opts)) d) =
      (ok_status, recs, stats, j)"
  shows "reopened_view io opts d = Some (replayed_view opts recs)"
  using store_open_replay [OF assms] by (auto simp: reopened_view_def)

lemma new_journal_fields [simp]: "jn_open (new_journal opts d)" "jn_file (new_journal opts d) = d"
  by (simp_all add: new_journal_def)

lemma reopened_cut:
  assumes "so_journal_path opts \<noteq> []" "opens io" "list_all frame_ok recs"
  shows "reopened_view io opts (take (12 + n) (file_header @ frames 1 recs)) =
    Some (replayed_view opts (concat (map delivered (take (whole_frames n recs) recs))))"
proof -
  let ?d = "take (12 + n) (file_header @ frames 1 recs)"
  have good: "good_io io" using assms(2) by (simp add: opens_def)
  obtain stats j where "replay io (new_journal (default_journal_options (so_journal_path opts) (so_create_if_missing opts)) ?d) =
      (ok_status, concat (map delivered (take (whole_frames n recs) recs)), stats, j)"
    using replay_after_cut [OF _ _ assms(3) good, where n = n] by (metis new_journal_fields)
  from reopened_replay [OF assms(1,2) _ this] show ?thesis by simp
qed

lemma held_view: "journal_holds (st_journal st) recs \<Longrightarrow> store_inv st \<Longrightarrow>
    durable (st_state st) = replayed_view (st_options st) (concat (map delivered recs))"
  by (simp add: store_inv_def journal_holds_def journal_contents_holding)

lemma store_reopen:
  assumes "store_inv st" "so_journal_path (st_options st) \<noteq> []" "opens io"
  shows "\<exists>st' rep. store_open io (st_options st) (Some (jn_file (st_journal st))) = Inr (st', rep) \<and>
    durable (st_state st') = durable (st_state st) \<and> store_inv st'"
proof -
  let ?opts = "st_options st"
  let ?j = "new_journal (default_journal_options (so_journal_path ?opts) (so_create_if_missing ?opts)) (jn_file (st_journal st))"
  obtain recs where recs: "journal_holds (st_journal st) recs" using assms(1) by (auto simp: store_inv_def journal_ready_def)
  then have held: "jn_file (st_journal st) = file_header @ frames 1 recs" "list_all frame_ok recs"
    by (simp_all add: journal_holds_def)
  have on_disk: "jn_file ?j = file_header @ frames 1 recs" using held(1) by simp
  have seek: "io_seek io" "io_seek_end io" using assms(3) by (simp_all add: opens_def good_io_def)
  obtain stats j where replayed: "replay io ?j = (ok_status, concat (map delivered recs), stats, j)" "journal_holds j recs"
    using replay_holding [OF new_journal_fields(1) on_disk held(2) seek] held by (auto simp: journal_holds_def)
  have view: "durable (st_state st) = replayed_view ?opts (concat (map delivered recs))"
    by (rule held_view [OF recs assms(1)])
  from store_open_replay [OF assms(2,3) held(1) replayed(1)] show ?thesis
    using view replayed(2) by (auto simp: store_inv_def journal_ready_def journal_holds_def journal_contents_holding)
qed

section \<open>Crashes and damage\<close>

lemma store_run_options: "store_run st st' \<Longrightarrow> st_options st' = st_options st"
  by (induction rule: store_run.induct) (simp_all add: run_op_options)

lemma store_run_holds: "store_inv st \<Longrightarrow> \<exists>recs. journal_holds (st_journal st) recs"
  by (simp add: store_inv_def journal_ready_def)

lemma whole_frames_last:
  assumes "length (frames seq recs) \<le> n" "n < length (frames seq (recs @ [t]))"
  shows "whole_frames n (recs @ [t]) = length recs"
  using assms
proof (induction recs arbitrary: n seq)
  case (Cons rec recs)
  have "whole_frames (n - (24 + length (jr_payload rec))) (recs @ [t]) = length recs"
    using Cons.prems by (intro Cons.IH [of "seq + 1"]) simp_all
  then show ?case using Cons.prems by simp
qed simp

text \<open>
  A file cut anywhere behind what was there at the start of a history reopens as a state of that
  history: the store was in the state \<open>mid\<close>, and went on from there.
\<close>

lemma crash_recovers:
  assumes "store_run st0 st" "store_inv st0" "so_journal_path (st_options st0) \<noteq> []" "opens io"
    and "length (jn_file (st_journal st0)) \<le> m"
  shows "\<exists>mid. store_run st0 mid \<and> store_run mid st \<and>
    reopened_view io (st_options st0) (take m (jn_file (st_journal st))) = Some (durable (st_state mid))"
  using assms
proof (induction rule: store_run.induct)
  case (store_run_refl st)
  then obtain st' rep where "store_open io (st_options st) (Some (jn_file (st_journal st))) = Inr (st', rep)"
      "durable (st_state st') = durable (st_state st)"
    using store_reopen [of st io] by blast
  then show ?case using store_run_refl(4) by (intro exI [of _ st]) (simp add: reopened_view_def store_run.store_run_refl)
next
  case (store_run_step st0 st io1 op)
  let ?st = "run_op io1 op st"
  obtain mid where mid: "store_run st0 mid" "store_run mid st"
      "reopened_view io (st_options st0) (take m (jn_file (st_journal st))) = Some (durable (st_state mid))"
    using store_run_step.IH store_run_step.prems by blast
  have next_run: "store_run mid ?st" using mid(2) store_run_step(2,3) by (rule store_run.store_run_step)
  have inv: "store_inv st" using store_run_inv store_run_step by blast
  then obtain recs where recs: "journal_holds (st_journal st) recs" using store_run_holds by blast
  from run_op_file [OF recs store_run_step(2), of op] show ?case
  proof (elim disjE exE)
    assume "st_journal ?st = st_journal st"
    with mid next_run show ?thesis by auto
  next
    fix t assume t: "journal_holds (st_journal ?st) (recs @ [t])"
    have files: "jn_file (st_journal st) = file_header @ frames 1 recs" "jn_file (st_journal ?st) = file_header @ frames 1 (recs @ [t])"
      using recs t by (simp_all add: journal_holds_def)
    show ?thesis
    proof (cases "m < length (jn_file (st_journal st))")
      case True
      then have "take m (jn_file (st_journal ?st)) = take m (jn_file (st_journal st))" by (simp add: files frames_append)
      with mid next_run show ?thesis by auto
    next
      case False
      define n where "n = m - 12"
      have ok: "list_all frame_ok (recs @ [t])" using t by (simp add: journal_holds_def)
      have cut: "reopened_view io (st_options st0) (take m (jn_file (st_journal ?st))) =
          Some (replayed_view (st_options st0) (concat (map delivered (take (whole_frames n (recs @ [t])) (recs @ [t])))))"
        using reopened_cut [OF store_run_step.prems(2,3) ok, of n] False by (simp add: files n_def)
      have opts: "st_options st = st_options st0" "st_options ?st = st_options st0"
        using store_run_options store_run_step(1) by (auto simp: run_op_options)
      have stay: "store_run st ?st" by (intro store_run.intros store_run_step(2,3))
      show ?thesis
      proof (cases "m < length (jn_file (st_journal ?st))")
        case True
        then have "whole_frames n (recs @ [t]) = length recs"
          using False by (intro whole_frames_last [of 1]) (simp_all add: files n_def)
        then show ?thesis using cut stay store_run_step(1) held_view [OF recs inv] opts by (intro exI [of _ st]) simp
      next
        case False
        then have "whole_frames n (recs @ [t]) = length (recs @ [t])"
          by (intro whole_frames_all [of 1]) (simp add: files n_def)
        moreover have "store_inv ?st" by (rule run_op_inv [OF inv store_run_step(2,3)])
        moreover have "store_run st0 ?st" using store_run_step(1,2,3) by (rule store_run.store_run_step)
        ultimately show ?thesis
          using cut held_view [OF t] opts by (intro exI [of _ ?st]) (simp add: store_run.store_run_refl)
      qed
    qed
  qed
qed

lemma reopened_damaged:
  assumes "so_journal_path opts \<noteq> []" "opens io" "list_all frame_ok (recs @ [t])"
    and "i < length (frame_bytes (1 + of_nat (length recs)) t)" "frame_bytes (1 + of_nat (length recs)) t ! i \<noteq> b"
  shows "reopened_view io opts (file_header @ frames 1 recs @ (frame_bytes (1 + of_nat (length recs)) t)[i := b] @ rest) =
    Some (replayed_view opts (concat (map delivered recs)))"
proof -
  let ?d = "file_header @ frames 1 recs @ (frame_bytes (1 + of_nat (length recs)) t)[i := b] @ rest"
  let ?j = "new_journal (default_journal_options (so_journal_path opts) (so_create_if_missing opts)) ?d"
  have "good_io io" "list_all frame_ok recs" "frame_ok t" using assms(2,3) by (simp_all add: opens_def)
  then obtain stats j where "replay io ?j = (ok_status, concat (map delivered recs), stats, j)"
    using replay_after_damage [of recs t i b ?j io rest] assms(4,5) by auto
  from reopened_replay [OF assms(1,2) _ this] show ?thesis by blast
qed

text \<open>One changed byte behind the start of a history, whatever follows it: again a state of the history.\<close>

lemma damage_recovers:
  assumes "store_run st0 st" "store_inv st0" "so_journal_path (st_options st0) \<noteq> []" "opens io"
    and "length (jn_file (st_journal st0)) \<le> i" "i < length (jn_file (st_journal st))" "jn_file (st_journal st) ! i \<noteq> b"
  shows "\<exists>mid. store_run st0 mid \<and> store_run mid st \<and>
    reopened_view io (st_options st0) ((jn_file (st_journal st))[i := b] @ rest) = Some (durable (st_state mid))"
  using assms
proof (induction arbitrary: rest rule: store_run.induct)
  case (store_run_step st0 st io1 op)
  let ?st = "run_op io1 op st"
  have inv: "store_inv st" using store_run_inv store_run_step by blast
  then obtain recs where recs: "journal_holds (st_journal st) recs" using store_run_holds by blast
  have here: "\<exists>mid. store_run st0 mid \<and> store_run mid ?st \<and>
      reopened_view io (st_options st0) ((jn_file (st_journal st))[i := b] @ rest') = Some (durable (st_state mid))"
    if "i < length (jn_file (st_journal st))" "jn_file (st_journal st) ! i \<noteq> b" for rest'
    using store_run_step.IH [of rest'] store_run_step.prems that store_run.store_run_step [OF _ store_run_step(2,3)] by blast
  from run_op_file [OF recs store_run_step(2), of op] show ?case
  proof (elim disjE exE)
    assume "st_journal ?st = st_journal st"
    then show ?thesis using here [of rest] store_run_step.prems by simp
  next
    fix t assume t: "journal_holds (st_journal ?st) (recs @ [t])"
    define new where "new = frame_bytes (1 + of_nat (length recs)) t"
    have files: "jn_file (st_journal st) = file_header @ frames 1 recs" "jn_file (st_journal ?st) = jn_file (st_journal st) @ new"
      using recs t by (simp_all add: journal_holds_def frames_append new_def)
    show ?thesis
    proof (cases "i < length (jn_file (st_journal st))")
      case True
      then have "(jn_file (st_journal ?st))[i := b] @ rest = (jn_file (st_journal st))[i := b] @ new @ rest"
        by (simp add: files(2) list_update_append)
      with here [of "new @ rest"] True store_run_step.prems(6) show ?thesis by (simp add: files(2) nth_append)
    next
      case False
      define k where "k = i - length (jn_file (st_journal st))"
      have k: "k < length new" "new ! k \<noteq> b" using False store_run_step.prems(5,6) by (auto simp: k_def files(2) nth_append)
      have damaged: "(jn_file (st_journal ?st))[i := b] @ rest = file_header @ frames 1 recs @ new[k := b] @ rest"
        using False unfolding files(2) list_update_append k_def by (simp add: files(1))
      have "list_all frame_ok (recs @ [t])" using t by (simp add: journal_holds_def)
      from reopened_damaged [OF store_run_step.prems(2,3) this k [unfolded new_def], of rest]
      have "reopened_view io (st_options st0) ((jn_file (st_journal ?st))[i := b] @ rest) = Some (durable (st_state st))"
        using held_view [OF recs inv] store_run_options [OF store_run_step(1)] unfolding damaged new_def by simp
      then show ?thesis
        using store_run_step(1) store_run.intros(2) [OF store_run.intros(1) store_run_step(2,3)] by blast
    qed
  qed
qed simp

section \<open>A new store\<close>

lemma fresh_store:
  assumes "store_open io opts None = Inr (st, rep)"
  shows "store_inv st \<and> durable (st_state st) = durable (new_state opts) \<and> st_options st = opts"
proof -
  let ?o = "default_journal_options (so_journal_path opts) (so_create_if_missing opts)"
  have opened: "journal_open io ?o None = Inr (new_journal ?o file_header)"
    using assms by (auto simp: store_open_def journal_open_def Let_def split: if_splits sum.splits prod.splits)
  obtain status recs stats j where run: "replay io (new_journal ?o file_header) = (status, recs, stats, j)"
    using prod_cases4 by blast
  have ok: "status = ok_status" using assms opened run by (auto simp: store_open_def Let_def split: prod.splits sum.splits)
  then have held: "recs = []" "journal_holds j []"
    using run by (auto simp: replay_def kFileHeaderBytes_def replay_empty journal_holds_def Let_def split: if_splits sum.splits)
  then have "journal_ready j" "journal_contents j = []"
    by (auto simp: journal_ready_def) (simp add: journal_holds_def journal_contents_holding [of _ "[]"])
  then show ?thesis
    using assms ok held(1)
    by (auto simp: store_open_def opened run new_store_def Let_def store_inv_def replayed_view_def durable_def set_next_job_id_def)
qed

end
