(* ===== verification/Compaction.thy ===== *)
theory Compaction
  imports Store_Machine
begin

text \<open>
  Compaction (\<^verbatim>\<open>Store::compact\<close>): what the rewritten journal says is what memory holds, less the volatile
  evidence that has expired. The rewritten frames are numbered from one again, but the journal goes
  on with its old counter, so a later commit is only found again when the two agree.
\<close>

section \<open>Writing tables out and reading them back\<close>

definition fill :: "('k::linorder, 'v) omap \<Rightarrow> ('k, 'v) omap \<Rightarrow> ('k, 'v) omap" where
  "fill xs m = fold (\<lambda>e m. om_set (fst e) (snd e) m) xs m"

lemma fill_empty: "om_ok xs \<Longrightarrow> fill xs [] = xs"
  using assign_all_ordered [of xs] by (simp add: assign_all_def fill_def)

lemma dv_fill_jobs:
  "\<forall>e \<in> set xs. job_fits (snd e) \<and> j_id (snd e) = fst e \<Longrightarrow>
   fold dv_apply (map (encode_job_record \<circ> snd) xs) v = v\<lparr>dv_jobs := fill xs (dv_jobs v)\<rparr>"
  by (induction xs arbitrary: v) (simp_all add: fill_def dv_job)

lemma dv_fill_reservations:
  "\<forall>e \<in> set xs. reservation_fits (snd e) \<and> seal_reservation (snd e) = snd e \<and> ra_id (snd e) = fst e \<Longrightarrow>
   fold dv_apply (map (encode_reservation_record \<circ> snd) xs) v = v\<lparr>dv_reservations := fill xs (dv_reservations v)\<rparr>"
  by (induction xs arbitrary: v) (simp_all add: fill_def dv_reservation)

lemma dv_fill_leases:
  "\<forall>e \<in> set xs. lease_fits (snd e) \<and> le_id (snd e) = fst e \<Longrightarrow>
   fold dv_apply (map (encode_lease_record \<circ> snd) xs) v = v\<lparr>dv_leases := fill xs (dv_leases v)\<rparr>"
  by (induction xs arbitrary: v) (simp_all add: fill_def dv_lease)

lemma dv_fill_quarantines:
  "\<forall>e \<in> set xs. quarantine_fits (snd e) \<and> seal_quarantine (snd e) = snd e \<and> q_id (snd e) = fst e \<Longrightarrow>
   fold dv_apply (map (encode_quarantine_record \<circ> snd) xs) v = v\<lparr>dv_quarantines := fill xs (dv_quarantines v)\<rparr>"
  by (induction xs arbitrary: v) (simp_all add: fill_def dv_quarantine)

text \<open>Evidence is observed anew, in the order of its keys, and there is room for all of it.\<close>

lemma observed_last:
  assumes "\<forall>x \<in> set m. fst x < er_key e" "length m < capacity" "evidence_valid e" "seal_digest e = e"
  shows "observed_table e capacity m = m @ [(er_key e, e)]"
proof -
  have "om_find m (er_key e) = None" using assms(1) by (auto simp: om_find_def map_of_eq_None_iff)
  then show ?thesis
    using assms by (simp add: observed_table_def evidence_table_def observe_def accepted_def Let_def om_set_last)
qed

lemma dv_fill_evidence:
  assumes "sorted_wrt (<) (map fst (dv_evidence v @ xs))" "length (dv_evidence v @ xs) \<le> dv_capacity v"
    and "\<forall>e \<in> set xs. evidence_fits (snd e) \<and> seal_digest (snd e) = snd e \<and> er_key (snd e) = fst e"
  shows "fold dv_apply (map encode_evidence_record (map snd xs)) v = v\<lparr>dv_evidence := dv_evidence v @ xs\<rparr>"
  using assms
proof (induction xs arbitrary: v)
  case (Cons x xs)
  have parts: "evidence_fits (snd x)" "seal_digest (snd x) = snd x" "er_key (snd x) = fst x" using Cons.prems(3) by simp_all
  then have valid: "evidence_valid (snd x)" by (simp add: evidence_fits_def)
  have "observed_table (snd x) (dv_capacity v) (dv_evidence v) = dv_evidence v @ [x]"
    using observed_last [of "dv_evidence v" "snd x"] Cons.prems(1,2) valid parts(2,3) by (auto simp: sorted_wrt_append)
  then show ?case
    using Cons.IH [of "v\<lparr>dv_evidence := dv_evidence v @ [x]\<rparr>"] Cons.prems parts(1) by (simp add: dv_observation)
qed simp

section \<open>The compacted journal\<close>

text \<open>What can be written out and read back unchanged.\<close>

definition persistable :: "persisted_state \<Rightarrow> bool" where
  "persistable s \<longleftrightarrow> topology_fits (ps_topology s) \<and> policy_fits (ps_policy s) \<and>
     list_all (\<lambda>e. job_fits (snd e)) (jt_jobs (ps_jobs s)) \<and>
     list_all (\<lambda>e. reservation_fits (snd e) \<and> seal_reservation (snd e) = snd e) (lg_reservations (ps_ledger s)) \<and>
     list_all (\<lambda>e. lease_fits (snd e)) (ps_leases s) \<and>
     list_all (\<lambda>e. quarantine_fits (snd e) \<and> seal_quarantine (snd e) = snd e) (qt_records (ps_quarantines s)) \<and>
     evidence_wf (ps_evidence s) \<and>
     list_all (\<lambda>e. evidence_fits (snd e) \<and> seal_digest (snd e) = snd e) (es_records (ps_evidence s)) \<and>
     incarnation_valid (ps_last_incarnation s) \<and> ci_epoch (ps_last_incarnation s) = ps_boot_epoch s"

text \<open>Expired volatile evidence is dropped, and a topology is rebuilt from its declarations.\<close>

definition compacted_view :: "nanos \<Rightarrow> persisted_state \<Rightarrow> topology \<Rightarrow> durable_view" where
  "compacted_view now s t = (durable s)\<lparr>dv_topology := t,
     dv_evidence := om_filter (survives_compaction now) (es_records (ps_evidence s))\<rparr>"

lemma dv_topology_back:
  assumes "topology_fits t"
  shows "\<exists>t'. (\<forall>v. dv_apply (encode_topology_record t) v = v\<lparr>dv_topology := t'\<rparr>) \<and> topo_wf t' \<and> same_declared t t'"
proof -
  obtain t' where "decode_topology_record (encode_topology_record t) = Inr t'" "topo_wf t'" "same_declared t t'"
    using decode_encode_topology [OF assms] by blast
  moreover have "jr_type (encode_topology_record t) = RtTopology" by (simp add: encode_topology_record_def)
  ultimately show ?thesis by (intro exI [of _ t']) (simp add: dv_apply_def)
qed

lemma dv_policy_back: "policy_fits p \<Longrightarrow> dv_apply (encode_policy_record p) v = v\<lparr>dv_policy := p\<rparr>"
  by (simp add: dv_apply_def policy_rec.typed policy_rec.decode_enc)

lemma keyed_entries: "keyed key m \<Longrightarrow> e \<in> set m \<Longrightarrow> key (snd e) = fst e"
  by (auto simp: keyed_def om_in_items)

lemma keyed_fill: "keyed key m \<Longrightarrow> fill m [] = m"
  by (simp add: keyed_def fill_empty)

lemma surviving_evidence:
  assumes "evidence_wf s"
  shows "filter P (map snd (es_records s)) = map snd (om_filter P (es_records s))"
    and "sorted_wrt (<) (map fst (om_filter P (es_records s)))" "length (om_filter P (es_records s)) \<le> es_capacity s"
    and "e \<in> set (om_filter P (es_records s)) \<Longrightarrow> e \<in> set (es_records s) \<and> er_key (snd e) = fst e"
proof -
  have ok: "om_ok (es_records s)" "length (es_records s) \<le> es_capacity s" using assms by (simp_all add: evidence_wf_def)
  show "filter P (map snd (es_records s)) = map snd (om_filter P (es_records s))"
    by (simp add: om_filter_def filter_map comp_def)
  have "om_ok (om_filter P (es_records s))" using ok(1) by (simp add: table_inv)
  then show "sorted_wrt (<) (map fst (om_filter P (es_records s)))" by (simp add: om_ok_def)
  show "length (om_filter P (es_records s)) \<le> es_capacity s" using ok(2) by (simp add: om_filter_def le_trans [OF length_filter_le])
  assume "e \<in> set (om_filter P (es_records s))"
  then show "e \<in> set (es_records s) \<and> er_key (snd e) = fst e"
    using assms by (auto simp: om_filter_def evidence_wf_def find_evidence_def om_in_items)
qed

lemma compacted_records_say:
  assumes "persistable s" "dv_wf (durable s)" "es_capacity (ps_evidence s) = dv_capacity v"
    and "dv_jobs v = []" "dv_reservations v = []" "dv_leases v = []" "dv_quarantines v = []" "dv_evidence v = []"
  shows "\<exists>t. topo_wf t \<and> same_declared (ps_topology s) t \<and>
    fold dv_apply (compacted_records now prior s) v = compacted_view now s t"
proof -
  note fits = assms(1) [unfolded persistable_def list_all_iff]
  obtain t where t: "\<forall>v. dv_apply (encode_topology_record (ps_topology s)) v = v\<lparr>dv_topology := t\<rparr>"
      "topo_wf t" "same_declared (ps_topology s) t"
    using dv_topology_back fits by blast
  have keyed: "keyed j_id (jt_jobs (ps_jobs s))" "keyed ra_id (lg_reservations (ps_ledger s))" "keyed le_id (ps_leases s)"
      "keyed q_id (qt_records (ps_quarantines s))"
    using assms(2) by (simp_all add: dv_wf_def)
  have wf: "evidence_wf (ps_evidence s)" using fits by simp
  let ?ev = "om_filter (survives_compaction now) (es_records (ps_evidence s))"
  have evidence: "fold dv_apply (map encode_evidence_record (map snd ?ev)) w = w\<lparr>dv_evidence := ?ev\<rparr>"
    if "dv_evidence w = []" "dv_capacity w = es_capacity (ps_evidence s)" for w
    using dv_fill_evidence [of w ?ev] that surviving_evidence [OF wf, where P = "survives_compaction now"] fits by simp
  have "fold dv_apply (compacted_records now prior s) v = compacted_view now s t"
    unfolding compacted_records_def surviving_evidence(1) [OF wf] fold_append comp_def
    using fits keyed [THEN keyed_entries] assms(3-8)
    by (simp add: t(1) dv_policy_back dv_fill_jobs [unfolded comp_def] dv_fill_reservations [unfolded comp_def]
      dv_fill_leases [unfolded comp_def] dv_fill_quarantines [unfolded comp_def] keyed [THEN keyed_fill]
      evidence [unfolded map_map] dv_boot compacted_view_def durable_def)
  with t show ?thesis by blast
qed

lemma compacted_plain: "list_all (\<lambda>rec. jr_type rec \<noteq> RtTransaction) (compacted_records now prior s)"
  by (auto simp: compacted_records_def list_all_iff encode_topology_record_def policy_rec.typed job_rec.typed
    reservation_rec.typed lease_rec.typed quarantine_rec.typed evidence_rec.typed boot_rec.typed [of "(i, p)" for i p, simplified])

lemma compact_effect:
  assumes "compact io now st = (Inr u, st')"
  shows "rewrite io (compacted_records now (rp_previous_boot (st_report st)) (st_state st)) (st_journal st) =
      (ok_status, st_journal st') \<and> st_state st' = st_state st \<and> st_options st' = st_options st"
  using assms by (auto simp: compact_def Let_def split: if_splits sum.splits prod.splits)

lemma replayed_capacity: "dv_capacity (fold dv_apply recs v) = dv_capacity v"
proof (induction recs arbitrary: v)
  case (Cons rec recs)
  have "dv_capacity (dv_apply rec v) = dv_capacity v"
    by (cases "jr_type rec") (auto simp: dv_apply_def split: sum.split prod.split)
  with Cons show ?case by simp
qed simp

lemma new_state_empty:
  "dv_jobs (durable (new_state opts)) = []" "dv_reservations (durable (new_state opts)) = []"
  "dv_leases (durable (new_state opts)) = []" "dv_quarantines (durable (new_state opts)) = []"
  "dv_evidence (durable (new_state opts)) = []"
  by (simp_all add: new_state_def empty_job_table_def new_ledger_def empty_quarantine_def new_evidence_store_def)

lemma compact_reopens:
  assumes "store_inv st" "persistable (st_state st)" "compact io now st = (Inr u, st')"
    and "so_journal_path (st_options st) \<noteq> []" "opens io'"
  shows "\<exists>t. topo_wf t \<and> same_declared (ps_topology (st_state st)) t \<and>
    reopened_view io' (st_options st) (jn_file (st_journal st')) = Some (compacted_view now (st_state st) t)"
proof -
  let ?recs = "compacted_records now (rp_previous_boot (st_report st)) (st_state st)"
  let ?tx = "map as_transaction ?recs"
  have step: "rewrite io ?recs (st_journal st) = (Inr (), st_journal st')" using compact_effect [OF assms(3)] by simp
  note disk = rewrite_effect [OF step compacted_plain]
  have "durable (st_state st) = fold dv_apply (journal_contents (st_journal st)) (durable (new_state (st_options st)))"
    using assms(1) by (simp add: store_inv_def replayed_view_def)
  then have capacity: "es_capacity (ps_evidence (st_state st)) = dv_capacity (durable (new_state (st_options st)))"
    by (metis durable_fields(5) replayed_capacity)
  obtain t where t: "topo_wf t" "same_declared (ps_topology (st_state st)) t"
      "replayed_view (st_options st) ?recs = compacted_view now (st_state st) t"
    using compacted_records_say [OF assms(2) store_inv_wf [OF assms(1)] capacity new_state_empty]
    unfolding replayed_view_def by blast
  have "reopened_view io' (st_options st) (jn_file (st_journal st')) = Some (replayed_view (st_options st) ?recs)"
    using reopened_cut [OF assms(4,5), of ?tx "length (frames 1 ?tx)"] disk whole_frames_all [of 1 ?tx] by simp
  with t show ?thesis by auto
qed

text \<open>
  The journal keeps its old counter. Unless that happens to be the number of compacted records plus
  one, whatever is committed after a compaction is not found when the file is opened again.
\<close>

lemma commit_after_compaction_lost:
  assumes "compact io now st = (Inr u, st1)" "append_transaction io1 recs (st_journal st1) = (Inr v, j2)"
    and "jn_next_seq (st_journal st) \<noteq>
      1 + of_nat (length (compacted_records now (rp_previous_boot (st_report st)) (st_state st)))"
  shows "journal_contents j2 = journal_contents (st_journal st1)"
proof -
  have step: "rewrite io (compacted_records now (rp_previous_boot (st_report st)) (st_state st)) (st_journal st) =
      (Inr (), st_journal st1)"
    using compact_effect [OF assms(1)] by simp
  show ?thesis using compacted_then_appended [OF step compacted_plain assms(2,3)] by simp
qed

end
