(* ===== verification/Store_Examples.thy ===== *)
theory Store_Examples
  imports Compaction Examples
begin

text \<open>
  A small store, made with the operations of the model: created on an empty path, booted once,
  then compacted. The properties of the store are exercised at these values.
\<close>

section \<open>A journal with room accepts\<close>

lemma append_succeeds:
  assumes "io_header io = WriteOk" "io_payload io = WriteOk" "jn_open j" "jn_replayed j" "transaction_fits recs"
    and "length (jr_payload (encode_transaction_record recs)) \<le> kMaxJournalRecordBytes"
    and "unat (jn_bytes j) + 24 + length (jr_payload (encode_transaction_record recs)) \<le> unat (jo_max_bytes (jn_options j))"
    and "jn_records j < jo_max_records (jn_options j)"
  shows "append_transaction io recs j = (ok_status, j\<lparr>
    jn_file := jn_file j @ frame_bytes (jn_next_seq j) (encode_transaction_record recs),
    jn_bytes := jn_bytes j + of_nat (24 + length (jr_payload (encode_transaction_record recs))),
    jn_records := jn_records j + 1, jn_next_seq := jn_next_seq j + 1\<rparr>)"
proof -
  let ?t = "encode_transaction_record recs"
  let ?n = "length (jr_payload ?t)"
  let ?size = "of_nat (24 + ?n) :: u64"
  have members: "for_status check_member recs = ok_status"
    using assms(5) by (auto simp: for_status_ok check_member_def transaction_fits_def list_all_iff inner_fits_def
      validate_record_def known_types)
  have small: "24 + ?n < 2 ^ 64" using assms(6) by (simp add: limits)
  then have size: "unat ?size = 24 + ?n" using unat_of_nat [of "24 + ?n", where 'a = 64] by (simp add: take_bit_nat_eq_self)
  have "unat (of_nat ?n :: u64) = ?n" using small unat_of_nat [of ?n, where 'a = 64] by (simp add: take_bit_nat_eq_self)
  then have frame: "checked_add (of_nat kFrameHeaderBytes) (of_nat ?n) = Some ?size"
    using small by (simp add: checked_add_exact kFrameHeaderBytes_def)
  have bytes: "unat (jn_bytes j) + unat ?size \<le> unat (jo_max_bytes (jn_options j))" using assms(7) size by simp
  then have fits: "unat (jn_bytes j) + unat ?size < 2 ^ 64" using unsigned_less [of "jo_max_bytes (jn_options j)", where 'a = nat] by simp
  then have total: "checked_add (jn_bytes j) ?size = Some (jn_bytes j + ?size)" by (simp add: checked_add_exact)
  have "unat (jn_bytes j + ?size) = unat (jn_bytes j) + unat ?size" using fits by (simp add: unat_word_ariths)
  then have bound: "\<not> jo_max_bytes (jn_options j) < jn_bytes j + ?size" using bytes by (simp add: word_less_nat_alt)
  have "write_frame io RtTransaction (jn_next_seq j) (jr_payload ?t) j = (ok_status, j\<lparr>
      jn_file := jn_file j @ frame_bytes (jn_next_seq j) ?t, jn_bytes := jn_bytes j + ?size, jn_records := jn_records j + 1\<rparr>)"
    using assms(1-4,6,8) frame total bound
    by (simp add: write_frame_def fwrite_def frame_bytes_def transaction_rec.typed)
  then show ?thesis
    using assms members
    by (simp add: append_transaction_def append_frame_def ensure_replayed_def transaction_rec.typed transaction_fits_def Let_def next_id_def)
qed

section \<open>A store, booted\<close>

definition demo_options :: store_options where
  "demo_options = \<lparr>so_journal_path = ''mf.journal'', so_create_if_missing = True, so_evidence_capacity = 16,
     so_authority_lease = 0, so_compaction_threshold = 100\<rparr>"

definition demo_journal :: journal where
  "demo_journal = (new_journal (default_journal_options ''mf.journal'' True) file_header)\<lparr>jn_replayed := True\<rparr>"

definition demo_report :: recovery_report where
  "demo_report = empty_report\<lparr>rp_journal_created := True, rp_bytes := 12\<rparr>"

definition demo_opened :: store where
  "demo_opened = (new_store demo_journal demo_options)\<lparr>st_report := demo_report\<rparr>"

lemma demo_store_opens: "store_open io_ok demo_options None = Inr (demo_opened, demo_report)"
proof -
  let ?o = "default_journal_options ''mf.journal'' True"
  have opened: "journal_open io_ok ?o None = Inr (new_journal ?o file_header)"
    by (simp add: journal_open_def default_journal_options_def io_ok_def sync_file_def)
  have run: "replay io_ok (new_journal ?o file_header) = (ok_status, [], no_stats\<lparr>rs_bytes := 12, rs_first_bad_offset := 12\<rparr>,
      demo_journal)"
    by (simp add: replay_def kFileHeaderBytes_def replay_empty Let_def io_ok_def no_stats_def demo_journal_def new_journal_def)
  show ?thesis
    by (simp add: store_open_def demo_options_def opened run Let_def no_stats_def)
      (simp add: demo_opened_def demo_options_def new_store_def new_state_def recovered_next_job_def
        set_next_job_id_def empty_job_table_def demo_report_def empty_report_def)
qed

definition demo_incarnation :: incarnation where
  "demo_incarnation = \<lparr>ci_controller = 7, ci_epoch = 1, ci_nonce = 9\<rparr>"

definition demo_booted :: store where
  "demo_booted = run_op io_ok (BeginIncarnation 0 7 9) demo_opened"

lemma io_ok_clean: "synced_io io_ok" "opens io_ok" "clean_io io_ok" "io_header io_ok = WriteOk" "io_payload io_ok = WriteOk"
  by (simp_all add: synced_io_def clean_io_def opens_def io_ok_def good_io_def)

lemma boot_payload: "length (jr_payload (encode_transaction_record [encode_boot_record i prior])) = 48"
  by (simp add: encode_transaction_record_def encode_boot_record_def w_counted_def w_inner_def w_incarnation_def w_blob_def w_items_def blob_fits_def limits)

lemma boot_fits: "transaction_fits [encode_boot_record i prior]"
  by (simp add: transaction_fits_def inner_fits_def encode_boot_record_def w_incarnation_def limits)

lemma demo_room: "jo_max_bytes (jn_options demo_journal) = kMaxJournalBytes"
  "jo_max_records (jn_options demo_journal) = kMaxJournalRecords" "jn_bytes demo_journal = 12" "jn_records demo_journal = 0"
  "jn_open demo_journal" "jn_replayed demo_journal" "jn_next_seq demo_journal = 1" "jn_file demo_journal = file_header"
  by (simp_all add: demo_journal_def new_journal_def default_journal_options_def)

lemma demo_boot_append:
  "append_transaction io_ok [encode_boot_record i prior] demo_journal = (ok_status, demo_journal\<lparr>
     jn_file := file_header @ frame_bytes 1 (encode_transaction_record [encode_boot_record i prior]),
     jn_bytes := 84, jn_records := 1, jn_next_seq := 2\<rparr>)"
  by (subst append_succeeds) (simp_all add: io_ok_clean demo_room boot_fits boot_payload limits kMaxJournalBytes_def kMaxJournalRecords_def)

lemma demo_booted_fields:
  "st_state demo_booted = (new_state demo_options)\<lparr>ps_last_incarnation := demo_incarnation, ps_boot_epoch := 1\<rparr>"
  "st_journal demo_booted = demo_journal\<lparr>
     jn_file := file_header @ frame_bytes 1 (encode_transaction_record [encode_boot_record demo_incarnation 0]),
     jn_bytes := 84, jn_records := 1, jn_next_seq := 2\<rparr>"
  "st_options demo_booted = demo_options" "st_report demo_booted = demo_report\<lparr>rp_previous_boot := 0, rp_boot := 1\<rparr>"
proof -
  have "begin_incarnation io_ok 0 7 9 demo_opened = (Inr demo_incarnation, demo_opened\<lparr>
      st_journal := demo_journal\<lparr>
        jn_file := file_header @ frame_bytes 1 (encode_transaction_record [encode_boot_record demo_incarnation 0]),
        jn_bytes := 84, jn_records := 1, jn_next_seq := 2\<rparr>,
      st_state := (new_state demo_options)\<lparr>ps_last_incarnation := demo_incarnation, ps_boot_epoch := 1\<rparr>,
      st_report := demo_report\<lparr>rp_previous_boot := 0, rp_boot := 1\<rparr>\<rparr>)"
    by (simp add: begin_incarnation_def demo_opened_def new_store_def new_state_def id_valid_def Let_def demo_boot_append
      flush_def sync_file_def demo_room io_ok_def [symmetric] demo_incarnation_def) (simp add: io_ok_def demo_room)
  then show
    "st_state demo_booted = (new_state demo_options)\<lparr>ps_last_incarnation := demo_incarnation, ps_boot_epoch := 1\<rparr>"
    "st_journal demo_booted = demo_journal\<lparr>
       jn_file := file_header @ frame_bytes 1 (encode_transaction_record [encode_boot_record demo_incarnation 0]),
       jn_bytes := 84, jn_records := 1, jn_next_seq := 2\<rparr>"
    "st_options demo_booted = demo_options" "st_report demo_booted = demo_report\<lparr>rp_previous_boot := 0, rp_boot := 1\<rparr>"
    by (simp_all add: demo_booted_def demo_opened_def new_store_def)
qed

lemma demo_run: "store_run demo_opened demo_booted"
proof -
  have "op_fits (BeginIncarnation 0 7 9) demo_opened"
    by (simp add: demo_opened_def new_store_def new_state_def next_id_def)
  then show ?thesis unfolding demo_booted_def by (intro store_run.intros io_ok_clean)
qed

lemma demo_opened_inv: "store_inv demo_opened" "st_options demo_opened = demo_options"
  using fresh_store [OF demo_store_opens] by simp_all

lemma demo_booted_inv: "store_inv demo_booted"
  using store_run_inv [OF demo_run] demo_opened_inv by simp

section \<open>The store, compacted\<close>

lemma rewrite_loop_succeeds:
  assumes "\<forall>rec \<in> set recs. validate_record rec = ok_status \<and> length (jr_payload (as_transaction rec)) \<le> kMaxJournalRecordBytes"
    and "length out + length (frames seq (map as_transaction recs)) \<le> unat limit"
  shows "rewrite_loop io_ok limit seq out recs = Inr (out @ frames seq (map as_transaction recs))"
  using assms
proof (induction recs arbitrary: seq out)
  case (Cons rec recs)
  let ?out = "out @ frame_bytes seq (as_transaction rec)"
  have room: "length ?out + length (frames (seq + 1) (map as_transaction recs)) \<le> unat limit" using Cons.prems(2) by simp
  have "unat (of_nat n :: u64) \<le> n" for n by (simp add: unat_of_nat)
  from this [of "length ?out"] have "\<not> limit < of_nat (length ?out)"
    using room unfolding word_less_nat_alt by linarith
  then show ?case
    using Cons.IH [OF _ room] Cons.prems(1) by (simp add: io_ok_def frame_bytes_def Let_def)
qed simp

lemma rewrite_succeeds:
  assumes "\<forall>rec \<in> set recs. validate_record rec = ok_status \<and> length (jr_payload (as_transaction rec)) \<le> kMaxJournalRecordBytes"
    and "12 + length (frames 1 (map as_transaction recs)) \<le> unat (jo_max_bytes (jn_options j))"
    and "of_nat (length recs) \<le> jo_max_records (jn_options j)" "jo_path (jn_options j) \<noteq> []"
  shows "\<exists>j'. rewrite io_ok recs j = (ok_status, j') \<and> jn_options j' = jn_options j \<and>
    jn_bytes j' = of_nat (12 + length (frames 1 (map as_transaction recs))) \<and> jn_records j' = of_nat (length recs)"
proof -
  let ?out = "file_header @ frames 1 (map as_transaction recs)"
  have out: "rewrite_loop io_ok (jo_max_bytes (jn_options j)) 1 file_header recs = Inr ?out"
    using rewrite_loop_succeeds [OF assms(1)] assms(2) by simp
  have opened: "journal_open io_ok (jn_options j) (Some ?out) = Inr (new_journal (jn_options j) ?out)"
    using assms(4) header_accepted [of "frames 1 (map as_transaction recs)"]
    by (simp add: journal_open_def io_ok_def kFileHeaderBytes_def)
  show ?thesis
    using assms(3) out opened
    by (simp add: rewrite_def Let_def sync_file_def) (simp add: io_ok_def new_journal_def)
qed

lemma demo_persistable: "persistable (st_state demo_booted)"
proof -
  have "topology_fits empty_topology"
    by (simp add: topology_fits_def empty_topology_wf) (simp add: empty_topology_def validate_topology_def shallow_def)
  moreover have "policy_fits default_policy" 
    by (simp add: policy_fits_def policy_rules_fit_def validate_policy_ok validate_bounds_def default_policy_def om_ok_def i64_fits_def
      and_then_def nanos_defs limits)
  ultimately show ?thesis
    by (simp add: persistable_def demo_booted_fields new_state_def empty_job_table_def new_ledger_def empty_quarantine_def
      new_evidence_store_wf demo_incarnation_def incarnation_valid_def id_valid_def)
      (simp add: new_evidence_store_def)
qed

text \<open>The sizes of the three records that the compacted journal holds.\<close>

lemma demo_sizes:
  "length (jr_payload (encode_policy_record default_policy)) = 87"
  "length (jr_payload (encode_topology_record empty_topology)) = 18"
  "length (jr_payload (encode_boot_record i prior)) = 34"
  by (simp_all add: encode_policy_record_def default_policy_def w_counted_def w_items_def w_policy_scalars_def
    encode_topology_record_def empty_topology_def containment_order_def encode_boot_record_def w_incarnation_def)

lemma one_record_size:
  "length (jr_payload rec) \<le> kMaxJournalRecordBytes \<Longrightarrow> jr_type rec \<noteq> RtTransaction \<Longrightarrow>
   length (jr_payload (as_transaction rec)) = 14 + length (jr_payload rec)"
  by (simp add: as_transaction_def encode_transaction_record_def w_counted_def w_items_def w_inner_def w_blob_def
    blob_fits_def limits)

lemma demo_records:
  "compacted_records 200 0 (st_state demo_booted) =
     [encode_topology_record empty_topology, encode_policy_record default_policy, encode_boot_record demo_incarnation 0]"
  by (simp add: compacted_records_def demo_booted_fields new_state_def empty_job_table_def new_ledger_def
    empty_quarantine_def new_evidence_store_def demo_incarnation_def incarnation_valid_def id_valid_def)

lemma demo_types:
  "jr_type (encode_topology_record t) = RtTopology" "jr_type (encode_policy_record p) = RtPolicy"
  "jr_type (encode_boot_record i prior) = RtBoot"
  by (simp_all add: encode_topology_record_def encode_policy_record_def encode_boot_record_def)

definition demo_compacted :: store where
  "demo_compacted = snd (compact io_ok 200 demo_booted)"

lemma demo_compacts:
  "compact io_ok 200 demo_booted = (ok_status, demo_compacted)"
  "jn_bytes (st_journal demo_compacted) = 265" "jn_records (st_journal demo_compacted) = 3"
  "jn_options (st_journal demo_compacted) = jn_options demo_journal"
proof -
  let ?recs = "compacted_records 200 0 (st_state demo_booted)"
  have report: "rp_previous_boot (st_report demo_booted) = 0" by (simp add: demo_booted_fields)
  have options: "jn_options (st_journal demo_booted) = jn_options demo_journal" by (simp add: demo_booted_fields)
  obtain j where j: "rewrite io_ok ?recs (st_journal demo_booted) = (ok_status, j)" "jn_options j = jn_options demo_journal"
      "jn_bytes j = 265" "jn_records j = 3"
    using rewrite_succeeds [of ?recs "st_journal demo_booted"] unfolding demo_records options
    by (auto simp: demo_sizes demo_types one_record_size demo_room limits kMaxJournalBytes_def kMaxJournalRecords_def
      validate_record_def known_types demo_journal_def new_journal_def default_journal_options_def)
  then have "compact io_ok 200 demo_booted = (ok_status, demo_booted\<lparr>st_journal := j, st_compactions := st_compactions demo_booted + 1\<rparr>)"
    by (simp add: compact_def report) (simp add: demo_records kMaxJournalRecords_def)
  with j show "compact io_ok 200 demo_booted = (ok_status, demo_compacted)"
    "jn_bytes (st_journal demo_compacted) = 265" "jn_records (st_journal demo_compacted) = 3"
    "jn_options (st_journal demo_compacted) = jn_options demo_journal"
    by (simp_all add: demo_compacted_def)
qed

section \<open>Records\<close>

lemma demo_job_fits: "job_fits (demo_job 1 2)"
  by (simp add: job_fits_def job_lists_fit_def job_strings_fit_def job_times_fit_def demo_job_def new_job_def id_valid_def
    sw_def target_valid_def str_fits_def i64_fits_def limits)

lemma demo_evidence_fits: "evidence_fits (demo_evidence 1)"
  by (simp add: evidence_fits_def evidence_valid_def demo_evidence_def id_valid_def subject_valid_def subject_of_def sw_def
    target_valid_def incarnation_valid_def demo_self_def i64_fits_def nanos_defs limits)

lemma ancestors_root: "target t i = Some r \<Longrightarrow> tr_parent r = None \<Longrightarrow> ancestors t i = []"
  by (simp add: ancestors_def kMaxTopologyChainDepth_def numeral_eq_Suc)

lemma demo_topology_fits: "topology_fits demo_topology"
proof -
  have "target demo_topology (sw i) = Some (demo_switch i)" if "i \<in> {1, 2, 3}" for i
    using that by (auto simp: demo_topology_def demo_defs table_eval target_def)
  then have "ancestors demo_topology (sw i) = []" if "i \<in> {1, 2, 3}" for i
    using that ancestors_root by (fastforce simp: demo_switch_def)
  then have "shallow demo_topology"
    by (simp add: shallow_def demo_topology_def [THEN arg_cong [where f = tp_targets]] demo_stage_def limits)
  then show ?thesis
    unfolding topology_fits_def using demo_topology_wf demo_topology_valid
    by (simp add: demo_topology_def demo_defs domain_valid_def id_valid_def limits)
qed

end
