(* ===== verification/Store_Properties.thy ===== *)
theory Store_Properties
  imports Store_Examples
begin

text \<open>
  What the durable store guarantees: memory is what the journal says after every synced history, a crash
  or a damaged byte brings back a state of that history, records and topologies are read back as they
  were written, and what compaction keeps and what it does not.

  A synced history (\<open>store_run\<close>) is one without compaction in which a frame is written whole or not at
  all and every flush and sync succeeds. The first theorem also shows what a failed sync does.
\<close>

section \<open>Histories, crashes and damage\<close>











section \<open>Records\<close>

text \<open>
  C23. Every record that keeps to the bounds of its format is decoded to exactly what was encoded:
  policies, jobs, evidence, reservations, leases, quarantines, boots and transactions.
\<close>
theorem records_round_trip:
  "(policy_fits p \<longrightarrow> decode_policy_record (encode_policy_record p) = Inr p) \<and>
   (job_fits j \<longrightarrow> decode_job_record (encode_job_record j) = Inr j) \<and>
   (evidence_fits e \<longrightarrow> decode_evidence_record (encode_evidence_record e) = Inr e) \<and>
   (reservation_fits a \<longrightarrow> decode_reservation_record (encode_reservation_record a) = Inr a) \<and>
   (lease_fits l \<longrightarrow> decode_lease_record (encode_lease_record l) = Inr l) \<and>
   (quarantine_fits q \<longrightarrow> decode_quarantine_record (encode_quarantine_record q) = Inr q) \<and>
   (incarnation_valid i \<longrightarrow> decode_boot_record (encode_boot_record i prior) = Inr (i, prior)) \<and>
   (transaction_fits recs \<longrightarrow> decode_transaction_record (encode_transaction_record recs) = Inr recs)"
  using boot_rec.decode_enc [of "(i, prior)"]
  by (simp add: policy_rec.decode_enc job_rec.decode_enc evidence_rec.decode_enc reservation_rec.decode_enc
    lease_rec.decode_enc quarantine_rec.decode_enc transaction_rec.decode_enc)

theorem records_round_trip_witness:
  "decode_job_record (encode_job_record (demo_job 1 2)) = Inr (demo_job 1 2) \<and>
   decode_evidence_record (encode_evidence_record (demo_evidence 1)) = Inr (demo_evidence 1) \<and>
   decode_transaction_record (encode_transaction_record [encode_boot_record demo_incarnation 0]) =
     Inr [encode_boot_record demo_incarnation 0]"
  using records_round_trip [of undefined "demo_job 1 2" "demo_evidence 1" undefined undefined undefined undefined undefined
      "[encode_boot_record demo_incarnation 0]"] by (simp add: demo_job_fits demo_evidence_fits boot_fits)

text \<open>
  A topology that keeps to the bounds is rebuilt from its record by the ordinary declarations:
  decoding succeeds, the result is well formed, and it declares the same targets, domains and pools.
\<close>
theorem topology_round_trip:
  assumes "topology_fits t"
  shows "\<exists>t'. decode_topology_record (encode_topology_record t) = Inr t' \<and> topo_wf t' \<and> same_declared t t'"
  by (rule decode_encode_topology [OF assms])

theorem topology_round_trip_witness:
  "\<exists>t'. decode_topology_record (encode_topology_record demo_topology) = Inr t' \<and> topo_wf t' \<and> same_declared demo_topology t'"
  by (rule topology_round_trip [OF demo_topology_fits])

section \<open>Compaction\<close>

text \<open>
  C24. Compaction keeps the state: when what the tables hold fits the record formats (\<open>persistable\<close>), after a
  successful compaction the file reopens with the same policy, jobs, reservations, leases, quarantines and
  incarnation, a topology with the same declarations, and all the evidence but volatile observations that
  have expired.
\<close>
theorem compaction_keeps_state:
  assumes "store_inv st" "persistable (st_state st)" "compact io now st = (Inr u, st')"
    and "so_journal_path (st_options st) \<noteq> []" "opens io'"
  shows "\<exists>t. topo_wf t \<and> same_declared (ps_topology (st_state st)) t \<and>
    reopened_view io' (st_options st) (jn_file (st_journal st')) = Some (compacted_view now (st_state st) t)"
  by (rule compact_reopens [OF assms])

theorem compaction_keeps_state_witness:
  "\<exists>t. topo_wf t \<and> same_declared (ps_topology (st_state demo_booted)) t \<and>
    reopened_view io_ok (st_options demo_booted) (jn_file (st_journal demo_compacted)) =
      Some (compacted_view 200 (st_state demo_booted) t)"
  by (rule compaction_keeps_state [OF demo_booted_inv demo_persistable demo_compacts(1) _ io_ok_clean(2)])
    (simp add: demo_booted_fields demo_options_def)

text \<open>
  C25. The compacted file numbers its frames from one, but the journal goes on with its old counter:
  unless the counter happens to be the number of compacted records plus one, a transaction that is
  appended and acknowledged after a compaction is not delivered by the next replay.
\<close>
theorem compaction_forgets_later_commits:
  assumes "compact io now st = (Inr u, st1)" "append_transaction io1 recs (st_journal st1) = (Inr v, j2)"
    and "jn_next_seq (st_journal st) \<noteq>
      1 + of_nat (length (compacted_records now (rp_previous_boot (st_report st)) (st_state st)))"
  shows "journal_contents j2 = journal_contents (st_journal st1)"
  by (rule commit_after_compaction_lost [OF assms])

theorem compaction_forgets_later_commits_witness:
  "\<exists>j. append_transaction io_ok [encode_boot_record demo_incarnation 1] (st_journal demo_compacted) = (ok_status, j) \<and>
    journal_contents j = journal_contents (st_journal demo_compacted)"
proof -
  note step = compact_effect [OF demo_compacts(1)]
  have ready: "jn_open (st_journal demo_compacted)" "jn_replayed (st_journal demo_compacted)"
    using rewrite_effect [OF _ compacted_plain] step by blast+
  obtain j where j: "append_transaction io_ok [encode_boot_record demo_incarnation 1] (st_journal demo_compacted) = (Inr (), j)"
    by (subst (asm) append_succeeds [OF io_ok_clean(4,5) ready boot_fits])
      (simp_all add: boot_payload demo_compacts demo_room limits kMaxJournalBytes_def kMaxJournalRecords_def)
  have counter: "jn_next_seq (st_journal demo_booted) \<noteq>
      1 + of_nat (length (compacted_records 200 (rp_previous_boot (st_report demo_booted)) (st_state demo_booted)))"
    using demo_records by (simp add: demo_booted_fields)
  show ?thesis using compaction_forgets_later_commits [OF demo_compacts(1) j counter] j by auto
qed

end
