(* ===== verification/Controller_State.thy ===== *)
theory Controller_State
  imports Compaction Authority_Run Preconditions Scheduler
begin

text \<open>
  The controller's state (\<^verbatim>\<open>include/mf/runtime/controller.hpp\<close>) and the operations on one job that
  its stages share (\<^verbatim>\<open>src/runtime/controller.cpp\<close>): committing it, starting an attempt, moving it
  along the life cycle, giving back what it holds, and evaluating its preconditions. The file system
  and the drain service are the environment: \<open>ct_io n\<close> says how the file system behaves during the
  \<open>n\<close>-th operation of the store, \<open>ct_port\<close> what the drain service answers to its \<open>n\<close>-th call.
\<close>

section \<open>State\<close>

record controller_options =
  co_store :: store_options
  co_controller_id :: controller_id
  co_nonce :: u64
  co_name :: string

record controller_stats =
  cs_ticks :: u64
  cs_proposals :: u64
  cs_approvals :: u64
  cs_rearmings :: u64
  cs_cancellations :: u64
  cs_starts :: u64
  cs_completions :: u64
  cs_failures :: u64
  cs_blocks :: u64
  cs_unblocks :: u64
  cs_drain_requests :: u64
  cs_drain_failures :: u64
  cs_drain_releases :: u64
  cs_verifications_passed :: u64
  cs_verifications_failed :: u64
  cs_restorations :: u64
  cs_restoration_failures :: u64
  cs_quarantines :: u64
  cs_reconciliations :: u64
  cs_authority_revocations :: u64
  cs_authority_reissues :: u64
  cs_stale_attempt_rejections :: u64
  cs_stale_generation_rejections :: u64
  cs_stale_incarnation_rejections :: u64
  cs_stale_evidence_rejections :: u64
  cs_compactions :: u64

definition no_controller_stats :: controller_stats where
  "no_controller_stats = \<lparr>cs_ticks = 0, cs_proposals = 0, cs_approvals = 0, cs_rearmings = 0, cs_cancellations = 0,
     cs_starts = 0, cs_completions = 0, cs_failures = 0, cs_blocks = 0, cs_unblocks = 0, cs_drain_requests = 0,
     cs_drain_failures = 0, cs_drain_releases = 0, cs_verifications_passed = 0, cs_verifications_failed = 0,
     cs_restorations = 0, cs_restoration_failures = 0, cs_quarantines = 0, cs_reconciliations = 0,
     cs_authority_revocations = 0, cs_authority_reissues = 0, cs_stale_attempt_rejections = 0,
     cs_stale_generation_rejections = 0, cs_stale_incarnation_rejections = 0, cs_stale_evidence_rejections = 0,
     cs_compactions = 0\<rparr>"

datatype drain_kind = DrainRequest | DrainRelease | DrainQuery

record drain_action =
  da_kind :: drain_kind
  da_job :: job_id
  da_generation :: generation_id
  da_attempt :: attempt_id
  da_lease :: lease_id
  da_targets :: "target_id list"
  da_lease_duration :: nanos
  da_reason :: string

definition no_action :: drain_action where
  "no_action = \<lparr>da_kind = DrainRequest, da_job = 0, da_generation = 0, da_attempt = no_attempt, da_lease = 0,
     da_targets = [], da_lease_duration = 0, da_reason = []\<rparr>"

record drain_response =
  dr_status :: status
  dr_lease :: drain_lease

definition no_lease :: drain_lease where
  "no_lease = \<lparr>le_id = 0, le_targets = [], le_granted_at = 0, le_expires_at = 0, le_state = DsUnknown,
     le_attempt = no_attempt, le_owner = no_incarnation, le_epoch = 0\<rparr>"

record drain_outcome =
  oc_action :: drain_action
  oc_response :: drain_response

definition no_arbitration :: arbitration_report where
  "no_arbitration = \<lparr>rp_decisions = [], rp_at = 0, rp_by = no_incarnation, rp_policy_revision = 0,
     rp_topology_revision = 0, rp_policy_digest = 0, rp_topology_digest = 0, rp_granted = 0, rp_denied = 0,
     rp_deferred = 0, rp_digest = 0\<rparr>"

text \<open>The drain service behind \<^verbatim>\<open>DrainPort\<close>: its answer to the \<open>n\<close>-th call.\<close>

record drain_port =
  dp_request :: "nat \<Rightarrow> drain_request \<Rightarrow> drain_response"
  dp_query :: "nat \<Rightarrow> lease_id \<Rightarrow> incarnation \<Rightarrow> drain_response"
  dp_release :: "nat \<Rightarrow> lease_id \<Rightarrow> incarnation \<Rightarrow> status"

record controller =
  ct_store :: store
  ct_options :: controller_options
  ct_incarnation :: incarnation
  ct_policy :: policy
  ct_topology :: topology
  ct_evidence_revision :: u64
  ct_drain_inflight :: "job_id set"
  ct_queued_releases :: "lease_id set"
  ct_deferred_releases :: "drain_action list"
  ct_last_arbitration :: arbitration_report
  ct_stats :: controller_stats
  ct_stopping :: bool
  ct_io :: "nat \<Rightarrow> io_env"
  ct_io_calls :: nat
  ct_port :: drain_port
  ct_port_calls :: nat

record evaluation =
  ev_impact :: capacity_impact
  ev_preconditions :: precondition_set

text \<open>\<^verbatim>\<open>PassContext\<close>: the actions are a list to append to, or the null pointer.\<close>

record pass_context =
  pc_now :: nanos
  pc_view :: readiness_view
  pc_actions :: "drain_action list option"

definition ct_state :: "controller \<Rightarrow> persisted_state" where
  "ct_state c = st_state (ct_store c)"

definition ct_jobs :: "controller \<Rightarrow> job_table" where
  "ct_jobs c = ps_jobs (ct_state c)"

text \<open>Calling an operation of the store, in the environment of the next call.\<close>

definition on_store :: "(io_env \<Rightarrow> store \<Rightarrow> 'a \<times> store) \<Rightarrow> controller \<Rightarrow> 'a \<times> controller" where
  "on_store f c = (case f (ct_io c (ct_io_calls c)) (ct_store c) of
     (r, st) \<Rightarrow> (r, c\<lparr>ct_store := st, ct_io_calls := Suc (ct_io_calls c)\<rparr>))"

definition counted :: "((u64 \<Rightarrow> u64) \<Rightarrow> controller_stats \<Rightarrow> controller_stats) \<Rightarrow> controller \<Rightarrow> controller" where
  "counted upd c = c\<lparr>ct_stats := upd (\<lambda>n. n + 1) (ct_stats c)\<rparr>"

definition push_action :: "drain_action \<Rightarrow> pass_context \<Rightarrow> pass_context" where
  "push_action a pc = pc\<lparr>pc_actions := map_option (\<lambda>as. as @ [a]) (pc_actions pc)\<rparr>"

section \<open>Constants\<close>

definition kMaxPassesPerTick :: nat where
  "kMaxPassesPerTick = 8"

definition kAbortGraceFallbackNanos :: nanos where
  "kAbortGraceFallbackNanos = 60 * kNanosPerSecond"

definition kSoftBlockDwellNanos :: nanos where
  "kSoftBlockDwellNanos = kNanosPerSecond"

definition is_hard_block :: "block_reason \<Rightarrow> bool" where
  "is_hard_block r \<longleftrightarrow> r \<in> {TargetUnknown, TargetNotMaintainable, BrPolicyDenied, OperatorHold}"

section \<open>Evidence and commits\<close>

definition make_evidence_locked ::
    "evidence_kind \<Rightarrow> evidence_subject \<Rightarrow> source_id \<Rightarrow> nanos \<Rightarrow> nanos \<Rightarrow> evidence_payload \<Rightarrow> job_id \<Rightarrow> attempt_id \<Rightarrow>
     controller \<Rightarrow> evidence_record \<times> controller" where
  "make_evidence_locked kind subject source now ttl payload job_ref attempt c =
     (let (i, st) = allocate_evidence_id (ct_store c);
          c = c\<lparr>ct_store := st, ct_evidence_revision := ct_evidence_revision c + 1\<rparr>;
          ttl = (if ttl > 0 then ttl else ttl_for (ct_policy c) kind);
          ttl = (if ttl \<le> 0 \<or> ttl > kMaxEvidenceTtlNanos then kDefaultEvidenceTtlNanos else ttl) in
      (\<lparr>er_id = i, er_key = EvidenceKey kind subject source, er_revision = ct_evidence_revision c,
        er_observed_at = now, er_ttl = ttl, er_klass = default_evidence_class kind, er_payload = payload,
        er_observed_by = ct_incarnation c, er_job = job_ref, er_attempt = attempt, er_digest = 0\<rparr>, c))"

definition write_evidence_locked :: "evidence_record \<Rightarrow> controller \<Rightarrow> status \<times> controller" where
  "write_evidence_locked e c = on_store (\<lambda>io. observe_evidence io e) c"

definition no_such_job :: "job_id \<Rightarrow> error" where
  "no_such_job i = make_error NotFound (''job '' @ to_string_job i @ '' does not exist'')"

definition commit_job_locked :: "job \<Rightarrow> nanos \<Rightarrow> controller \<Rightarrow> status \<times> controller" where
  "commit_job_locked j now c =
     (case find_job (ct_jobs c) (j_id j) of
        None \<Rightarrow> (Inl (no_such_job (j_id j)), c)
      | Some current \<Rightarrow>
          on_store (\<lambda>io. commit_job io (j\<lparr>j_revision := next_id (j_revision current), j_updated_at := now\<rparr>)) c)"

section \<open>Attempts and transitions\<close>

definition new_attempt_locked :: "controller \<Rightarrow> nanos \<Rightarrow> job \<Rightarrow> job" where
  "new_attempt_locked c now j =
     (let attempt = \<lparr>at_job = j_id j, at_generation = j_generation j, at_ordinal = j_next_attempt j\<rparr>;
          r = \<lparr>ar_id = attempt, ar_started_at = now, ar_ended_at = 0, ar_outcome = Running,
            ar_detail = ''attempt started by '' @ to_string_incarnation (ct_incarnation c)\<rparr>;
          attempts = j_attempts j @ [r];
          excess = length attempts - unat kMaxAttemptsPerJob in
      j\<lparr>j_next_attempt := next_id (j_next_attempt j), j_active_attempt := attempt, j_owner := ct_incarnation c,
        j_attempts := drop excess attempts\<rparr>)"

definition release_resources_locked :: "job \<Rightarrow> pass_context \<Rightarrow> controller \<Rightarrow> job \<times> pass_context \<times> controller" where
  "release_resources_locked j pc c =
     (let (j, c) =
        (if id_valid (j_authority j) then
           (case on_store (\<lambda>io. release_authority io (j_authority j) (ct_incarnation c)) c of
              (Inr _, c) \<Rightarrow> (j\<lparr>j_authority := 0\<rparr>, c)
            | (Inl e, c) \<Rightarrow>
                (if err_code e = NotFound \<or> err_code e = StaleIncarnation then j\<lparr>j_authority := 0\<rparr> else j, c))
         else (j, c)) in
      if id_valid (j_lease j) then
        (j\<lparr>j_lease := 0\<rparr>,
         push_action (no_action\<lparr>da_kind := DrainRelease, da_job := j_id j, da_generation := j_generation j,
           da_attempt := j_active_attempt j, da_lease := j_lease j,
           da_reason := ''job retired before service removal''\<rparr>) pc, c)
      else (j, pc, c))"

text \<open>The stage effects of the switch over the new state.\<close>

definition enter_state :: "job_state \<Rightarrow> nanos \<Rightarrow> job \<Rightarrow> controller \<Rightarrow> job \<times> controller" where
  "enter_state to now j c = (case to of
     Blocked \<Rightarrow> (j, counted cs_blocks_update c)
   | InMaintenance \<Rightarrow> (j\<lparr>j_service_removed := True, j_started_at := now\<rparr>, counted cs_starts_update c)
   | Verifying \<Rightarrow> (j\<lparr>j_verification_started_at := now\<rparr>, c)
   | Restoring \<Rightarrow> (j\<lparr>j_restoration_started_at := now\<rparr>, c)
   | Complete \<Rightarrow> (j\<lparr>j_completed_at := now\<rparr>, counted cs_completions_update c)
   | Failed \<Rightarrow> (j\<lparr>j_completed_at := now\<rparr>, counted cs_failures_update c)
   | JobCancelled \<Rightarrow> (j\<lparr>j_completed_at := now\<rparr>, counted cs_cancellations_update c)
   | _ \<Rightarrow> (j, c))"

definition close_attempt :: "job_state \<Rightarrow> nanos \<Rightarrow> job \<Rightarrow> job" where
  "close_attempt to now j =
     j\<lparr>j_attempts := map (\<lambda>a.
         if ar_id a = j_active_attempt j \<and> ar_outcome a = Running then
           a\<lparr>ar_outcome := (if to = Complete then Succeeded else if to = Failed then AoFailed else AoCancelled),
             ar_ended_at := now\<rparr>
         else a) (j_attempts j),
       j_active_attempt := no_attempt\<rparr>"

definition note_transition :: "controller \<Rightarrow> job_state \<Rightarrow> block_reason \<Rightarrow> string \<Rightarrow> nanos \<Rightarrow> job \<Rightarrow> job" where
  "note_transition c to reason detail now j =
     push_history \<lparr>he_at = now, he_from = j_state j, he_to = to, he_reason = reason, he_detail = detail,
         he_by = ct_incarnation c\<rparr>
       (j\<lparr>j_state := to, j_block := reason, j_block_detail := (if reason = BrNone then [] else detail),
          j_last_detail := detail\<rparr>)"

definition transition_locked ::
    "job_state \<Rightarrow> block_reason \<Rightarrow> string \<Rightarrow> nanos \<Rightarrow> job \<Rightarrow> pass_context \<Rightarrow> controller \<Rightarrow>
     bool \<times> job \<times> pass_context \<times> controller" where
  "transition_locked to reason detail now j pc c =
     (if \<not> tc_allowed (check_transition (j_state j) to (j_service_removed j)) then (False, j, pc, c)
      else
        let (j, c) = enter_state to now (note_transition c to reason detail now j) c;
            (j, pc, c) =
              (if is_terminal to \<or> (to = Blocked \<and> \<not> j_service_removed j) then release_resources_locked j pc c
               else (j, pc, c));
            j = (if is_terminal to then close_attempt to now j else j) in
        (True, j, pc, c))"

section \<open>Evaluation\<close>

definition precondition_input :: "controller \<Rightarrow> readiness_view \<Rightarrow> bool \<Rightarrow> bool \<Rightarrow> nanos \<Rightarrow> job \<Rightarrow> precondition_context" where
  "precondition_input c view check_auth check_dr now j =
     \<lparr>px_job = j, px_topology = ct_topology c, px_policy = ct_policy c,
      px_evidence = Some (ps_evidence (ct_state c)), px_ledger = Some (ps_ledger (ct_state c)),
      px_jobs = Some (ct_jobs c), px_readiness = view, px_current = ct_incarnation c, px_now = now,
      px_check_authority = check_auth, px_check_drain = check_dr, px_impact_in = None\<rparr>"

definition baseline_removed :: "controller \<Rightarrow> nanos \<Rightarrow> job \<Rightarrow> target_id list" where
  "baseline_removed c now j =
     fold (\<lambda>e out.
         if fst e = j_id j \<or> \<not> stage_removes_service (j_state (snd e)) then out
         else fold (\<lambda>t out. push_unique out t) (j_removal_set (snd e)) out)
       (jt_jobs (ct_jobs c)) (reserved_targets now (ps_ledger (ct_state c)))"

definition evaluate_locked :: "job \<Rightarrow> readiness_view \<Rightarrow> bool \<Rightarrow> bool \<Rightarrow> nanos \<Rightarrow> controller \<Rightarrow> evaluation" where
  "evaluate_locked j view check_auth check_dr now c =
     (let im = plan_impact (ct_topology c) (ct_policy c) view (baseline_removed c now j) (j_removal_set j) in
      \<lparr>ev_impact = im,
       ev_preconditions = evaluate_preconditions
         ((precondition_input c view check_auth check_dr now j)\<lparr>px_impact_in := Some im\<rparr>)\<rparr>)"

end
