(* ===== verification/Controller_Drive.thy ===== *)
theory Controller_Drive
  imports Controller_State
begin

text \<open>
  One pass of the controller over its jobs (\<^verbatim>\<open>src/runtime/controller.cpp\<close>): a function for each stage,
  the arbitration of waiting jobs, the calls to the drain service and what is made of the answers, and
  the tick that repeats the pass. A stage returns whether the job changed, the job, the pass and the
  controller; only a changed job is committed.
\<close>

type_synonym driven = "bool \<times> job \<times> pass_context \<times> controller"

section \<open>Before removal\<close>

fun scope_problem :: "topology \<Rightarrow> target_id list \<Rightarrow> (block_reason \<times> string) option" where
  "scope_problem topo [] = None"
| "scope_problem topo (t # ts) =
     (case target topo t of
        None \<Rightarrow> Some (TargetUnknown, ''target '' @ to_string_target t @ '' is not declared in the topology'')
      | Some r \<Rightarrow>
          if \<not> tr_maintainable r then
            Some (TargetNotMaintainable, ''target '' @ to_string_target t @ '' is marked not maintainable'')
          else scope_problem topo ts)"

definition drive_validated_locked :: "job \<Rightarrow> pass_context \<Rightarrow> controller \<Rightarrow> driven" where
  "drive_validated_locked j pc c =
     (let now = pc_now pc in
      case scope_problem (ct_topology c) (j_targets j) of
        Some (reason, detail) \<Rightarrow> transition_locked Blocked reason detail now j pc c
      | None \<Rightarrow>
          if po_tiers (ct_policy c) \<noteq> [] \<and> \<not> known_tier (ct_policy c) (j_priority j) then
            transition_locked Blocked BrPolicyDenied
              (''priority tier '' @ dec_word (j_priority j) @ '' is not declared by policy'') now j pc c
          else
            let j = j\<lparr>j_removal_set := removal_set (ct_topology c) (j_targets j),
                  j_policy_revision := po_revision (ct_policy c), j_policy_digest := policy_digest (ct_policy c),
                  j_topology_revision := tp_revision (ct_topology c),
                  j_topology_digest := topology_digest (ct_topology c), j_owner := ct_incarnation c\<rparr>;
                j = (if \<not> attempt_valid (j_active_attempt j) then new_attempt_locked c now j else j) in
            transition_locked Prerequisites BrNone
              (''scope expanded to '' @ dec_string (length (j_removal_set j)) @ '' target(s); prerequisites begin'')
              now j pc c)"

definition drain_request_for :: "policy \<Rightarrow> job \<Rightarrow> drain_action" where
  "drain_request_for po j = no_action\<lparr>da_kind := DrainRequest, da_job := j_id j, da_generation := j_generation j,
     da_attempt := j_active_attempt j, da_targets := j_removal_set j, da_lease_duration := po_drain_lease po,
     da_reason := j_title j\<rparr>"

definition block_violated :: "precondition_set \<Rightarrow> nanos \<Rightarrow> job \<Rightarrow> pass_context \<Rightarrow> controller \<Rightarrow> driven" where
  "block_violated s now j pc c =
     transition_locked Blocked (case pre_first_violation s of Some r \<Rightarrow> r | None \<Rightarrow> BrPolicyDenied)
       (case find (\<lambda>r. pc_status r = Violated) (ps_results s) of
          Some r \<Rightarrow> pc_detail r | None \<Rightarrow> ''precondition violated'') now j pc c"

text \<open>The rest of the prerequisites stage, once the authority is held and renewed.\<close>

definition prerequisites_held :: "job \<Rightarrow> pass_context \<Rightarrow> controller \<Rightarrow> driven" where
  "prerequisites_held j pc c =
     (let now = pc_now pc; po = ct_policy c in
      if j_requires_drain j \<and> \<not> id_valid (j_lease j) then
        (if j_drain_failures j \<ge> po_max_drain_failures_before_block po then
           transition_locked Blocked BrDrainFailed
             (''drain failed '' @ dec_word (j_drain_failures j) @ '' time(s); policy bound is '' @
              dec_word (po_max_drain_failures_before_block po)) now j pc c
         else if j_id j \<notin> ct_drain_inflight c then
           (False, j, push_action (drain_request_for po j) pc,
            counted cs_drain_requests_update (c\<lparr>ct_drain_inflight := insert (j_id j) (ct_drain_inflight c)\<rparr>))
         else (False, j, pc, c))
      else
        let s = ev_preconditions (evaluate_locked j (pc_view pc) True True now c) in
        if ps_violated s > 0 then block_violated s now j pc c
        else if ps_pending s > 0 then
          (True, j\<lparr>j_preconditions_at := now, j_preconditions_digest := ps_digest s, j_preconditions_satisfied := False,
             j_last_detail := ''waiting for prerequisites: '' @ dec_string (ps_pending s) @ '' pending''\<rparr>, pc, c)
        else
          transition_locked Ready BrNone
            (''every precondition authoritatively satisfied (digest '' @ hex_u64 (ps_digest s) @ '')'') now
            (j\<lparr>j_preconditions_at := now, j_preconditions_digest := ps_digest s,
               j_preconditions_policy_revision := ps_policy_revision s,
               j_preconditions_topology_revision := ps_topology_revision s, j_preconditions_satisfied := True\<rparr>) pc c)"

definition drive_prerequisites_locked :: "job \<Rightarrow> pass_context \<Rightarrow> controller \<Rightarrow> driven" where
  "drive_prerequisites_locked j pc c =
     (let now = pc_now pc in
      if \<not> attempt_valid (j_active_attempt j) then (True, new_attempt_locked c now j, pc, c)
      else if \<not> id_valid (j_authority j) then (False, j, pc, c)
      else case find_reservation (ps_ledger (ct_state c)) (j_authority j) of
        None \<Rightarrow> (True, j\<lparr>j_authority := 0\<rparr>, pc, c)
      | Some held \<Rightarrow>
          let margin = renewal_margin (ct_policy c) in
          if ra_expires_at held - now \<le> margin then
            (case on_store (\<lambda>io. renew_authority io (j_authority j) (j_active_attempt j) (ct_incarnation c) margin now) c of
               (Inr _, c) \<Rightarrow> prerequisites_held j pc c
             | (Inl e, c) \<Rightarrow>
                 if err_code e = NotFound \<or> err_code e = StaleIncarnation \<or> err_code e = StaleAttempt then
                   (True, j\<lparr>j_authority := 0\<rparr>, pc, counted cs_authority_revocations_update c)
                 else transition_locked Blocked AuthorityDenied (err_detail e) now j pc c)
          else prerequisites_held j pc c)"

definition drive_ready_locked :: "job \<Rightarrow> pass_context \<Rightarrow> controller \<Rightarrow> driven" where
  "drive_ready_locked j pc c =
     (let now = pc_now pc; po = ct_policy c;
          s = ev_preconditions (evaluate_locked j (pc_view pc) True True now c) in
      if ps_violated s > 0 then block_violated s now j pc c
      else if ps_pending s > 0 then
        transition_locked Prerequisites BrNone ''prerequisites are no longer fully satisfied'' now j pc c
      else if now - j_preconditions_at j > po_max_precondition_age po then
        transition_locked Prerequisites EvidenceMissingOrStale
          (''the recorded precondition evaluation is '' @ format_duration (now - j_preconditions_at j) @
           '' old and exceeds the policy bound of '' @ format_duration (po_max_precondition_age po)) now j pc c
      else
        let w = evaluate_window (po_windows po) (j_targets j) now (po_require_window po) in
        transition_locked InMaintenance BrNone
          (''service removal begins under window '' @ to_string_window (we_window w) @ '' (verdict '' @
           to_string_verdict (we_verdict w) @ '')'') now
          (j\<lparr>j_window := we_window w, j_window_closes_at := (if we_verdict w = Open then we_closes_at w else 0),
             j_on_close := (if we_verdict w = Open then
                (case policy_window po (we_window w) of Some entry \<Rightarrow> w_on_close entry | None \<Rightarrow> FinishActiveStep)
              else FinishActiveStep),
             j_preconditions_digest := ps_digest s, j_preconditions_at := now\<rparr>) pc c)"

definition drive_blocked_locked :: "job \<Rightarrow> pass_context \<Rightarrow> controller \<Rightarrow> driven" where
  "drive_blocked_locked j pc c =
     (let now = pc_now pc;
          policy_changed = (id_valid (j_policy_revision j) \<and> j_policy_revision j \<noteq> po_revision (ct_policy c));
          topology_changed = (id_valid (j_topology_revision j) \<and> j_topology_revision j \<noteq> tp_revision (ct_topology c)) in
      if is_hard_block (j_block j) \<and> \<not> policy_changed \<and> \<not> topology_changed then (False, j, pc, c)
      else if now - j_updated_at j < kSoftBlockDwellNanos \<and> \<not> policy_changed \<and> \<not> topology_changed then (False, j, pc, c)
      else
        let c = counted cs_unblocks_update c; previous = to_string_block (j_block j) in
        if j_service_removed j then
          let j = (if \<not> attempt_valid (j_active_attempt j) then new_attempt_locked c now j else j) in
          transition_locked Verifying (j_block j)
            (''resuming after block '' @ [CHR 0x27] @ previous @ [CHR 0x27] @
             '' with service already removed; verification is mandatory'') now j pc c
        else
          transition_locked Prerequisites BrNone (''resuming after block '' @ [CHR 0x27] @ previous @ [CHR 0x27]) now j pc c)"

section \<open>While service is removed\<close>

definition job_query :: "controller \<Rightarrow> evidence_kind \<Rightarrow> nanos \<Rightarrow> job \<Rightarrow> target_id \<Rightarrow> u64 \<Rightarrow> evidence_query" where
  "job_query c kind now j t src =
     \<lparr>eq_key = EvidenceKey kind (subject_of t) src, eq_current = ct_incarnation c, eq_now = now,
      eq_job = j_id j, eq_attempt = j_active_attempt j\<rparr>"

text \<open>The first fresh report about a target, by the number of its source.\<close>

definition fresh_report :: "controller \<Rightarrow> evidence_kind \<Rightarrow> nanos \<Rightarrow> job \<Rightarrow> target_id \<Rightarrow> u64 \<Rightarrow> evidence_record option" where
  "fresh_report c kind now j t src =
     (let ev = ps_evidence (ct_state c) in
      case find_evidence ev (EvidenceKey kind (subject_of t) src) of
        None \<Rightarrow> None
      | Some r \<Rightarrow> if fresh (evaluate ev (job_query c kind now j t src)) then Some r else None)"

definition completion_report :: "controller \<Rightarrow> nanos \<Rightarrow> job \<Rightarrow> target_id \<Rightarrow> evidence_record option" where
  "completion_report c now j t =
     (case find (\<lambda>src. fresh_report c MaintenanceCompletion now j t src \<noteq> None) evidence_sources of
        None \<Rightarrow> None
      | Some src \<Rightarrow> fresh_report c MaintenanceCompletion now j t src)"

text \<open>Whether every target has a fresh report, and whether one of them reports a failure.\<close>

definition completion_confirmed_locked :: "job \<Rightarrow> nanos \<Rightarrow> controller \<Rightarrow> bool \<times> bool" where
  "completion_confirmed_locked j now c =
     (let reports = map (completion_report c now j) (j_removal_set j) in
      (list_all (\<lambda>r. r \<noteq> None) reports,
       list_ex (\<lambda>r. case r of Some e \<Rightarrow> \<not> ep_result (er_payload e) | None \<Rightarrow> False) reports))"

definition quarantine_one :: "job \<Rightarrow> block_reason \<Rightarrow> string \<Rightarrow> nanos \<Rightarrow> target_id \<Rightarrow> controller \<Rightarrow> controller" where
  "quarantine_one j reason detail now t c =
     (case on_store (\<lambda>io. quarantine_target io t (j_id j) (j_generation j) reason detail now (ct_incarnation c)) c of
        (Inr _, c) \<Rightarrow> counted cs_quarantines_update c
      | (Inl _, c) \<Rightarrow> c)"

definition quarantine_targets_locked :: "job \<Rightarrow> block_reason \<Rightarrow> string \<Rightarrow> nanos \<Rightarrow> controller \<Rightarrow> controller" where
  "quarantine_targets_locked j reason detail now c = fold (quarantine_one j reason detail now) (j_removal_set j) c"

definition drive_in_maintenance_locked :: "job \<Rightarrow> pass_context \<Rightarrow> controller \<Rightarrow> driven" where
  "drive_in_maintenance_locked j pc c =
     (let now = pc_now pc;
          window_closed = (j_window_closes_at j > 0 \<and> now \<ge> j_window_closes_at j);
          (complete, any_failed) = completion_confirmed_locked j now c;
          grace = (case policy_window (ct_policy c) (j_window j) of
             Some w \<Rightarrow> if w_abort_grace w > 0 then w_abort_grace w else kAbortGraceFallbackNanos
           | None \<Rightarrow> kAbortGraceFallbackNanos) in
      if window_closed \<and> j_on_close j = AbortAndRestore \<and> \<not> complete \<and> now > j_window_closes_at j + grace then
        transition_locked Failed WindowUnavailable ''abort-and-restore deadline expired without a completion report'' now j pc
          (quarantine_targets_locked j WindowUnavailable
             (''window closed while the maintenance action was running and the '' @
              ''attempt did not report completion within the abort grace'') now c)
      else if window_closed \<and> j_on_close j = ExtendToComplete \<and> \<not> j_window_extended j then
        (True, j\<lparr>j_window_extended := True, j_last_detail := ''policy extended the window so the active step can complete''\<rparr>, pc, c)
      else if window_closed \<and> j_on_close j = FinishActiveStep \<and> \<not> j_overrun j then
        (True, j\<lparr>j_overrun := True, j_last_detail := ''window closed while the active step was running; the step is allowed to finish and the '' @
           ''overrun is recorded''\<rparr>, pc, c)
      else if \<not> complete then (False, j, pc, c)
      else
        transition_locked Verifying BrNone
          (if any_failed then ''the maintenance action reported failure; the scope is verified '' @
             ''and restored before the job closes as failed''
           else ''maintenance action complete; post-maintenance verification begins'') now
          (if any_failed then j\<lparr>j_maintenance_failed := True\<rparr> else j) pc c)"

definition health_gaps :: "readiness_view \<Rightarrow> target_id list \<Rightarrow> target_id list" where
  "health_gaps view ts = filter (\<lambda>t. \<not> is_fresh view t \<or> \<not> is_serving (health_of view t)) ts"

definition negative_report :: "controller \<Rightarrow> nanos \<Rightarrow> job \<Rightarrow> bool" where
  "negative_report c now j \<longleftrightarrow> (\<exists>t \<in> set (j_removal_set j). \<exists>src \<in> set evidence_sources.
     case fresh_report c RestorationCheck now j t src of Some r \<Rightarrow> \<not> ep_result (er_payload r) | None \<Rightarrow> False)"

definition drive_verifying_locked :: "job \<Rightarrow> pass_context \<Rightarrow> controller \<Rightarrow> driven" where
  "drive_verifying_locked j pc c =
     (let now = pc_now pc;
          gaps = health_gaps (pc_view pc) (j_removal_set j);
          negative = negative_report c now j in
      if gaps \<noteq> [] \<or> negative then
        (if now - j_verification_started_at j > j_estimated_duration j then
           let j = j\<lparr>j_verification_failures := j_verification_failures j + 1\<rparr>;
               c = counted cs_verifications_failed_update c in
           if j_verification_failures j \<ge> po_max_verification_attempts (ct_policy c) then
             transition_locked Failed VerificationFailed
               (''verification failed after '' @ dec_word (j_verification_failures j) @ '' round(s)'') now j pc
               (quarantine_targets_locked j VerificationFailed
                  ''post-maintenance verification never proved the scope healthy'' now c)
           else
             (True, j\<lparr>j_verification_started_at := now,
                j_last_detail := ''verification round '' @ dec_word (j_verification_failures j) @
                  '' exhausted; retrying with fresh evidence''\<rparr>, pc, c)
         else
           (True, j\<lparr>j_last_detail := (if negative then ''a restoration check reported failure for the scope''
              else ''waiting for fresh healthy evidence for '' @ dec_string (length gaps) @ '' target(s)'')\<rparr>, pc, c))
      else
        transition_locked Restoring BrNone
          (''post-maintenance verification passed with fresh evidence for '' @ dec_string (length (j_removal_set j)) @
           '' target(s)'') now
          (j\<lparr>j_verification_passes := j_verification_passes j + 1\<rparr>) pc (counted cs_verifications_passed_update c))"

definition no_payload :: evidence_payload where
  "no_payload = \<lparr>ep_health = HealthUnknown, ep_available_units = 0, ep_total_units = 0, ep_result = False, ep_count = 0\<rparr>"

definition record_verdict :: "job \<Rightarrow> readiness_view \<Rightarrow> nanos \<Rightarrow> target_id \<Rightarrow> controller \<Rightarrow> controller" where
  "record_verdict j view now t c =
     (let (e, c) = make_evidence_locked RestorationCheck (subject_of t) 1 now (ttl_for (ct_policy c) RestorationCheck)
        (no_payload\<lparr>ep_result := True, ep_health := health_of view t\<rparr>) (j_id j) (j_active_attempt j) c in
      snd (write_evidence_locked e c))"

definition restoration_gaps :: "controller \<Rightarrow> readiness_view \<Rightarrow> target_id list \<Rightarrow> target_id list" where
  "restoration_gaps c view ts =
     filter (\<lambda>t. find_open_for_target (ps_quarantines (ct_state c)) t \<noteq> None \<or> \<not> is_fresh view t \<or>
       \<not> is_serving (health_of view t)) ts"

definition drive_restoring_locked :: "job \<Rightarrow> pass_context \<Rightarrow> controller \<Rightarrow> driven" where
  "drive_restoring_locked j pc c =
     (let now = pc_now pc in
      if id_valid (j_lease j) then
        (if j_id j \<notin> ct_drain_inflight c \<and> j_lease j \<notin> ct_queued_releases c then
           (False, j, push_action (no_action\<lparr>da_kind := DrainRelease, da_job := j_id j, da_generation := j_generation j,
              da_attempt := j_active_attempt j, da_lease := j_lease j, da_reason := ''restoration complete''\<rparr>) pc,
            c\<lparr>ct_queued_releases := insert (j_lease j) (ct_queued_releases c)\<rparr>)
         else (False, j, pc, c))
      else case restoration_gaps c (pc_view pc) (j_removal_set j) of
        t # ts \<Rightarrow>
          (if now - j_restoration_started_at j > j_estimated_duration j then
             let j = j\<lparr>j_restoration_failures := j_restoration_failures j + 1\<rparr>;
                 c = counted cs_restoration_failures_update c in
             if j_restoration_failures j \<ge> po_max_restoration_attempts (ct_policy c) then
               transition_locked Failed BrRestorationFailed
                 (''restoration failed for '' @ to_string_target t @ '' ('' @ dec_string (length (t # ts)) @ '' target(s))'')
                 now j pc
                 (quarantine_targets_locked j BrRestorationFailed ''restoration never proved the scope healthy'' now c)
             else
               (True, j\<lparr>j_restoration_started_at := now,
                  j_last_detail := ''restoration round '' @ dec_word (j_restoration_failures j) @
                    '' exhausted; retrying with fresh evidence''\<rparr>, pc, c)
           else
             (True, j\<lparr>j_last_detail := ''waiting for restoration evidence for '' @ dec_string (length (t # ts)) @
                '' target(s)''\<rparr>, pc, c))
      | [] \<Rightarrow>
          let c = counted cs_restorations_update (fold (record_verdict j (pc_view pc) now) (j_removal_set j) c) in
          if j_maintenance_failed j then
            transition_locked Failed VerificationFailed ''service restored, but the maintenance action itself failed'' now j pc c
          else transition_locked Complete BrNone ''scope returned to service and verified'' now j pc c)"

end
