(* ===== verification/Controller_Tick.thy ===== *)
theory Controller_Tick
  imports Controller_Drive
begin

text \<open>
  The tick of the controller (\<^verbatim>\<open>Controller::tick\<close>): drive every job that is due, arbitrate the waiting
  ones, release orphaned drain leases, call the drain service without the lock, and apply what it
  answers. Each definition below is one section that runs under the lock, or one call without it.
\<close>

section \<open>Arbitration\<close>

definition wants_authority :: "nanos \<Rightarrow> controller \<Rightarrow> job \<Rightarrow> bool" where
  "wants_authority now c j \<longleftrightarrow> j_state j = Prerequisites \<and> attempt_valid (j_active_attempt j) \<and>
     (case find_for_job (ps_ledger (ct_state c)) (j_id j) (j_generation j) of
        Some held \<Rightarrow> \<not> (live_at now held \<and> ra_attempt held = j_active_attempt j)
      | None \<Rightarrow> True)"

definition arbitration_candidates :: "nanos \<Rightarrow> controller \<Rightarrow> job_id list" where
  "arbitration_candidates now c =
     take kMaxJobsPerArbitration (map fst (filter (\<lambda>e. wants_authority now c (snd e)) (jt_jobs (ct_jobs c))))"

definition arbitration_input :: "pass_context \<Rightarrow> controller \<Rightarrow> arbitration_context" where
  "arbitration_input pc c =
     \<lparr>ax_topology = ct_topology c, ax_policy = ct_policy c, ax_readiness = pc_view pc, ax_jobs = ct_jobs c,
      ax_candidates = arbitration_candidates (pc_now pc) c, ax_current = ct_incarnation c, ax_now = pc_now pc\<rparr>"

definition apply_denial :: "pass_context \<Rightarrow> arbitration_decision \<Rightarrow> controller \<Rightarrow> controller" where
  "apply_denial pc d c =
     (case find_job (ct_jobs c) (ad_job d) of
        None \<Rightarrow> c
      | Some denied \<Rightarrow>
          if j_state denied \<noteq> Prerequisites \<or> id_valid (j_authority denied) then c
          else
            let (_, blocked, _, c) = transition_locked Blocked (ad_reason d) (ad_detail d) (pc_now pc) denied
              (pc\<lparr>pc_actions := Some []\<rparr>) c in
            snd (commit_job_locked blocked (pc_now pc) c))"

definition apply_grant :: "ledger \<Rightarrow> pass_context \<Rightarrow> arbitration_decision \<Rightarrow> controller \<Rightarrow> controller" where
  "apply_grant staging pc d c =
     (case find_job (ct_jobs c) (ad_job d) of
        None \<Rightarrow> c
      | Some current \<Rightarrow>
          (case find_reservation staging (ad_authority d) of
             None \<Rightarrow> c
           | Some granted \<Rightarrow>
               (case on_store (\<lambda>io. insert_authority io granted) c of
                  (Inl _, c) \<Rightarrow> c
                | (Inr _, c) \<Rightarrow>
                    snd (commit_job_locked (current\<lparr>j_authority := ad_authority d, j_preconditions_at := pc_now pc,
                      j_preconditions_digest := ad_impact_digest d,
                      j_last_detail := ''maintenance authority '' @ to_string_authority (ad_authority d) @
                        '' granted by arbitration at position '' @ dec_string (ad_position d) @ '' ['' @
                        ad_ordering_key d @ '']''\<rparr>) (pc_now pc) c))))"

definition apply_decision :: "ledger \<Rightarrow> pass_context \<Rightarrow> arbitration_decision \<Rightarrow> controller \<Rightarrow> controller" where
  "apply_decision staging pc d c = (case ad_outcome d of
     Denied \<Rightarrow> apply_denial pc d c
   | Granted \<Rightarrow> apply_grant staging pc d c
   | Deferred \<Rightarrow> c)"

definition arbitrate_locked :: "pass_context \<Rightarrow> controller \<Rightarrow> controller" where
  "arbitrate_locked pc c =
     (if arbitration_candidates (pc_now pc) c = [] then c
      else
        let out = arbitrate (arbitration_input pc c) (ps_ledger (ct_state c)) in
        fold (apply_decision (as_ledger out) pc) (rp_decisions (as_report out))
          (c\<lparr>ct_last_arbitration := as_report out\<rparr>))"

section \<open>One pass\<close>

definition drive_stage :: "job \<Rightarrow> pass_context \<Rightarrow> controller \<Rightarrow> driven" where
  "drive_stage j pc c = (case j_state j of
     Validated \<Rightarrow> drive_validated_locked j pc c
   | Prerequisites \<Rightarrow> drive_prerequisites_locked j pc c
   | Ready \<Rightarrow> drive_ready_locked j pc c
   | Blocked \<Rightarrow> drive_blocked_locked j pc c
   | InMaintenance \<Rightarrow> drive_in_maintenance_locked j pc c
   | Verifying \<Rightarrow> drive_verifying_locked j pc c
   | Restoring \<Rightarrow> drive_restoring_locked j pc c
   | _ \<Rightarrow> (False, j, pc, c))"

definition drive_locked :: "job_id \<Rightarrow> pass_context \<times> controller \<Rightarrow> pass_context \<times> controller" where
  "drive_locked i pcc =
     (let (pc, c) = pcc in
      case find_job (ct_jobs c) i of
        None \<Rightarrow> (pc, c)
      | Some current \<Rightarrow>
          if is_terminal (j_state current) then (pc, c)
          else
            let (changed, j, pc, c) = drive_stage current pc c in
            if \<not> changed then (pc, c) else (pc, snd (commit_job_locked j (pc_now pc) c)))"

definition drive_order :: "selection \<Rightarrow> job_id list" where
  "drive_order sel = sort (fold (\<lambda>i out. push_unique out i)
     (sl_validated sel @ sl_restoring sel @ sl_verifying sel @ sl_in_maintenance sel @ sl_runnable sel) [])"

definition lease_owned :: "controller \<Rightarrow> lease_id \<Rightarrow> bool" where
  "lease_owned c i \<longleftrightarrow> (\<exists>e \<in> set (jt_jobs (ct_jobs c)). j_lease (snd e) = i \<and> \<not> is_terminal (j_state (snd e)))"

definition release_orphan ::
    "lease_id \<times> drain_lease \<Rightarrow> drain_action list \<times> controller \<Rightarrow> drain_action list \<times> controller" where
  "release_orphan e ac =
     (let (actions, c) = ac in
      if lease_owned c (fst e) \<or> le_state (snd e) = Released \<or> fst e \<in> ct_queued_releases c then (actions, c)
      else (actions @ [no_action\<lparr>da_kind := DrainRelease, da_lease := fst e, da_reason := ''orphaned drain lease''\<rparr>],
            c\<lparr>ct_queued_releases := insert (fst e) (ct_queued_releases c)\<rparr>))"

definition pass_view :: "nanos \<Rightarrow> controller \<Rightarrow> readiness_view" where
  "pass_view now c = build_view (ct_topology c) (ps_evidence (ct_state c)) (ct_policy c) (ct_incarnation c) now"

definition drain_all_locked :: "nanos \<Rightarrow> drain_action list \<Rightarrow> controller \<Rightarrow> drain_action list \<times> controller" where
  "drain_all_locked now actions c =
     (let pc = \<lparr>pc_now = now, pc_view = pass_view now c, pc_actions = Some actions\<rparr>;
          sel = plan_tick (ct_jobs c) (ct_policy c) now;
          (pc, c) = fold drive_locked (drive_order sel) (pc, c);
          c = arbitrate_locked pc c in
      fold release_orphan (ps_leases (ct_state c)) (case pc_actions pc of Some as \<Rightarrow> as | None \<Rightarrow> [], c))"

section \<open>The drain service\<close>

definition perform_action :: "drain_action \<Rightarrow> controller \<Rightarrow> drain_outcome \<times> controller" where
  "perform_action a c =
     (let n = ct_port_calls c; c' = c\<lparr>ct_port_calls := Suc n\<rparr> in
      (\<lparr>oc_action = a, oc_response = (case da_kind a of
          DrainRequest \<Rightarrow> dp_request (ct_port c) n \<lparr>dq_job = da_job a, dq_generation = da_generation a,
            dq_attempt = da_attempt a, dq_targets = da_targets a, dq_lease_duration = da_lease_duration a,
            dq_reason = da_reason a, dq_requester = ct_incarnation c\<rparr>
        | DrainRelease \<Rightarrow> \<lparr>dr_status = dp_release (ct_port c) n (da_lease a) (ct_incarnation c),
            dr_lease = no_lease\<lparr>le_id := da_lease a, le_state := Released\<rparr>\<rparr>
        | DrainQuery \<Rightarrow> dp_query (ct_port c) n (da_lease a) (ct_incarnation c))\<rparr>, c'))"

definition answered_lease :: "drain_outcome \<Rightarrow> lease_id" where
  "answered_lease out = (if id_valid (le_id (dr_lease (oc_response out))) then le_id (dr_lease (oc_response out))
     else da_lease (oc_action out))"

definition forget_lease :: "lease_id \<Rightarrow> nanos \<Rightarrow> controller \<Rightarrow> controller" where
  "forget_lease i now c =
     (case find (\<lambda>e. j_lease (snd e) = i \<and> \<not> is_terminal (j_state (snd e))) (jt_jobs (ct_jobs c)) of
        None \<Rightarrow> c
      | Some e \<Rightarrow>
          let j = (snd e)\<lparr>j_lease := 0\<rparr>;
              j = (if j_last_detail j = [] then j\<lparr>j_last_detail := ''drain lease released''\<rparr> else j) in
          snd (commit_job_locked j now c))"

definition apply_release :: "drain_outcome \<Rightarrow> nanos \<Rightarrow> controller \<Rightarrow> controller" where
  "apply_release out now c =
     (let i = answered_lease out;
          c = c\<lparr>ct_queued_releases := ct_queued_releases c - {da_lease (oc_action out)}\<rparr> in
      if (case dr_status (oc_response out) of Inr _ \<Rightarrow> True | Inl e \<Rightarrow> err_code e = NotFound) then
        forget_lease i now (counted cs_drain_releases_update (snd (on_store (\<lambda>io. commit_lease_erased io i) c)))
      else c)"

definition drain_observation :: "job \<Rightarrow> drain_lease \<Rightarrow> nanos \<Rightarrow> target_id \<Rightarrow> controller \<Rightarrow> controller" where
  "drain_observation j l now t c =
     (let (e, c) = make_evidence_locked DrainLeaseState (subject_of t) 1 now (ttl_for (ct_policy c) DrainLeaseState)
        (no_payload\<lparr>ep_result := (le_state l = Drained), ep_health := Down\<rparr>) (j_id j) (j_active_attempt j) c in
      snd (write_evidence_locked e c))"

definition drain_refused :: "error \<Rightarrow> job \<Rightarrow> nanos \<Rightarrow> controller \<Rightarrow> controller" where
  "drain_refused e j now c =
     (let j = j\<lparr>j_drain_failures := j_drain_failures j + 1, j_last_detail := ''drain request failed: '' @ format_error e\<rparr>;
          c = counted cs_drain_failures_update c;
          (j, c) = (if j_drain_failures j \<ge> po_max_drain_failures_before_block (ct_policy c) then
              (case transition_locked Blocked BrDrainFailed (j_last_detail j) now j
                  \<lparr>pc_now = now, pc_view = \<lparr>rv_entries = [], rv_built_at = 0\<rparr>, pc_actions = None\<rparr> c of
                 (_, j, _, c) \<Rightarrow> (j, c))
            else (j, c)) in
      snd (commit_job_locked j now c))"

definition drain_granted :: "drain_lease \<Rightarrow> job \<Rightarrow> nanos \<Rightarrow> controller \<Rightarrow> controller" where
  "drain_granted l j now c =
     (if \<not> id_valid (le_id l) then c
      else case on_store (\<lambda>io. commit_lease io l) c of
        (Inl _, c) \<Rightarrow> c
      | (Inr _, c) \<Rightarrow>
          let j = j\<lparr>j_lease := le_id l, j_last_detail := ''drain lease '' @ to_string_lease (le_id l) @
                '' granted in state '' @ to_string_drain (le_state l)\<rparr>;
              c = (if le_state l = Drained \<or> le_state l = Draining then
                     fold (drain_observation j l now) (j_removal_set j) c else c) in
          snd (commit_job_locked j now c))"

text \<open>The attempt that asked is gone: what was granted to it is released at the next tick.\<close>

definition release_fenced :: "drain_response \<Rightarrow> lease_id \<Rightarrow> controller \<Rightarrow> controller" where
  "release_fenced response i c =
     (if is_ok (dr_status response) \<and> id_valid i then
        c\<lparr>ct_deferred_releases := ct_deferred_releases c @ [no_action\<lparr>da_kind := DrainRelease, da_lease := i,
            da_reason := ''drain granted to a fenced attempt''\<rparr>],
          ct_queued_releases := insert i (ct_queued_releases c)\<rparr>
      else c)"

definition apply_request :: "drain_outcome \<Rightarrow> nanos \<Rightarrow> controller \<Rightarrow> controller" where
  "apply_request out now c =
     (let a = oc_action out; response = oc_response out; i = answered_lease out;
          current = find_job (ct_jobs c) (da_job a) in
      case current of
        Some j \<Rightarrow>
          if j_generation j = da_generation a \<and> j_active_attempt j = da_attempt a then
            (case dr_status response of
               Inl e \<Rightarrow> drain_refused e j now c
             | Inr _ \<Rightarrow> drain_granted (dr_lease response) j now c)
          else release_fenced response i (counted cs_stale_generation_rejections_update c)
      | None \<Rightarrow> release_fenced response i c)"

definition apply_outcome :: "nanos \<Rightarrow> drain_outcome \<Rightarrow> controller \<Rightarrow> controller" where
  "apply_outcome now out c =
     (let a = oc_action out;
          c = c\<lparr>ct_drain_inflight := ct_drain_inflight c - {da_job a}\<rparr> in
      case da_kind a of
        DrainRelease \<Rightarrow> apply_release out now c
      | DrainQuery \<Rightarrow>
          (if is_ok (dr_status (oc_response out)) then c
           else snd (on_store (\<lambda>io. commit_lease_erased io (da_lease a)) c))
      | DrainRequest \<Rightarrow> apply_request out now c)"

definition apply_outcomes_locked :: "drain_outcome list \<Rightarrow> nanos \<Rightarrow> controller \<Rightarrow> controller" where
  "apply_outcomes_locked outs now c = fold (apply_outcome now) outs c"

section \<open>The tick\<close>

text \<open>The section of a pass under the lock: the actions to carry out, and the controller.\<close>

definition tick_pass :: "nanos \<Rightarrow> controller \<Rightarrow> drain_action list \<times> controller" where
  "tick_pass now c =
     (let c = counted cs_ticks_update c;
          c = snd (on_store (\<lambda>io. expire_authority io now) c);
          actions = ct_deferred_releases c in
      drain_all_locked now actions (c\<lparr>ct_deferred_releases := []\<rparr>))"

definition mark_inflight :: "drain_action \<Rightarrow> controller \<Rightarrow> controller" where
  "mark_inflight a c = (if id_valid (da_job a) then c\<lparr>ct_drain_inflight := insert (da_job a) (ct_drain_inflight c)\<rparr> else c)"

definition tick_action :: "nanos \<Rightarrow> drain_action \<Rightarrow> controller \<Rightarrow> controller" where
  "tick_action now a c =
     (let (out, c) = perform_action a (mark_inflight a c) in apply_outcomes_locked [out] now c)"

definition tick_compact :: "nanos \<Rightarrow> controller \<Rightarrow> controller" where
  "tick_compact now c =
     (if should_compact (ct_store c) then
        (case on_store (\<lambda>io. compact io now) c of
           (Inr _, c) \<Rightarrow> counted cs_compactions_update c
         | (Inl _, c) \<Rightarrow> c)
      else c)"

text \<open>The passes still allowed in this tick.\<close>

fun tick_loop :: "nat \<Rightarrow> nanos \<Rightarrow> controller \<Rightarrow> status \<times> controller" where
  "tick_loop 0 now c = (ok_status, tick_compact now c)"
| "tick_loop (Suc passes) now c =
     (if ct_stopping c then (Inl (make_error ShuttingDown ''controller is shutting down''), c)
      else
        let (actions, c) = tick_pass now c in
        if actions = [] then (ok_status, tick_compact now c)
        else tick_loop passes now (fold (tick_action now) actions c))"

definition tick :: "nanos \<Rightarrow> controller \<Rightarrow> status \<times> controller" where
  "tick now c = tick_loop kMaxPassesPerTick now c"

end
