(* ===== verification/Controller_Requests.thy ===== *)
theory Controller_Requests
  imports Controller_Tick
begin

text \<open>
  The requests the controller serves (\<^verbatim>\<open>src/runtime/controller.cpp\<close>): configuration, proposals and
  their withdrawal, external reports, inspection, and the reconciliation after a restart. The clock is a
  parameter of the requests that read it.
\<close>

section \<open>Configuration\<close>

definition set_topology :: "topology \<Rightarrow> controller \<Rightarrow> status \<times> controller" where
  "set_topology t c = (case validate_topology t of
     Inl e \<Rightarrow> (Inl e, c)
   | Inr _ \<Rightarrow> (case on_store (\<lambda>io. commit_topology io t) c of
       (Inl e, c) \<Rightarrow> (Inl e, c)
     | (Inr _, c) \<Rightarrow> (ok_status, c\<lparr>ct_topology := ps_topology (ct_state c)\<rparr>)))"

definition set_policy :: "policy \<Rightarrow> controller \<Rightarrow> status \<times> controller" where
  "set_policy p c = (case validate_policy p of
     Inl e \<Rightarrow> (Inl e, c)
   | Inr _ \<Rightarrow> (case on_store (\<lambda>io. commit_policy io p) c of
       (Inl e, c) \<Rightarrow> (Inl e, c)
     | (Inr _, c) \<Rightarrow> (ok_status, c\<lparr>ct_policy := ps_policy (ct_state c)\<rparr>)))"

section \<open>Proposals\<close>

text \<open>The inner loop of the dependency walk: the jobs one job depends on.\<close>

fun visit_dependencies :: "job_id \<Rightarrow> job_id list \<Rightarrow> job_id list \<Rightarrow> job_id list \<Rightarrow> (job_id list \<times> job_id list) option" where
  "visit_dependencies dependency [] seen frontier = Some (seen, frontier)"
| "visit_dependencies dependency (n # ns) seen frontier =
     (if n = dependency then None
      else if n \<in> set seen then visit_dependencies dependency ns seen frontier
      else visit_dependencies dependency ns (seen @ [n]) (frontier @ [n]))"

text \<open>The walk takes from the back of the frontier and gives up when the budget is used.\<close>

fun walk_dependencies :: "nat \<Rightarrow> job_table \<Rightarrow> job_id \<Rightarrow> job_id list \<Rightarrow> job_id list \<Rightarrow> status" where
  "walk_dependencies budget jobs dependency frontier seen =
     (if frontier = [] then ok_status
      else case budget of
        0 \<Rightarrow> Inl (make_error StateConflict ''dependency graph exceeds the search budget'')
      | Suc budget \<Rightarrow>
          (case find_job jobs (last frontier) of
             None \<Rightarrow> walk_dependencies budget jobs dependency (butlast frontier) seen
           | Some node \<Rightarrow>
               (case visit_dependencies dependency (j_depends_on node) seen (butlast frontier) of
                  None \<Rightarrow> Inl (make_error StateConflict
                    (''dependency graph containing '' @ to_string_job dependency @ '' is cyclic''))
                | Some (seen, frontier) \<Rightarrow> walk_dependencies budget jobs dependency frontier seen)))"

declare walk_dependencies.simps [simp del]

definition check_dependency :: "job_table \<Rightarrow> job_id \<Rightarrow> status" where
  "check_dependency jobs dependency =
     (case find_job jobs dependency of
        None \<Rightarrow> Inl (make_error NotFound (''dependency '' @ to_string_job dependency @ '' does not exist''))
      | Some _ \<Rightarrow> walk_dependencies (kMaxDependenciesPerJob * kMaxDependenciesPerJob) jobs dependency [dependency] [dependency])"

definition proposed_job :: "maintenance_request \<Rightarrow> string \<Rightarrow> nanos \<Rightarrow> controller \<Rightarrow> job" where
  "proposed_job r actor now c = new_job\<lparr>j_generation := 1, j_title := mr_title r, j_reason := mr_reason r,
     j_targets := mr_targets r, j_depends_on := mr_depends_on r, j_window_filter := mr_window_filter r,
     j_priority := mr_priority r,
     j_estimated_duration := (if mr_estimated_duration r > 0 then mr_estimated_duration r
       else po_default_duration (ct_policy c)),
     j_requires_drain := mr_requires_drain r, j_requestor := mr_requestor r, j_state := Proposed,
     j_created_at := now, j_updated_at := now, j_owner := ct_incarnation c, j_approved_by := actor\<rparr>"

definition propose :: "maintenance_request \<Rightarrow> string \<Rightarrow> nanos \<Rightarrow> controller \<Rightarrow> job_id result \<times> controller" where
  "propose r actor now c =
     (case validate_request_shape r of
        Inl e \<Rightarrow> (Inl e, c)
      | Inr _ \<Rightarrow>
          if ct_stopping c then (Inl (make_error ShuttingDown ''controller is shutting down''), c)
          else if po_tiers (ct_policy c) \<noteq> [] \<and> \<not> known_tier (ct_policy c) (mr_priority r) then
            (Inl (make_error PolicyDenied (''priority tier '' @ dec_word (mr_priority r) @ '' is not declared by policy'')), c)
          else case for_status (check_dependency (ct_jobs c)) (mr_depends_on r) of
            Inl e \<Rightarrow> (Inl e, c)
          | Inr _ \<Rightarrow>
              (case on_store (\<lambda>io. create_job io (proposed_job r actor now c)) c of
                 (Inl e, c) \<Rightarrow> (Inl e, c)
               | (Inr i, c) \<Rightarrow> (Inr i, counted cs_proposals_update c)))"

text \<open>\<open>at\<close> and \<open>now\<close> are the two readings of the clock.\<close>

definition approve :: "job_id \<Rightarrow> string \<Rightarrow> nanos \<Rightarrow> nanos \<Rightarrow> controller \<Rightarrow> status \<times> controller" where
  "approve i actor at now c =
     (case find_job (ct_jobs c) i of
        None \<Rightarrow> (Inl (no_such_job i), c)
      | Some current \<Rightarrow>
          if j_state current \<noteq> Proposed then
            (Inl (make_error StateConflict (''job '' @ to_string_job i @ '' is '' @ to_string_job_state (j_state current) @
               '', only a proposed job can be approved'')), c)
          else
            (case commit_job_locked (push_history \<lparr>he_at = at, he_from = Proposed, he_to = Validated, he_reason = BrNone,
                 he_detail = ''approved by '' @ actor, he_by = ct_incarnation c\<rparr>
               (current\<lparr>j_state := Validated, j_approved := True, j_approved_by := actor\<rparr>)) now c of
               (Inl e, c) \<Rightarrow> (Inl e, c)
             | (Inr _, c) \<Rightarrow> (ok_status, counted cs_approvals_update c)))"

definition fence_attempts :: "nanos \<Rightarrow> string \<Rightarrow> job \<Rightarrow> job" where
  "fence_attempts now detail j = j\<lparr>j_attempts := map (\<lambda>a.
     if ar_outcome a = Running then a\<lparr>ar_outcome := Fenced, ar_ended_at := now, ar_detail := detail\<rparr> else a) (j_attempts j)\<rparr>"

definition no_view :: readiness_view where
  "no_view = \<lparr>rv_entries = [], rv_built_at = 0\<rparr>"

definition defer_releases :: "drain_action list \<Rightarrow> controller \<Rightarrow> controller" where
  "defer_releases as c = c\<lparr>ct_queued_releases := ct_queued_releases c \<union> da_lease ` set as,
     ct_deferred_releases := ct_deferred_releases c @ as\<rparr>"

definition rearmed :: "string \<Rightarrow> job \<Rightarrow> job" where
  "rearmed actor j = j\<lparr>j_generation := next_id (j_generation j), j_active_attempt := no_attempt,
     j_preconditions_satisfied := False, j_preconditions_at := 0, j_preconditions_digest := 0, j_overrun := False,
     j_window_extended := False, j_window_closes_at := 0, j_verification_failures := 0, j_restoration_failures := 0,
     j_drain_failures := 0, j_maintenance_failed := False, j_block := BrNone, j_block_detail := [],
     j_approved_by := actor\<rparr>"

definition actions_of :: "pass_context \<Rightarrow> drain_action list" where
  "actions_of pc = (case pc_actions pc of Some as \<Rightarrow> as | None \<Rightarrow> [])"

definition rearm :: "job_id \<Rightarrow> string \<Rightarrow> nanos \<Rightarrow> controller \<Rightarrow> status \<times> controller" where
  "rearm i actor now c =
     (case find_job (ct_jobs c) i of
        None \<Rightarrow> (Inl (no_such_job i), c)
      | Some current \<Rightarrow>
          if j_service_removed current then
            (Inl (make_error StateConflict (''job '' @ to_string_job i @
               '' has already removed service; it must be restored, not re-armed'')), c)
          else if is_terminal (j_state current) then
            (Inl (make_error StateConflict (''job '' @ to_string_job i @ '' is terminal and cannot be re-armed'')), c)
          else
            let (j, pc, c) = release_resources_locked current
                  \<lparr>pc_now = now, pc_view = no_view, pc_actions = Some []\<rparr> c;
                j = fence_attempts now (''fenced by re-arm under generation '' @
                      to_string_generation (next_id (j_generation j))) j;
                j = rearmed actor j;
                target_state = (if j_state j = Proposed then Validated else Prerequisites);
                check = check_transition (j_state j) target_state False in
            if \<not> tc_allowed check then (Inl (make_error StateConflict (tc_reason check)), c)
            else
              let detail = ''re-armed as generation '' @ to_string_generation (j_generation j);
                  j = push_history \<lparr>he_at = now, he_from = j_state j, he_to = target_state, he_reason = BrNone,
                      he_detail = detail, he_by = ct_incarnation c\<rparr>
                    (j\<lparr>j_state := target_state, j_last_detail := detail\<rparr>) in
              (case commit_job_locked j now c of
                 (Inl e, c) \<Rightarrow> (Inl e, c)
               | (Inr _, c) \<Rightarrow> (ok_status, counted cs_rearmings_update (defer_releases (actions_of pc) c))))"

definition cancel :: "job_id \<Rightarrow> string \<Rightarrow> string \<Rightarrow> nanos \<Rightarrow> controller \<Rightarrow> status \<times> controller" where
  "cancel i actor reason now c =
     (case find_job (ct_jobs c) i of
        None \<Rightarrow> (Inl (no_such_job i), c)
      | Some current \<Rightarrow>
          if j_service_removed current then
            (Inl (make_error StateConflict (''job '' @ to_string_job i @
               '' has removed service; cancellation is refused so the scope must be '' @ ''restored instead'')), c)
          else if is_terminal (j_state current) then
            (Inl (make_error StateConflict (''job '' @ to_string_job i @ '' is already '' @
               to_string_job_state (j_state current))), c)
          else
            (case transition_locked JobCancelled BrNone (''cancelled by '' @ actor @ '': '' @ reason) now current
                 \<lparr>pc_now = now, pc_view = no_view, pc_actions = Some []\<rparr> c of
               (False, _, _, c) \<Rightarrow> (Inl (make_error StateConflict ''cancellation is not a legal transition''), c)
             | (True, j, pc, c) \<Rightarrow>
                 (case commit_job_locked j now c of
                    (Inl e, c) \<Rightarrow> (Inl e, c)
                  | (Inr _, c) \<Rightarrow> (ok_status, defer_releases (actions_of pc) c))))"

section \<open>Reports\<close>

text \<open>\<^verbatim>\<open>Controller::observe\<close>.\<close>

definition observe_report :: "evidence_record \<Rightarrow> controller \<Rightarrow> status \<times> controller" where
  "observe_report e c =
     (if ct_stopping c then (Inl (make_error ShuttingDown ''controller is shutting down''), c)
      else
        let e = (if \<not> incarnation_valid (er_observed_by e) then e\<lparr>er_observed_by := ct_incarnation c\<rparr> else e);
            (e, c) = (if \<not> id_valid (er_id e) then
                (case allocate_evidence_id (ct_store c) of (i, st) \<Rightarrow> (e\<lparr>er_id := i\<rparr>, c\<lparr>ct_store := st\<rparr>))
              else (e, c));
            e = (if er_ttl e \<le> 0 \<or> er_ttl e > kMaxEvidenceTtlNanos then
                e\<lparr>er_ttl := ttl_for (ct_policy c) (ek_kind (er_key e))\<rparr> else e) in
        (case on_store (\<lambda>io. observe_evidence io e) c of
           (Inl err, c) \<Rightarrow>
             (Inl err, if err_code err = StaleRevision then counted cs_stale_evidence_rejections_update c else c)
         | (Inr _, c) \<Rightarrow> (ok_status, c)))"

text \<open>The checks both reports about an attempt begin with.\<close>

definition check_report :: "string \<Rightarrow> job_id \<Rightarrow> attempt_id \<Rightarrow> controller \<Rightarrow> job result \<times> controller" where
  "check_report what i attempt c =
     (case find_job (ct_jobs c) i of
        None \<Rightarrow> (Inl (no_such_job i), c)
      | Some current \<Rightarrow>
          if at_generation attempt \<noteq> j_generation current then
            (Inl (make_error StaleGeneration (what @ '' report carries generation '' @
               to_string_generation (at_generation attempt) @ '' but the job is at generation '' @
               to_string_generation (j_generation current))), counted cs_stale_generation_rejections_update c)
          else if \<not> attempt_valid (j_active_attempt current) \<or> attempt \<noteq> j_active_attempt current then
            (Inl (make_error StaleAttempt (what @ '' report carries attempt '' @ to_string_attempt attempt @
               '' but the current attempt is '' @ to_string_attempt (j_active_attempt current))),
             counted cs_stale_attempt_rejections_update c)
          else (Inr current, c))"

fun write_completions :: "job_id \<Rightarrow> attempt_id \<Rightarrow> bool \<Rightarrow> nanos \<Rightarrow> target_id list \<Rightarrow> controller \<Rightarrow> status \<times> controller" where
  "write_completions i attempt succeeded now [] c = (ok_status, c)"
| "write_completions i attempt succeeded now (t # ts) c =
     (let (e, c) = make_evidence_locked MaintenanceCompletion (subject_of t) 1 now
            (ttl_for (ct_policy c) MaintenanceCompletion)
            (no_payload\<lparr>ep_result := succeeded, ep_health := (if succeeded then Degraded else Down)\<rparr>) i attempt c in
      case write_evidence_locked e c of
        (Inl err, c) \<Rightarrow> (Inl err, c)
      | (Inr _, c) \<Rightarrow> write_completions i attempt succeeded now ts c)"

definition report_completion ::
    "job_id \<Rightarrow> attempt_id \<Rightarrow> bool \<Rightarrow> string \<Rightarrow> nanos \<Rightarrow> controller \<Rightarrow> status \<times> controller" where
  "report_completion i attempt succeeded detail now c =
     (case check_report ''completion'' i attempt c of
        (Inl e, c) \<Rightarrow> (Inl e, c)
      | (Inr current, c) \<Rightarrow>
          if j_state current \<noteq> InMaintenance then
            (Inl (make_error StateConflict (''job '' @ to_string_job i @ '' is '' @ to_string_job_state (j_state current) @
               '' and cannot accept a completion report'')), c)
          else
            (case write_completions i attempt succeeded now (j_removal_set current) c of
               (Inl e, c) \<Rightarrow> (Inl e, c)
             | (Inr _, c) \<Rightarrow>
                 commit_job_locked (current\<lparr>j_last_detail := ''completion reported: '' @ detail\<rparr>) now c))"

definition report_restoration ::
    "job_id \<Rightarrow> attempt_id \<Rightarrow> target_id \<Rightarrow> bool \<Rightarrow> string \<Rightarrow> nanos \<Rightarrow> controller \<Rightarrow> status \<times> controller" where
  "report_restoration i attempt t good detail now c =
     (case check_report ''restoration'' i attempt c of
        (Inl e, c) \<Rightarrow> (Inl e, c)
      | (Inr current, c) \<Rightarrow>
          if t \<notin> set (j_removal_set current) then
            (Inl (invalid_argument (''target '' @ to_string_target t @ '' is not in the removal set of job '' @
               to_string_job i)), c)
          else
            let (e, c) = make_evidence_locked RestorationCheck (subject_of t) 2 now
                  (ttl_for (ct_policy c) RestorationCheck)
                  (no_payload\<lparr>ep_result := good, ep_health := (if good then Healthy else Down)\<rparr>) i attempt c in
            (case write_evidence_locked e c of
               (Inl err, c) \<Rightarrow> (Inl err, c)
             | (Inr _, c) \<Rightarrow>
                 commit_job_locked (current\<lparr>j_last_detail := ''restoration reported: '' @ detail\<rparr>) now c))"

text \<open>\<^verbatim>\<open>Controller::clear_quarantine\<close>.\<close>

definition lift_quarantine :: "quarantine_id \<Rightarrow> string \<Rightarrow> string \<Rightarrow> nanos \<Rightarrow> controller \<Rightarrow> status \<times> controller" where
  "lift_quarantine i actor justification now c =
     (case find_quarantine (ps_quarantines (ct_state c)) i of
        None \<Rightarrow> (Inl (make_error NotFound (''quarantine '' @ to_string_quarantine i @ '' does not exist'')), c)
      | Some q \<Rightarrow> on_store (\<lambda>io. commit_quarantine io
          (q\<lparr>q_cleared := True, q_cleared_at := now, q_cleared_by := actor @ '': '' @ justification\<rparr>)) c)"

section \<open>Restart\<close>

definition needs_reconciling :: "controller \<Rightarrow> job \<Rightarrow> bool" where
  "needs_reconciling c j \<longleftrightarrow> \<not> is_terminal (j_state j) \<and> j_owner j \<noteq> ct_incarnation c \<and>
     j_state j \<noteq> Proposed \<and> j_state j \<noteq> Validated"

definition disowned :: "controller \<Rightarrow> nanos \<Rightarrow> job \<Rightarrow> job" where
  "disowned c now j = (fence_attempts now (''fenced by controller restart; incarnation '' @
       to_string_incarnation (ct_incarnation c) @ '' replaced '' @ to_string_incarnation (j_owner j)) j)
     \<lparr>j_active_attempt := no_attempt, j_authority := 0, j_preconditions_satisfied := False, j_preconditions_at := 0,
      j_preconditions_digest := 0, j_owner := ct_incarnation c, j_overrun := False, j_verification_started_at := now,
      j_restoration_started_at := now\<rparr>"

definition reissued_reservation :: "controller \<Rightarrow> nanos \<Rightarrow> job \<Rightarrow> reservation" where
  "reissued_reservation c now j =
     (let targets = sort (j_removal_set j) in
      \<lparr>ra_id = 0, ra_job = j_id j, ra_generation = j_generation j, ra_attempt = j_active_attempt j,
       ra_owner = ct_incarnation c, ra_targets = targets, ra_domains = domains_of (ct_topology c) targets,
       ra_pools = pools_of (ct_topology c) targets, ra_revision = 0, ra_granted_at = now,
       ra_expires_at = now + clamp_lease (po_authority_lease (ct_policy c)), ra_digest = 0\<rparr>)"

text \<open>The job after the claim of what it holds is renewed or given up, and the release to send.\<close>

definition reclaim :: "nanos \<Rightarrow> job \<Rightarrow> controller \<Rightarrow> job \<times> drain_action list \<times> controller" where
  "reclaim now j c =
     (if j_service_removed j then
        let j = new_attempt_locked c now j in
        (case on_store (\<lambda>io. reserve_authority io (reissued_reservation c now j)) c of
           (Inr i, c) \<Rightarrow> (j\<lparr>j_authority := i\<rparr>, [], counted cs_authority_reissues_update c)
         | (Inl _, c) \<Rightarrow> (j, [], c))
      else if id_valid (j_lease j) then
        (j\<lparr>j_lease := 0\<rparr>,
         [no_action\<lparr>da_kind := DrainRelease, da_job := j_id j, da_lease := j_lease j,
            da_reason := ''reconciled after restart before service removal''\<rparr>],
         c\<lparr>ct_queued_releases := insert (j_lease j) (ct_queued_releases c)\<rparr>)
      else (j, [], c))"

definition reconcile_one ::
    "nanos \<Rightarrow> job \<Rightarrow> job list \<times> drain_action list \<times> controller \<Rightarrow> job list \<times> drain_action list \<times> controller" where
  "reconcile_one now j0 acc =
     (let (updates, releases, c) = acc in
      if \<not> needs_reconciling c j0 then (updates, releases, c)
      else
        let (j, released, c) = reclaim now (disowned c now j0) c;
            releases = releases @ released in
        if j_state j \<noteq> Blocked then
          (case transition_locked Blocked ReconciledAfterRestart
              (if j_service_removed j0 then ''controller restarted while the scope was out of service; '' @
                 ''verification and restoration are mandatory''
               else ''controller restarted; prerequisites must be re-established'') now j
              \<lparr>pc_now = now, pc_view = no_view, pc_actions = None\<rparr> c of
             (False, _, _, c) \<Rightarrow> (updates, releases, c)
           | (True, j, _, c) \<Rightarrow> (updates @ [j], releases, counted cs_reconciliations_update c))
        else
          let detail = ''controller restarted; the previous block state was re-established conservatively'' in
          (updates @ [j\<lparr>j_block := ReconciledAfterRestart, j_block_detail := detail, j_last_detail := detail\<rparr>],
           releases, counted cs_reconciliations_update c))"

definition restamped :: "job_table \<Rightarrow> nanos \<Rightarrow> job \<Rightarrow> job" where
  "restamped jobs now j = (case find_job jobs (j_id j) of
     None \<Rightarrow> j
   | Some stored \<Rightarrow> j\<lparr>j_revision := next_id (j_revision stored), j_updated_at := now\<rparr>)"

definition count_revocations :: "nat \<Rightarrow> controller \<Rightarrow> controller" where
  "count_revocations n c = c\<lparr>ct_stats := cs_authority_revocations_update (\<lambda>m. m + of_nat n) (ct_stats c)\<rparr>"

definition reconcile_locked :: "nanos \<Rightarrow> controller \<Rightarrow> status \<times> controller" where
  "reconcile_locked now c =
     (let (revoked, c) = on_store (\<lambda>io. fence_authority io (ct_incarnation c)) c;
          c = count_revocations (length revoked) c;
          (updates, releases, c) = fold (reconcile_one now) (map snd (jt_jobs (ct_jobs c))) ([], [], c);
          updates = map (restamped (ct_jobs c) now) updates;
          (result, c) = (if updates = [] then (ok_status, c) else on_store (\<lambda>io. commit_jobs io updates) c) in
      case result of
        Inl e \<Rightarrow> (Inl e, c)
      | Inr _ \<Rightarrow> (ok_status, c\<lparr>ct_deferred_releases := ct_deferred_releases c @ releases\<rparr>))"

text \<open>
  \<^verbatim>\<open>Controller::Controller\<close> and \<^verbatim>\<open>Controller::open\<close>: the file system and the drain service from here on, the
  journal's contents, the clock's nonce and its reading.
\<close>

definition new_controller :: "store \<Rightarrow> drain_port \<Rightarrow> controller_options \<Rightarrow> (nat \<Rightarrow> io_env) \<Rightarrow> controller" where
  "new_controller st port opts ios =
     \<lparr>ct_store = st, ct_options = opts, ct_incarnation = no_incarnation, ct_policy = default_policy,
      ct_topology = empty_topology, ct_evidence_revision = 0, ct_drain_inflight = {}, ct_queued_releases = {},
      ct_deferred_releases = [], ct_last_arbitration = no_arbitration, ct_stats = no_controller_stats,
      ct_stopping = False, ct_io = ios, ct_io_calls = 0, ct_port = port, ct_port_calls = 0\<rparr>"

definition controller_open ::
    "(nat \<Rightarrow> io_env) \<Rightarrow> io_env \<Rightarrow> controller_options \<Rightarrow> drain_port option \<Rightarrow> byte list option \<Rightarrow> u64 \<Rightarrow> nanos \<Rightarrow>
     (controller \<times> recovery_report) result" where
  "controller_open ios io opts port contents fallback now =
     (case port of
        None \<Rightarrow> Inl (invalid_argument ''controller requires a drain port'')
      | Some port \<Rightarrow>
          (case store_open io (co_store opts) contents of
             Inl e \<Rightarrow> Inl e
           | Inr (st, _) \<Rightarrow>
               (case on_store (\<lambda>io. begin_incarnation io fallback (co_controller_id opts) (co_nonce opts))
                   (new_controller st port opts ios) of
                  (Inl e, c) \<Rightarrow> Inl e
                | (Inr inc, c) \<Rightarrow>
                    (case reconcile_locked now (c\<lparr>ct_incarnation := inc, ct_policy := ps_policy (ct_state c),
                        ct_topology := ps_topology (ct_state c)\<rparr>) of
                       (Inl e, c) \<Rightarrow> Inl e
                     | (Inr _, c) \<Rightarrow> Inr (c, st_report (ct_store c))))))"

section \<open>Inspection and shutdown\<close>

definition job_status :: "job_id \<Rightarrow> controller \<Rightarrow> job_snapshot result" where
  "job_status i c = (case find_job (ct_jobs c) i of None \<Rightarrow> Inl (no_such_job i) | Some j \<Rightarrow> Inr (snapshot j))"

definition list_jobs :: "controller \<Rightarrow> job_snapshot list" where
  "list_jobs c = map (snapshot \<circ> snd) (jt_jobs (ct_jobs c))"

definition admission_check :: "job_id \<Rightarrow> nanos \<Rightarrow> controller \<Rightarrow> precondition_set result" where
  "admission_check i now c =
     (case find_job (ct_jobs c) i of
        None \<Rightarrow> Inl (no_such_job i)
      | Some j \<Rightarrow> Inr (ev_preconditions (evaluate_locked j (pass_view now c) False False now c)))"

definition list_quarantines :: "controller \<Rightarrow> quarantine_record list" where
  "list_quarantines c = map snd (qt_records (ps_quarantines (ct_state c)))"

definition shutdown :: "controller \<Rightarrow> status \<times> controller" where
  "shutdown c = (flush (ct_io c (ct_io_calls c)) (st_journal (ct_store c)),
     c\<lparr>ct_stopping := True, ct_io_calls := Suc (ct_io_calls c)\<rparr>)"

end
