(* ===== verification/Controller_Steps.thy ===== *)
theory Controller_Steps
  imports Controller_Requests
begin

text \<open>
  What the controller's operations do to a job, to the pass and to the rest of the controller. A
  stage either leaves the state of the job as it is or moves it along one transition of the life
  cycle; what it writes on the way goes through the operations of the store.
\<close>

section \<open>What an operation leaves alone\<close>

text \<open>The configuration, the identity and the environment of a controller.\<close>

definition same_setup :: "controller \<Rightarrow> controller \<Rightarrow> bool" where
  "same_setup c c' \<longleftrightarrow> ct_options c' = ct_options c \<and> ct_incarnation c' = ct_incarnation c \<and> ct_policy c' = ct_policy c \<and>
     ct_topology c' = ct_topology c \<and> ct_stopping c' = ct_stopping c \<and> ct_io c' = ct_io c \<and> ct_port c' = ct_port c"

lemma same_setup_refl [simp]: "same_setup c c"
  by (simp add: same_setup_def)

lemma same_setup_trans: "same_setup c c' \<Longrightarrow> same_setup c' c'' \<Longrightarrow> same_setup c c''"
  by (simp add: same_setup_def)

lemma same_setup_step: "same_setup c' c'' \<Longrightarrow> same_setup c c'' = same_setup c c'"
  by (auto simp: same_setup_def)

lemma bookkeeping_setup [simp]:
  "same_setup c (counted upd c') = same_setup c c'"
  "same_setup c (c'\<lparr>ct_drain_inflight := js\<rparr>) = same_setup c c'"
  "same_setup c (c'\<lparr>ct_queued_releases := ls\<rparr>) = same_setup c c'"
  "same_setup c (c'\<lparr>ct_deferred_releases := as\<rparr>) = same_setup c c'"
  "same_setup c (c'\<lparr>ct_last_arbitration := r\<rparr>) = same_setup c c'"
  "same_setup c (c'\<lparr>ct_store := st\<rparr>) = same_setup c c'"
  by (simp_all add: same_setup_def counted_def)

lemma counted_store [simp]: "ct_store (counted upd c) = ct_store c"
  by (simp add: counted_def)

lemma counted_fields [simp]:
  "ct_policy (counted upd c) = ct_policy c" "ct_topology (counted upd c) = ct_topology c"
  "ct_incarnation (counted upd c) = ct_incarnation c" "ct_state (counted upd c) = ct_state c"
  "ct_jobs (counted upd c) = ct_jobs c" "ct_drain_inflight (counted upd c) = ct_drain_inflight c"
  "ct_queued_releases (counted upd c) = ct_queued_releases c" "ct_io (counted upd c) = ct_io c"
  "ct_io_calls (counted upd c) = ct_io_calls c" "ct_deferred_releases (counted upd c) = ct_deferred_releases c"
  "ct_evidence_revision (counted upd c) = ct_evidence_revision c"
  by (simp_all add: counted_def ct_state_def ct_jobs_def)

lemma on_store_setup: "on_store f c = (r, c') \<Longrightarrow> same_setup c c'"
  by (auto simp: on_store_def same_setup_def split: prod.splits)

lemma on_store_setup_snd [simp]: "same_setup c (snd (on_store f c')) = same_setup c c'"
  by (auto simp: on_store_def same_setup_def split: prod.splits)

section \<open>What a transition does to a job\<close>

text \<open>What identifies a job and what it was asked to do.\<close>

definition same_order :: "job \<Rightarrow> job \<Rightarrow> bool" where
  "same_order j j' \<longleftrightarrow> j_id j' = j_id j \<and> j_generation j' = j_generation j \<and> j_targets j' = j_targets j \<and>
     j_depends_on j' = j_depends_on j \<and> j_requires_drain j' = j_requires_drain j \<and> j_priority j' = j_priority j \<and>
     j_approved j' = j_approved j"

lemma same_order_refl [simp]: "same_order j j"
  by (simp add: same_order_def)

lemma push_history_fields [simp]:
  "j_state (push_history e j) = j_state j" "j_service_removed (push_history e j) = j_service_removed j"
  "j_removal_set (push_history e j) = j_removal_set j" "j_active_attempt (push_history e j) = j_active_attempt j"
  "j_lease (push_history e j) = j_lease j" "j_authority (push_history e j) = j_authority j"
  "j_owner (push_history e j) = j_owner j" "j_block (push_history e j) = j_block j"
  "j_id (push_history e j) = j_id j" "j_attempts (push_history e j) = j_attempts j"
  "j_generation (push_history e j) = j_generation j" "j_targets (push_history e j) = j_targets j"
  "j_depends_on (push_history e j) = j_depends_on j" "j_requires_drain (push_history e j) = j_requires_drain j"
  "j_priority (push_history e j) = j_priority j" "j_approved (push_history e j) = j_approved j"
  by (simp_all add: push_history_def Let_def)

text \<open>The parts of a job that a transition may leave to its caller.\<close>

definition same_claim :: "job \<Rightarrow> job \<Rightarrow> bool" where
  "same_claim j j' \<longleftrightarrow> same_order j j' \<and> j_removal_set j' = j_removal_set j \<and> j_owner j' = j_owner j"

lemma enter_state_job:
  assumes "enter_state to now j c = (j', c')"
  shows "same_claim j j'" "j_state j' = j_state j" "j_service_removed j' \<longleftrightarrow> j_service_removed j \<or> to = InMaintenance"
    "j_active_attempt j' = j_active_attempt j" "j_authority j' = j_authority j" "j_lease j' = j_lease j"
    "j_block j' = j_block j" "j_attempts j' = j_attempts j" "same_setup c c'" "ct_store c' = ct_store c"
    "ct_drain_inflight c' = ct_drain_inflight c" "ct_queued_releases c' = ct_queued_releases c"
  using assms by (cases to; auto simp: enter_state_def same_claim_def same_order_def)+

lemma release_resources_job:
  assumes "release_resources_locked j pc c = (j', pc', c')"
  shows "same_claim j j'" "j_state j' = j_state j" "j_service_removed j' = j_service_removed j"
    "j_active_attempt j' = j_active_attempt j" "j_lease j' = 0" "j_attempts j' = j_attempts j" "same_setup c c'"
    "j_block j' = j_block j" "pc_now pc' = pc_now pc" "pc_view pc' = pc_view pc"
    "ct_drain_inflight c' = ct_drain_inflight c" "ct_queued_releases c' = ct_queued_releases c"
  using assms
  by (auto simp: release_resources_locked_def Let_def same_claim_def same_order_def id_valid_def push_action_def
      on_store_def same_setup_def split: if_splits prod.splits sum.splits)

text \<open>A transition that is refused changes nothing.\<close>

lemma transition_refused:
  "transition_locked to reason detail now j pc c = (False, j', pc', c') \<Longrightarrow>
   j' = j \<and> pc' = pc \<and> c' = c \<and> \<not> tc_allowed (check_transition (j_state j) to (j_service_removed j))"
  by (auto simp: transition_locked_def Let_def split: if_splits prod.splits)

lemma transition_done:
  assumes "tc_allowed (check_transition (j_state j) to (j_service_removed j))"
  shows "\<exists>j' pc' c'. transition_locked to reason detail now j pc c = (True, j', pc', c')"
proof (cases "transition_locked to reason detail now j pc c")
  case (fields changed j' pc' c')
  then show ?thesis using assms transition_refused [of to reason detail now j pc c j' pc' c'] by (cases changed) auto
qed

lemma note_transition_job [simp]:
  "same_claim j (note_transition c to reason detail now j)" "j_state (note_transition c to reason detail now j) = to"
  "j_service_removed (note_transition c to reason detail now j) = j_service_removed j"
  "j_active_attempt (note_transition c to reason detail now j) = j_active_attempt j"
  "j_lease (note_transition c to reason detail now j) = j_lease j"
  "j_block (note_transition c to reason detail now j) = reason"
  by (simp_all add: note_transition_def same_claim_def same_order_def)

lemma close_attempt_job [simp]:
  "same_claim j (close_attempt to now j)" "j_state (close_attempt to now j) = j_state j"
  "j_service_removed (close_attempt to now j) = j_service_removed j" "j_lease (close_attempt to now j) = j_lease j"
  "j_active_attempt (close_attempt to now j) = no_attempt" "j_block (close_attempt to now j) = j_block j"
  by (simp_all add: close_attempt_def same_claim_def same_order_def)

lemma same_claim_trans: "same_claim j j' \<Longrightarrow> same_claim j' j'' \<Longrightarrow> same_claim j j''"
  by (simp add: same_claim_def same_order_def)

lemma transition_job:
  assumes "transition_locked to reason detail now j pc c = (True, j', pc', c')"
  shows "tc_allowed (check_transition (j_state j) to (j_service_removed j))" "same_claim j j'" "j_state j' = to"
    "j_service_removed j' \<longleftrightarrow> j_service_removed j \<or> to = InMaintenance" "j_block j' = reason" "same_setup c c'"
    "pc_now pc' = pc_now pc" "pc_view pc' = pc_view pc" "ct_drain_inflight c' = ct_drain_inflight c"
    "is_terminal to \<Longrightarrow> j_active_attempt j' = no_attempt" "is_terminal to \<Longrightarrow> j_lease j' = 0"
    "to = Blocked \<Longrightarrow> \<not> j_service_removed j \<Longrightarrow> j_lease j' = 0"
proof -
  obtain j1 c1 where e: "enter_state to now (note_transition c to reason detail now j) c = (j1, c1)" by force
  obtain j2 pc2 c2 where r: "release_resources_locked j1 pc c1 = (j2, pc2, c2)" by (metis prod_cases3)
  note en = enter_state_job [OF e]
  note rl = release_resources_job [OF r]
  have claims: "same_claim j j1" "same_claim j j2" "same_claim j (close_attempt to now j2)"
    by (rule same_claim_trans [OF note_transition_job(1) en(1)],
        rule same_claim_trans [OF same_claim_trans [OF note_transition_job(1) en(1)] rl(1)],
        rule same_claim_trans [OF same_claim_trans [OF same_claim_trans [OF note_transition_job(1) en(1)] rl(1)]
          close_attempt_job(1)])
  show "tc_allowed (check_transition (j_state j) to (j_service_removed j))"
    using assms by (auto simp: transition_locked_def split: if_splits)
  with assms have shape: "(True, j', pc', c') =
      (if is_terminal to then (True, close_attempt to now j2, pc2, c2)
       else if to = Blocked \<and> \<not> j_service_removed j1 then (True, j2, pc2, c2) else (True, j1, pc, c1))"
    by (auto simp: transition_locked_def e r split: if_splits)
  have kept: "same_setup c c2" using same_setup_trans en(9) rl(7) by blast
  show "same_claim j j'" "j_state j' = to" "j_service_removed j' \<longleftrightarrow> j_service_removed j \<or> to = InMaintenance"
    "j_block j' = reason" "same_setup c c'" "pc_now pc' = pc_now pc" "pc_view pc' = pc_view pc"
    "ct_drain_inflight c' = ct_drain_inflight c"
    "is_terminal to \<Longrightarrow> j_active_attempt j' = no_attempt" "is_terminal to \<Longrightarrow> j_lease j' = 0"
    "to = Blocked \<Longrightarrow> \<not> j_service_removed j \<Longrightarrow> j_lease j' = 0"
    using shape en rl claims kept by (simp_all split: if_splits)
qed

section \<open>What a stage does to a job\<close>

text \<open>
  A stage keeps what identifies the job, and either keeps its state or makes one legal transition;
  service counts as removed from the moment maintenance begins, and for good.
\<close>

definition stage_move :: "job \<Rightarrow> job \<Rightarrow> bool" where
  "stage_move j j' \<longleftrightarrow> same_order j j' \<and>
     (j_state j' = j_state j \<and> j_service_removed j' = j_service_removed j \<or>
      tc_allowed (check_transition (j_state j) (j_state j') (j_service_removed j)) \<and>
      (j_service_removed j' \<longleftrightarrow> j_service_removed j \<or> j_state j' = InMaintenance))"

text \<open>What a stage may change before it makes the transition.\<close>

definition prepared :: "job \<Rightarrow> job \<Rightarrow> bool" where
  "prepared j j' \<longleftrightarrow> same_order j j' \<and> j_state j' = j_state j \<and> j_service_removed j' = j_service_removed j"

lemma prepared_move [intro]: "prepared j j' \<Longrightarrow> stage_move j j'"
  by (simp add: prepared_def stage_move_def)

lemma transition_move:
  "transition_locked to reason detail now j1 pc c = (True, j', pc', c') \<Longrightarrow> prepared j j1 \<Longrightarrow> stage_move j j'"
  using transition_job [of to reason detail now j1 pc c j' pc' c']
  by (simp add: prepared_def stage_move_def same_claim_def same_order_def)

lemma new_attempt_job [simp]:
  "j_state (new_attempt_locked c now j) = j_state j" "j_service_removed (new_attempt_locked c now j) = j_service_removed j"
  "j_id (new_attempt_locked c now j) = j_id j" "j_generation (new_attempt_locked c now j) = j_generation j"
  "j_targets (new_attempt_locked c now j) = j_targets j" "j_depends_on (new_attempt_locked c now j) = j_depends_on j"
  "j_requires_drain (new_attempt_locked c now j) = j_requires_drain j"
  "j_priority (new_attempt_locked c now j) = j_priority j" "j_approved (new_attempt_locked c now j) = j_approved j"
  "j_removal_set (new_attempt_locked c now j) = j_removal_set j" "j_lease (new_attempt_locked c now j) = j_lease j"
  "j_authority (new_attempt_locked c now j) = j_authority j" "j_owner (new_attempt_locked c now j) = ct_incarnation c"
  "j_block (new_attempt_locked c now j) = j_block j"
  by (simp_all add: new_attempt_locked_def Let_def)

text \<open>What every stage promises of its answer, and how the answers are put together.\<close>

definition stage_ok :: "job \<Rightarrow> pass_context \<Rightarrow> controller \<Rightarrow> driven \<Rightarrow> bool" where
  "stage_ok j pc c r \<longleftrightarrow> (case r of (changed, j', pc', c') \<Rightarrow>
     (changed \<longrightarrow> stage_move j j') \<and> same_setup c c' \<and> pc_now pc' = pc_now pc \<and> pc_view pc' = pc_view pc)"

lemma transition_ok:
  assumes "prepared j j1" "same_setup c c1"
  shows "stage_ok j pc c (transition_locked to reason detail now j1 pc c1)"
proof (cases "transition_locked to reason detail now j1 pc c1")
  case r: (fields changed j' pc' c')
  show ?thesis
  proof (cases changed)
    case True
    with r transition_job [of to reason detail now j1 pc c1 j' pc' c'] assms show ?thesis
      by (auto simp: stage_ok_def intro: transition_move same_setup_trans)
  next
    case False
    with r transition_refused [of to reason detail now j1 pc c1 j' pc' c'] assms show ?thesis by (simp add: stage_ok_def)
  qed
qed

lemma settled_ok:
  "prepared j j' \<Longrightarrow> same_setup c c' \<Longrightarrow> pc_now pc' = pc_now pc \<Longrightarrow> pc_view pc' = pc_view pc \<Longrightarrow>
   stage_ok j pc c (changed, j', pc', c')"
  by (simp add: stage_ok_def prepared_move)

lemma if_ok: "stage_ok j pc c r \<Longrightarrow> stage_ok j pc c r' \<Longrightarrow> stage_ok j pc c (if b then r else r')"
  by simp

lemma option_ok: "stage_ok j pc c r \<Longrightarrow> (\<And>x. stage_ok j pc c (f x)) \<Longrightarrow>
    stage_ok j pc c (case v of None \<Rightarrow> r | Some x \<Rightarrow> f x)"
  by (cases v) simp_all

lemma push_action_fields [simp]: "pc_now (push_action a pc) = pc_now pc" "pc_view (push_action a pc) = pc_view pc"
  by (simp_all add: push_action_def)

lemma quarantine_targets_setup [simp]:
  "same_setup c (quarantine_targets_locked j reason detail now c') = same_setup c c'"
proof (rule same_setup_step)
  have "same_setup c (fold (quarantine_one j reason detail now) ts c)" for ts c
  proof (induction ts arbitrary: c)
    case (Cons t ts)
    have "same_setup c (quarantine_one j reason detail now t c)"
      by (auto simp: quarantine_one_def dest!: on_store_setup split: prod.splits sum.splits)
    with Cons show ?case by (auto intro: same_setup_trans)
  qed simp
  then show "same_setup c' (quarantine_targets_locked j reason detail now c')" by (simp add: quarantine_targets_locked_def)
qed

lemma make_evidence_setup: "make_evidence_locked kind sub src now ttl p i a c = (e, c') \<Longrightarrow> same_setup c c'"
  by (auto simp: make_evidence_locked_def Let_def same_setup_def split: prod.splits)

lemma record_verdict_setup: "same_setup c (record_verdict j view now t c)"
  by (auto simp: record_verdict_def write_evidence_locked_def dest!: make_evidence_setup
    split: prod.splits)

lemma record_verdicts_setup [simp]: "same_setup c (fold (record_verdict j view now) ts c') = same_setup c c'"
  by (induction ts arbitrary: c') (simp_all add: same_setup_step [OF record_verdict_setup])

lemmas stage_rules = if_ok option_ok transition_ok settled_ok

lemma prepared_refl [simp]: "prepared j j"
  by (simp add: prepared_def)

lemma drive_validated_ok: "stage_ok j pc c (drive_validated_locked j pc c)"
  unfolding drive_validated_locked_def Let_def
  by (cases "scope_problem (ct_topology c) (j_targets j)")
    (auto simp: prepared_def same_order_def intro!: if_ok transition_ok)

lemma prerequisites_held_ok: "same_setup c c1 \<Longrightarrow> stage_ok j pc c (prerequisites_held j pc c1)"
  unfolding prerequisites_held_def Let_def block_violated_def
  by (intro stage_rules)
    (simp_all add: prepared_def same_order_def)

lemma drive_ready_ok: "stage_ok j pc c (drive_ready_locked j pc c)"
  unfolding drive_ready_locked_def Let_def block_violated_def
  by (intro stage_rules) (simp_all add: prepared_def same_order_def)

lemma drive_blocked_ok: "stage_ok j pc c (drive_blocked_locked j pc c)"
  unfolding drive_blocked_locked_def Let_def
  by (intro stage_rules) (simp_all add: prepared_def same_order_def)

lemma drive_in_maintenance_ok: "stage_ok j pc c (drive_in_maintenance_locked j pc c)"
  unfolding drive_in_maintenance_locked_def Let_def
  by (cases "completion_confirmed_locked j (pc_now pc) c", simp only: prod.case, intro stage_rules)
    (simp_all add: prepared_def same_order_def)

lemma drive_verifying_ok: "stage_ok j pc c (drive_verifying_locked j pc c)"
  unfolding drive_verifying_locked_def Let_def
  by (intro stage_rules) (simp_all add: prepared_def same_order_def)

lemma drive_restoring_ok: "stage_ok j pc c (drive_restoring_locked j pc c)"
proof (cases "restoration_gaps c (pc_view pc) (j_removal_set j)")
  case Nil
  then show ?thesis
    unfolding drive_restoring_locked_def Let_def
    by (simp only: list.case, intro stage_rules)
      (simp_all add: prepared_def same_order_def)
next
  case (Cons t ts)
  then show ?thesis
    unfolding drive_restoring_locked_def Let_def
    by (simp only: list.case, intro stage_rules)
      (simp_all add: prepared_def same_order_def)
qed

lemma drive_prerequisites_ok: "stage_ok j pc c (drive_prerequisites_locked j pc c)"
proof -
  let ?renew = "on_store (\<lambda>io. renew_authority io (j_authority j) (j_active_attempt j) (ct_incarnation c)
      (renewal_margin (ct_policy c)) (pc_now pc)) c"
  have renewed: "stage_ok j pc c (case ?renew of (Inr _, c) \<Rightarrow> prerequisites_held j pc c
       | (Inl e, c) \<Rightarrow>
           if err_code e = NotFound \<or> err_code e = StaleIncarnation \<or> err_code e = StaleAttempt then
             (True, j\<lparr>j_authority := 0\<rparr>, pc, counted cs_authority_revocations_update c)
           else transition_locked Blocked AuthorityDenied (err_detail e) (pc_now pc) j pc c)"
  proof (cases ?renew)
    case r: (Pair res c1)
    have kept: "same_setup c c1" by (rule on_store_setup [OF r])
    show ?thesis
    proof (cases res)
      case (Inl e)
      show ?thesis unfolding r Inl prod.case sum.case
        by (intro stage_rules) (simp_all add: prepared_def same_order_def kept)
    qed (simp add: r prerequisites_held_ok kept)
  qed
  show ?thesis
    unfolding drive_prerequisites_locked_def Let_def
    by (intro stage_rules renewed prerequisites_held_ok) (simp_all add: prepared_def same_order_def)
qed

lemmas stages_ok = drive_validated_ok drive_prerequisites_ok drive_ready_ok drive_blocked_ok drive_in_maintenance_ok
  drive_verifying_ok drive_restoring_ok

lemma drive_stage_ok: "stage_ok j pc c (drive_stage j pc c)"
  unfolding drive_stage_def by (cases "j_state j") (simp_all add: stages_ok settled_ok)

lemma drive_stage_move: "drive_stage j pc c = (True, j', pc', c') \<Longrightarrow> stage_move j j'"
  using drive_stage_ok [of j pc c] by (simp add: stage_ok_def)

end
