(* ===== verification/Controller_Safety.thy ===== *)
theory Controller_Safety
  imports Controller_Steps
begin

text \<open>
  When the controller takes a scope out of service and when it calls it restored: which stage can
  enter a state, and under which conditions it does.
\<close>

section \<open>Which stage enters a state\<close>

definition avoids :: "job_state \<Rightarrow> job \<Rightarrow> driven \<Rightarrow> bool" where
  "avoids s j r \<longleftrightarrow> (case r of (changed, j', _) \<Rightarrow> changed \<longrightarrow> j_state j' = s \<longrightarrow> j_state j = s)"

lemma transition_avoids: "to \<noteq> s \<Longrightarrow> avoids s j (transition_locked to reason detail now j1 pc c)"
proof (cases "transition_locked to reason detail now j1 pc c")
  case (fields changed j' pc' c')
  assume "to \<noteq> s"
  with fields transition_job(3) [of to reason detail now j1 pc c j' pc' c'] show ?thesis by (simp add: avoids_def)
qed

lemma settled_avoids: "j_state j' = j_state j \<Longrightarrow> avoids s j (changed, j', r)"
  by (simp add: avoids_def)

lemma if_avoids: "avoids s j r \<Longrightarrow> avoids s j r' \<Longrightarrow> avoids s j (if b then r else r')"
  by simp

lemma option_avoids: "avoids s j r \<Longrightarrow> (\<And>x. avoids s j (f x)) \<Longrightarrow> avoids s j (case v of None \<Rightarrow> r | Some x \<Rightarrow> f x)"
  by (cases v) simp_all

lemma list_avoids: "avoids s j r \<Longrightarrow> (\<And>x xs. avoids s j (f x xs)) \<Longrightarrow> avoids s j (case v of [] \<Rightarrow> r | x # xs \<Rightarrow> f x xs)"
  by (cases v) simp_all

lemma pair_avoids: "(\<And>x y. avoids s j (f x y)) \<Longrightarrow> avoids s j (case v of (x, y) \<Rightarrow> f x y)"
  by (cases v) simp_all

lemma result_avoids: "(\<And>e. avoids s j (f e)) \<Longrightarrow> (\<And>x. avoids s j (g x)) \<Longrightarrow>
    avoids s j (case v of Inl e \<Rightarrow> f e | Inr x \<Rightarrow> g x)"
  by (cases v) simp_all

lemmas avoid_rules = if_avoids option_avoids list_avoids pair_avoids result_avoids transition_avoids settled_avoids

lemma planning_stages_avoid:
  assumes "s \<in> {InMaintenance, Complete}"
  shows "avoids s j (drive_validated_locked j pc c)" "avoids s j (drive_prerequisites_locked j pc c)"
    "avoids s j (drive_blocked_locked j pc c)" "avoids s j (drive_in_maintenance_locked j pc c)"
    "avoids s j (drive_verifying_locked j pc c)"
  unfolding drive_validated_locked_def drive_prerequisites_locked_def prerequisites_held_def block_violated_def
    drive_blocked_locked_def drive_in_maintenance_locked_def drive_verifying_locked_def Let_def
  using assms by (intro avoid_rules; auto)+

lemma ready_avoids_complete: "avoids Complete j (drive_ready_locked j pc c)"
  unfolding drive_ready_locked_def block_violated_def Let_def by (intro avoid_rules; simp)

lemma restoring_avoids_maintenance: "avoids InMaintenance j (drive_restoring_locked j pc c)"
  unfolding drive_restoring_locked_def Let_def by (intro avoid_rules; simp)

lemma starts_in_ready:
  assumes "drive_stage j pc c = (True, j', pc', c')" "j_state j' = InMaintenance" "j_state j \<noteq> InMaintenance"
  shows "j_state j = Ready"
  using assms planning_stages_avoid [of InMaintenance j pc c] restoring_avoids_maintenance [of j pc c]
  by (cases "j_state j") (auto simp: drive_stage_def avoids_def)

lemma completes_in_restoring:
  assumes "drive_stage j pc c = (True, j', pc', c')" "j_state j' = Complete"
  shows "j_state j = Restoring"
  using assms planning_stages_avoid [of Complete j pc c] ready_avoids_complete [of j pc c]
  by (cases "j_state j") (auto simp: drive_stage_def avoids_def)

text \<open>Whether a stage moves the job to a state.\<close>

definition reaches :: "job_state \<Rightarrow> driven \<Rightarrow> bool" where
  "reaches s r \<longleftrightarrow> (case r of (changed, j', _) \<Rightarrow> changed \<and> j_state j' = s)"

lemma reaches_transition: "reaches s (transition_locked to reason detail now j pc c) \<longleftrightarrow>
    to = s \<and> tc_allowed (check_transition (j_state j) to (j_service_removed j))"
proof (cases "transition_locked to reason detail now j pc c")
  case (fields changed j' pc' c')
  then show ?thesis
    using transition_job(1,3) [of to reason detail now j pc c j' pc' c'] transition_refused [of to reason detail now j pc c j' pc' c']
    by (cases changed) (auto simp: reaches_def)
qed

lemma reaches_settled: "reaches s (changed, j', r) \<longleftrightarrow> changed \<and> j_state j' = s"
  by (simp add: reaches_def)

lemma reaches_if: "reaches s (if b then r else r') \<longleftrightarrow> (if b then reaches s r else reaches s r')"
  by simp

lemmas reaching = reaches_if reaches_transition reaches_settled check_transition_def is_terminal_def

section \<open>Starting\<close>

text \<open>The impact the controller hands over is the one the preconditions would compute themselves.\<close>

lemma impact_free:
  fixes px :: precondition_context and i :: "capacity_impact option"
  defines "py \<equiv> px\<lparr>px_impact_in := i\<rparr>"
  shows "check_policy_bound py = check_policy_bound px" "check_request_shape py = check_request_shape px"
    "check_targets_known py = check_targets_known px" "check_maintainable py = check_maintainable px"
    "check_dependencies py = check_dependencies px" "check_evidence_fresh py = check_evidence_fresh px"
    "check_conflicts py = check_conflicts px" "check_window py = check_window px" "check_quorum py = check_quorum px"
    "check_authority py = check_authority px" "check_drain py = check_drain px"
proof -
  have fields: "px_job py = px_job px" "px_topology py = px_topology px" "px_policy py = px_policy px"
      "px_evidence py = px_evidence px" "px_ledger py = px_ledger px" "px_jobs py = px_jobs px"
      "px_readiness py = px_readiness px" "px_current py = px_current px" "px_now py = px_now px"
      "px_check_authority py = px_check_authority px" "px_check_drain py = px_check_drain px"
    by (simp_all add: py_def)
  have same: "committed py = committed px" unfolding committed_def fields ..
  have "job_conflicts py = job_conflicts px" unfolding job_conflicts_def fields same ..
  moreover have "ledger_conflicts py = ledger_conflicts px" unfolding ledger_conflicts_def fields ..
  ultimately show "check_conflicts py = check_conflicts px" by (simp add: check_conflicts_def)
  have query: "drain_query py = drain_query px" unfolding drain_query_def fields ..
  have drained: "drain_confirmed py = drain_confirmed px" unfolding drain_confirmed_def query ..
  show "check_drain py = check_drain px" unfolding check_drain_def fields drained ..
  show "check_policy_bound py = check_policy_bound px" "check_request_shape py = check_request_shape px"
    "check_targets_known py = check_targets_known px" "check_maintainable py = check_maintainable px"
    "check_dependencies py = check_dependencies px" "check_evidence_fresh py = check_evidence_fresh px"
    "check_window py = check_window px" "check_quorum py = check_quorum px" "check_authority py = check_authority px"
    unfolding check_policy_bound_def check_request_shape_def check_targets_known_def check_maintainable_def
      check_dependencies_def check_evidence_fresh_def check_window_def check_quorum_def check_authority_def fields
    by (rule refl)+
qed

lemma evaluation_plain:
  "ev_preconditions (evaluate_locked j view a d now c) = evaluate_preconditions (precondition_input c view a d now j)"
proof -
  let ?px = "precondition_input c view a d now j"
  let ?im = "plan_impact (ct_topology c) (ct_policy c) view (baseline_removed c now j) (j_removal_set j)"
  have im: "pre_impact (?px\<lparr>px_impact_in := Some ?im\<rparr>) = pre_impact ?px"
    by (simp add: pre_impact_def precondition_input_def pre_baseline_def baseline_removed_def)
  have "precondition_results (?px\<lparr>px_impact_in := Some ?im\<rparr>) i = precondition_results ?px i" for i
    by (simp add: precondition_results_def impact_free)
  then show ?thesis by (simp add: evaluate_locked_def evaluate_preconditions_def im)
qed

lemma all_satisfied_counts:
  "ps_all_satisfied (evaluate_preconditions px) \<longleftrightarrow>
   ps_violated (evaluate_preconditions px) = 0 \<and> ps_pending (evaluate_preconditions px) = 0"
  by (simp add: evaluate_preconditions_def Let_def)

text \<open>The conditions under which a job that is ready is started.\<close>

definition may_start :: "job \<Rightarrow> pass_context \<Rightarrow> controller \<Rightarrow> bool" where
  "may_start j pc c \<longleftrightarrow>
     ps_all_satisfied (evaluate_preconditions (precondition_input c (pc_view pc) True True (pc_now pc) j)) \<and>
     pc_now pc - j_preconditions_at j \<le> po_max_precondition_age (ct_policy c)"

lemma ready_starts_iff: "j_state j = Ready \<Longrightarrow> reaches InMaintenance (drive_ready_locked j pc c) \<longleftrightarrow> may_start j pc c"
  unfolding drive_ready_locked_def Let_def block_violated_def evaluation_plain may_start_def all_satisfied_counts
  by (simp add: reaching)

text \<open>What a start needs, in the terms of the stores the controller keeps.\<close>

definition out_of_service :: "job \<Rightarrow> nanos \<Rightarrow> controller \<Rightarrow> target_id set" where
  "out_of_service j now c = set (reserved_targets now (ps_ledger (ct_state c))) \<union>
     (\<Union>e \<in> {e \<in> set (jt_jobs (ct_jobs c)). fst e \<noteq> j_id j \<and> stage_removes_service (j_state (snd e))}.
        set (j_removal_set (snd e))) \<union> set (j_removal_set j)"

lemma may_start_capacity:
  assumes "may_start j pc c" "topo_wf (ct_topology c)"
  shows "pools_safe (ct_topology c) (ct_policy c) (pc_view pc) (out_of_service j (pc_now pc) c)"
    and "domains_safe (ct_topology c) (ct_policy c) (out_of_service j (pc_now pc) c)"
proof -
  let ?px = "precondition_input c (pc_view pc) True True (pc_now pc) j"
  define inp where "inp = \<lparr>in_topology = ct_topology c, in_policy = ct_policy c, in_readiness = pc_view pc,
    in_baseline_removed = pre_baseline ?px, in_planned_removed = j_removal_set j, in_require_full_evidence = True\<rparr>"
  have px: "px_ledger ?px = Some (ps_ledger (ct_state c))" "px_jobs ?px = Some (ct_jobs c)" "px_now ?px = pc_now pc"
      "px_job ?px = j"
    by (simp_all add: precondition_input_def)
  have S: "out_of_service j (pc_now pc) c = set (in_baseline_removed inp) \<union> set (in_planned_removed inp)"
    unfolding inp_def out_of_service_def by (simp add: set_pre_baseline [OF px(1,2)] px(3,4))
  have "capacity_kept (pre_impact ?px)"
    using assms(1) by (simp add: may_start_def all_satisfied_capacity)
  then have "capacity_kept (compute_impact inp)"
    by (simp add: pre_impact_def plan_impact_def inp_def precondition_input_def)
  moreover have "topo_wf (in_topology inp)" using assms(2) by (simp add: inp_def)
  ultimately show "pools_safe (ct_topology c) (ct_policy c) (pc_view pc) (out_of_service j (pc_now pc) c)"
    and "domains_safe (ct_topology c) (ct_policy c) (out_of_service j (pc_now pc) c)"
    using kept_pools_domains [OF _ _ S] by (simp_all add: inp_def)
qed

lemma may_start_checks:
  assumes "may_start j pc c"
  shows "\<exists>r. find_for_job (ps_ledger (ct_state c)) (j_id j) (j_generation j) = Some r \<and> live_at (pc_now pc) r \<and>
      ra_attempt r = j_active_attempt j"
    and "\<forall>t \<in> set (j_removal_set j). is_fresh (pc_view pc) t"
    and "\<forall>d \<in> set (j_depends_on j). \<exists>other. find_job (ct_jobs c) d = Some other \<and> j_state other = Complete"
    and "allows_start (evaluate_window (po_windows (ct_policy c)) (j_targets j) (pc_now pc) (po_require_window (ct_policy c)))"
    and "j_requires_drain j \<Longrightarrow> id_valid (j_lease j)"
proof -
  let ?px = "precondition_input c (pc_view pc) True True (pc_now pc) j"
  have "\<forall>r \<in> {check_evidence_fresh ?px, check_dependencies ?px, check_window ?px, check_authority ?px, check_drain ?px}.
      pc_status r = Satisfied"
    using assms by (auto simp: may_start_def all_satisfied_iff precondition_results_def)
  then show "\<exists>r. find_for_job (ps_ledger (ct_state c)) (j_id j) (j_generation j) = Some r \<and> live_at (pc_now pc) r \<and>
      ra_attempt r = j_active_attempt j"
    and "\<forall>t \<in> set (j_removal_set j). is_fresh (pc_view pc) t"
    and "\<forall>d \<in> set (j_depends_on j). \<exists>other. find_job (ct_jobs c) d = Some other \<and> j_state other = Complete"
    and "allows_start (evaluate_window (po_windows (ct_policy c)) (j_targets j) (pc_now pc) (po_require_window (ct_policy c)))"
    and "j_requires_drain j \<Longrightarrow> id_valid (j_lease j)"
    by (simp_all add: met_iff precondition_input_def)
qed

section \<open>Advancing\<close>

text \<open>The stage after each of the stages that act on the scope, and when a job moves there.\<close>

fun next_stage :: "job_state \<Rightarrow> job_state" where
  "next_stage Ready = InMaintenance"
| "next_stage InMaintenance = Verifying"
| "next_stage Verifying = Restoring"
| "next_stage _ = Complete"

definition may_advance :: "job \<Rightarrow> pass_context \<Rightarrow> controller \<Rightarrow> bool" where
  "may_advance j pc c = (let now = pc_now pc; view = pc_view pc; targets = set (j_removal_set j) in case j_state j of
     Ready \<Rightarrow> may_start j pc c
   | InMaintenance \<Rightarrow> (\<forall>t \<in> targets. completion_report c now j t \<noteq> None) \<and>
       (0 < j_window_closes_at j \<and> j_window_closes_at j \<le> now \<longrightarrow>
         (j_on_close j = ExtendToComplete \<longrightarrow> j_window_extended j) \<and> (j_on_close j = FinishActiveStep \<longrightarrow> j_overrun j))
   | Verifying \<Rightarrow> (\<forall>t \<in> targets. is_fresh view t \<and> is_serving (health_of view t)) \<and> \<not> negative_report c now j
   | Restoring \<Rightarrow> \<not> id_valid (j_lease j) \<and> \<not> j_maintenance_failed j \<and>
       (\<forall>t \<in> targets. is_fresh view t \<and> is_serving (health_of view t) \<and>
         find_open_for_target (ps_quarantines (ct_state c)) t = None)
   | _ \<Rightarrow> False)"

lemma maintenance_advances: "j_state j = InMaintenance \<Longrightarrow>
    reaches Verifying (drive_in_maintenance_locked j pc c) \<longleftrightarrow> may_advance j pc c"
  unfolding drive_in_maintenance_locked_def Let_def may_advance_def completion_confirmed_locked_def prod.case
  by (cases "j_on_close j") (auto simp: reaching list_all_iff)

lemma verifying_advances: "j_state j = Verifying \<Longrightarrow>
    reaches Restoring (drive_verifying_locked j pc c) \<longleftrightarrow> may_advance j pc c"
  unfolding drive_verifying_locked_def Let_def may_advance_def health_gaps_def
  by (simp add: reaching filter_empty_conv)

lemma restoring_advances: "j_state j = Restoring \<Longrightarrow>
    reaches Complete (drive_restoring_locked j pc c) \<longleftrightarrow> may_advance j pc c"
proof -
  assume j: "j_state j = Restoring"
  have gaps: "restoration_gaps c (pc_view pc) (j_removal_set j) = [] \<longleftrightarrow>
      (\<forall>t \<in> set (j_removal_set j). is_fresh (pc_view pc) t \<and> is_serving (health_of (pc_view pc) t) \<and>
        find_open_for_target (ps_quarantines (ct_state c)) t = None)"
    by (auto simp: restoration_gaps_def filter_empty_conv)
  show ?thesis
    unfolding drive_restoring_locked_def Let_def may_advance_def j job_state.case gaps [symmetric]
    by (cases "restoration_gaps c (pc_view pc) (j_removal_set j)") (simp_all add: reaching j)
qed

lemma stage_advances:
  "j_state j \<in> {Ready, InMaintenance, Verifying, Restoring} \<Longrightarrow>
   reaches (next_stage (j_state j)) (drive_stage j pc c) \<longleftrightarrow> may_advance j pc c"
  using ready_starts_iff [of j pc c] maintenance_advances verifying_advances restoring_advances
  by (auto simp: drive_stage_def may_advance_def Let_def)

end
