(* ===== verification/Controller_Authority.thy ===== *)
theory Controller_Authority
  imports Controller_Safety
begin

text \<open>
  What the controller does to the ledger: committing a job leaves it alone, and arbitration adds the
  staged grants whose records reach the journal. However many of them do, the live reservations stay
  jointly safe.
\<close>

section \<open>Committing a job\<close>

text \<open>The persisted state but for the jobs and the revision.\<close>

definition only_jobs :: "persisted_state \<Rightarrow> persisted_state \<Rightarrow> bool" where
  "only_jobs s s' \<longleftrightarrow> ps_ledger s' = ps_ledger s \<and> ps_evidence s' = ps_evidence s \<and> ps_quarantines s' = ps_quarantines s \<and>
     ps_leases s' = ps_leases s \<and> ps_topology s' = ps_topology s \<and> ps_policy s' = ps_policy s \<and>
     ps_last_incarnation s' = ps_last_incarnation s \<and> ps_boot_epoch s' = ps_boot_epoch s"

lemma only_jobs_simps [simp]:
  "only_jobs s s" "only_jobs s (s'\<lparr>ps_jobs := t\<rparr>) = only_jobs s s'" "only_jobs s (bump s') = only_jobs s s'"
  "only_jobs s (st_state (with_jobs t st)) = only_jobs s (st_state st)"
  by (simp_all add: only_jobs_def bump_def with_jobs_def)

lemma only_jobs_trans: "only_jobs s s' \<Longrightarrow> only_jobs s' s'' \<Longrightarrow> only_jobs s s''"
  by (simp add: only_jobs_def)

lemma apply_job_only: "jr_type rec = RtJob \<Longrightarrow> only_jobs (fst m) (fst (snd (apply_record rec strict m)))"
  by (simp add: apply_record_def apply_job_def undecodable_def discard_def split: sum.splits)

lemma apply_jobs_only:
  "\<forall>rec \<in> set recs. jr_type rec = RtJob \<Longrightarrow> only_jobs (fst m) (fst (snd (apply_strictly recs m)))"
proof (induction recs arbitrary: m)
  case (Cons rec recs)
  have step: "only_jobs (fst m) (fst (snd (apply_record rec True m)))" using Cons.prems by (intro apply_job_only) simp
  show ?case
  proof (cases "apply_record rec True m")
    case (fields r s rep)
    then show ?thesis
      using step Cons.IH [of "(s, rep)"] Cons.prems by (cases r) (auto intro: only_jobs_trans)
  qed
qed simp

lemma append_jobs_only:
  assumes "\<forall>rec \<in> set recs. jr_type rec = RtJob"
  shows "only_jobs (st_state st) (st_state (snd (append_and_apply io recs st)))"
proof -
  obtain r s rep where a: "apply_strictly recs (st_state st, st_report st) = (r, s, rep)" by (metis prod_cases3)
  have "only_jobs (st_state st) s" using apply_jobs_only [OF assms, of "(st_state st, st_report st)"] a by simp
  then show ?thesis
    by (simp add: append_and_apply_def a split: sum.split prod.split)
qed

lemma commit_job_only: "only_jobs (st_state st) (st_state (snd (commit_job io j st)))"
proof -
  have "only_jobs (st_state st) (st_state (snd (append_and_apply io [encode_job_record j] (with_jobs t st))))" for t
    using append_jobs_only [of "[encode_job_record j]" "with_jobs t st" io]
    by (simp add: job_rec.typed only_jobs_def with_jobs_def)
  then show ?thesis
    by (auto simp: commit_job_def Let_def split: sum.split prod.splits) (metis snd_conv)+
qed

lemma commit_job_locked_only: "only_jobs (ct_state c) (ct_state (snd (commit_job_locked j now c)))"
  using commit_job_only by (simp add: commit_job_locked_def on_store_def ct_state_def split: option.split prod.split)
    (metis snd_conv)

section \<open>Arbitration\<close>

text \<open>A ledger whose reservations are all in another one, up to their digests.\<close>

definition within :: "ledger \<Rightarrow> ledger \<Rightarrow> bool" where
  "within l m \<longleftrightarrow> om_ok (lg_reservations l) \<and>
     (\<forall>i r. find_reservation l i = Some r \<longrightarrow> i < lg_next_id l \<and>
        (\<exists>q. find_reservation m i = Some q \<and> r\<lparr>ra_digest := 0\<rparr> = q\<lparr>ra_digest := 0\<rparr>))"

lemma undigested:
  assumes "r\<lparr>ra_digest := 0\<rparr> = q\<lparr>ra_digest := 0\<rparr>"
  shows "ra_id r = ra_id q" "ra_job r = ra_job q" "ra_generation r = ra_generation q" "ra_targets r = ra_targets q"
    "ra_expires_at r = ra_expires_at q"
  using assms by (metis reservation.ext_inject reservation.surjective reservation.update_convs(12))+

lemma within_self: "ledger_wf l \<Longrightarrow> (\<And>i r. find_reservation l i = Some r \<Longrightarrow> find_reservation m i = Some r) \<Longrightarrow> within l m"
  by (auto simp: within_def ledger_wf_def)

lemma within_inv:
  assumes "within l m" "authority_inv topo po rv now m"
  shows "authority_inv topo po rv now l"
proof (rule authority_inv_narrow [OF assms(2)])
  have m: "ledger_wf m" using assms(2) by (simp add: authority_inv_def)
  have same: "\<exists>q. find_reservation m i = Some q \<and> ra_id r = ra_id q \<and> ra_job r = ra_job q \<and>
      ra_generation r = ra_generation q \<and> ra_targets r = ra_targets q \<and> ra_expires_at r = ra_expires_at q"
    if "find_reservation l i = Some r" for i r
    using assms(1) that undigested unfolding within_def by metis
  show "ledger_wf l"
    unfolding ledger_wf_def
  proof (intro conjI allI impI)
    show "om_ok (lg_reservations l)" using assms(1) by (simp add: within_def)
    show "ra_id r = i" "i < lg_next_id l" if "find_reservation l i = Some r" for i r
      using same [OF that] m assms(1) that by (auto simp: ledger_wf_def within_def)
    show "i = j" if "find_reservation l i = Some r" "find_reservation l j = Some q" "ra_job r = ra_job q"
        "ra_generation r = ra_generation q" for i j r q
      using same [OF that(1)] same [OF that(2)] that(3,4) m unfolding ledger_wf_def by metis
  qed
  show "\<exists>q. find_reservation m i = Some q \<and> live_at now q \<and> ra_targets q = ra_targets r"
    if "find_reservation l i = Some r" "live_at now r" for i r
    using same [OF that(1)] that(2) by (auto simp: live_at_def)
qed

lemma within_adopt:
  assumes "within l m" "ledger_wf m" "find_reservation m i = Some q" "adopt_reservation q l = Inr l'"
  shows "within l' m"
proof -
  have i: "ra_id q = i" "i < lg_next_id m" using assms(2,3) by (simp_all add: ledger_wf_def)
  then have "i \<noteq> - 1" by auto
  then have up: "i < next_id i" by (rule next_id_greater)
  define r where "r = (if ra_digest q = 0 then q\<lparr>ra_digest := reservation_digest q\<rparr> else q)"
  have r: "r\<lparr>ra_digest := 0\<rparr> = q\<lparr>ra_digest := 0\<rparr>" "ra_id r = i" using i(1) by (simp_all add: r_def)
  have l': "lg_reservations l' = om_set i r (lg_reservations l)"
      "lg_next_id l' = (if i \<ge> lg_next_id l then next_id i else lg_next_id l)"
    using assms(4) r(2) unfolding adopt_reservation_def Let_def r_def [symmetric] by (auto split: if_splits)
  show ?thesis
    using assms(1,3) r l' up unfolding within_def find_reservation_def by (auto simp: om_find_set om_ok_set) (meson le_less_trans less_le_trans less_trans)
qed

text \<open>One decision, applied.\<close>

lemma denial_ledger: "ps_ledger (ct_state (apply_denial pc d c)) = ps_ledger (ct_state c)"
proof (cases "find_job (ct_jobs c) (ad_job d)")
  case (Some denied)
  show ?thesis
  proof (cases "j_state denied \<noteq> Prerequisites \<or> id_valid (j_authority denied)")
    case False
    obtain changed j pc' c' where t: "transition_locked Blocked (ad_reason d) (ad_detail d) (pc_now pc) denied
        (pc\<lparr>pc_actions := Some []\<rparr>) c = (changed, j, pc', c')" by (metis prod_cases4)
    have "ct_store c' = ct_store c"
      using t False by (auto simp: transition_locked_def enter_state_def note_transition_def release_resources_locked_def
          is_terminal_def Let_def push_history_def split: if_splits)
    then show ?thesis
      using Some False t commit_job_locked_only [of c' j "pc_now pc"]
      by (simp add: apply_denial_def only_jobs_def ct_state_def)
  qed (simp add: apply_denial_def Some)
qed (simp add: apply_denial_def)

lemma grant_ledger:
  assumes "within (ps_ledger (ct_state c)) m" "ledger_wf m"
  shows "within (ps_ledger (ct_state (apply_grant m pc d c))) m"
proof (cases "find_job (ct_jobs c) (ad_job d)")
  case job: (Some current)
  show ?thesis
  proof (cases "find_reservation m (ad_authority d)")
    case granted: (Some q)
    obtain r c1 where ins: "on_store (\<lambda>io. insert_authority io q) c = (r, c1)" by force
    have kept: "within (ps_ledger (ct_state c1)) m"
    proof (cases "adopt_reservation q (ps_ledger (ct_state c))")
      case (Inr l)
      then show ?thesis
        using ins assms within_adopt [OF assms granted Inr]
        by (auto simp: on_store_def insert_authority_def append_then_def ct_state_def bump_def split: prod.splits sum.splits)
    next
      case (Inl e)
      then show ?thesis using ins assms(1) by (auto simp: on_store_def insert_authority_def ct_state_def)
    qed
    then show ?thesis
      using commit_job_locked_only by (auto simp: apply_grant_def job granted ins only_jobs_def split: sum.split)
  qed (simp add: apply_grant_def job assms(1))
qed (simp add: apply_grant_def assms(1))

lemma decisions_ledger:
  "within (ps_ledger (ct_state c)) m \<Longrightarrow> ledger_wf m \<Longrightarrow>
   within (ps_ledger (ct_state (fold (apply_decision m pc) ds c))) m"
proof (induction ds arbitrary: c)
  case (Cons d ds)
  have "within (ps_ledger (ct_state (apply_decision m pc d c))) m"
    using Cons.prems grant_ledger by (cases "ad_outcome d") (simp_all add: apply_decision_def denial_ledger)
  with Cons show ?case by simp
qed simp

lemma arbitrate_locked_inv:
  assumes "topo_wf (ct_topology c)"
    and "ledger_room (length (arbitration_candidates (pc_now pc) c)) (ps_ledger (ct_state c))"
    and "authority_inv (ct_topology c) (ct_policy c) (pc_view pc) (pc_now pc) (ps_ledger (ct_state c))"
  shows "authority_inv (ct_topology c) (ct_policy c) (pc_view pc) (pc_now pc) (ps_ledger (ct_state (arbitrate_locked pc c)))"
proof (cases "arbitration_candidates (pc_now pc) c = []")
  case False
  let ?ax = "arbitration_input pc c" and ?l = "ps_ledger (ct_state c)"
  let ?m = "as_ledger (arbitrate ?ax ?l)"
  have l: "ledger_wf ?l" using assms(3) by (simp add: authority_inv_def)
  have inv: "authority_inv (ct_topology c) (ct_policy c) (pc_view pc) (pc_now pc) ?m"
    using arbitrate_inv [of ?ax ?l] assms by (simp add: arbitration_input_def)
  then have m: "ledger_wf ?m" by (simp add: authority_inv_def)
  have "within ?l ?m"
    using arbitrate_keeps_held [of ?l ?ax] l assms(2) by (intro within_self) (simp_all add: arbitration_input_def)
  then have "within (ps_ledger (ct_state (arbitrate_locked pc c))) ?m"
    using decisions_ledger [of "c\<lparr>ct_last_arbitration := as_report (arbitrate ?ax ?l)\<rparr>" ?m] m False
    by (simp add: arbitrate_locked_def ct_state_def Let_def)
  then show ?thesis by (rule within_inv [OF _ inv])
qed (simp add: arbitrate_locked_def assms(3))

section \<open>The rest of a pass\<close>

text \<open>
  Outside arbitration a pass only gives reservations back and prolongs live ones: it adds none, and
  none of those it keeps covers other targets.
\<close>

definition all_live :: "nanos \<Rightarrow> ledger \<Rightarrow> bool" where
  "all_live now l \<longleftrightarrow> (\<forall>i r. find_reservation l i = Some r \<longrightarrow> live_at now r)"

definition tame :: "nanos \<Rightarrow> ledger \<Rightarrow> ledger \<Rightarrow> bool" where
  "tame now l l' \<longleftrightarrow> (ledger_wf l \<and> all_live now l \<longrightarrow>
     ledger_wf l' \<and> all_live now l' \<and> lg_next_id l' = lg_next_id l \<and>
     (\<forall>i r. find_reservation l' i = Some r \<longrightarrow> (\<exists>q. find_reservation l i = Some q \<and> ra_targets q = ra_targets r)))"

lemma tame_refl [simp]: "tame now l l"
  by (simp add: tame_def)

lemma tame_trans: "tame now l l' \<Longrightarrow> tame now l' l'' \<Longrightarrow> tame now l l''"
  unfolding tame_def by (simp, metis)

lemma tame_inv:
  assumes "tame now l l'" "all_live now l" "authority_inv topo po rv now l"
  shows "authority_inv topo po rv now l'" "all_live now l'" "lg_next_id l' = lg_next_id l"
proof -
  have wf: "ledger_wf l" using assms(3) by (simp add: authority_inv_def)
  then have t: "ledger_wf l'" "all_live now l'" "lg_next_id l' = lg_next_id l"
      "\<And>i r. find_reservation l' i = Some r \<Longrightarrow> \<exists>q. find_reservation l i = Some q \<and> ra_targets q = ra_targets r"
    using assms(1,2) by (simp_all add: tame_def)
  then show "all_live now l'" "lg_next_id l' = lg_next_id l" by simp_all
  show "authority_inv topo po rv now l'"
    by (rule authority_inv_narrow [OF assms(3) t(1)]) (use t(4) assms(2) in \<open>fastforce simp: all_live_def\<close>)
qed

lemma release_tame: "release i c l = Inr l' \<Longrightarrow> tame now l l'"
  using release_wf [of l i c l']
  by (auto simp: tame_def all_live_def release_exact find_reservation_def table_simps split: if_splits)

lemma renew_tame:
  assumes "renew i a c e now l = Inr l'"
  shows "tame now l l'"
  unfolding tame_def
proof (intro impI)
  assume l: "ledger_wf l \<and> all_live now l"
  obtain r where r: "find_reservation l i = Some r" using assms by (auto simp: renew_def split: option.splits)
  then have live: "live_at now r" using l by (simp add: all_live_def)
  have pos: "0 < e" using assms r by (auto simp: renew_def split: if_splits)
  have later: "now < ra_expires_at r + e" using live pos by (simp add: live_at_def)
  have "lg_next_id l' = lg_next_id l" using assms by (auto simp: renew_def Let_def split: option.splits if_splits)
  moreover have "ledger_wf l'" using renew_wf assms l by blast
  moreover have "all_live now l'"
    using assms l r unfolding all_live_def
    by (auto simp: renew_def Let_def find_reservation_def om_find_set live_at_def split: if_splits)
      (rule later)
  moreover have "\<exists>q. find_reservation l j = Some q \<and> ra_targets q = ra_targets p" if "find_reservation l' j = Some p" for j p
    using renew_narrow [OF r live assms that] \<open>all_live now l'\<close> that by (fastforce simp: all_live_def)
  ultimately show "ledger_wf l' \<and> all_live now l' \<and> lg_next_id l' = lg_next_id l \<and>
      (\<forall>i r. find_reservation l' i = Some r \<longrightarrow> (\<exists>q. find_reservation l i = Some q \<and> ra_targets q = ra_targets r))"
    by blast
qed

text \<open>The ledger of a controller after an operation of the store.\<close>

abbreviation ct_ledger :: "controller \<Rightarrow> ledger" where
  "ct_ledger c \<equiv> ps_ledger (ct_state c)"

lemma append_then_ledger:
  "append_then io recs s st = (r, st') \<Longrightarrow> ps_ledger (st_state st') = ps_ledger (st_state st) \<or> ps_ledger (st_state st') = ps_ledger s"
  by (auto simp: append_then_def bump_def split: prod.splits sum.splits)

lemma release_store_tame:
  assumes "on_store (\<lambda>io. release_authority io i inc) c = (r, c')"
  shows "tame now (ct_ledger c) (ct_ledger c')"
  using assms release_tame
  by (auto simp: on_store_def release_authority_def ct_state_def split: sum.splits prod.splits dest!: append_then_ledger)

lemma renew_store_tame:
  assumes "on_store (\<lambda>io. renew_authority io i a inc e now) c = (r, c')"
  shows "tame now (ct_ledger c) (ct_ledger c')"
  using assms renew_tame
  by (auto simp: on_store_def renew_authority_def ct_state_def split: sum.splits prod.splits option.splits
    dest!: append_then_ledger)

lemma observe_ledger: "ps_ledger (st_state (snd (observe_evidence io e st))) = ps_ledger (st_state st)"
  by (auto simp: observe_evidence_def append_then_def bump_def split: prod.splits sum.splits)

lemma write_evidence_ledger: "ct_ledger (snd (write_evidence_locked e c)) = ct_ledger c"
  using observe_ledger by (simp add: write_evidence_locked_def on_store_def ct_state_def split: prod.split) (metis snd_conv)

lemma make_evidence_ledger: "make_evidence_locked kind sub src now ttl p i a c = (e, c') \<Longrightarrow> ct_ledger c' = ct_ledger c"
  by (auto simp: make_evidence_locked_def allocate_evidence_id_def Let_def ct_state_def)

lemma record_verdicts_ledger [simp]: "ct_ledger (fold (record_verdict j view now) ts c) = ct_ledger c"
proof (induction ts arbitrary: c)
  case (Cons t ts)
  have "ct_ledger (record_verdict j view now t c) = ct_ledger c"
    by (auto simp: record_verdict_def write_evidence_ledger dest: make_evidence_ledger split: prod.splits)
  with Cons show ?case by simp
qed simp

lemma quarantine_target_ledger: "ps_ledger (st_state (snd (quarantine_target io t i g reason detail now inc st))) = ps_ledger (st_state st)"
  by (simp add: quarantine_target_def with_quarantines_def bump_def Let_def split: prod.split sum.split)

lemma quarantine_targets_ledger [simp]: "ct_ledger (quarantine_targets_locked j reason detail now c) = ct_ledger c"
proof -
  have "ct_ledger (fold (quarantine_one j reason detail now) ts c) = ct_ledger c" for ts
  proof (induction ts arbitrary: c)
    case (Cons t ts)
    have "ct_ledger (quarantine_one j reason detail now t c) = ct_ledger c"
      using quarantine_target_ledger
      by (simp add: quarantine_one_def on_store_def ct_state_def counted_def split: prod.split sum.split) (metis snd_conv)
    with Cons show ?case by simp
  qed simp
  then show ?thesis by (simp add: quarantine_targets_locked_def)
qed

section \<open>Stages and the ledger\<close>

definition stage_tame :: "nanos \<Rightarrow> controller \<Rightarrow> driven \<Rightarrow> bool" where
  "stage_tame now c r \<longleftrightarrow> (case r of (_, _, _, c') \<Rightarrow> tame now (ct_ledger c) (ct_ledger c'))"

lemma transition_tame:
  assumes "tame now (ct_ledger c) (ct_ledger c1)"
  shows "stage_tame now c (transition_locked to reason detail at j pc c1)"
proof -
  obtain j1 c2 where e: "enter_state to at (note_transition c1 to reason detail at j) c1 = (j1, c2)" by force
  obtain j2 pc2 c3 where r: "release_resources_locked j1 pc c2 = (j2, pc2, c3)" by (metis prod_cases3)
  have c2: "ct_ledger c2 = ct_ledger c1" using enter_state_job(10) [OF e] by (simp add: ct_state_def)
  have "tame now (ct_ledger c2) (ct_ledger c3)"
    using r by (auto simp: release_resources_locked_def Let_def split: if_splits prod.splits sum.splits dest: release_store_tame)
  then have "tame now (ct_ledger c) (ct_ledger c3)" using assms c2 by (auto intro: tame_trans)
  then show ?thesis
    using assms c2 by (auto simp: stage_tame_def transition_locked_def e r)
qed

lemma settled_tame: "tame now (ct_ledger c) (ct_ledger c') \<Longrightarrow> stage_tame now c (changed, j', pc', c')"
  by (simp add: stage_tame_def)

lemma if_tame: "stage_tame now c r \<Longrightarrow> stage_tame now c r' \<Longrightarrow> stage_tame now c (if b then r else r')"
  by simp

lemma option_tame: "stage_tame now c r \<Longrightarrow> (\<And>x. stage_tame now c (f x)) \<Longrightarrow>
    stage_tame now c (case v of None \<Rightarrow> r | Some x \<Rightarrow> f x)"
  by (cases v) simp_all

lemma list_tame: "stage_tame now c r \<Longrightarrow> (\<And>x xs. stage_tame now c (f x xs)) \<Longrightarrow>
    stage_tame now c (case v of [] \<Rightarrow> r | x # xs \<Rightarrow> f x xs)"
  by (cases v) simp_all

lemma pair_tame: "(\<And>x y. stage_tame now c (f x y)) \<Longrightarrow> stage_tame now c (case v of (x, y) \<Rightarrow> f x y)"
  by (cases v) simp_all

lemmas tame_rules = if_tame option_tame list_tame pair_tame transition_tame settled_tame

lemma bookkeeping_ledger [simp]:
  "ct_state (c\<lparr>ct_drain_inflight := js\<rparr>) = ct_state c" "ct_state (c\<lparr>ct_queued_releases := ls\<rparr>) = ct_state c"
  "ct_state (c\<lparr>ct_deferred_releases := as\<rparr>) = ct_state c"
  by (simp_all add: ct_state_def)

lemma plain_stages_tame:
  "stage_tame (pc_now pc) c (drive_validated_locked j pc c)" "stage_tame (pc_now pc) c (drive_ready_locked j pc c)"
  "stage_tame (pc_now pc) c (drive_blocked_locked j pc c)" "stage_tame (pc_now pc) c (drive_in_maintenance_locked j pc c)"
  "stage_tame (pc_now pc) c (drive_verifying_locked j pc c)" "stage_tame (pc_now pc) c (drive_restoring_locked j pc c)"
  unfolding drive_validated_locked_def drive_ready_locked_def block_violated_def drive_blocked_locked_def
    drive_in_maintenance_locked_def drive_verifying_locked_def drive_restoring_locked_def Let_def
  by (intro tame_rules; simp)+

lemma prerequisites_held_tame:
  "tame (pc_now pc) (ct_ledger c) (ct_ledger c1) \<Longrightarrow> stage_tame (pc_now pc) c (prerequisites_held j pc c1)"
  unfolding prerequisites_held_def block_violated_def Let_def by (intro tame_rules; simp)

lemma drive_prerequisites_tame: "stage_tame (pc_now pc) c (drive_prerequisites_locked j pc c)"
proof -
  let ?renew = "on_store (\<lambda>io. renew_authority io (j_authority j) (j_active_attempt j) (ct_incarnation c)
      (renewal_margin (ct_policy c)) (pc_now pc)) c"
  have renewed: "stage_tame (pc_now pc) c (case ?renew of (Inr _, c) \<Rightarrow> prerequisites_held j pc c
       | (Inl e, c) \<Rightarrow>
           if err_code e = NotFound \<or> err_code e = StaleIncarnation \<or> err_code e = StaleAttempt then
             (True, j\<lparr>j_authority := 0\<rparr>, pc, counted cs_authority_revocations_update c)
           else transition_locked Blocked AuthorityDenied (err_detail e) (pc_now pc) j pc c)"
  proof (cases ?renew)
    case r: (Pair res c1)
    note kept = renew_store_tame [OF r]
    show ?thesis
    proof (cases res)
      case (Inl e)
      show ?thesis unfolding r Inl prod.case sum.case by (intro tame_rules; simp add: kept)
    qed (simp add: r prerequisites_held_tame kept)
  qed
  show ?thesis
    unfolding drive_prerequisites_locked_def Let_def
    by (intro tame_rules renewed prerequisites_held_tame) simp_all
qed

lemma drive_stage_tame: "stage_tame (pc_now pc) c (drive_stage j pc c)"
  unfolding drive_stage_def
  by (cases "j_state j") (simp_all add: plain_stages_tame drive_prerequisites_tame settled_tame)

section \<open>A whole pass\<close>

definition pass_keeps :: "pass_context \<times> controller \<Rightarrow> pass_context \<times> controller \<Rightarrow> bool" where
  "pass_keeps p p' \<longleftrightarrow> same_setup (snd p) (snd p') \<and> pc_now (fst p') = pc_now (fst p) \<and> pc_view (fst p') = pc_view (fst p) \<and>
     tame (pc_now (fst p)) (ct_ledger (snd p)) (ct_ledger (snd p'))"

lemma commit_job_locked_setup: "same_setup c (snd (commit_job_locked j now c'))= same_setup c c'"
  by (auto simp: commit_job_locked_def split: option.split)

lemma drive_locked_keeps: "pass_keeps p (drive_locked i p)"
proof (cases p)
  case (Pair pc c)
  show ?thesis
  proof (cases "find_job (ct_jobs c) i")
    case (Some j)
    obtain changed j' pc' c' where d: "drive_stage j pc c = (changed, j', pc', c')" by (metis prod_cases4)
    have "ct_ledger (snd (commit_job_locked j' (pc_now pc') c')) = ct_ledger c'"
      using commit_job_locked_only [of c' j' "pc_now pc'"] by (simp add: only_jobs_def)
    then show ?thesis
      using drive_stage_ok [of j pc c] drive_stage_tame [of pc c j]
      by (simp add: Pair Some drive_locked_def d stage_ok_def stage_tame_def pass_keeps_def commit_job_locked_setup)
  qed (simp add: Pair drive_locked_def pass_keeps_def)
qed

lemma drives_keep: "pass_keeps p (fold drive_locked is p)"
proof (induction "is" arbitrary: p)
  case (Cons i "is")
  have trans: "pass_keeps p p' \<Longrightarrow> pass_keeps p' p'' \<Longrightarrow> pass_keeps p p''" for p p' p''
    unfolding pass_keeps_def by (metis same_setup_trans tame_trans)
  show ?case using trans [OF drive_locked_keeps Cons.IH] by simp
qed (simp add: pass_keeps_def)

lemma release_orphans_store: "ct_store (snd (fold release_orphan ls p)) = ct_store (snd p)"
  by (induction ls arbitrary: p) (auto simp: release_orphan_def split: prod.splits)

lemma drain_all_inv:
  assumes "topo_wf (ct_topology c)" "all_live now (ct_ledger c)"
    and "unat (lg_next_id (ct_ledger c)) + kMaxJobsPerArbitration < 2 ^ 64"
    and "authority_inv (ct_topology c) (ct_policy c) (pass_view now c) now (ct_ledger c)"
    and "drain_all_locked now actions c = (actions', c')"
  shows "authority_inv (ct_topology c) (ct_policy c) (pass_view now c) now (ct_ledger c')"
proof -
  let ?pc = "\<lparr>pc_now = now, pc_view = pass_view now c, pc_actions = Some actions\<rparr>"
  let ?order = "drive_order (plan_tick (ct_jobs c) (ct_policy c) now)"
  obtain pc1 c1 where d: "fold drive_locked ?order (?pc, c) = (pc1, c1)" by force
  have k: "same_setup c c1" "pc_now pc1 = now" "pc_view pc1 = pass_view now c" "tame now (ct_ledger c) (ct_ledger c1)"
    using drives_keep [of "(?pc, c)" ?order] by (simp_all add: pass_keeps_def d)
  have l1: "authority_inv (ct_topology c) (ct_policy c) (pass_view now c) now (ct_ledger c1)"
      "lg_next_id (ct_ledger c1) = lg_next_id (ct_ledger c)"
    using tame_inv [OF k(4) assms(2,4)] by simp_all
  have "ledger_room (length (arbitration_candidates now c1)) (ct_ledger c1)"
    using assms(3) l1(2) by (simp add: ledger_room_def arbitration_candidates_def)
  then have "authority_inv (ct_topology c) (ct_policy c) (pass_view now c) now (ct_ledger (arbitrate_locked pc1 c1))"
    using arbitrate_locked_inv [of c1 pc1] assms(1) l1(1) k by (simp add: same_setup_def)
  moreover have "ct_store c' = ct_store (arbitrate_locked pc1 c1)"
    using assms(5) release_orphans_store by (simp add: drain_all_locked_def Let_def d) (metis snd_conv)
  ultimately show ?thesis by (simp add: ct_state_def)
qed

section \<open>The expiry sweep\<close>

text \<open>
  The sweep removes every expired reservation or, when its transaction is refused or cannot be written,
  none. The number it returns tells the two apart.
\<close>

abbreviation expired_entries :: "nanos \<Rightarrow> ledger \<Rightarrow> (authority_id \<times> reservation) list" where
  "expired_entries now l \<equiv> filter (\<lambda>e. \<not> live_at now (snd e)) (lg_reservations l)"

definition sweep_result :: "nanos \<Rightarrow> ledger \<Rightarrow> nat \<Rightarrow> ledger" where
  "sweep_result now l n = (if n = length (expired_entries now l) \<and> n \<noteq> 0 then snd (expire now l) else l)"

lemma sweep_exact:
  assumes "expire_authority io now st = (n, st')"
  shows "ps_ledger (st_state st') = sweep_result now (ps_ledger (st_state st)) n \<and>
    ps_evidence (st_state st') = ps_evidence (st_state st)"
  using assms by (auto simp: expire_authority_def sweep_result_def expire_def append_then_def bump_def Let_def
    split: if_splits prod.splits sum.splits)

lemma sweep_takes:
  assumes "n = length (expired_entries now l)" "ledger_wf l"
  shows "all_live now (sweep_result now l n)" "ledger_wf (sweep_result now l n)" "lg_next_id (sweep_result now l n) = lg_next_id l"
    "narrows now l now (sweep_result now l n)"
proof -
  have none: "all_live now l" if "expired_entries now l = []"
    using that om_in_items [OF ledger_wf_ok [OF assms(2)]]
    by (fastforce simp: all_live_def find_reservation_def filter_empty_conv)
  have "all_live now (snd (expire now l))"
    by (auto simp: all_live_def expire_exact [OF assms(2)] split: option.splits if_splits)
  with none assms(1) show "all_live now (sweep_result now l n)" by (simp add: sweep_result_def)
  show "ledger_wf (sweep_result now l n)" using assms(2) expire_wf by (simp add: sweep_result_def)
  show "lg_next_id (sweep_result now l n) = lg_next_id l" by (simp add: sweep_result_def expire_def Let_def)
  show "narrows now l now (sweep_result now l n)"
    using ledger_narrows(2) [OF assms(2), of now] ledger_narrows(4) [of now now l] by (simp add: sweep_result_def)
qed

text \<open>A transaction holds a bounded number of records, so a sweep of more reservations than that never happens.\<close>

lemma sweep_over_bound:
  assumes "kMaxRecordsPerTransaction < length (expired_entries now (ps_ledger (st_state st)))"
  shows "expire_authority io now st = (0, st)"
proof -
  let ?es = "expired_entries now (ps_ledger (st_state st))"
  have some: "?es \<noteq> []" using assms by auto
  then have "append_transaction io (map encode_reservation_erased_record (map fst ?es)) (st_journal st) =
      (Inl (make_error LimitExceeded ''transaction contains too many records''), st_journal st)"
    using assms by (simp add: append_transaction_def)
  then show ?thesis using some by (simp add: expire_authority_def append_then_def expire_def Let_def)
qed

lemma tick_pass_inv:
  assumes "topo_wf (ct_topology c)" "fst (on_store (\<lambda>io. expire_authority io now) c) = length (expired_entries now (ct_ledger c))"
    and "unat (lg_next_id (ct_ledger c)) + kMaxJobsPerArbitration < 2 ^ 64"
    and "authority_inv (ct_topology c) (ct_policy c) (pass_view now c) now (ct_ledger c)"
  shows "authority_inv (ct_topology c) (ct_policy c) (pass_view now c) now (ct_ledger (snd (tick_pass now c)))"
proof -
  let ?io = "ct_io c (ct_io_calls c)"
  obtain n st where sweep: "expire_authority ?io now (ct_store c) = (n, st)" by force
  define c1 where "c1 = (snd (on_store (\<lambda>io. expire_authority io now) (counted cs_ticks_update c)))\<lparr>ct_deferred_releases := []\<rparr>"
  have pass: "tick_pass now c = drain_all_locked now (ct_deferred_releases c) c1"
    by (simp add: tick_pass_def c1_def Let_def on_store_def counted_def sweep)
  have same: "ct_topology c1 = ct_topology c" "ct_policy c1 = ct_policy c" "ct_incarnation c1 = ct_incarnation c" "ct_store c1 = st"
    by (simp_all add: c1_def on_store_def counted_def sweep)
  have n: "n = length (expired_entries now (ct_ledger c))" using assms(2) by (simp add: on_store_def sweep)
  have l1: "ct_ledger c1 = sweep_result now (ct_ledger c) n" "ps_evidence (ct_state c1) = ps_evidence (ct_state c)"
    using sweep_exact [OF sweep] same(4) by (simp_all add: ct_state_def)
  have wf: "ledger_wf (ct_ledger c)" using assms(4) by (simp add: authority_inv_def)
  note takes = sweep_takes [OF n wf]
  have view: "pass_view now c1 = pass_view now c" by (simp add: pass_view_def same l1(2))
  have inv: "authority_inv (ct_topology c1) (ct_policy c1) (pass_view now c1) now (ct_ledger c1)"
    unfolding view same(1,2) l1(1)
    by (rule authority_inv_narrow [OF assms(4) takes(2)]) (use takes(4) in \<open>simp add: narrows_def\<close>)
  have "authority_inv (ct_topology c1) (ct_policy c1) (pass_view now c1) now
      (ct_ledger (snd (drain_all_locked now (ct_deferred_releases c) c1)))"
    by (rule drain_all_inv [OF _ _ _ inv prod.collapse [symmetric]]) (use assms(1,3) takes(1,3) in \<open>simp_all add: same l1(1)\<close>)
  then show ?thesis by (simp add: pass view same)
qed

end
