(* ===== verification/Controller_Graph.thy ===== *)
theory Controller_Graph
  imports Controller_Requests
begin

text \<open>
  The dependency check of a proposal: the bounded walk over the graph of jobs decides whether the
  dependency lies on a cycle, whenever the jobs it can reach are no more than the budget.
\<close>

definition depends :: "job_table \<Rightarrow> (job_id \<times> job_id) set" where
  "depends jobs = {(a, b). \<exists>n. find_job jobs a = Some n \<and> b \<in> set (j_depends_on n)}"

lemma depends_finite: "finite (depends jobs)"
proof -
  have "depends jobs \<subseteq> (\<Union>e \<in> set (jt_jobs jobs). {fst e} \<times> set (j_depends_on (snd e)))"
    by (auto simp: depends_def find_job_def om_find_def dest!: map_of_SomeD)
  then show ?thesis by (rule finite_subset) auto
qed

lemma visit_found: "visit_dependencies d ns seen frontier = None \<longleftrightarrow> d \<in> set ns"
  by (induction ns arbitrary: seen frontier) auto

lemma visit_effect:
  assumes "visit_dependencies d ns seen frontier = Some (seen', frontier')" "distinct seen" "distinct frontier"
    "set frontier \<subseteq> set seen"
  shows "set seen' = set seen \<union> set ns" "distinct seen'" "distinct frontier'" "set frontier' \<subseteq> set seen'"
    "set seen' - set frontier' = set seen - set frontier"
  using assms
proof (induction ns arbitrary: seen frontier)
  case (Cons n ns)
  {
    case 1
    then show ?case using Cons.IH(1) [of seen frontier] Cons.IH(1) [of "seen @ [n]" "frontier @ [n]"]
      by (auto split: if_splits)
  next
    case 2
    then show ?case using Cons.IH(2) [of seen frontier] Cons.IH(2) [of "seen @ [n]" "frontier @ [n]"]
      by (auto split: if_splits)
  next
    case 3
    then show ?case using Cons.IH(3) [of seen frontier] Cons.IH(3) [of "seen @ [n]" "frontier @ [n]"]
      by (auto split: if_splits)
  next
    case 4
    then show ?case using Cons.IH(4) [of seen frontier] Cons.IH(4) [of "seen @ [n]" "frontier @ [n]"]
      by (auto split: if_splits)
  next
    case 5
    then show ?case using Cons.IH(5) [of seen frontier] Cons.IH(5) [of "seen @ [n]" "frontier @ [n]"]
      by (auto split: if_splits)
  }
qed simp_all

text \<open>
  The invariant of the walk: what has been seen is reachable, and the jobs that are done have all
  their dependencies among the seen ones and none of them is where the walk began.
\<close>

definition walk_inv :: "job_table \<Rightarrow> job_id \<Rightarrow> job_id list \<Rightarrow> job_id list \<Rightarrow> bool" where
  "walk_inv jobs d frontier seen \<longleftrightarrow> distinct seen \<and> distinct frontier \<and> set frontier \<subseteq> set seen \<and> d \<in> set seen \<and>
     set seen \<subseteq> (depends jobs)\<^sup>* `` {d} \<and>
     (\<forall>n \<in> set seen - set frontier. depends jobs `` {n} \<subseteq> set seen \<and> (n, d) \<notin> depends jobs)"

lemma walk_done:
  assumes "walk_inv jobs d [] seen"
  shows "(d, d) \<notin> (depends jobs)\<^sup>+"
proof
  assume "(d, d) \<in> (depends jobs)\<^sup>+"
  then obtain n where n: "(d, n) \<in> (depends jobs)\<^sup>*" "(n, d) \<in> depends jobs" by (meson tranclD2)
  have "n \<in> set seen" using n(1)
  proof (induction rule: rtrancl_induct)
    case base
    then show ?case using assms by (simp add: walk_inv_def)
  next
    case (step y z)
    then show ?case using assms by (auto simp: walk_inv_def)
  qed
  then show False using assms n(2) by (simp add: walk_inv_def)
qed

lemma walk_step:
  assumes "walk_inv jobs d frontier seen" "frontier \<noteq> []" "find_job jobs (last frontier) = Some n"
    and "visit_dependencies d (j_depends_on n) seen (butlast frontier) = Some (seen', frontier')"
  shows "walk_inv jobs d frontier' seen'"
    and "set seen' - set frontier' = insert (last frontier) (set seen - set frontier)"
proof -
  obtain xs x where fr: "frontier = xs @ [x]" using assms(2) by (cases frontier rule: rev_cases) auto
  have dist: "distinct xs" "set xs \<subseteq> set seen" "distinct seen" "x \<in> set seen" "x \<notin> set xs"
    using assms(1) by (simp_all add: walk_inv_def fr)
  note v = visit_effect [OF assms(4) [unfolded fr butlast_snoc] dist(3,1,2)]
  have succ: "depends jobs `` {x} = set (j_depends_on n)" using assms(3) by (auto simp: depends_def fr)
  have "(x, d) \<notin> depends jobs" using visit_found [of d "j_depends_on n" seen xs] assms(4) succ by (auto simp: fr)
  moreover have "set seen' - set frontier' = insert x (set seen - set frontier)" using v(5) dist by (auto simp: fr)
  moreover have "x \<in> (depends jobs)\<^sup>* `` {d}" using assms(1) dist(4) by (auto simp: walk_inv_def)
  then have "set (j_depends_on n) \<subseteq> (depends jobs)\<^sup>* `` {d}" using succ by (auto intro: rtrancl_into_rtrancl)
  ultimately show "walk_inv jobs d frontier' seen'"
    and "set seen' - set frontier' = insert (last frontier) (set seen - set frontier)"
    using assms(1) v succ by (auto simp: walk_inv_def fr)
qed

lemma walk_skip:
  assumes "walk_inv jobs d frontier seen" "frontier \<noteq> []" "find_job jobs (last frontier) = None"
  shows "walk_inv jobs d (butlast frontier) seen"
    and "set seen - set (butlast frontier) = insert (last frontier) (set seen - set frontier)"
proof -
  obtain xs x where fr: "frontier = xs @ [x]" using assms(2) by (cases frontier rule: rev_cases) auto
  have "depends jobs `` {x} = {}" using assms(3) by (auto simp: depends_def fr)
  then show "walk_inv jobs d (butlast frontier) seen"
    and "set seen - set (butlast frontier) = insert (last frontier) (set seen - set frontier)"
    using assms(1) by (auto simp: walk_inv_def fr)
qed

lemma walk_sound:
  "walk_inv jobs d frontier seen \<Longrightarrow> walk_dependencies budget jobs d frontier seen = ok_status \<Longrightarrow> (d, d) \<notin> (depends jobs)\<^sup>+"
proof (induction budget arbitrary: frontier seen)
  case 0
  then show ?case using walk_done by (cases "frontier = []") (simp_all add: walk_dependencies.simps)
next
  case (Suc budget)
  show ?case
  proof (cases "frontier = []")
    case True
    then show ?thesis using Suc.prems(1) walk_done by simp
  next
    case False
    show ?thesis
    proof (cases "find_job jobs (last frontier)")
      case None
      then show ?thesis
        using Suc.IH [OF walk_skip(1) [OF Suc.prems(1) False None]] Suc.prems(2) False
        by (simp add: walk_dependencies.simps [of "Suc budget"])
    next
      case (Some n)
      then obtain seen' frontier' where v: "visit_dependencies d (j_depends_on n) seen (butlast frontier) = Some (seen', frontier')"
        using Suc.prems(2) False
        by (cases "visit_dependencies d (j_depends_on n) seen (butlast frontier)")
          (auto simp: walk_dependencies.simps [of "Suc budget"])
      then show ?thesis
        using Suc.IH [OF walk_step(1) [OF Suc.prems(1) False Some v]] Suc.prems(2) False Some
        by (simp add: walk_dependencies.simps [of "Suc budget"])
    qed
  qed
qed

text \<open>Every round finishes one more job, so a budget as large as the reachable part is enough.\<close>

lemma walk_complete:
  assumes "walk_inv jobs d frontier seen" "(d, d) \<notin> (depends jobs)\<^sup>+"
    and "card ((depends jobs)\<^sup>* `` {d}) \<le> budget + card (set seen - set frontier)"
  shows "walk_dependencies budget jobs d frontier seen = ok_status"
  using assms(1,3)
proof (induction budget arbitrary: frontier seen)
  case 0
  let ?reach = "(depends jobs)\<^sup>* `` {d}"
  have fin: "finite ?reach" using depends_finite by (simp add: finite_rtrancl_Image)
  have sub: "set seen \<subseteq> ?reach" "set frontier \<subseteq> set seen" using 0 by (simp_all add: walk_inv_def)
  have all: "set seen - set frontier = ?reach" using 0(2) fin sub(1) by (intro card_seteq) auto
  have "x \<notin> set frontier" for x
  proof
    assume x: "x \<in> set frontier"
    then have "x \<in> ?reach" using sub by (meson subsetD)
    then show False using x unfolding all [symmetric] by simp
  qed
  then have "frontier = []" by (cases frontier) auto
  then show ?case by (simp add: walk_dependencies.simps)
next
  case (Suc budget)
  show ?case
  proof (cases "frontier = []")
    case True
    then show ?thesis by (simp add: walk_dependencies.simps)
  next
    case False
    have grow: "card (insert (last frontier) (set seen - set frontier)) = Suc (card (set seen - set frontier))"
      using False by simp
    show ?thesis
    proof (cases "find_job jobs (last frontier)")
      case None
      note skip = walk_skip [OF Suc.prems(1) False None]
      show ?thesis
        using Suc.IH [OF skip(1)] Suc.prems(2) None False unfolding skip(2) grow
        by (simp add: walk_dependencies.simps [of "Suc budget"])
    next
      case (Some n)
      have "last frontier \<in> (depends jobs)\<^sup>* `` {d}" 
        using Suc.prems(1) last_in_set [OF False] unfolding walk_inv_def by (meson subsetD)
      then have "(last frontier, d) \<notin> depends jobs" using assms(2) by (meson Image_singleton_iff rtrancl_into_trancl1)
      then have "d \<notin> set (j_depends_on n)" using Some by (auto simp: depends_def)
      then obtain seen' frontier' where v: "visit_dependencies d (j_depends_on n) seen (butlast frontier) = Some (seen', frontier')"
        using visit_found [of d "j_depends_on n" seen "butlast frontier"] by fastforce
      note step = walk_step [OF Suc.prems(1) False Some v]
      show ?thesis
        using Suc.IH [OF step(1)] Suc.prems(2) Some v False unfolding step(2) grow
        by (simp add: walk_dependencies.simps [of "Suc budget"])
    qed
  qed
qed

lemma walk_start: "walk_inv jobs d [d] [d]"
  by (simp add: walk_inv_def)

lemma check_dependency_sound:
  "check_dependency jobs d = ok_status \<Longrightarrow> find_job jobs d \<noteq> None \<and> (d, d) \<notin> (depends jobs)\<^sup>+"
  using walk_sound [OF walk_start] by (auto simp: check_dependency_def split: option.splits)

lemma check_dependency_complete:
  assumes "find_job jobs d \<noteq> None" "(d, d) \<notin> (depends jobs)\<^sup>+"
    and "card ((depends jobs)\<^sup>* `` {d}) \<le> kMaxDependenciesPerJob * kMaxDependenciesPerJob"
  shows "check_dependency jobs d = ok_status"
  using assms walk_complete [OF walk_start assms(2)] by (auto simp: check_dependency_def)

end
