(* ===== verification/Controller_Fencing.thy ===== *)
theory Controller_Fencing
  imports Controller_Safety
begin

text \<open>
  How the controller keeps out actors that no longer speak for a job: reports and drain answers of
  an earlier attempt, requests that would abandon a scope, and the attempts of an earlier process.
\<close>

section \<open>Reports and answers\<close>

lemma report_checked:
  assumes "check_report what i attempt c = (r, c')"
  shows "ct_store c' = ct_store c"
    and "r = Inr j \<Longrightarrow> c' = c \<and> find_job (ct_jobs c) i = Some j \<and> attempt = j_active_attempt j \<and> attempt_valid attempt \<and>
      at_generation attempt = j_generation j"
    and "find_job (ct_jobs c) i = Some j \<Longrightarrow>
      attempt \<noteq> j_active_attempt j \<or> at_generation attempt \<noteq> j_generation j \<or> \<not> attempt_valid attempt \<Longrightarrow>
      \<exists>e. r = Inl e \<and> err_code e \<in> {StaleGeneration, StaleAttempt}"
  using assms by (auto simp: check_report_def make_error_def split: option.splits if_splits)

lemma stale_report_refused:
  assumes "find_job (ct_jobs c) i = Some j"
    and "attempt \<noteq> j_active_attempt j \<or> at_generation attempt \<noteq> j_generation j \<or> \<not> attempt_valid attempt"
  shows "\<exists>e c'. report_completion i attempt succeeded detail now c = (Inl e, c') \<and>
      err_code e \<in> {StaleGeneration, StaleAttempt} \<and> ct_store c' = ct_store c"
    and "\<exists>e c'. report_restoration i attempt t good detail now c = (Inl e, c') \<and>
      err_code e \<in> {StaleGeneration, StaleAttempt} \<and> ct_store c' = ct_store c"
proof -
  have refused: "\<exists>e c'. check_report what i attempt c = (Inl e, c') \<and> err_code e \<in> {StaleGeneration, StaleAttempt} \<and>
      ct_store c' = ct_store c" for what
    using report_checked(1,3) [OF _ ] assms by (cases "check_report what i attempt c") metis
  show "\<exists>e c'. report_completion i attempt succeeded detail now c = (Inl e, c') \<and>
      err_code e \<in> {StaleGeneration, StaleAttempt} \<and> ct_store c' = ct_store c"
    using refused [of "''completion''"] by (auto simp: report_completion_def)
  show "\<exists>e c'. report_restoration i attempt t good detail now c = (Inl e, c') \<and>
      err_code e \<in> {StaleGeneration, StaleAttempt} \<and> ct_store c' = ct_store c"
    using refused [of "''restoration''"] by (auto simp: report_restoration_def)
qed

lemma stale_answer_fenced:
  assumes "da_kind (oc_action out) = DrainRequest"
    and "\<And>j. find_job (ct_jobs c) (da_job (oc_action out)) = Some j \<Longrightarrow>
      j_generation j \<noteq> da_generation (oc_action out) \<or> j_active_attempt j \<noteq> da_attempt (oc_action out)"
  shows "ct_store (apply_outcome now out c) = ct_store c"
    and "is_ok (dr_status (oc_response out)) \<Longrightarrow> id_valid (answered_lease out) \<Longrightarrow>
      answered_lease out \<in> ct_queued_releases (apply_outcome now out c) \<and>
      answered_lease out \<in> da_lease ` set (ct_deferred_releases (apply_outcome now out c))"
  using assms
  by (auto simp: apply_outcome_def apply_request_def release_fenced_def ct_jobs_def ct_state_def Let_def counted_def
    split: option.splits)

section \<open>A scope that is out of service\<close>

lemma removed_request_refused:
  assumes "find_job (ct_jobs c) i = Some j" "j_service_removed j"
  shows "\<exists>e. cancel i actor reason now c = (Inl e, c) \<and> err_code e = StateConflict"
    and "\<exists>e. rearm i actor now c = (Inl e, c) \<and> err_code e = StateConflict"
  using assms by (simp_all add: cancel_def rearm_def make_error_def)

definition acting :: "job_state set" where
  "acting = {Blocked, InMaintenance, Verifying, Restoring}"

lemma removed_move:
  assumes "stage_move j j'" "j_service_removed j" "j_state j \<in> acting"
  shows "j_service_removed j'" "j_state j' \<in> acting \<union> {Complete, Failed}"
  using assms by (auto simp: stage_move_def acting_def check_transition_def is_terminal_def split: if_splits option.splits)
    (cases "j_state j'"; simp)+

section \<open>After a restart\<close>

text \<open>
  What reconciliation makes of a job: it is blocked and owned by the new process, no attempt of the
  old one is still running, and what it holds is given up unless its scope is out of service.
\<close>

definition reconciled :: "controller \<Rightarrow> job \<Rightarrow> job \<Rightarrow> bool" where
  "reconciled c j u \<longleftrightarrow> same_order j u \<and> j_removal_set u = j_removal_set j \<and> j_state u = Blocked \<and>
     j_block u = ReconciledAfterRestart \<and> j_owner u = ct_incarnation c \<and> j_service_removed u = j_service_removed j \<and>
     (\<forall>a \<in> set (j_attempts u). ar_outcome a = Running \<longrightarrow> j_service_removed j \<and> ar_id a = j_active_attempt u) \<and>
     (if j_service_removed j
      then j_active_attempt u = \<lparr>at_job = j_id j, at_generation = j_generation j, at_ordinal = j_next_attempt j\<rparr>
      else j_active_attempt u = no_attempt \<and> j_authority u = 0 \<and> j_lease u = 0)"

lemma disowned_job [simp]:
  "same_order j0 (disowned c now j) = same_order j0 j" "j_removal_set (disowned c now j) = j_removal_set j"
  "j_state (disowned c now j) = j_state j" "j_service_removed (disowned c now j) = j_service_removed j"
  "j_owner (disowned c now j) = ct_incarnation c" "j_active_attempt (disowned c now j) = no_attempt"
  "j_authority (disowned c now j) = 0" "j_lease (disowned c now j) = j_lease j" "j_id (disowned c now j) = j_id j"
  "j_generation (disowned c now j) = j_generation j" "j_next_attempt (disowned c now j) = j_next_attempt j"
  by (auto simp: disowned_def fence_attempts_def same_order_def)

lemma disowned_attempts: "a \<in> set (j_attempts (disowned c now j)) \<Longrightarrow> ar_outcome a \<noteq> Running"
  by (auto simp: disowned_def fence_attempts_def)

lemma new_attempt_active:
  "j_active_attempt (new_attempt_locked c now j) =
     \<lparr>at_job = j_id j, at_generation = j_generation j, at_ordinal = j_next_attempt j\<rparr>"
  "a \<in> set (j_attempts (new_attempt_locked c now j)) \<Longrightarrow>
     a \<in> set (j_attempts j) \<or> ar_id a = j_active_attempt (new_attempt_locked c now j)"
  by (auto simp: new_attempt_locked_def Let_def dest!: in_set_dropD)

lemma reclaim_shape:
  assumes "reclaim now d c = (u, rel, c')"
  shows "same_setup c c'"
    and "j_service_removed d \<Longrightarrow> \<exists>i. u = (new_attempt_locked c now d)\<lparr>j_authority := i\<rparr>"
    and "\<not> j_service_removed d \<Longrightarrow> u = d\<lparr>j_lease := 0\<rparr>"
proof -
  show "same_setup c c'"
    using assms by (auto simp: reclaim_def Let_def dest: on_store_setup split: if_splits prod.splits sum.splits)
  show "\<exists>i. u = (new_attempt_locked c now d)\<lparr>j_authority := i\<rparr>" if "j_service_removed d"
  proof (cases "on_store (\<lambda>io. reserve_authority io (reissued_reservation c now (new_attempt_locked c now d))) c")
    case (Pair r c1)
    then have "u = (case r of Inr i \<Rightarrow> (new_attempt_locked c now d)\<lparr>j_authority := i\<rparr> | Inl _ \<Rightarrow> new_attempt_locked c now d)"
      using assms that by (auto simp: reclaim_def Let_def split: sum.splits)
    then show ?thesis by (cases r) (auto intro: exI [of _ "j_authority (new_attempt_locked c now d)"])
  qed
  show "\<not> j_service_removed d \<Longrightarrow> u = d\<lparr>j_lease := 0\<rparr>"
    using assms by (auto simp: reclaim_def id_valid_def split: if_splits)
qed

text \<open>What is true of the job before it is blocked.\<close>

definition handed_over :: "controller \<Rightarrow> job \<Rightarrow> job \<Rightarrow> bool" where
  "handed_over c j u \<longleftrightarrow> same_order j u \<and> j_removal_set u = j_removal_set j \<and> j_state u = j_state j \<and>
     j_owner u = ct_incarnation c \<and> j_service_removed u = j_service_removed j \<and>
     (\<forall>a \<in> set (j_attempts u). ar_outcome a = Running \<longrightarrow> j_service_removed j \<and> ar_id a = j_active_attempt u) \<and>
     (if j_service_removed j
      then j_active_attempt u = \<lparr>at_job = j_id j, at_generation = j_generation j, at_ordinal = j_next_attempt j\<rparr>
      else j_active_attempt u = no_attempt \<and> j_authority u = 0 \<and> j_lease u = 0)"

lemma reclaim_hands_over:
  assumes "reclaim now (disowned c0 now j) c = (u, rel, c')" "ct_incarnation c = ct_incarnation c0"
  shows "handed_over c0 j u"
proof -
  let ?d = "disowned c0 now j"
  have order: "same_order j (new_attempt_locked c now ?d)" "same_order j ?d"
    by (simp_all add: same_order_def disowned_def fence_attempts_def)
  have attempts: "\<forall>a \<in> set (j_attempts (new_attempt_locked c now ?d)). ar_outcome a = Running \<longrightarrow>
      ar_id a = j_active_attempt (new_attempt_locked c now ?d)"
    using new_attempt_active(2) disowned_attempts by blast
  show ?thesis
  proof (cases "j_service_removed j")
    case True
    then obtain i where u: "u = (new_attempt_locked c now ?d)\<lparr>j_authority := i\<rparr>"
      using reclaim_shape(2) [OF assms(1)] by auto
    have "same_order j u" using order(1) by (simp add: u same_order_def)
    then show ?thesis
      using True attempts assms(2) by (simp add: handed_over_def u new_attempt_active(1))
  next
    case False
    then have u: "u = ?d\<lparr>j_lease := 0\<rparr>" using reclaim_shape(3) [OF assms(1)] by simp
    have "same_order j u" using order(2) by (simp add: u same_order_def)
    then show ?thesis using False disowned_attempts by (simp add: handed_over_def u)
  qed
qed

lemma blocked_keeps:
  assumes "transition_locked Blocked reason detail now j pc c = (True, j', pc', c')"
  shows "j_attempts j' = j_attempts j" "j_active_attempt j' = j_active_attempt j" "j_authority j = 0 \<Longrightarrow> j_authority j' = 0"
    "\<not> j_service_removed j \<Longrightarrow> j_lease j' = 0"
proof -
  obtain j1 c1 where e: "enter_state Blocked now (note_transition c Blocked reason detail now j) c = (j1, c1)" by force
  obtain j2 pc2 c2 where r: "release_resources_locked j1 pc c1 = (j2, pc2, c2)" by (metis prod_cases3)
  note en = enter_state_job [OF e] and rl = release_resources_job [OF r]
  have n: "j_attempts (note_transition c Blocked reason detail now j) = j_attempts j"
      "j_authority (note_transition c Blocked reason detail now j) = j_authority j"
    by (simp_all add: note_transition_def)
  have shape: "j' = (if j_service_removed j1 then j1 else j2)"
    using assms by (auto simp: transition_locked_def e r is_terminal_def split: if_splits)
  show "j_attempts j' = j_attempts j" "j_active_attempt j' = j_active_attempt j" "\<not> j_service_removed j \<Longrightarrow> j_lease j' = 0"
    using shape en rl n by simp_all
  show "j_authority j' = 0" if "j_authority j = 0"
    using shape en(5) n(2) that r by (auto simp: release_resources_locked_def id_valid_def Let_def split: if_splits)
qed

lemma reconcile_one_effect:
  assumes "reconcile_one now j (updates, releases, c) = (updates', releases', c')"
  shows "same_setup c c' \<and> (if needs_reconciling c j then \<exists>u. updates' = updates @ [u] \<and> reconciled c j u else updates' = updates)"
proof (cases "needs_reconciling c j")
  case True
  obtain u0 rel c1 where r: "reclaim now (disowned c now j) c = (u0, rel, c1)" by (metis prod_cases3)
  note over = reclaim_hands_over [OF r refl] and kept = reclaim_shape(1) [OF r]
  show ?thesis
  proof (cases "j_state u0 = Blocked")
    case blocked: True
    let ?d = "''controller restarted; the previous block state was re-established conservatively''"
    let ?u = "u0\<lparr>j_block := ReconciledAfterRestart, j_block_detail := ?d, j_last_detail := ?d\<rparr>"
    have "reconciled c j ?u"
      using over blocked unfolding handed_over_def reconciled_def same_order_def by simp
    moreover have "updates' = updates @ [?u]" "c' = counted cs_reconciliations_update c1"
      using assms True blocked by (simp_all add: reconcile_one_def r Let_def)
    ultimately show ?thesis using True kept by auto
  next
    case False
    let ?t = "transition_locked Blocked ReconciledAfterRestart
        (if j_service_removed j then ''controller restarted while the scope was out of service; '' @
           ''verification and restoration are mandatory''
         else ''controller restarted; prerequisites must be re-established'') now u0
        \<lparr>pc_now = now, pc_view = no_view, pc_actions = None\<rparr> c1"
    have "tc_allowed (check_transition (j_state u0) Blocked (j_service_removed u0))"
      using True False over by (simp add: handed_over_def needs_reconciling_def check_transition_def)
    then obtain u pc2 c2 where t: "?t = (True, u, pc2, c2)" using transition_done by blast
    note tj = transition_job [OF t] and bk = blocked_keeps [OF t]
    have "reconciled c j u"
      using over tj(2-5) bk unfolding handed_over_def reconciled_def same_claim_def same_order_def by simp
    moreover have "updates' = updates @ [u]" "c' = counted cs_reconciliations_update c2"
      using assms True False t by (simp_all add: reconcile_one_def r)
    ultimately show ?thesis using True same_setup_trans [OF kept tj(6)] by auto
  qed
qed (use assms in \<open>simp add: reconcile_one_def\<close>)

lemma reconcile_all:
  assumes "fold (reconcile_one now) js (updates, releases, c) = (updates', releases', c')"
  shows "same_setup c c' \<and> (\<exists>us. updates' = updates @ us \<and> list_all2 (reconciled c) (filter (needs_reconciling c) js) us)"
  using assms
proof (induction js arbitrary: updates releases c)
  case (Cons j js)
  obtain updates1 releases1 c1 where one: "reconcile_one now j (updates, releases, c) = (updates1, releases1, c1)"
    by (metis prod_cases3)
  note effect = reconcile_one_effect [OF one]
  have inc: "needs_reconciling c1 = needs_reconciling c" "reconciled c1 = reconciled c"
    using effect by (auto simp: same_setup_def needs_reconciling_def reconciled_def fun_eq_iff)
  obtain us where us: "same_setup c1 c'" "updates' = updates1 @ us"
      "list_all2 (reconciled c) (filter (needs_reconciling c) js) us"
    using Cons.IH [of updates1 releases1 c1] Cons.prems one inc by auto
  then show ?case
    using effect same_setup_trans by (cases "needs_reconciling c j") auto
qed simp

section \<open>Evidence the controller writes itself\<close>

lemma behind_refused:
  assumes "find_job (ct_jobs c) i = Some j" "attempt_valid attempt" "attempt = j_active_attempt j"
    and "at_generation attempt = j_generation j" "t \<in> set (j_removal_set j)"
    and "find_evidence (ps_evidence (ct_state c)) (EvidenceKey RestorationCheck (subject_of t) 2) = Some old"
    and "ct_evidence_revision c + 1 \<le> er_revision old"
  shows "\<not> is_ok (fst (report_restoration i attempt t good detail now c))"
    and "ct_state (snd (report_restoration i attempt t good detail now c)) = ct_state c"
proof -
  obtain e c1 where e: "make_evidence_locked RestorationCheck (subject_of t) 2 now (ttl_for (ct_policy c) RestorationCheck)
      (no_payload\<lparr>ep_result := good, ep_health := (if good then Healthy else Down)\<rparr>) i attempt c = (e, c1)" by force
  have key: "er_key e = EvidenceKey RestorationCheck (subject_of t) 2" "er_revision e = ct_evidence_revision c + 1"
      "st_state (ct_store c1) = ct_state c"
    using e by (auto simp: make_evidence_locked_def allocate_evidence_id_def Let_def ct_state_def)
  have seal: "er_key (seal_digest e) = er_key e" "er_revision (seal_digest e) = er_revision e"
    by (simp_all add: seal_digest_def)
  have "\<exists>err s. observe e (ps_evidence (ct_state c)) = (Inl err, s)"
    using assms(6,7) key seal by (auto simp: observe_def rejected_def find_evidence_def Let_def)
  then obtain err s where "observe e (ps_evidence (st_state (ct_store c1))) = (Inl err, s)" using key by auto
  then have w: "write_evidence_locked e c1 = (Inl err, c1\<lparr>ct_io_calls := Suc (ct_io_calls c1)\<rparr>)"
    by (simp add: write_evidence_locked_def on_store_def observe_evidence_def)
  have "report_restoration i attempt t good detail now c = (Inl err, c1\<lparr>ct_io_calls := Suc (ct_io_calls c1)\<rparr>)"
    using assms(1-5) e w by (simp add: report_restoration_def check_report_def)
  then show "\<not> is_ok (fst (report_restoration i attempt t good detail now c))"
    and "ct_state (snd (report_restoration i attempt t good detail now c)) = ct_state c"
    using key(3) by (simp_all add: ct_state_def)
qed

section \<open>Re-arming a job that waits\<close>

lemma rearm_waiting:
  assumes "find_job (ct_jobs c) i = Some j" "j_state j = Prerequisites" "\<not> j_service_removed j"
  shows "\<not> is_ok (fst (rearm i actor now c))"
    and "snd (rearm i actor now c) =
      snd (snd (release_resources_locked j \<lparr>pc_now = now, pc_view = no_view, pc_actions = Some []\<rparr> c))"
proof -
  let ?pc = "\<lparr>pc_now = now, pc_view = no_view, pc_actions = Some []\<rparr>"
  obtain u pc' c' where r: "release_resources_locked j ?pc c = (u, pc', c')" by (metis prod_cases3)
  have "j_state u = Prerequisites" using release_resources_job(2) [OF r] assms(2) by simp
  then have "rearm i actor now c = (Inl (make_error StateConflict ''no-op transition''), c')"
    using assms by (simp add: rearm_def r rearmed_def fence_attempts_def is_terminal_def check_transition_def Let_def)
  then show "\<not> is_ok (fst (rearm i actor now c))" "snd (rearm i actor now c) = snd (snd (release_resources_locked j ?pc c))"
    using r by simp_all
qed

end
