(* ===== verification/Controller_Drains.thy ===== *)
theory Controller_Drains
  imports Controller_Safety
begin

text \<open>
  The requests a pass sends to the drain service: at most one for a job, and none for a job whose
  earlier request has not been answered.
\<close>

definition requests :: "drain_action list \<Rightarrow> job_id list" where
  "requests as = map da_job (filter (\<lambda>a. da_kind a = DrainRequest) as)"

definition asked :: "pass_context \<Rightarrow> job_id list" where
  "asked pc = requests (case pc_actions pc of Some as \<Rightarrow> as | None \<Rightarrow> [])"

lemma asked_push [simp]:
  "da_kind a \<noteq> DrainRequest \<Longrightarrow> asked (push_action a pc) = asked pc"
  "pc_actions pc \<noteq> None \<Longrightarrow> da_kind a = DrainRequest \<Longrightarrow> asked (push_action a pc) = asked pc @ [da_job a]"
  "pc_actions (push_action a pc) = None \<longleftrightarrow> pc_actions pc = None"
  by (auto simp: asked_def push_action_def requests_def split: option.splits)

definition stage_asks :: "pass_context \<Rightarrow> controller \<Rightarrow> driven \<Rightarrow> bool" where
  "stage_asks pc c r \<longleftrightarrow> (case r of (_, _, pc', c') \<Rightarrow> pc_actions pc \<noteq> None \<longrightarrow> pc_actions pc' \<noteq> None \<and>
     (asked pc' = asked pc \<and> ct_drain_inflight c' = ct_drain_inflight c \<or>
      (\<exists>i. i \<notin> ct_drain_inflight c \<and> asked pc' = asked pc @ [i] \<and> ct_drain_inflight c' = insert i (ct_drain_inflight c))))"

lemma on_store_inflight: "on_store f c = (r, c') \<Longrightarrow> ct_drain_inflight c' = ct_drain_inflight c"
  by (auto simp: on_store_def split: prod.splits)

lemma release_resources_asks:
  assumes "release_resources_locked j pc c = (j', pc', c')"
  shows "asked pc' = asked pc" "pc_actions pc' = None \<longleftrightarrow> pc_actions pc = None"
  using assms by (auto simp: release_resources_locked_def Let_def no_action_def split: if_splits prod.splits sum.splits)

lemma transition_asks:
  assumes "ct_drain_inflight c1 = ct_drain_inflight c"
  shows "stage_asks pc c (transition_locked to reason detail now j pc c1)"
proof -
  obtain j1 c2 where e: "enter_state to now (note_transition c1 to reason detail now j) c1 = (j1, c2)" by force
  obtain j2 pc2 c3 where r: "release_resources_locked j1 pc c2 = (j2, pc2, c3)" by (metis prod_cases3)
  have "ct_drain_inflight c2 = ct_drain_inflight c" "ct_drain_inflight c3 = ct_drain_inflight c"
    using enter_state_job(11) [OF e] release_resources_job(11) [OF r] assms by simp_all
  then show ?thesis
    using assms release_resources_asks [OF r] by (auto simp: stage_asks_def transition_locked_def e r)
qed

lemma settled_asks: "ct_drain_inflight c' = ct_drain_inflight c \<Longrightarrow> asked pc' = asked pc \<Longrightarrow>
    (pc_actions pc' = None \<longleftrightarrow> pc_actions pc = None) \<Longrightarrow> stage_asks pc c (changed, j', pc', c')"
  by (simp add: stage_asks_def del: not_None_eq)

lemma request_asks:
  "da_kind a = DrainRequest \<Longrightarrow> da_job a \<notin> ct_drain_inflight c \<Longrightarrow> ct_drain_inflight c' = insert (da_job a) (ct_drain_inflight c) \<Longrightarrow>
   stage_asks pc c (changed, j', push_action a pc, c')"
  by (auto simp: stage_asks_def simp del: not_None_eq)

lemma if_asks: "(b \<Longrightarrow> stage_asks pc c r) \<Longrightarrow> (\<not> b \<Longrightarrow> stage_asks pc c r') \<Longrightarrow> stage_asks pc c (if b then r else r')"
  by simp

lemma option_asks: "stage_asks pc c r \<Longrightarrow> (\<And>x. stage_asks pc c (f x)) \<Longrightarrow>
    stage_asks pc c (case v of None \<Rightarrow> r | Some x \<Rightarrow> f x)"
  by (cases v) simp_all

lemma list_asks: "stage_asks pc c r \<Longrightarrow> (\<And>x xs. stage_asks pc c (f x xs)) \<Longrightarrow>
    stage_asks pc c (case v of [] \<Rightarrow> r | x # xs \<Rightarrow> f x xs)"
  by (cases v) simp_all

lemma pair_asks: "(\<And>x y. stage_asks pc c (f x y)) \<Longrightarrow> stage_asks pc c (case v of (x, y) \<Rightarrow> f x y)"
  by (cases v) simp_all

lemmas asks_rules = if_asks option_asks list_asks pair_asks transition_asks settled_asks

lemma quarantine_inflight [simp]: "ct_drain_inflight (quarantine_targets_locked j reason detail now c) = ct_drain_inflight c"
proof -
  have "ct_drain_inflight (fold (quarantine_one j reason detail now) ts c) = ct_drain_inflight c" for ts
    by (induction ts arbitrary: c) (auto simp: quarantine_one_def dest: on_store_inflight split: prod.splits sum.splits)
  then show ?thesis by (simp add: quarantine_targets_locked_def)
qed

lemma verdicts_inflight [simp]: "ct_drain_inflight (fold (record_verdict j view now) ts c) = ct_drain_inflight c"
proof (induction ts arbitrary: c)
  case (Cons t ts)
  have "ct_drain_inflight (record_verdict j view now t c) = ct_drain_inflight c"
    by (auto simp: record_verdict_def write_evidence_locked_def make_evidence_locked_def on_store_def Let_def split: prod.splits)
  with Cons show ?case by simp
qed simp

lemma plain_stages_ask:
  "stage_asks pc c (drive_validated_locked j pc c)" "stage_asks pc c (drive_ready_locked j pc c)"
  "stage_asks pc c (drive_blocked_locked j pc c)" "stage_asks pc c (drive_in_maintenance_locked j pc c)"
  "stage_asks pc c (drive_verifying_locked j pc c)" "stage_asks pc c (drive_restoring_locked j pc c)"
  unfolding drive_validated_locked_def drive_ready_locked_def block_violated_def drive_blocked_locked_def
    drive_in_maintenance_locked_def drive_verifying_locked_def drive_restoring_locked_def Let_def
  by (intro asks_rules; simp)+

lemma prerequisites_held_asks:
  "ct_drain_inflight c1 = ct_drain_inflight c \<Longrightarrow> stage_asks pc c (prerequisites_held j pc c1)"
  unfolding prerequisites_held_def block_violated_def Let_def
  by (rule if_asks, rule if_asks, rule transition_asks, simp, rule if_asks, rule request_asks)
    (simp_all add: drain_request_for_def asks_rules)

lemma drive_prerequisites_asks: "stage_asks pc c (drive_prerequisites_locked j pc c)"
proof -
  let ?renew = "on_store (\<lambda>io. renew_authority io (j_authority j) (j_active_attempt j) (ct_incarnation c)
      (renewal_margin (ct_policy c)) (pc_now pc)) c"
  have renewed: "stage_asks pc c (case ?renew of (Inr _, c) \<Rightarrow> prerequisites_held j pc c
       | (Inl e, c) \<Rightarrow>
           if err_code e = NotFound \<or> err_code e = StaleIncarnation \<or> err_code e = StaleAttempt then
             (True, j\<lparr>j_authority := 0\<rparr>, pc, counted cs_authority_revocations_update c)
           else transition_locked Blocked AuthorityDenied (err_detail e) (pc_now pc) j pc c)"
  proof (cases ?renew)
    case r: (Pair res c1)
    note kept = on_store_inflight [OF r]
    show ?thesis
    proof (cases res)
      case (Inl e)
      show ?thesis unfolding r Inl prod.case sum.case by (intro asks_rules; simp add: kept)
    qed (simp add: r prerequisites_held_asks kept)
  qed
  show ?thesis
    unfolding drive_prerequisites_locked_def Let_def
    by (intro asks_rules renewed prerequisites_held_asks) simp_all
qed

lemma drive_stage_asks: "stage_asks pc c (drive_stage j pc c)"
  unfolding drive_stage_def
  by (cases "j_state j") (simp_all add: plain_stages_ask drive_prerequisites_asks settled_asks)

text \<open>The jobs asked for since a point of the pass.\<close>

definition asks_once :: "pass_context \<times> controller \<Rightarrow> pass_context \<times> controller \<Rightarrow> bool" where
  "asks_once p p' \<longleftrightarrow> (pc_actions (fst p) \<noteq> None \<longrightarrow> pc_actions (fst p') \<noteq> None \<and>
     (\<exists>is. asked (fst p') = asked (fst p) @ is \<and> distinct is \<and> set is \<inter> ct_drain_inflight (snd p) = {} \<and>
       ct_drain_inflight (snd p') = set is \<union> ct_drain_inflight (snd p)))"

lemma asks_once_trans:
  assumes "asks_once p p'" "asks_once p' p''"
  shows "asks_once p p''"
  unfolding asks_once_def
proof (intro impI)
  assume p: "pc_actions (fst p) \<noteq> None"
  then have p': "pc_actions (fst p') \<noteq> None" using assms(1) by (simp only: asks_once_def) blast
  obtain xs where xs: "asked (fst p') = asked (fst p) @ xs" "distinct xs" "set xs \<inter> ct_drain_inflight (snd p) = {}"
      "ct_drain_inflight (snd p') = set xs \<union> ct_drain_inflight (snd p)"
    using assms(1) p unfolding asks_once_def by blast
  obtain ys where ys: "pc_actions (fst p'') \<noteq> None" "asked (fst p'') = asked (fst p') @ ys" "distinct ys"
      "set ys \<inter> ct_drain_inflight (snd p') = {}" "ct_drain_inflight (snd p'') = set ys \<union> ct_drain_inflight (snd p')"
    using assms(2) p' unfolding asks_once_def by blast
  have "asked (fst p'') = asked (fst p) @ (xs @ ys)" "distinct (xs @ ys)"
      "set (xs @ ys) \<inter> ct_drain_inflight (snd p) = {}"
      "ct_drain_inflight (snd p'') = set (xs @ ys) \<union> ct_drain_inflight (snd p)"
    using xs ys(2-5) by auto
  with ys(1) show "pc_actions (fst p'') \<noteq> None \<and> (\<exists>is. asked (fst p'') = asked (fst p) @ is \<and> distinct is \<and>
      set is \<inter> ct_drain_inflight (snd p) = {} \<and> ct_drain_inflight (snd p'') = set is \<union> ct_drain_inflight (snd p))"
    by blast
qed

lemma drive_locked_asks: "asks_once p (drive_locked i p)"
proof (cases p)
  case (Pair pc c)
  show ?thesis
  proof (cases "find_job (ct_jobs c) i")
    case (Some j)
    obtain changed j' pc' c' where d: "drive_stage j pc c = (changed, j', pc', c')" by (metis prod_cases4)
    have commit: "ct_drain_inflight (snd (commit_job_locked j' now c')) = ct_drain_inflight c'" for now
      by (auto simp: commit_job_locked_def on_store_def split: option.splits prod.splits)
    have asks: "stage_asks pc c (changed, j', pc', c')" using drive_stage_asks [of pc c j] by (simp add: d)
    have "asks_once (pc, c) (pc', c'')" if "ct_drain_inflight c'' = ct_drain_inflight c'" for c''
    proof -
      have "distinct [i]" for i :: job_id by simp
      then show ?thesis
        using asks that unfolding stage_asks_def asks_once_def prod.case fst_conv snd_conv
        by (metis append_Nil2 distinct.simps(1) empty_set inf_bot_left insert_disjoint(1) insert_is_Un list.simps(15) sup_bot_left)
    qed
    moreover have "asks_once (pc, c) (pc, c)" by (auto simp: asks_once_def)
    ultimately show ?thesis
      using Some d commit by (simp add: Pair drive_locked_def)
  qed (auto simp: Pair drive_locked_def asks_once_def)
qed

lemma drives_ask: "asks_once p (fold drive_locked is p)"
proof (induction "is" arbitrary: p)
  case (Cons i "is")
  show ?case using asks_once_trans [OF drive_locked_asks Cons.IH] by simp
qed (auto simp: asks_once_def)

lemma orphans_ask: "requests (fst (fold release_orphan ls p)) = requests (fst p)"
  by (induction ls arbitrary: p) (auto simp: release_orphan_def requests_def no_action_def split: prod.splits)

lemma drain_all_asks:
  assumes "drain_all_locked now actions c = (actions', c')"
  shows "\<exists>is. requests actions' = requests actions @ is \<and> distinct is \<and> set is \<inter> ct_drain_inflight c = {}"
proof -
  let ?pc = "\<lparr>pc_now = now, pc_view = pass_view now c, pc_actions = Some actions\<rparr>"
  let ?order = "drive_order (plan_tick (ct_jobs c) (ct_policy c) now)"
  obtain pc1 c1 where d: "fold drive_locked ?order (?pc, c) = (pc1, c1)" by force
  obtain "is" where "asked pc1 = asked ?pc @ is" "distinct is" "set is \<inter> ct_drain_inflight c = {}"
    using drives_ask [of "(?pc, c)" ?order] unfolding d asks_once_def by auto
  moreover have "requests actions' = asked pc1"
    using assms orphans_ask by (simp add: drain_all_locked_def Let_def d asked_def split: option.splits) (metis fst_conv)+
  moreover have "asked ?pc = requests actions" by (simp add: asked_def)
  ultimately show ?thesis by auto
qed

end
