(* ===== verification/Controller_Examples.thy ===== *)
theory Controller_Examples
  imports Controller_Authority Controller_Graph Controller_Fencing Controller_Drains Store_Examples
begin

text \<open>
  A controller over the small fabric: its store has booted, the topology, the policy, the evidence
  and the two jobs are those of the examples, and the drain service refuses every request. The
  properties of the controller are exercised at these values.
\<close>

definition demo_state :: "ledger \<Rightarrow> persisted_state" where
  "demo_state l = (new_state demo_options)\<lparr>ps_topology := demo_topology, ps_policy := demo_policy, ps_jobs := demo_jobs,
     ps_evidence := demo_store, ps_ledger := l, ps_last_incarnation := demo_self, ps_boot_epoch := 2\<rparr>"

definition demo_port :: drain_port where
  "demo_port = \<lparr>dp_request = (\<lambda>n r. \<lparr>dr_status = Inl (make_error Busy ''no''), dr_lease = no_lease\<rparr>),
     dp_query = (\<lambda>n l i. \<lparr>dr_status = ok_status, dr_lease = no_lease\<rparr>), dp_release = (\<lambda>n l i. ok_status)\<rparr>"

definition demo_settings :: controller_options where
  "demo_settings = \<lparr>co_store = demo_options, co_controller_id = 1, co_nonce = 7, co_name = ''demo''\<rparr>"

definition demo_controller :: "ledger \<Rightarrow> controller" where
  "demo_controller l = (new_controller (demo_booted\<lparr>st_state := demo_state l\<rparr>) demo_port demo_settings (\<lambda>_. io_ok))
     \<lparr>ct_incarnation := demo_self, ct_policy := demo_policy, ct_topology := demo_topology\<rparr>"

definition demo_pass :: pass_context where
  "demo_pass = \<lparr>pc_now = 200, pc_view = demo_view, pc_actions = Some []\<rparr>"

lemma demo_pass_fields [simp]: "pc_now demo_pass = 200" "pc_view demo_pass = demo_view" "pc_actions demo_pass = Some []"
  by (simp_all add: demo_pass_def)

lemma demo_controller_fields [simp]:
  "ct_state (demo_controller l) = demo_state l" "ct_jobs (demo_controller l) = demo_jobs"
  "ct_policy (demo_controller l) = demo_policy" "ct_topology (demo_controller l) = demo_topology"
  "ct_incarnation (demo_controller l) = demo_self" "ct_drain_inflight (demo_controller l) = {}"
  "ct_evidence_revision (demo_controller l) = 0" "ct_stopping (demo_controller l) = False"
  by (simp_all add: demo_controller_def new_controller_def ct_state_def ct_jobs_def demo_state_def)

lemma demo_state_fields [simp]:
  "ps_ledger (demo_state l) = l" "ps_evidence (demo_state l) = demo_store" "ps_jobs (demo_state l) = demo_jobs"
  by (simp_all add: demo_state_def)

lemma demo_pass_view: "pass_view 200 (demo_controller l) = demo_view"
  by (simp add: pass_view_def demo_view_def)

lemma demo_may_start: "may_start demo_ready demo_pass (demo_controller demo_ledger)"
proof -
  have "precondition_input (demo_controller demo_ledger) demo_view True True 200 demo_ready = demo_preconditions"
    by (simp add: precondition_input_def demo_preconditions_def)
  then show ?thesis
    using demo_all_satisfied
    by (simp add: may_start_def demo_ready_fields) (simp add: demo_policy_def default_policy_def nanos_defs limits)
qed

lemma demo_starts:
  "\<exists>j' pc' c'. drive_stage demo_ready demo_pass (demo_controller demo_ledger) = (True, j', pc', c') \<and> j_state j' = InMaintenance"
  using stage_advances [of demo_ready demo_pass "demo_controller demo_ledger"] demo_may_start
  by (auto simp: may_advance_def reaches_def demo_ready_fields Let_def split: prod.splits)

text \<open>A job that has come as far as its restoration.\<close>

definition demo_restoring :: job where
  "demo_restoring = demo_ready\<lparr>j_state := Restoring, j_service_removed := True\<rparr>"

lemma demo_restoring_fields:
  "j_state demo_restoring = Restoring" "j_removal_set demo_restoring = [sw 1]" "j_lease demo_restoring = 0"
  "j_maintenance_failed demo_restoring = False" "j_service_removed demo_restoring" "j_id demo_restoring = 1"
  by (simp_all add: demo_restoring_def demo_ready_def demo_job_def new_job_def)

lemma demo_completes:
  "\<exists>j' pc' c'. drive_stage demo_restoring demo_pass (demo_controller demo_ledger) = (True, j', pc', c') \<and> j_state j' = Complete"
proof -
  have "is_fresh demo_view (sw 1) \<and> is_serving (health_of demo_view (sw 1))"
    using demo_healthy by (auto simp: view_is_serving_def is_fresh_def health_of_def split: option.splits if_splits)
  moreover have "find_open_for_target (ps_quarantines (demo_state demo_ledger)) t = None" for t
    by (simp add: demo_state_def new_state_def empty_quarantine_def find_open_for_target_def)
  ultimately have "may_advance demo_restoring demo_pass (demo_controller demo_ledger)"
    by (simp add: may_advance_def demo_restoring_fields id_valid_def)
  then show ?thesis
    using stage_advances [of demo_restoring demo_pass "demo_controller demo_ledger"]
    by (auto simp: reaches_def demo_restoring_fields split: prod.splits)
qed

end
