(* ===== verification/Authority_Examples.thy ===== *)
theory Authority_Examples
  imports Examples Controller_Authority
begin

text \<open>
  Arbitration passes with one candidate, and two histories built from them. In the first an expired
  reservation is renewed after its target was granted to another job. In the second a pass grants a
  job although the reservations of earlier passes already reach the policy's bound on concurrent jobs.
\<close>

section \<open>One candidate\<close>

lemma arbitrate_single:
  assumes "ax_candidates ax = [i]" "find_job (ax_jobs ax) i = Some j" "j_id j = i" "held_by ax j l = None"
    and "0 < unat (po_max_concurrent_jobs (ax_policy ax))" "grantable (acquire_for ax j) l"
  shows "as_ledger (arbitrate ax l) = snd (reserve (planned_reservation (acquire_for ax j)) l)"
proof -
  let ?st = "\<lparr>as_ledger = l, as_report = open_report ax, as_impact = None\<rparr>"
  have "order_candidates (selected_jobs ax) (ax_policy ax) = [candidate_of (ax_policy ax) j]"
    by (simp add: order_candidates_def selected_jobs_def List.map_filter_def assms(1,2))
  then have run: "as_ledger (arbitrate ax l) = as_ledger (arbitrate_step ax (0, candidate_of (ax_policy ax) j) ?st)"
    by (simp add: arbitrate_def arbitrate_loop_def Let_def)
  have "rp_granted (open_report ax) = 0" "ca_job (candidate_of (ax_policy ax) j) = i"
    by (simp_all add: open_report_def candidate_of_def Let_def assms(3))
  then have "as_ledger (arbitrate_step ax (0, candidate_of (ax_policy ax) j) ?st) =
      fst (snd (acquire_authority (acquire_for ax j) l))"
    using assms(2,4,5) by (simp add: arbitrate_step_def Let_def case_prod_unfold split: sum.split)
  then show ?thesis using run acquire_granted(2) [OF assms(6)] by simp
qed

lemma length_om_set: "om_ok m \<Longrightarrow> om_find m k = None \<Longrightarrow> length (filter P (map snd (om_set k v m))) =
    length (filter P (map snd m)) + (if P v then 1 else 0)"
  by (induction m) (auto simp: om_find_def om_ok_def)

lemma reserve_adds_live:
  assumes "ledger_wf l" "reserve_guard r l" "live_at now r"
  shows "length (live now (snd (reserve r l))) = Suc (length (live now l))"
proof -
  have "om_find (lg_reservations l) (lg_next_id l) = None"
    using ledger_next_unused [OF assms(1)] by (simp add: find_reservation_def)
  then have "lg_reservations (snd (reserve r l)) = om_set (lg_next_id l) (granted_reservation r (lg_next_id l)) (lg_reservations l)"
    by (simp add: reserve_exact [OF assms(2)] om_emplace_fresh)
  moreover have "live_at now (granted_reservation r i)" for i using assms(3) by (simp add: live_at_def)
  ultimately show ?thesis
    using length_om_set [OF ledger_wf_ok [OF assms(1)] \<open>om_find (lg_reservations l) (lg_next_id l) = None\<close>]
    by (simp add: live_def)
qed

section \<open>A reservation brought back\<close>

definition lapse :: nanos where
  "lapse = 200 + kDefaultAuthorityLeaseNanos"

definition first_pass :: arbitration_context where
  "first_pass = demo_arbitration\<lparr>ax_candidates := [1]\<rparr>"

definition rival_pass :: arbitration_context where
  "rival_pass = demo_arbitration\<lparr>ax_jobs := \<lparr>jt_jobs = [(2, demo_job 2 1)], jt_next_id = 3\<rparr>, ax_candidates := [2], ax_now := lapse\<rparr>"

definition rival_ledger :: ledger where
  "rival_ledger = as_ledger (arbitrate rival_pass demo_ledger)"

lemma demo_policy_room: "0 < unat (po_max_concurrent_jobs demo_policy)"
  by (simp add: demo_policy_def default_policy_def)

lemma first_granted: "as_ledger (arbitrate first_pass (new_ledger 0)) = demo_ledger"
proof -
  have same: "acquire_for first_pass j = acquire_for demo_arbitration j" for j by (simp add: first_pass_def acquire_for_def)
  have "as_ledger (arbitrate first_pass (new_ledger 0)) =
      snd (reserve (planned_reservation (acquire_for demo_arbitration (demo_job 1 1))) (new_ledger 0))"
    using arbitrate_single [of first_pass 1 "demo_job 1 1" "new_ledger 0"] demo_grantable demo_policy_room
    by (simp add: same) (simp add: first_pass_def demo_arbitration_def demo_jobs_def find_job_def om_find_def held_by_def
      find_for_job_def new_ledger_def demo_job_def)
  then show ?thesis using demo_guard
    by (simp add: reserve_exact demo_ledger_def demo_reservation_def new_ledger_def next_id_def om_emplace_def)
qed

lemma demo_lapsed: "\<not> live_at lapse demo_reservation"
  by (simp add: live_at_def lapse_def demo_reservation_def granted_reservation_def planned_reservation_def Let_def acquire_for_def
    demo_arbitration_def demo_policy_def default_policy_def clamp_lease_def limits)

lemma rival_fields:
  "ac_removal_set (acquire_for rival_pass (demo_job 2 1)) = [sw 1]" "ac_now (acquire_for rival_pass (demo_job 2 1)) = lapse"
  "ac_job (acquire_for rival_pass (demo_job 2 1)) = 2" "ac_generation (acquire_for rival_pass (demo_job 2 1)) = 1"
  "ac_attempt (acquire_for rival_pass (demo_job 2 1)) = demo_attempt 2" "ac_current (acquire_for rival_pass (demo_job 2 1)) = demo_self"
  "ac_topology (acquire_for rival_pass (demo_job 2 1)) = demo_topology" "ac_policy (acquire_for rival_pass (demo_job 2 1)) = demo_policy"
  "ac_readiness (acquire_for rival_pass (demo_job 2 1)) = demo_view"
  by (simp_all add: acquire_for_def rival_pass_def demo_arbitration_def demo_job_def new_job_def)

lemma rival_grantable: "grantable (acquire_for rival_pass (demo_job 2 1)) demo_ledger"
proof -
  have "attempt_valid (demo_attempt 2)" by (simp add: attempt_valid_def demo_attempt_def id_valid_def)
  moreover have "reserved_targets lapse demo_ledger = []"
    using demo_lapsed by (simp add: reserved_targets_def live_def demo_ledger_def)
  moreover have "check_conflict (acquire_for rival_pass (demo_job 2 1)) (i, demo_reservation) = ok_status" for i
    using demo_lapsed by (simp add: check_conflict_ok rival_fields)
  moreover have "find_for_job demo_ledger 2 1 = None"
    by (simp add: find_for_job_def demo_ledger_def demo_reservation_fields)
  ultimately show ?thesis
    using planned_lease [of "acquire_for rival_pass (demo_job 2 1)"] demo_impact [of "[]"] demo_healthy demo_valid_ids(2)
    by (simp add: grantable_def rival_fields reserve_guard_def id_valid_def demo_ledger_def limits)
qed

lemma rival_granted: "rival_ledger = snd (reserve (planned_reservation (acquire_for rival_pass (demo_job 2 1))) demo_ledger)"
  unfolding rival_ledger_def
  by (rule arbitrate_single [OF _ _ _ _ _ rival_grantable, of 2])
    (simp_all add: rival_pass_def demo_arbitration_def find_job_def om_find_def demo_job_def held_by_def find_for_job_def
      demo_ledger_def demo_reservation_fields demo_policy_room)

definition rival_reservation :: reservation where
  "rival_reservation = granted_reservation (planned_reservation (acquire_for rival_pass (demo_job 2 1))) 2"

lemma rival_reservation_fields: "ra_targets rival_reservation = [sw 1]" "live_at lapse rival_reservation"
  using planned_lease(1) [of "acquire_for rival_pass (demo_job 2 1)"]
  by (simp_all add: rival_reservation_def rival_fields sort_unique_def live_at_def)

lemma rival_lookups:
  "find_reservation rival_ledger 1 = Some demo_reservation" "find_reservation rival_ledger 2 = Some rival_reservation"
proof -
  have "reserve_guard (planned_reservation (acquire_for rival_pass (demo_job 2 1))) demo_ledger"
    using rival_grantable by (simp add: grantable_def)
  note found = find_after_reserve [OF demo_ledger_wf this, folded rival_granted]
  show "find_reservation rival_ledger 1 = Some demo_reservation" "find_reservation rival_ledger 2 = Some rival_reservation"
    by (simp_all add: found rival_reservation_def) (simp_all add: demo_ledger_def find_reservation_def om_find_def)
qed

text \<open>A device that refuses every write.\<close>

definition io_refusing :: io_env where
  "io_refusing = io_ok\<lparr>io_header := WriteFailed 0\<rparr>"

lemma append_refused: "\<exists>e j'. append_transaction io_refusing recs j = (Inl e, j')"
  by (simp add: append_transaction_def append_frame_def write_frame_def io_refusing_def fwrite_def Let_def split: sum.split option.split)

lemma sweep_refused: "fst (expire_authority io_refusing now st) = 0"
  using append_refused by (auto simp: expire_authority_def append_then_def expire_def Let_def split: prod.splits sum.splits)
    (metis Inl_Inr_False Pair_inject)

text \<open>The view of the fabric is the same for both passes.\<close>

abbreviation demo_world :: "(topology \<times> policy \<times> readiness_view) set" where
  "demo_world \<equiv> {(demo_topology, demo_policy, demo_view)}"

lemma demo_history: "authority_run demo_world False 200 demo_ledger"
  unfolding first_granted [symmetric]
  by (rule authority_run.pass [OF authority_run.start])
    (simp_all add: first_pass_def demo_arbitration_def ledger_room_def new_ledger_def)

lemma rival_history: "authority_run demo_world False lapse rival_ledger"
proof -
  have "authority_run demo_world False lapse demo_ledger"
    by (rule authority_run.wait [OF demo_history]) (simp add: lapse_def limits)
  then show ?thesis unfolding rival_ledger_def
    by (rule authority_run.pass) (simp_all add: rival_pass_def demo_arbitration_def ledger_room_def demo_ledger_def)
qed

section \<open>More jobs than the policy allows\<close>

text \<open>Two switches without a pool or a limit, a bound of one job, and a live reservation of the second switch.\<close>

definition lone_policy :: policy where
  "lone_policy = default_policy\<lparr>po_max_concurrent_jobs := 1\<rparr>"

definition lone_pass :: arbitration_context where
  "lone_pass = demo_arbitration\<lparr>ax_topology := demo_stage [1, 2, 3], ax_policy := lone_policy, ax_candidates := [1]\<rparr>"

definition held_ledger :: ledger where
  "held_ledger = snd (reserve (planned_reservation (acquire_for lone_pass (demo_job 2 2))) (new_ledger 0))"

lemma lone_impact: "im_satisfied (plan_impact (demo_stage [1, 2, 3]) lone_policy demo_view [sw 2] [sw 1])"
proof -
  let ?topo = "demo_stage [1, 2, 3]"
  have out: "sort_unique [sw 2] = [sw 2]" "sort_unique [sw 1] = [sw 1]"
      "sort (push_unique [sw 2] (sw 1)) = [sw 1, sw 2]"
    by (simp_all add: sort_unique_def push_unique_def sw_def id_order_defs word_le_nat_alt)
  have declared: "pools_of ?topo [sw 1, sw 2] = []" "domains_of ?topo [sw 1, sw 2] = [power1]" "domain ?topo power1 = Some demo_domain"
      "target ?topo (sw 1) = Some (demo_switch 1)" "target ?topo (sw 2) = Some (demo_switch 2)"
    by (simp_all add: pools_of_def domains_of_def pools_containing_def push_unique_def demo_defs index_at_def om_find_def
      target_def domain_def)
  have "contracts_touching lone_policy [sw 1] = []" "domain_limits_for lone_policy power1 = []"
    by (simp_all add: contracts_touching_def domain_limits_for_def lone_policy_def default_policy_def)
  then show ?thesis
    by (simp add: plan_impact_def compute_impact_def Let_def out declared List.map_filter_def impact_of_domain_def
      impact_of_target_def demo_switch_def)
qed

lemma lone_fields:
  "ac_topology (acquire_for lone_pass j) = demo_stage [1, 2, 3]" "ac_policy (acquire_for lone_pass j) = lone_policy"
  "ac_readiness (acquire_for lone_pass j) = demo_view" "ac_now (acquire_for lone_pass j) = 200"
  "ac_current (acquire_for lone_pass j) = demo_self"
  "ac_job (acquire_for lone_pass (demo_job i s)) = i" "ac_generation (acquire_for lone_pass (demo_job i s)) = 1"
  "ac_attempt (acquire_for lone_pass (demo_job i s)) = demo_attempt i" "ac_removal_set (acquire_for lone_pass (demo_job i s)) = [sw s]"
  by (simp_all add: acquire_for_def lone_pass_def demo_arbitration_def demo_job_def new_job_def)

lemma demo_attempts_valid: "i \<noteq> 0 \<Longrightarrow> attempt_valid (demo_attempt i)"
  by (simp add: attempt_valid_def demo_attempt_def id_valid_def)

lemma held_guard: "reserve_guard (planned_reservation (acquire_for lone_pass (demo_job 2 2))) (new_ledger 0)"
  using planned_lease [of "acquire_for lone_pass (demo_job 2 2)"]
  by (simp add: reserve_guard_def lone_fields demo_attempts_valid demo_valid_ids id_valid_def find_for_job_def new_ledger_def limits)

definition held_reservation :: reservation where
  "held_reservation = granted_reservation (planned_reservation (acquire_for lone_pass (demo_job 2 2))) 1"

lemma held_reservation_fields:
  "ra_job held_reservation = 2" "ra_targets held_reservation = [sw 2]" "live_at 200 held_reservation"
  using planned_lease(1) [of "acquire_for lone_pass (demo_job 2 2)"]
  by (simp_all add: held_reservation_def lone_fields sort_unique_def live_at_def)

lemma held_entries: "lg_reservations held_ledger = [(1, held_reservation)]"
  using held_guard by (simp add: held_ledger_def held_reservation_def reserve_exact new_ledger_def om_emplace_def)

lemma held_ledger_wf: "ledger_wf held_ledger"
  unfolding held_ledger_def by (rule reserve_wf [OF new_ledger_wf]) (simp add: new_ledger_def)

lemma lone_grantable: "grantable (acquire_for lone_pass (demo_job 1 1)) held_ledger"
proof -
  have "check_conflict (acquire_for lone_pass (demo_job 1 1)) (1, held_reservation) = ok_status"
    by (simp add: check_conflict_ok lone_fields held_reservation_fields) (simp add: sw_def)
  moreover have "reserved_targets 200 held_ledger = [sw 2]" "find_for_job held_ledger 1 1 = None"
    by (simp_all add: reserved_targets_def live_def held_entries held_reservation_fields push_unique_def find_for_job_def)
  ultimately show ?thesis
    using planned_lease [of "acquire_for lone_pass (demo_job 1 1)"] lone_impact demo_healthy demo_valid_ids demo_attempts_valid [of 1]
    by (simp add: grantable_def lone_fields reserve_guard_def id_valid_def held_entries limits)
qed

lemma lone_pass_fields:
  "ax_candidates lone_pass = [1]" "find_job (ax_jobs lone_pass) 1 = Some (demo_job 1 1)" "j_id (demo_job 1 1) = 1"
  "held_by lone_pass (demo_job 1 1) held_ledger = None" "po_max_concurrent_jobs (ax_policy lone_pass) = 1"
  "ax_now lone_pass = 200" "length (live 200 held_ledger) = 1"
  by (simp_all add: lone_pass_def demo_arbitration_def demo_jobs_def find_job_def om_find_def lone_policy_def live_def
    held_entries held_reservation_fields) (simp_all add: demo_job_def held_by_def find_for_job_def held_entries held_reservation_fields)

end
