(* ===== verification/Controller_Properties.thy ===== *)
theory Controller_Properties
  imports Controller_Examples Authority_Examples
begin

text \<open>
  The properties of the controller: when it takes a scope out of service and when it calls it
  restored, that a scope is never abandoned in between, that its passes keep the granted authority
  safe, how it keeps out actors that lost their job, and what a restart does.
\<close>

section \<open>Driving jobs\<close>

text \<open>
  C10. The controller begins maintenance only on a job that is ready, and only while a live
  reservation of the job's generation and attempt covers it, every target of the removal set has
  fresh evidence, every dependency is complete, the window admits it, a required drain lease is
  held, and with everything out of service or reserved, this scope included, every pool keeps its
  redundancy and every failure domain its bound. From then on service counts as removed.
\<close>
theorem maintenance_starts_safely:
  assumes "drive_stage j pc c = (True, j', pc', c')" "j_state j' = InMaintenance" "j_state j \<noteq> InMaintenance"
    and "topo_wf (ct_topology c)"
  shows "j_state j = Ready \<and> j_service_removed j' \<and>
    (\<exists>r. find_for_job (ps_ledger (ct_state c)) (j_id j) (j_generation j) = Some r \<and> live_at (pc_now pc) r \<and>
       ra_attempt r = j_active_attempt j) \<and>
    (\<forall>t \<in> set (j_removal_set j). is_fresh (pc_view pc) t) \<and>
    (\<forall>d \<in> set (j_depends_on j). \<exists>other. find_job (ct_jobs c) d = Some other \<and> j_state other = Complete) \<and>
    allows_start (evaluate_window (po_windows (ct_policy c)) (j_targets j) (pc_now pc) (po_require_window (ct_policy c))) \<and>
    (j_requires_drain j \<longrightarrow> id_valid (j_lease j)) \<and>
    pools_safe (ct_topology c) (ct_policy c) (pc_view pc) (out_of_service j (pc_now pc) c) \<and>
    domains_safe (ct_topology c) (ct_policy c) (out_of_service j (pc_now pc) c)"
proof -
  have ready: "j_state j = Ready" by (rule starts_in_ready [OF assms(1-3)])
  then have start: "may_start j pc c"
    using ready_starts_iff [OF ready, of pc c] assms(1,2) by (simp add: drive_stage_def reaches_def)
  have "j_service_removed j'"
    using drive_stage_move [OF assms(1)] assms(2,3) by (simp add: stage_move_def)
  then show ?thesis
    using ready may_start_checks [OF start] may_start_capacity [OF start assms(4)] by blast
qed

theorem maintenance_starts_safely_witness:
  "domains_safe demo_topology demo_policy (out_of_service demo_ready 200 (demo_controller demo_ledger)) \<and>
   is_fresh demo_view (sw 1)"
proof -
  obtain j' pc' c' where "drive_stage demo_ready demo_pass (demo_controller demo_ledger) = (True, j', pc', c')"
      "j_state j' = InMaintenance"
    using demo_starts by blast
  from maintenance_starts_safely [OF this] show ?thesis
    using demo_topology_wf by (simp add: demo_ready_fields)
qed

text \<open>
  C11. A job is called complete only from the restoring stage, with its drain lease returned and no
  failed maintenance, and only when every target of its removal set is free of open quarantine and
  is proved to serve: it is declared, has fresh health evidence from as many sources as the policy
  asks for, and none of these sources reports it as not serving.
\<close>
theorem completion_is_proven:
  assumes "drive_stage j pc c = (True, j', pc', c')" "j_state j' = Complete"
    and "pc_view pc = build_view topo ev po cur (pc_now pc)"
  shows "j_state j = Restoring \<and> \<not> id_valid (j_lease j) \<and> \<not> j_maintenance_failed j \<and>
    (\<forall>t \<in> set (j_removal_set j). find_open_for_target (ps_quarantines (ct_state c)) t = None \<and> contains topo t \<and>
       fresh_sources ev TargetHealth (subject_of t) cur (pc_now pc) \<noteq> [] \<and>
       unat (po_min_evidence_sources po) \<le> fresh_source_count ev TargetHealth (subject_of t) cur (pc_now pc) \<and>
       (\<forall>src \<in> set (fresh_sources ev TargetHealth (subject_of t) cur (pc_now pc)). \<forall>r.
          find_evidence ev (EvidenceKey TargetHealth (subject_of t) src) = Some r \<longrightarrow>
          is_serving (ep_health (er_payload r))))"
proof -
  have restoring: "j_state j = Restoring" by (rule completes_in_restoring [OF assms(1,2)])
  then have may: "may_advance j pc c"
    using restoring_advances [OF restoring, of pc c] assms(1,2) by (simp add: drive_stage_def reaches_def)
  have serves: "view_is_serving (build_view topo ev po cur (pc_now pc)) t" if "t \<in> set (j_removal_set j)" for t
    using may that unfolding assms(3) [symmetric]
    by (auto simp: may_advance_def restoring view_is_serving_def is_fresh_def health_of_def Let_def split: option.splits)
  show ?thesis
    using may restoring serving_has_source [OF serves] serving_all_sources [OF serves] by (simp add: may_advance_def Let_def)
qed

theorem completion_is_proven_witness: "fresh_sources demo_store TargetHealth (subject_of (sw 1)) demo_self 200 \<noteq> []"
proof -
  obtain j' pc' c' where "drive_stage demo_restoring demo_pass (demo_controller demo_ledger) = (True, j', pc', c')"
      "j_state j' = Complete"
    using demo_completes by blast
  from completion_is_proven [OF this, of demo_topology demo_store demo_policy demo_self] show ?thesis
    by (simp add: demo_view_def demo_restoring_fields)
qed

text \<open>
  C12. A scope that is out of service is never abandoned: its job can be neither cancelled nor
  re-armed, the refusal changing nothing, and a stage keeps it marked as removed and moves it only
  among the stages that lead to its restoration, to completion or to failure.
\<close>
theorem removed_scope_is_kept:
  assumes "find_job (ct_jobs c) i = Some j" "j_service_removed j" "j_state j \<in> {Blocked, InMaintenance, Verifying, Restoring}"
  shows "(\<exists>e. cancel i actor reason now c = (Inl e, c) \<and> err_code e = StateConflict) \<and>
    (\<exists>e. rearm i actor now c = (Inl e, c) \<and> err_code e = StateConflict) \<and>
    (\<forall>pc j' pc' c'. drive_stage j pc c = (True, j', pc', c') \<longrightarrow> j_service_removed j' \<and>
       j_state j' \<in> {Blocked, InMaintenance, Verifying, Restoring, Complete, Failed} \<and>
       (j_state j' \<noteq> j_state j \<longrightarrow> tc_allowed (check_transition (j_state j) (j_state j') True)))"
proof (intro conjI allI impI)
  show "\<exists>e. cancel i actor reason now c = (Inl e, c) \<and> err_code e = StateConflict"
    "\<exists>e. rearm i actor now c = (Inl e, c) \<and> err_code e = StateConflict"
    by (rule removed_request_refused [OF assms(1,2)])+
  fix pc j' pc' c'
  assume "drive_stage j pc c = (True, j', pc', c')"
  then have move: "stage_move j j'" by (rule drive_stage_move)
  from removed_move [OF this assms(2)] assms(3)
  show "j_service_removed j'" "j_state j' \<in> {Blocked, InMaintenance, Verifying, Restoring, Complete, Failed}"
    by (auto simp: acting_def)
  show "tc_allowed (check_transition (j_state j) (j_state j') True)" if "j_state j' \<noteq> j_state j"
    using move that assms(2) by (simp add: stage_move_def)
qed

text \<open>The controller of the example with one job in the restoring stage.\<close>

definition demo_restorer :: controller where
  "demo_restorer = (demo_controller demo_ledger)\<lparr>ct_store := demo_booted\<lparr>st_state :=
     (demo_state demo_ledger)\<lparr>ps_jobs := \<lparr>jt_jobs = [(1, demo_restoring)], jt_next_id = 2\<rparr>\<rparr>\<rparr>\<rparr>"

lemma demo_restorer_job: "find_job (ct_jobs demo_restorer) 1 = Some demo_restoring"
  by (simp add: demo_restorer_def ct_jobs_def ct_state_def find_job_def om_find_def)

theorem removed_scope_is_kept_witness: "\<exists>e. cancel 1 ''ops'' ''why'' 300 demo_restorer = (Inl e, demo_restorer)"
  using removed_scope_is_kept [OF demo_restorer_job, of "''ops''" "''why''" 300] by (auto simp: demo_restoring_fields)

text \<open>
  C13. In the stages that act on the scope, a job advances to the next stage exactly when the stage's
  conditions hold: a ready job when every precondition is satisfied by a recent evaluation, one in
  maintenance when every target has a fresh completion report and the closing of its window has been
  recorded, one being verified when every target is fresh and serving and no restoration check failed,
  one being restored when the lease is returned and every target serves without quarantine. So a job
  is never held up once its conditions hold.
\<close>
theorem stage_advance_exact:
  assumes "j_state j \<in> {Ready, InMaintenance, Verifying, Restoring}"
  shows "(\<exists>j' pc' c'. drive_stage j pc c = (True, j', pc', c') \<and> j_state j' = next_stage (j_state j)) \<longleftrightarrow> may_advance j pc c"
  using stage_advances [OF assms, of pc c] by (cases "drive_stage j pc c") (auto simp: reaches_def)

theorem stage_advance_exact_witness:
  "\<exists>j' pc' c'. drive_stage demo_ready demo_pass (demo_controller demo_ledger) = (True, j', pc', c') \<and> j_state j' = InMaintenance"
  using stage_advance_exact [of demo_ready demo_pass "demo_controller demo_ledger"] demo_may_start
  by (simp add: demo_ready_fields may_advance_def)

section \<open>Passes\<close>

text \<open>
  C14. A pass of the controller, from the expiry sweep through the stages of all jobs to arbitration and the
  sweep of orphaned leases, keeps the granted authority safe: when the sweep takes out every expired
  reservation, and the live reservations were jointly safe and disjoint on the pass's view of the fabric, so
  are they after the pass, whatever the jobs do, whatever the arbitration grants and whichever of the later
  writes to the journal fail. (A pass whose sweep fails goes on all the same, and then an expired reservation
  may be renewed beside a live one on the same target.)
\<close>
theorem pass_keeps_authority_safe:
  assumes "topo_wf (ct_topology c)"
    and "fst (on_store (\<lambda>io. expire_authority io now) c) = length (expired_entries now (ps_ledger (ct_state c)))"
    and "unat (lg_next_id (ps_ledger (ct_state c))) + kMaxJobsPerArbitration < 2 ^ 64"
    and "authority_inv (ct_topology c) (ct_policy c) (pass_view now c) now (ps_ledger (ct_state c))"
  shows "authority_inv (ct_topology c) (ct_policy c) (pass_view now c) now (ps_ledger (ct_state (snd (tick_pass now c))))"
  using assms by (rule tick_pass_inv)

theorem pass_keeps_authority_safe_witness:
  "set (reserved_targets 200 demo_ledger) = {sw 1} \<and>
   authority_inv demo_topology demo_policy demo_view 200 (ps_ledger (ct_state (snd (tick_pass 200 (demo_controller demo_ledger)))))"
proof -
  have "run_inv demo_world 200 demo_ledger" by (rule authority_run_inv [OF demo_history]) simp
  then have inv: "authority_inv demo_topology demo_policy demo_view 200 demo_ledger"
    using demo_topology_wf by (simp add: run_inv_def authority_inv_def)
  have none: "expired_entries 200 demo_ledger = []" by (simp add: demo_ledger_def demo_reservation_fields)
  have "fst (on_store (\<lambda>io. expire_authority io 200) (demo_controller demo_ledger)) = 0"
    using none by (simp add: on_store_def expire_authority_def flip: ct_state_def)
  moreover have "lg_next_id demo_ledger = 2" by (simp add: demo_ledger_def)
  moreover have "set (reserved_targets 200 demo_ledger) = {sw 1}"
    by (simp add: demo_ledger_def reserved_targets_def live_def demo_reservation_fields push_unique_def)
  ultimately show ?thesis
    using pass_keeps_authority_safe [of "demo_controller demo_ledger" 200] demo_topology_wf inv none
    by (simp add: demo_pass_view limits)
qed

text \<open>
  C15. A pass asks the drain service at most once for a job, and never for a job whose earlier request
  is still unanswered.
\<close>
theorem drain_requested_once:
  "\<exists>is. requests (fst (drain_all_locked now actions c)) = requests actions @ is \<and> distinct is \<and>
     set is \<inter> ct_drain_inflight c = {}"
  using drain_all_asks [of now actions c] by (metis prod.collapse)

section \<open>Fencing\<close>

text \<open>
  C16. An actor that no longer speaks for a job changes nothing: a report of completion or restoration
  that does not carry the job's current generation and attempt is refused as stale and leaves the
  store as it was, and the answer to a drain request of an earlier generation or attempt leaves the
  store as it was too, but a lease it grants is queued to be released.
\<close>
theorem stale_actors_fenced:
  assumes "find_job (ct_jobs c) i = Some j" "attempt \<noteq> j_active_attempt j \<or> at_generation attempt \<noteq> j_generation j"
    and "da_kind a = DrainRequest" "da_job a = i"
    and "da_attempt a \<noteq> j_active_attempt j \<or> da_generation a \<noteq> j_generation j"
  shows "(\<exists>e c'. report_completion i attempt succeeded detail now c = (Inl e, c') \<and>
      err_code e \<in> {StaleGeneration, StaleAttempt} \<and> ct_store c' = ct_store c) \<and>
    (\<exists>e c'. report_restoration i attempt t good detail now c = (Inl e, c') \<and>
      err_code e \<in> {StaleGeneration, StaleAttempt} \<and> ct_store c' = ct_store c) \<and>
    ct_store (apply_outcome now \<lparr>oc_action = a, oc_response = answer\<rparr> c) = ct_store c \<and>
    (is_ok (dr_status answer) \<and> id_valid (le_id (dr_lease answer)) \<longrightarrow>
      le_id (dr_lease answer) \<in> da_lease ` set (ct_deferred_releases (apply_outcome now \<lparr>oc_action = a, oc_response = answer\<rparr> c)))"
proof -
  let ?out = "\<lparr>oc_action = a, oc_response = answer\<rparr>"
  have stale: "attempt \<noteq> j_active_attempt j \<or> at_generation attempt \<noteq> j_generation j \<or> \<not> attempt_valid attempt"
    using assms(2) by blast
  have asker: "j_generation j' \<noteq> da_generation (oc_action ?out) \<or> j_active_attempt j' \<noteq> da_attempt (oc_action ?out)"
    if "find_job (ct_jobs c) (da_job (oc_action ?out)) = Some j'" for j'
    using that assms(1,4,5) by auto
  have "ct_store (apply_outcome now ?out c) = ct_store c" "is_ok (dr_status answer) \<Longrightarrow> id_valid (answered_lease ?out) \<Longrightarrow>
      answered_lease ?out \<in> da_lease ` set (ct_deferred_releases (apply_outcome now ?out c))"
    using stale_answer_fenced [of ?out c now] assms(3) asker by simp_all
  note answer = this
  have "le_id (dr_lease answer) \<in> da_lease ` set (ct_deferred_releases (apply_outcome now ?out c))"
    if "is_ok (dr_status answer)" "id_valid (le_id (dr_lease answer))"
  proof -
    have "answered_lease ?out = le_id (dr_lease answer)" using that(2) by (simp add: answered_lease_def)
    then show ?thesis using answer(2) that by simp
  qed
  with answer(1) show ?thesis using stale_report_refused [OF assms(1) stale] by simp
qed

theorem stale_actors_fenced_witness:
  "\<exists>e c'. report_completion 1 \<lparr>at_job = 1, at_generation = 7, at_ordinal = 1\<rparr> True ''done'' 300 demo_restorer = (Inl e, c') \<and>
     ct_store c' = ct_store demo_restorer"
proof -
  have "j_generation demo_restoring = 1" by (simp add: demo_restoring_def demo_ready_def demo_job_def new_job_def)
  then show ?thesis
    using stale_actors_fenced [OF demo_restorer_job, of "\<lparr>at_job = 1, at_generation = 7, at_ordinal = 1\<rparr>"
        "no_action\<lparr>da_job := 1, da_generation := 7\<rparr>" True "''done''" 300 "sw 1" True "\<lparr>dr_status = ok_status, dr_lease = no_lease\<rparr>"]
    by (simp add: no_action_def) blast
qed

text \<open>
  C17. Reconciliation after a restart covers exactly the unfinished jobs of earlier processes that
  have left validation, in the order of the table. Each is blocked for that reason and owned by the
  new process, keeps its generation and scope, and has no attempt of the old process running; a job
  whose scope is out of service gets a new attempt and keeps its marking, any other gives up its
  attempt, its authority and its lease.
\<close>
theorem restart_blocks_unfinished:
  assumes "fold (reconcile_one now) js ([], [], c) = (updates, releases, c')"
  shows "map j_id updates = map j_id (filter (needs_reconciling c) js) \<and>
    list_all2 (\<lambda>j u. j_generation u = j_generation j \<and> j_removal_set u = j_removal_set j \<and>
      j_state u = Blocked \<and> j_block u = ReconciledAfterRestart \<and> j_owner u = ct_incarnation c \<and>
      j_service_removed u = j_service_removed j \<and>
      (\<forall>a \<in> set (j_attempts u). ar_outcome a = Running \<longrightarrow> j_service_removed j \<and> ar_id a = j_active_attempt u) \<and>
      (if j_service_removed j then at_ordinal (j_active_attempt u) = j_next_attempt j
       else j_active_attempt u = no_attempt \<and> j_authority u = 0 \<and> j_lease u = 0))
      (filter (needs_reconciling c) js) updates"
proof -
  have all: "list_all2 (reconciled c) (filter (needs_reconciling c) js) updates" using reconcile_all [OF assms] by simp
  then have "list_all2 (\<lambda>x y. x = y) (map j_id updates) (map j_id (filter (needs_reconciling c) js))"
    by (auto simp: list_all2_conv_all_nth reconciled_def same_order_def)
  moreover have "list_all2 (\<lambda>j u. j_generation u = j_generation j \<and> j_removal_set u = j_removal_set j \<and>
      j_state u = Blocked \<and> j_block u = ReconciledAfterRestart \<and> j_owner u = ct_incarnation c \<and>
      j_service_removed u = j_service_removed j \<and>
      (\<forall>a \<in> set (j_attempts u). ar_outcome a = Running \<longrightarrow> j_service_removed j \<and> ar_id a = j_active_attempt u) \<and>
      (if j_service_removed j then at_ordinal (j_active_attempt u) = j_next_attempt j
       else j_active_attempt u = no_attempt \<and> j_authority u = 0 \<and> j_lease u = 0))
      (filter (needs_reconciling c) js) updates"
    by (rule list_all2_mono [OF all]) (simp add: reconciled_def same_order_def)
  ultimately show ?thesis by (simp add: list.rel_eq)
qed

theorem restart_blocks_unfinished_witness:
  "\<exists>u releases c'. fold (reconcile_one 300) [demo_ready] ([], [], demo_controller demo_ledger) = ([u], releases, c') \<and>
     j_state u = Blocked \<and> j_owner u = demo_self"
proof -
  obtain updates releases c' where r: "fold (reconcile_one 300) [demo_ready] ([], [], demo_controller demo_ledger) =
      (updates, releases, c')" by (metis prod_cases3)
  have "needs_reconciling (demo_controller demo_ledger) demo_ready"
    by (simp add: needs_reconciling_def demo_ready_fields is_terminal_def)
      (simp add: demo_ready_def demo_job_def new_job_def demo_self_def no_incarnation_def)
  then show ?thesis
    using restart_blocks_unfinished [OF r] r by (cases updates) (auto simp: list_all2_Cons1)
qed

section \<open>Dependencies\<close>

text \<open>
  C18. The dependency check of a proposal accepts a dependency only when that job exists and does not
  lie on a cycle of dependencies; and it accepts every such job from which at most as many jobs can be
  reached as the search has budget, so that on these graphs the search always comes to a decision.
\<close>
theorem dependency_check_exact:
  "(check_dependency jobs d = ok_status \<longrightarrow> find_job jobs d \<noteq> None \<and> (d, d) \<notin> (depends jobs)\<^sup>+) \<and>
   (find_job jobs d \<noteq> None \<longrightarrow> (d, d) \<notin> (depends jobs)\<^sup>+ \<longrightarrow>
    card ((depends jobs)\<^sup>* `` {d}) \<le> kMaxDependenciesPerJob * kMaxDependenciesPerJob \<longrightarrow>
    check_dependency jobs d = ok_status)"
  using check_dependency_sound check_dependency_complete by blast

theorem dependency_check_exact_witness: "check_dependency demo_jobs 1 = ok_status"
proof -
  have "depends demo_jobs = {}"
    by (auto simp: depends_def demo_jobs_def find_job_def om_find_def demo_job_def new_job_def split: if_splits)
  moreover have "find_job demo_jobs 1 \<noteq> None" by (simp add: demo_jobs_def find_job_def om_find_def)
  ultimately show ?thesis using dependency_check_exact [of demo_jobs 1] by (simp add: limits)
qed

section \<open>Where the code falls short\<close>

text \<open>
  The counter that numbers the evidence the controller writes starts at zero in every process,
  while the evidence it numbered before is recovered from the journal. While the counter is behind the
  recorded revision, a restoration report for the current attempt is refused and nothing of the state
  changes, although the report is newer than the record.
\<close>
theorem report_behind_counter_refused:
  assumes "find_job (ct_jobs c) i = Some j" "attempt_valid (j_active_attempt j)"
    and "at_generation (j_active_attempt j) = j_generation j" "t \<in> set (j_removal_set j)"
    and "find_evidence (ps_evidence (ct_state c)) (EvidenceKey RestorationCheck (subject_of t) 2) = Some old"
    and "ct_evidence_revision c + 1 \<le> er_revision old"
  shows "\<not> is_ok (fst (report_restoration i (j_active_attempt j) t good detail now c)) \<and>
    ct_state (snd (report_restoration i (j_active_attempt j) t good detail now c)) = ct_state c"
  using behind_refused [OF assms(1,2) refl assms(3-6)] by simp

text \<open>The example after a restart: a check of the first switch was recorded as revision five.\<close>

definition demo_recorded :: evidence_record where
  "demo_recorded = (demo_evidence 1)\<lparr>er_key := EvidenceKey RestorationCheck (subject_of (sw 1)) 2, er_revision := 5\<rparr>"

definition demo_restarted :: controller where
  "demo_restarted = demo_restorer\<lparr>ct_store := (ct_store demo_restorer)\<lparr>st_state :=
     (st_state (ct_store demo_restorer))\<lparr>ps_evidence := demo_store\<lparr>es_records := [(er_key demo_recorded, demo_recorded)]\<rparr>\<rparr>\<rparr>\<rparr>"

theorem report_behind_counter_refused_witness:
  "\<not> is_ok (fst (report_restoration 1 (demo_attempt 1) (sw 1) True ''ok'' 300 demo_restarted))"
proof -
  have "find_job (ct_jobs demo_restarted) 1 = Some demo_restoring"
    using demo_restorer_job by (simp add: demo_restarted_def ct_jobs_def ct_state_def)
  moreover have "j_active_attempt demo_restoring = demo_attempt 1" "j_generation demo_restoring = 1"
    by (simp_all add: demo_restoring_def demo_ready_fields) 
  moreover have "find_evidence (ps_evidence (ct_state demo_restarted)) (EvidenceKey RestorationCheck (subject_of (sw 1)) 2) =
      Some demo_recorded"
    by (simp add: demo_restarted_def ct_state_def find_evidence_def om_find_def demo_recorded_def)
  moreover have "ct_evidence_revision demo_restarted = 0" by (simp add: demo_restarted_def demo_restorer_def)
  ultimately show ?thesis
    using report_behind_counter_refused [of demo_restarted 1 demo_restoring "sw 1" demo_recorded True "''ok''" 300]
    by (simp add: demo_restoring_fields) (simp add: demo_attempt_def attempt_valid_def id_valid_def demo_recorded_def)
qed

text \<open>
  C19. Re-arming a job that waits in the prerequisites stage is always refused, because that is also
  the stage it would return to; but the authority of the job has been given back by then, whenever the
  store accepts its release, so a refused request still costs the job its reservation.
\<close>
theorem rearm_waiting_loses_authority:
  assumes "find_job (ct_jobs c) i = Some j" "j_state j = Prerequisites" "\<not> j_service_removed j" "id_valid (j_authority j)"
    and "on_store (\<lambda>io. release_authority io (j_authority j) (ct_incarnation c)) c = (Inr u, c')"
    and "rearm i actor now c = (r, c'')"
  shows "\<not> is_ok r \<and> find_reservation (ps_ledger (ct_state c'')) (j_authority j) = None"
proof -
  have "c'' = c'"
    using rearm_waiting(2) [OF assms(1-3), of actor now] assms(4-6)
    by (simp add: release_resources_locked_def split: if_splits)
  moreover have "find_reservation (ps_ledger (ct_state c')) (j_authority j) = None"
    using assms(5) by (auto simp: on_store_def release_authority_def append_then_def release_exact ct_state_def bump_def
      find_reservation_def om_find_erase split: sum.splits prod.splits)
  ultimately show ?thesis using rearm_waiting(1) [OF assms(1-3), of actor now] assms(6) by simp
qed

text \<open>A waiting job that holds the reservation of the example.\<close>

definition demo_holder :: job where
  "demo_holder = (demo_job 1 1)\<lparr>j_authority := 1\<rparr>"

definition demo_holding :: controller where
  "demo_holding = (demo_controller demo_ledger)\<lparr>ct_store := demo_booted\<lparr>st_state :=
     (demo_state demo_ledger)\<lparr>ps_jobs := \<lparr>jt_jobs = [(1, demo_holder)], jt_next_id = 2\<rparr>\<rparr>\<rparr>\<rparr>"

lemma demo_holding_fields:
  "find_job (ct_jobs demo_holding) 1 = Some demo_holder" "ps_ledger (ct_state demo_holding) = demo_ledger"
  "ct_incarnation demo_holding = demo_self" "ct_io demo_holding n = io_ok"
  "st_journal (ct_store demo_holding) = st_journal demo_booted"
  by (simp_all add: demo_holding_def ct_jobs_def ct_state_def find_job_def om_find_def demo_controller_def new_controller_def)

lemma demo_release_append: "\<exists>j. append_transaction io_ok [encode_reservation_erased_record 1] (st_journal demo_booted) = (ok_status, j)"
proof -
  have size: "length (jr_payload (encode_transaction_record [encode_reservation_erased_record 1])) = 22"
    by (simp add: encode_transaction_record_def encode_reservation_erased_record_def encode_erased_def w_counted_def w_inner_def w_blob_def
      w_items_def blob_fits_def limits)
  have fits: "transaction_fits [encode_reservation_erased_record 1]"
    by (simp add: transaction_fits_def inner_fits_def encode_reservation_erased_record_def encode_erased_def limits)
  show ?thesis
    by (rule exI, rule append_succeeds)
      (simp_all add: io_ok_clean size fits demo_booted_fields demo_room limits kMaxJournalBytes_def kMaxJournalRecords_def)
qed

theorem rearm_waiting_loses_authority_witness:
  "find_reservation (ps_ledger (ct_state demo_holding)) 1 = Some demo_reservation \<and>
   \<not> is_ok (fst (rearm 1 ''ops'' 300 demo_holding)) \<and>
   find_reservation (ps_ledger (ct_state (snd (rearm 1 ''ops'' 300 demo_holding)))) 1 = None"
proof -
  obtain jn where jn: "append_transaction io_ok [encode_reservation_erased_record 1] (st_journal demo_booted) = (ok_status, jn)"
    using demo_release_append by blast
  have held: "find_reservation demo_ledger 1 = Some demo_reservation" "ra_owner demo_reservation = demo_self"
    by (simp add: find_reservation_def demo_ledger_def om_find_def)
      (simp add: demo_reservation_def planned_reservation_def acquire_for_def demo_arbitration_def Let_def)
  have "release 1 demo_self demo_ledger = Inr (demo_ledger\<lparr>lg_reservations := om_erase 1 (lg_reservations demo_ledger)\<rparr>)"
    using held by (simp add: release_exact)
  then obtain c' where "on_store (\<lambda>io. release_authority io 1 demo_self) demo_holding = (Inr (), c')"
    using jn demo_holding_fields by (simp add: on_store_def release_authority_def append_then_def ct_state_def)
  moreover have "j_state demo_holder = Prerequisites" "\<not> j_service_removed demo_holder" "j_authority demo_holder = 1"
    by (simp_all add: demo_holder_def demo_job_def new_job_def)
  ultimately show ?thesis
    using rearm_waiting_loses_authority [OF demo_holding_fields(1) _ _ _ _ prod.collapse [symmetric], of "()" c' "''ops''" 300] held(1)
    by (simp add: demo_holding_fields id_valid_def)
qed

end
