(* ===== verification/Frames.thy ===== *)
theory Frames
  imports Journal
begin

text \<open>
  The framed wire format (\<^verbatim>\<open>include/mf/transport/frame.hpp\<close>, \<^verbatim>\<open>src/transport/frame.cpp\<close>): a 32-byte
  header (magic, version, type, two zero bytes, flags, request identity, payload length, payload
  checksum, header checksum) and a payload of at most \<^verbatim>\<open>kMaxFrameBytes\<close>.

  The lemmas show that a frame the encoder is meant for is decoded to itself, from the bytes alone
  or header first, and that one changed byte, a missing tail and a surplus tail are all refused.
\<close>

section \<open>Layout\<close>

datatype frame_type = FtUnknown | Hello | HelloAck | Request | Response | FtError | Heartbeat | Goodbye

definition all_frame_types :: "frame_type list" where
  "all_frame_types = [FtUnknown, Hello, HelloAck, Request, Response, FtError, Heartbeat, Goodbye]"

definition frame_type_code :: "frame_type \<Rightarrow> u16" where
  "frame_type_code t = of_nat (length (takeWhile (\<lambda>u. u \<noteq> t) all_frame_types))"

text \<open>The cast of a known code to the enumeration.\<close>

definition frame_type_of :: "u16 \<Rightarrow> frame_type" where
  "frame_type_of v = all_frame_types ! unat v"

definition to_string_frame_type :: "frame_type \<Rightarrow> string" where
  "to_string_frame_type t = (case t of
     FtUnknown \<Rightarrow> ''unknown'' | Hello \<Rightarrow> ''hello'' | HelloAck \<Rightarrow> ''hello-ack'' | Request \<Rightarrow> ''request''
   | Response \<Rightarrow> ''response'' | FtError \<Rightarrow> ''error'' | Heartbeat \<Rightarrow> ''heartbeat'' | Goodbye \<Rightarrow> ''goodbye'')"

definition is_known_frame_type :: "u16 \<Rightarrow> bool" where
  "is_known_frame_type v \<longleftrightarrow> v \<ge> frame_type_code Hello \<and> v \<le> frame_type_code Goodbye"

definition kProtocolVersion :: u16 where
  "kProtocolVersion = 1"

definition kWireMagic :: u16 where
  "kWireMagic = 0x4D46"

definition kWireHeaderBytes :: nat where
  [limits]: "kWireHeaderBytes = 32"

definition kMaxFrameBytes :: nat where
  [limits]: "kMaxFrameBytes = 1024 * 1024"

record frame =
  fr_version :: u16
  fr_type :: frame_type
  fr_flags :: u32
  fr_request_id :: u64
  fr_payload :: "byte list"

definition new_frame :: frame where
  "new_frame = \<lparr>fr_version = kProtocolVersion, fr_type = FtUnknown, fr_flags = 0, fr_request_id = 0, fr_payload = []\<rparr>"

record wire_header =
  wh_version :: u16
  wh_type :: frame_type
  wh_flags :: u32
  wh_request_id :: u64
  wh_payload_length :: u32

definition wire_write_u16 :: "u16 \<Rightarrow> byte list" where
  "wire_write_u16 v = [ucast (drop_bit 8 v AND 0xFF), ucast (v AND 0xFF)]"

definition wire_write_u32 :: "u32 \<Rightarrow> byte list" where
  "wire_write_u32 v = map (\<lambda>k. ucast (drop_bit k v AND 0xFF)) [24, 16, 8, 0]"

definition wire_write_u64 :: "u64 \<Rightarrow> byte list" where
  "wire_write_u64 v = map (\<lambda>i. ucast (drop_bit (8 * (7 - i)) v AND 0xFF)) [0..<8]"

definition wire_read_u16 :: "byte list \<Rightarrow> u16" where
  "wire_read_u16 p = push_bit 8 (ucast (p ! 0)) OR ucast (p ! 1)"

definition wire_read_u32 :: "byte list \<Rightarrow> u32" where
  "wire_read_u32 p =
     push_bit 24 (ucast (p ! 0)) OR push_bit 16 (ucast (p ! 1)) OR push_bit 8 (ucast (p ! 2)) OR ucast (p ! 3)"

definition wire_read_u64 :: "byte list \<Rightarrow> u64" where
  "wire_read_u64 p = foldl (\<lambda>v i. push_bit 8 v OR ucast (p ! i)) 0 [0..<8]"

section \<open>Encoding and decoding\<close>

definition validate_frame :: "frame \<Rightarrow> status" where
  "validate_frame f =
     (if \<not> is_known_frame_type (frame_type_code (fr_type f)) then
        Inl (invalid_argument ''frame type is not recognised'')
      else if fr_version f \<noteq> kProtocolVersion then
        Inl (make_error VersionMismatch (''frame protocol revision '' @ dec_word (fr_version f) @
          '' is not supported (expected '' @ dec_word kProtocolVersion @ '')''))
      else if length (fr_payload f) > kMaxFrameBytes then
        Inl (make_error LimitExceeded ''frame payload exceeds the configured bound'')
      else ok_status)"

text \<open>The 28 bytes the header checksum covers.\<close>

definition wire_prefix :: "frame \<Rightarrow> byte list" where
  "wire_prefix f =
     wire_write_u16 kWireMagic @ wire_write_u16 (fr_version f) @ wire_write_u16 (frame_type_code (fr_type f)) @ [0, 0] @
     wire_write_u32 (fr_flags f) @ wire_write_u64 (fr_request_id f) @
     wire_write_u32 (of_nat (length (fr_payload f))) @ wire_write_u32 (crc32c (fr_payload f))"

definition encode_frame :: "frame \<Rightarrow> byte list" where
  "encode_frame f = wire_prefix f @ wire_write_u32 (crc32c (wire_prefix f)) @ fr_payload f"

definition decode_frame_header :: "byte list \<Rightarrow> wire_header result" where
  "decode_frame_header d =
     (if length d < kWireHeaderBytes then Inl (make_error CorruptState ''frame header is truncated'')
      else if wire_read_u16 d \<noteq> kWireMagic then
        Inl (make_error CorruptState ''frame magic does not match Maintenance Fabric'')
      else if crc32c (take 28 d) \<noteq> wire_read_u32 (drop 28 d) then
        Inl (make_error CorruptState ''frame header checksum mismatch'')
      else let ty = wire_read_u16 (drop 4 d) in
        if \<not> is_known_frame_type ty then
          Inl (make_error CorruptState ''frame declares an unrecognised type'')
        else
          let h = \<lparr>wh_version = wire_read_u16 (drop 2 d), wh_type = frame_type_of ty,
                   wh_flags = wire_read_u32 (drop 8 d), wh_request_id = wire_read_u64 (drop 12 d),
                   wh_payload_length = wire_read_u32 (drop 20 d)\<rparr> in
          if unat (wh_payload_length h) > kMaxFrameBytes then
            Inl (make_error LimitExceeded ''frame declares a payload beyond the bound'')
          else if wh_version h \<noteq> kProtocolVersion then
            Inl (make_error VersionMismatch (''frame protocol revision '' @ dec_word (wh_version h) @
              '' is not supported''))
          else Inr h)"

definition decode_frame :: "byte list \<Rightarrow> frame result" where
  "decode_frame d = (case decode_frame_header d of
     Inl e \<Rightarrow> Inl e
   | Inr h \<Rightarrow>
       if length d \<noteq> kWireHeaderBytes + unat (wh_payload_length h) then
         Inl (make_error CorruptState ''frame length does not match its header'')
       else if crc32c (take (unat (wh_payload_length h)) (drop kWireHeaderBytes d)) \<noteq> wire_read_u32 (drop 24 d) then
         Inl (make_error CorruptState ''frame payload checksum mismatch'')
       else Inr \<lparr>fr_version = wh_version h, fr_type = wh_type h, fr_flags = wh_flags h,
                 fr_request_id = wh_request_id h, fr_payload = drop kWireHeaderBytes d\<rparr>)"

section \<open>Reading back\<close>

text \<open>The byte order is that of the journal.\<close>

lemma wire_reads: "wire_read_u16 = read_u16_be" "wire_read_u32 = read_u32_le" "wire_read_u64 = read_u64_be"
  by (simp_all add: fun_eq_iff wire_read_u16_def read_u16_be_def wire_read_u32_def read_u32_le_def
    wire_read_u64_def read_u64_be_def)

lemma low_byte: "(ucast (v AND 0xFF) :: byte) = ucast (v :: 'a::len word)"
proof -
  have mask: "(0xFF :: 'a word) = mask 8" by (simp add: mask_eq_exp_minus_1)
  have "(ucast (v AND mask 8) :: byte) = ucast v"
    by (intro bit_word_eqI) (auto simp: bit_simps dest: bit_imp_le_length)
  then show ?thesis unfolding mask .
qed

lemma wire_writes: "wire_write_u16 = write_u16_be" "wire_write_u32 = write_u32_be" "wire_write_u64 = write_u64_be"
  by (simp_all add: fun_eq_iff wire_write_u16_def write_u16_be_def wire_write_u32_def write_u32_be_def
    wire_write_u64_def write_u64_be_def low_byte)

lemma frame_type_codes: "frame_type_of (frame_type_code t) = t" "is_known_frame_type (frame_type_code t) \<longleftrightarrow> t \<noteq> FtUnknown"
  by (cases t; simp add: frame_type_of_def frame_type_code_def all_frame_types_def is_known_frame_type_def)+

lemma validate_frame_ok:
  "validate_frame f = ok_status \<longleftrightarrow>
     fr_type f \<noteq> FtUnknown \<and> fr_version f = kProtocolVersion \<and> length (fr_payload f) \<le> kMaxFrameBytes"
  by (auto simp: validate_frame_def frame_type_codes)

lemma wire_lengths [simp]:
  "length (wire_write_u16 a) = 2" "length (wire_write_u32 b) = 4" "length (wire_write_u64 c) = 8"
  by (simp_all add: wire_writes)

lemma wire_length [simp]: "length (wire_prefix f) = 28"
  by (simp add: wire_prefix_def)

lemma encode_length [simp]: "length (encode_frame f) = 32 + length (fr_payload f)"
  by (simp add: encode_frame_def)

text \<open>The fields at their offsets, whatever follows the prefix.\<close>

lemma wire_fields:
  "wire_read_u16 (wire_prefix f @ rest) = kWireMagic"
  "wire_read_u16 (drop 2 (wire_prefix f @ rest)) = fr_version f"
  "wire_read_u16 (drop 4 (wire_prefix f @ rest)) = frame_type_code (fr_type f)"
  "wire_read_u32 (drop 8 (wire_prefix f @ rest)) = fr_flags f"
  "wire_read_u64 (drop 12 (wire_prefix f @ rest)) = fr_request_id f"
  "wire_read_u32 (drop 20 (wire_prefix f @ rest)) = of_nat (length (fr_payload f))"
  "wire_read_u32 (drop 24 (wire_prefix f @ rest)) = crc32c (fr_payload f)"
  by (simp_all add: wire_prefix_def wire_writes wire_reads u16_be_back u32_be_back u64_be_back)

lemmas wire_fields_at = wire_fields [simplified]

definition header_of :: "frame \<Rightarrow> wire_header" where
  "header_of f = \<lparr>wh_version = fr_version f, wh_type = fr_type f, wh_flags = fr_flags f,
     wh_request_id = fr_request_id f, wh_payload_length = of_nat (length (fr_payload f))\<rparr>"

lemma payload_length_back:
  "validate_frame f = ok_status \<Longrightarrow> unat (of_nat (length (fr_payload f)) :: u32) = length (fr_payload f)"
  by (simp add: validate_frame_ok kMaxFrameBytes_def unat_of_nat take_bit_nat_eq_self)

lemma header_back:
  assumes "validate_frame f = ok_status"
  shows "decode_frame_header (wire_prefix f @ wire_write_u32 (crc32c (wire_prefix f)) @ rest) = Inr (header_of f)"
proof -
  have crc: "wire_read_u32 (wire_write_u32 (crc32c (wire_prefix f)) @ rest) = crc32c (wire_prefix f)"
    by (simp add: wire_reads wire_writes u32_be_back)
  from assms show ?thesis
    by (simp add: decode_frame_header_def wire_fields_at crc frame_type_codes payload_length_back header_of_def Let_def
      kWireHeaderBytes_def validate_frame_ok)
qed

lemma frame_back:
  assumes "validate_frame f = ok_status"
  shows "decode_frame (encode_frame f) = Inr f"
  using header_back [OF assms, of "fr_payload f"] assms
  by (simp add: decode_frame_def encode_frame_def header_of_def payload_length_back kWireHeaderBytes_def
    wire_fields_at)

section \<open>Damage\<close>

text \<open>Nothing but a whole frame with both checksums right is accepted.\<close>

lemma frame_type_known: "is_known_frame_type v \<Longrightarrow> frame_type_of v \<noteq> FtUnknown"
proof -
  assume "is_known_frame_type v"
  then have "1 \<le> unat v" "unat v \<le> 7"
    by (simp_all add: is_known_frame_type_def frame_type_code_def all_frame_types_def word_le_nat_alt)
  then consider "unat v = 1" | "unat v = 2" | "unat v = 3" | "unat v = 4" | "unat v = 5" | "unat v = 6" | "unat v = 7"
    by linarith
  then show ?thesis by cases (simp_all add: frame_type_of_def all_frame_types_def)
qed

lemma decode_header_sound:
  assumes "decode_frame_header d = Inr h"
  shows "32 \<le> length d" "crc32c (take 28 d) = wire_read_u32 (drop 28 d)" "wh_type h \<noteq> FtUnknown"
    "wh_version h = kProtocolVersion" "unat (wh_payload_length h) \<le> kMaxFrameBytes"
    "wh_payload_length h = wire_read_u32 (drop 20 d)"
  using assms frame_type_known [of "wire_read_u16 (drop 4 d)"]
  by (auto simp: decode_frame_header_def Let_def kWireHeaderBytes_def split: if_splits)

lemma decode_frame_sound:
  assumes "decode_frame d = Inr f"
  shows "length d = 32 + length (fr_payload f)" "fr_payload f = drop 32 d" "validate_frame f = ok_status"
    "crc32c (take 28 d) = wire_read_u32 (drop 28 d)" "crc32c (fr_payload f) = wire_read_u32 (drop 24 d)"
proof -
  obtain h where h: "decode_frame_header d = Inr h" "length d = 32 + unat (wh_payload_length h)"
      "crc32c (drop 32 d) = wire_read_u32 (drop 24 d)" and
      f: "f = \<lparr>fr_version = wh_version h, fr_type = wh_type h, fr_flags = wh_flags h,
                 fr_request_id = wh_request_id h, fr_payload = drop 32 d\<rparr>"
    using assms by (auto simp: decode_frame_def kWireHeaderBytes_def split: sum.splits if_splits)
  note sound = decode_header_sound [OF h(1)]
  show len: "length d = 32 + length (fr_payload f)" using sound(1) by (simp add: f)
  show "fr_payload f = drop 32 d" by (simp add: f)
  show "validate_frame f = ok_status" using sound(3,4,5) h(2) by (simp add: f validate_frame_ok)
  show "crc32c (take 28 d) = wire_read_u32 (drop 28 d)" by (rule sound(2))
  show "crc32c (fr_payload f) = wire_read_u32 (drop 24 d)" using h(3) by (simp add: f)
qed

lemma frame_cut:
  assumes "validate_frame f = ok_status" "n < length (encode_frame f)"
  shows "\<exists>e. decode_frame (take n (encode_frame f)) = Inl e \<and> err_code e = CorruptState"
proof (cases "n < 32")
  case False
  have "take n (encode_frame f) = wire_prefix f @ wire_write_u32 (crc32c (wire_prefix f)) @ take (n - 32) (fr_payload f)"
    using False by (simp add: encode_frame_def)
  with header_back [OF assms(1), of "take (n - 32) (fr_payload f)"] assms False show ?thesis
    by (simp add: decode_frame_def header_of_def payload_length_back kWireHeaderBytes_def make_error_def)
qed (simp add: decode_frame_def decode_frame_header_def kWireHeaderBytes_def make_error_def)

lemma frame_surplus:
  assumes "validate_frame f = ok_status" "rest \<noteq> []"
  shows "\<exists>e. decode_frame (encode_frame f @ rest) = Inl e \<and> err_code e = CorruptState"
  using header_back [OF assms(1), of "fr_payload f @ rest"] assms
  by (simp add: decode_frame_def encode_frame_def header_of_def payload_length_back kWireHeaderBytes_def make_error_def)

lemma header_damaged:
  assumes "length d \<ge> 32" "crc32c (take 28 d) \<noteq> wire_read_u32 (drop 28 d)"
  shows "\<exists>e. decode_frame d = Inl e \<and> err_code e = CorruptState"
  using assms by (simp add: decode_frame_def decode_frame_header_def kWireHeaderBytes_def make_error_def)

lemma frame_damaged:
  assumes ok: "validate_frame f = ok_status" and i: "i < length (encode_frame f)" "encode_frame f ! i \<noteq> b"
  shows "\<exists>e. decode_frame ((encode_frame f)[i := b]) = Inl e \<and> err_code e = CorruptState"
proof -
  let ?prefix = "wire_prefix f" and ?crc = "wire_write_u32 (crc32c (wire_prefix f))"
  consider "i < 28" | "28 \<le> i" "i < 32" | "32 \<le> i" by linarith
  then show ?thesis
  proof cases
    case 1
    have damaged: "(encode_frame f)[i := b] = ?prefix[i := b] @ ?crc @ fr_payload f"
      using 1 by (simp add: encode_frame_def list_update_append)
    have "crc32c (?prefix[i := b]) \<noteq> crc32c ?prefix"
      using 1 i(2) by (intro crc32c_update) (simp_all add: encode_frame_def nth_append)
    then show ?thesis unfolding damaged by (intro header_damaged) (simp_all add: wire_reads wire_writes u32_be_back)
  next
    case 2
    let ?c = "?crc[i - 28 := b]"
    have pos: "i - 28 < 4" using 2 by linarith
    have damaged: "(encode_frame f)[i := b] = ?prefix @ ?c @ fr_payload f"
      using 2 pos by (simp add: encode_frame_def list_update_append)
    have "?crc ! (i - 28) \<noteq> b" using 2 pos i(2) by (simp add: encode_frame_def nth_append)
    then have "?c \<noteq> ?crc" using pos by (metis wire_lengths(2) nth_list_update_eq)
    then have "wire_read_u32 (?c @ fr_payload f) \<noteq> crc32c ?prefix"
      using u32_le_written [of ?c] u32_le_take [of ?c] by (auto simp: wire_reads wire_writes)
    then show ?thesis unfolding damaged by (intro header_damaged) simp_all
  next
    case 3
    have late: "\<not> i - 28 < 4" using 3 by linarith
    then have damaged: "(encode_frame f)[i := b] = ?prefix @ ?crc @ (fr_payload f)[i - 32 := b]"
      using 3 by (simp add: encode_frame_def list_update_append)
    have "crc32c ((fr_payload f)[i - 32 := b]) \<noteq> crc32c (fr_payload f)"
      using 3 late i by (intro crc32c_update) (simp_all add: encode_frame_def nth_append)
    then show ?thesis using header_back [OF ok, of "(fr_payload f)[i - 32 := b]"] ok
      by (simp add: damaged decode_frame_def header_of_def payload_length_back kWireHeaderBytes_def wire_fields_at
        make_error_def)
  qed
qed

end
