(* ===== verification/Protocol.thy ===== *)
theory Protocol
  imports Frames Job_Codec
begin

text \<open>
  The application protocol inside the frames (\<^verbatim>\<open>include/mf/transport/protocol.hpp\<close>,
  \<^verbatim>\<open>src/transport/protocol.cpp\<close>): opcodes, the envelope of a request or a reply, and the typed
  bodies. As in the store no encoder looks at the overflow flag of its writer, so an encoder is the
  bytes it writes. Every body starts with its layout revision; \<open>decode_body\<close> is the frame of every
  decoder: the layout, the fields, and at the end the check that nothing failed and nothing is left.

  The locale \<open>message\<close> states what a caller relies on: the body made from a message that fits its
  layout is decoded to that message. It is interpreted on every body of the protocol but the
  evidence body, which drops part of the record; \<open>evidence_body_back\<close> says exactly what arrives.
\<close>

section \<open>Opcodes\<close>

datatype op_code =
    OpPing | OpStatus | OpList | OpPropose | OpApprove | OpRearm | OpCancel | OpTick | OpExplain | OpConflicts
  | OpReportCompletion | OpReportRestoration | OpObserve | OpQuarantines | OpClearQuarantine
  | OpDrainRequest | OpDrainRelease | OpDrainQuery | OpDrainRefresh

definition op_codes :: "(op_code \<times> u16) list" where
  "op_codes =
     [(OpPing, 1), (OpStatus, 2), (OpList, 3), (OpPropose, 4), (OpApprove, 5), (OpRearm, 6), (OpCancel, 7),
      (OpTick, 8), (OpExplain, 9), (OpConflicts, 10), (OpReportCompletion, 11), (OpReportRestoration, 12),
      (OpObserve, 13), (OpQuarantines, 14), (OpClearQuarantine, 15), (OpDrainRequest, 100),
      (OpDrainRelease, 101), (OpDrainQuery, 102), (OpDrainRefresh, 103)]"

definition op_code_value :: "op_code \<Rightarrow> u16" where
  "op_code_value op = the (map_of op_codes op)"

definition is_known_op :: "u16 \<Rightarrow> bool" where
  "is_known_op v \<longleftrightarrow> v \<in> snd ` set op_codes"

text \<open>The operation a \<^verbatim>\<open>switch\<close> over the cast code selects, if any.\<close>

definition op_of :: "u16 \<Rightarrow> op_code option" where
  "op_of v = map_option fst (find (\<lambda>e. snd e = v) op_codes)"

definition kOpNames :: "(op_code \<times> string) list" where
  "kOpNames =
     [(OpPing, ''ping''), (OpStatus, ''status''), (OpList, ''list''), (OpPropose, ''propose''),
      (OpApprove, ''approve''), (OpRearm, ''rearm''), (OpCancel, ''cancel''), (OpTick, ''tick''),
      (OpExplain, ''explain''), (OpConflicts, ''conflicts''), (OpReportCompletion, ''report-completion''),
      (OpReportRestoration, ''report-restoration''), (OpObserve, ''observe''), (OpQuarantines, ''quarantines''),
      (OpClearQuarantine, ''clear-quarantine''), (OpDrainRequest, ''drain-request''),
      (OpDrainRelease, ''drain-release''), (OpDrainQuery, ''drain-query''), (OpDrainRefresh, ''drain-refresh''),
      (OpPing, ''reserved''), (OpPing, ''reserved-2'')]"

definition to_string_op :: "op_code \<Rightarrow> string" where
  "to_string_op op = name_of kOpNames op"

definition kStatusOk :: u16 where
  "kStatusOk = 0"

text \<open>A reply carries the number of an error code in place of the opcode.\<close>

definition all_error_codes :: "error_code list" where
  "all_error_codes =
     [Ok, InvalidArgument, NotFound, AlreadyExists, LimitExceeded, Overflow, StaleGeneration, StaleIncarnation,
      StaleRevision, StaleEvidence, StaleAttempt, StaleAuthority, PolicyDenied, StateConflict, WindowClosed,
      DependencyUnmet, EvidenceMissing, DrainFailed, DrainLeaseLost, RestorationFailed, Unauthorized, Busy, Cancelled,
      ShuttingDown, Timeout, IoError, CorruptState, VersionMismatch, Unsupported, Internal]"

definition error_code_value :: "error_code \<Rightarrow> u16" where
  "error_code_value c = of_nat (length (takeWhile (\<lambda>u. u \<noteq> c) all_error_codes))"

section \<open>The envelope\<close>

definition kEnvelopeLayout :: u16 where
  "kEnvelopeLayout = 1"

definition kBodyLayout :: u16 where
  "kBodyLayout = 1"

record rpc_envelope =
  ev_op :: u16
  ev_message :: string
  ev_body :: "byte list"

definition new_envelope :: rpc_envelope where
  "new_envelope = \<lparr>ev_op = 0, ev_message = [], ev_body = []\<rparr>"

definition encode_envelope :: "rpc_envelope \<Rightarrow> byte list" where
  "encode_envelope e = w_u16 kEnvelopeLayout @ w_u16 (ev_op e) @ w_str kMaxDetailLength (ev_message e) @
     w_blob kMaxFrameBytes (ev_body e)"

definition decode_envelope :: "byte list \<Rightarrow> rpc_envelope result" where
  "decode_envelope d =
     (let (layout, r) = rd_u16 (new_reader d) in
      if \<not> rd_ok r then Inl (make_error CorruptState ''rpc envelope is truncated'')
      else if layout \<noteq> kEnvelopeLayout then
        Inl (make_error VersionMismatch (''rpc envelope layout '' @ dec_word layout @ '' is not supported''))
      else
        let (op, r) = rd_u16 r; (message, r) = rd_str kMaxDetailLength r; (body, r) = rd_blob kMaxFrameBytes r in
        if \<not> rd_ok r \<or> \<not> at_end r then Inl (make_error CorruptState ''rpc envelope is malformed'')
        else Inr \<lparr>ev_op = op, ev_message = message, ev_body = body\<rparr>)"

section \<open>Typed bodies\<close>

definition decode_body :: "string \<Rightarrow> 'a decoder \<Rightarrow> ('a \<Rightarrow> bool) \<Rightarrow> byte list \<Rightarrow> 'a result" where
  "decode_body what body accept d =
     (let (layout, r) = rd_u16 (new_reader d) in
      if layout \<noteq> kBodyLayout then Inl (make_error CorruptState (what @ '' layout is not supported''))
      else dbind (body r) (\<lambda>x r.
        if \<not> rd_ok r \<or> \<not> at_end r \<or> \<not> accept x then Inl (make_error CorruptState (what @ '' is malformed''))
        else Inr x))"

text \<open>The bounded loop: a count over its bound is a limit error here.\<close>

definition rd_bounded :: "string \<Rightarrow> nat \<Rightarrow> 'a decoder \<Rightarrow> 'a list decoder" where
  "rd_bounded what limit dec r =
     (let (count, r) = rd_u32 r in
      if \<not> rd_ok r \<or> unat count > limit then Inl (make_error LimitExceeded what)
      else read_items dec (unat count) r)"

definition encode_actor :: "string \<Rightarrow> string \<Rightarrow> byte list" where
  "encode_actor actor reason = w_u16 kBodyLayout @ w_str kMaxNameLength actor @ w_str kMaxReasonLength reason"

definition decode_actor :: "byte list \<Rightarrow> (string \<times> string) result" where
  "decode_actor = decode_body ''actor body''
     (\<lambda>r. let (actor, r) = rd_str kMaxNameLength r; (reason, r) = rd_str kMaxReasonLength r in
       Inr ((actor, reason), r)) (\<lambda>_. True)"

definition encode_request_body :: "maintenance_request \<Rightarrow> byte list" where
  "encode_request_body q =
     w_u16 kBodyLayout @ w_str kMaxTitleLength (mr_title q) @ w_str kMaxReasonLength (mr_reason q) @
     w_counted w_target (mr_targets q) @ w_counted w_u64 (mr_depends_on q) @ w_counted w_u64 (mr_window_filter q) @
     w_u32 (mr_priority q) @ w_i64 (mr_estimated_duration q) @ w_bool (mr_requires_drain q) @ w_u64 (mr_requestor q)"

definition rd_request_target :: "target_id decoder" where
  "rd_request_target r =
     (let (t, r) = rd_target r in
      if \<not> target_valid t then Inl (make_error CorruptState ''request body carries an invalid target'')
      else Inr (t, r))"

definition rd_request_body :: "maintenance_request decoder" where
  "rd_request_body r =
     (let (title, r) = rd_str kMaxTitleLength r; (reason, r) = rd_str kMaxReasonLength r in
      dbind (rd_bounded ''request body declares too many targets'' kMaxTargetsPerJob rd_request_target r) (\<lambda>targets r.
      dbind (rd_bounded ''request body declares too many dependencies'' kMaxDependenciesPerJob (plain rd_u64) r) (\<lambda>deps r.
      dbind (rd_bounded ''request body declares too many windows'' kMaxWindowRules (plain rd_u64) r) (\<lambda>windows r.
        let (priority, r) = rd_u32 r; (duration, r) = rd_i64 r; (drain, r) = rd_bool r; (requestor, r) = rd_u64 r in
        Inr (\<lparr>mr_title = title, mr_reason = reason, mr_targets = targets, mr_depends_on = deps,
              mr_window_filter = windows, mr_priority = priority, mr_estimated_duration = duration,
              mr_requires_drain = drain, mr_requestor = requestor\<rparr>, r)))))"

definition decode_request_body :: "byte list \<Rightarrow> maintenance_request result" where
  "decode_request_body = decode_body ''request body'' rd_request_body (\<lambda>_. True)"

definition encode_job_ref :: "job_id \<Rightarrow> string \<Rightarrow> byte list" where
  "encode_job_ref j text = w_u16 kBodyLayout @ w_u64 j @ w_str kMaxReasonLength text"

definition decode_job_ref :: "byte list \<Rightarrow> (job_id \<times> string) result" where
  "decode_job_ref = decode_body ''job reference''
     (\<lambda>r. let (j, r) = rd_u64 r; (text, r) = rd_str kMaxReasonLength r in Inr ((j, text), r)) (\<lambda>_. True)"

definition encode_snapshot :: "job_snapshot \<Rightarrow> byte list" where
  "encode_snapshot s =
     w_u16 kBodyLayout @ w_u64 (sn_id s) @ w_u64 (sn_generation s) @ w_u64 (sn_revision s) @
     w_u32 (of_nat (job_state_code (sn_state s))) @ w_u32 (block_reason_code (sn_block s)) @
     w_str kMaxDetailLength (sn_block_detail s) @ w_counted w_target (sn_targets s) @ w_u32 (sn_priority s) @
     w_bool (sn_service_removed s) @ w_bool (sn_overrun s) @ w_u64 (sn_authority s) @ w_u64 (sn_lease s) @
     w_attempt (sn_active_attempt s) @ w_i64 (sn_created_at s) @ w_i64 (sn_updated_at s)"

definition rd_snapshot :: "job_snapshot decoder" where
  "rd_snapshot r =
     (let (i, r) = rd_u64 r; (g, r) = rd_u64 r; (rev, r) = rd_u64 r; (state, r) = rd_u32 r; (block, r) = rd_u32 r in
      case (enum_of all_job_states state, enum_of (map fst kBlockNames) block) of
        (Some st, Some why) \<Rightarrow>
          let (detail, r) = rd_str kMaxDetailLength r in
          dbind (rd_bounded ''snapshot declares too many targets'' kMaxTargetsPerJob (plain rd_target) r) (\<lambda>targets r.
            let (priority, r) = rd_u32 r; (removed, r) = rd_bool r; (over, r) = rd_bool r; (authority, r) = rd_u64 r;
                (lease, r) = rd_u64 r; (attempt, r) = rd_attempt r; (created, r) = rd_i64 r; (updated, r) = rd_i64 r in
            Inr (\<lparr>sn_id = i, sn_generation = g, sn_revision = rev, sn_state = st, sn_block = why,
                  sn_block_detail = detail, sn_targets = targets, sn_priority = priority,
                  sn_service_removed = removed, sn_overrun = over, sn_authority = authority, sn_lease = lease,
                  sn_active_attempt = attempt, sn_created_at = created, sn_updated_at = updated\<rparr>, r))
      | _ \<Rightarrow> Inl (make_error CorruptState ''snapshot carries an unknown enumeration''))"

definition decode_snapshot :: "byte list \<Rightarrow> job_snapshot result" where
  "decode_snapshot = decode_body ''snapshot'' rd_snapshot (\<lambda>_. True)"

text \<open>Only the first \<^verbatim>\<open>kMaxJobsPerArbitration\<close> snapshots are sent.\<close>

definition encode_snapshot_list :: "job_snapshot list \<Rightarrow> byte list" where
  "encode_snapshot_list ss =
     w_u16 kBodyLayout @
     w_counted (\<lambda>s. w_blob (kMaxFrameBytes div 2) (encode_snapshot s)) (take kMaxJobsPerArbitration ss)"

definition rd_snapshot_entry :: "job_snapshot decoder" where
  "rd_snapshot_entry r =
     (let (blob, r) = rd_blob (kMaxFrameBytes div 2) r in
      if \<not> rd_ok r then Inl (make_error CorruptState ''snapshot list is malformed'')
      else case decode_snapshot blob of Inl e \<Rightarrow> Inl e | Inr s \<Rightarrow> Inr (s, r))"

definition decode_snapshot_list :: "byte list \<Rightarrow> job_snapshot list result" where
  "decode_snapshot_list d =
     (let (layout, r) = rd_u16 (new_reader d) in
      if layout \<noteq> kBodyLayout then Inl (make_error CorruptState ''snapshot list layout is not supported'')
      else dbind (rd_bounded ''snapshot list declares too many entries'' kMaxJobsPerArbitration rd_snapshot_entry r)
        (\<lambda>ss r. if \<not> at_end r then Inl (make_error CorruptState ''snapshot list has trailing bytes'') else Inr ss))"

definition encode_job_actor :: "job_id \<Rightarrow> string \<Rightarrow> string \<Rightarrow> byte list" where
  "encode_job_actor j actor reason =
     w_u16 kBodyLayout @ w_u64 j @ w_str kMaxNameLength actor @ w_str kMaxReasonLength reason"

text \<open>The fields of a job or quarantine reference with the actor and the reason.\<close>

definition rd_job_actor :: "(u64 \<times> string \<times> string) decoder" where
  "rd_job_actor r =
     (let (i, r) = rd_u64 r; (actor, r) = rd_str kMaxNameLength r; (reason, r) = rd_str kMaxReasonLength r in
      Inr ((i, actor, reason), r))"

definition decode_job_actor :: "byte list \<Rightarrow> (job_id \<times> string \<times> string) result" where
  "decode_job_actor = decode_body ''job-actor body'' rd_job_actor (\<lambda>x. id_valid (fst x))"

definition encode_quarantine_clear :: "quarantine_id \<Rightarrow> string \<Rightarrow> string \<Rightarrow> byte list" where
  "encode_quarantine_clear i actor justification =
     w_u16 kBodyLayout @ w_u64 i @ w_str kMaxNameLength actor @ w_str kMaxReasonLength justification"

definition decode_quarantine_clear :: "byte list \<Rightarrow> (quarantine_id \<times> string \<times> string) result" where
  "decode_quarantine_clear = decode_body ''quarantine-clear body'' rd_job_actor (\<lambda>x. id_valid (fst x))"

definition encode_completion_report :: "job_id \<Rightarrow> attempt_id \<Rightarrow> bool \<Rightarrow> string \<Rightarrow> byte list" where
  "encode_completion_report j attempt succeeded detail =
     w_u16 kBodyLayout @ w_u64 j @ w_attempt attempt @ w_bool succeeded @ w_str kMaxDetailLength detail"

definition rd_completion_report :: "(job_id \<times> attempt_id \<times> bool \<times> string) decoder" where
  "rd_completion_report r =
     (let (j, r) = rd_u64 r; (attempt, r) = rd_attempt r; (succeeded, r) = rd_bool r;
          (detail, r) = rd_str kMaxDetailLength r in Inr ((j, attempt, succeeded, detail), r))"

definition decode_completion_report :: "byte list \<Rightarrow> (job_id \<times> attempt_id \<times> bool \<times> string) result" where
  "decode_completion_report = decode_body ''completion report'' rd_completion_report
     (\<lambda>(j, attempt, _). attempt_valid attempt \<and> id_valid j)"

definition encode_restoration_report :: "job_id \<Rightarrow> attempt_id \<Rightarrow> target_id \<Rightarrow> bool \<Rightarrow> string \<Rightarrow> byte list" where
  "encode_restoration_report j attempt t good detail =
     w_u16 kBodyLayout @ w_u64 j @ w_attempt attempt @ w_target t @ w_bool good @ w_str kMaxDetailLength detail"

definition rd_restoration_report :: "(job_id \<times> attempt_id \<times> target_id \<times> bool \<times> string) decoder" where
  "rd_restoration_report r =
     (let (j, r) = rd_u64 r; (attempt, r) = rd_attempt r; (t, r) = rd_target r; (good, r) = rd_bool r;
          (detail, r) = rd_str kMaxDetailLength r in Inr ((j, attempt, t, good, detail), r))"

definition decode_restoration_report :: "byte list \<Rightarrow> (job_id \<times> attempt_id \<times> target_id \<times> bool \<times> string) result" where
  "decode_restoration_report = decode_body ''restoration report'' rd_restoration_report
     (\<lambda>(j, attempt, t, _). attempt_valid attempt \<and> target_valid t \<and> id_valid j)"

text \<open>
  Evidence: the identity of the record, the incarnation, the attempt and the digest are not sent, and
  of the subject only the target is.
\<close>

definition encode_evidence_body :: "evidence_record \<Rightarrow> byte list" where
  "encode_evidence_body e =
     (let key = er_key e; payload = er_payload e in
      w_u16 kBodyLayout @ w_u32 (of_nat (evidence_kind_code (ek_kind key))) @
      w_u32 (of_nat (subject_kind_code (sub_kind (ek_subject key)))) @ w_target (sub_target (ek_subject key)) @
      w_u64 (ek_source key) @ w_u64 (er_revision e) @ w_i64 (er_observed_at e) @ w_i64 (er_ttl e) @
      w_u32 (evidence_class_code (er_klass e)) @ w_u32 (health_code (ep_health payload)) @
      w_u32 (ep_available_units payload) @ w_u32 (ep_total_units payload) @ w_bool (ep_result payload) @
      w_u32 (ep_count payload) @ w_u64 (er_job e))"

definition rd_evidence_body :: "evidence_record decoder" where
  "rd_evidence_body r =
     (let (kind, r) = rd_u32 r; (subject_kind, r) = rd_u32 r in
      if kind = 0 then Inl (make_error CorruptState ''evidence body carries an unknown key'')
      else case (enum_of all_evidence_kinds (kind - 1), enum_of all_subject_kinds subject_kind) of
        (Some k, Some sk) \<Rightarrow>
          let (t, r) = rd_target r; (source, r) = rd_u64 r; (rev, r) = rd_u64 r; (observed_at, r) = rd_i64 r;
              (ttl, r) = rd_i64 r; (klass, r) = rd_u32 r; (health, r) = rd_u32 r in
          (case (enum_of all_evidence_classes klass, enum_of all_healths health) of
             (Some c, Some h) \<Rightarrow>
               let (payload, r) = rd_evidence_payload r h; (j, r) = rd_u64 r in
               Inr (\<lparr>er_id = 0, er_key = EvidenceKey k (EvidenceSubject sk t (DomainId DkUnknown 0) 0 0) source,
                     er_revision = rev, er_observed_at = observed_at, er_ttl = ttl, er_klass = c,
                     er_payload = payload, er_observed_by = no_incarnation, er_job = j, er_attempt = no_attempt,
                     er_digest = 0\<rparr>, r)
           | _ \<Rightarrow> Inl (make_error CorruptState ''evidence body carries an unknown enumeration''))
      | _ \<Rightarrow> Inl (make_error CorruptState ''evidence body carries an unknown key''))"

definition decode_evidence_body :: "byte list \<Rightarrow> evidence_record result" where
  "decode_evidence_body = decode_body ''evidence body'' rd_evidence_body (\<lambda>_. True)"

definition encode_drain_request_body :: "drain_request \<Rightarrow> byte list" where
  "encode_drain_request_body q =
     w_u16 kBodyLayout @ w_u64 (dq_job q) @ w_u64 (dq_generation q) @ w_attempt (dq_attempt q) @
     w_counted w_target (dq_targets q) @ w_i64 (dq_lease_duration q) @ w_str kMaxReasonLength (dq_reason q) @
     w_incarnation (dq_requester q)"

definition rd_drain_request_body :: "drain_request decoder" where
  "rd_drain_request_body r =
     (let (j, r) = rd_u64 r; (g, r) = rd_u64 r; (attempt, r) = rd_attempt r in
      dbind (rd_bounded ''drain request declares too many targets'' kMaxDrainTargetsPerRequest (plain rd_target) r) (\<lambda>targets r.
        let (duration, r) = rd_i64 r; (reason, r) = rd_str kMaxReasonLength r; (requester, r) = rd_incarnation r in
        Inr (\<lparr>dq_job = j, dq_generation = g, dq_attempt = attempt, dq_targets = targets,
              dq_lease_duration = duration, dq_reason = reason, dq_requester = requester\<rparr>, r)))"

definition decode_drain_request_body :: "byte list \<Rightarrow> drain_request result" where
  "decode_drain_request_body = decode_body ''drain request'' rd_drain_request_body (\<lambda>_. True)"

definition encode_drain_lease_body :: "drain_lease \<Rightarrow> byte list" where
  "encode_drain_lease_body l =
     w_u16 kBodyLayout @ w_u64 (le_id l) @ w_counted w_target (le_targets l) @ w_i64 (le_granted_at l) @
     w_i64 (le_expires_at l) @ w_u32 (drain_state_code (le_state l)) @ w_attempt (le_attempt l) @
     w_incarnation (le_owner l) @ w_u64 (le_epoch l)"

definition rd_drain_lease_body :: "drain_lease decoder" where
  "rd_drain_lease_body r =
     (let (i, r) = rd_u64 r in
      dbind (rd_bounded ''drain lease declares too many targets'' kMaxDrainTargetsPerRequest (plain rd_target) r) (\<lambda>targets r.
        let (granted_at, r) = rd_i64 r; (expires_at, r) = rd_i64 r; (state, r) = rd_u32 r in
        case enum_of (map fst kDrainNames) state of
          None \<Rightarrow> Inl (make_error CorruptState ''drain lease carries an unknown state'')
        | Some st \<Rightarrow>
            let (attempt, r) = rd_attempt r; (owner, r) = rd_incarnation r; (epoch, r) = rd_u64 r in
            Inr (\<lparr>le_id = i, le_targets = targets, le_granted_at = granted_at, le_expires_at = expires_at,
                  le_state = st, le_attempt = attempt, le_owner = owner, le_epoch = epoch\<rparr>, r)))"

definition decode_drain_lease_body :: "byte list \<Rightarrow> drain_lease result" where
  "decode_drain_lease_body = decode_body ''drain lease'' rd_drain_lease_body (\<lambda>_. True)"

definition encode_drain_lease_ref :: "lease_id \<Rightarrow> incarnation \<Rightarrow> nanos \<Rightarrow> byte list" where
  "encode_drain_lease_ref l requester extension = w_u16 kBodyLayout @ w_u64 l @ w_incarnation requester @ w_i64 extension"

definition decode_drain_lease_ref :: "byte list \<Rightarrow> (lease_id \<times> incarnation \<times> nanos) result" where
  "decode_drain_lease_ref = decode_body ''drain lease reference''
     (\<lambda>r. let (l, r) = rd_u64 r; (requester, r) = rd_incarnation r; (extension, r) = rd_i64 r in
       Inr ((l, requester, extension), r)) (\<lambda>_. True)"

definition encode_text_body :: "string \<Rightarrow> byte list" where
  "encode_text_body text = w_u16 kBodyLayout @ w_blob (kMaxFrameBytes div 2) (bytes_of text)"

definition decode_text_body :: "byte list \<Rightarrow> string result" where
  "decode_text_body = decode_body ''text body''
     (\<lambda>r. let (blob, r) = rd_blob (kMaxFrameBytes div 2) r in Inr (string_of_bytes blob, r)) (\<lambda>_. True)"

definition encode_i64_body :: "nanos \<Rightarrow> byte list" where
  "encode_i64_body v = w_u16 kBodyLayout @ w_i64 v"

definition decode_i64_body :: "byte list \<Rightarrow> nanos result" where
  "decode_i64_body = decode_body ''integer body'' (\<lambda>r. let (v, r) = rd_i64 r in Inr (v, r)) (\<lambda>_. True)"

section \<open>Opcodes and the envelope\<close>

lemma op_of_value [simp]: "op_of (op_code_value op) = Some op"
  by (cases op) (simp_all add: op_of_def op_code_value_def op_codes_def)

lemma error_code_value_inj: "error_code_value a = error_code_value b \<Longrightarrow> a = b"
proof -
  have "all_error_codes ! unat (error_code_value c) = c" for c
    by (cases c) (simp_all add: error_code_value_def all_error_codes_def)
  then show "error_code_value a = error_code_value b \<Longrightarrow> a = b" by metis
qed

lemma error_code_value_ok: "error_code_value c = kStatusOk \<longleftrightarrow> c = Ok"
  using error_code_value_inj [of c Ok] by (auto simp: kStatusOk_def error_code_value_def all_error_codes_def)

lemma known_iff: "is_known_op v \<longleftrightarrow> op_of v \<noteq> None"
  by (force simp: is_known_op_def op_of_def find_None_iff)

text \<open>What arrives of an envelope: a message or a body over its bound arrives empty.\<close>

definition delivered_envelope :: "rpc_envelope \<Rightarrow> rpc_envelope" where
  "delivered_envelope e =
     \<lparr>ev_op = ev_op e,
      ev_message = (if length (ev_message e) \<le> kMaxDetailLength then ev_message e else []),
      ev_body = (if length (ev_body e) \<le> kMaxFrameBytes then ev_body e else [])\<rparr>"

lemma w_str_clipped: "w_str limit s = w_str limit (if str_fits limit s then s else [])"
  by (simp add: w_str_def str_fits_def bytes_of_def)

lemma w_blob_clipped: "w_blob limit d = w_blob limit (if blob_fits limit d then d else [])"
  by (simp add: w_blob_def blob_fits_def)

lemma str_clipped: "rd_str limit (Reader (w_str limit s @ rest) True) = ((if str_fits limit s then s else []), Reader rest True)"
  by (subst w_str_clipped) (rule str_back, simp add: str_fits_def)

lemma blob_clipped:
  "rd_blob limit (Reader (w_blob limit d @ rest) True) = ((if blob_fits limit d then d else []), Reader rest True)"
  by (subst w_blob_clipped) (rule blob_back, simp add: blob_fits_def)

lemmas blob_clipped_last = blob_clipped [where rest = "[]", simplified]

lemma envelope_back: "decode_envelope (encode_envelope e) = Inr (delivered_envelope e)"
  by (simp add: decode_envelope_def encode_envelope_def new_reader_def u16_back str_clipped blob_clipped_last at_end_def
    delivered_envelope_def str_fits_def blob_fits_def limits)

section \<open>Messages\<close>

locale message =
  fixes enc :: "'a \<Rightarrow> byte list" and decode :: "byte list \<Rightarrow> 'a result" and fits :: "'a \<Rightarrow> bool"
  assumes delivered: "fits x \<Longrightarrow> decode (enc x) = Inr x"
begin

lemma unambiguous: "fits x \<Longrightarrow> fits y \<Longrightarrow> enc x = enc y \<Longrightarrow> x = y"
  by (metis delivered sum.inject(2))

text \<open>In an envelope whose body is within its bound the message travels with any status.\<close>

lemma enveloped:
  assumes "fits x" "length (enc x) \<le> kMaxFrameBytes"
  shows "\<exists>e. decode_envelope (encode_envelope \<lparr>ev_op = op, ev_message = m, ev_body = enc x\<rparr>) = Inr e \<and>
    ev_op e = op \<and> decode (ev_body e) = Inr x"
  using assms by (simp add: envelope_back delivered_envelope_def delivered)

end

context codec
begin

lemma bounded_back:
  assumes "list_all fits xs" "length xs \<le> limit" "limit < 2 ^ 32"
  shows "rd_bounded what limit dec (Reader (w_counted wr xs @ rest) True) = Inr (xs, Reader rest True)"
proof -
  have "unat (of_nat (length xs) :: u32) = length xs"
    using assms(2,3) by (simp add: unat_of_nat take_bit_nat_eq_self)
  with assms(1,2) show ?thesis by (simp add: rd_bounded_def w_counted_def u32_back items_back)
qed

end

interpretation any_target_codec: codec w_target "plain rd_target" "\<lambda>_. True"
  by unfold_locales (simp add: plain_def target_back)

interpretation request_target_codec: codec w_target rd_request_target target_valid
  by unfold_locales (simp add: rd_request_target_def target_back)

lemma decode_body_back:
  assumes "body (Reader bytes True) = Inr (x, Reader [] True)" "accept x"
  shows "decode_body what body accept (w_u16 kBodyLayout @ bytes) = Inr x"
  using assms by (simp add: decode_body_def new_reader_def u16_back at_end_def)

text \<open>The last field of a layout: nothing is left behind it.\<close>

lemmas str_last = str_back [where rest = "[]", simplified]
lemmas i64_last = i64_back [where rest = "[]", simplified]
lemmas incarnation_last = incarnation_back [where rest = "[]", simplified]

definition actor_fits :: "string \<times> string \<Rightarrow> bool" where
  "actor_fits x \<longleftrightarrow> length (fst x) \<le> kMaxNameLength \<and> length (snd x) \<le> kMaxReasonLength"

lemma short_strings:
  "length s \<le> kMaxNameLength \<Longrightarrow> str_fits kMaxNameLength s" "length s \<le> kMaxReasonLength \<Longrightarrow> str_fits kMaxReasonLength s"
  "length s \<le> kMaxTitleLength \<Longrightarrow> str_fits kMaxTitleLength s" "length s \<le> kMaxDetailLength \<Longrightarrow> str_fits kMaxDetailLength s"
  by (simp_all add: str_fits_def limits)

interpretation actor_msg: message "\<lambda>x. encode_actor (fst x) (snd x)" decode_actor actor_fits
  unfolding decode_actor_def encode_actor_def
  by (unfold_locales, rule decode_body_back) (auto simp: actor_fits_def str_back str_last short_strings)

definition request_fits :: "maintenance_request \<Rightarrow> bool" where
  "request_fits q \<longleftrightarrow> length (mr_title q) \<le> kMaxTitleLength \<and> length (mr_reason q) \<le> kMaxReasonLength \<and>
     list_all target_valid (mr_targets q) \<and> length (mr_targets q) \<le> kMaxTargetsPerJob \<and>
     length (mr_depends_on q) \<le> kMaxDependenciesPerJob \<and> length (mr_window_filter q) \<le> kMaxWindowRules \<and>
     i64_fits (mr_estimated_duration q)"

interpretation request_msg: message encode_request_body decode_request_body request_fits
proof
  fix q assume fits: "request_fits q"
  have lists:
    "rd_bounded what kMaxTargetsPerJob rd_request_target (Reader (w_counted w_target (mr_targets q) @ rest) True) =
       Inr (mr_targets q, Reader rest True)"
    "rd_bounded what kMaxDependenciesPerJob (plain rd_u64) (Reader (w_counted w_u64 (mr_depends_on q) @ rest) True) =
       Inr (mr_depends_on q, Reader rest True)"
    "rd_bounded what kMaxWindowRules (plain rd_u64) (Reader (w_counted w_u64 (mr_window_filter q) @ rest) True) =
       Inr (mr_window_filter q, Reader rest True)" for what rest
    using fits by (intro request_target_codec.bounded_back u64_codec.bounded_back; simp add: request_fits_def limits)+
  show "decode_request_body (encode_request_body q) = Inr q"
    unfolding decode_request_body_def encode_request_body_def using fits
    by (intro decode_body_back)
      (simp_all add: rd_request_body_def request_fits_def short_strings str_back lists u32_back i64_back bool_back u64_last)
qed

interpretation job_ref_msg: message "\<lambda>x. encode_job_ref (fst x) (snd x)" decode_job_ref
    "\<lambda>x. length (snd x) \<le> kMaxReasonLength"
  unfolding decode_job_ref_def encode_job_ref_def
  by (unfold_locales, rule decode_body_back) (auto simp: u64_back str_last short_strings)

definition snapshot_fits :: "job_snapshot \<Rightarrow> bool" where
  "snapshot_fits s \<longleftrightarrow> length (sn_block_detail s) \<le> kMaxDetailLength \<and> length (sn_targets s) \<le> kMaxTargetsPerJob \<and>
     i64_fits (sn_created_at s) \<and> i64_fits (sn_updated_at s)"

interpretation snapshot_msg: message encode_snapshot decode_snapshot snapshot_fits
proof
  fix s assume fits: "snapshot_fits s"
  have targets: "rd_bounded what kMaxTargetsPerJob (plain rd_target) (Reader (w_counted w_target (sn_targets s) @ rest) True) =
      Inr (sn_targets s, Reader rest True)" for what rest
    using fits by (intro any_target_codec.bounded_back) (simp_all add: snapshot_fits_def limits)
  show "decode_snapshot (encode_snapshot s) = Inr s"
    unfolding decode_snapshot_def encode_snapshot_def using fits
    by (intro decode_body_back)
      (simp_all add: rd_snapshot_def snapshot_fits_def short_strings u64_back u32_back job_state_back block_reason_back
        str_back targets bool_back attempt_back i64_back i64_last)
qed

definition listed_fits :: "job_snapshot \<Rightarrow> bool" where
  "listed_fits s \<longleftrightarrow> snapshot_fits s \<and> length (encode_snapshot s) \<le> kMaxFrameBytes div 2"

interpretation snapshot_entry_codec: codec "\<lambda>s. w_blob (kMaxFrameBytes div 2) (encode_snapshot s)" rd_snapshot_entry
    listed_fits
proof
  fix s rest assume "listed_fits s"
  then have "blob_fits (kMaxFrameBytes div 2) (encode_snapshot s)" "snapshot_fits s"
    by (simp_all add: listed_fits_def blob_fits_def limits)
  then show "rd_snapshot_entry (Reader (w_blob (kMaxFrameBytes div 2) (encode_snapshot s) @ rest) True) = Inr (s, Reader rest True)"
    by (simp add: rd_snapshot_entry_def blob_back snapshot_msg.delivered)
qed

text \<open>A list arrives cut to the number of jobs one arbitration considers.\<close>

lemma snapshot_list_back:
  assumes "list_all listed_fits ss"
  shows "decode_snapshot_list (encode_snapshot_list ss) = Inr (take kMaxJobsPerArbitration ss)"
proof -
  have fits: "list_all listed_fits (take kMaxJobsPerArbitration ss)"
    using assms by (auto simp: list_all_iff dest: in_set_takeD)
  have "rd_bounded what kMaxJobsPerArbitration rd_snapshot_entry
      (Reader (w_counted (\<lambda>s. w_blob (kMaxFrameBytes div 2) (encode_snapshot s)) (take kMaxJobsPerArbitration ss)) True) =
      Inr (take kMaxJobsPerArbitration ss, Reader [] True)" for what
    using snapshot_entry_codec.bounded_back [OF fits, of kMaxJobsPerArbitration what "[]"] by (simp add: limits)
  then show ?thesis
    by (simp add: decode_snapshot_list_def encode_snapshot_list_def new_reader_def u16_back at_end_def)
qed

definition job_actor_fits :: "u64 \<times> string \<times> string \<Rightarrow> bool" where
  "job_actor_fits x \<longleftrightarrow> id_valid (fst x) \<and> actor_fits (snd x)"

interpretation job_actor_msg: message "\<lambda>(j, actor, reason). encode_job_actor j actor reason" decode_job_actor job_actor_fits
  unfolding decode_job_actor_def
  by (unfold_locales, clarsimp simp only: encode_job_actor_def prod.case, rule decode_body_back)
    (auto simp: job_actor_fits_def actor_fits_def rd_job_actor_def u64_back str_back str_last short_strings)

interpretation quarantine_clear_msg: message "\<lambda>(i, actor, reason). encode_quarantine_clear i actor reason"
    decode_quarantine_clear job_actor_fits
  unfolding decode_quarantine_clear_def
  by (unfold_locales, clarsimp simp only: encode_quarantine_clear_def prod.case, rule decode_body_back)
    (auto simp: job_actor_fits_def actor_fits_def rd_job_actor_def u64_back str_back str_last short_strings)

definition completion_fits :: "job_id \<times> attempt_id \<times> bool \<times> string \<Rightarrow> bool" where
  "completion_fits = (\<lambda>(j, attempt, ok, detail). id_valid j \<and> attempt_valid attempt \<and> length detail \<le> kMaxDetailLength)"

interpretation completion_msg: message "\<lambda>(j, attempt, ok, detail). encode_completion_report j attempt ok detail"
    decode_completion_report completion_fits
  unfolding decode_completion_report_def
  by (unfold_locales, clarsimp simp only: encode_completion_report_def prod.case, rule decode_body_back)
    (auto simp: completion_fits_def rd_completion_report_def u64_back attempt_back bool_back str_last short_strings)

definition restoration_fits :: "job_id \<times> attempt_id \<times> target_id \<times> bool \<times> string \<Rightarrow> bool" where
  "restoration_fits = (\<lambda>(j, attempt, t, ok, detail). id_valid j \<and> attempt_valid attempt \<and> target_valid t \<and>
     length detail \<le> kMaxDetailLength)"

interpretation restoration_msg: message
    "\<lambda>(j, attempt, t, ok, detail). encode_restoration_report j attempt t ok detail" decode_restoration_report restoration_fits
  unfolding decode_restoration_report_def
  by (unfold_locales, clarsimp simp only: encode_restoration_report_def prod.case, rule decode_body_back)
    (auto simp: restoration_fits_def rd_restoration_report_def u64_back attempt_back target_back bool_back str_last
      short_strings)

text \<open>What arrives of an evidence record.\<close>

definition wire_evidence :: "evidence_record \<Rightarrow> evidence_record" where
  "wire_evidence e = e\<lparr>er_id := 0,
     er_key := EvidenceKey (ek_kind (er_key e))
       (EvidenceSubject (sub_kind (ek_subject (er_key e))) (sub_target (ek_subject (er_key e))) (DomainId DkUnknown 0) 0 0)
       (ek_source (er_key e)),
     er_observed_by := no_incarnation, er_attempt := no_attempt, er_digest := 0\<rparr>"

lemma evidence_body_back:
  assumes "i64_fits (er_observed_at e)" "i64_fits (er_ttl e)"
  shows "decode_evidence_body (encode_evidence_body e) = Inr (wire_evidence e)"
  unfolding decode_evidence_body_def encode_evidence_body_def Let_def using assms
  by (intro decode_body_back)
    (simp_all add: rd_evidence_body_def u32_back enum_backs target_back u64_back i64_back evidence_payload_back u64_last
      wire_evidence_def)

text \<open>Observations of two pools, domains or contracts by the same source are the same bytes.\<close>

lemma evidence_body_forgets:
  "encode_evidence_body (e\<lparr>er_key := EvidenceKey k (EvidenceSubject sk t d p ct) source\<rparr>) =
   encode_evidence_body (e\<lparr>er_key := EvidenceKey k (EvidenceSubject sk t d' p' ct') source\<rparr>)"
  by (simp add: encode_evidence_body_def)

definition drain_request_fits :: "drain_request \<Rightarrow> bool" where
  "drain_request_fits q \<longleftrightarrow> length (dq_targets q) \<le> kMaxDrainTargetsPerRequest \<and> i64_fits (dq_lease_duration q) \<and>
     length (dq_reason q) \<le> kMaxReasonLength"

interpretation drain_request_msg: message encode_drain_request_body decode_drain_request_body drain_request_fits
proof
  fix q assume fits: "drain_request_fits q"
  have targets: "rd_bounded what kMaxDrainTargetsPerRequest (plain rd_target)
      (Reader (w_counted w_target (dq_targets q) @ rest) True) = Inr (dq_targets q, Reader rest True)" for what rest
    using fits by (intro any_target_codec.bounded_back) (simp_all add: drain_request_fits_def limits)
  show "decode_drain_request_body (encode_drain_request_body q) = Inr q"
    unfolding decode_drain_request_body_def encode_drain_request_body_def using fits
    by (intro decode_body_back)
      (simp_all add: rd_drain_request_body_def drain_request_fits_def u64_back attempt_back targets i64_back str_back
        short_strings incarnation_last)
qed

definition drain_lease_fits :: "drain_lease \<Rightarrow> bool" where
  "drain_lease_fits l \<longleftrightarrow> length (le_targets l) \<le> kMaxDrainTargetsPerRequest \<and> i64_fits (le_granted_at l) \<and>
     i64_fits (le_expires_at l)"

interpretation drain_lease_msg: message encode_drain_lease_body decode_drain_lease_body drain_lease_fits
proof
  fix l assume fits: "drain_lease_fits l"
  have targets: "rd_bounded what kMaxDrainTargetsPerRequest (plain rd_target)
      (Reader (w_counted w_target (le_targets l) @ rest) True) = Inr (le_targets l, Reader rest True)" for what rest
    using fits by (intro any_target_codec.bounded_back) (simp_all add: drain_lease_fits_def limits)
  show "decode_drain_lease_body (encode_drain_lease_body l) = Inr l"
    unfolding decode_drain_lease_body_def encode_drain_lease_body_def using fits
    by (intro decode_body_back)
      (simp_all add: rd_drain_lease_body_def drain_lease_fits_def u64_back targets i64_back u32_back drain_state_back
        attempt_back incarnation_back u64_last)
qed

interpretation drain_lease_ref_msg: message "\<lambda>(l, requester, extension). encode_drain_lease_ref l requester extension"
    decode_drain_lease_ref "\<lambda>x. i64_fits (snd (snd x))"
  unfolding decode_drain_lease_ref_def
  by (unfold_locales, clarsimp simp only: encode_drain_lease_ref_def prod.case, rule decode_body_back)
    (auto simp: u64_back incarnation_back i64_last)

interpretation text_msg: message encode_text_body decode_text_body "\<lambda>t. length t \<le> kMaxFrameBytes div 2"
  unfolding decode_text_body_def encode_text_body_def
  by (unfold_locales, rule decode_body_back) (simp_all add: blob_clipped_last blob_fits_def limits)

interpretation i64_msg: message encode_i64_body decode_i64_body i64_fits
  unfolding decode_i64_body_def encode_i64_body_def
  by (unfold_locales, rule decode_body_back) (simp_all add: i64_last)

section \<open>Sizes\<close>

lemma w_counted_length: "(\<And>x. length (w x) = n) \<Longrightarrow> length (w_counted w xs) = 4 + n * length xs"
  by (simp add: w_counted_def w_items_def length_concat comp_def sum_list_triv)

lemma w_fixed_lengths [simp]:
  "length (w_target t) = 8" "length (w_attempt a) = 24" "length (w_incarnation i) = 24"
  "length (w_counted w_target ts) = 4 + 8 * length ts"
  by (simp_all add: w_target_def w_attempt_def w_incarnation_def w_counted_length)

lemma w_str_length: "length (w_str limit s) \<le> 2 + limit"
  by (simp add: w_str_def str_fits_def)

lemma drain_bodies_small:
  "drain_request_fits q \<Longrightarrow> length (encode_drain_request_body q) \<le> 8192"
  "drain_lease_fits l \<Longrightarrow> length (encode_drain_lease_body l) \<le> 8192"
  "length (encode_drain_lease_ref i requester extension) \<le> 8192"
  using w_str_length [of kMaxReasonLength "dq_reason q"]
  by (simp_all add: encode_drain_request_body_def encode_drain_lease_body_def encode_drain_lease_ref_def
    drain_request_fits_def drain_lease_fits_def limits)

end
