(* ===== verification/Rpc.thy ===== *)
theory Rpc
  imports Protocol
begin

text \<open>
  Requests and responses over a connection (\<^verbatim>\<open>src/transport/server.cpp\<close>, \<^verbatim>\<open>src/transport/client.cpp\<close>).
  A connection is, for each side, the bytes it can still read and the bytes it has written; in what
  portions they arrive does not matter to \<^verbatim>\<open>recv_exact\<close>, which either yields as many bytes as it was
  asked for or fails. \<open>serve\<close> is the loop one server thread runs on one connection; the request
  handler is an argument that carries its own state, and which sends succeed is an argument too.
  \<open>client_call\<close> sends one frame and reads one frame; the wire between the two is its argument.

  The queue between the accepting thread and the workers is the state machine of the last section.

  The lemmas show that the requests of a connection are answered one by one in their order, that the
  client accepts nothing but an intact frame with the identity of its request, and that a request and
  its response cross an intact connection unchanged.
\<close>

section \<open>One connection of the server\<close>

definition recv_exact :: "nat \<Rightarrow> byte list \<Rightarrow> (byte list \<times> byte list) option" where
  "recv_exact n input = (if length input < n then None else Some (take n input, drop n input))"

record server_stats =
  ss_accepted :: u64
  ss_rejected :: u64
  ss_handled :: u64
  ss_failures :: u64
  ss_frames_in :: u64
  ss_frames_out :: u64
  ss_bytes_in :: u64
  ss_bytes_out :: u64

definition no_server_stats :: server_stats where
  "no_server_stats = \<lparr>ss_accepted = 0, ss_rejected = 0, ss_handled = 0, ss_failures = 0, ss_frames_in = 0,
     ss_frames_out = 0, ss_bytes_in = 0, ss_bytes_out = 0\<rparr>"

record session =
  se_input :: "byte list"
  se_output :: "byte list"
  se_sends :: nat
  se_stats :: server_stats

text \<open>The handler fills in a response and may refuse; \<open>'s\<close> is what it works on.\<close>

type_synonym 's handler = "frame \<Rightarrow> frame \<Rightarrow> 's \<Rightarrow> status \<times> frame \<times> 's"

definition count_in :: "nat \<Rightarrow> server_stats \<Rightarrow> server_stats" where
  "count_in n st = st\<lparr>ss_bytes_in := ss_bytes_in st + of_nat n\<rparr>"

definition count_out :: "nat \<Rightarrow> server_stats \<Rightarrow> server_stats" where
  "count_out n st = st\<lparr>ss_bytes_out := ss_bytes_out st + of_nat n\<rparr>"

definition count_failure :: "server_stats \<Rightarrow> server_stats" where
  "count_failure st = st\<lparr>ss_failures := ss_failures st + 1\<rparr>"

definition send_all :: "(nat \<Rightarrow> write_outcome) \<Rightarrow> byte list \<Rightarrow> session \<Rightarrow> bool \<times> session" where
  "send_all sends d ses =
     (let (sent, output) = fwrite (sends (se_sends ses)) d (se_output ses) in
      (sent, ses\<lparr>se_output := output, se_sends := Suc (se_sends ses)\<rparr>))"

definition error_frame :: "error \<Rightarrow> frame \<Rightarrow> frame" where
  "error_frame e f = f\<lparr>fr_type := FtError, fr_payload := bytes_of (format_error e)\<rparr>"

definition answer :: "'s handler \<Rightarrow> frame \<Rightarrow> 's \<Rightarrow> frame \<times> 's" where
  "answer handler request s =
     (let (outcome, response, s) = handler request
            (new_frame\<lparr>fr_request_id := fr_request_id request, fr_type := Response\<rparr>) s in
      (case outcome of Inl e \<Rightarrow> error_frame e response | Inr _ \<Rightarrow> response, s))"

text \<open>One turn of the loop; the first component says whether there is another.\<close>

definition serve_request ::
    "'s handler \<Rightarrow> (nat \<Rightarrow> write_outcome) \<Rightarrow> frame \<Rightarrow> session \<Rightarrow> 's \<Rightarrow> bool \<times> session \<times> 's" where
  "serve_request handler sends request ses s =
     (let ses = ses\<lparr>se_stats := (se_stats ses)\<lparr>ss_frames_in := ss_frames_in (se_stats ses) + 1\<rparr>\<rparr>;
          (response, s) = answer handler request s;
          d = encode_frame response;
          (sent, ses) = send_all sends d ses in
      if \<not> sent then (False, ses, s)
      else
        let st = count_out (length d) (se_stats ses);
            st = st\<lparr>ss_frames_out := ss_frames_out st + 1, ss_handled := ss_handled st + 1\<rparr> in
        (fr_type request \<noteq> Goodbye, ses\<lparr>se_stats := st\<rparr>, s))"

definition serve_step ::
    "nat \<Rightarrow> 's handler \<Rightarrow> (nat \<Rightarrow> write_outcome) \<Rightarrow> session \<Rightarrow> 's \<Rightarrow> bool \<times> session \<times> 's" where
  "serve_step max_payload handler sends ses s =
     (case recv_exact kWireHeaderBytes (se_input ses) of
        None \<Rightarrow> (False, ses, s)
      | Some (header, rest) \<Rightarrow>
          let ses = ses\<lparr>se_input := rest, se_stats := count_in (length header) (se_stats ses)\<rparr> in
          case decode_frame_header header of
            Inl e \<Rightarrow>
              let d = encode_frame (error_frame e new_frame);
                  ses = ses\<lparr>se_stats := count_failure (se_stats ses)\<rparr>;
                  (_, ses) = send_all sends d ses in
              (False, ses\<lparr>se_stats := count_out (length d) (se_stats ses)\<rparr>, s)
          | Inr h \<Rightarrow>
              if unat (wh_payload_length h) > max_payload then
                (False, ses\<lparr>se_stats := count_failure (se_stats ses)\<rparr>, s)
              else case recv_exact (unat (wh_payload_length h)) (se_input ses) of
                None \<Rightarrow> (False, ses, s)
              | Some (payload, rest) \<Rightarrow>
                  let ses = ses\<lparr>se_input := rest, se_stats := count_in (length payload) (se_stats ses)\<rparr> in
                  case decode_frame (header @ payload) of
                    Inl e \<Rightarrow> (False, ses\<lparr>se_stats := count_failure (se_stats ses)\<rparr>, s)
                  | Inr request \<Rightarrow> serve_request handler sends request ses s)"

lemma send_all_input: "se_input (snd (send_all sends d ses)) = se_input ses"
  by (simp add: send_all_def split_beta Let_def)

lemma serve_request_input:
  assumes "serve_request handler sends request ses s = (b, ses', s')"
  shows "se_input ses' = se_input ses"
proof -
  have "se_input (fst (snd (serve_request handler sends request ses s))) = se_input ses"
    by (simp add: serve_request_def split_beta Let_def send_all_input)
  then show ?thesis by (simp add: assms)
qed

text \<open>A further turn has consumed at least a header.\<close>

lemma recv_exact_Some: "recv_exact n input = Some (d, rest) \<Longrightarrow> n \<le> length input \<and> d = take n input \<and> rest = drop n input"
  by (auto simp: recv_exact_def split: if_splits)

lemma serve_step_consumes:
  assumes "serve_step max_payload handler sends ses s = (True, ses', s')"
  shows "length (se_input ses') < length (se_input ses)"
proof -
  obtain header rest where header: "recv_exact kWireHeaderBytes (se_input ses) = Some (header, rest)"
    using assms by (cases "recv_exact kWireHeaderBytes (se_input ses)") (auto simp: serve_step_def)
  obtain h where h: "decode_frame_header header = Inr h"
    using assms header by (cases "decode_frame_header header") (auto simp: serve_step_def Let_def split: prod.splits)
  have small: "unat (wh_payload_length h) \<le> max_payload"
    using assms header h by (simp add: serve_step_def Let_def split: if_splits)
  obtain payload rest' where payload: "recv_exact (unat (wh_payload_length h)) rest = Some (payload, rest')"
    using assms header h small
    by (cases "recv_exact (unat (wh_payload_length h)) rest") (auto simp: serve_step_def Let_def)
  obtain ses1 request where "serve_request handler sends request ses1 s = (True, ses', s')" "se_input ses1 = rest'"
    using assms header h small payload
    by (cases "decode_frame (header @ payload)") (auto simp: serve_step_def Let_def)
  then have "se_input ses' = rest'" using serve_request_input by metis
  with recv_exact_Some [OF header] recv_exact_Some [OF payload] show ?thesis by (auto simp: kWireHeaderBytes_def)
qed

function serve ::
    "nat \<Rightarrow> 's handler \<Rightarrow> (nat \<Rightarrow> write_outcome) \<Rightarrow> session \<Rightarrow> 's \<Rightarrow> session \<times> 's" where
  "serve max_payload handler sends ses s =
     (case serve_step max_payload handler sends ses s of
        (True, ses, s) \<Rightarrow> serve max_payload handler sends ses s
      | (False, ses, s) \<Rightarrow> (ses, s))"
  by pat_completeness auto
termination
  by (relation "measure (\<lambda>(_, _, _, ses, _). length (se_input ses))") (auto dest: serve_step_consumes [OF sym])

declare serve.simps [simp del]

section \<open>The client\<close>

definition kMaxRpcDeadlineNanos :: nanos where
  "kMaxRpcDeadlineNanos = 60000000000"

definition kDefaultRpcDeadlineNanos :: nanos where
  "kDefaultRpcDeadlineNanos = 5000000000"

definition bounded_deadline :: "nanos \<Rightarrow> nanos" where
  "bounded_deadline deadline =
     (if deadline \<le> 0 \<or> deadline > kMaxRpcDeadlineNanos then kDefaultRpcDeadlineNanos else deadline)"

text \<open>
  What happens to the bytes sent within the deadline: whether sending succeeded, which bytes come
  back, and the error a read reports once they are used up. \<open>'w\<close> is the world behind the socket.
\<close>

record reply =
  ry_sent :: status
  ry_bytes :: "byte list"
  ry_lost :: error

type_synonym 'w wire = "nanos \<Rightarrow> byte list \<Rightarrow> 'w \<Rightarrow> reply \<times> 'w"

text \<open>\<open>cl_unread\<close> are the bytes that arrived and were not consumed by an earlier call.\<close>

record tcp_client =
  cl_valid :: bool
  cl_next_id :: u64
  cl_unread :: "byte list"

definition connected_client :: tcp_client where
  "connected_client = \<lparr>cl_valid = True, cl_next_id = 1, cl_unread = []\<rparr>"

definition read_response :: "u64 \<Rightarrow> error \<Rightarrow> byte list \<Rightarrow> frame result \<times> byte list" where
  "read_response wanted lost input =
     (case recv_exact kWireHeaderBytes input of
        None \<Rightarrow> (Inl lost, [])
      | Some (header, rest) \<Rightarrow>
          (case decode_frame_header header of
             Inl e \<Rightarrow> (Inl e, rest)
           | Inr h \<Rightarrow>
               if wh_request_id h \<noteq> wanted then
                 (Inl (make_error CorruptState (''response request id '' @ dec_word (wh_request_id h) @
                    '' does not match request id '' @ dec_word wanted)), rest)
               else case recv_exact (unat (wh_payload_length h)) rest of
                 None \<Rightarrow> (Inl lost, [])
               | Some (body, rest) \<Rightarrow> (decode_frame (header @ body), rest)))"

definition client_call ::
    "'w wire \<Rightarrow> frame \<Rightarrow> nanos \<Rightarrow> tcp_client \<Rightarrow> 'w \<Rightarrow> frame result \<times> tcp_client \<times> 'w" where
  "client_call net request deadline c w =
     (case validate_frame request of
        Inl e \<Rightarrow> (Inl e, c, w)
      | Inr _ \<Rightarrow>
          if \<not> cl_valid c then (Inl (make_error IoError ''client is not connected''), c, w)
          else
            let (reply, w) = net (bounded_deadline deadline) (encode_frame request) w in
            case ry_sent reply of
              Inl e \<Rightarrow> (Inl e, c\<lparr>cl_unread := cl_unread c @ ry_bytes reply\<rparr>, w)
            | Inr _ \<Rightarrow>
                let (response, unread) = read_response (fr_request_id request) (ry_lost reply) (cl_unread c @ ry_bytes reply) in
                (response, c\<lparr>cl_unread := unread\<rparr>, w))"

definition call_type ::
    "'w wire \<Rightarrow> frame_type \<Rightarrow> u16 \<Rightarrow> byte list \<Rightarrow> nanos \<Rightarrow> tcp_client \<Rightarrow> 'w \<Rightarrow> frame result \<times> tcp_client \<times> 'w" where
  "call_type net ty op body deadline c w =
     client_call net
       (new_frame\<lparr>fr_type := ty, fr_request_id := cl_next_id c, fr_payload := body, fr_flags := ucast op\<rparr>)
       deadline (c\<lparr>cl_next_id := cl_next_id c + 1\<rparr>) w"

text \<open>Closing sends a last frame and does not wait for its answer; the timeouts are those in force.\<close>

definition client_close :: "'w wire \<Rightarrow> nanos \<Rightarrow> tcp_client \<Rightarrow> 'w \<Rightarrow> status \<times> tcp_client \<times> 'w" where
  "client_close net timeout c w =
     (if \<not> cl_valid c then (ok_status, c, w)
      else
        let goodbye = new_frame\<lparr>fr_type := Goodbye, fr_request_id := cl_next_id c\<rparr>;
            (_, w) = net timeout (encode_frame goodbye) w in
        (ok_status, c\<lparr>cl_valid := False, cl_next_id := cl_next_id c + 1\<rparr>, w))"

section \<open>Requests are answered in order\<close>

text \<open>What a connection amounts to: the answers to the requests up to the first goodbye.\<close>

fun answer_all :: "'s handler \<Rightarrow> frame list \<Rightarrow> 's \<Rightarrow> frame list \<times> 's" where
  "answer_all handler [] s = ([], s)"
| "answer_all handler (f # fs) s =
     (let (r, s) = answer handler f s in
      if fr_type f = Goodbye then ([r], s)
      else let (rs, s) = answer_all handler fs s in (r # rs, s))"

definition acceptable :: "nat \<Rightarrow> frame \<Rightarrow> bool" where
  "acceptable max_payload f \<longleftrightarrow> validate_frame f = ok_status \<and> length (fr_payload f) \<le> max_payload"

definition wire_bytes :: "frame list \<Rightarrow> byte list" where
  "wire_bytes fs = concat (map encode_frame fs)"

abbreviation all_sent :: "nat \<Rightarrow> write_outcome" where
  "all_sent \<equiv> \<lambda>_. WriteOk"

lemma recv_exact_append: "n = length d \<Longrightarrow> recv_exact n (d @ rest) = Some (d, rest)"
  by (simp add: recv_exact_def)

lemma encode_split:
  obtains header where "encode_frame f = header @ fr_payload f" "length header = 32"
    "validate_frame f = ok_status \<Longrightarrow> decode_frame_header header = Inr (header_of f)"
proof
  show "encode_frame f = (wire_prefix f @ wire_write_u32 (crc32c (wire_prefix f))) @ fr_payload f"
    by (simp add: encode_frame_def)
  show "validate_frame f = ok_status \<Longrightarrow>
      decode_frame_header (wire_prefix f @ wire_write_u32 (crc32c (wire_prefix f))) = Inr (header_of f)"
    using header_back [of f "[]"] by simp
qed simp

lemma serve_step_frame:
  assumes "acceptable max_payload f" "se_input ses = encode_frame f @ rest"
  shows "serve_step max_payload handler sends ses s =
    serve_request handler sends f
      (ses\<lparr>se_input := rest, se_stats := count_in (length (fr_payload f)) (count_in 32 (se_stats ses))\<rparr>) s"
proof -
  have ok: "validate_frame f = ok_status" "length (fr_payload f) \<le> max_payload"
    using assms(1) by (simp_all add: acceptable_def)
  obtain header where header: "encode_frame f = header @ fr_payload f" "length header = 32"
      "decode_frame_header header = Inr (header_of f)"
    using encode_split [of f] ok(1) by metis
  have len: "unat (wh_payload_length (header_of f)) = length (fr_payload f)"
    by (simp add: header_of_def payload_length_back ok(1))
  have whole: "decode_frame (header @ fr_payload f) = Inr f"
    using frame_back [OF ok(1)] by (simp add: header(1))
  show ?thesis using ok(2)
    by (simp add: serve_step_def assms(2) header recv_exact_append kWireHeaderBytes_def len whole Let_def)
qed

lemma serve_request_sent:
  "serve_request handler all_sent request ses s =
     (let (response, s) = answer handler request s; d = encode_frame response;
          st = count_out (length d) ((se_stats ses)\<lparr>ss_frames_in := ss_frames_in (se_stats ses) + 1\<rparr>) in
      (fr_type request \<noteq> Goodbye,
       ses\<lparr>se_output := se_output ses @ d, se_sends := Suc (se_sends ses),
           se_stats := st\<lparr>ss_frames_out := ss_frames_out st + 1, ss_handled := ss_handled st + 1\<rparr>\<rparr>, s))"
  by (simp add: serve_request_def send_all_def fwrite_def Let_def split_beta)

lemma serve_idle: "length (se_input ses) < 32 \<Longrightarrow> serve max_payload handler sends ses s = (ses, s)"
  by (simp add: serve.simps serve_step_def recv_exact_def kWireHeaderBytes_def)

lemma serve_in_order:
  assumes "list_all (acceptable max_payload) fs" "se_input ses = wire_bytes fs @ tail" "length tail < 32"
    and "serve max_payload handler all_sent ses s = (ses', s')" "answer_all handler fs s = (rs, t)"
  shows "s' = t \<and> se_output ses' = se_output ses @ wire_bytes rs \<and>
    ss_handled (se_stats ses') = ss_handled (se_stats ses) + of_nat (length rs)"
  using assms
proof (induction fs arbitrary: ses s rs)
  case Nil
  then show ?case by (simp add: serve_idle wire_bytes_def)
next
  case (Cons f fs)
  obtain r s1 where r: "answer handler f s = (r, s1)" by fastforce
  define st where "st = count_out (length (encode_frame r)) ((count_in (length (fr_payload f)) (count_in 32 (se_stats ses)))\<lparr>
      ss_frames_in := ss_frames_in (count_in (length (fr_payload f)) (count_in 32 (se_stats ses))) + 1\<rparr>)"
  define ses1 where "ses1 = ses\<lparr>se_input := wire_bytes fs @ tail, se_output := se_output ses @ encode_frame r,
      se_sends := Suc (se_sends ses), se_stats := st\<lparr>ss_frames_out := ss_frames_out st + 1, ss_handled := ss_handled st + 1\<rparr>\<rparr>"
  have step: "serve_step max_payload handler all_sent ses s = (fr_type f \<noteq> Goodbye, ses1, s1)"
    using serve_step_frame [of max_payload f ses "wire_bytes fs @ tail" handler all_sent s] Cons.prems(1,2)
    by (simp add: wire_bytes_def serve_request_sent r ses1_def st_def Let_def)
  have facts: "se_input ses1 = wire_bytes fs @ tail" "se_output ses1 = se_output ses @ encode_frame r"
      "ss_handled (se_stats ses1) = ss_handled (se_stats ses) + 1"
    by (simp_all add: ses1_def st_def count_out_def count_in_def)
  show ?case
  proof (cases "fr_type f = Goodbye")
    case True
    then have "(ses', s') = (ses1, s1)" "rs = [r]" "t = s1"
      using Cons.prems(4,5) step by (simp_all add: serve.simps r)
    then show ?thesis using facts by (simp add: wire_bytes_def)
  next
    case False
    obtain rs1 where rs1: "answer_all handler fs s1 = (rs1, t)" "rs = r # rs1"
      using Cons.prems(5) False by (auto simp: r split: prod.splits)
    have "serve max_payload handler all_sent ses1 s1 = (ses', s')"
      using Cons.prems(4) step False by (simp add: serve.simps [of _ _ _ ses])
    from Cons.IH [OF _ facts(1) Cons.prems(3) this rs1(1)] Cons.prems(1) facts(2,3)
    show ?thesis by (simp add: rs1(2) wire_bytes_def)
  qed
qed

section \<open>What the client accepts\<close>

lemma read_response_back:
  assumes "validate_frame f = ok_status"
  shows "read_response (fr_request_id f) lost (encode_frame f @ rest) = (Inr f, rest)"
proof -
  obtain header where header: "encode_frame f = header @ fr_payload f" "length header = 32"
      "decode_frame_header header = Inr (header_of f)"
    using encode_split [of f] assms by metis
  have len: "unat (wh_payload_length (header_of f)) = length (fr_payload f)" "wh_request_id (header_of f) = fr_request_id f"
    by (simp_all add: header_of_def payload_length_back assms)
  show ?thesis using frame_back [OF assms]
    by (simp add: read_response_def header recv_exact_append kWireHeaderBytes_def len)
qed

text \<open>A whole frame made for another request is refused, whatever it holds.\<close>

lemma read_response_foreign:
  assumes "validate_frame f = ok_status" "fr_request_id f \<noteq> wanted"
  shows "\<exists>e. read_response wanted lost (encode_frame f @ rest) = (Inl e, fr_payload f @ rest) \<and> err_code e = CorruptState"
proof -
  obtain header where header: "encode_frame f = header @ fr_payload f" "length header = 32"
      "decode_frame_header header = Inr (header_of f)"
    using encode_split [of f] assms by metis
  then show ?thesis using assms(2)
    by (simp add: read_response_def recv_exact_append kWireHeaderBytes_def header_of_def make_error_def)
qed

lemma wire_reads_prefix:
  "2 \<le> length p \<Longrightarrow> wire_read_u16 (p @ q) = wire_read_u16 p"
  "4 \<le> length p \<Longrightarrow> wire_read_u32 (p @ q) = wire_read_u32 p"
  "8 \<le> length p \<Longrightarrow> wire_read_u64 (p @ q) = wire_read_u64 p"
  by (auto simp: wire_read_u16_def wire_read_u32_def wire_read_u64_def nth_append upt_rec)

lemma header_alone:
  assumes "length d = 32"
  shows "decode_frame_header (d @ body) = decode_frame_header d"
proof -
  have "wire_read_u16 (d @ body) = wire_read_u16 d" "wire_read_u16 (drop 2 (d @ body)) = wire_read_u16 (drop 2 d)"
    "wire_read_u16 (drop 4 (d @ body)) = wire_read_u16 (drop 4 d)" "wire_read_u32 (drop 8 (d @ body)) = wire_read_u32 (drop 8 d)"
    "wire_read_u64 (drop 12 (d @ body)) = wire_read_u64 (drop 12 d)" "wire_read_u32 (drop 20 (d @ body)) = wire_read_u32 (drop 20 d)"
    "wire_read_u32 (drop 28 (d @ body)) = wire_read_u32 (drop 28 d)" "take 28 (d @ body) = take 28 d"
    "length (d @ body) < 32 \<longleftrightarrow> length d < 32"
    using assms by (simp_all add: wire_reads_prefix)
  then show ?thesis unfolding decode_frame_header_def kWireHeaderBytes_def by (simp only:)
qed

lemma header_same:
  assumes "decode_frame_header d = Inr h" "decode_frame (d @ body) = Inr f" "length d = 32"
  shows "fr_request_id f = wh_request_id h"
  using assms header_alone [OF assms(3), of body] by (auto simp: decode_frame_def split: if_splits)

lemma read_response_sound:
  assumes "read_response wanted lost input = (Inr f, rest)"
  shows "fr_request_id f = wanted" "validate_frame f = ok_status"
proof -
  obtain header rest1 where header: "recv_exact kWireHeaderBytes input = Some (header, rest1)"
    using assms by (cases "recv_exact kWireHeaderBytes input") (auto simp: read_response_def)
  obtain h where h: "decode_frame_header header = Inr h" "wh_request_id h = wanted"
    using assms header by (cases "decode_frame_header header") (auto simp: read_response_def split: if_splits)
  obtain body where body: "decode_frame (header @ body) = Inr f"
    using assms header h by (auto simp: read_response_def split: option.splits)
  have "length header = 32" using recv_exact_Some [OF header] by (simp add: kWireHeaderBytes_def)
  with header_same [OF h(1) body] h(2) show "fr_request_id f = wanted" by simp
  show "validate_frame f = ok_status" by (rule decode_frame_sound(3) [OF body])
qed

section \<open>A call over an intact connection\<close>

text \<open>A wire with the server behind it: everything sent is served, everything answered comes back.\<close>

definition peer_closed :: error where
  "peer_closed = make_error IoError ''peer closed the connection''"

definition new_session :: "byte list \<Rightarrow> session" where
  "new_session d = \<lparr>se_input = d, se_output = [], se_sends = 0, se_stats = no_server_stats\<rparr>"

definition server_wire :: "nat \<Rightarrow> 's handler \<Rightarrow> 's wire" where
  "server_wire max_payload handler deadline d s =
     (let (ses, s) = serve max_payload handler all_sent (new_session d) s in
      (\<lparr>ry_sent = ok_status, ry_bytes = se_output ses, ry_lost = peer_closed\<rparr>, s))"

lemma server_wire_frame:
  assumes "acceptable max_payload f" "answer handler f s = (response, s')"
  shows "server_wire max_payload handler deadline (encode_frame f) s =
    (\<lparr>ry_sent = ok_status, ry_bytes = encode_frame response, ry_lost = peer_closed\<rparr>, s')"
proof -
  obtain ses t where served: "serve max_payload handler all_sent (new_session (encode_frame f)) s = (ses, t)" by fastforce
  have "t = s' \<and> se_output ses = encode_frame response"
    using serve_in_order [of max_payload "[f]" "new_session (encode_frame f)" "[]" handler s ses t "[response]" s'] assms served
    by (simp add: new_session_def wire_bytes_def)
  then show ?thesis by (simp add: server_wire_def served)
qed

lemma call_over_wire:
  assumes "acceptable max_payload request" "answer handler request s = (response, s')"
    and "validate_frame response = ok_status" "fr_request_id response = fr_request_id request"
    and "cl_valid c" "cl_unread c = []"
  shows "client_call (server_wire max_payload handler) request deadline c s = (Inr response, c, s')"
proof -
  have "validate_frame request = ok_status" using assms(1) by (simp add: acceptable_def)
  with assms read_response_back [OF assms(3), of peer_closed "[]"] show ?thesis
    by (simp add: client_call_def server_wire_frame)
qed

section \<open>Calls in envelopes\<close>

text \<open>
  The frame handler both programs install: it opens the envelope, has the operation fill in a reply,
  and sends the outcome as the status of the reply. Every outcome is a response frame.
\<close>

definition status_envelope :: "status \<Rightarrow> rpc_envelope \<Rightarrow> rpc_envelope" where
  "status_envelope outcome reply = (case outcome of
     Inl e \<Rightarrow> reply\<lparr>ev_op := error_code_value (err_code e), ev_message := err_detail e\<rparr>
   | Inr _ \<Rightarrow> reply\<lparr>ev_op := kStatusOk, ev_message := []\<rparr>)"

definition rpc_handler :: "(rpc_envelope \<Rightarrow> rpc_envelope \<Rightarrow> 's \<Rightarrow> status \<times> rpc_envelope \<times> 's) \<Rightarrow> 's handler" where
  "rpc_handler handle request response s =
     (let response = response\<lparr>fr_type := Response\<rparr> in
      case decode_envelope (fr_payload request) of
        Inl e \<Rightarrow>
          (ok_status, response\<lparr>fr_payload := encode_envelope (new_envelope\<lparr>ev_op := error_code_value CorruptState,
             ev_message := format_error e\<rparr>)\<rparr>, s)
      | Inr envelope \<Rightarrow>
          let (outcome, reply, s) = handle envelope new_envelope s in
          (ok_status, response\<lparr>fr_payload := encode_envelope (status_envelope outcome reply)\<rparr>, s))"

definition clipped :: "string \<Rightarrow> string" where
  "clipped s = (if length s \<le> kMaxDetailLength then s else [])"

text \<open>Room for the layout, the status, the message and the lengths of an envelope in a frame.\<close>

definition body_fits_frame :: "byte list \<Rightarrow> bool" where
  "body_fits_frame d \<longleftrightarrow> length d + kMaxDetailLength + 10 \<le> kMaxFrameBytes"

lemma envelope_length: "length (encode_envelope e) \<le> 10 + kMaxDetailLength + length (ev_body e)"
  using w_str_length [of kMaxDetailLength "ev_message e"] by (simp add: encode_envelope_def w_blob_def)

lemma envelope_in_frame: "body_fits_frame (ev_body e) \<Longrightarrow> length (encode_envelope e) \<le> kMaxFrameBytes"
  using envelope_length [of e] by (simp add: body_fits_frame_def)

lemma delivered_status:
  assumes "body_fits_frame (ev_body reply)"
  shows "delivered_envelope (status_envelope outcome reply) = (case outcome of
     Inl e \<Rightarrow> \<lparr>ev_op = error_code_value (err_code e), ev_message = clipped (err_detail e), ev_body = ev_body reply\<rparr>
   | Inr _ \<Rightarrow> \<lparr>ev_op = kStatusOk, ev_message = [], ev_body = ev_body reply\<rparr>)"
  using assms by (simp add: delivered_envelope_def status_envelope_def clipped_def body_fits_frame_def split: sum.split)

definition call_response :: "u64 \<Rightarrow> status \<Rightarrow> rpc_envelope \<Rightarrow> frame" where
  "call_response i outcome reply = new_frame\<lparr>fr_request_id := i, fr_type := Response,
     fr_payload := encode_envelope (status_envelope outcome reply)\<rparr>"

lemma rpc_call_served:
  assumes body: "body_fits_frame body" and client: "cl_valid c" "cl_unread c = []"
    and served: "handle \<lparr>ev_op = op, ev_message = [], ev_body = body\<rparr> new_envelope s = (outcome, reply, s')"
    and reply: "body_fits_frame (ev_body reply)"
  shows "call_type (server_wire kMaxFrameBytes (rpc_handler handle)) Request op
      (encode_envelope (new_envelope\<lparr>ev_op := op, ev_body := body\<rparr>)) deadline c s =
    (Inr (call_response (cl_next_id c) outcome reply), c\<lparr>cl_next_id := cl_next_id c + 1\<rparr>, s')"
proof -
  let ?envelope = "new_envelope\<lparr>ev_op := op, ev_body := body\<rparr>" and ?response = "call_response (cl_next_id c) outcome reply"
  define request where "request = new_frame\<lparr>fr_type := Request, fr_request_id := cl_next_id c,
      fr_payload := encode_envelope ?envelope, fr_flags := ucast op\<rparr>"
  have same: "ev_body (status_envelope outcome reply) = ev_body reply"
    by (simp add: status_envelope_def split: sum.split)
  have fits: "acceptable kMaxFrameBytes request" "validate_frame ?response = ok_status"
    using envelope_in_frame [of ?envelope] envelope_in_frame [of "status_envelope outcome reply"] body reply
    by (simp_all add: acceptable_def validate_frame_ok request_def call_response_def new_frame_def same)
  have arrived: "delivered_envelope ?envelope = \<lparr>ev_op = op, ev_message = [], ev_body = body\<rparr>"
    using body by (simp add: delivered_envelope_def new_envelope_def body_fits_frame_def)
  have answered: "answer (rpc_handler handle) request s = (?response, s')"
    by (simp add: answer_def rpc_handler_def request_def call_response_def envelope_back arrived served new_frame_def)
  show ?thesis
    using call_over_wire [OF fits(1) answered fits(2), of "c\<lparr>cl_next_id := cl_next_id c + 1\<rparr>" deadline] client
    by (simp add: call_type_def request_def call_response_def)
qed

section \<open>Admission\<close>

definition kMaxServerWorkers :: u32 where
  "kMaxServerWorkers = 32"

definition kMaxQueuedRequests :: u32 where
  "kMaxQueuedRequests = 4096"

record server_options =
  so_workers :: u32
  so_max_queued :: u32
  so_max_payload :: nat

record 'c server =
  sv_options :: server_options
  sv_running :: bool
  sv_stopping :: bool
  sv_queue :: "'c list"
  sv_live :: "'c set"
  sv_threads :: nat
  sv_accepted :: u64
  sv_rejected :: u64

definition new_server :: "server_options \<Rightarrow> 'c server" where
  "new_server opts =
     (let opts = opts\<lparr>so_workers := (if so_workers opts = 0 then 1 else so_workers opts)\<rparr>;
          opts = opts\<lparr>so_workers := (if so_workers opts > kMaxServerWorkers then kMaxServerWorkers else so_workers opts)\<rparr>;
          opts = opts\<lparr>so_max_queued := (if so_max_queued opts = 0 then 1 else so_max_queued opts)\<rparr>;
          opts = opts\<lparr>so_max_payload := (if so_max_payload opts > kMaxFrameBytes then kMaxFrameBytes else so_max_payload opts)\<rparr> in
      \<lparr>sv_options = opts, sv_running = False, sv_stopping = False, sv_queue = [], sv_live = {}, sv_threads = 0,
       sv_accepted = 0, sv_rejected = 0\<rparr>)"

text \<open>Starting; \<open>listening\<close> is the outcome of opening the listening socket.\<close>

definition server_start :: "status \<Rightarrow> 'c server \<Rightarrow> status \<times> 'c server" where
  "server_start listening sv =
     (if sv_running sv then (Inl (make_error StateConflict ''server is already running''), sv)
      else case listening of
        Inl e \<Rightarrow> (Inl e, sv)
      | Inr _ \<Rightarrow> (ok_status, sv\<lparr>sv_stopping := False, sv_running := True,
          sv_threads := sv_threads sv + unat (so_workers (sv_options sv))\<rparr>))"

text \<open>The accepting thread with one more connection; a refused one is counted and closed.\<close>

definition accept_connection :: "'c \<Rightarrow> 'c server \<Rightarrow> 'c server" where
  "accept_connection c sv =
     (if \<not> sv_stopping sv \<and> length (sv_queue sv) < unat (so_max_queued (sv_options sv)) then
        sv\<lparr>sv_queue := sv_queue sv @ [c], sv_accepted := sv_accepted sv + 1\<rparr>
      else sv\<lparr>sv_rejected := sv_rejected sv + 1\<rparr>)"

text \<open>A worker takes the oldest connection and keeps it registered while it serves it.\<close>

definition worker_take :: "'c server \<Rightarrow> 'c option \<times> 'c server" where
  "worker_take sv = (case sv_queue sv of
     [] \<Rightarrow> (None, sv)
   | c # cs \<Rightarrow> (Some c, sv\<lparr>sv_queue := cs, sv_live := insert c (sv_live sv)\<rparr>))"

definition worker_done :: "'c \<Rightarrow> 'c server \<Rightarrow> 'c server" where
  "worker_done c sv = sv\<lparr>sv_live := sv_live sv - {c}\<rparr>"

text \<open>
  Stopping, in the order of the locks: the mark, the connections shut down and the queue emptied,
  and, once every thread has been joined, the rest.
\<close>

definition stop_mark :: "'c server \<Rightarrow> 'c server" where
  "stop_mark sv = sv\<lparr>sv_stopping := True, sv_running := False\<rparr>"

definition stop_drain :: "'c server \<Rightarrow> 'c server" where
  "stop_drain sv = sv\<lparr>sv_queue := []\<rparr>"

definition stop_joined :: "'c server \<Rightarrow> 'c server" where
  "stop_joined sv = sv\<lparr>sv_threads := 0, sv_live := {}, sv_queue := []\<rparr>"

definition needs_stop :: "'c server \<Rightarrow> bool" where
  "needs_stop sv \<longleftrightarrow> sv_running sv \<or> sv_threads sv > 0"

inductive server_step :: "'c server \<Rightarrow> 'c server \<Rightarrow> bool" where
  start: "server_step sv (snd (server_start listening sv))"
| arrive: "sv_threads sv > 0 \<Longrightarrow> server_step sv (accept_connection c sv)"
| work: "sv_threads sv > 0 \<Longrightarrow> worker_take sv = (Some c, sv') \<Longrightarrow> server_step sv sv'"
| finished: "c \<in> sv_live sv \<Longrightarrow> server_step sv (worker_done c sv)"
| mark: "needs_stop sv \<Longrightarrow> server_step sv (stop_mark sv)"
| drain: "sv_stopping sv \<Longrightarrow> server_step sv (stop_drain sv)"
| joined: "sv_stopping sv \<Longrightarrow> server_step sv (stop_joined sv)"

lemma queue_bounded:
  assumes "server_step\<^sup>*\<^sup>* (new_server opts) sv"
  shows "length (sv_queue sv) \<le> unat (so_max_queued (sv_options sv)) \<and> sv_options sv = sv_options (new_server opts)"
  using assms
proof (induction rule: rtranclp_induct)
  case base
  show ?case by (simp add: new_server_def Let_def)
next
  case (step sv sv')
  from step(2,3) show ?case
    by cases (auto simp: server_start_def accept_connection_def worker_take_def worker_done_def stop_mark_def stop_drain_def
      stop_joined_def split: sum.splits list.splits)
qed

end
