(* ===== verification/Drain_Ports.thy ===== *)
theory Drain_Ports
  imports Rpc Controller_State
begin

text \<open>
  The drain services and the port that reaches one over the network: the in-process reference service
  (\<^verbatim>\<open>src/drain/local.cpp\<close>), the service the simulator hosts behind the framed transport
  (\<^verbatim>\<open>apps/drain_sim/main.cpp\<close>), and the remote port (\<^verbatim>\<open>src/drain/remote.cpp\<close>).

  The locale \<open>lease_service\<close> is what the controller relies on: a granted lease is held under its
  identity for the attempt that asked, a second request of the same attempt is given the lease that
  exists, and a release removes exactly that lease. Both services are interpreted in it.
\<close>

section \<open>Leases held by a service\<close>

type_synonym lease_table = "(lease_id, drain_lease) omap"

text \<open>The first lease, in the order of the identities, that the attempt holds.\<close>

definition held_for :: "attempt_id \<Rightarrow> lease_table \<Rightarrow> drain_lease option" where
  "held_for a m = find (\<lambda>l. le_attempt l = a) (map snd m)"

definition leases_ok :: "lease_table \<Rightarrow> lease_id \<Rightarrow> bool" where
  "leases_ok m next_free \<longleftrightarrow> om_ok m \<and> (\<forall>i l. om_find m i = Some l \<longrightarrow> le_id l = i \<and> i < next_free) \<and>
     (\<forall>i j l k. om_find m i = Some l \<longrightarrow> om_find m j = Some k \<longrightarrow> le_attempt l = le_attempt k \<longrightarrow> i = j)"

section \<open>The reference service\<close>

record local_drain_options =
  lo_granted_state :: drain_state
  lo_fail_next_requests :: u32
  lo_fence_refresh_by_owner :: bool
  lo_drop_leases_on_next_query :: bool

record local_drain =
  ld_options :: local_drain_options
  ld_leases :: lease_table
  ld_next_id :: lease_id
  ld_epoch :: u64
  ld_requests :: u64
  ld_releases :: u64
  ld_refreshes :: u64

definition new_local_drain :: "local_drain_options \<Rightarrow> local_drain" where
  "new_local_drain opts = \<lparr>ld_options = opts, ld_leases = [], ld_next_id = 1, ld_epoch = 0, ld_requests = 0,
     ld_releases = 0, ld_refreshes = 0\<rparr>"

definition fail_next :: "u32 \<Rightarrow> local_drain \<Rightarrow> local_drain" where
  "fail_next n d = d\<lparr>ld_options := (ld_options d)\<lparr>lo_fail_next_requests := n\<rparr>\<rparr>"

definition set_granted_state :: "drain_state \<Rightarrow> local_drain \<Rightarrow> local_drain" where
  "set_granted_state st d = d\<lparr>ld_options := (ld_options d)\<lparr>lo_granted_state := st\<rparr>\<rparr>"

definition drop_leases_on_next_query :: "local_drain \<Rightarrow> local_drain" where
  "drop_leases_on_next_query d = d\<lparr>ld_options := (ld_options d)\<lparr>lo_drop_leases_on_next_query := True\<rparr>\<rparr>"

definition local_holds :: "lease_id \<Rightarrow> local_drain \<Rightarrow> bool" where
  "local_holds i d \<longleftrightarrow> om_has (ld_leases d) i"

definition local_request_drain :: "drain_request \<Rightarrow> local_drain \<Rightarrow> drain_response \<times> local_drain" where
  "local_request_drain q d = (case validate_drain_request q of
     Inl e \<Rightarrow> (\<lparr>dr_status = Inl e, dr_lease = no_lease\<rparr>, d)
   | Inr _ \<Rightarrow>
       let d = d\<lparr>ld_requests := ld_requests d + 1\<rparr>; opts = ld_options d in
       if lo_fail_next_requests opts > 0 then
         (\<lparr>dr_status = Inl (make_error DrainFailed ''drain service rejected the request (injected failure)''),
           dr_lease = no_lease\<lparr>le_targets := dq_targets q, le_state := DsFailed, le_attempt := dq_attempt q,
             le_owner := dq_requester q\<rparr>\<rparr>,
          d\<lparr>ld_options := opts\<lparr>lo_fail_next_requests := lo_fail_next_requests opts - 1\<rparr>\<rparr>)
       else case held_for (dq_attempt q) (ld_leases d) of
         Some l \<Rightarrow> (\<lparr>dr_status = ok_status, dr_lease = l\<rparr>, d)
       | None \<Rightarrow>
           let l = \<lparr>le_id = ld_next_id d, le_targets = sort (dq_targets q), le_granted_at = 0,
                    le_expires_at = dq_lease_duration q, le_state = lo_granted_state opts,
                    le_attempt = dq_attempt q, le_owner = dq_requester q, le_epoch = ld_epoch d + 1\<rparr> in
           (\<lparr>dr_status = ok_status, dr_lease = l\<rparr>,
            d\<lparr>ld_next_id := next_id (ld_next_id d), ld_epoch := ld_epoch d + 1,
              ld_leases := om_emplace (le_id l) l (ld_leases d)\<rparr>))"

definition lease_not_held :: "error_code \<Rightarrow> lease_id \<Rightarrow> error" where
  "lease_not_held code i = make_error code (''drain lease '' @ to_string_lease i @ '' is not held'')"

definition lease_gone :: "lease_id \<Rightarrow> drain_response" where
  "lease_gone i = \<lparr>dr_status = Inl (lease_not_held DrainLeaseLost i), dr_lease = no_lease\<lparr>le_id := i, le_state := DsNotFound\<rparr>\<rparr>"

definition local_refresh_drain ::
    "lease_id \<Rightarrow> nanos \<Rightarrow> incarnation \<Rightarrow> local_drain \<Rightarrow> drain_response \<times> local_drain" where
  "local_refresh_drain i extension requester d = (case om_find (ld_leases d) i of
     None \<Rightarrow> (lease_gone i, d)
   | Some l \<Rightarrow>
       if lo_fence_refresh_by_owner (ld_options d) \<and> le_owner l \<noteq> requester then
         (\<lparr>dr_status = Inl (make_error StaleIncarnation (''drain lease '' @ to_string_lease i @ '' is owned by '' @
             to_string_incarnation (le_owner l))), dr_lease = l\<rparr>, d)
       else if extension \<le> 0 then
         (\<lparr>dr_status = Inl (invalid_argument ''drain refresh must extend by a positive duration''), dr_lease = l\<rparr>, d)
       else
         let l = l\<lparr>le_expires_at := le_expires_at l + extension, le_owner := requester, le_epoch := ld_epoch d + 1\<rparr> in
         (\<lparr>dr_status = ok_status, dr_lease = l\<rparr>,
          d\<lparr>ld_refreshes := ld_refreshes d + 1, ld_epoch := ld_epoch d + 1, ld_leases := om_set i l (ld_leases d)\<rparr>))"

definition local_query_drain :: "lease_id \<Rightarrow> incarnation \<Rightarrow> local_drain \<Rightarrow> drain_response \<times> local_drain" where
  "local_query_drain i requester d =
     (let opts = ld_options d;
          d = (if lo_drop_leases_on_next_query opts
               then d\<lparr>ld_options := opts\<lparr>lo_drop_leases_on_next_query := False\<rparr>, ld_leases := []\<rparr> else d) in
      case om_find (ld_leases d) i of
        None \<Rightarrow> (lease_gone i, d)
      | Some l \<Rightarrow> (\<lparr>dr_status = ok_status, dr_lease = l\<rparr>, d))"

definition local_release_drain :: "lease_id \<Rightarrow> incarnation \<Rightarrow> local_drain \<Rightarrow> status \<times> local_drain" where
  "local_release_drain i requester d = (case om_find (ld_leases d) i of
     None \<Rightarrow> (Inl (lease_not_held NotFound i), d)
   | Some _ \<Rightarrow> (ok_status, d\<lparr>ld_leases := om_erase i (ld_leases d), ld_releases := ld_releases d + 1\<rparr>))"

section \<open>The service of the simulator\<close>

record drain_service =
  dv_granted_state :: drain_state
  dv_fence_refresh :: bool
  dv_leases :: lease_table
  dv_next_id :: lease_id
  dv_epoch :: u64
  dv_fail_next :: u32
  dv_drop_on_query :: bool
  dv_granted :: u64
  dv_released :: u64

definition new_drain_service :: "drain_state \<Rightarrow> bool \<Rightarrow> u32 \<Rightarrow> bool \<Rightarrow> drain_service" where
  "new_drain_service granted fence failing dropping =
     \<lparr>dv_granted_state = granted, dv_fence_refresh = fence, dv_leases = [], dv_next_id = 1, dv_epoch = 0,
      dv_fail_next = failing, dv_drop_on_query = dropping, dv_granted = 0, dv_released = 0\<rparr>"

text \<open>Each operation on the decoded request, under the lock.\<close>

definition service_grant :: "drain_request \<Rightarrow> drain_service \<Rightarrow> drain_lease result \<times> drain_service" where
  "service_grant q v = (case validate_drain_request q of
     Inl e \<Rightarrow> (Inl e, v)
   | Inr _ \<Rightarrow>
       if dv_fail_next v > 0 then
         (Inl (make_error DrainFailed ''drain refused by injected failure''), v\<lparr>dv_fail_next := dv_fail_next v - 1\<rparr>)
       else case held_for (dq_attempt q) (dv_leases v) of
         Some l \<Rightarrow> (Inr l, v)
       | None \<Rightarrow>
           let l = \<lparr>le_id = dv_next_id v, le_targets = dq_targets q, le_granted_at = 0,
                    le_expires_at = dq_lease_duration q, le_state = dv_granted_state v,
                    le_attempt = dq_attempt q, le_owner = dq_requester q, le_epoch = dv_epoch v + 1\<rparr> in
           (Inr l, v\<lparr>dv_next_id := next_id (dv_next_id v), dv_epoch := dv_epoch v + 1,
             dv_leases := om_emplace (le_id l) l (dv_leases v), dv_granted := dv_granted v + 1\<rparr>))"

definition service_drop :: "lease_id \<Rightarrow> drain_service \<Rightarrow> status \<times> drain_service" where
  "service_drop i v = (case om_find (dv_leases v) i of
     None \<Rightarrow> (Inl (lease_not_held NotFound i), v)
   | Some _ \<Rightarrow> (ok_status, v\<lparr>dv_leases := om_erase i (dv_leases v), dv_released := dv_released v + 1\<rparr>))"

definition lease_lost :: "lease_id \<Rightarrow> error" where
  "lease_lost i = make_error DrainLeaseLost (''drain lease '' @ to_string_lease i @ '' is lost'')"

definition service_lookup :: "lease_id \<Rightarrow> drain_service \<Rightarrow> drain_lease result \<times> drain_service" where
  "service_lookup i v =
     (let v = (if dv_drop_on_query v then v\<lparr>dv_drop_on_query := False, dv_leases := []\<rparr> else v) in
      case om_find (dv_leases v) i of None \<Rightarrow> (Inl (lease_lost i), v) | Some l \<Rightarrow> (Inr l, v))"

definition service_extend :: "lease_id \<Rightarrow> incarnation \<Rightarrow> nanos \<Rightarrow> drain_service \<Rightarrow> drain_lease result \<times> drain_service" where
  "service_extend i requester extension v = (case om_find (dv_leases v) i of
     None \<Rightarrow> (Inl (lease_lost i), v)
   | Some l \<Rightarrow>
       if dv_fence_refresh v \<and> le_owner l \<noteq> requester then
         (Inl (make_error StaleIncarnation (''drain lease '' @ to_string_lease i @ '' is owned by a previous incarnation'')), v)
       else if extension \<le> 0 then (Inl (invalid_argument ''refresh requires a positive extension''), v)
       else
         let l = l\<lparr>le_expires_at := le_expires_at l + extension, le_owner := requester, le_epoch := dv_epoch v + 1\<rparr> in
         (Inr l, v\<lparr>dv_epoch := dv_epoch v + 1, dv_leases := om_set i l (dv_leases v)\<rparr>))"

text \<open>The operations as the requests reach them: a body to decode and a reply to fill in.\<close>

definition reply_lease :: "drain_lease result \<times> drain_service \<Rightarrow> rpc_envelope \<Rightarrow> status \<times> rpc_envelope \<times> drain_service" where
  "reply_lease outcome reply = (case outcome of
     (Inl e, v) \<Rightarrow> (Inl e, reply, v)
   | (Inr l, v) \<Rightarrow> (ok_status, reply\<lparr>ev_body := encode_drain_lease_body l\<rparr>, v))"

definition service_request_drain :: "byte list \<Rightarrow> rpc_envelope \<Rightarrow> drain_service \<Rightarrow> status \<times> rpc_envelope \<times> drain_service" where
  "service_request_drain body reply v = (case decode_drain_request_body body of
     Inl e \<Rightarrow> (Inl e, reply, v)
   | Inr q \<Rightarrow> reply_lease (service_grant q v) reply)"

definition service_release :: "byte list \<Rightarrow> rpc_envelope \<Rightarrow> drain_service \<Rightarrow> status \<times> rpc_envelope \<times> drain_service" where
  "service_release body reply v = (case decode_drain_lease_ref body of
     Inl e \<Rightarrow> (Inl e, reply, v)
   | Inr (i, _, _) \<Rightarrow> (case service_drop i v of
       (Inl e, v) \<Rightarrow> (Inl e, reply, v)
     | (Inr _, v) \<Rightarrow> (ok_status, reply\<lparr>ev_body := encode_text_body (''released '' @ to_string_lease i)\<rparr>, v)))"

definition service_query :: "byte list \<Rightarrow> rpc_envelope \<Rightarrow> drain_service \<Rightarrow> status \<times> rpc_envelope \<times> drain_service" where
  "service_query body reply v = (case decode_drain_lease_ref body of
     Inl e \<Rightarrow> (Inl e, reply, v)
   | Inr (i, _, _) \<Rightarrow> reply_lease (service_lookup i v) reply)"

definition service_refresh :: "byte list \<Rightarrow> rpc_envelope \<Rightarrow> drain_service \<Rightarrow> status \<times> rpc_envelope \<times> drain_service" where
  "service_refresh body reply v = (case decode_drain_lease_ref body of
     Inl e \<Rightarrow> (Inl e, reply, v)
   | Inr (i, requester, extension) \<Rightarrow> reply_lease (service_extend i requester extension v) reply)"

definition service_handle :: "rpc_envelope \<Rightarrow> rpc_envelope \<Rightarrow> drain_service \<Rightarrow> status \<times> rpc_envelope \<times> drain_service" where
  "service_handle request reply v = (case op_of (ev_op request) of
     Some OpPing \<Rightarrow> (ok_status, reply\<lparr>ev_body := encode_text_body ''mf-drain-sim ready''\<rparr>, v)
   | Some OpDrainRequest \<Rightarrow> service_request_drain (ev_body request) reply v
   | Some OpDrainRelease \<Rightarrow> service_release (ev_body request) reply v
   | Some OpDrainQuery \<Rightarrow> service_query (ev_body request) reply v
   | Some OpDrainRefresh \<Rightarrow> service_refresh (ev_body request) reply v
   | _ \<Rightarrow> (Inl (make_error Unsupported ''mf-drain-sim does not serve this operation''), reply, v))"

definition drain_handler :: "drain_service handler" where
  "drain_handler = rpc_handler service_handle"

section \<open>The remote port\<close>

text \<open>The network: whether the next connection attempt succeeds, and the wire of a connection.\<close>

record 'w network =
  nw_dial :: "'w \<Rightarrow> bool \<times> 'w"
  nw_wire :: "'w wire"

record remote_drain =
  rp_host :: string
  rp_port :: u16
  rp_deadline :: nanos
  rp_connect_attempts :: u32
  rp_client :: "tcp_client option"
  rp_calls :: u64
  rp_failures :: u64

definition new_remote_drain :: "string \<Rightarrow> u16 \<Rightarrow> nanos \<Rightarrow> u32 \<Rightarrow> remote_drain" where
  "new_remote_drain host port deadline attempts = \<lparr>rp_host = host, rp_port = port, rp_deadline = deadline,
     rp_connect_attempts = attempts, rp_client = None, rp_calls = 0, rp_failures = 0\<rparr>"

definition remote_connected :: "remote_drain \<Rightarrow> bool" where
  "remote_connected p \<longleftrightarrow> (case rp_client p of Some c \<Rightarrow> cl_valid c | None \<Rightarrow> False)"

fun dial_loop :: "'w network \<Rightarrow> nat \<Rightarrow> 'w \<Rightarrow> bool \<times> 'w" where
  "dial_loop net 0 w = (False, w)"
| "dial_loop net (Suc n) w = (case nw_dial net w of (True, w) \<Rightarrow> (True, w) | (False, w) \<Rightarrow> dial_loop net n w)"

definition ensure_connected :: "'w network \<Rightarrow> remote_drain \<Rightarrow> 'w \<Rightarrow> bool \<times> remote_drain \<times> 'w" where
  "ensure_connected net p w =
     (if remote_connected p then (True, p, w)
      else case dial_loop net (unat (rp_connect_attempts p)) w of
        (True, w) \<Rightarrow> (True, p\<lparr>rp_client := Some connected_client\<rparr>, w)
      | (False, w) \<Rightarrow> (False, p\<lparr>rp_client := None\<rparr>, w))"

definition remote_failed :: "remote_drain \<Rightarrow> remote_drain" where
  "remote_failed p = p\<lparr>rp_failures := rp_failures p + 1\<rparr>"

text \<open>What the port makes of the frame that came back.\<close>

definition open_response :: "frame \<Rightarrow> byte list result" where
  "open_response f =
     (if fr_type f = FtError then
        Inl (make_error DrainFailed (''drain service error: '' @ string_of_bytes (fr_payload f)))
      else case decode_envelope (fr_payload f) of
        Inl e \<Rightarrow> Inl e
      | Inr envelope \<Rightarrow>
          if ev_op envelope \<noteq> kStatusOk then
            Inl (make_error DrainFailed (''drain service rejected the request: '' @ ev_message envelope))
          else Inr (ev_body envelope))"

definition remote_call ::
    "'w network \<Rightarrow> op_code \<Rightarrow> byte list \<Rightarrow> remote_drain \<Rightarrow> 'w \<Rightarrow> byte list result \<times> remote_drain \<times> 'w" where
  "remote_call net op body p w =
     (let (connected, p, w) = ensure_connected net (p\<lparr>rp_calls := rp_calls p + 1\<rparr>) w in
      if \<not> connected then
        (Inl (make_error DrainFailed (''drain service at '' @ rp_host p @ '':'' @ dec_word (rp_port p) @
           '' is unreachable'')), remote_failed p, w)
      else
        let envelope = new_envelope\<lparr>ev_op := op_code_value op, ev_body := body\<rparr>;
            (response, c, w) = call_type (nw_wire net) Request (op_code_value op) (encode_envelope envelope)
              (rp_deadline p) (the (rp_client p)) w in
        case response of
          Inl e \<Rightarrow> (Inl e, (remote_failed p)\<lparr>rp_client := None\<rparr>, w)
        | Inr f \<Rightarrow>
            let p = p\<lparr>rp_client := Some c\<rparr> in
            (case open_response f of
               Inl e \<Rightarrow> (Inl e, remote_failed p, w)
             | Inr d \<Rightarrow> (Inr d, p, w)))"

definition lease_response :: "byte list \<Rightarrow> drain_response" where
  "lease_response d = (case decode_drain_lease_body d of
     Inl e \<Rightarrow> \<lparr>dr_status = Inl e, dr_lease = no_lease\<rparr>
   | Inr l \<Rightarrow> \<lparr>dr_status = ok_status, dr_lease = l\<rparr>)"

definition remote_request_drain ::
    "'w network \<Rightarrow> drain_request \<Rightarrow> remote_drain \<Rightarrow> 'w \<Rightarrow> drain_response \<times> remote_drain \<times> 'w" where
  "remote_request_drain net q p w = (case validate_drain_request q of
     Inl e \<Rightarrow> (\<lparr>dr_status = Inl e, dr_lease = no_lease\<rparr>, p, w)
   | Inr _ \<Rightarrow> (case remote_call net OpDrainRequest (encode_drain_request_body q) p w of
       (Inl e, p, w) \<Rightarrow>
         (\<lparr>dr_status = Inl e, dr_lease = no_lease\<lparr>le_state := DsFailed, le_targets := dq_targets q,
            le_attempt := dq_attempt q, le_owner := dq_requester q\<rparr>\<rparr>, p, w)
     | (Inr d, p, w) \<Rightarrow> (lease_response d, p, w)))"

definition remote_refresh_drain ::
    "'w network \<Rightarrow> lease_id \<Rightarrow> nanos \<Rightarrow> incarnation \<Rightarrow> remote_drain \<Rightarrow> 'w \<Rightarrow> drain_response \<times> remote_drain \<times> 'w" where
  "remote_refresh_drain net i extension requester p w =
     (case remote_call net OpDrainRefresh (encode_drain_lease_ref i requester extension) p w of
        (Inl e, p, w) \<Rightarrow> (\<lparr>dr_status = Inl e, dr_lease = no_lease\<lparr>le_id := i\<rparr>\<rparr>, p, w)
      | (Inr d, p, w) \<Rightarrow> (lease_response d, p, w))"

definition remote_query_drain ::
    "'w network \<Rightarrow> lease_id \<Rightarrow> incarnation \<Rightarrow> remote_drain \<Rightarrow> 'w \<Rightarrow> drain_response \<times> remote_drain \<times> 'w" where
  "remote_query_drain net i requester p w =
     (case remote_call net OpDrainQuery (encode_drain_lease_ref i requester 0) p w of
        (Inl e, p, w) \<Rightarrow> (\<lparr>dr_status = Inl e, dr_lease = no_lease\<lparr>le_id := i, le_state := DsNotFound\<rparr>\<rparr>, p, w)
      | (Inr d, p, w) \<Rightarrow> (lease_response d, p, w))"

definition remote_release_drain ::
    "'w network \<Rightarrow> lease_id \<Rightarrow> incarnation \<Rightarrow> remote_drain \<Rightarrow> 'w \<Rightarrow> status \<times> remote_drain \<times> 'w" where
  "remote_release_drain net i requester p w =
     (case remote_call net OpDrainRelease (encode_drain_lease_ref i requester 0) p w of
        (Inl e, p, w) \<Rightarrow> (Inl e, p, w)
      | (Inr _, p, w) \<Rightarrow> (ok_status, p, w))"

definition remote_disconnect :: "'w network \<Rightarrow> remote_drain \<Rightarrow> 'w \<Rightarrow> remote_drain \<times> 'w" where
  "remote_disconnect net p w = (case rp_client p of
     None \<Rightarrow> (p, w)
   | Some c \<Rightarrow> (let (_, _, w) = client_close (nw_wire net) (bounded_deadline (rp_deadline p)) c w in (p\<lparr>rp_client := None\<rparr>, w)))"

section \<open>What a lease service promises\<close>

locale lease_service =
  fixes inv :: "'s \<Rightarrow> bool" and room :: "'s \<Rightarrow> bool" and held :: "'s \<Rightarrow> lease_id \<Rightarrow> drain_lease option"
    and request :: "drain_request \<Rightarrow> 's \<Rightarrow> drain_lease result \<times> 's"
    and release :: "lease_id \<Rightarrow> 's \<Rightarrow> status \<times> 's"
  assumes identified: "inv s \<Longrightarrow> held s i = Some l \<Longrightarrow> le_id l = i"
    and one_each: "inv s \<Longrightarrow> held s i = Some l \<Longrightarrow> held s j = Some k \<Longrightarrow> le_attempt l = le_attempt k \<Longrightarrow> i = j"
    and request_granted: "inv s \<Longrightarrow> room s \<Longrightarrow> request q s = (Inr l, s') \<Longrightarrow>
      inv s' \<and> le_attempt l = dq_attempt q \<and> held s' = (held s)(le_id l \<mapsto> l)"
    and request_same: "inv s \<Longrightarrow> held s i = Some l \<Longrightarrow> le_attempt l = dq_attempt q \<Longrightarrow> request q s = (Inr k, s') \<Longrightarrow>
      k = l \<and> held s' = held s"
    and request_refused: "inv s \<Longrightarrow> request q s = (Inl e, s') \<Longrightarrow> inv s' \<and> held s' = held s"
    and release_held: "inv s \<Longrightarrow> held s i = Some l \<Longrightarrow>
      \<exists>s'. release i s = (ok_status, s') \<and> inv s' \<and> held s' = (held s)(i := None)"
    and release_unknown: "inv s \<Longrightarrow> held s i = None \<Longrightarrow> \<exists>e. release i s = (Inl e, s)"
begin

lemma repeated:
  assumes "inv s" "room s" "request q s = (Inr l, s1)" "request q s1 = (Inr k, s2)"
  shows "k = l \<and> held s2 = held s1"
proof -
  have s1: "inv s1" "le_attempt l = dq_attempt q" "held s1 (le_id l) = Some l"
    using request_granted [OF assms(1,2,3)] by auto
  show ?thesis by (rule request_same [OF s1(1,3,2) assms(4)])
qed

lemma released:
  assumes "inv s" "room s" "request q s = (Inr l, s1)" "release (le_id l) s1 = (r, s2)"
  shows "r = ok_status" "inv s2" "held s2 i = Some k \<Longrightarrow> le_attempt k \<noteq> dq_attempt q"
proof -
  have s1: "inv s1" "le_attempt l = dq_attempt q" "held s1 (le_id l) = Some l"
    using request_granted [OF assms(1,2,3)] by auto
  obtain s3 where "release (le_id l) s1 = (ok_status, s3)" "inv s3" "held s3 = (held s1)(le_id l := None)"
    using release_held [OF s1(1,3)] by blast
  then have s2: "r = ok_status" "inv s2" "held s2 = (held s1)(le_id l := None)" using assms(4) by auto
  then show "r = ok_status" "inv s2" by simp_all
  assume "held s2 i = Some k"
  then have "held s1 i = Some k" "i \<noteq> le_id l" using s2(3) by (auto split: if_splits)
  then show "le_attempt k \<noteq> dq_attempt q" using one_each [OF s1(1) _ s1(3)] s1(2) by metis
qed

end

text \<open>The table both services keep.\<close>

lemma held_for_Some:
  assumes "om_ok m" "held_for a m = Some l"
  shows "le_attempt l = a \<and> (\<exists>i. om_find m i = Some l)"
proof -
  have "l \<in> set (map snd m)" "le_attempt l = a"
    using assms(2) by (auto simp: held_for_def find_Some_iff)
  then obtain i where "(i, l) \<in> set m" by auto
  with assms(1) \<open>le_attempt l = a\<close> show ?thesis by (auto simp: om_in_items)
qed

lemma held_for_None:
  assumes "om_ok m" "held_for a m = None" "om_find m i = Some l"
  shows "le_attempt l \<noteq> a"
  using assms om_value_in [OF assms(3)] by (auto simp: held_for_def find_None_iff)

lemma held_for_known:
  assumes "leases_ok m n" "om_find m i = Some l"
  shows "held_for (le_attempt l) m = Some l"
proof (cases "held_for (le_attempt l) m")
  case None
  then show ?thesis using held_for_None [of m "le_attempt l" i l] assms by (auto simp: leases_ok_def)
next
  case (Some k)
  then obtain j where "om_find m j = Some k" "le_attempt k = le_attempt l"
    using held_for_Some [of m "le_attempt l" k] assms by (auto simp: leases_ok_def)
  with assms Some show ?thesis by (metis leases_ok_def option.inject)
qed

definition id_room :: "u64 \<Rightarrow> bool" where
  "id_room n \<longleftrightarrow> unat n + 1 < 2 ^ 64"

lemma leases_ok_grant:
  assumes "leases_ok m n" "id_room n" "held_for (le_attempt l) m = None" "le_id l = n"
  shows "leases_ok (om_emplace n l m) (next_id n) \<and> om_find (om_emplace n l m) = (om_find m)(n \<mapsto> l)"
proof -
  have less: "n < next_id n" using assms(2) by (simp add: id_room_def next_id_def word_less_nat_alt unat_word_ariths)
  have free: "om_find m n = None" using assms(1) by (cases "om_find m n") (auto simp: leases_ok_def)
  have find: "om_find (om_emplace n l m) = (om_find m)(n \<mapsto> l)"
    by (simp add: om_emplace_fresh [OF free] om_find_set fun_eq_iff)
  have fresh_attempt: "om_find m i = Some k \<Longrightarrow> le_attempt k \<noteq> le_attempt l" for i k
    using held_for_None [OF _ assms(3)] assms(1) by (auto simp: leases_ok_def)
  have bound: "om_find m i = Some k \<Longrightarrow> i < next_id n" for i k
    using assms(1) less by (force simp: leases_ok_def)
  have "leases_ok (om_emplace n l m) (next_id n)"
    using assms(1,4) less fresh_attempt bound unfolding leases_ok_def find
    by (auto simp: table_inv fun_upd_def split: if_splits) (metis fresh_attempt)+
  with find show ?thesis by simp
qed

lemma leases_ok_erase: "leases_ok m n \<Longrightarrow> leases_ok (om_erase i m) n"
  by (auto simp: leases_ok_def om_find_erase table_inv split: if_splits)

subsection \<open>The reference service\<close>

definition granted_lease :: "drain_response \<Rightarrow> drain_lease result" where
  "granted_lease r = (case dr_status r of Inl e \<Rightarrow> Inl e | Inr _ \<Rightarrow> Inr (dr_lease r))"

definition local_grant :: "drain_request \<Rightarrow> local_drain \<Rightarrow> drain_lease result \<times> local_drain" where
  "local_grant q d = (let (r, d) = local_request_drain q d in (granted_lease r, d))"

lemma local_grant_cases:
  obtains (refused) e where "local_grant q d = (Inl e, d)"
  | (injected) e where "local_grant q d = (Inl e, d\<lparr>ld_requests := ld_requests d + 1,
        ld_options := (ld_options d)\<lparr>lo_fail_next_requests := lo_fail_next_requests (ld_options d) - 1\<rparr>\<rparr>)"
  | (same) l where "held_for (dq_attempt q) (ld_leases d) = Some l"
      "local_grant q d = (Inr l, d\<lparr>ld_requests := ld_requests d + 1\<rparr>)"
  | (new) l where "held_for (dq_attempt q) (ld_leases d) = None" "le_id l = ld_next_id d" "le_attempt l = dq_attempt q"
      "local_grant q d = (Inr l, d\<lparr>ld_requests := ld_requests d + 1, ld_next_id := next_id (ld_next_id d),
         ld_epoch := ld_epoch d + 1, ld_leases := om_emplace (ld_next_id d) l (ld_leases d)\<rparr>)"
proof (cases "validate_drain_request q")
  case (Inl e)
  then show ?thesis using refused by (simp add: local_grant_def local_request_drain_def granted_lease_def)
next
  case valid: (Inr u)
  show ?thesis
  proof (cases "lo_fail_next_requests (ld_options d) > 0")
    case True
    then show ?thesis using injected valid
      by (simp add: local_grant_def local_request_drain_def granted_lease_def Let_def)
  next
    case False
    then show ?thesis using same new valid
      by (cases "held_for (dq_attempt q) (ld_leases d)")
        (auto simp: local_grant_def local_request_drain_def granted_lease_def Let_def)
  qed
qed

lemma local_release_cases:
  "local_release_drain i requester d =
     (if om_has (ld_leases d) i
      then (ok_status, d\<lparr>ld_leases := om_erase i (ld_leases d), ld_releases := ld_releases d + 1\<rparr>)
      else (Inl (lease_not_held NotFound i), d))"
  by (auto simp: local_release_drain_def split: option.splits)

interpretation local_leases: lease_service
    "\<lambda>d. leases_ok (ld_leases d) (ld_next_id d)" "\<lambda>d. id_room (ld_next_id d)" "\<lambda>d. om_find (ld_leases d)"
    local_grant "\<lambda>i d. local_release_drain i requester d" for requester
proof
  fix d q l d' assume inv: "leases_ok (ld_leases d) (ld_next_id d)" "id_room (ld_next_id d)"
    and grant: "local_grant q d = (Inr l, d')"
  show "leases_ok (ld_leases d') (ld_next_id d') \<and> le_attempt l = dq_attempt q \<and>
      om_find (ld_leases d') = (om_find (ld_leases d))(le_id l \<mapsto> l)"
  proof (cases rule: local_grant_cases [of q d])
    case (same k)
    then have "l = k" "ld_leases d' = ld_leases d" "ld_next_id d' = ld_next_id d" using grant by auto
    moreover obtain i where "om_find (ld_leases d) i = Some k" "le_attempt k = dq_attempt q"
      using held_for_Some [OF _ same(1)] inv(1) by (auto simp: leases_ok_def)
    ultimately show ?thesis using inv(1) by (metis fun_upd_triv leases_ok_def)
  next
    case (new k)
    then show ?thesis using grant leases_ok_grant [OF inv, of k] by auto
  qed (use grant in simp_all)
next
  fix d q l d' i k assume inv: "leases_ok (ld_leases d) (ld_next_id d)" and held: "om_find (ld_leases d) i = Some l"
    and same: "le_attempt l = dq_attempt q" and grant: "local_grant q d = (Inr k, d')"
  show "k = l \<and> om_find (ld_leases d') = om_find (ld_leases d)"
    using held_for_known [OF inv held] same grant by (cases rule: local_grant_cases [of q d]) auto
next
  fix d q e d' assume inv: "leases_ok (ld_leases d) (ld_next_id d)" and grant: "local_grant q d = (Inl e, d')"
  show "leases_ok (ld_leases d') (ld_next_id d') \<and> om_find (ld_leases d') = om_find (ld_leases d)"
    using inv grant by (cases rule: local_grant_cases [of q d]) auto
qed (auto simp: leases_ok_def local_release_cases om_find_erase fun_eq_iff table_inv)

subsection \<open>The service of the simulator\<close>

lemma service_grant_cases:
  obtains (refused) e where "service_grant q v = (Inl e, v)" "validate_drain_request q = Inl e"
  | (injected) e where "service_grant q v = (Inl e, v\<lparr>dv_fail_next := dv_fail_next v - 1\<rparr>)" "err_code e = DrainFailed"
  | (same) l where "held_for (dq_attempt q) (dv_leases v) = Some l" "service_grant q v = (Inr l, v)"
  | (new) l where "validate_drain_request q = ok_status" "held_for (dq_attempt q) (dv_leases v) = None"
      "le_id l = dv_next_id v" "le_attempt l = dq_attempt q" "le_targets l = dq_targets q" "le_granted_at l = 0"
      "le_expires_at l = dq_lease_duration q"
      "service_grant q v = (Inr l, v\<lparr>dv_next_id := next_id (dv_next_id v), dv_epoch := dv_epoch v + 1,
         dv_leases := om_emplace (dv_next_id v) l (dv_leases v), dv_granted := dv_granted v + 1\<rparr>)"
proof (cases "validate_drain_request q")
  case (Inl e)
  then show ?thesis using refused by (simp add: service_grant_def)
next
  case valid: (Inr u)
  show ?thesis
  proof (cases "dv_fail_next v > 0")
    case True
    then show ?thesis using injected valid by (simp add: service_grant_def make_error_def)
  next
    case False
    then show ?thesis using same new valid
      by (cases "held_for (dq_attempt q) (dv_leases v)") (auto simp: service_grant_def Let_def)
  qed
qed

lemma service_drop_cases:
  "service_drop i v =
     (if om_has (dv_leases v) i
      then (ok_status, v\<lparr>dv_leases := om_erase i (dv_leases v), dv_released := dv_released v + 1\<rparr>)
      else (Inl (lease_not_held NotFound i), v))"
  by (auto simp: service_drop_def split: option.splits)

interpretation service_leases: lease_service
    "\<lambda>v. leases_ok (dv_leases v) (dv_next_id v)" "\<lambda>v. id_room (dv_next_id v)" "\<lambda>v. om_find (dv_leases v)"
    service_grant service_drop
proof
  fix v q l v' assume inv: "leases_ok (dv_leases v) (dv_next_id v)" "id_room (dv_next_id v)"
    and grant: "service_grant q v = (Inr l, v')"
  show "leases_ok (dv_leases v') (dv_next_id v') \<and> le_attempt l = dq_attempt q \<and>
      om_find (dv_leases v') = (om_find (dv_leases v))(le_id l \<mapsto> l)"
  proof (cases rule: service_grant_cases [of q v])
    case (same k)
    then have "l = k" "v' = v" using grant by auto
    moreover obtain i where "om_find (dv_leases v) i = Some k" "le_attempt k = dq_attempt q"
      using held_for_Some [OF _ same(1)] inv(1) by (auto simp: leases_ok_def)
    ultimately show ?thesis using inv(1) by (metis fun_upd_triv leases_ok_def)
  next
    case (new k)
    then show ?thesis using grant leases_ok_grant [OF inv, of k] by auto
  qed (use grant in simp_all)
next
  fix v q l v' i k assume inv: "leases_ok (dv_leases v) (dv_next_id v)" and held: "om_find (dv_leases v) i = Some l"
    and same: "le_attempt l = dq_attempt q" and grant: "service_grant q v = (Inr k, v')"
  show "k = l \<and> om_find (dv_leases v') = om_find (dv_leases v)"
    using held_for_known [OF inv held] same grant by (cases rule: service_grant_cases [of q v]) auto
next
  fix v q e v' assume inv: "leases_ok (dv_leases v) (dv_next_id v)" and grant: "service_grant q v = (Inl e, v')"
  show "leases_ok (dv_leases v') (dv_next_id v') \<and> om_find (dv_leases v') = om_find (dv_leases v)"
    using inv grant by (cases rule: service_grant_cases [of q v]) auto
qed (auto simp: leases_ok_def service_drop_cases om_find_erase fun_eq_iff table_inv)

end
