(* ===== verification/Drain_Remote.thy ===== *)
theory Drain_Remote
  imports Drain_Ports
begin

text \<open>
  The remote drain port over an intact connection to the service of the simulator: every operation
  answers what the service itself answers and leaves the service in the state the operation itself
  leaves it in. A refusal of the service reaches the controller as a drain failure that carries the
  detail, whatever its code was.
\<close>

section \<open>One call\<close>

definition service_network :: "drain_service network" where
  "service_network = \<lparr>nw_dial = (\<lambda>v. (True, v)), nw_wire = server_wire kMaxFrameBytes drain_handler\<rparr>"

text \<open>The port is connected with nothing unread, or can still connect.\<close>

definition remote_ready :: "remote_drain \<Rightarrow> bool" where
  "remote_ready p \<longleftrightarrow> (case rp_client p of Some c \<Rightarrow> cl_valid c \<and> cl_unread c = [] | None \<Rightarrow> rp_connect_attempts p > 0)"

lemma ensure_connected_ready:
  assumes "remote_ready p"
  obtains c p' where "ensure_connected service_network p v = (True, p', v)" "rp_client p' = Some c" "cl_valid c"
    "cl_unread c = []" "rp_connect_attempts p' = rp_connect_attempts p" "rp_deadline p' = rp_deadline p"
proof (cases "rp_client p")
  case None
  then have "0 < unat (rp_connect_attempts p)" using assms by (simp add: remote_ready_def word_less_nat_alt)
  then obtain n where "unat (rp_connect_attempts p) = Suc n" using gr0_implies_Suc by blast
  then show ?thesis using None
    by (intro that [of "p\<lparr>rp_client := Some connected_client\<rparr>" connected_client])
      (simp_all add: ensure_connected_def remote_connected_def service_network_def connected_client_def)
next
  case (Some c)
  then show ?thesis using assms
    by (intro that [of p c]) (simp_all add: ensure_connected_def remote_connected_def remote_ready_def)
qed

definition rejected_by_service :: "error \<Rightarrow> error" where
  "rejected_by_service e = make_error DrainFailed (''drain service rejected the request: '' @ clipped (err_detail e))"

lemma open_response_status:
  assumes "body_fits_frame (ev_body reply)" "\<And>e. outcome = Inl e \<Longrightarrow> err_code e \<noteq> Ok"
  shows "open_response (call_response i outcome reply) =
    (case outcome of Inl e \<Rightarrow> Inl (rejected_by_service e) | Inr _ \<Rightarrow> Inr (ev_body reply))"
  using assms
  by (auto simp: open_response_def call_response_def envelope_back delivered_status rejected_by_service_def
    error_code_value_ok split: sum.splits)

lemma remote_call_served:
  assumes ready: "remote_ready p" and body: "body_fits_frame body"
    and served: "service_handle \<lparr>ev_op = op_code_value op, ev_message = [], ev_body = body\<rparr> new_envelope v = (outcome, reply, v')"
    and reply: "body_fits_frame (ev_body reply)" "\<And>e. outcome = Inl e \<Longrightarrow> err_code e \<noteq> Ok"
  shows "\<exists>p'. remote_call service_network op body p v =
      (case outcome of Inl e \<Rightarrow> Inl (rejected_by_service e) | Inr _ \<Rightarrow> Inr (ev_body reply), p', v') \<and> remote_ready p'"
proof -
  have ready': "remote_ready (p\<lparr>rp_calls := rp_calls p + 1\<rparr>)" using ready by (simp add: remote_ready_def split: option.splits)
  obtain c p1 where p1: "ensure_connected service_network (p\<lparr>rp_calls := rp_calls p + 1\<rparr>) v = (True, p1, v)"
      "rp_client p1 = Some c" "cl_valid c" "cl_unread c = []"
    using ensure_connected_ready [OF ready'] by metis
  have called: "call_type (nw_wire service_network) Request (op_code_value op)
      (encode_envelope (new_envelope\<lparr>ev_op := op_code_value op, ev_body := body\<rparr>)) (rp_deadline p1) c v =
      (Inr (call_response (cl_next_id c) outcome reply), c\<lparr>cl_next_id := cl_next_id c + 1\<rparr>, v')"
    unfolding service_network_def drain_handler_def
    using rpc_call_served [where handle = service_handle, OF body p1(3,4) served reply(1)] by simp
  show ?thesis using p1(3,4) open_response_status [OF reply]
    by (simp add: remote_call_def p1(1,2) called remote_ready_def remote_failed_def Let_def split: sum.split)
qed

section \<open>The operations\<close>

lemma bodies_fit_frame:
  "drain_request_fits q \<Longrightarrow> body_fits_frame (encode_drain_request_body q)"
  "drain_lease_fits l \<Longrightarrow> body_fits_frame (encode_drain_lease_body l)"
  "body_fits_frame (encode_drain_lease_ref i requester extension)" "body_fits_frame []"
  using drain_bodies_small(1) [of q] drain_bodies_small(2) [of l] drain_bodies_small(3) [of i requester extension]
  by (simp_all add: body_fits_frame_def limits)

definition leases_fit :: "drain_service \<Rightarrow> bool" where
  "leases_fit v \<longleftrightarrow> om_ok (dv_leases v) \<and> (\<forall>i l. om_find (dv_leases v) i = Some l \<longrightarrow> drain_lease_fits l)"

text \<open>What a lease operation of the service looks like through the port, \<open>lost\<close> being the lease of a refusal.\<close>

definition port_answer :: "drain_lease \<Rightarrow> drain_lease result \<Rightarrow> drain_response" where
  "port_answer lost outcome = (case outcome of
     Inl e \<Rightarrow> \<lparr>dr_status = Inl (rejected_by_service e), dr_lease = lost\<rparr>
   | Inr l \<Rightarrow> \<lparr>dr_status = ok_status, dr_lease = l\<rparr>)"

text \<open>The reply of a lease operation.\<close>

lemma lease_call_served:
  assumes "remote_ready p" "body_fits_frame body"
    and handled: "service_handle \<lparr>ev_op = op_code_value op, ev_message = [], ev_body = body\<rparr> new_envelope v =
      reply_lease (outcome, v') new_envelope"
    and "\<And>e. outcome = Inl e \<Longrightarrow> err_code e \<noteq> Ok" "\<And>l. outcome = Inr l \<Longrightarrow> drain_lease_fits l"
  shows "\<exists>p'. (case remote_call service_network op body p v of
        (Inl e, p, w) \<Rightarrow> (\<lparr>dr_status = Inl e, dr_lease = lost\<rparr>, p, w)
      | (Inr d, p, w) \<Rightarrow> (lease_response d, p, w)) = (port_answer lost outcome, p', v') \<and> remote_ready p'"
proof (cases outcome)
  case (Inl e)
  then have handled: "service_handle \<lparr>ev_op = op_code_value op, ev_message = [], ev_body = body\<rparr> new_envelope v =
      (Inl e, new_envelope, v')" using handled by (simp add: reply_lease_def)
  from remote_call_served [OF assms(1,2) this] assms(4) Inl obtain p'
    where "remote_call service_network op body p v = (Inl (rejected_by_service e), p', v')" "remote_ready p'"
    by (auto simp: new_envelope_def bodies_fit_frame)
  then show ?thesis by (simp add: Inl port_answer_def)
next
  case (Inr l)
  then have handled: "service_handle \<lparr>ev_op = op_code_value op, ev_message = [], ev_body = body\<rparr> new_envelope v =
      (ok_status, new_envelope\<lparr>ev_body := encode_drain_lease_body l\<rparr>, v')" using handled by (simp add: reply_lease_def)
  from remote_call_served [OF assms(1,2) this] assms(5) Inr obtain p'
    where "remote_call service_network op body p v = (Inr (encode_drain_lease_body l), p', v')" "remote_ready p'"
    by (auto simp: bodies_fit_frame)
  then show ?thesis using assms(5) Inr by (simp add: port_answer_def lease_response_def drain_lease_msg.delivered)
qed

lemma ref_decodes:
  "i64_fits extension \<Longrightarrow> decode_drain_lease_ref (encode_drain_lease_ref i requester extension) = Inr (i, requester, extension)"
  using drain_lease_ref_msg.delivered [of "(i, requester, extension)"] by simp

lemma zero_fits [simp]: "i64_fits 0"
  by (simp add: i64_fits_def)

lemma granted_fits:
  assumes "leases_fit v" "drain_request_fits q" "service_grant q v = (Inr l, v')"
  shows "drain_lease_fits l"
proof (cases rule: service_grant_cases [of q v])
  case (same k)
  then show ?thesis using assms held_for_Some [of "dv_leases v" "dq_attempt q" k] by (auto simp: leases_fit_def)
next
  case (new k)
  then show ?thesis using assms(2,3) by (auto simp: drain_lease_fits_def drain_request_fits_def)
qed (use assms in simp_all)

lemma remote_request_served:
  assumes "remote_ready p" "drain_request_fits q" "leases_fit v" "validate_drain_request q = ok_status"
    and "service_grant q v = (outcome, v')"
  shows "\<exists>p'. remote_request_drain service_network q p v =
    (port_answer (no_lease\<lparr>le_state := DsFailed, le_targets := dq_targets q, le_attempt := dq_attempt q,
       le_owner := dq_requester q\<rparr>) outcome, p', v') \<and> remote_ready p'"
proof -
  have handled: "service_handle \<lparr>ev_op = op_code_value OpDrainRequest, ev_message = [], ev_body = encode_drain_request_body q\<rparr>
      new_envelope v = reply_lease (outcome, v') new_envelope"
    using assms(2,5) by (simp add: service_handle_def service_request_drain_def drain_request_msg.delivered)
  have "err_code e \<noteq> Ok" if "outcome = Inl e" for e
    using assms(4,5) that by (cases rule: service_grant_cases [of q v]) auto
  with lease_call_served [OF assms(1) bodies_fit_frame(1) [OF assms(2)] handled] granted_fits [OF assms(3,2)] assms(4,5)
  show ?thesis unfolding remote_request_drain_def by simp
qed

lemma remote_query_served:
  assumes "remote_ready p" "leases_fit v" "service_lookup i v = (outcome, v')"
  shows "\<exists>p'. remote_query_drain service_network i requester p v =
    (port_answer (no_lease\<lparr>le_id := i, le_state := DsNotFound\<rparr>) outcome, p', v') \<and> remote_ready p'"
proof -
  have handled: "service_handle \<lparr>ev_op = op_code_value OpDrainQuery, ev_message = [],
      ev_body = encode_drain_lease_ref i requester 0\<rparr> new_envelope v = reply_lease (outcome, v') new_envelope"
    using assms(3) by (simp add: service_handle_def service_query_def ref_decodes)
  have "err_code e \<noteq> Ok" if "outcome = Inl e" for e
    using assms(3) that by (auto simp: service_lookup_def lease_lost_def make_error_def Let_def split: option.splits)
  moreover have "drain_lease_fits l" if "outcome = Inr l" for l
    using assms(2,3) that by (auto simp: service_lookup_def leases_fit_def Let_def split: option.splits if_splits)
  ultimately show ?thesis unfolding remote_query_drain_def
    using lease_call_served [OF assms(1) bodies_fit_frame(3) handled] by blast
qed

lemma remote_refresh_served:
  assumes "remote_ready p" "leases_fit v" "i64_fits extension" "service_extend i requester extension v = (outcome, v')"
    and "\<And>l. outcome = Inr l \<Longrightarrow> i64_fits (le_expires_at l)"
  shows "\<exists>p'. remote_refresh_drain service_network i extension requester p v =
    (port_answer (no_lease\<lparr>le_id := i\<rparr>) outcome, p', v') \<and> remote_ready p'"
proof -
  have handled: "service_handle \<lparr>ev_op = op_code_value OpDrainRefresh, ev_message = [],
      ev_body = encode_drain_lease_ref i requester extension\<rparr> new_envelope v = reply_lease (outcome, v') new_envelope"
    using assms(3,4) by (simp add: service_handle_def service_refresh_def ref_decodes)
  have "err_code e \<noteq> Ok" if "outcome = Inl e" for e
    using assms(4) that
    by (auto simp: service_extend_def lease_lost_def make_error_def invalid_argument_def Let_def split: option.splits if_splits)
  moreover have "drain_lease_fits l" if "outcome = Inr l" for l
    using assms(2,4) assms(5) [OF that] that
    by (auto simp: service_extend_def leases_fit_def drain_lease_fits_def Let_def split: option.splits if_splits)
  ultimately show ?thesis unfolding remote_refresh_drain_def
    using lease_call_served [OF assms(1) bodies_fit_frame(3) handled] by blast
qed

lemma remote_release_served:
  assumes "remote_ready p" "service_drop i v = (outcome, v')"
  shows "\<exists>p'. remote_release_drain service_network i requester p v =
    (case outcome of Inl e \<Rightarrow> Inl (rejected_by_service e) | Inr _ \<Rightarrow> ok_status, p', v') \<and> remote_ready p'"
proof -
  define reply where "reply = (case outcome of Inl e \<Rightarrow> new_envelope
    | Inr _ \<Rightarrow> new_envelope\<lparr>ev_body := encode_text_body (''released '' @ to_string_lease i)\<rparr>)"
  have handled: "service_handle \<lparr>ev_op = op_code_value OpDrainRelease, ev_message = [],
      ev_body = encode_drain_lease_ref i requester 0\<rparr> new_envelope v = (outcome, reply, v')"
    using assms(2) by (simp add: service_handle_def service_release_def ref_decodes reply_def split: sum.split)
  have "body_fits_frame (ev_body reply)"
    by (auto simp: reply_def new_envelope_def body_fits_frame_def encode_text_body_def w_blob_def blob_fits_def limits
      split: sum.split)
  moreover have "err_code e \<noteq> Ok" if "outcome = Inl e" for e
    using assms(2) that by (auto simp: service_drop_def lease_not_held_def make_error_def split: option.splits)
  ultimately obtain p' where
    "remote_call service_network OpDrainRelease (encode_drain_lease_ref i requester 0) p v =
      (case outcome of Inl e \<Rightarrow> Inl (rejected_by_service e) | Inr _ \<Rightarrow> Inr (ev_body reply), p', v')" "remote_ready p'"
    using remote_call_served [OF assms(1) bodies_fit_frame(3) handled] by blast
  then show ?thesis by (simp add: remote_release_drain_def split: sum.split)
qed

end
