(* ===== verification/Drain_History.thy ===== *)
theory Drain_History
  imports Drain_Ports
begin

text \<open>
  The drain services after any sequence of requests: as long as lease identities are left, the leases
  are held under their own identities and no attempt holds two. With the contract of
  \<open>lease_service\<close> this settles what a repeated request and a release do.
\<close>

section \<open>One step\<close>

text \<open>A refresh changes neither the identity nor the attempt of a lease.\<close>

lemma leases_ok_update:
  assumes "leases_ok m n" "om_find m i = Some l" "le_id k = le_id l" "le_attempt k = le_attempt l"
  shows "leases_ok (om_set i k m) n"
  using assms unfolding leases_ok_def by (auto simp: om_find_set table_inv split: if_splits)

lemma leases_ok_empty [simp]: "leases_ok [] n"
  by (simp add: leases_ok_def)

lemma service_extend_keeps:
  assumes "leases_ok (dv_leases v) (dv_next_id v)"
  shows "leases_ok (dv_leases (snd (service_extend i requester extension v))) (dv_next_id (snd (service_extend i requester extension v)))"
  using assms by (auto simp: service_extend_def Let_def split: option.split intro: leases_ok_update)

lemma service_lookup_keeps:
  assumes "leases_ok (dv_leases v) (dv_next_id v)"
  shows "leases_ok (dv_leases (snd (service_lookup i v))) (dv_next_id (snd (service_lookup i v)))"
  using assms by (auto simp: service_lookup_def Let_def split: option.split)

lemma service_drop_keeps:
  assumes "leases_ok (dv_leases v) (dv_next_id v)"
  shows "leases_ok (dv_leases (snd (service_drop i v))) (dv_next_id (snd (service_drop i v)))"
  using assms by (auto simp: service_drop_def split: option.split intro: leases_ok_erase)

lemma service_grant_keeps:
  assumes "leases_ok (dv_leases v) (dv_next_id v)" "id_room (dv_next_id v)"
  shows "leases_ok (dv_leases (snd (service_grant q v))) (dv_next_id (snd (service_grant q v)))"
proof (cases "service_grant q v")
  case (Pair outcome v')
  then show ?thesis
    using service_leases.request_granted [OF assms] service_leases.request_refused [OF assms(1)] by (cases outcome) auto
qed

lemma reply_lease_state: "snd (snd (reply_lease outcome reply)) = snd outcome"
  by (simp add: reply_lease_def split: prod.split sum.split)

lemma service_handle_keeps:
  assumes "leases_ok (dv_leases v) (dv_next_id v)" "id_room (dv_next_id v)"
  shows "leases_ok (dv_leases (snd (snd (service_handle request reply v)))) (dv_next_id (snd (snd (service_handle request reply v))))"
proof -
  have release: "snd (snd (service_release body reply v)) \<in> {v} \<union> range (\<lambda>i. snd (service_drop i v))" for body
  proof (cases "decode_drain_lease_ref body")
    case (Inr ref)
    obtain i requester extension where ref: "ref = (i, requester, extension)" by (metis prod_cases3)
    obtain outcome v' where "service_drop i v = (outcome, v')" by fastforce
    then have "snd (snd (service_release body reply v)) = snd (service_drop i v)"
      by (cases outcome) (simp_all add: service_release_def Inr ref)
    then show ?thesis by blast
  qed (simp add: service_release_def)
  show ?thesis
    using assms service_grant_keeps [OF assms] service_drop_keeps [OF assms(1)] service_lookup_keeps [OF assms(1)]
      service_extend_keeps [OF assms(1)] release [of "ev_body request"]
    by (auto simp: service_handle_def service_request_drain_def service_query_def service_refresh_def reply_lease_state
      split: option.split op_code.split sum.split)
qed

section \<open>Histories\<close>

inductive service_history :: "drain_service \<Rightarrow> bool" where
  started: "service_history (new_drain_service granted fence failing dropping)"
| request: "service_history v \<Longrightarrow> id_room (dv_next_id v) \<Longrightarrow> service_history (snd (snd (service_handle request reply v)))"

lemma service_history_ok: "service_history v \<Longrightarrow> leases_ok (dv_leases v) (dv_next_id v)"
  by (induction rule: service_history.induct) (simp_all add: new_drain_service_def service_handle_keeps)

text \<open>Right after a grant the same request is granted the same lease and changes nothing.\<close>

lemma service_grant_again:
  assumes "leases_ok (dv_leases v) (dv_next_id v)" "id_room (dv_next_id v)" "service_grant q v = (Inr l, v1)"
  shows "service_grant q v1 = (Inr l, v1)"
proof -
  have v1: "leases_ok (dv_leases v1) (dv_next_id v1)" "le_attempt l = dq_attempt q"
      "om_find (dv_leases v1) (le_id l) = Some l"
    using service_leases.request_granted [OF assms] by auto
  have "dv_fail_next v1 = 0" "validate_drain_request q = ok_status"
    using assms(3) by (auto simp: service_grant_def Let_def word_gt_0 split: sum.splits if_splits option.splits)
  then show ?thesis using held_for_known [OF v1(1,3)] v1(2) by (simp add: service_grant_def)
qed

text \<open>The reference service has one more way to lose leases, the switch for tests.\<close>

inductive local_history :: "local_drain \<Rightarrow> bool" where
  started: "local_history (new_local_drain opts)"
| request: "local_history d \<Longrightarrow> id_room (ld_next_id d) \<Longrightarrow> local_history (snd (local_request_drain q d))"
| refresh: "local_history d \<Longrightarrow> local_history (snd (local_refresh_drain i extension requester d))"
| query: "local_history d \<Longrightarrow> local_history (snd (local_query_drain i requester d))"
| release: "local_history d \<Longrightarrow> local_history (snd (local_release_drain i requester d))"
| failing: "local_history d \<Longrightarrow> local_history (fail_next n d)"
| granting: "local_history d \<Longrightarrow> local_history (set_granted_state st d)"
| dropping: "local_history d \<Longrightarrow> local_history (drop_leases_on_next_query d)"

lemma local_request_keeps:
  assumes "leases_ok (ld_leases d) (ld_next_id d)" "id_room (ld_next_id d)"
  shows "leases_ok (ld_leases (snd (local_request_drain q d))) (ld_next_id (snd (local_request_drain q d)))"
proof -
  obtain outcome d' where grant: "local_grant q d = (outcome, d')" by fastforce
  then have "snd (local_request_drain q d) = d'" by (auto simp: local_grant_def split: prod.splits)
  moreover have "leases_ok (ld_leases d') (ld_next_id d')"
    using local_leases.request_granted [OF assms] local_leases.request_refused [OF assms(1)] grant
    by (cases outcome) auto
  ultimately show ?thesis by simp
qed

lemma local_history_ok: "local_history d \<Longrightarrow> leases_ok (ld_leases d) (ld_next_id d)"
proof (induction rule: local_history.induct)
  case (refresh d i extension requester)
  then show ?case
    by (auto simp: local_refresh_drain_def Let_def split: option.split intro: leases_ok_update)
next
  case (query d i requester)
  then show ?case by (auto simp: local_query_drain_def Let_def split: option.split)
next
  case (release d i requester)
  then show ?case by (auto simp: local_release_drain_def split: option.split intro: leases_ok_erase)
qed (simp_all add: new_local_drain_def local_request_keeps fail_next_def set_granted_state_def drop_leases_on_next_query_def)

lemma local_grant_again:
  assumes "leases_ok (ld_leases d) (ld_next_id d)" "id_room (ld_next_id d)" "local_grant q d = (Inr l, d1)"
  shows "fst (local_grant q d1) = Inr l"
proof -
  have d1: "leases_ok (ld_leases d1) (ld_next_id d1)" "le_attempt l = dq_attempt q"
      "om_find (ld_leases d1) (le_id l) = Some l"
    using local_leases.request_granted [OF assms] by auto
  have "lo_fail_next_requests (ld_options d1) = 0" "validate_drain_request q = ok_status"
    using assms(3) by (auto simp: local_grant_def local_request_drain_def granted_lease_def Let_def word_gt_0
      split: sum.splits if_splits option.splits)
  then show ?thesis using held_for_known [OF d1(1,3)] d1(2)
    by (simp add: local_grant_def local_request_drain_def granted_lease_def Let_def)
qed

end
