(* ===== verification/Explain.thy ===== *)
theory Explain
  imports Preconditions
begin

text \<open>
  Explanations and conflict reports (\<^verbatim>\<open>include/mf/engine/explain.hpp\<close>, \<^verbatim>\<open>src/engine/explain.cpp\<close>). The
  pointers of a context are options. A line is its code and its text; every section of an explanation
  is the list of its lines in the order in which the code adds them.

  The lemmas say what a conflict report means: it lists a pair of jobs for a shared target exactly when
  both are under way and their removal sets meet.
\<close>

section \<open>Explanations\<close>

type_synonym explanation_line = "string \<times> string"

record explanation =
  ex_subject :: string
  ex_action :: string
  ex_outcome :: string
  ex_job :: "job_snapshot option"
  ex_evidence :: "explanation_line list"
  ex_policy :: "explanation_line list"
  ex_lifecycle :: "explanation_line list"
  ex_rejected :: "explanation_line list"
  ex_at :: nanos
  ex_by :: incarnation
  ex_policy_revision :: revision
  ex_topology_revision :: revision
  ex_policy_digest :: u64
  ex_topology_digest :: u64
  ex_readiness_digest :: u64
  ex_impact_digest :: u64
  ex_preconditions_digest :: u64
  ex_digest :: u64

record explain_context =
  ec_job :: "job option"
  ec_topology :: "topology option"
  ec_policy :: "policy option"
  ec_ledger :: "ledger option"
  ec_jobs :: "job_table option"
  ec_readiness :: "readiness_view option"
  ec_preconditions :: "precondition_set option"
  ec_impact :: "capacity_impact option"
  ec_current :: incarnation
  ec_now :: nanos
  ec_action :: string

abbreviation newline :: string where
  "newline \<equiv> [CHR 0x0A]"

definition dump_line :: "explanation_line \<Rightarrow> string" where
  "dump_line l = ''  ['' @ fst l @ ''] '' @ snd l @ newline"

definition dump_section :: "string \<Rightarrow> explanation_line list \<Rightarrow> string" where
  "dump_section heading ls =
     heading @ '':'' @ newline @ (if ls = [] then ''  (none)'' @ newline else concat (map dump_line ls))"

definition explanation_to_text :: "explanation \<Rightarrow> string" where
  "explanation_to_text x =
     ''subject: '' @ ex_subject x @ newline @ ''action: '' @ ex_action x @ newline @ ''outcome: '' @ ex_outcome x @ newline @
     ''at: '' @ format_time (ex_at x) @ newline @ ''by: '' @ to_string_incarnation (ex_by x) @ newline @
     ''policy: '' @ to_string_revision (ex_policy_revision x) @ '' digest='' @ hex_u64 (ex_policy_digest x) @ newline @
     ''topology: '' @ to_string_revision (ex_topology_revision x) @ '' digest='' @ hex_u64 (ex_topology_digest x) @ newline @
     ''readiness digest='' @ hex_u64 (ex_readiness_digest x) @ '' impact digest='' @ hex_u64 (ex_impact_digest x) @
     '' preconditions digest='' @ hex_u64 (ex_preconditions_digest x) @ newline @
     ''explanation digest='' @ hex_u64 (ex_digest x) @ newline @
     dump_section ''evidence'' (ex_evidence x) @ dump_section ''policy'' (ex_policy x) @
     dump_section ''lifecycle'' (ex_lifecycle x) @ dump_section ''rejected alternatives'' (ex_rejected x)"

fun join_states :: "job_state list \<Rightarrow> string" where
  "join_states [] = []"
| "join_states [s] = to_string_job_state s"
| "join_states (s # ss) = to_string_job_state s @ CHR '','' # join_states ss"

definition history_line :: "history_entry \<Rightarrow> explanation_line" where
  "history_line h = (to_string_block (he_reason h),
     format_time (he_at h) @ '' '' @ to_string_job_state (he_from h) @ '' -> '' @ to_string_job_state (he_to h) @
     (if he_detail h = [] then [] else '' -- '' @ he_detail h))"

definition lifecycle_lines :: "job \<Rightarrow> explanation_line list" where
  "lifecycle_lines j =
     (let allowed = join_states (allowed_next_states (j_state j) (j_service_removed j)) in
      [(''state'', to_string_job_state (j_state j) @ '' -- '' @ describe (j_state j)),
       (''service-removed'', if j_service_removed j
          then ''true (backward transitions and cancellation are forbidden)'' else ''false''),
       (''generation'', ''job '' @ to_string_job (j_id j) @ '' generation '' @ to_string_generation (j_generation j) @
          '', attempt '' @ to_string_attempt (j_active_attempt j)),
       (''allowed-next'', if allowed = [] then ''(terminal)'' else allowed)] @
      map history_line (j_history j))"

definition readiness_line :: "readiness_view \<Rightarrow> target_id \<Rightarrow> explanation_line" where
  "readiness_line view t = (case get_readiness view t of
     None \<Rightarrow> (''readiness-absent'', to_string_target t @ '' is not present in the readiness view'')
   | Some r \<Rightarrow> (if rd_fresh r then ''readiness-fresh'' else ''readiness-stale'',
       to_string_target t @ '': health='' @ to_string_health (rd_health r) @ '' sources='' @
       dec_string (rd_fresh_sources r) @ '' state='' @ to_string_freshness (rd_state r) @ '' -- '' @ rd_detail r))"

definition authority_line :: "ledger \<Rightarrow> job \<Rightarrow> explanation_line" where
  "authority_line l j = (case find_for_job l (j_id j) (j_generation j) of
     None \<Rightarrow> (''authority-absent'', ''job holds no maintenance authority in the current incarnation'')
   | Some r \<Rightarrow> (''authority-held'', reservation_to_text r @ '' attempt='' @ to_string_attempt (ra_attempt r)))"

definition optional_lines :: "'a option \<Rightarrow> ('a \<Rightarrow> explanation_line list) \<Rightarrow> explanation_line list" where
  "optional_lines p f = (case p of None \<Rightarrow> [] | Some x \<Rightarrow> f x)"

definition evidence_lines :: "explain_context \<Rightarrow> job \<Rightarrow> explanation_line list" where
  "evidence_lines ctx j =
     optional_lines (ec_readiness ctx) (\<lambda>view. map (readiness_line view) (j_removal_set j)) @
     optional_lines (ec_ledger ctx) (\<lambda>l. [authority_line l j])"

definition redundancy_line :: "policy \<Rightarrow> pool_id \<Rightarrow> explanation_line" where
  "redundancy_line po p =
     (let rule = redundancy_for po p in
      (''redundancy'', ''pool '' @ to_string_pool p @ '' requires '' @ dec_word (required_serving_units rule) @
        '' serving unit(s) (N='' @ dec_word (rr_min_viable rule) @ '' +'' @ dec_word (rr_tolerated_losses rule) @
        '') via rule '' @ CHR 0x27 # rr_name rule @ [CHR 0x27]))"

definition policy_lines :: "explain_context \<Rightarrow> job \<Rightarrow> policy \<Rightarrow> explanation_line list" where
  "policy_lines ctx j po =
     [(''tier'', ''priority tier '' @ dec_word (j_priority j) @ '' rank '' @ dec_word (tier_rank po (j_priority j)) @
        '' of '' @ dec_string (length (po_tiers po))),
      (''window'', if po_require_window po then ''a maintenance window is required'' else ''a maintenance window is optional''),
      (''evidence-sources'', ''at least '' @ dec_word (po_min_evidence_sources po) @
        '' fresh source(s) required per target''),
      (''concurrency'', ''policy admits at most '' @ dec_word (po_max_concurrent_jobs po) @
        '' concurrent maintenance job(s)'')] @
     map (redundancy_line po) (case ec_topology ctx of Some t \<Rightarrow> pools_of t (j_removal_set j) | None \<Rightarrow> [])"

definition because :: "string \<Rightarrow> string" where
  "because reason = (if reason = [] then [] else '' -- '' @ reason)"

definition pool_line :: "pool_impact \<Rightarrow> explanation_line" where
  "pool_line p = (if pi_satisfied p then ''pool-ok'' else ''pool-violation'',
     ''pool '' @ to_string_pool (pi_pool p) @ '' total='' @ dec_word (pi_total_units p) @ '' serving='' @
     dec_word (pi_serving_units p) @ '' removed='' @ dec_word (pi_removed_serving_units p) @ '' remaining='' @
     dec_word (pi_remaining_units p) @ '' required='' @ dec_word (pi_required_units p + pi_reserve_units p) @
     because (pi_reason p))"

definition domain_line :: "domain_impact \<Rightarrow> explanation_line" where
  "domain_line d = (if di_satisfied d then ''domain-ok'' else ''domain-violation'',
     ''domain '' @ to_string_domain (di_domain d) @ '' out_before='' @ dec_word (di_out_before d) @ '' out_after='' @
     dec_word (di_out_after d) @ (if di_limited d then '' max_out='' @ dec_word (di_max_out d) else '' unlimited'') @
     because (di_reason d))"

definition contract_line :: "contract_impact \<Rightarrow> explanation_line" where
  "contract_line c = (if co_satisfied c then ''contract-ok'' else ''contract-violation'',
     ''contract '' @ to_string_contract (co_contract c) @ '' available_before='' @ dec_word (co_available_before c) @
     '' available_after='' @ dec_word (co_available_after c) @ '' min='' @ dec_word (co_min_available c) @
     because (co_reason c))"

definition precondition_lines :: "precondition_set \<Rightarrow> explanation_line list" where
  "precondition_lines ps = map (\<lambda>r. (''precondition-'' @ to_string_status (pc_status r) @ ''-'' @
       to_string_precondition (pc_kind r), pc_detail r)) (filter (\<lambda>r. pc_status r \<noteq> Satisfied) (ps_results ps))"

definition under_way :: "job \<Rightarrow> bool" where
  "under_way j \<longleftrightarrow> holds_resources (j_state j) \<or> j_state j = Proposed"

definition competing_lines :: "ledger \<Rightarrow> nanos \<Rightarrow> job \<Rightarrow> explanation_line list" where
  "competing_lines l now j = map (\<lambda>(i, r). (''competing-authority'', to_string_authority i @ '' held by job '' @
       to_string_job (ra_job r) @ '' covers '' @ dec_string (length (ra_targets r)) @ '' target(s)''))
     (filter (\<lambda>(i, r). ra_job r \<noteq> j_id j \<and> live_at now r) (lg_reservations l))"

definition other_job_lines :: "job_table \<Rightarrow> job \<Rightarrow> explanation_line list" where
  "other_job_lines jobs j = map (\<lambda>(i, k). (''other-job'', to_string_job i @ '' state='' @ to_string_job_state (j_state k) @
       '' priority='' @ dec_word (j_priority k) @ '' targets='' @ dec_string (length (j_targets k))))
     (filter (\<lambda>(i, k). i \<noteq> j_id j \<and> under_way k) (jt_jobs jobs))"

definition rejected_lines :: "explain_context \<Rightarrow> job \<Rightarrow> explanation_line list" where
  "rejected_lines ctx j =
     optional_lines (ec_impact ctx) (\<lambda>im. map pool_line (im_pools im) @ map domain_line (im_domains im) @
       map contract_line (im_contracts im)) @
     optional_lines (ec_preconditions ctx) precondition_lines @
     (case (ec_jobs ctx, ec_ledger ctx) of
        (Some jobs, Some l) \<Rightarrow> competing_lines l (ec_now ctx) j @ other_job_lines jobs j
      | _ \<Rightarrow> [])"

definition dg_lines :: "explanation_line list \<Rightarrow> u64 \<Rightarrow> u64" where
  "dg_lines ls h = dg_each (\<lambda>l h. dg_str (snd l) (dg_str (fst l) h)) ls (dg_len ls h)"

definition explanation_digest :: "explanation \<Rightarrow> u64" where
  "explanation_digest x =
     (let h = dg_str ''mf.explanation.v1'' dg_init;
          h = dg_str (ex_subject x) h;
          h = dg_str (ex_action x) h;
          h = dg_str (ex_outcome x) h;
          h = dg_i64 (ex_at x) h;
          h = dg_str (to_string_incarnation (ex_by x)) h;
          h = dg_u64 (ex_policy_revision x) h;
          h = dg_u64 (ex_policy_digest x) h;
          h = dg_u64 (ex_topology_revision x) h;
          h = dg_u64 (ex_topology_digest x) h;
          h = dg_u64 (ex_readiness_digest x) h;
          h = dg_u64 (ex_impact_digest x) h;
          h = dg_u64 (ex_preconditions_digest x) h
      in dg_lines (ex_rejected x) (dg_lines (ex_lifecycle x) (dg_lines (ex_policy x) (dg_lines (ex_evidence x) h))))"

definition no_explanation :: "explain_context \<Rightarrow> explanation" where
  "no_explanation ctx =
     \<lparr>ex_subject = [], ex_action = ec_action ctx, ex_outcome = [], ex_job = None, ex_evidence = [], ex_policy = [],
      ex_lifecycle = [], ex_rejected = [], ex_at = ec_now ctx, ex_by = ec_current ctx,
      ex_policy_revision = (case ec_policy ctx of Some po \<Rightarrow> po_revision po | None \<Rightarrow> 0),
      ex_topology_revision = (case ec_topology ctx of Some t \<Rightarrow> tp_revision t | None \<Rightarrow> 0),
      ex_policy_digest = (case ec_policy ctx of Some po \<Rightarrow> policy_digest po | None \<Rightarrow> 0),
      ex_topology_digest = (case ec_topology ctx of Some t \<Rightarrow> topology_digest t | None \<Rightarrow> 0),
      ex_readiness_digest = (case ec_readiness ctx of Some v \<Rightarrow> view_digest v | None \<Rightarrow> 0),
      ex_impact_digest = (case ec_impact ctx of Some im \<Rightarrow> im_digest im | None \<Rightarrow> 0),
      ex_preconditions_digest = (case ec_preconditions ctx of Some ps \<Rightarrow> ps_digest ps | None \<Rightarrow> 0),
      ex_digest = 0\<rparr>"

definition explain_job :: "explain_context \<Rightarrow> explanation" where
  "explain_job ctx = (case ec_job ctx of
     None \<Rightarrow> (no_explanation ctx)\<lparr>ex_subject := ''unknown'', ex_outcome := ''no such job''\<rparr>
   | Some j \<Rightarrow>
       let x = (no_explanation ctx)\<lparr>
             ex_subject := to_string_job (j_id j) @ '' generation '' @ to_string_generation (j_generation j) @
               '' revision '' @ to_string_revision (j_revision j),
             ex_job := Some (snapshot j),
             ex_outcome := to_string_job_state (j_state j) @
               (if j_block j \<noteq> BrNone then '' blocked by '' @ to_string_block (j_block j) else []),
             ex_lifecycle := lifecycle_lines j,
             ex_evidence := evidence_lines ctx j,
             ex_policy := optional_lines (ec_policy ctx) (policy_lines ctx j),
             ex_rejected := rejected_lines ctx j\<rparr> in
       x\<lparr>ex_digest := explanation_digest x\<rparr>)"

section \<open>Conflict reports\<close>

record conflict_entry =
  ce_first :: job_id
  ce_second :: job_id
  ce_shared :: target_id
  ce_kind :: string
  ce_detail :: string

record conflict_report =
  cf_conflicts :: "conflict_entry list"
  cf_reservations :: "explanation_line list"
  cf_blocked :: "explanation_line list"
  cf_queued :: "explanation_line list"
  cf_at :: nanos
  cf_digest :: u64

record conflict_context =
  cc_jobs :: "job_table option"
  cc_ledger :: "ledger option"
  cc_topology :: "topology option"
  cc_policy :: "policy option"
  cc_now :: nanos

definition conflict_text :: "conflict_entry \<Rightarrow> string" where
  "conflict_text e = ''  '' @ to_string_job (ce_first e) @ '' vs '' @ to_string_job (ce_second e) @ '' on '' @
     to_string_target (ce_shared e) @ '' ('' @ ce_kind e @ '') -- '' @ ce_detail e @ newline"

definition none_if_empty :: "'a list \<Rightarrow> ('a \<Rightarrow> string) \<Rightarrow> string" where
  "none_if_empty xs f = (if xs = [] then ''  (none)'' @ newline else concat (map f xs))"

definition conflicts_to_text :: "conflict_report \<Rightarrow> string" where
  "conflicts_to_text r =
     ''conflict report at '' @ format_time (cf_at r) @ '' digest='' @ hex_u64 (cf_digest r) @ newline @
     ''live reservations:'' @ newline @ none_if_empty (cf_reservations r) dump_line @
     ''conflicts:'' @ newline @ none_if_empty (cf_conflicts r) conflict_text @
     ''blocked jobs:'' @ newline @ none_if_empty (cf_blocked r) dump_line"

definition reservation_line :: "nanos \<Rightarrow> authority_id \<times> reservation \<Rightarrow> explanation_line" where
  "reservation_line now e = (to_string_authority (fst e),
     reservation_to_text (snd e) @ (if live_at now (snd e) then '' live'' else '' expired''))"

definition blocked_line :: "job \<Rightarrow> explanation_line" where
  "blocked_line j = (to_string_block (j_block j), to_string_job (j_id j) @ '' -- '' @ j_block_detail j)"

definition active_jobs :: "job_table \<Rightarrow> job list" where
  "active_jobs jobs = sort_key j_id (filter under_way (map snd (jt_jobs jobs)))"

text \<open>The first target of the one that the other claims too.\<close>

definition shared_target_conflict :: "job \<Rightarrow> job \<Rightarrow> conflict_entry list" where
  "shared_target_conflict a b = (case find (\<lambda>t. t \<in> set (j_removal_set b)) (j_removal_set a) of
     None \<Rightarrow> []
   | Some t \<Rightarrow> [\<lparr>ce_first = j_id a, ce_second = j_id b, ce_shared = t, ce_kind = ''shared-target'',
       ce_detail = ''both jobs claim '' @ to_string_target t @ '' ('' @ to_string_job_state (j_state a) @ '' vs '' @
         to_string_job_state (j_state b) @ '')''\<rparr>])"

definition shared_domain_conflicts :: "topology \<Rightarrow> policy option \<Rightarrow> job \<Rightarrow> job \<Rightarrow> conflict_entry list" where
  "shared_domain_conflicts t po a b =
     map (\<lambda>d. \<lparr>ce_first = j_id a, ce_second = j_id b,
         ce_shared = (case j_removal_set a of [] \<Rightarrow> TargetId TkUnknown 0 | x # _ \<Rightarrow> x),
         ce_kind = ''shared-correlated-domain'',
         ce_detail = ''both jobs remove capacity from correlated domain '' @ to_string_domain d\<rparr>)
       (filter (\<lambda>d. case po of Some po \<Rightarrow> has_domain_limit po d | None \<Rightarrow> True)
         (filter (\<lambda>d. d \<in> set (domains_of t (j_removal_set b))) (domains_of t (j_removal_set a))))"

definition pair_conflicts :: "conflict_context \<Rightarrow> job \<Rightarrow> job \<Rightarrow> conflict_entry list" where
  "pair_conflicts ctx a b = shared_target_conflict a b @
     (case cc_topology ctx of None \<Rightarrow> [] | Some t \<Rightarrow> shared_domain_conflicts t (cc_policy ctx) a b)"

fun all_conflicts :: "conflict_context \<Rightarrow> job list \<Rightarrow> conflict_entry list" where
  "all_conflicts ctx [] = []"
| "all_conflicts ctx (a # js) = concat (map (pair_conflicts ctx a) js) @ all_conflicts ctx js"

definition queued_lines :: "job list \<Rightarrow> explanation_line list" where
  "queued_lines js = map (\<lambda>j. (to_string_job_state (j_state j), job_to_text j))
     (filter (\<lambda>j. j_state j = Proposed \<or> j_state j = Validated \<or> j_state j = Prerequisites \<or> j_state j = Ready) js)"

definition dg_conflict :: "conflict_entry \<Rightarrow> u64 \<Rightarrow> u64" where
  "dg_conflict e h = dg_str (ce_detail e) (dg_str (ce_kind e) (dg_u32 (t_index (ce_shared e))
     (dg_u32 (of_nat (target_kind_code (t_kind (ce_shared e)))) (dg_u64 (ce_second e) (dg_u64 (ce_first e) h)))))"

definition conflicts_digest :: "conflict_report \<Rightarrow> u64" where
  "conflicts_digest r =
     (let h = dg_str ''mf.conflicts.v1'' dg_init;
          h = dg_i64 (cf_at r) h;
          h = dg_each dg_conflict (cf_conflicts r) (dg_len (cf_conflicts r) h)
      in dg_lines (cf_blocked r) (dg_lines (cf_reservations r) h))"

definition inspect_conflicts :: "conflict_context \<Rightarrow> conflict_report" where
  "inspect_conflicts ctx =
     (let r = \<lparr>cf_conflicts = [], cf_reservations = [], cf_blocked = [], cf_queued = [], cf_at = cc_now ctx, cf_digest = 0\<rparr> in
      case cc_jobs ctx of
        None \<Rightarrow> r
      | Some jobs \<Rightarrow>
          let r = r\<lparr>
                cf_reservations := optional_lines (cc_ledger ctx) (\<lambda>l. map (reservation_line (cc_now ctx)) (lg_reservations l)),
                cf_blocked := map blocked_line (filter (\<lambda>j. j_state j = Blocked) (map snd (jt_jobs jobs))),
                cf_conflicts := all_conflicts ctx (active_jobs jobs),
                cf_queued := queued_lines (active_jobs jobs)\<rparr> in
          r\<lparr>cf_digest := conflicts_digest r\<rparr>)"

section \<open>What a report means\<close>

lemma all_conflicts_iff:
  "e \<in> set (all_conflicts ctx js) \<longleftrightarrow>
     (\<exists>xs a ys b zs. js = xs @ a # ys @ b # zs \<and> e \<in> set (pair_conflicts ctx a b))"
proof (induction js)
  case (Cons j js)
  have "(\<exists>xs a ys b zs. j # js = xs @ a # ys @ b # zs \<and> e \<in> set (pair_conflicts ctx a b)) \<longleftrightarrow>
      (\<exists>ys b zs. js = ys @ b # zs \<and> e \<in> set (pair_conflicts ctx j b)) \<or>
      (\<exists>xs a ys b zs. js = xs @ a # ys @ b # zs \<and> e \<in> set (pair_conflicts ctx a b))"
    by (auto simp: Cons_eq_append_conv) blast+
  moreover have "(\<exists>ys b zs. js = ys @ b # zs \<and> e \<in> set (pair_conflicts ctx j b)) \<longleftrightarrow>
      (\<exists>b \<in> set js. e \<in> set (pair_conflicts ctx j b))"
    by (metis in_set_conv_decomp)
  ultimately show ?case using Cons.IH by auto
qed simp

lemma shared_target_iff:
  "(\<exists>t. t \<in> set (j_removal_set a) \<and> t \<in> set (j_removal_set b)) \<longleftrightarrow> shared_target_conflict a b \<noteq> []"
  by (auto simp: shared_target_conflict_def find_None_iff dest: find_SomeD split: option.split)

lemma sorted_pairs:
  assumes "sorted_wrt (\<lambda>a b. f a < f b) js"
  shows "(\<exists>xs ys zs. js = xs @ a # ys @ b # zs) \<longleftrightarrow> a \<in> set js \<and> b \<in> set js \<and> f a < (f b :: 'k::linorder)"
proof
  assume "\<exists>xs ys zs. js = xs @ a # ys @ b # zs"
  then show "a \<in> set js \<and> b \<in> set js \<and> f a < f b" using assms by (auto simp: sorted_wrt_append)
next
  assume ab: "a \<in> set js \<and> b \<in> set js \<and> f a < f b"
  then obtain xs rest where js: "js = xs @ a # rest" by (meson split_list)
  have "b \<in> set rest"
    using ab assms unfolding js by (auto simp: sorted_wrt_append dest: order.asym)
  then show "\<exists>xs ys zs. js = xs @ a # ys @ b # zs" using js by (metis split_list)
qed

lemma table_keys:
  assumes "job_table_wf jobs"
  shows "om_ok (jt_jobs jobs)" "e \<in> set (jt_jobs jobs) \<Longrightarrow> j_id (snd e) = fst e"
  using assms om_in_items [of "jt_jobs jobs" e] by (auto simp: job_table_wf_def find_job_def)

lemma active_sorted:
  assumes "job_table_wf jobs"
  shows "sorted_wrt (\<lambda>a b. j_id a < j_id b) (active_jobs jobs)"
proof -
  have keys: "map j_id (map snd (jt_jobs jobs)) = map fst (jt_jobs jobs)"
    using table_keys(2) [OF assms] by simp
  have "sorted_wrt (<) (map j_id (map snd (jt_jobs jobs)))"
    unfolding keys using table_keys(1) [OF assms] by (simp add: om_ok_def)
  then have strict: "sorted_wrt (\<lambda>a b. j_id a < j_id b) (filter under_way (map snd (jt_jobs jobs)))"
    by (intro sorted_wrt_filter) (simp add: sorted_wrt_map)
  then have "sorted (map j_id (filter under_way (map snd (jt_jobs jobs))))"
    by (simp only: sorted_wrt_map) (rule sorted_wrt_mono_rel; auto)
  then show ?thesis using strict by (simp add: active_jobs_def sorted_sort_id sort_key_id_if_sorted)
qed

lemma active_iff:
  assumes "job_table_wf jobs"
  shows "j \<in> set (active_jobs jobs) \<longleftrightarrow> find_job jobs (j_id j) = Some j \<and> under_way j"
proof -
  have ok: "om_ok (jt_jobs jobs)" by (rule table_keys(1) [OF assms])
  have "j \<in> set (active_jobs jobs) \<longleftrightarrow> (\<exists>i. (i, j) \<in> set (jt_jobs jobs)) \<and> under_way j"
    by (force simp: active_jobs_def)
  moreover have "(\<exists>i. (i, j) \<in> set (jt_jobs jobs)) \<longleftrightarrow> (j_id j, j) \<in> set (jt_jobs jobs)"
    using table_keys(2) [OF assms] by fastforce
  ultimately show ?thesis using om_in_items [OF ok, of "(j_id j, j)"] by (simp add: find_job_def)
qed

lemma target_conflict_of_pair:
  "(\<exists>e \<in> set (pair_conflicts ctx a b). ce_kind e = ''shared-target'' \<and> ce_first e = i \<and> ce_second e = k) \<longleftrightarrow>
     j_id a = i \<and> j_id b = k \<and> shared_target_conflict a b \<noteq> []"
proof -
  have "ce_kind e \<noteq> ''shared-target''" if "e \<in> set (shared_domain_conflicts t po a b)" for e t po
    using that by (auto simp: shared_domain_conflicts_def)
  then have "(\<exists>e \<in> set (pair_conflicts ctx a b). ce_kind e = ''shared-target'' \<and> ce_first e = i \<and> ce_second e = k) \<longleftrightarrow>
      (\<exists>e \<in> set (shared_target_conflict a b). ce_kind e = ''shared-target'' \<and> ce_first e = i \<and> ce_second e = k)"
    by (auto simp: pair_conflicts_def split: option.splits)
  then show ?thesis by (simp add: shared_target_conflict_def split: option.split)
qed

lemma target_conflicts_iff:
  assumes "job_table_wf jobs" "cc_jobs ctx = Some jobs"
  shows "(\<exists>e \<in> set (cf_conflicts (inspect_conflicts ctx)). ce_kind e = ''shared-target'' \<and> ce_first e = i \<and> ce_second e = k) \<longleftrightarrow>
    i < k \<and> (\<exists>a b. find_job jobs i = Some a \<and> find_job jobs k = Some b \<and> under_way a \<and> under_way b \<and>
      set (j_removal_set a) \<inter> set (j_removal_set b) \<noteq> {})" (is "?listed \<longleftrightarrow> ?meet")
proof -
  have entries: "cf_conflicts (inspect_conflicts ctx) = all_conflicts ctx (active_jobs jobs)"
    by (simp add: inspect_conflicts_def assms(2) Let_def)
  have "?listed \<longleftrightarrow> (\<exists>a b. a \<in> set (active_jobs jobs) \<and> b \<in> set (active_jobs jobs) \<and> j_id a < j_id b \<and>
      (\<exists>e \<in> set (pair_conflicts ctx a b). ce_kind e = ''shared-target'' \<and> ce_first e = i \<and> ce_second e = k))"
    using sorted_pairs [OF active_sorted [OF assms(1)]] unfolding entries Bex_def all_conflicts_iff by metis
  also have "\<dots> \<longleftrightarrow> i < k \<and> (\<exists>a b. a \<in> set (active_jobs jobs) \<and> b \<in> set (active_jobs jobs) \<and> j_id a = i \<and> j_id b = k \<and>
      set (j_removal_set a) \<inter> set (j_removal_set b) \<noteq> {})"
    unfolding target_conflict_of_pair shared_target_iff [symmetric] by blast
  also have "\<dots> \<longleftrightarrow> ?meet"
  proof -
    have "find_job jobs m = Some j \<Longrightarrow> j_id j = m" for m j
      using assms(1) by (simp add: job_table_wf_def)
    then show ?thesis unfolding active_iff [OF assms(1)] by metis
  qed
  finally show ?thesis .
qed

end
