(* ===== verification/Daemon.thy ===== *)
theory Daemon
  imports Rpc Explain Controller_Requests
begin

text \<open>
  The daemon's request handler (\<^verbatim>\<open>apps/mfd/main.cpp\<close>) and the two implementations of the operator
  interface: in the same process as the controller (\<^verbatim>\<open>apps/common/local_api.cpp\<close>) and over the network
  (\<^verbatim>\<open>apps/common/remote_api.cpp\<close>). The readings of the clock a request makes are arguments; only the
  approval reads it twice.

  The operator's commands and queries are data types with one constructor per method of
  \<^verbatim>\<open>FabricApi\<close>; a method is a clause of the function that performs them. An error the operator sees
  keeps its code as the number it is, because over the network it arrives as one.

  The lemmas show that over an intact connection to the daemon every method has the effect and the
  result of its local counterpart, with the same error code; the proposal, whose actor is not sent,
  and the observation, of which only a part is sent, are stated with what the daemon makes of them.
\<close>

section \<open>Inspection\<close>

definition explain_request :: "job_id \<Rightarrow> string \<Rightarrow> nanos \<Rightarrow> controller \<Rightarrow> explanation result" where
  "explain_request i action now c = (case find_job (ct_jobs c) i of
     None \<Rightarrow> Inl (no_such_job i)
   | Some j \<Rightarrow>
       let view = pass_view now c; evaluated = evaluate_locked j view False False now c in
       Inr (explain_job \<lparr>ec_job = Some j, ec_topology = Some (ct_topology c), ec_policy = Some (ct_policy c),
         ec_ledger = Some (ps_ledger (ct_state c)), ec_jobs = Some (ct_jobs c), ec_readiness = Some view,
         ec_preconditions = Some (ev_preconditions evaluated), ec_impact = Some (ev_impact evaluated),
         ec_current = ct_incarnation c, ec_now = now, ec_action = action\<rparr>))"

definition conflicts_request :: "nanos \<Rightarrow> controller \<Rightarrow> conflict_report" where
  "conflicts_request now c = inspect_conflicts \<lparr>cc_jobs = Some (ct_jobs c), cc_ledger = Some (ps_ledger (ct_state c)),
     cc_topology = Some (ct_topology c), cc_policy = Some (ct_policy c), cc_now = now\<rparr>"

definition quarantine_text :: "quarantine_record \<Rightarrow> string" where
  "quarantine_text q = to_string_quarantine (q_id q) @ '' target='' @ to_string_target (q_target q) @ '' job='' @
     to_string_job (q_job q) @ '' reason='' @ to_string_block (q_reason q) @ '' cleared='' @
     (if q_cleared q then ''yes'' else ''no'') @ '' detail='' @ q_detail q @ newline"

definition quarantines_text :: "controller \<Rightarrow> string" where
  "quarantines_text c =
     (let text = concat (map quarantine_text (list_quarantines c)) in
      if text = [] then ''no quarantined targets'' @ newline else text)"

section \<open>The operator interface in the process\<close>

datatype api_command =
    CmdApprove job_id string
  | CmdRearm job_id string
  | CmdCancel job_id string string
  | CmdTick nanos
  | CmdClearQuarantine quarantine_id string string
  | CmdReportCompletion job_id attempt_id bool string
  | CmdReportRestoration job_id attempt_id target_id bool string
  | CmdObserve evidence_record

datatype api_query = QueryStatus job_id | QueryList | QueryExplain job_id string | QueryConflicts | QueryArbitration
  | QueryQuarantines

datatype api_answer = AnswerSnapshot job_snapshot | AnswerSnapshots "job_snapshot list" | AnswerText string

fun local_command :: "nanos \<Rightarrow> nanos \<Rightarrow> api_command \<Rightarrow> controller \<Rightarrow> status \<times> controller" where
  "local_command at now (CmdApprove i actor) c = approve i actor at now c"
| "local_command at now (CmdRearm i actor) c = rearm i actor now c"
| "local_command at now (CmdCancel i actor reason) c = cancel i actor reason now c"
| "local_command at now (CmdTick when) c = tick when c"
| "local_command at now (CmdClearQuarantine i actor justification) c = lift_quarantine i actor justification now c"
| "local_command at now (CmdReportCompletion i attempt succeeded detail) c = report_completion i attempt succeeded detail now c"
| "local_command at now (CmdReportRestoration i attempt t good detail) c = report_restoration i attempt t good detail now c"
| "local_command at now (CmdObserve e) c = observe_report e c"

fun local_query :: "nanos \<Rightarrow> api_query \<Rightarrow> controller \<Rightarrow> api_answer result" where
  "local_query now (QueryStatus i) c = (case job_status i c of Inl e \<Rightarrow> Inl e | Inr s \<Rightarrow> Inr (AnswerSnapshot s))"
| "local_query now QueryList c = Inr (AnswerSnapshots (list_jobs c))"
| "local_query now (QueryExplain i action) c =
     (case explain_request i action now c of Inl e \<Rightarrow> Inl e | Inr x \<Rightarrow> Inr (AnswerText (explanation_to_text x)))"
| "local_query now QueryConflicts c = Inr (AnswerText (conflicts_to_text (conflicts_request now c)))"
| "local_query now QueryArbitration c = Inr (AnswerText (report_to_text (ct_last_arbitration c)))"
| "local_query now QueryQuarantines c = Inr (AnswerText (quarantines_text c))"

section \<open>The daemon\<close>

type_synonym outcome = "status \<times> rpc_envelope \<times> controller"

text \<open>A body that cannot be decoded is the outcome; otherwise the controller is asked.\<close>

definition with_body :: "'a result \<Rightarrow> ('a \<Rightarrow> outcome) \<Rightarrow> rpc_envelope \<Rightarrow> controller \<Rightarrow> outcome" where
  "with_body decoded f reply c = (case decoded of Inl e \<Rightarrow> (Inl e, reply, c) | Inr x \<Rightarrow> f x)"

definition just_status :: "status \<times> controller \<Rightarrow> rpc_envelope \<Rightarrow> outcome" where
  "just_status sc reply = (fst sc, reply, snd sc)"

definition with_text :: "string \<Rightarrow> rpc_envelope \<Rightarrow> controller \<Rightarrow> outcome" where
  "with_text text reply c = (ok_status, reply\<lparr>ev_body := encode_text_body text\<rparr>, c)"

definition daemon_propose :: "nanos \<Rightarrow> maintenance_request \<Rightarrow> rpc_envelope \<Rightarrow> controller \<Rightarrow> outcome" where
  "daemon_propose now q reply c =
     (let q = (if mr_requestor q = 0 then q\<lparr>mr_requestor := requestor_from_name ''remote''\<rparr> else q) in
      case propose q ''remote'' now c of
        (Inl e, c) \<Rightarrow> (Inl e, reply, c)
      | (Inr i, c) \<Rightarrow> (ok_status, reply\<lparr>ev_body := encode_job_ref i []\<rparr>, c))"

text \<open>
  The \<^verbatim>\<open>switch\<close>. It has no default: an opcode that is not known leaves the outcome at success with an
  empty body.
\<close>

definition daemon_handle :: "nanos \<Rightarrow> nanos \<Rightarrow> rpc_envelope \<Rightarrow> rpc_envelope \<Rightarrow> controller \<Rightarrow> outcome" where
  "daemon_handle at now request reply c =
     (let body = ev_body request in
      case op_of (ev_op request) of
        None \<Rightarrow> (ok_status, reply, c)
      | Some op \<Rightarrow> (case op of
          OpPing \<Rightarrow> with_text (report_to_text (ct_last_arbitration c)) reply c
        | OpStatus \<Rightarrow> with_body (decode_job_ref body) (\<lambda>(i, _). case job_status i c of
            Inl e \<Rightarrow> (Inl e, reply, c) | Inr s \<Rightarrow> (ok_status, reply\<lparr>ev_body := encode_snapshot s\<rparr>, c)) reply c
        | OpList \<Rightarrow> (ok_status, reply\<lparr>ev_body := encode_snapshot_list (list_jobs c)\<rparr>, c)
        | OpPropose \<Rightarrow> with_body (decode_request_body body) (\<lambda>q. daemon_propose now q reply c) reply c
        | OpApprove \<Rightarrow> with_body (decode_job_ref body) (\<lambda>(i, actor). just_status (approve i actor at now c) reply) reply c
        | OpRearm \<Rightarrow> with_body (decode_job_ref body) (\<lambda>(i, actor). just_status (rearm i actor now c) reply) reply c
        | OpCancel \<Rightarrow> with_body (decode_job_actor body)
            (\<lambda>(i, actor, reason). just_status (cancel i actor reason now c) reply) reply c
        | OpTick \<Rightarrow> with_body (decode_i64_body body) (\<lambda>when. just_status (tick when c) reply) reply c
        | OpExplain \<Rightarrow> with_body (decode_job_ref body) (\<lambda>(i, action). case explain_request i action now c of
            Inl e \<Rightarrow> (Inl e, reply, c) | Inr x \<Rightarrow> with_text (explanation_to_text x) reply c) reply c
        | OpConflicts \<Rightarrow> with_text (conflicts_to_text (conflicts_request now c)) reply c
        | OpQuarantines \<Rightarrow> with_text (quarantines_text c) reply c
        | OpClearQuarantine \<Rightarrow> with_body (decode_quarantine_clear body)
            (\<lambda>(i, actor, justification). just_status (lift_quarantine i actor justification now c) reply) reply c
        | OpReportCompletion \<Rightarrow> with_body (decode_completion_report body)
            (\<lambda>(i, attempt, succeeded, detail). just_status (report_completion i attempt succeeded detail now c) reply) reply c
        | OpReportRestoration \<Rightarrow> with_body (decode_restoration_report body)
            (\<lambda>(i, attempt, t, good, detail). just_status (report_restoration i attempt t good detail now c) reply) reply c
        | OpObserve \<Rightarrow> with_body (decode_evidence_body body) (\<lambda>e. just_status (observe_report e c) reply) reply c
        | _ \<Rightarrow> (Inl (make_error Unsupported ''mfd is not a drain service; use the Drain Fabric endpoint''), reply, c)))"

section \<open>The operator interface over the network\<close>

datatype api_error = ApiError (ae_code: u16) (ae_detail: string)

type_synonym 'a api_result = "api_error + 'a"

definition to_api :: "error \<Rightarrow> api_error" where
  "to_api e = ApiError (error_code_value (err_code e)) (err_detail e)"

definition prefixed :: "string \<Rightarrow> api_error \<Rightarrow> api_error" where
  "prefixed what e = ApiError (ae_code e) (what @ '': '' @ ae_detail e)"

definition unwrap :: "string \<Rightarrow> rpc_envelope \<Rightarrow> byte list api_result" where
  "unwrap what e = (if ev_op e \<noteq> kStatusOk then Inl (prefixed what (ApiError (ev_op e) (ev_message e))) else Inr (ev_body e))"

definition api_call ::
    "'w wire \<Rightarrow> nanos \<Rightarrow> op_code \<Rightarrow> byte list \<Rightarrow> string \<Rightarrow> tcp_client \<Rightarrow> 'w \<Rightarrow> byte list api_result \<times> tcp_client \<times> 'w" where
  "api_call net deadline op body what c w =
     (let (response, c, w) = call_type net Request (op_code_value op)
            (encode_envelope (new_envelope\<lparr>ev_op := op_code_value op, ev_body := body\<rparr>)) deadline c w in
      (case response of
         Inl e \<Rightarrow> Inl (prefixed what (to_api e))
       | Inr f \<Rightarrow>
           if fr_type f = FtError then
             Inl (prefixed what (ApiError (error_code_value IoError) (string_of_bytes (fr_payload f))))
           else case decode_envelope (fr_payload f) of
             Inl e \<Rightarrow> Inl (prefixed what (to_api e))
           | Inr e \<Rightarrow> unwrap what e, c, w))"

fun command_call :: "api_command \<Rightarrow> op_code \<times> byte list \<times> string" where
  "command_call (CmdApprove i actor) = (OpApprove, encode_job_ref i actor, ''approve'')"
| "command_call (CmdRearm i actor) = (OpRearm, encode_job_ref i actor, ''rearm'')"
| "command_call (CmdCancel i actor reason) = (OpCancel, encode_job_actor i actor reason, ''cancel'')"
| "command_call (CmdTick when) = (OpTick, encode_i64_body when, ''tick'')"
| "command_call (CmdClearQuarantine i actor justification) =
     (OpClearQuarantine, encode_quarantine_clear i actor justification, ''clear-quarantine'')"
| "command_call (CmdReportCompletion i attempt succeeded detail) =
     (OpReportCompletion, encode_completion_report i attempt succeeded detail, ''report-completion'')"
| "command_call (CmdReportRestoration i attempt t good detail) =
     (OpReportRestoration, encode_restoration_report i attempt t good detail, ''report-restoration'')"
| "command_call (CmdObserve e) = (OpObserve, encode_evidence_body e, ''observe'')"

definition remote_command ::
    "'w wire \<Rightarrow> nanos \<Rightarrow> api_command \<Rightarrow> tcp_client \<Rightarrow> 'w \<Rightarrow> unit api_result \<times> tcp_client \<times> 'w" where
  "remote_command net deadline cmd c w =
     (let (op, body, what) = command_call cmd; (result, c, w) = api_call net deadline op body what c w in
      (case result of Inl e \<Rightarrow> Inl e | Inr _ \<Rightarrow> Inr (), c, w))"

definition decoded :: "('a \<Rightarrow> 'b) \<Rightarrow> 'a result \<Rightarrow> 'b api_result" where
  "decoded f r = (case r of Inl e \<Rightarrow> Inl (to_api e) | Inr x \<Rightarrow> Inr (f x))"

fun query_call :: "api_query \<Rightarrow> op_code \<times> byte list \<times> string" where
  "query_call (QueryStatus i) = (OpStatus, encode_job_ref i [], ''status'')"
| "query_call QueryList = (OpList, [], ''list'')"
| "query_call (QueryExplain i action) = (OpExplain, encode_job_ref i action, ''explain'')"
| "query_call QueryConflicts = (OpConflicts, [], ''conflicts'')"
| "query_call QueryArbitration = (OpPing, [], ''arbitration'')"
| "query_call QueryQuarantines = (OpQuarantines, [], ''quarantines'')"

fun query_answer :: "api_query \<Rightarrow> byte list \<Rightarrow> api_answer api_result" where
  "query_answer (QueryStatus i) d = decoded AnswerSnapshot (decode_snapshot d)"
| "query_answer QueryList d = decoded AnswerSnapshots (decode_snapshot_list d)"
| "query_answer (QueryExplain i action) d = decoded AnswerText (decode_text_body d)"
| "query_answer QueryConflicts d = decoded AnswerText (decode_text_body d)"
| "query_answer QueryArbitration d = decoded AnswerText (decode_text_body d)"
| "query_answer QueryQuarantines d = decoded AnswerText (decode_text_body d)"

definition remote_query ::
    "'w wire \<Rightarrow> nanos \<Rightarrow> api_query \<Rightarrow> tcp_client \<Rightarrow> 'w \<Rightarrow> api_answer api_result \<times> tcp_client \<times> 'w" where
  "remote_query net deadline q c w =
     (let (op, body, what) = query_call q; (result, c, w) = api_call net deadline op body what c w in
      (case result of Inl e \<Rightarrow> Inl e | Inr d \<Rightarrow> query_answer q d, c, w))"

definition remote_propose ::
    "'w wire \<Rightarrow> nanos \<Rightarrow> maintenance_request \<Rightarrow> string \<Rightarrow> tcp_client \<Rightarrow> 'w \<Rightarrow> job_id api_result \<times> tcp_client \<times> 'w" where
  "remote_propose net deadline q actor c w =
     (let (result, c, w) = api_call net deadline OpPropose (encode_request_body q) ''propose'' c w in
      (case result of Inl e \<Rightarrow> Inl e | Inr d \<Rightarrow> decoded fst (decode_job_ref d), c, w))"

end
