(* ===== verification/Daemon_Remote.thy ===== *)
theory Daemon_Remote
  imports Daemon
begin

text \<open>
  The operator interface over an intact connection to the daemon, method by method against the same
  method in the controller's own process.
\<close>

section \<open>One call\<close>

definition daemon_wire :: "nanos \<Rightarrow> nanos \<Rightarrow> controller wire" where
  "daemon_wire at now = server_wire kMaxFrameBytes (rpc_handler (daemon_handle at now))"

definition idle_client :: "tcp_client \<Rightarrow> bool" where
  "idle_client cl \<longleftrightarrow> cl_valid cl \<and> cl_unread cl = []"

definition after_call :: "tcp_client \<Rightarrow> tcp_client" where
  "after_call cl = cl\<lparr>cl_next_id := cl_next_id cl + 1\<rparr>"

lemma after_call_idle [simp]: "idle_client (after_call cl) = idle_client cl"
  by (simp add: idle_client_def after_call_def)

text \<open>A refusal as the operator sees it: the code as its number, the detail behind the name of the method.\<close>

definition seen_error :: "string \<Rightarrow> error \<Rightarrow> api_error" where
  "seen_error what e = ApiError (error_code_value (err_code e)) (what @ '': '' @ clipped (err_detail e))"

text \<open>A status of success in the envelope is all the client looks at.\<close>

definition seen_body :: "string \<Rightarrow> status \<Rightarrow> byte list \<Rightarrow> byte list api_result" where
  "seen_body what outcome body = (case outcome of
     Inl e \<Rightarrow> if err_code e = Ok then Inr body else Inl (seen_error what e) | Inr _ \<Rightarrow> Inr body)"

lemma api_call_served:
  assumes "idle_client cl" "body_fits_frame body" "body_fits_frame (ev_body reply)"
    and "daemon_handle at now \<lparr>ev_op = op_code_value op, ev_message = [], ev_body = body\<rparr> new_envelope c = (outcome, reply, c')"
  shows "api_call (daemon_wire at now) deadline op body what cl c = (seen_body what outcome (ev_body reply), after_call cl, c')"
proof -
  have cl: "cl_valid cl" "cl_unread cl = []" using assms(1) by (simp_all add: idle_client_def)
  have called: "call_type (daemon_wire at now) Request (op_code_value op)
      (encode_envelope (new_envelope\<lparr>ev_op := op_code_value op, ev_body := body\<rparr>)) deadline cl c =
      (Inr (call_response (cl_next_id cl) outcome reply), after_call cl, c')"
    unfolding daemon_wire_def after_call_def
    by (rule rpc_call_served [where handle = "daemon_handle at now", OF assms(2) cl assms(4,3)])
  show ?thesis
    by (simp add: api_call_def called call_response_def envelope_back delivered_status assms(3) unwrap_def seen_body_def
      error_code_value_ok seen_error_def prefixed_def split: sum.split)
qed

section \<open>Commands\<close>

text \<open>What the daemon is asked to do.\<close>

fun as_sent :: "api_command \<Rightarrow> api_command" where
  "as_sent (CmdObserve e) = CmdObserve (wire_evidence e)"
| "as_sent cmd = cmd"

fun command_fits :: "api_command \<Rightarrow> bool" where
  "command_fits (CmdApprove i actor) \<longleftrightarrow> length actor \<le> kMaxReasonLength"
| "command_fits (CmdRearm i actor) \<longleftrightarrow> length actor \<le> kMaxReasonLength"
| "command_fits (CmdCancel i actor reason) \<longleftrightarrow> job_actor_fits (i, actor, reason)"
| "command_fits (CmdTick when) \<longleftrightarrow> i64_fits when"
| "command_fits (CmdClearQuarantine i actor justification) \<longleftrightarrow> job_actor_fits (i, actor, justification)"
| "command_fits (CmdReportCompletion i attempt succeeded detail) \<longleftrightarrow> completion_fits (i, attempt, succeeded, detail)"
| "command_fits (CmdReportRestoration i attempt t good detail) \<longleftrightarrow> restoration_fits (i, attempt, t, good, detail)"
| "command_fits (CmdObserve e) \<longleftrightarrow> i64_fits (er_observed_at e) \<and> i64_fits (er_ttl e)"

lemma small_body: "length d \<le> 4096 \<Longrightarrow> body_fits_frame d"
  by (simp add: body_fits_frame_def limits)

lemma command_body_fits:
  assumes "command_call cmd = (op, body, what)"
  shows "body_fits_frame body"
proof -
  have "length (w_str kMaxNameLength s) \<le> 98" "length (w_str kMaxReasonLength s) \<le> 514"
    "length (w_str kMaxDetailLength s) \<le> 1026" for s
    using w_str_length [of kMaxNameLength s] w_str_length [of kMaxReasonLength s] w_str_length [of kMaxDetailLength s]
    by (simp_all add: limits)
  note strs = this
  have "length body \<le> 4096"
  proof (cases cmd)
    case (CmdCancel i actor reason)
    then show ?thesis using assms strs(1) [of actor] strs(2) [of reason] by (auto simp: encode_job_actor_def)
  next
    case (CmdClearQuarantine i actor reason)
    then show ?thesis using assms strs(1) [of actor] strs(2) [of reason] by (auto simp: encode_quarantine_clear_def)
  next
    case (CmdReportCompletion i attempt succeeded detail)
    then show ?thesis using assms strs(3) [of detail] by (auto simp: encode_completion_report_def)
  next
    case (CmdReportRestoration i attempt t good detail)
    then show ?thesis using assms strs(3) [of detail] by (auto simp: encode_restoration_report_def)
  next
    case (CmdApprove i actor)
    then show ?thesis using assms strs(2) [of actor] by (auto simp: encode_job_ref_def)
  next
    case (CmdRearm i actor)
    then show ?thesis using assms strs(2) [of actor] by (auto simp: encode_job_ref_def)
  qed (use assms in \<open>auto simp: encode_i64_body_def encode_evidence_body_def Let_def\<close>)
  then show ?thesis by (rule small_body)
qed

lemmas command_messages =
  job_ref_msg.delivered [of "(i, actor)" for i actor, simplified]
  job_actor_msg.delivered [of "(i, actor, reason)" for i actor reason, simplified]
  quarantine_clear_msg.delivered [of "(i, actor, reason)" for i actor reason, simplified]
  completion_msg.delivered [of "(i, attempt, ok, detail)" for i attempt ok detail, simplified]
  restoration_msg.delivered [of "(i, attempt, t, ok, detail)" for i attempt t ok detail, simplified]
  i64_msg.delivered evidence_body_back

text \<open>The daemon hands the decoded command to the controller.\<close>

lemma daemon_command:
  assumes "command_fits cmd" "command_call cmd = (op, body, what)"
  shows "daemon_handle at now \<lparr>ev_op = op_code_value op, ev_message = m, ev_body = body\<rparr> reply c =
    just_status (local_command at now (as_sent cmd) c) reply"
  using assms by (cases cmd) (auto simp: daemon_handle_def with_body_def command_messages)

definition seen_status :: "string \<Rightarrow> status \<Rightarrow> unit api_result" where
  "seen_status what outcome = (case outcome of
     Inl e \<Rightarrow> if err_code e = Ok then Inr () else Inl (seen_error what e) | Inr _ \<Rightarrow> Inr ())"

lemma remote_command_local:
  assumes "idle_client cl" "command_fits cmd" "local_command at now (as_sent cmd) c = (outcome, c')"
  shows "remote_command (daemon_wire at now) deadline cmd cl c =
    (seen_status (snd (snd (command_call cmd))) outcome, after_call cl, c')"
proof -
  obtain op body what where call: "command_call cmd = (op, body, what)" by (metis prod_cases3)
  have handled: "daemon_handle at now \<lparr>ev_op = op_code_value op, ev_message = [], ev_body = body\<rparr> new_envelope c =
      (outcome, new_envelope, c')"
    using daemon_command [OF assms(2) call, of at now "[]" new_envelope c] assms(3) by (simp add: just_status_def)
  have "body_fits_frame (ev_body new_envelope)" by (simp add: new_envelope_def small_body)
  from api_call_served [OF assms(1) command_body_fits [OF call] this handled, of deadline what]
  show ?thesis by (simp add: remote_command_def call seen_status_def seen_body_def split: sum.split)
qed

section \<open>Queries\<close>

definition text_fits :: "string \<Rightarrow> bool" where
  "text_fits t \<longleftrightarrow> length t \<le> kMaxFrameBytes div 2"

fun answer_fits :: "api_answer \<Rightarrow> bool" where
  "answer_fits (AnswerSnapshot s) \<longleftrightarrow> snapshot_fits s"
| "answer_fits (AnswerSnapshots ss) \<longleftrightarrow> length ss \<le> kMaxJobsPerArbitration \<and> list_all listed_fits ss \<and>
     body_fits_frame (encode_snapshot_list ss)"
| "answer_fits (AnswerText t) \<longleftrightarrow> text_fits t"

fun query_fits :: "api_query \<Rightarrow> bool" where
  "query_fits (QueryExplain i action) \<longleftrightarrow> length action \<le> kMaxReasonLength"
| "query_fits q \<longleftrightarrow> True"

fun answer_body :: "api_answer \<Rightarrow> byte list" where
  "answer_body (AnswerSnapshot s) = encode_snapshot s"
| "answer_body (AnswerSnapshots ss) = encode_snapshot_list ss"
| "answer_body (AnswerText t) = encode_text_body t"

lemma answer_body_fits: "answer_fits a \<Longrightarrow> body_fits_frame (answer_body a)"
proof (cases a)
  case (AnswerSnapshot s)
  moreover have "length (w_str kMaxDetailLength (sn_block_detail s)) \<le> 1026"
    using w_str_length [of kMaxDetailLength "sn_block_detail s"] by (simp add: limits)
  moreover assume "answer_fits a"
  ultimately show ?thesis by (simp add: body_fits_frame_def encode_snapshot_def snapshot_fits_def limits)
next
  case (AnswerText t)
  then show ?thesis by (simp add: body_fits_frame_def encode_text_body_def w_blob_def blob_fits_def limits)
qed simp

lemma query_body_fits: "query_call q = (op, body, what) \<Longrightarrow> body_fits_frame body"
proof -
  assume call: "query_call q = (op, body, what)"
  have "length (encode_job_ref i s) \<le> 4096" for i s
    using w_str_length [of kMaxReasonLength s] by (simp add: encode_job_ref_def limits)
  then show ?thesis using call by (cases q) (auto intro: small_body)
qed

lemma daemon_query:
  assumes "query_fits q" "query_call q = (op, body, what)"
  shows "daemon_handle at now \<lparr>ev_op = op_code_value op, ev_message = m, ev_body = body\<rparr> reply c =
    (case local_query now q c of
       Inl e \<Rightarrow> (Inl e, reply, c)
     | Inr a \<Rightarrow> (ok_status, reply\<lparr>ev_body := answer_body a\<rparr>, c))"
  using assms by (cases q) (auto simp: daemon_handle_def with_body_def with_text_def command_messages split: sum.split)

lemma answer_decoded: "answer_fits a \<Longrightarrow> local_query now q c = Inr a \<Longrightarrow> query_answer q (answer_body a) = Inr a"
  by (cases q) (auto simp: decoded_def snapshot_msg.delivered snapshot_list_back text_msg.delivered text_fits_def
    split: sum.splits)

lemma query_refusal: "local_query now q c = Inl e \<Longrightarrow> err_code e = NotFound"
  by (cases q) (auto simp: job_status_def explain_request_def no_such_job_def make_error_def Let_def split: sum.splits option.splits)

lemma remote_query_local:
  assumes "idle_client cl" "query_fits q" "\<And>a. local_query now q c = Inr a \<Longrightarrow> answer_fits a"
  shows "remote_query (daemon_wire at now) deadline q cl c =
    (case local_query now q c of Inl e \<Rightarrow> Inl (seen_error (snd (snd (query_call q))) e) | Inr a \<Rightarrow> Inr a, after_call cl, c)"
proof -
  obtain op body what where call: "query_call q = (op, body, what)" by (metis prod_cases3)
  show ?thesis
  proof (cases "local_query now q c")
    case (Inl e)
    have "daemon_handle at now \<lparr>ev_op = op_code_value op, ev_message = [], ev_body = body\<rparr> new_envelope c =
        (Inl e, new_envelope, c)"
      using daemon_query [OF assms(2) call, of at now "[]" new_envelope c] Inl by simp
    moreover have "body_fits_frame (ev_body new_envelope)" by (simp add: new_envelope_def small_body)
    ultimately show ?thesis
      using api_call_served [OF assms(1) query_body_fits [OF call], of new_envelope at now op c "Inl e" c deadline what]
        query_refusal [OF Inl] by (simp add: remote_query_def call Inl seen_body_def)
  next
    case (Inr a)
    have "daemon_handle at now \<lparr>ev_op = op_code_value op, ev_message = [], ev_body = body\<rparr> new_envelope c =
        (ok_status, new_envelope\<lparr>ev_body := answer_body a\<rparr>, c)"
      using daemon_query [OF assms(2) call, of at now "[]" new_envelope c] Inr by simp
    from api_call_served [OF assms(1) query_body_fits [OF call] _ this, of deadline what] answer_body_fits [OF assms(3) [OF Inr]]
    show ?thesis using answer_decoded [OF assms(3) [OF Inr] Inr] by (simp add: remote_query_def call Inr seen_body_def)
  qed
qed

section \<open>Proposals\<close>

text \<open>The actor is not sent; the daemon names itself, and fills in a missing requestor.\<close>

definition as_proposed :: "maintenance_request \<Rightarrow> maintenance_request" where
  "as_proposed q = (if mr_requestor q = 0 then q\<lparr>mr_requestor := requestor_from_name ''remote''\<rparr> else q)"

lemma request_body_fits: "request_fits q \<Longrightarrow> body_fits_frame (encode_request_body q)"
  using w_str_length [of kMaxTitleLength "mr_title q"] w_str_length [of kMaxReasonLength "mr_reason q"]
  by (simp add: request_fits_def body_fits_frame_def encode_request_body_def w_counted_length [of w_u64 8] limits)

lemma remote_propose_local:
  assumes "idle_client cl" "request_fits q" "propose (as_proposed q) ''remote'' now c = (outcome, c')"
    and "\<And>e. outcome = Inl e \<Longrightarrow> err_code e \<noteq> Ok"
  shows "remote_propose (daemon_wire at now) deadline q actor cl c =
    (case outcome of Inl e \<Rightarrow> Inl (seen_error ''propose'' e) | Inr i \<Rightarrow> Inr i, after_call cl, c')"
proof -
  define reply where "reply = (case outcome of Inl e \<Rightarrow> new_envelope | Inr i \<Rightarrow> new_envelope\<lparr>ev_body := encode_job_ref i []\<rparr>)"
  define answered where "answered = (case outcome of Inl e \<Rightarrow> Inl e | Inr i \<Rightarrow> ok_status)"
  have handled: "daemon_handle at now \<lparr>ev_op = op_code_value OpPropose, ev_message = [], ev_body = encode_request_body q\<rparr>
      new_envelope c = (answered, reply, c')"
    using assms(2,3)
    by (simp add: daemon_handle_def with_body_def request_msg.delivered daemon_propose_def as_proposed_def Let_def reply_def
      answered_def split: sum.split)
  have fits: "body_fits_frame (ev_body reply)"
    using small_body [of "[]"] by (auto intro!: small_body simp: reply_def new_envelope_def encode_job_ref_def w_str_def
      split: sum.split)
  from api_call_served [OF assms(1) request_body_fits [OF assms(2)] fits handled, of deadline "''propose''"] assms(4)
  show ?thesis
    by (auto simp: remote_propose_def reply_def answered_def seen_body_def decoded_def command_messages split: sum.split)
qed

text \<open>An opcode the protocol does not know is answered with success.\<close>

lemma unknown_op_succeeds:
  "\<not> is_known_op (ev_op request) \<Longrightarrow> daemon_handle at now request reply c = (ok_status, reply, c)"
  by (simp add: known_iff daemon_handle_def)

end
