(* ===== verification/Transport_Properties.thy ===== *)
theory Transport_Properties
  imports Drain_Remote Drain_History Daemon_Remote Controller_Examples
begin

text \<open>
  The properties of the programs as they talk to each other: frames and calls, the drain services and
  the port that reaches one over the network, the operator interface of the daemon, and the report of
  conflicts it shows.
\<close>

section \<open>Frames and calls\<close>

text \<open>
  C31. Frames survive the wire or are refused: a valid frame decodes to itself, and cut short, with
  bytes after it, or with any one byte changed it is refused as corrupt.
\<close>
theorem frames_intact_or_refused:
  assumes "validate_frame f = ok_status"
  shows "decode_frame (encode_frame f) = Inr f \<and>
    (\<forall>n < length (encode_frame f). \<exists>e. decode_frame (take n (encode_frame f)) = Inl e \<and> err_code e = CorruptState) \<and>
    (\<forall>rest. rest \<noteq> [] \<longrightarrow> (\<exists>e. decode_frame (encode_frame f @ rest) = Inl e \<and> err_code e = CorruptState)) \<and>
    (\<forall>i b. i < length (encode_frame f) \<longrightarrow> encode_frame f ! i \<noteq> b \<longrightarrow>
       (\<exists>e. decode_frame ((encode_frame f)[i := b]) = Inl e \<and> err_code e = CorruptState))"
  using frame_back [OF assms] frame_cut [OF assms] frame_surplus [OF assms] frame_damaged [OF assms] by blast

definition demo_ping :: frame where
  "demo_ping = new_frame\<lparr>fr_type := Request, fr_request_id := 1,
     fr_payload := encode_envelope (new_envelope\<lparr>ev_op := op_code_value OpPing\<rparr>)\<rparr>"

lemma demo_ping_valid: "acceptable kMaxFrameBytes demo_ping" "validate_frame demo_ping = ok_status"
  using envelope_in_frame [of "new_envelope\<lparr>ev_op := op_code_value OpPing\<rparr>"]
  by (simp_all add: acceptable_def validate_frame_ok demo_ping_def new_frame_def body_fits_frame_def new_envelope_def limits)

theorem frames_intact_or_refused_witness: "decode_frame (encode_frame demo_ping) = Inr demo_ping"
  using frames_intact_or_refused [OF demo_ping_valid(2)] by blast

text \<open>
  A server answers the requests of a connection one by one, in their order, up to the first
  goodbye: when complete acceptable frames arrive and every answer can be sent, the bytes sent are the
  answers in the order of the requests, the state is that of handling them one after the other, and
  each is counted; what follows the last whole frame is not answered.
\<close>
theorem requests_answered_in_order:
  assumes "list_all (acceptable max_payload) fs" "length tail < kWireHeaderBytes"
  shows "case serve max_payload handler (\<lambda>_. WriteOk) (new_session (wire_bytes fs @ tail)) s of (ses, s') \<Rightarrow>
    (case answer_all handler fs s of (rs, t) \<Rightarrow>
       s' = t \<and> se_output ses = wire_bytes rs \<and> ss_handled (se_stats ses) = of_nat (length rs))"
proof -
  obtain ses s' where served: "serve max_payload handler all_sent (new_session (wire_bytes fs @ tail)) s = (ses, s')"
    by fastforce
  obtain rs t where answers: "answer_all handler fs s = (rs, t)" by fastforce
  have "s' = t \<and> se_output ses = wire_bytes rs \<and> ss_handled (se_stats ses) = of_nat (length rs)"
    using serve_in_order [OF assms(1) _ _ served answers] assms(2)
    by (simp add: new_session_def no_server_stats_def kWireHeaderBytes_def)
  then show ?thesis by (simp add: served answers)
qed

theorem requests_answered_in_order_witness:
  "se_output (fst (serve kMaxFrameBytes drain_handler (\<lambda>_. WriteOk) (new_session (wire_bytes [demo_ping, demo_ping] @ [0]))
     (new_drain_service Drained True 0 False))) =
   wire_bytes (fst (answer_all drain_handler [demo_ping, demo_ping] (new_drain_service Drained True 0 False)))"
  using requests_answered_in_order [of kMaxFrameBytes "[demo_ping, demo_ping]" "[0]" drain_handler
      "new_drain_service Drained True 0 False"] demo_ping_valid
  by (auto simp: kWireHeaderBytes_def split: prod.splits)

text \<open>What the client took from the bytes it had.\<close>

lemma read_response_bytes:
  assumes "read_response wanted lost input = (Inr f, rest)"
  shows "\<exists>d. input = d @ rest \<and> decode_frame d = Inr f"
proof -
  obtain header rest1 where header: "recv_exact kWireHeaderBytes input = Some (header, rest1)"
    using assms by (cases "recv_exact kWireHeaderBytes input") (auto simp: read_response_def)
  obtain h where h: "decode_frame_header header = Inr h" "wh_request_id h = wanted"
    using assms header by (cases "decode_frame_header header") (auto simp: read_response_def split: if_splits)
  obtain body where body: "recv_exact (unat (wh_payload_length h)) rest1 = Some (body, rest)" "decode_frame (header @ body) = Inr f"
    using assms header h by (auto simp: read_response_def split: option.splits)
  have "input = header @ rest1" using recv_exact_Some [OF header] by simp
  moreover have "rest1 = body @ rest" using recv_exact_Some [OF body(1)] by simp
  ultimately have "input = (header @ body) @ rest" by simp
  with body(2) show ?thesis by blast
qed

text \<open>
  A call returns only the response to its own request: what it returns is a frame that arrived
  whole and intact after the request was sent or was still unread, it carries the identity of the
  request, and exactly its bytes have been consumed.
\<close>
theorem call_returns_own_response:
  assumes "client_call net request deadline c w = (Inr response, c', w')"
  shows "fr_request_id response = fr_request_id request \<and> validate_frame response = ok_status \<and>
    (\<exists>reply d. net (bounded_deadline deadline) (encode_frame request) w = (reply, w') \<and> ry_sent reply = ok_status \<and>
       cl_unread c @ ry_bytes reply = d @ cl_unread c' \<and> decode_frame d = Inr response)"
proof -
  have valid: "validate_frame request = ok_status" "cl_valid c"
    using assms by (auto simp: client_call_def split: sum.splits if_splits)
  obtain reply w1 where reply: "net (bounded_deadline deadline) (encode_frame request) w = (reply, w1)" by fastforce
  have sent: "ry_sent reply = ok_status"
    using assms valid by (auto simp: client_call_def reply split: sum.splits)
  have "read_response (fr_request_id request) (ry_lost reply) (cl_unread c @ ry_bytes reply) = (Inr response, cl_unread c')"
      "w1 = w'"
    using assms valid sent by (auto simp: client_call_def reply split: prod.splits)
  with read_response_sound [of "fr_request_id request"] read_response_bytes [of "fr_request_id request"] reply sent
  show ?thesis by blast
qed

lemma demo_ping_answered:
  "client_call (server_wire kMaxFrameBytes drain_handler) demo_ping 0 connected_client
     (new_drain_service Drained True 0 False) =
   (Inr (call_response 1 ok_status (new_envelope\<lparr>ev_body := encode_text_body ''mf-drain-sim ready''\<rparr>)), connected_client,
    new_drain_service Drained True 0 False)"
proof (rule call_over_wire [OF demo_ping_valid(1)])
  show "answer drain_handler demo_ping (new_drain_service Drained True 0 False) =
    (call_response 1 ok_status (new_envelope\<lparr>ev_body := encode_text_body ''mf-drain-sim ready''\<rparr>),
     new_drain_service Drained True 0 False)"
    by (simp add: answer_def drain_handler_def rpc_handler_def demo_ping_def envelope_back delivered_envelope_def
      new_envelope_def new_frame_def service_handle_def call_response_def limits)
  show "validate_frame (call_response 1 ok_status (new_envelope\<lparr>ev_body := encode_text_body ''mf-drain-sim ready''\<rparr>)) = ok_status"
    using envelope_in_frame [of "status_envelope ok_status (new_envelope\<lparr>ev_body := encode_text_body ''mf-drain-sim ready''\<rparr>)"]
    by (simp add: validate_frame_ok call_response_def new_frame_def status_envelope_def body_fits_frame_def
      encode_text_body_def w_blob_def blob_fits_def limits)
qed (simp_all add: connected_client_def demo_ping_def call_response_def)

theorem call_returns_own_response_witness:
  "fr_request_id (call_response 1 ok_status (new_envelope\<lparr>ev_body := encode_text_body ''mf-drain-sim ready''\<rparr>)) =
   fr_request_id demo_ping"
  using call_returns_own_response [OF demo_ping_answered] by blast

section \<open>Drain services\<close>

text \<open>
  C27. The drain service grants one lease per attempt, whatever requests it has served before, as
  long as identities are left: a repeated request is answered with the lease already held and changes
  nothing, no other attempt holds that lease, and once it is released the attempt holds none.
\<close>
theorem one_lease_per_attempt:
  assumes "service_history v" "id_room (dv_next_id v)" "service_grant q v = (Inr l, v1)"
  shows "le_attempt l = dq_attempt q \<and> om_find (dv_leases v1) (le_id l) = Some l \<and>
    service_grant q v1 = (Inr l, v1) \<and>
    (\<forall>i k. om_find (dv_leases v1) i = Some k \<longrightarrow> le_attempt k = dq_attempt q \<longrightarrow> i = le_id l) \<and>
    (\<forall>i k. om_find (dv_leases v1) i = Some k \<longrightarrow> le_attempt k \<noteq> dq_attempt q \<longrightarrow> om_find (dv_leases v) i = Some k) \<and>
    (\<exists>v2. service_drop (le_id l) v1 = (ok_status, v2) \<and>
       (\<forall>i k. om_find (dv_leases v2) i = Some k \<longrightarrow> le_attempt k \<noteq> dq_attempt q))"
proof -
  have inv: "leases_ok (dv_leases v) (dv_next_id v)" by (rule service_history_ok [OF assms(1)])
  have v1: "leases_ok (dv_leases v1) (dv_next_id v1)" "le_attempt l = dq_attempt q"
      "om_find (dv_leases v1) = (om_find (dv_leases v))(le_id l \<mapsto> l)"
    using service_leases.request_granted [OF inv assms(2,3)] by blast+
  obtain r v2 where drop: "service_drop (le_id l) v1 = (r, v2)" by fastforce
  note released = service_leases.released [OF inv assms(2,3) drop]
  have "i = le_id l" if "om_find (dv_leases v1) i = Some k" "le_attempt k = dq_attempt q" for i k
    using service_leases.one_each [OF v1(1) that(1), of "le_id l" l] v1(2,3) that(2) by simp
  moreover have "om_find (dv_leases v) i = Some k" if "om_find (dv_leases v1) i = Some k" "le_attempt k \<noteq> dq_attempt q" for i k
    using v1(2,3) that by (simp split: if_splits)
  moreover have "\<exists>v2. service_drop (le_id l) v1 = (ok_status, v2) \<and>
      (\<forall>i k. om_find (dv_leases v2) i = Some k \<longrightarrow> le_attempt k \<noteq> dq_attempt q)"
    using released drop by blast
  moreover have "om_find (dv_leases v1) (le_id l) = Some l" using v1(3) by simp
  ultimately show ?thesis using v1(2) service_grant_again [OF inv assms(2,3)] by blast
qed

definition demo_drain :: drain_request where
  "demo_drain = \<lparr>dq_job = 1, dq_generation = 1, dq_attempt = demo_attempt 1, dq_targets = [sw 1],
     dq_lease_duration = kDefaultDrainLeaseNanos, dq_reason = ''swap'', dq_requester = demo_self\<rparr>"

abbreviation demo_service :: drain_service where
  "demo_service \<equiv> new_drain_service Drained True 0 False"

lemma demo_drain_valid: "validate_drain_request demo_drain = ok_status"
  by (simp add: validate_drain_request_def demo_drain_def demo_valid_ids id_valid_def limits nanos_defs
    sw_def target_valid_def)

lemma demo_drain_granted: "\<exists>l v. service_grant demo_drain demo_service = (Inr l, v)"
  by (simp add: service_grant_def demo_drain_valid new_drain_service_def held_for_def Let_def)

theorem one_lease_per_attempt_witness:
  "\<exists>l v. service_grant demo_drain demo_service = (Inr l, v) \<and> service_grant demo_drain v = (Inr l, v)"
proof -
  obtain l v where "service_grant demo_drain demo_service = (Inr l, v)" using demo_drain_granted by blast
  with one_lease_per_attempt [OF service_history.started _ this]
  show ?thesis by (auto simp: new_drain_service_def id_room_def)
qed

text \<open>
  C26. The remote drain port implements the drain service behind it: over an intact connection every
  operation leaves the service as the operation itself does and answers with the lease the service
  answers with; a refusal of any code comes back as a drain failure with the detail of the service and
  the lease that the port reports for it, and the port stays usable.
\<close>
theorem remote_drain_refines_service:
  assumes "remote_ready p" "leases_fit v"
  shows "(\<forall>q outcome v'. drain_request_fits q \<longrightarrow> validate_drain_request q = ok_status \<longrightarrow>
       service_grant q v = (outcome, v') \<longrightarrow>
       (\<exists>p'. remote_request_drain service_network q p v = (port_answer (no_lease\<lparr>le_state := DsFailed,
          le_targets := dq_targets q, le_attempt := dq_attempt q, le_owner := dq_requester q\<rparr>) outcome, p', v') \<and> remote_ready p')) \<and>
    (\<forall>i requester outcome v'. service_lookup i v = (outcome, v') \<longrightarrow>
       (\<exists>p'. remote_query_drain service_network i requester p v =
          (port_answer (no_lease\<lparr>le_id := i, le_state := DsNotFound\<rparr>) outcome, p', v') \<and> remote_ready p')) \<and>
    (\<forall>i requester extension outcome v'. i64_fits extension \<longrightarrow> service_extend i requester extension v = (outcome, v') \<longrightarrow>
       (\<forall>l. outcome = Inr l \<longrightarrow> i64_fits (le_expires_at l)) \<longrightarrow>
       (\<exists>p'. remote_refresh_drain service_network i extension requester p v =
          (port_answer (no_lease\<lparr>le_id := i\<rparr>) outcome, p', v') \<and> remote_ready p')) \<and>
    (\<forall>i requester outcome v'. service_drop i v = (outcome, v') \<longrightarrow>
       (\<exists>p'. remote_release_drain service_network i requester p v =
          (case outcome of Inl e \<Rightarrow> Inl (rejected_by_service e) | Inr _ \<Rightarrow> ok_status, p', v') \<and> remote_ready p'))"
proof (intro conjI allI impI)
qed (rule remote_request_served [OF assms(1) _ assms(2)] remote_query_served [OF assms] remote_refresh_served [OF assms]
    remote_release_served [OF assms(1)]; (assumption | blast))+

theorem remote_drain_refines_service_witness:
  "\<exists>l p v. remote_request_drain service_network demo_drain (new_remote_drain ''drain'' 7000 0 1) demo_service =
     (\<lparr>dr_status = ok_status, dr_lease = l\<rparr>, p, v) \<and> om_find (dv_leases v) 1 = Some l"
proof -
  have grant: "\<exists>l v. service_grant demo_drain demo_service = (Inr l, v) \<and> om_find (dv_leases v) 1 = Some l"
    by (simp add: service_grant_def demo_drain_valid new_drain_service_def held_for_def Let_def om_emplace_def om_find_def)
  have "remote_ready (new_remote_drain ''drain'' 7000 0 1)" "leases_fit demo_service" "drain_request_fits demo_drain"
    by (simp_all add: remote_ready_def new_remote_drain_def leases_fit_def new_drain_service_def om_ok_def om_find_def
      drain_request_fits_def demo_drain_def limits nanos_defs i64_fits_def)
  with grant remote_drain_refines_service [of "new_remote_drain ''drain'' 7000 0 1" demo_service] demo_drain_valid
  show ?thesis by (fastforce simp: port_answer_def)
qed

section \<open>The operator interface\<close>

text \<open>
  C28. A command through the daemon is the command itself: over an intact connection the controller
  ends in the state it would end in had the command been given in its own process, and the operator is
  shown success for success and for a refusal its code and detail behind the name of the method. The
  one exception is an observation, of which the daemon sees what \<open>wire_evidence\<close> keeps.
\<close>
theorem remote_command_is_local:
  assumes "idle_client cl" "command_fits cmd" "local_command at now (as_sent cmd) c = (outcome, c')"
  shows "remote_command (daemon_wire at now) deadline cmd cl c =
    (seen_status (snd (snd (command_call cmd))) outcome, after_call cl, c')"
  using assms by (rule remote_command_local)

theorem remote_command_is_local_witness:
  "snd (snd (remote_command (daemon_wire 0 200) 0 (CmdApprove 9 ''ops'') connected_client (demo_controller demo_ledger))) =
   snd (local_command 0 200 (CmdApprove 9 ''ops'') (demo_controller demo_ledger))"
proof -
  have "idle_client connected_client" "command_fits (CmdApprove 9 ''ops'')"
    by (simp_all add: idle_client_def connected_client_def limits)
  from remote_command_is_local [OF this, of 0 200 "demo_controller demo_ledger"] show ?thesis
    by (cases "local_command 0 200 (CmdApprove 9 ''ops'') (demo_controller demo_ledger)") simp
qed

text \<open>
  C29. A query through the daemon is the query itself: it leaves the controller as it is and shows the
  operator the answer the controller gives, provided the answer fits the message it travels in, and
  otherwise the code of the refusal.
\<close>
theorem remote_query_is_local:
  assumes "idle_client cl" "query_fits q" "\<And>a. local_query now q c = Inr a \<Longrightarrow> answer_fits a"
  shows "remote_query (daemon_wire at now) deadline q cl c =
    (case local_query now q c of Inl e \<Rightarrow> Inl (seen_error (snd (snd (query_call q))) e) | Inr a \<Rightarrow> Inr a, after_call cl, c)"
  using assms by (rule remote_query_local)

lemma demo_unknown_job: "\<exists>e. local_query 200 (QueryStatus 9) (demo_controller demo_ledger) = Inl e \<and> err_code e = NotFound"
  by (simp add: job_status_def find_job_def demo_jobs_def om_find_def no_such_job_def make_error_def)

theorem remote_query_is_local_witness:
  "\<exists>detail. remote_query (daemon_wire 0 200) 0 (QueryStatus 9) connected_client (demo_controller demo_ledger) =
     (Inl (ApiError (error_code_value NotFound) detail), after_call connected_client, demo_controller demo_ledger)"
proof -
  obtain e where e: "local_query 200 (QueryStatus 9) (demo_controller demo_ledger) = Inl e" "err_code e = NotFound"
    using demo_unknown_job by blast
  have "idle_client connected_client" "query_fits (QueryStatus 9)" by (simp_all add: idle_client_def connected_client_def)
  from remote_query_is_local [OF this, of 200 "demo_controller demo_ledger" 0 0] e show ?thesis
    by (simp add: seen_error_def)
qed

text \<open>
  C30. An observation sent to the daemon loses which pool, failure domain or contract it is about: two
  reports of one source that differ only in that have the same effect whatever connection carries them,
  so over the network the later one overwrites the earlier one.
\<close>
theorem remote_observations_collide:
  "remote_command net deadline (CmdObserve (e\<lparr>er_key := EvidenceKey k (EvidenceSubject sk t d p ct) source\<rparr>)) cl w =
   remote_command net deadline (CmdObserve (e\<lparr>er_key := EvidenceKey k (EvidenceSubject sk t d' p' ct') source\<rparr>)) cl w"
proof -
  have same: "encode_evidence_body (e\<lparr>er_key := EvidenceKey k (EvidenceSubject sk t d p ct) source\<rparr>) =
    encode_evidence_body (e\<lparr>er_key := EvidenceKey k (EvidenceSubject sk t d' p' ct') source\<rparr>)"
    by (rule evidence_body_forgets)
  show ?thesis unfolding remote_command_def command_call.simps same ..
qed

section \<open>The conflict report\<close>

text \<open>
  The conflict report names exactly the conflicts over targets: it lists a pair of jobs as sharing
  a target, the smaller identity first, when and only when both are under way and their removal sets
  have a target in common.
\<close>
theorem conflict_report_exact:
  assumes "job_table_wf jobs" "cc_jobs ctx = Some jobs"
  shows "(\<exists>e \<in> set (cf_conflicts (inspect_conflicts ctx)). ce_kind e = ''shared-target'' \<and> ce_first e = i \<and> ce_second e = k) \<longleftrightarrow>
    i < k \<and> (\<exists>a b. find_job jobs i = Some a \<and> find_job jobs k = Some b \<and> under_way a \<and> under_way b \<and>
      set (j_removal_set a) \<inter> set (j_removal_set b) \<noteq> {})"
  using assms by (rule target_conflicts_iff)

definition demo_rivals :: job_table where
  "demo_rivals = \<lparr>jt_jobs = [(1, demo_job 1 1), (2, demo_job 2 1)], jt_next_id = 3\<rparr>"

theorem conflict_report_exact_witness:
  "\<exists>e \<in> set (cf_conflicts (inspect_conflicts \<lparr>cc_jobs = Some demo_rivals, cc_ledger = None, cc_topology = None,
     cc_policy = None, cc_now = 200\<rparr>)). ce_kind e = ''shared-target'' \<and> ce_first e = 1 \<and> ce_second e = 2"
proof -
  have "job_table_wf demo_rivals"
    by (simp add: job_table_wf_def demo_rivals_def om_ok_def find_job_def om_find_def demo_job_def new_job_def id_valid_def limits)
  moreover have "find_job demo_rivals 1 = Some (demo_job 1 1)" "find_job demo_rivals 2 = Some (demo_job 2 1)"
      "under_way (demo_job 1 1)" "under_way (demo_job 2 1)"
    by (simp_all add: find_job_def demo_rivals_def om_find_def under_way_def holds_resources_def demo_job_def)
  ultimately show ?thesis
    using conflict_report_exact [of demo_rivals "\<lparr>cc_jobs = Some demo_rivals, cc_ledger = None, cc_topology = None,
      cc_policy = None, cc_now = 200\<rparr>" 1 2] by (simp add: demo_job_def)
qed

end
