(* ===== verification/Time_Text.thy ===== *)
theory Time_Text
  imports Times
begin

text \<open>
  Instants as text (\<^verbatim>\<open>parse_time\<close> of \<^verbatim>\<open>src/core/time.cpp\<close>): a relative offset, seconds since the epoch, or a
  UTC timestamp. The source multiplies and adds in 64 bits without a check where the model has unbounded
  integers.

  The lemmas show that the calendar conversions are inverse to each other and that reading a printed
  instant gives the instant back, for every value of 64 bits.
\<close>

section \<open>Reading\<close>

definition all_digits :: "string \<Rightarrow> bool" where
  "all_digits s \<longleftrightarrow> s \<noteq> [] \<and> list_all is_digit s"

definition fixed_uint :: "string \<Rightarrow> u32 option" where
  "fixed_uint s = (if all_digits s then parse_u32 s else None)"

definition substr :: "nat \<Rightarrow> nat \<Rightarrow> string \<Rightarrow> string" where
  "substr pos n s = take n (drop pos s)"

definition narrow_i64 :: "u64 \<Rightarrow> int option" where
  "narrow_i64 v = narrow (- (2 ^ 63)) (2 ^ 63 - 1) (uint v)"

text \<open>Digits and what follows them, as a magnitude and a unit.\<close>

definition magnitude_and_unit :: "string \<Rightarrow> (u64 \<times> string) option" where
  "magnitude_and_unit s =
     (let digits = takeWhile is_digit s in
      if digits = [] then None
      else case parse_u64 digits of None \<Rightarrow> None | Some m \<Rightarrow> Some (m, dropWhile is_digit s))"

definition offset_scale :: "string \<Rightarrow> nanos option" where
  "offset_scale unit =
     (if unit = ''s'' \<or> unit = [] then Some kNanosPerSecond
      else if unit = ''m'' then Some kNanosPerMinute
      else if unit = ''h'' then Some kNanosPerHour
      else if unit = ''ms'' then Some kNanosPerMillisecond
      else if unit = ''us'' then Some kNanosPerMicrosecond
      else if unit = ''ns'' then Some 1
      else None)"

definition parse_offset :: "bool \<Rightarrow> string \<Rightarrow> nanos \<Rightarrow> nanos option" where
  "parse_offset negative body reference = (case magnitude_and_unit body of
     None \<Rightarrow> None
   | Some (m, unit) \<Rightarrow> (case offset_scale unit of
       None \<Rightarrow> None
     | Some scale \<Rightarrow> (case narrow_i64 m of
         None \<Rightarrow> None
       | Some delta \<Rightarrow> Some (if negative then reference - delta * scale else reference + delta * scale))))"

definition parse_epoch :: "string \<Rightarrow> nanos option" where
  "parse_epoch body = (case parse_u64 body of
     None \<Rightarrow> None
   | Some secs \<Rightarrow> map_option (\<lambda>s. s * kNanosPerSecond) (narrow_i64 secs))"

text \<open>The fraction after the seconds, and the text that follows it.\<close>

definition parse_fraction :: "string \<Rightarrow> (int \<times> string) option" where
  "parse_fraction s = (case s of
     CHR ''.'' # rest \<Rightarrow>
       (let digits = takeWhile is_digit (take 9 rest) in
        if digits = [] then None
        else Some (int (dec_value 0 digits) * 10 ^ (9 - length digits), drop (length digits) rest))
   | _ \<Rightarrow> Some (0, s))"

text \<open>The zone must be UTC; what is left of the text.\<close>

definition parse_zone :: "string \<Rightarrow> string option" where
  "parse_zone s = (case s of
     [] \<Rightarrow> None
   | c # rest \<Rightarrow>
       if c = CHR ''Z'' \<or> c = CHR ''z'' then Some rest
       else if (c = CHR ''+'' \<or> c = CHR ''-'') \<and> length s \<ge> 6 \<and> s ! 3 = CHR '':'' then
         (case (fixed_uint (substr 1 2 s), fixed_uint (substr 4 2 s)) of
            (Some oh, Some om) \<Rightarrow> if oh \<noteq> 0 \<or> om \<noteq> 0 then None else Some (drop 6 s)
          | _ \<Rightarrow> None)
       else None)"

definition timestamp_shape :: "string \<Rightarrow> bool" where
  "timestamp_shape s \<longleftrightarrow> length s \<ge> 20 \<and> s ! 4 = CHR ''-'' \<and> s ! 7 = CHR ''-'' \<and> (s ! 10 = CHR ''T'' \<or> s ! 10 = CHR ''t'') \<and>
     s ! 13 = CHR '':'' \<and> s ! 16 = CHR '':''"

definition parse_timestamp :: "string \<Rightarrow> nanos option" where
  "parse_timestamp s =
     (if \<not> timestamp_shape s then None
      else case (fixed_uint (substr 0 4 s), fixed_uint (substr 5 2 s), fixed_uint (substr 8 2 s),
                 fixed_uint (substr 11 2 s), fixed_uint (substr 14 2 s), fixed_uint (substr 17 2 s)) of
        (Some year, Some month, Some day, Some hour, Some minute, Some second) \<Rightarrow>
          if month < 1 \<or> month > 12 \<or> day < 1 \<or> day > 31 \<or> hour > 23 \<or> minute > 59 \<or> second > 60 then None
          else (case parse_fraction (drop 19 s) of
            None \<Rightarrow> None
          | Some (fraction, rest) \<Rightarrow>
              if parse_zone rest \<noteq> Some [] then None
              else
                let days = days_from_civil (uint year) (uint month) (uint day);
                    seconds = days * kSecondsPerDay + uint hour * 3600 + uint minute * 60 + uint second in
                Some (seconds * kNanosPerSecond + fraction))
      | _ \<Rightarrow> None)"

definition parse_time :: "string \<Rightarrow> nanos \<Rightarrow> nanos option" where
  "parse_time s reference = (case s of
     [] \<Rightarrow> None
   | c # body \<Rightarrow>
       if c = CHR ''+'' \<or> c = CHR ''-'' then parse_offset (c = CHR ''-'') body reference
       else if substr 0 6 s = ''epoch:'' then parse_epoch (drop 6 s)
       else parse_timestamp s)"

section \<open>The calendar\<close>

text \<open>
  A day of the era is \<open>36524 c + 1461 q + 365 r + k\<close>: century, four-year cycle, year of the cycle and
  day of the year.
\<close>

definition era_parts :: "int \<Rightarrow> int \<Rightarrow> int \<Rightarrow> int \<Rightarrow> int \<Rightarrow> bool" where
  "era_parts doe c q r k \<longleftrightarrow> doe = 36524 * c + 1461 * q + 365 * r + k \<and> 0 \<le> c \<and> c \<le> 3 \<and> 0 \<le> q \<and> q \<le> 24 \<and>
     0 \<le> r \<and> r \<le> 3 \<and> 0 \<le> k \<and> k \<le> 365 \<and> (k = 365 \<longrightarrow> r = 3) \<and> (q = 24 \<longrightarrow> r = 3 \<longrightarrow> k = 365 \<longrightarrow> c = 3)"

lemma era_parts_exist:
  assumes "0 \<le> doe" "doe < 146097"
  obtains c q r k where "era_parts doe c q r k"
proof -
  define c where "c = min 3 (doe div 36524)"
  define s where "s = doe - 36524 * c"
  define q where "q = s div 1461"
  define t where "t = s mod 1461"
  define r where "r = min 3 (t div 365)"
  have c: "0 \<le> c" "c \<le> 3" using assms by (simp_all add: c_def pos_imp_zdiv_nonneg_iff)
  have s: "0 \<le> s \<and> s \<le> 36524 \<and> (s = 36524 \<longrightarrow> c = 3)"
  proof (cases "doe div 36524 \<le> 3")
    case True
    then have "s = doe mod 36524" by (simp add: s_def c_def minus_mult_div_eq_mod)
    moreover have "0 \<le> doe mod 36524" "doe mod 36524 < 36524" by simp_all
    ultimately show ?thesis by linarith
  next
    case False
    then have "36524 * 4 \<le> doe" "c = 3" by (simp_all add: c_def int_le_div_iff [symmetric])
    then show ?thesis using assms by (simp add: s_def)
  qed
  have q: "s = 1461 * q + t" "0 \<le> t" "t < 1461" by (simp_all add: q_def t_def)
  with s have "0 \<le> q" "q \<le> 24" by linarith+
  have t: "0 \<le> r \<and> r \<le> 3 \<and> 0 \<le> t - 365 * r \<and> t - 365 * r \<le> 365 \<and> (t - 365 * r = 365 \<longrightarrow> r = 3)"
  proof (cases "t div 365 \<le> 3")
    case True
    then have "t - 365 * r = t mod 365" by (simp add: r_def minus_mult_div_eq_mod)
    moreover have "0 \<le> t div 365" using q(2) by (simp add: pos_imp_zdiv_nonneg_iff)
    moreover have "0 \<le> t mod 365" "t mod 365 < 365" by simp_all
    ultimately show ?thesis using True unfolding r_def by linarith
  next
    case False
    then have "365 * 4 \<le> t" "r = 3" by (simp_all add: r_def int_le_div_iff [symmetric])
    then show ?thesis using q(3) by simp
  qed
  have "era_parts doe c q r (t - 365 * r)"
    unfolding era_parts_def
  proof (intro conjI impI)
    show "doe = 36524 * c + 1461 * q + 365 * r + (t - 365 * r)" using q(1) s_def by simp
    show "c = 3" if "q = 24" "r = 3" "t - 365 * r = 365" using q(1) s that by simp
  qed (use c t \<open>0 \<le> q\<close> \<open>q \<le> 24\<close> in simp_all)
  then show thesis by (rule that)
qed

definition year_of_era :: "int \<Rightarrow> int" where
  "year_of_era doe = (doe - doe div 1460 + doe div 36524 - doe div 146096) div 365"

lemma year_of_era_parts:
  assumes "era_parts doe c q r k"
  shows "year_of_era doe = 100 * c + 4 * q + r" "(100 * c + 4 * q + r) div 4 = 25 * c + q" "(100 * c + 4 * q + r) div 100 = c"
proof -
  have doe: "doe = 36524 * c + 1461 * q + 365 * r + k" and b: "0 \<le> c" "c \<le> 3" "0 \<le> q" "q \<le> 24" "0 \<le> r" "r \<le> 3"
      "0 \<le> k" "k \<le> 365" "k = 365 \<longrightarrow> r = 3" "q = 24 \<longrightarrow> r = 3 \<longrightarrow> k = 365 \<longrightarrow> c = 3"
    using assms by (simp_all add: era_parts_def)
  show "(100 * c + 4 * q + r) div 4 = 25 * c + q" by (rule int_div_pos_eq [where r = r]) (use b in auto)
  show "(100 * c + 4 * q + r) div 100 = c" by (rule int_div_pos_eq [where r = "4 * q + r"]) (use b in auto)
  define e :: int where "e = (if 24 * c + q + 365 * r + k \<ge> 1460 then 1 else 0)"
  have cycles: "doe div 1460 = 25 * c + q + e"
    by (rule int_div_pos_eq [where r = "24 * c + q + 365 * r + k - 1460 * e"]) (use b in \<open>auto simp: doe e_def\<close>)
  have centuries: "doe div 36524 - doe div 146096 = c"
  proof (cases "doe = 146096")
    case True
    then have "c = 3" using doe b by linarith
    with True show ?thesis by simp
  next
    case False
    have low: "1461 * q + 365 * r + k < 36524"
    proof (rule ccontr)
      assume "\<not> 1461 * q + 365 * r + k < 36524"
      then have "q = 24" "r = 3" "k = 365" using b(4,6,8) by linarith+
      then show False using b(10) False doe by simp
    qed
    have "doe div 36524 = c"
      by (rule int_div_pos_eq [where r = "1461 * q + 365 * r + k"]) (use low b in \<open>auto simp: doe\<close>)
    moreover have "doe div 146096 = 0" using low b doe by (simp add: div_pos_pos_trivial)
    ultimately show ?thesis by simp
  qed
  have "0 \<le> k - e" "k - e < 365" using b by (auto simp: e_def)
  then have "(365 * (100 * c + 4 * q + r) + (k - e)) div 365 = 100 * c + 4 * q + r"
    by (intro int_div_pos_eq [where r = "k - e"]) auto
  moreover have "doe - doe div 1460 + doe div 36524 - doe div 146096 = 365 * (100 * c + 4 * q + r) + (k - e)"
    using cycles centuries by (simp add: doe algebra_simps)
  ultimately show "year_of_era doe = 100 * c + 4 * q + r" unfolding year_of_era_def by simp
qed

text \<open>The day of the year is the last of the parts, so it is at most 365.\<close>

lemma day_of_year_bounds:
  assumes "0 \<le> doe" "doe < 146097" "yoe = year_of_era doe"
  shows "0 \<le> yoe" "yoe < 400" "0 \<le> doe - (365 * yoe + yoe div 4 - yoe div 100)"
    "doe - (365 * yoe + yoe div 4 - yoe div 100) \<le> 365"
proof -
  obtain c q r k where parts: "era_parts doe c q r k" using era_parts_exist assms by blast
  note yoe = year_of_era_parts [OF parts]
  have y: "yoe = 100 * c + 4 * q + r" using yoe(1) assms(3) by simp
  then have "365 * yoe + yoe div 4 - yoe div 100 = 36524 * c + 1461 * q + 365 * r" using yoe(2,3) by simp
  then have k: "doe - (365 * yoe + yoe div 4 - yoe div 100) = k" using parts by (simp add: era_parts_def)
  have b: "0 \<le> c" "c \<le> 3" "0 \<le> q" "q \<le> 24" "0 \<le> r" "r \<le> 3" "0 \<le> k" "k \<le> 365"
    using parts by (simp_all add: era_parts_def)
  show "0 \<le> yoe" "yoe < 400" using b y by linarith+
  show "0 \<le> doe - (365 * yoe + yoe div 4 - yoe div 100)" "doe - (365 * yoe + yoe div 4 - yoe div 100) \<le> 365"
    using b k by simp_all
qed

lemma month_bounds:
  fixes doy mp :: int
  assumes "0 \<le> doy" "doy \<le> 365" "mp = (5 * doy + 2) div 153"
  shows "0 \<le> mp" "mp \<le> 11" "1 \<le> doy - (153 * mp + 2) div 5 + 1" "doy - (153 * mp + 2) div 5 + 1 \<le> 31"
proof -
  have mp: "153 * mp \<le> 5 * doy + 2" "5 * doy + 2 < 153 * mp + 153"
    using assms(3) by presburger+
  then show "0 \<le> mp" "mp \<le> 11" using assms(1,2) by linarith+
  define u where "u = (153 * mp + 2) div 5"
  have "5 * u \<le> 153 * mp + 2" "153 * mp + 2 < 5 * u + 5"
    using mult_div_mod_eq [of 5 "153 * mp + 2"] pos_mod_bound [of 5 "153 * mp + 2"] pos_mod_sign [of 5 "153 * mp + 2"]
    by (simp_all add: u_def)
  with mp show "1 \<le> doy - (153 * mp + 2) div 5 + 1" "doy - (153 * mp + 2) div 5 + 1 \<le> 31"
    unfolding u_def [symmetric] by linarith+
qed

lemma floor_sdiv:
  assumes "0 < n"
  shows "(if z \<ge> 0 then z else z - (n - 1)) sdiv n = z div (n :: int)"
proof (cases "z \<ge> 0")
  case True
  then show ?thesis using assms by (simp add: sdiv_pos_pos)
next
  case False
  have "(z - (n - 1)) sdiv n = - ((n - 1 - z) div n)"
    using sdiv_neg_pos [of "n - 1 - z" n] False assms by simp
  also have "(n - 1 - z) div n = - (z div n)"
  proof (rule int_div_pos_eq)
    show "n - 1 - z = n * - (z div n) + (n - 1 - z mod n)"
      using mult_div_mod_eq [of n z] by (simp add: algebra_simps)
    show "0 \<le> n - 1 - z mod n" "n - 1 - z mod n < n"
      using pos_mod_bound [OF assms, of z] pos_mod_sign [OF assms, of z] by linarith+
  qed
  finally show ?thesis using False by simp
qed

lemma civil_days:
  assumes "civ = civil_from_days z"
  shows "days_from_civil (cv_year civ) (cv_month civ) (cv_day civ) = z" "1 \<le> cv_month civ" "cv_month civ \<le> 12"
    "1 \<le> cv_day civ" "cv_day civ \<le> 31"
    "400 * ((z + 719468) div 146097) \<le> cv_year civ" "cv_year civ \<le> 400 * ((z + 719468) div 146097) + 400"
proof -
  define era where "era = (z + 719468) div 146097"
  define doe where "doe = z + 719468 - era * 146097"
  define yoe where "yoe = year_of_era doe"
  define doy where "doy = doe - (365 * yoe + yoe div 4 - yoe div 100)"
  define mp where "mp = (5 * doy + 2) div 153"
  define m where "m = (if mp < 10 then mp + 3 else mp - 9)"
  have civ: "civ = \<lparr>cv_year = yoe + era * 400 + (if m \<le> 2 then 1 else 0), cv_month = m,
      cv_day = doy - (153 * mp + 2) div 5 + 1\<rparr>"
    unfolding assms civil_from_days_def era_is_floor Let_def m_def mp_def doy_def yoe_def year_of_era_def doe_def era_def ..
  have doe: "0 \<le> doe" "doe < 146097"
    using day_of_era_bounds [of "z + 719468"] by (simp_all add: doe_def era_def era_is_floor)
  note year = day_of_year_bounds [OF doe yoe_def]
  have doy: "0 \<le> doy" "doy \<le> 365" using year(3,4) by (simp_all add: doy_def)
  note month = month_bounds [OF doy mp_def]
  show "1 \<le> cv_month civ" "cv_month civ \<le> 12" "1 \<le> cv_day civ" "cv_day civ \<le> 31"
    using month by (simp_all add: civ m_def)
  show "400 * ((z + 719468) div 146097) \<le> cv_year civ" "cv_year civ \<le> 400 * ((z + 719468) div 146097) + 400"
    using year(1,2) by (simp_all add: civ era_def)
  define y where "y = yoe + era * 400"
  have y: "cv_year civ - (if cv_month civ \<le> 2 then 1 else 0) = y" by (simp add: civ y_def)
  have months: "(if cv_month civ > 2 then cv_month civ - 3 else cv_month civ + 9) = mp"
    using month by (auto simp: civ m_def)
  have "(if y \<ge> 0 then y else y - 399) sdiv 400 = y div 400" using floor_sdiv [of 400 y] by (simp split: if_splits)
  moreover have "y div 400 = era" by (rule int_div_pos_eq [where r = yoe]) (use year(1,2) in \<open>simp_all add: y_def\<close>)
  ultimately have eras: "(if y \<ge> 0 then y else y - 399) sdiv 400 = era" by simp
  have "days_from_civil (cv_year civ) (cv_month civ) (cv_day civ) =
      era * 146097 + (yoe * 365 + yoe div 4 - yoe div 100 + ((153 * mp + 2) div 5 + cv_day civ - 1)) - 719468"
    unfolding days_from_civil_def Let_def y months eras by (simp add: y_def)
  also have "\<dots> = z" by (simp add: civ doy_def doe_def)
  finally show "days_from_civil (cv_year civ) (cv_month civ) (cv_day civ) = z" .
qed

section \<open>A printed instant reads back\<close>

lemma dec_value_zeros: "dec_value 0 (replicate n CHR ''0'' @ s) = dec_value 0 s"
  by (induction n) (simp_all add: dec_value_def digit_val_def)

lemma pad_dec_digits:
  assumes "0 \<le> n" "n < 10 ^ w" "0 < w"
  shows "length (pad_dec w n) = w" "list_all is_digit (pad_dec w n)" "dec_value 0 (pad_dec w n) = nat n"
proof -
  have "length (dec_string (nat n)) \<le> w"
    using assms by (intro dec_string_length) (simp_all add: nat_less_iff)
  then show "length (pad_dec w n) = w" by (simp add: pad_dec_def Let_def)
  show "list_all is_digit (pad_dec w n)"
    using dec_string_digits [of "nat n"] by (auto simp: pad_dec_def Let_def list_all_iff is_digit_def)
  show "dec_value 0 (pad_dec w n) = nat n"
    by (simp add: pad_dec_def Let_def dec_value_zeros dec_string_value)
qed

lemma fixed_uint_digits:
  assumes "list_all is_digit s" "s \<noteq> []" "length s \<le> 20" "dec_value 0 s < 2 ^ 32"
  shows "fixed_uint s = Some (of_nat (dec_value 0 s))"
proof -
  have "parse_u64 s = Some (of_nat (dec_value 0 s))" using assms by (simp add: parse_u64_spec)
  moreover have "uint (of_nat (dec_value 0 s) :: u64) = int (dec_value 0 s)"
    using assms(4) by (simp add: uint_nat unat_of_nat)
  ultimately show ?thesis
    using assms by (simp add: fixed_uint_def all_digits_def parse_u32_def narrow_def)
qed

lemma fixed_uint_pad:
  assumes "0 \<le> n" "n < 10 ^ w" "0 < w" "w \<le> 9"
  shows "fixed_uint (pad_dec w n) = Some (word_of_int n)" "uint (word_of_int n :: u32) = n"
proof -
  note digits = pad_dec_digits [OF assms(1-3)]
  have "(10 :: int) ^ w \<le> 10 ^ 9" using assms(4) by (intro power_increasing) simp_all
  then have small: "n < 2 ^ 32" using assms(2) by simp
  have "pad_dec w n \<noteq> []" using digits(1) assms(3) by auto
  then have "fixed_uint (pad_dec w n) = Some (of_nat (nat n))"
    using fixed_uint_digits [OF digits(2)] digits(1,3) assms(1,4) small by (simp add: nat_less_iff)
  then show "fixed_uint (pad_dec w n) = Some (word_of_int n)" using assms(1) by simp
  show "uint (word_of_int n :: u32) = n" using assms(1) small by (simp add: unsigned_of_int take_bit_int_eq_self)
qed

text \<open>A text of the shape of a timestamp, field by field.\<close>

lemma timestamp_fields:
  assumes "length y = 4" "length mo = 2" "length d = 2" "length h = 2" "length mi = 2" "length sec = 2"
    and "s = y @ ''-'' @ mo @ ''-'' @ d @ ''T'' @ h @ '':'' @ mi @ '':'' @ sec @ rest" "rest \<noteq> []"
  shows "timestamp_shape s" "substr 0 4 s = y" "substr 5 2 s = mo" "substr 8 2 s = d" "substr 11 2 s = h"
    "substr 14 2 s = mi" "substr 17 2 s = sec" "drop 19 s = rest"
  using assms by (simp_all add: timestamp_shape_def substr_def nth_append Suc_le_eq)

lemma fraction_back:
  assumes "0 \<le> f" "f < 10 ^ 9"
  shows "parse_fraction (''.'' @ pad_dec 9 f @ ''Z'') = Some (f, ''Z'')"
proof -
  note digits = pad_dec_digits [OF assms, simplified]
  have whole: "takeWhile is_digit (pad_dec 9 f) = pad_dec 9 f"
    using digits(2) by (simp add: takeWhile_eq_all_conv list_all_iff)
  have "pad_dec 9 f \<noteq> []" using digits(1) by auto
  then show ?thesis using digits(1,3) assms(1) by (simp add: parse_fraction_def Let_def whole)
qed

lemma floor_parts:
  fixes v n :: int
  assumes "0 < n"
  shows "(if v smod n < 0 then v smod n + n else v smod n) = v mod n"
    "(if v smod n < 0 then v sdiv n - 1 else v sdiv n) = v div n"
proof -
  have "(if v smod n < 0 then v smod n + n else v smod n) = v mod n \<and>
      (if v smod n < 0 then v sdiv n - 1 else v sdiv n) = v div n"
  proof (cases "0 \<le> v")
    case True
    then have "v sdiv n = v div n" "v smod n = v mod n"
      using assms by (cases "v = 0"; simp add: sdiv_pos_pos signed_modulo_int_def)+
    then show ?thesis using pos_mod_sign [OF assms, of v] by simp
  next
    case False
    then have "v sdiv n = - ((- v) div n)" "v smod n = - ((- v) mod n)"
      using sdiv_neg_pos [of "- v" n] assms by (simp_all add: signed_modulo_int_def)
    then show ?thesis
      using assms pos_mod_bound [OF assms, of v] by (simp add: zdiv_zminus1_eq_if zmod_zminus1_eq_if)
  qed
  then show "(if v smod n < 0 then v smod n + n else v smod n) = v mod n"
    "(if v smod n < 0 then v sdiv n - 1 else v sdiv n) = v div n" by simp_all
qed

lemma parse_timestamp_back:
  assumes "0 \<le> y" "y < 10 ^ 4" "1 \<le> mo" "mo \<le> 12" "1 \<le> d" "d \<le> 31" "0 \<le> h" "h \<le> 23" "0 \<le> mi" "mi \<le> 59"
    "0 \<le> sec" "sec \<le> 59" "0 \<le> f" "f < 10 ^ 9"
    and "s = pad_dec 4 y @ ''-'' @ pad_dec 2 mo @ ''-'' @ pad_dec 2 d @ ''T'' @ pad_dec 2 h @ '':'' @ pad_dec 2 mi @ '':'' @
      pad_dec 2 sec @ ''.'' @ pad_dec 9 f @ ''Z''"
  shows "parse_timestamp s =
    Some ((days_from_civil y mo d * kSecondsPerDay + h * 3600 + mi * 60 + sec) * kNanosPerSecond + f)"
proof -
  note two = fixed_uint_pad [where w = 2, simplified] and len2 = pad_dec_digits(1) [where w = 2, simplified]
  note f = timestamp_fields [OF _ len2 len2 len2 len2 len2 assms(15)]
  have fields: "timestamp_shape s" "substr 0 4 s = pad_dec 4 y" "substr 5 2 s = pad_dec 2 mo" "substr 8 2 s = pad_dec 2 d"
    "substr 11 2 s = pad_dec 2 h" "substr 14 2 s = pad_dec 2 mi" "substr 17 2 s = pad_dec 2 sec"
    "drop 19 s = ''.'' @ pad_dec 9 f @ ''Z''"
    using f pad_dec_digits(1) [of y 4] assms by simp_all
  have words: "fixed_uint (pad_dec 4 y) = Some (word_of_int y)" "uint (word_of_int y :: u32) = y"
    "fixed_uint (pad_dec 2 mo) = Some (word_of_int mo)" "uint (word_of_int mo :: u32) = mo"
    "fixed_uint (pad_dec 2 d) = Some (word_of_int d)" "uint (word_of_int d :: u32) = d"
    "fixed_uint (pad_dec 2 h) = Some (word_of_int h)" "uint (word_of_int h :: u32) = h"
    "fixed_uint (pad_dec 2 mi) = Some (word_of_int mi)" "uint (word_of_int mi :: u32) = mi"
    "fixed_uint (pad_dec 2 sec) = Some (word_of_int sec)" "uint (word_of_int sec :: u32) = sec"
    using fixed_uint_pad [of y 4] two assms by simp_all
  have "parse_zone ''Z'' = Some []" by (simp add: parse_zone_def)
  then show ?thesis
    using assms(1-14) fraction_back [OF assms(13,14)]
    by (simp add: parse_timestamp_def fields words word_less_def)
qed

lemma kNanosPerSecond_pos: "0 < kNanosPerSecond" and kSecondsPerDay_pos: "0 < kSecondsPerDay"
  by (simp_all add: nanos_defs)

lemma clock_parts:
  fixes sod :: int
  assumes "0 \<le> sod" "sod < 86400"
  shows "0 \<le> sod div 3600" "sod div 3600 \<le> 23" "0 \<le> sod mod 3600 div 60" "sod mod 3600 div 60 \<le> 59"
    "0 \<le> sod mod 60" "sod mod 60 \<le> 59" "sod = sod div 3600 * 3600 + sod mod 3600 div 60 * 60 + sod mod 60"
proof -
  define a where "a = sod mod 3600"
  have a: "sod = 3600 * (sod div 3600) + a" "0 \<le> a" "a < 3600" by (simp_all add: a_def)
  have "sod mod 60 = a mod 60" by (simp add: a_def mod_mod_cancel)
  moreover have "a = 60 * (a div 60) + a mod 60" "0 \<le> a mod 60" "a mod 60 < 60" by simp_all
  ultimately show "0 \<le> sod div 3600" "sod div 3600 \<le> 23" "0 \<le> sod mod 3600 div 60" "sod mod 3600 div 60 \<le> 59"
    "0 \<le> sod mod 60" "sod mod 60 \<le> 59" "sod = sod div 3600 * 3600 + sod mod 3600 div 60 * 60 + sod mod 60"
    using a assms unfolding a_def [symmetric] by linarith+
qed

theorem parse_format_time:
  assumes "- (2 ^ 63) \<le> v" "v < 2 ^ 63"
  shows "parse_time (format_time v) reference = Some v"
proof -
  define seconds where "seconds = v div kNanosPerSecond"
  define days where "days = seconds div kSecondsPerDay"
  define sod where "sod = seconds mod kSecondsPerDay"
  define civ where "civ = civil_from_days days"
  have sod: "0 \<le> sod" "sod < 86400" by (simp_all add: sod_def kSecondsPerDay_def)
  define h mi sec f where "h = sod div 3600" and "mi = sod mod 3600 div 60" and "sec = sod mod 60"
    and "f = v mod kNanosPerSecond"
  have clock: "0 \<le> h" "h \<le> 23" "0 \<le> mi" "mi \<le> 59" "0 \<le> sec" "sec \<le> 59" "sod = h * 3600 + mi * 60 + sec"
    unfolding h_def mi_def sec_def by (rule clock_parts [OF sod])+
  have signed: "sod sdiv 3600 = h" "(sod smod 3600) sdiv 60 = mi" "sod smod 60 = sec"
    using sod by (cases "sod = 0"; simp add: h_def mi_def sec_def sdiv_pos_pos signed_modulo_int_def)+
  have f: "0 \<le> f" "f < 10 ^ 9" by (simp_all add: f_def kNanosPerSecond_def)
  have instant: "v = (days * kSecondsPerDay + sod) * kNanosPerSecond + f"
    by (simp add: f_def sod_def days_def seconds_def)
  have "- 9223372036854775808 \<le> v" "v < 9223372036854775808" "f < 1000000000" using assms f by simp_all
  moreover have "v = days * 86400000000000 + sod * 1000000000 + f" using instant by (simp add: nanos_defs)
  ultimately have "- 110000 \<le> days" "days \<le> 110000" using sod f(1) by linarith+
  then have "4 \<le> (days + 719468) div 146097" "(days + 719468) div 146097 \<le> 5"
    using int_le_div_iff [of 146097 4 "days + 719468"] int_le_div_iff [of 146097 6 "days + 719468"] by linarith+
  then have year: "0 \<le> cv_year civ" "cv_year civ < 10 ^ 4" using civil_days(6,7) [OF civ_def] by simp_all
  have printed: "format_time v = pad_dec 4 (cv_year civ) @ ''-'' @ pad_dec 2 (cv_month civ) @ ''-'' @ pad_dec 2 (cv_day civ) @
      ''T'' @ pad_dec 2 h @ '':'' @ pad_dec 2 mi @ '':'' @ pad_dec 2 sec @ ''.'' @ pad_dec 9 f @ ''Z''"
    using year(1) unfolding format_time_def Let_def floor_parts [OF kNanosPerSecond_pos] floor_parts [OF kSecondsPerDay_pos]
      seconds_def [symmetric] days_def [symmetric] sod_def [symmetric] civ_def [symmetric] f_def [symmetric] signed
    by (simp add: pad_year_def)
  have stamp: "parse_timestamp (format_time v) = Some v"
    using parse_timestamp_back [OF year civil_days(2-5) [OF civ_def] clock(1-6) f printed] civil_days(1) [OF civ_def] clock(7) instant
    by simp
  have "is_digit (hd (format_time v))" "format_time v \<noteq> []"
    using pad_dec_digits [of "cv_year civ" 4] year unfolding printed by (cases "pad_dec 4 (cv_year civ)"; simp)+
  then obtain c rest where "format_time v = c # rest" "is_digit c" by (cases "format_time v") auto
  then show ?thesis using stamp by (auto simp: parse_time_def substr_def is_digit_def)
qed

end
