(* ===== verification/Config_Text.thy ===== *)
theory Config_Text
  imports Time_Text Policies Topology "HOL-Library.Char_ord" "HOL-Library.List_Lexorder"
begin

text \<open>
  The configuration text (\<^verbatim>\<open>include/mf/config/text.hpp\<close>, \<^verbatim>\<open>src/config/text.cpp\<close>): one record per line, a kind
  followed by \<^verbatim>\<open>key=value\<close> tokens, comments from \<^verbatim>\<open>#\<close> to the end of the line. A file is its content, or
  nothing when it cannot be opened. The statistics are an output argument and are returned beside the
  result; they keep what was counted before an error.

  Reading is \<open>load_topology_text\<close> and \<open>load_policy_text\<close>, printing \<open>render_topology\<close> and \<open>render_policy\<close>.
\<close>

section \<open>Lines and tokens\<close>

record config_token =
  tk_key :: string
  tk_value :: string

record config_line =
  ln_number :: nat
  ln_kind :: string
  ln_tokens :: "config_token list"

definition line_find :: "config_line \<Rightarrow> string \<Rightarrow> string option" where
  "line_find ln key = map_option tk_value (find (\<lambda>t. tk_key t = key) (ln_tokens ln))"

definition is_blank :: "char \<Rightarrow> bool" where
  "is_blank c \<longleftrightarrow> c = CHR '' '' \<or> c = CHR 0x09 \<or> c = CHR 0x0D"

definition trim :: "string \<Rightarrow> string" where
  "trim s = rev (dropWhile is_blank (rev (dropWhile is_blank s)))"

definition with_line :: "nat \<Rightarrow> string \<Rightarrow> string" where
  "with_line n message = ''line '' @ dec_string n @ '': '' @ message"

definition line_error :: "nat \<Rightarrow> string \<Rightarrow> error" where
  "line_error n message = make_error InvalidArgument (with_line n message)"

definition quoted :: "string \<Rightarrow> string" where
  "quoted s = CHR 0x27 # s @ [CHR 0x27]"

text \<open>The pieces between separators; there is always at least one.\<close>

fun split_on :: "char \<Rightarrow> string \<Rightarrow> string list" where
  "split_on c [] = [[]]"
| "split_on c (x # xs) =
     (if x = c then [] # split_on c xs
      else case split_on c xs of [] \<Rightarrow> [[x]] | p # ps \<Rightarrow> (x # p) # ps)"

text \<open>What \<^verbatim>\<open>operator>>\<close> of a string stream yields one after the other.\<close>

definition stream_space :: "char \<Rightarrow> bool" where
  "stream_space c \<longleftrightarrow> c = CHR '' '' \<or> (9 \<le> (of_char c :: nat) \<and> (of_char c :: nat) \<le> 13)"

function stream_words :: "string \<Rightarrow> string list" where
  "stream_words [] = []"
| "stream_words (c # cs) =
     (if stream_space c then stream_words cs
      else (c # takeWhile (\<lambda>d. \<not> stream_space d) cs) # stream_words (dropWhile (\<lambda>d. \<not> stream_space d) cs))"
  by pat_completeness auto
termination
  by (relation "measure length") (auto simp: length_dropWhile_le less_Suc_eq_le)

fun read_tokens :: "config_line \<Rightarrow> string list \<Rightarrow> config_line result" where
  "read_tokens ln [] = Inr ln"
| "read_tokens ln (t # ts) =
     (let key = takeWhile (\<lambda>c. c \<noteq> CHR ''='') t in
      if CHR ''='' \<notin> set t \<or> key = [] \<or> length key + 1 \<ge> length t then
        Inl (line_error (ln_number ln) (''token '' @ quoted t @ '' is not key=value''))
      else if line_find ln key \<noteq> None then
        Inl (line_error (ln_number ln) (''key '' @ quoted key @ '' is repeated''))
      else read_tokens (ln\<lparr>ln_tokens := ln_tokens ln @ [\<lparr>tk_key = key, tk_value = drop (length key + 1) t\<rparr>]\<rparr>) ts)"

definition read_line :: "nat \<Rightarrow> string \<Rightarrow> config_line result" where
  "read_line n body =
     (let ws = stream_words body;
          ln = \<lparr>ln_number = n, ln_kind = (case ws of [] \<Rightarrow> [] | w # _ \<Rightarrow> w), ln_tokens = []\<rparr> in
      case read_tokens ln (tl ws) of
        Inl e \<Rightarrow> Inl e
      | Inr ln \<Rightarrow>
          if length (ln_tokens ln) > 64 then Inl (make_error LimitExceeded (with_line n ''too many keys on one line''))
          else Inr ln)"

definition line_body :: "string \<Rightarrow> string" where
  "line_body raw =
     (let body = trim raw in
      if CHR ''#'' \<in> set body then trim (takeWhile (\<lambda>c. c \<noteq> CHR ''#'') body) else body)"

fun tokenize_lines :: "nat \<Rightarrow> string list \<Rightarrow> config_line list result" where
  "tokenize_lines n [] = Inr []"
| "tokenize_lines n (raw # raws) =
     (let body = line_body raw in
      if body = [] then tokenize_lines (Suc n) raws
      else case read_line n body of
        Inl e \<Rightarrow> Inl e
      | Inr ln \<Rightarrow> (case tokenize_lines (Suc n) raws of Inl e \<Rightarrow> Inl e | Inr lns \<Rightarrow> Inr (ln # lns)))"

definition tokenize :: "string \<Rightarrow> config_line list result" where
  "tokenize s = tokenize_lines 1 (split_on (CHR 0x0A) s)"

section \<open>Keys and values\<close>

definition require_known_keys :: "config_line \<Rightarrow> string list \<Rightarrow> status" where
  "require_known_keys ln allowed = (case find (\<lambda>t. tk_key t \<notin> set allowed) (ln_tokens ln) of
     None \<Rightarrow> ok_status
   | Some t \<Rightarrow> Inl (line_error (ln_number ln) (''unknown key '' @ quoted (tk_key t) @ '' for record '' @ quoted (ln_kind ln))))"

definition require_value :: "config_line \<Rightarrow> string \<Rightarrow> string result" where
  "require_value ln key = (case line_find ln key of
     None \<Rightarrow> Inl (line_error (ln_number ln) (''missing required key '' @ quoted key))
   | Some v \<Rightarrow> Inr v)"

definition parse_bool :: "config_line \<Rightarrow> string \<Rightarrow> bool result" where
  "parse_bool ln v =
     (if v = ''true'' \<or> v = ''1'' \<or> v = ''yes'' then Inr True
      else if v = ''false'' \<or> v = ''0'' \<or> v = ''no'' then Inr False
      else Inl (line_error (ln_number ln) (''value '' @ quoted v @ '' is not a boolean'')))"

text \<open>The loop over the pieces of a list, for targets and for domains.\<close>

fun parse_pieces :: "string \<Rightarrow> (string \<Rightarrow> 'a option) \<Rightarrow> config_line \<Rightarrow> string list \<Rightarrow> 'a list result" where
  "parse_pieces what parse ln [] = Inr []"
| "parse_pieces what parse ln (p # ps) =
     (if p = [] then Inl (line_error (ln_number ln) (what @ '' list contains an empty entry''))
      else case parse p of
        None \<Rightarrow> Inl (line_error (ln_number ln) (what @ '' '' @ quoted p @ '' is not a '' @ what @ '' id''))
      | Some x \<Rightarrow> (case parse_pieces what parse ln ps of Inl e \<Rightarrow> Inl e | Inr xs \<Rightarrow> Inr (x # xs)))"

definition parse_target_list :: "config_line \<Rightarrow> string \<Rightarrow> target_id list result" where
  "parse_target_list ln v = parse_pieces ''target'' parse_target_id ln (split_on (CHR '','') v)"

definition parse_domain_list :: "config_line \<Rightarrow> string \<Rightarrow> domain_id list result" where
  "parse_domain_list ln v = parse_pieces ''domain'' parse_domain_id ln (split_on (CHR '','') v)"

definition parse_u32_value :: "config_line \<Rightarrow> string \<Rightarrow> u32 result" where
  "parse_u32_value ln v = (case parse_u32 v of
     None \<Rightarrow> Inl (line_error (ln_number ln) (''value '' @ quoted v @ '' is not a number''))
   | Some n \<Rightarrow> Inr n)"

definition duration_scale :: "string \<Rightarrow> nanos option" where
  "duration_scale unit =
     (if unit = ''s'' then Some kNanosPerSecond
      else if unit = ''m'' then Some kNanosPerMinute
      else if unit = ''h'' then Some kNanosPerHour
      else if unit = ''ms'' then Some kNanosPerMillisecond
      else if unit = ''us'' then Some kNanosPerMicrosecond
      else if unit = ''ns'' \<or> unit = [] then Some 1
      else None)"

definition parse_duration_text :: "string \<Rightarrow> nanos option" where
  "parse_duration_text s = (case magnitude_and_unit s of
     None \<Rightarrow> None
   | Some (m, unit) \<Rightarrow> (case duration_scale unit of
       None \<Rightarrow> None
     | Some scale \<Rightarrow> (case narrow_i64 m of
         None \<Rightarrow> None
       | Some n \<Rightarrow> checked_mul_signed 64 n scale)))"

text \<open>One step after another, each of which may end the load.\<close>

definition bind_result :: "'a result \<Rightarrow> ('a \<Rightarrow> 'b result) \<Rightarrow> 'b result" where
  "bind_result r f = (case r of Inl e \<Rightarrow> Inl e | Inr x \<Rightarrow> f x)"

definition need :: "config_line \<Rightarrow> string \<Rightarrow> 'a option \<Rightarrow> 'a result" where
  "need ln message x = (case x of None \<Rightarrow> Inl (line_error (ln_number ln) message) | Some v \<Rightarrow> Inr v)"

definition optional_key :: "config_line \<Rightarrow> string \<Rightarrow> 'a \<Rightarrow> (string \<Rightarrow> 'a result) \<Rightarrow> 'a result" where
  "optional_key ln key otherwise parse = (case line_find ln key of None \<Rightarrow> Inr otherwise | Some v \<Rightarrow> parse v)"

definition name_or :: "config_line \<Rightarrow> string \<Rightarrow> string" where
  "name_or ln otherwise = (case line_find ln ''name'' of None \<Rightarrow> otherwise | Some v \<Rightarrow> v)"

definition at_line :: "config_line \<Rightarrow> 'a result \<Rightarrow> 'a result" where
  "at_line ln r = (case r of Inl e \<Rightarrow> Inl (make_error (err_code e) (with_line (ln_number ln) (err_detail e))) | Inr x \<Rightarrow> Inr x)"

record parse_stats =
  ps_lines :: nat
  ps_records :: nat

definition no_parse_stats :: parse_stats where
  "no_parse_stats = \<lparr>ps_lines = 0, ps_records = 0\<rparr>"

text \<open>The loop over the lines: a record that is accepted is counted.\<close>

fun load_lines :: "(config_line \<Rightarrow> 's \<Rightarrow> 's result) \<Rightarrow> config_line list \<Rightarrow> 's \<Rightarrow> parse_stats \<Rightarrow> 's result \<times> parse_stats" where
  "load_lines load [] s stats = (Inr s, stats)"
| "load_lines load (ln # lns) s stats = (case load ln s of
     Inl e \<Rightarrow> (Inl e, stats)
   | Inr s \<Rightarrow> load_lines load lns s (stats\<lparr>ps_records := Suc (ps_records stats)\<rparr>))"

definition unknown_kind :: "config_line \<Rightarrow> error" where
  "unknown_kind ln = line_error (ln_number ln) (''unknown record kind '' @ quoted (ln_kind ln))"

end
