(* ===== verification/Config_Topology.thy ===== *)
theory Config_Topology
  imports Config_Text Topology_Codec
begin

text \<open>
  The topology as configuration text (\<^verbatim>\<open>src/config/text.cpp\<close>). Every line declares a domain, a target or a
  pool through the ordinary declarations of the topology; printing lists the domains, the targets with
  every parent before its children, and the pools.
\<close>

section \<open>Loading\<close>

definition load_domain :: "config_line \<Rightarrow> topology \<Rightarrow> topology result" where
  "load_domain ln t =
     bind_result (require_known_keys ln [''kind'', ''id'', ''name'', ''correlated'']) (\<lambda>_.
     bind_result (require_value ln ''kind'') (\<lambda>kind_text.
     bind_result (require_value ln ''id'') (\<lambda>id_text.
     (case (parse_domain_kind kind_text, parse_u32 id_text) of
        (Some kind, Some index) \<Rightarrow>
          if kind = DkUnknown then Inl (line_error (ln_number ln) ''domain kind/id is not valid'')
          else
            bind_result (optional_key ln ''correlated'' True (parse_bool ln)) (\<lambda>correlated.
            at_line ln (add_domain \<lparr>dr_id = DomainId kind index,
              dr_name = name_or ln (to_string_domain (DomainId kind index)), dr_correlated = correlated\<rparr> t))
      | _ \<Rightarrow> Inl (line_error (ln_number ln) ''domain kind/id is not valid'')))))"

definition load_target :: "config_line \<Rightarrow> topology \<Rightarrow> topology result" where
  "load_target ln t =
     bind_result (require_known_keys ln [''kind'', ''id'', ''name'', ''parent'', ''domains'', ''capacity'', ''maintainable'']) (\<lambda>_.
     bind_result (require_value ln ''kind'') (\<lambda>kind_text.
     bind_result (require_value ln ''id'') (\<lambda>id_text.
     bind_result (require_value ln ''domains'') (\<lambda>domains_text.
     (case (parse_target_kind kind_text, parse_u32 id_text) of
        (Some kind, Some index) \<Rightarrow>
          if kind = TkUnknown then Inl (line_error (ln_number ln) ''target kind/id is not valid'')
          else
            bind_result (parse_domain_list ln domains_text) (\<lambda>domains.
            bind_result (optional_key ln ''parent'' None (\<lambda>v.
              bind_result (need ln ''parent is not a target id'' (parse_target_id v)) (\<lambda>p. Inr (Some p)))) (\<lambda>parent.
            bind_result (optional_key ln ''capacity'' 1 (parse_u32_value ln)) (\<lambda>capacity.
            bind_result (optional_key ln ''maintainable'' True (parse_bool ln)) (\<lambda>maintainable.
            at_line ln (add_target \<lparr>tr_id = TargetId kind index,
              tr_name = name_or ln (to_string_target (TargetId kind index)), tr_parent = parent,
              tr_domains = domains, tr_capacity_units = capacity, tr_maintainable = maintainable\<rparr> t)))))
      | _ \<Rightarrow> Inl (line_error (ln_number ln) ''target kind/id is not valid''))))))"

definition load_pool :: "config_line \<Rightarrow> topology \<Rightarrow> topology result" where
  "load_pool ln t =
     bind_result (require_known_keys ln [''id'', ''name'', ''members'']) (\<lambda>_.
     bind_result (require_value ln ''id'') (\<lambda>id_text.
     bind_result (require_value ln ''members'') (\<lambda>members_text.
     bind_result (need ln ''pool id is not valid'' (parse_u32 id_text)) (\<lambda>index.
     bind_result (parse_target_list ln members_text) (\<lambda>members.
     at_line ln (add_pool \<lparr>pr_id = ucast index, pr_name = name_or ln (to_string_pool (ucast index)),
       pr_members = members\<rparr> t))))))"

definition load_topology_line :: "config_line \<Rightarrow> topology \<Rightarrow> topology result" where
  "load_topology_line ln t =
     (if ln_kind ln = ''domain'' then load_domain ln t
      else if ln_kind ln = ''target'' then load_target ln t
      else if ln_kind ln = ''pool'' then load_pool ln t
      else Inl (unknown_kind ln))"

definition load_topology_text :: "string \<Rightarrow> parse_stats \<Rightarrow> topology result \<times> parse_stats" where
  "load_topology_text s stats = (case tokenize s of
     Inl e \<Rightarrow> (Inl e, stats)
   | Inr lns \<Rightarrow>
       (case load_lines load_topology_line lns empty_topology (no_parse_stats\<lparr>ps_lines := length lns\<rparr>) of
          (Inl e, stats) \<Rightarrow> (Inl e, stats)
        | (Inr t, stats) \<Rightarrow>
            (case validate_topology t of
               Inl e \<Rightarrow> (Inl (make_error (err_code e) (err_detail e)), stats)
             | Inr _ \<Rightarrow> (Inr t, stats))))"

definition kMaxSnapshotBytes :: nat where
  "kMaxSnapshotBytes = 64 * 1024 * 1024"

text \<open>\<open>content\<close> is what the file holds, nothing when it cannot be opened.\<close>

definition load_topology_file :: "string \<Rightarrow> string option \<Rightarrow> parse_stats \<Rightarrow> topology result \<times> parse_stats" where
  "load_topology_file path content stats = (case content of
     None \<Rightarrow> (Inl (make_error NotFound (''cannot open topology file: '' @ path)), stats)
   | Some s \<Rightarrow>
       if length s > kMaxSnapshotBytes then
         (Inl (make_error LimitExceeded ''topology file exceeds the accepted size''), stats)
       else load_topology_text s stats)"

section \<open>Printing\<close>

fun comma_list :: "('a \<Rightarrow> string) \<Rightarrow> 'a list \<Rightarrow> string" where
  "comma_list f [] = []"
| "comma_list f [x] = f x"
| "comma_list f (x # y # ys) = f x @ CHR '','' # comma_list f (y # ys)"

abbreviation bool_text :: "bool \<Rightarrow> string" where
  "bool_text b \<equiv> if b then ''true'' else ''false''"

definition render_domain :: "domain_id \<times> domain_record \<Rightarrow> string" where
  "render_domain e = ''domain kind='' @ to_string_domain_kind (d_kind (fst e)) @ '' id='' @ dec_word (d_index (fst e)) @
     '' name='' @ dr_name (snd e) @ '' correlated='' @ bool_text (dr_correlated (snd e)) @ [CHR 0x0A]"

definition render_target :: "target_id \<times> target_record \<Rightarrow> string" where
  "render_target e = ''target kind='' @ to_string_target_kind (t_kind (fst e)) @ '' id='' @ dec_word (t_index (fst e)) @
     '' name='' @ tr_name (snd e) @
     (case tr_parent (snd e) of None \<Rightarrow> [] | Some p \<Rightarrow> '' parent='' @ to_string_target p) @
     '' domains='' @ comma_list to_string_domain (tr_domains (snd e)) @
     '' capacity='' @ dec_word (tr_capacity_units (snd e)) @
     '' maintainable='' @ bool_text (tr_maintainable (snd e)) @ [CHR 0x0A]"

definition render_pool :: "pool_id \<times> pool_record \<Rightarrow> string" where
  "render_pool e = ''pool id='' @ dec_word (fst e) @ '' name='' @ pr_name (snd e) @ '' members='' @
     comma_list to_string_target (pr_members (snd e)) @ [CHR 0x0A]"

definition render_topology :: "topology \<Rightarrow> string" where
  "render_topology t =
     concat (map render_domain (tp_domains t)) @
     concat (map render_target (map (targets_at t) (containment_order t))) @
     concat (map render_pool (tp_pools t))"

end
