(* ===== verification/Config_Policy.thy ===== *)
theory Config_Policy
  imports Config_Topology
begin

text \<open>
  The policy as configuration text (\<^verbatim>\<open>src/config/text.cpp\<close>). A line adds a rule, a contract, a window, a
  tier or an evidence bound, or sets one of the settings; the settings are applied in the order of their
  keys once every line has been read. Printing writes every rule and every setting.
\<close>

section \<open>Loading\<close>

definition load_redundancy :: "config_line \<Rightarrow> policy \<Rightarrow> policy result" where
  "load_redundancy ln po =
     bind_result (require_known_keys ln [''pool'', ''min_viable'', ''tolerated_losses'', ''name'']) (\<lambda>_.
     bind_result (require_value ln ''pool'') (\<lambda>pool_text.
     bind_result (require_value ln ''min_viable'') (\<lambda>viable_text.
     bind_result (require_value ln ''tolerated_losses'') (\<lambda>losses_text.
     bind_result (parse_u32_value ln viable_text) (\<lambda>viable.
     bind_result (parse_u32_value ln losses_text) (\<lambda>losses.
     bind_result (need ln ''pool id is not valid'' (parse_u32 pool_text)) (\<lambda>p.
     Inr (po\<lparr>po_redundancy := po_redundancy po @ [\<lparr>rr_pool = ucast p, rr_min_viable = viable,
       rr_tolerated_losses = losses, rr_name = name_or ln ''redundancy''\<rparr>]\<rparr>))))))))"

definition load_headroom :: "config_line \<Rightarrow> policy \<Rightarrow> policy result" where
  "load_headroom ln po =
     bind_result (require_known_keys ln [''pool'', ''reserve'', ''name'']) (\<lambda>_.
     bind_result (require_value ln ''pool'') (\<lambda>pool_text.
     bind_result (require_value ln ''reserve'') (\<lambda>reserve_text.
     bind_result (parse_u32_value ln reserve_text) (\<lambda>reserve_units.
     bind_result (need ln ''pool id is not valid'' (parse_u32 pool_text)) (\<lambda>p.
     Inr (po\<lparr>po_headroom := po_headroom po @ [\<lparr>hr_pool = ucast p, hr_reserve_units = reserve_units,
       hr_name = name_or ln ''reserve''\<rparr>]\<rparr>))))))"

definition load_domain_limit :: "config_line \<Rightarrow> policy \<Rightarrow> policy result" where
  "load_domain_limit ln po =
     bind_result (require_known_keys ln [''domain'', ''max_out'', ''name'']) (\<lambda>_.
     bind_result (require_value ln ''domain'') (\<lambda>domain_text.
     bind_result (require_value ln ''max_out'') (\<lambda>max_text.
     bind_result (parse_u32_value ln max_text) (\<lambda>max_out.
     bind_result (need ln ''domain id is not valid'' (parse_domain_id domain_text)) (\<lambda>d.
     Inr (po\<lparr>po_domain_limits := po_domain_limits po @ [\<lparr>dl_domain = d, dl_max_out = max_out,
       dl_name = name_or ln ''domain-limit''\<rparr>]\<rparr>))))))"

definition load_contract :: "config_line \<Rightarrow> policy \<Rightarrow> policy result" where
  "load_contract ln po =
     bind_result (require_known_keys ln [''id'', ''name'', ''members'', ''min_available'', ''fresh_evidence'']) (\<lambda>_.
     bind_result (require_value ln ''id'') (\<lambda>id_text.
     bind_result (require_value ln ''members'') (\<lambda>members_text.
     bind_result (require_value ln ''min_available'') (\<lambda>min_text.
     bind_result (parse_target_list ln members_text) (\<lambda>members.
     bind_result (parse_u32_value ln min_text) (\<lambda>min_available.
     bind_result (need ln ''contract id is not valid'' (parse_u32 id_text)) (\<lambda>i.
     bind_result (optional_key ln ''fresh_evidence'' True (parse_bool ln)) (\<lambda>fresh_evidence.
     Inr (po\<lparr>po_contracts := po_contracts po @ [\<lparr>c_id = ucast i, c_name = name_or ln ''contract'', c_members = members,
       c_min_available = min_available, c_require_fresh_evidence = fresh_evidence\<rparr>]\<rparr>)))))))))"

definition duration_key :: "config_line \<Rightarrow> string \<Rightarrow> string \<Rightarrow> nanos result" where
  "duration_key ln key message = optional_key ln key 0 (\<lambda>v. need ln message (parse_duration_text v))"

definition load_window :: "nanos \<Rightarrow> config_line \<Rightarrow> policy \<Rightarrow> policy result" where
  "load_window reference ln po =
     bind_result (require_known_keys ln [''id'', ''name'', ''opens'', ''closes'', ''min_lead'', ''abort_grace'', ''on_close'', ''targets'']) (\<lambda>_.
     bind_result (require_value ln ''id'') (\<lambda>id_text.
     bind_result (require_value ln ''opens'') (\<lambda>opens_text.
     bind_result (require_value ln ''closes'') (\<lambda>closes_text.
     (case (parse_u32 id_text, parse_time opens_text reference, parse_time closes_text reference) of
        (Some i, Some opens, Some closes) \<Rightarrow>
          bind_result (duration_key ln ''min_lead'' ''min_lead is not a duration'') (\<lambda>lead.
          bind_result (duration_key ln ''abort_grace'' ''abort_grace is not a duration'') (\<lambda>grace.
          bind_result (optional_key ln ''on_close'' FinishActiveStep (\<lambda>v.
            need ln ''on_close is not a known policy'' (parse_on_window_close v))) (\<lambda>on_close.
          bind_result (optional_key ln ''targets'' [] (parse_target_list ln)) (\<lambda>targets.
          Inr (po\<lparr>po_windows := po_windows po @ [\<lparr>w_id = ucast i, w_name = name_or ln ''window'', w_opens_at = opens,
            w_closes_at = closes, w_min_lead_time = lead, w_abort_grace = grace, w_on_close = on_close,
            w_targets = targets\<rparr>]\<rparr>)))))
      | _ \<Rightarrow> Inl (line_error (ln_number ln) ''window id or time is not valid''))))))"

definition load_tier :: "config_line \<Rightarrow> policy \<Rightarrow> policy result" where
  "load_tier ln po =
     bind_result (require_known_keys ln [''index'', ''name'']) (\<lambda>_.
     bind_result (require_value ln ''index'') (\<lambda>index_text.
     bind_result (parse_u32_value ln index_text) (\<lambda>index.
     Inr (po\<lparr>po_tiers := po_tiers po @ [\<lparr>pt_index = index, pt_name = name_or ln ''tier''\<rparr>]\<rparr>))))"

definition load_evidence_ttl :: "config_line \<Rightarrow> policy \<Rightarrow> policy result" where
  "load_evidence_ttl ln po =
     bind_result (require_known_keys ln [''kind'', ''ttl'']) (\<lambda>_.
     bind_result (require_value ln ''kind'') (\<lambda>kind_text.
     bind_result (require_value ln ''ttl'') (\<lambda>ttl_text.
     (case (parse_evidence_kind kind_text, parse_duration_text ttl_text) of
        (Some kind, Some ttl) \<Rightarrow> Inr (po\<lparr>po_evidence_ttl := om_set kind ttl (po_evidence_ttl po)\<rparr>)
      | _ \<Rightarrow> Inl (line_error (ln_number ln) ''evidence_ttl kind or ttl is not valid'')))))"

type_synonym settings = "(string, string) omap"

definition load_setting :: "config_line \<Rightarrow> settings \<Rightarrow> settings result" where
  "load_setting ln settings =
     bind_result (require_known_keys ln [''key'', ''value'']) (\<lambda>_.
     bind_result (require_value ln ''key'') (\<lambda>key_text.
     bind_result (require_value ln ''value'') (\<lambda>value_text.
     Inr (om_set key_text value_text settings))))"

definition with_settings :: "settings \<Rightarrow> policy result \<Rightarrow> (policy \<times> settings) result" where
  "with_settings settings r = bind_result r (\<lambda>po. Inr (po, settings))"

definition load_policy_line :: "nanos \<Rightarrow> config_line \<Rightarrow> policy \<times> settings \<Rightarrow> (policy \<times> settings) result" where
  "load_policy_line reference ln ps =
     (let (po, settings) = ps in
      if ln_kind ln = ''redundancy'' then with_settings settings (load_redundancy ln po)
      else if ln_kind ln = ''headroom'' then with_settings settings (load_headroom ln po)
      else if ln_kind ln = ''domain_limit'' then with_settings settings (load_domain_limit ln po)
      else if ln_kind ln = ''contract'' then with_settings settings (load_contract ln po)
      else if ln_kind ln = ''window'' then with_settings settings (load_window reference ln po)
      else if ln_kind ln = ''tier'' then with_settings settings (load_tier ln po)
      else if ln_kind ln = ''evidence_ttl'' then with_settings settings (load_evidence_ttl ln po)
      else if ln_kind ln = ''setting'' then bind_result (load_setting ln settings) (\<lambda>settings. Inr (po, settings))
      else Inl (unknown_kind ln))"

definition u32_setting :: "string \<Rightarrow> string \<Rightarrow> u32 result" where
  "u32_setting key v = (case parse_u32 v of
     None \<Rightarrow> Inl (make_error InvalidArgument (key @ '' is not a number'')) | Some n \<Rightarrow> Inr n)"

definition duration_setting :: "string \<Rightarrow> string \<Rightarrow> nanos result" where
  "duration_setting key v = (case parse_duration_text v of
     None \<Rightarrow> Inl (make_error InvalidArgument (key @ '' is not a duration'')) | Some n \<Rightarrow> Inr n)"

definition window_setting :: "string \<Rightarrow> bool result" where
  "window_setting v =
     (if v = ''true'' \<or> v = ''1'' then Inr True
      else if v = ''false'' \<or> v = ''0'' then Inr False
      else Inl (make_error InvalidArgument ''require_window is not a boolean''))"

definition apply_setting :: "string \<times> string \<Rightarrow> policy \<Rightarrow> policy result" where
  "apply_setting e po =
     (let (key, v) = e in
      if key = ''min_evidence_sources'' then
        bind_result (u32_setting key v) (\<lambda>n. Inr (po\<lparr>po_min_evidence_sources := n\<rparr>))
      else if key = ''require_window'' then
        bind_result (window_setting v) (\<lambda>b. Inr (po\<lparr>po_require_window := b\<rparr>))
      else if key = ''max_precondition_age'' then
        bind_result (duration_setting key v) (\<lambda>n. Inr (po\<lparr>po_max_precondition_age := n\<rparr>))
      else if key = ''default_duration'' then
        bind_result (duration_setting key v) (\<lambda>n. Inr (po\<lparr>po_default_duration := n\<rparr>))
      else if key = ''max_concurrent_jobs'' then
        bind_result (u32_setting key v) (\<lambda>n. Inr (po\<lparr>po_max_concurrent_jobs := n\<rparr>))
      else if key = ''authority_lease'' then
        bind_result (duration_setting key v) (\<lambda>n. Inr (po\<lparr>po_authority_lease := n\<rparr>))
      else if key = ''drain_lease'' then
        bind_result (duration_setting key v) (\<lambda>n. Inr (po\<lparr>po_drain_lease := n\<rparr>))
      else if key = ''max_drain_failures'' then
        bind_result (u32_setting key v) (\<lambda>n. Inr (po\<lparr>po_max_drain_failures_before_block := n\<rparr>))
      else if key = ''max_verification_attempts'' then
        bind_result (u32_setting key v) (\<lambda>n. Inr (po\<lparr>po_max_verification_attempts := n\<rparr>))
      else if key = ''max_restoration_attempts'' then
        bind_result (u32_setting key v) (\<lambda>n. Inr (po\<lparr>po_max_restoration_attempts := n\<rparr>))
      else Inl (make_error InvalidArgument (''unknown setting '' @ quoted key)))"

fun apply_settings :: "(string \<times> string) list \<Rightarrow> policy \<Rightarrow> policy result" where
  "apply_settings [] po = Inr po"
| "apply_settings (e # es) po = bind_result (apply_setting e po) (apply_settings es)"

definition load_policy_text :: "string \<Rightarrow> nanos \<Rightarrow> parse_stats \<Rightarrow> policy result \<times> parse_stats" where
  "load_policy_text s reference stats = (case tokenize s of
     Inl e \<Rightarrow> (Inl e, stats)
   | Inr lns \<Rightarrow>
       (case load_lines (load_policy_line reference) lns (default_policy, []) (no_parse_stats\<lparr>ps_lines := length lns\<rparr>) of
          (Inl e, stats) \<Rightarrow> (Inl e, stats)
        | (Inr (po, settings), stats) \<Rightarrow>
            (bind_result (apply_settings settings po) (\<lambda>po.
               bind_result (validate_policy po) (\<lambda>_. Inr po)), stats)))"

definition load_policy_file :: "string \<Rightarrow> string option \<Rightarrow> nanos \<Rightarrow> parse_stats \<Rightarrow> policy result \<times> parse_stats" where
  "load_policy_file path content reference stats = (case content of
     None \<Rightarrow> (Inl (make_error NotFound (''cannot open policy file: '' @ path)), stats)
   | Some s \<Rightarrow>
       if length s > kMaxSnapshotBytes then
         (Inl (make_error LimitExceeded ''policy file exceeds the accepted size''), stats)
       else load_policy_text s reference stats)"

section \<open>Printing\<close>

definition render_ttl :: "evidence_kind \<times> nanos \<Rightarrow> string" where
  "render_ttl e = ''evidence_ttl kind='' @ to_string_evidence_kind (fst e) @ '' ttl='' @ dec_int (snd e) @ ''ns'' @ [CHR 0x0A]"

definition render_redundancy :: "redundancy_rule \<Rightarrow> string" where
  "render_redundancy r = ''redundancy pool='' @ dec_word (rr_pool r) @ '' min_viable='' @ dec_word (rr_min_viable r) @
     '' tolerated_losses='' @ dec_word (rr_tolerated_losses r) @ '' name='' @ rr_name r @ [CHR 0x0A]"

definition render_headroom :: "headroom_rule \<Rightarrow> string" where
  "render_headroom r = ''headroom pool='' @ dec_word (hr_pool r) @ '' reserve='' @ dec_word (hr_reserve_units r) @
     '' name='' @ hr_name r @ [CHR 0x0A]"

definition render_domain_limit :: "domain_limit_rule \<Rightarrow> string" where
  "render_domain_limit r = ''domain_limit domain='' @ to_string_domain (dl_domain r) @ '' max_out='' @ dec_word (dl_max_out r) @
     '' name='' @ dl_name r @ [CHR 0x0A]"

definition render_contract :: "contract \<Rightarrow> string" where
  "render_contract c = ''contract id='' @ dec_word (c_id c) @ '' name='' @ c_name c @ '' members='' @
     comma_list to_string_target (c_members c) @ '' min_available='' @ dec_word (c_min_available c) @ [CHR 0x0A]"

definition render_window :: "window \<Rightarrow> string" where
  "render_window w = ''window id='' @ dec_word (w_id w) @ '' name='' @ w_name w @ '' opens='' @ format_time (w_opens_at w) @
     '' closes='' @ format_time (w_closes_at w) @ '' min_lead='' @ dec_int (w_min_lead_time w) @ ''ns'' @
     '' abort_grace='' @ dec_int (w_abort_grace w) @ ''ns'' @ '' on_close='' @ to_string_on_close (w_on_close w) @
     (if w_targets w \<noteq> [] then '' targets='' @ comma_list to_string_target (w_targets w) else []) @ [CHR 0x0A]"

definition render_tier :: "priority_tier \<Rightarrow> string" where
  "render_tier t = ''tier index='' @ dec_word (pt_index t) @ '' name='' @ pt_name t @ [CHR 0x0A]"

definition render_setting :: "string \<times> string \<Rightarrow> string" where
  "render_setting e = ''setting key='' @ fst e @ '' value='' @ snd e @ [CHR 0x0A]"

definition policy_settings :: "policy \<Rightarrow> (string \<times> string) list" where
  "policy_settings po =
     [(''min_evidence_sources'', dec_word (po_min_evidence_sources po)),
      (''require_window'', bool_text (po_require_window po)),
      (''max_precondition_age'', dec_int (po_max_precondition_age po) @ ''ns''),
      (''default_duration'', dec_int (po_default_duration po) @ ''ns''),
      (''max_concurrent_jobs'', dec_word (po_max_concurrent_jobs po)),
      (''authority_lease'', dec_int (po_authority_lease po) @ ''ns''),
      (''drain_lease'', dec_int (po_drain_lease po) @ ''ns''),
      (''max_drain_failures'', dec_word (po_max_drain_failures_before_block po)),
      (''max_verification_attempts'', dec_word (po_max_verification_attempts po)),
      (''max_restoration_attempts'', dec_word (po_max_restoration_attempts po))]"

definition render_policy :: "policy \<Rightarrow> string" where
  "render_policy po =
     concat (map render_ttl (po_evidence_ttl po)) @ concat (map render_redundancy (po_redundancy po)) @
     concat (map render_headroom (po_headroom po)) @ concat (map render_domain_limit (po_domain_limits po)) @
     concat (map render_contract (po_contracts po)) @ concat (map render_window (po_windows po)) @
     concat (map render_tier (po_tiers po)) @ concat (map render_setting (policy_settings po))"

end
