(* ===== verification/Config_Lines.thy ===== *)
theory Config_Lines
  imports Config_Policy
begin

text \<open>
  Printed lines read back. A line specification is a kind and a list of keys with their values; as long as
  every part can be written as one token, printing such lines and tokenizing the text gives the
  specifications back, numbered from one. The values of the printers are read back by the parsers.
\<close>

section \<open>Plain words\<close>

text \<open>What can be written as one token: not empty, no white space and no comment sign.\<close>

definition plain_word :: "string \<Rightarrow> bool" where
  "plain_word s \<longleftrightarrow> s \<noteq> [] \<and> (\<forall>c \<in> set s. \<not> stream_space c \<and> c \<noteq> CHR ''#'')"

lemma plain_append: "plain_word s \<Longrightarrow> plain_word u \<Longrightarrow> plain_word (s @ u)"
  by (auto simp: plain_word_def)

lemma plain_Cons: "plain_word (c # s) \<longleftrightarrow> \<not> stream_space c \<and> c \<noteq> CHR ''#'' \<and> (s = [] \<or> plain_word s)"
  by (auto simp: plain_word_def)

lemma is_blank_space: "is_blank c \<Longrightarrow> stream_space c"
  by (auto simp: is_blank_def stream_space_def)

lemma digit_plain: "is_digit c \<Longrightarrow> \<not> stream_space c \<and> c \<noteq> CHR ''#''"
  by (auto simp: is_digit_def stream_space_def)

lemma plain_digits: "list_all is_digit s \<Longrightarrow> s \<noteq> [] \<Longrightarrow> plain_word s"
  using digit_plain by (auto simp: plain_word_def list_all_iff)

lemma plain_dec [simp]: "plain_word (dec_string n)"
  by (rule plain_digits) (simp_all add: dec_string_digits)

lemma plain_pad: "0 \<le> n \<Longrightarrow> n < 10 ^ w \<Longrightarrow> 0 < w \<Longrightarrow> plain_word (pad_dec w n)"
  by (rule plain_digits) (use pad_dec_digits [of n w] in auto)

section \<open>Lines\<close>

type_synonym line_spec = "string \<times> (string \<times> string) list"

definition token_text :: "string \<times> string \<Rightarrow> string" where
  "token_text kv = fst kv @ CHR ''='' # snd kv"

definition line_text :: "line_spec \<Rightarrow> string" where
  "line_text l = fst l @ concat (map (\<lambda>kv. CHR '' '' # token_text kv) (snd l))"

definition spec_line :: "nat \<Rightarrow> line_spec \<Rightarrow> config_line" where
  "spec_line n l = \<lparr>ln_number = n, ln_kind = fst l, ln_tokens = map (\<lambda>kv. \<lparr>tk_key = fst kv, tk_value = snd kv\<rparr>) (snd l)\<rparr>"

fun numbered :: "nat \<Rightarrow> line_spec list \<Rightarrow> config_line list" where
  "numbered n [] = []"
| "numbered n (l # ls) = spec_line n l # numbered (Suc n) ls"

definition spec_ok :: "line_spec \<Rightarrow> bool" where
  "spec_ok l \<longleftrightarrow> plain_word (fst l) \<and> distinct (map fst (snd l)) \<and> length (snd l) \<le> 64 \<and>
     list_all (\<lambda>kv. plain_word (fst kv) \<and> CHR ''='' \<notin> set (fst kv) \<and> plain_word (snd kv)) (snd l)"

lemma line_find_spec [simp]: "line_find (spec_line n l) key = map_of (snd l) key"
proof -
  have "map_option tk_value (find (\<lambda>t. tk_key t = key) (map (\<lambda>kv. \<lparr>tk_key = fst kv, tk_value = snd kv\<rparr>) kvs)) = map_of kvs key"
    for kvs by (induction kvs) auto
  then show ?thesis by (simp add: line_find_def spec_line_def)
qed

lemma spec_line_fields [simp]: "ln_kind (spec_line n l) = fst l" "ln_number (spec_line n l) = n"
  by (simp_all add: spec_line_def)

lemma words_append:
  assumes "plain_word w" "rest = [] \<or> stream_space (hd rest)"
  shows "stream_words (w @ rest) = w # stream_words rest"
proof -
  obtain c cs where w: "w = c # cs" using assms(1) by (cases w) (auto simp: plain_word_def)
  have no_space: "\<not> stream_space c" "\<forall>d \<in> set cs. \<not> stream_space d" using assms(1) by (auto simp: w plain_word_def)
  have "takeWhile (\<lambda>d. \<not> stream_space d) (cs @ rest) = cs" "dropWhile (\<lambda>d. \<not> stream_space d) (cs @ rest) = rest"
    using no_space(2) assms(2) by (cases rest; simp)+
  then show ?thesis using no_space(1) by (simp add: w)
qed

lemma token_plain: "plain_word (fst kv) \<Longrightarrow> plain_word (snd kv) \<Longrightarrow> plain_word (token_text kv)"
  by (auto simp: token_text_def plain_word_def stream_space_def)

lemma words_tokens:
  assumes "list_all (\<lambda>kv. plain_word (fst kv) \<and> CHR ''='' \<notin> set (fst kv) \<and> plain_word (snd kv)) kvs"
  shows "stream_words (concat (map (\<lambda>kv. CHR '' '' # token_text kv) kvs)) = map token_text kvs"
  using assms
proof (induction kvs)
  case (Cons kv kvs)
  let ?rest = "concat (map (\<lambda>kv. CHR '' '' # token_text kv) kvs)"
  have "?rest = [] \<or> stream_space (hd ?rest)" by (cases kvs) (simp_all add: stream_space_def)
  from words_append [OF token_plain this] Cons show ?case by (simp add: stream_space_def)
qed simp

lemma words_line:
  assumes "spec_ok l"
  shows "stream_words (line_text l) = fst l # map token_text (snd l)"
proof -
  let ?rest = "concat (map (\<lambda>kv. CHR '' '' # token_text kv) (snd l))"
  have "?rest = [] \<or> stream_space (hd ?rest)" by (cases "snd l") (simp_all add: stream_space_def)
  from words_append [OF _ this, of "fst l"] assms words_tokens [of "snd l"] show ?thesis
    by (simp add: line_text_def spec_ok_def)
qed

lemma tokens_read:
  assumes "list_all (\<lambda>kv. plain_word (fst kv) \<and> CHR ''='' \<notin> set (fst kv) \<and> plain_word (snd kv)) kvs"
    and "distinct (map fst (pre @ kvs))"
  shows "read_tokens (spec_line n (kind, pre)) (map token_text kvs) = Inr (spec_line n (kind, pre @ kvs))"
  using assms
proof (induction kvs arbitrary: pre)
  case (Cons kv kvs)
  obtain k v where kv: "kv = (k, v)" by fastforce
  have k: "CHR ''='' \<notin> set k" "k \<noteq> []" "v \<noteq> []" using Cons.prems(1) by (auto simp: kv plain_word_def)
  have cut: "takeWhile (\<lambda>c. c \<noteq> CHR ''='') (token_text kv) = k" "drop (length k + 1) (token_text kv) = v"
    using k(1) by (simp_all add: token_text_def kv takeWhile_sep)
  have "map_of pre k = None" using Cons.prems(2) by (auto simp: kv map_of_eq_None_iff)
  then have "read_tokens (spec_line n (kind, pre)) (map token_text (kv # kvs)) =
      read_tokens (spec_line n (kind, pre @ [kv])) (map token_text kvs)"
    using k cut by (simp add: Let_def) (simp add: spec_line_def kv token_text_def)
  with Cons.IH [of "pre @ [kv]"] Cons.prems show ?case by simp
qed simp

lemma line_read:
  assumes "spec_ok l"
  shows "read_line n (line_text l) = Inr (spec_line n l)"
proof -
  obtain kind kvs where l: "l = (kind, kvs)" by fastforce
  have "read_tokens (spec_line n (kind, [])) (map token_text kvs) = Inr (spec_line n (kind, kvs))"
    using tokens_read [of kvs "[]" n kind] assms by (simp add: spec_ok_def l)
  then show ?thesis using assms words_line [OF assms]
    by (simp add: read_line_def l spec_ok_def) (simp add: spec_line_def)
qed

text \<open>A printed line has no comment, no line end and nothing to trim.\<close>

lemma trim_id:
  assumes "s \<noteq> []" "\<not> is_blank (hd s)" "\<not> is_blank (last s)"
  shows "trim s = s"
proof -
  have "dropWhile is_blank s = s" using assms(1,2) by (cases s) auto
  moreover have "dropWhile is_blank (rev s) = rev s" using assms(1,3) by (cases "rev s") (auto simp: last_rev [symmetric])
  ultimately show ?thesis by (simp add: trim_def)
qed

lemma plain_without: "plain_word s \<Longrightarrow> c = CHR ''#'' \<or> stream_space c \<Longrightarrow> c \<notin> set s"
  by (auto simp: plain_word_def)

lemma line_without:
  assumes "spec_ok l" "c = CHR ''#'' \<or> stream_space c" "c \<noteq> CHR '' ''" "c \<noteq> CHR ''=''"
  shows "c \<notin> set (line_text l)"
proof -
  have "c \<notin> set (fst l)" "\<forall>kv \<in> set (snd l). c \<notin> set (fst kv) \<and> c \<notin> set (snd kv)"
    using assms(1) plain_without [OF _ assms(2)] by (auto simp: spec_ok_def list_all_iff)
  with assms(3,4) show ?thesis by (simp add: line_text_def token_text_def)
qed

lemma line_chars:
  assumes "spec_ok l"
  shows "CHR ''#'' \<notin> set (line_text l)" "CHR 0x0A \<notin> set (line_text l)"
  by (rule line_without [OF assms]; simp add: stream_space_def)+

lemma line_ends:
  assumes "spec_ok l"
  shows "line_text l \<noteq> []" "\<not> stream_space (hd (line_text l))" "\<not> stream_space (last (line_text l))"
proof -
  have kind: "plain_word (fst l)" using assms by (simp add: spec_ok_def)
  then show "line_text l \<noteq> []" "\<not> stream_space (hd (line_text l))"
    by (cases "fst l"; simp add: line_text_def plain_word_def)+
  show "\<not> stream_space (last (line_text l))"
  proof (cases "snd l" rule: rev_cases)
    case Nil
    then show ?thesis using kind by (simp add: line_text_def plain_word_def)
  next
    case (snoc kvs kv)
    then have "plain_word (snd kv)" using assms by (simp add: spec_ok_def)
    then show ?thesis by (simp add: line_text_def snoc token_text_def plain_word_def)
  qed
qed

lemma line_body_text:
  assumes "spec_ok l"
  shows "line_body (line_text l) = line_text l"
proof -
  have "trim (line_text l) = line_text l"
    by (rule trim_id) (use line_ends [OF assms] is_blank_space in blast)+
  with line_chars(1) [OF assms] show ?thesis by (simp add: line_body_def)
qed

lemma line_body_empty [simp]: "line_body [] = []"
  by (simp add: line_body_def trim_def)

lemma split_line: "c \<notin> set s \<Longrightarrow> split_on c (s @ c # rest) = s # split_on c rest"
  by (induction s) auto

lemma split_last: "c \<notin> set s \<Longrightarrow> split_on c s = [s]"
  by (induction s) auto

lemma tokenize_text:
  assumes "list_all spec_ok ls"
  shows "tokenize (concat (map (\<lambda>l. line_text l @ [CHR 0x0A]) ls)) = Inr (numbered 1 ls)"
proof -
  have "split_on (CHR 0x0A) (concat (map (\<lambda>l. line_text l @ [CHR 0x0A]) ls)) = map line_text ls @ [[]]"
    using assms by (induction ls) (simp_all add: split_line line_chars)
  moreover have "tokenize_lines n (map line_text ls @ [[]]) = Inr (numbered n ls)" for n
    using assms by (induction ls arbitrary: n) (simp_all add: line_body_text line_ends line_read)
  ultimately show ?thesis by (simp add: tokenize_def)
qed

section \<open>Loading printed lines\<close>

lemma numbered_append: "numbered n (ls @ ms) = numbered n ls @ numbered (n + length ls) ms"
  by (induction ls arbitrary: n) simp_all

lemma numbered_length [simp]: "length (numbered n ls) = length ls"
  by (induction ls arbitrary: n) simp_all

lemma load_append:
  "load_lines load (ls @ ms) s stats = (case load_lines load ls s stats of
     (Inl e, stats) \<Rightarrow> (Inl e, stats) | (Inr s, stats) \<Rightarrow> load_lines load ms s stats)"
  by (induction ls arbitrary: s stats) (simp_all split: sum.split)

definition counted_records :: "nat \<Rightarrow> parse_stats \<Rightarrow> parse_stats" where
  "counted_records n stats = stats\<lparr>ps_records := ps_records stats + n\<rparr>"

lemma counted_records_add: "counted_records m (counted_records n stats) = counted_records (n + m) stats"
  by (simp add: counted_records_def)

lemma load_each:
  assumes "\<And>x n s. x \<in> set xs \<Longrightarrow> load (spec_line n (spec x)) s = Inr (g x s)"
  shows "load_lines load (numbered n (map spec xs)) s stats = (Inr (fold g xs s), counted_records (length xs) stats)"
  using assms by (induction xs arbitrary: n s stats) (simp_all add: counted_records_def)

end
