(* ===== verification/Config_Round_Trip.thy ===== *)
theory Config_Round_Trip
  imports Config_Lines
begin

text \<open>
  Printing configuration text and loading it again. Every kind of line is a line specification, whose
  values the parsers of the loader read back; a printed topology loads as the same declarations and a
  printed policy loads as the policy, provided every name can be written as one token and every pool,
  contract and window identity fits the 32 bits the loader reads.
\<close>

section \<open>Values\<close>

lemma plain_chars:
  assumes "list_all (\<lambda>c. \<not> stream_space c \<and> c \<noteq> CHR ''#'') s" "s \<noteq> []"
  shows "plain_word s"
  using assms by (simp add: plain_word_def list_all_iff)

text \<open>Words that can stand in a comma separated list.\<close>

definition item :: "string \<Rightarrow> bool" where
  "item s \<longleftrightarrow> plain_word s \<and> CHR '','' \<notin> set s"

lemma kind_items:
  shows "item (to_string_target_kind k)" and "item (to_string_domain_kind d)"
    and "item (to_string_evidence_kind e)" and "item (to_string_on_close c)"
proof -
  note word_defs = item_def plain_word_def stream_space_def name_of_def
  show "item (to_string_target_kind k)"
    by (cases k) (simp_all add: word_defs to_string_target_kind_def kTargetKindNames_def)
  show "item (to_string_domain_kind d)"
    by (cases d) (simp_all add: word_defs to_string_domain_kind_def kDomainKindNames_def)
  show "item (to_string_evidence_kind e)"
    by (cases e) (simp_all add: word_defs to_string_evidence_kind_def kKindNames_def)
  show "item (to_string_on_close c)"
    by (cases c) (simp_all add: word_defs to_string_on_close_def)
qed

lemma dec_item: "item (dec_string n)"
  using dec_string_digits [of n] by (auto simp: item_def list_all_iff is_digit_def)

lemma item_pair: "item s \<Longrightarrow> item u \<Longrightarrow> item (s @ CHR '':'' # u)"
  by (auto simp: item_def plain_word_def stream_space_def)

lemma target_item: "item (to_string_target t)" and domain_item: "item (to_string_domain d)"
  by (simp_all add: to_string_target_def to_string_domain_def item_pair kind_items dec_item)

lemma split_comma_list: "xs \<noteq> [] \<Longrightarrow> \<forall>x \<in> set xs. item (f x) \<Longrightarrow> split_on CHR '','' (comma_list f xs) = map f xs"
  by (induction f xs rule: comma_list.induct) (simp_all add: split_line split_last item_def)

lemma plain_comma_list: "xs \<noteq> [] \<Longrightarrow> \<forall>x \<in> set xs. item (f x) \<Longrightarrow> plain_word (comma_list f xs)"
proof (induction f xs rule: comma_list.induct)
  case (3 f x y ys)
  then have "plain_word (f x)" "plain_word (comma_list f (y # ys))" by (simp_all add: item_def)
  then have "plain_word (f x @ CHR '','' # comma_list f (y # ys))" by (auto simp: plain_word_def stream_space_def)
  then show ?case by simp
qed (simp_all add: item_def)

lemma pieces_back:
  "\<forall>x \<in> set xs. item (f x) \<and> parse (f x) = Some x \<Longrightarrow> parse_pieces what parse ln (map f xs) = Inr xs"
  by (induction xs) (auto simp: item_def plain_word_def)

lemma target_list_read:
  assumes "list_all target_valid xs" "xs \<noteq> []"
  shows "parse_target_list ln (comma_list to_string_target xs) = Inr xs"
proof -
  have "parse_pieces ''target'' parse_target_id ln (map to_string_target xs) = Inr xs"
    using assms(1) by (intro pieces_back) (simp add: target_item parse_to_string_target list_all_iff)
  then show ?thesis using assms(2) by (simp add: parse_target_list_def split_comma_list target_item)
qed

lemma domain_list_read:
  assumes "list_all domain_valid xs" "xs \<noteq> []"
  shows "parse_domain_list ln (comma_list to_string_domain xs) = Inr xs"
proof -
  have "parse_pieces ''domain'' parse_domain_id ln (map to_string_domain xs) = Inr xs"
    using assms(1) by (intro pieces_back) (simp add: domain_item parse_to_string_domain list_all_iff)
  then show ?thesis using assms(2) by (simp add: parse_domain_list_def split_comma_list domain_item)
qed

lemma bool_read: "parse_bool ln (bool_text b) = Inr b"
  by (simp add: parse_bool_def)

lemma bool_plain: "plain_word (bool_text b)"
  by (simp add: plain_word_def stream_space_def)

text \<open>An identity of 64 bits that fits 32 is read back.\<close>

lemma id_read:
  assumes "v < 2 ^ 32"
  shows "parse_u32 (dec_word (v :: u64)) = Some (ucast v)" "ucast (ucast v :: u32) = v"
proof -
  have small: "unat v < 2 ^ 32" using assms by (simp add: word_less_nat_alt)
  then have narrow: "unat (ucast v :: u32) = unat v" by (simp add: unsigned_ucast_eq take_bit_nat_eq_self)
  have "unat (ucast (ucast v :: u32) :: u64) = unat v" using small by (simp add: unsigned_ucast_eq unsigned_take_bit_eq take_bit_nat_eq_self)
  then show "ucast (ucast v :: u32) = v" by (simp only: word_unat_eq_iff)
  from narrow show "parse_u32 (dec_word v) = Some (ucast v)" using parse_u32_dec_word [of "ucast v"] by simp
qed

lemma duration_read:
  assumes "0 \<le> d" "d < 2 ^ 63"
  shows "parse_duration_text (dec_int d @ ''ns'') = Some d"
proof -
  have printed: "dec_int d = dec_string (nat d)" using assms(1) by (simp add: dec_int_def)
  have digits: "\<forall>c \<in> set (dec_string (nat d)). is_digit c" using dec_string_digits by (simp add: list_all_iff)
  have "parse_u64 (dec_string (nat d)) = Some (of_nat (nat d))"
    using assms by (intro parse_dec_string) (simp add: nat_less_iff)
  then have "magnitude_and_unit (dec_int d @ ''ns'') = Some (of_nat (nat d), ''ns'')"
    using digits by (simp add: magnitude_and_unit_def printed takeWhile_append dropWhile_append is_digit_def)
  moreover have "narrow_i64 (of_nat (nat d)) = Some d"
    using assms by (simp add: narrow_i64_def narrow_def unsigned_of_int take_bit_int_eq_self)
  moreover have "checked_mul_signed 64 d 1 = Some d"
    using assms by (simp add: checked_mul_signed_exact smin_def smax_def)
  ultimately show ?thesis by (simp add: parse_duration_text_def duration_scale_def)
qed

lemma duration_plain: "0 \<le> d \<Longrightarrow> plain_word (dec_int d @ ''ns'')"
  by (rule plain_append) (simp_all add: dec_int_def plain_word_def [of "''ns''"] stream_space_def)

section \<open>The topology\<close>

definition domain_spec :: "domain_record \<Rightarrow> line_spec" where
  "domain_spec d = (''domain'', [(''kind'', to_string_domain_kind (d_kind (dr_id d))), (''id'', dec_word (d_index (dr_id d))),
     (''name'', dr_name d), (''correlated'', bool_text (dr_correlated d))])"

definition target_spec :: "target_record \<Rightarrow> line_spec" where
  "target_spec r = (''target'', [(''kind'', to_string_target_kind (t_kind (tr_id r))), (''id'', dec_word (t_index (tr_id r))),
     (''name'', tr_name r)] @ (case tr_parent r of None \<Rightarrow> [] | Some p \<Rightarrow> [(''parent'', to_string_target p)]) @
     [(''domains'', comma_list to_string_domain (tr_domains r)), (''capacity'', dec_word (tr_capacity_units r)),
      (''maintainable'', bool_text (tr_maintainable r))])"

definition pool_spec :: "pool_record \<Rightarrow> line_spec" where
  "pool_spec p = (''pool'', [(''id'', dec_word (pr_id p)), (''name'', pr_name p),
     (''members'', comma_list to_string_target (pr_members p))])"

lemma topology_lines:
  "dr_id d = i \<Longrightarrow> render_domain (i, d) = line_text (domain_spec d) @ [CHR 0x0A]"
  "tr_id r = j \<Longrightarrow> render_target (j, r) = line_text (target_spec r) @ [CHR 0x0A]"
  "pr_id p = k \<Longrightarrow> render_pool (k, p) = line_text (pool_spec p) @ [CHR 0x0A]"
  by (auto simp: render_domain_def render_target_def render_pool_def domain_spec_def target_spec_def pool_spec_def
      line_text_def token_text_def split: option.split)

lemma known_keys:
  "(\<forall>kv \<in> set (snd l). fst kv \<in> set allowed) \<Longrightarrow> require_known_keys (spec_line n l) allowed = ok_status"
  by (auto simp: require_known_keys_def spec_line_def find_None_iff split: option.split)

lemma require_value_spec: "map_of (snd l) key = Some v \<Longrightarrow> require_value (spec_line n l) key = Inr v"
  by (simp add: require_value_def)

lemmas load_steps = require_value_spec need_def optional_key_def name_or_def bind_result_def parse_u32_value_def known_keys

lemma domain_loads:
  assumes "domain_valid (dr_id d)"
  shows "load_topology_line (spec_line n (domain_spec d)) t = at_line (spec_line n (domain_spec d)) (add_domain d t)"
proof -
  obtain kind index name corr where d: "d = \<lparr>dr_id = DomainId kind index, dr_name = name, dr_correlated = corr\<rparr>"
    by (cases d; cases "dr_id d") auto
  show ?thesis
    using assms by (simp add: d load_topology_line_def load_domain_def domain_spec_def load_steps domain_valid_def parse_bool_def)
qed

lemma target_loads:
  assumes "target_valid (tr_id r)" "list_all domain_valid (tr_domains r)" "tr_domains r \<noteq> []"
    "\<forall>p. tr_parent r = Some p \<longrightarrow> target_valid p"
  shows "load_topology_line (spec_line n (target_spec r)) t = at_line (spec_line n (target_spec r)) (add_target r t)"
proof -
  obtain kind index name parent doms cap m where r: "r = \<lparr>tr_id = TargetId kind index, tr_name = name, tr_parent = parent,
      tr_domains = doms, tr_capacity_units = cap, tr_maintainable = m\<rparr>"
    by (cases r; cases "tr_id r") auto
  show ?thesis
    using assms by (cases parent) (simp_all add: r load_topology_line_def load_target_def target_spec_def load_steps
      target_valid_def parse_bool_def domain_list_read parse_to_string_target)
qed

lemma pool_loads:
  assumes "pr_id p < 2 ^ 32" "list_all target_valid (pr_members p)" "pr_members p \<noteq> []"
  shows "load_topology_line (spec_line n (pool_spec p)) t = at_line (spec_line n (pool_spec p)) (add_pool p t)"
proof -
  obtain i name members where p: "p = \<lparr>pr_id = i, pr_name = name, pr_members = members\<rparr>" by (cases p) auto
  show ?thesis
    using assms by (simp add: p load_topology_line_def load_pool_def pool_spec_def load_steps id_read target_list_read)
qed

lemma load_declared:
  assumes "\<And>x n t. x \<in> set xs \<Longrightarrow> load (spec_line n (spec x)) t = at_line (spec_line n (spec x)) (add x t)"
    and "declare_all add xs t = Inr t'"
  shows "load_lines load (numbered n (map spec xs)) t stats = (Inr t', counted_records (length xs) stats)"
  using assms
proof (induction xs arbitrary: n t stats)
  case (Cons x xs)
  obtain t1 where t1: "add x t = Inr t1" "declare_all add xs t1 = Inr t'"
    using Cons.prems(2) by (auto split: sum.splits)
  then show ?case using Cons.IH [OF Cons.prems(1) t1(2)] Cons.prems(1) by (simp add: at_line_def counted_records_def)
qed (simp add: counted_records_def)

text \<open>What a topology needs so that its names and identities survive the text.\<close>

definition topology_text_fits :: "topology \<Rightarrow> bool" where
  "topology_text_fits t \<longleftrightarrow> topology_fits t \<and>
     (\<forall>e \<in> set (tp_domains t). plain_word (dr_name (snd e))) \<and> (\<forall>e \<in> set (tp_targets t). plain_word (tr_name (snd e)) \<and> tr_domains (snd e) \<noteq> []) \<and>
     (\<forall>e \<in> set (tp_pools t). plain_word (pr_name (snd e)) \<and> fst e < 2 ^ 32)"

lemma plain_items [simp]:
  "plain_word (to_string_target_kind k)" "plain_word (to_string_domain_kind d)" "plain_word (to_string_target t)" "plain_word (to_string_domain e)"
  "plain_word (to_string_evidence_kind ev)" "plain_word (to_string_on_close c)" "plain_word (bool_text b)"
  using kind_items target_item domain_item bool_plain unfolding item_def by blast+

lemma plain_name: "list_all (\<lambda>c. \<not> stream_space c \<and> c \<noteq> CHR ''#'') (c # s) \<Longrightarrow> plain_word (c # s)"
  by (rule plain_chars) simp_all

lemma spec_oks:
  "plain_word (dr_name d) \<Longrightarrow> spec_ok (domain_spec d)"
  "plain_word (tr_name r) \<Longrightarrow> tr_domains r \<noteq> [] \<Longrightarrow> spec_ok (target_spec r)"
  "plain_word (pr_name p) \<Longrightarrow> pr_members p \<noteq> [] \<Longrightarrow> spec_ok (pool_spec p)"
  by (simp_all add: spec_ok_def domain_spec_def target_spec_def pool_spec_def plain_comma_list target_item domain_item
      plain_name stream_space_def split: option.split)

definition topology_specs :: "topology \<Rightarrow> line_spec list" where
  "topology_specs t = map domain_spec (map snd (tp_domains t)) @ map target_spec (ordered_records t) @
     map pool_spec (map snd (tp_pools t))"

lemma topology_printed:
  assumes "topology_text_fits t"
  shows "render_topology t = concat (map (\<lambda>l. line_text l @ [CHR 0x0A]) (topology_specs t))"
proof -
  have fits: "topology_fits t" and wf: "topo_wf t" using assms by (simp_all add: topology_text_fits_def topology_fits_def)
  have "concat (map render_domain (tp_domains t)) = concat (map (\<lambda>e. line_text (domain_spec (snd e)) @ [CHR 0x0A]) (tp_domains t))"
    using fits by (intro arg_cong [where f = concat] map_cong refl) (auto simp: topology_fits_def topology_lines)
  moreover have "concat (map render_pool (tp_pools t)) = concat (map (\<lambda>e. line_text (pool_spec (snd e)) @ [CHR 0x0A]) (tp_pools t))"
    using table_entries(2) [OF wf] by (intro arg_cong [where f = concat] map_cong refl) (auto simp: pool_entry_ok_def topology_lines)
  ultimately show ?thesis
    unfolding render_topology_def topology_specs_def ordered_records_facts(5) [OF wf] by (simp add: comp_def topology_lines)
qed

lemma records_of_text:
  assumes "topology_text_fits t" "r \<in> set (ordered_records t)"
  shows "plain_word (tr_name r)" "target_valid (tr_id r)" "list_all domain_valid (tr_domains r)" "tr_domains r \<noteq> []"
    "\<forall>p. tr_parent r = Some p \<longrightarrow> target_valid p"
proof -
  have fits: "topology_fits t" and wf: "topo_wf t" using assms by (simp_all add: topology_text_fits_def topology_fits_def)
  obtain e where e: "e \<in> set (tp_targets t)" "r = snd e" using ordered_records_facts(2) [OF wf] assms(2) by auto
  show "plain_word (tr_name r)" "tr_domains r \<noteq> []" using assms(1) e by (simp_all add: topology_text_fits_def)
  show "list_all domain_valid (tr_domains r)" using records_fit [OF fits assms(2)] by (simp add: list_all_iff)
  show "target_valid (tr_id r)"
    using records_fit [OF fits assms(2)] by (auto simp: validate_target_record_def split: if_splits)
  have "target_valid i" if "target t i = Some q" for i q
    using table_entries(1) [OF wf table_entries(3) [OF wf that]]
    by (auto simp: target_entry_ok_def validate_target_record_def split: if_splits)
  then show "\<forall>p. tr_parent r = Some p \<longrightarrow> target_valid p"
    using table_entries(1) [OF wf e(1)] by (auto simp: e(2) target_entry_ok_def check_parent_def split: if_splits)
qed

lemma pools_of_text:
  assumes "topology_text_fits t" "p \<in> set (map snd (tp_pools t))"
  shows "plain_word (pr_name p)" "pr_id p < 2 ^ 32" "list_all target_valid (pr_members p)" "pr_members p \<noteq> []"
proof -
  have fits: "topology_fits t" and wf: "topo_wf t" using assms by (simp_all add: topology_text_fits_def topology_fits_def)
  obtain e where e: "e \<in> set (tp_pools t)" "p = snd e" using assms(2) by auto
  show "plain_word (pr_name p)" "pr_id p < 2 ^ 32"
    using assms(1) e table_entries(2) [OF wf e(1)] by (auto simp: topology_text_fits_def pool_entry_ok_def)
  show "list_all target_valid (pr_members p)" "pr_members p \<noteq> []"
    using members_valid [OF fits assms(2)] pools_fit [OF fits assms(2)] by simp_all
qed

lemma domains_of_text:
  assumes "topology_text_fits t" "d \<in> set (map snd (tp_domains t))"
  shows "plain_word (dr_name d)" "domain_valid (dr_id d)"
  using assms by (auto simp: topology_text_fits_def topology_fits_def)

lemma topology_specs_ok: "topology_text_fits t \<Longrightarrow> list_all spec_ok (topology_specs t)"
  using domains_of_text records_of_text pools_of_text
  by (simp add: topology_specs_def list_all_iff spec_oks image_Un ball_Un)

lemma topology_loaded:
  assumes "topology_text_fits t"
  shows "\<exists>t'. load_topology_text (render_topology t) stats =
    (Inr t', \<lparr>ps_lines = length (topology_specs t), ps_records = length (topology_specs t)\<rparr>) \<and> topo_wf t' \<and> same_declared t t'"
proof -
  have fits: "topology_fits t" and valid: "validate_topology t = ok_status"
    using assms by (simp_all add: topology_text_fits_def topology_fits_def)
  obtain t1 t2 t3 where rebuilt: "declare_all add_domain (map snd (tp_domains t)) empty_topology = Inr t1"
      "declare_all add_target (ordered_records t) t1 = Inr t2" "declare_all add_pool (map snd (tp_pools t)) t2 = Inr t3"
      "topo_wf t3" "same_declared t t3"
    using topology_rebuilt [OF fits] by blast
  have d: "load_lines load_topology_line (numbered n (map domain_spec (map snd (tp_domains t)))) empty_topology stats =
      (Inr t1, counted_records (length (map snd (tp_domains t))) stats)" for n stats
    by (rule load_declared [OF domain_loads rebuilt(1)]) (rule domains_of_text(2) [OF assms])
  have r: "load_lines load_topology_line (numbered n (map target_spec (ordered_records t))) t1 stats =
      (Inr t2, counted_records (length (ordered_records t)) stats)" for n stats
    by (rule load_declared [OF target_loads rebuilt(2)]) (simp_all add: records_of_text [OF assms])
  have p: "load_lines load_topology_line (numbered n (map pool_spec (map snd (tp_pools t)))) t2 stats =
      (Inr t3, counted_records (length (map snd (tp_pools t))) stats)" for n stats
    by (rule load_declared [OF pool_loads rebuilt(3)]) (use pools_of_text [OF assms] in simp_all)
  have "load_lines load_topology_line (numbered 1 (topology_specs t)) empty_topology stats =
      (Inr t3, counted_records (length (topology_specs t)) stats)" for stats
    unfolding topology_specs_def numbered_append load_append d r p prod.case sum.case counted_records_add
    by (simp add: add.assoc)
  moreover have "tokenize (render_topology t) = Inr (numbered 1 (topology_specs t))"
    unfolding topology_printed [OF assms] by (rule tokenize_text [OF topology_specs_ok [OF assms]])
  moreover have "validate_topology t3 = ok_status" using validate_same_declared [OF rebuilt(5)] valid by simp
  ultimately show ?thesis using rebuilt(4,5)
    by (simp add: load_topology_text_def no_parse_stats_def counted_records_def)
qed

end
