(* ===== verification/Config_Policy_Round_Trip.thy ===== *)
theory Config_Policy_Round_Trip
  imports Config_Round_Trip Policy_Codec
begin

text \<open>
  A printed policy loads as itself. The lines of every rule are read back one by one; the settings, printed
  in the order of the source, are applied in the order of their keys. The printed text does not carry the
  revision, nor whether a contract asks for fresh evidence: both have to have their default.
\<close>

section \<open>Lines\<close>

definition ttl_spec :: "evidence_kind \<times> nanos \<Rightarrow> line_spec" where
  "ttl_spec e = (''evidence_ttl'', [(''kind'', to_string_evidence_kind (fst e)), (''ttl'', dec_int (snd e) @ ''ns'')])"

definition redundancy_spec :: "redundancy_rule \<Rightarrow> line_spec" where
  "redundancy_spec r = (''redundancy'', [(''pool'', dec_word (rr_pool r)), (''min_viable'', dec_word (rr_min_viable r)),
     (''tolerated_losses'', dec_word (rr_tolerated_losses r)), (''name'', rr_name r)])"

definition headroom_spec :: "headroom_rule \<Rightarrow> line_spec" where
  "headroom_spec r = (''headroom'', [(''pool'', dec_word (hr_pool r)), (''reserve'', dec_word (hr_reserve_units r)),
     (''name'', hr_name r)])"

definition domain_limit_spec :: "domain_limit_rule \<Rightarrow> line_spec" where
  "domain_limit_spec r = (''domain_limit'', [(''domain'', to_string_domain (dl_domain r)), (''max_out'', dec_word (dl_max_out r)),
     (''name'', dl_name r)])"

definition contract_spec :: "contract \<Rightarrow> line_spec" where
  "contract_spec c = (''contract'', [(''id'', dec_word (c_id c)), (''name'', c_name c),
     (''members'', comma_list to_string_target (c_members c)), (''min_available'', dec_word (c_min_available c))])"

definition window_spec :: "window \<Rightarrow> line_spec" where
  "window_spec w = (''window'', [(''id'', dec_word (w_id w)), (''name'', w_name w), (''opens'', format_time (w_opens_at w)),
     (''closes'', format_time (w_closes_at w)), (''min_lead'', dec_int (w_min_lead_time w) @ ''ns''),
     (''abort_grace'', dec_int (w_abort_grace w) @ ''ns''), (''on_close'', to_string_on_close (w_on_close w))] @
     (if w_targets w \<noteq> [] then [(''targets'', comma_list to_string_target (w_targets w))] else []))"

definition tier_spec :: "priority_tier \<Rightarrow> line_spec" where
  "tier_spec t = (''tier'', [(''index'', dec_word (pt_index t)), (''name'', pt_name t)])"

definition setting_spec :: "string \<times> string \<Rightarrow> line_spec" where
  "setting_spec e = (''setting'', [(''key'', fst e), (''value'', snd e)])"

lemmas spec_defs = ttl_spec_def redundancy_spec_def headroom_spec_def domain_limit_spec_def contract_spec_def
  window_spec_def tier_spec_def setting_spec_def

definition policy_specs :: "policy \<Rightarrow> line_spec list" where
  "policy_specs po = map ttl_spec (po_evidence_ttl po) @ map redundancy_spec (po_redundancy po) @
     map headroom_spec (po_headroom po) @ map domain_limit_spec (po_domain_limits po) @
     map contract_spec (po_contracts po) @ map window_spec (po_windows po) @ map tier_spec (po_tiers po) @
     map setting_spec (policy_settings po)"

lemma printed_lines:
  "render_ttl e = line_text (ttl_spec e) @ [CHR 0x0A]"
  "render_redundancy r = line_text (redundancy_spec r) @ [CHR 0x0A]"
  "render_headroom h = line_text (headroom_spec h) @ [CHR 0x0A]"
  "render_domain_limit l = line_text (domain_limit_spec l) @ [CHR 0x0A]"
  "render_contract c = line_text (contract_spec c) @ [CHR 0x0A]"
  "render_window w = line_text (window_spec w) @ [CHR 0x0A]"
  "render_tier t = line_text (tier_spec t) @ [CHR 0x0A]"
  "render_setting s = line_text (setting_spec s) @ [CHR 0x0A]"
  by (simp_all add: render_ttl_def render_redundancy_def render_headroom_def render_domain_limit_def render_contract_def
      render_window_def render_tier_def render_setting_def spec_defs line_text_def token_text_def)

lemma policy_printed: "render_policy po = concat (map (\<lambda>l. line_text l @ [CHR 0x0A]) (policy_specs po))"
  by (simp add: render_policy_def policy_specs_def printed_lines [abs_def] comp_def)

lemma time_plain: "plain_word (format_time v)"
proof -
  have digits: "list_all is_digit (pad_dec w n)" for w n
    using dec_string_digits [of "nat n"] by (auto simp: pad_dec_def Let_def list_all_iff is_digit_def)
  have "\<forall>c \<in> set (pad_dec w n). \<not> stream_space c \<and> c \<noteq> CHR ''#''" for w n
    using digits [of w n] digit_plain by (auto simp: list_all_iff)
  moreover have "\<forall>c \<in> set (pad_year y). \<not> stream_space c \<and> c \<noteq> CHR ''#''" for y
    using calculation by (auto simp: pad_year_def stream_space_def)
  ultimately show ?thesis unfolding format_time_def Let_def plain_word_def by (simp add: ball_Un stream_space_def)
qed

section \<open>Rules read back\<close>

definition duration_fits :: "nanos \<Rightarrow> bool" where
  "duration_fits d \<longleftrightarrow> 0 \<le> d \<and> d < 2 ^ 63"

lemma duration_back: "duration_fits d \<Longrightarrow> parse_duration_text (dec_int d @ ''ns'') = Some d"
  by (simp add: duration_fits_def duration_read)

lemma time_back: "i64_fits v \<Longrightarrow> parse_time (format_time v) reference = Some v"
  by (rule parse_format_time) (simp_all add: i64_fits_def)

definition contract_text_fits :: "contract \<Rightarrow> bool" where
  "contract_text_fits c \<longleftrightarrow> c_id c < 2 ^ 32 \<and> plain_word (c_name c) \<and> c_members c \<noteq> [] \<and>
     list_all target_valid (c_members c) \<and> c_require_fresh_evidence c"

definition window_text_fits :: "window \<Rightarrow> bool" where
  "window_text_fits w \<longleftrightarrow> w_id w < 2 ^ 32 \<and> plain_word (w_name w) \<and> i64_fits (w_opens_at w) \<and> i64_fits (w_closes_at w) \<and>
     duration_fits (w_min_lead_time w) \<and> duration_fits (w_abort_grace w) \<and> list_all target_valid (w_targets w)"

lemma redundancy_loads:
  assumes "rr_pool r < 2 ^ 32"
  shows "load_policy_line ref (spec_line n (redundancy_spec r)) ps =
    Inr ((fst ps)\<lparr>po_redundancy := po_redundancy (fst ps) @ [r]\<rparr>, snd ps)"
  using assms by (cases r; cases ps) (simp add: load_policy_line_def with_settings_def load_redundancy_def redundancy_spec_def
      load_steps id_read)

lemma headroom_loads:
  assumes "hr_pool r < 2 ^ 32"
  shows "load_policy_line ref (spec_line n (headroom_spec r)) ps =
    Inr ((fst ps)\<lparr>po_headroom := po_headroom (fst ps) @ [r]\<rparr>, snd ps)"
  using assms by (cases r; cases ps) (simp add: load_policy_line_def with_settings_def load_headroom_def headroom_spec_def
      load_steps id_read)

lemma domain_limit_loads:
  assumes "domain_valid (dl_domain r)"
  shows "load_policy_line ref (spec_line n (domain_limit_spec r)) ps =
    Inr ((fst ps)\<lparr>po_domain_limits := po_domain_limits (fst ps) @ [r]\<rparr>, snd ps)"
  using assms by (cases r; cases ps) (simp add: load_policy_line_def with_settings_def load_domain_limit_def
      domain_limit_spec_def load_steps parse_to_string_domain)

lemma contract_loads:
  assumes "contract_text_fits c"
  shows "load_policy_line ref (spec_line n (contract_spec c)) ps =
    Inr ((fst ps)\<lparr>po_contracts := po_contracts (fst ps) @ [c]\<rparr>, snd ps)"
  using assms by (cases c; cases ps) (simp add: load_policy_line_def with_settings_def load_contract_def contract_spec_def
      load_steps id_read target_list_read contract_text_fits_def)

lemma window_loads:
  assumes "window_text_fits w"
  shows "load_policy_line ref (spec_line n (window_spec w)) ps =
    Inr ((fst ps)\<lparr>po_windows := po_windows (fst ps) @ [w]\<rparr>, snd ps)"
  using assms by (cases w; cases ps) (simp add: load_policy_line_def with_settings_def load_window_def window_spec_def
      load_steps id_read target_list_read window_text_fits_def duration_key_def duration_back time_back parse_to_string_on_close)

lemma tier_loads:
  "load_policy_line ref (spec_line n (tier_spec t)) ps = Inr ((fst ps)\<lparr>po_tiers := po_tiers (fst ps) @ [t]\<rparr>, snd ps)"
  by (cases t; cases ps) (simp add: load_policy_line_def with_settings_def load_tier_def tier_spec_def load_steps)

lemma ttl_loads:
  assumes "duration_fits (snd e)"
  shows "load_policy_line ref (spec_line n (ttl_spec e)) ps =
    Inr ((fst ps)\<lparr>po_evidence_ttl := om_set (fst e) (snd e) (po_evidence_ttl (fst ps))\<rparr>, snd ps)"
  using assms by (cases ps) (simp add: load_policy_line_def with_settings_def load_evidence_ttl_def ttl_spec_def load_steps
      duration_back parse_to_string_evidence_kind)

lemma setting_loads:
  "load_policy_line ref (spec_line n (setting_spec e)) ps = Inr (fst ps, om_set (fst e) (snd e) (snd ps))"
  by (cases ps) (simp add: load_policy_line_def load_setting_def setting_spec_def load_steps)

text \<open>Appending entries one after the other to a field appends the list.\<close>

lemma appended:
  assumes "\<And>f g p. upd f (upd g p) = upd (\<lambda>y. f (g y)) p" "\<And>p. upd (\<lambda>y. y) p = p"
  shows "fold (\<lambda>x ps. (upd (\<lambda>ys. ys @ [x]) (fst ps), snd ps)) xs (p, s) = (upd (\<lambda>ys. ys @ xs) p, s)"
  by (induction xs arbitrary: p) (simp_all add: assms)

lemma om_rebuilt: "om_ok m \<Longrightarrow> fold (\<lambda>e. om_set (fst e) (snd e)) m [] = m"
  using assign_all_from [of "[]" m] by (simp add: om_ok_def)

lemma fold_ttl:
  "fold (\<lambda>e ps. ((fst ps)\<lparr>po_evidence_ttl := om_set (fst e) (snd e) (po_evidence_ttl (fst ps))\<rparr>, snd ps)) xs (p, s) =
   (p\<lparr>po_evidence_ttl := fold (\<lambda>e. om_set (fst e) (snd e)) xs (po_evidence_ttl p)\<rparr>, s)"
  by (induction xs arbitrary: p) simp_all

lemma fold_settings:
  "fold (\<lambda>e ps. (fst ps, om_set (fst e) (snd e) (snd ps))) xs (p, s) = (p, fold (\<lambda>e. om_set (fst e) (snd e)) xs s)"
  by (induction xs arbitrary: s) simp_all

definition sorted_settings :: "policy \<Rightarrow> settings" where
  "sorted_settings po =
     [(''authority_lease'', dec_int (po_authority_lease po) @ ''ns''),
      (''default_duration'', dec_int (po_default_duration po) @ ''ns''),
      (''drain_lease'', dec_int (po_drain_lease po) @ ''ns''),
      (''max_concurrent_jobs'', dec_word (po_max_concurrent_jobs po)),
      (''max_drain_failures'', dec_word (po_max_drain_failures_before_block po)),
      (''max_precondition_age'', dec_int (po_max_precondition_age po) @ ''ns''),
      (''max_restoration_attempts'', dec_word (po_max_restoration_attempts po)),
      (''max_verification_attempts'', dec_word (po_max_verification_attempts po)),
      (''min_evidence_sources'', dec_word (po_min_evidence_sources po)),
      (''require_window'', bool_text (po_require_window po))]"

lemma settings_sorted: "fold (\<lambda>e. om_set (fst e) (snd e)) (policy_settings po) [] = sorted_settings po"
  by (simp add: policy_settings_def sorted_settings_def less_char_def)

definition settings_fit :: "policy \<Rightarrow> bool" where
  "settings_fit po \<longleftrightarrow> list_all duration_fits [po_max_precondition_age po, po_default_duration po, po_authority_lease po, po_drain_lease po]"

lemma settings_applied:
  assumes "settings_fit po"
  shows "apply_settings (sorted_settings po) p =
    Inr (po\<lparr>po_redundancy := po_redundancy p, po_domain_limits := po_domain_limits p, po_headroom := po_headroom p,
      po_contracts := po_contracts p, po_windows := po_windows p, po_tiers := po_tiers p,
      po_evidence_ttl := po_evidence_ttl p, po_revision := po_revision p\<rparr>)"
proof -
  have durations: "duration_fits (po_max_precondition_age po)" "duration_fits (po_default_duration po)"
      "duration_fits (po_authority_lease po)" "duration_fits (po_drain_lease po)"
    using assms by (simp_all add: settings_fit_def)
  show ?thesis
    by (cases po; cases p) (use durations in \<open>simp add: sorted_settings_def apply_setting_def bind_result_def
      u32_setting_def duration_setting_def window_setting_def duration_back\<close>)
qed

text \<open>What a policy needs so that its names, identities and instants survive the text.\<close>

definition policy_text_fits :: "policy \<Rightarrow> bool" where
  "policy_text_fits po \<longleftrightarrow> validate_policy po = ok_status \<and> po_revision po = 0 \<and> om_ok (po_evidence_ttl po) \<and>
     settings_fit po \<and> (\<forall>e \<in> set (po_evidence_ttl po). duration_fits (snd e)) \<and>
     (\<forall>r \<in> set (po_redundancy po). rr_pool r < 2 ^ 32 \<and> plain_word (rr_name r)) \<and>
     (\<forall>r \<in> set (po_headroom po). hr_pool r < 2 ^ 32 \<and> plain_word (hr_name r)) \<and>
     (\<forall>r \<in> set (po_domain_limits po). domain_valid (dl_domain r) \<and> plain_word (dl_name r)) \<and>
     (\<forall>c \<in> set (po_contracts po). contract_text_fits c) \<and> (\<forall>w \<in> set (po_windows po). window_text_fits w) \<and>
     (\<forall>t \<in> set (po_tiers po). plain_word (pt_name t))"

lemma duration_word: "duration_fits d \<Longrightarrow> plain_word (dec_int d @ ''ns'')"
  by (simp add: duration_fits_def duration_plain)

lemma settings_words:
  assumes "settings_fit po" "e \<in> set (policy_settings po)"
  shows "plain_word (fst e)" "plain_word (snd e)"
proof -
  have "list_all (\<lambda>e. plain_word (fst e)) (policy_settings po)"
    by (simp add: policy_settings_def plain_name stream_space_def)
  then show "plain_word (fst e)" using assms(2) by (simp add: list_all_iff)
  have "list_all (\<lambda>e. plain_word (snd e)) (policy_settings po)"
    using assms(1) by (simp only: policy_settings_def list.pred_inject settings_fit_def duration_word plain_dec plain_items simp_thms snd_conv)
  then show "plain_word (snd e)" using assms(2) by (simp add: list_all_iff)
qed

lemma rule_specs_ok:
  "duration_fits (snd e) \<Longrightarrow> spec_ok (ttl_spec e)"
  "plain_word (rr_name r) \<Longrightarrow> spec_ok (redundancy_spec r)"
  "plain_word (hr_name h) \<Longrightarrow> spec_ok (headroom_spec h)"
  "plain_word (dl_name l) \<Longrightarrow> spec_ok (domain_limit_spec l)"
  "contract_text_fits c \<Longrightarrow> spec_ok (contract_spec c)"
  "window_text_fits w \<Longrightarrow> spec_ok (window_spec w)"
  "plain_word (pt_name t) \<Longrightarrow> spec_ok (tier_spec t)"
  "plain_word (fst s) \<Longrightarrow> plain_word (snd s) \<Longrightarrow> spec_ok (setting_spec s)"
  by (simp_all add: spec_ok_def spec_defs contract_text_fits_def window_text_fits_def plain_comma_list target_item
      plain_name stream_space_def duration_word time_plain)

lemma policy_specs_ok: "policy_text_fits po \<Longrightarrow> list_all spec_ok (policy_specs po)"
  using settings_words [of po]
  by (simp add: policy_specs_def list_all_iff ball_Un rule_specs_ok policy_text_fits_def)

section \<open>The policy read back\<close>

lemma append_updates:
  "p\<lparr>po_redundancy := po_redundancy p @ rs\<rparr> = po_redundancy_update (\<lambda>ys. ys @ rs) p"
  "p\<lparr>po_headroom := po_headroom p @ hs\<rparr> = po_headroom_update (\<lambda>ys. ys @ hs) p"
  "p\<lparr>po_domain_limits := po_domain_limits p @ ls\<rparr> = po_domain_limits_update (\<lambda>ys. ys @ ls) p"
  "p\<lparr>po_contracts := po_contracts p @ cs\<rparr> = po_contracts_update (\<lambda>ys. ys @ cs) p"
  "p\<lparr>po_windows := po_windows p @ ws\<rparr> = po_windows_update (\<lambda>ys. ys @ ws) p"
  "p\<lparr>po_tiers := po_tiers p @ ts\<rparr> = po_tiers_update (\<lambda>ys. ys @ ts) p"
  by (cases p; simp)+

lemma load_appended:
  assumes "\<And>x n ps. x \<in> set xs \<Longrightarrow> load (spec_line n (spec x)) ps = Inr (upd (\<lambda>ys. ys @ [x]) (fst ps), snd ps)"
    and "\<And>f g p. upd f (upd g p) = upd (\<lambda>y. f (g y)) p" "\<And>p. upd (\<lambda>y. y) p = p"
  shows "load_lines load (numbered n (map spec xs)) (p, s) stats = (Inr (upd (\<lambda>ys. ys @ xs) p, s), counted_records (length xs) stats)"
  using load_each [where load = load and spec = spec and xs = xs and g = "\<lambda>x ps. (upd (\<lambda>ys. ys @ [x]) (fst ps), snd ps)",
      OF assms(1)] appended [of upd xs p s] assms(2,3) by simp

lemma rules_loaded:
  assumes "policy_text_fits po"
  shows "load_lines (load_policy_line ref) (numbered n (map redundancy_spec (po_redundancy po))) (p, s) stats =
      (Inr (po_redundancy_update (\<lambda>ys. ys @ po_redundancy po) p, s), counted_records (length (po_redundancy po)) stats)"
    and "load_lines (load_policy_line ref) (numbered n (map headroom_spec (po_headroom po))) (p, s) stats =
      (Inr (po_headroom_update (\<lambda>ys. ys @ po_headroom po) p, s), counted_records (length (po_headroom po)) stats)"
    and "load_lines (load_policy_line ref) (numbered n (map domain_limit_spec (po_domain_limits po))) (p, s) stats =
      (Inr (po_domain_limits_update (\<lambda>ys. ys @ po_domain_limits po) p, s), counted_records (length (po_domain_limits po)) stats)"
    and "load_lines (load_policy_line ref) (numbered n (map contract_spec (po_contracts po))) (p, s) stats =
      (Inr (po_contracts_update (\<lambda>ys. ys @ po_contracts po) p, s), counted_records (length (po_contracts po)) stats)"
    and "load_lines (load_policy_line ref) (numbered n (map window_spec (po_windows po))) (p, s) stats =
      (Inr (po_windows_update (\<lambda>ys. ys @ po_windows po) p, s), counted_records (length (po_windows po)) stats)"
    and "load_lines (load_policy_line ref) (numbered n (map tier_spec (po_tiers po))) (p, s) stats =
      (Inr (po_tiers_update (\<lambda>ys. ys @ po_tiers po) p, s), counted_records (length (po_tiers po)) stats)"
  by (rule load_appended; use assms in \<open>simp add: policy_text_fits_def redundancy_loads headroom_loads domain_limit_loads
      contract_loads window_loads tier_loads append_updates comp_def\<close>)+

lemma ttls_loaded:
  assumes "policy_text_fits po"
  shows "load_lines (load_policy_line ref) (numbered n (map ttl_spec (po_evidence_ttl po))) (default_policy, s) stats =
    (Inr (default_policy\<lparr>po_evidence_ttl := po_evidence_ttl po\<rparr>, s), counted_records (length (po_evidence_ttl po)) stats)"
proof -
  note fits = assms [unfolded policy_text_fits_def]
  have "fold (\<lambda>e. om_set (fst e) (snd e)) (po_evidence_ttl po) [] = po_evidence_ttl po" using fits by (intro om_rebuilt) blast
  then show ?thesis
    using load_each [where load = "load_policy_line ref" and spec = ttl_spec and xs = "po_evidence_ttl po", OF ttl_loads] fits
    by (simp add: fold_ttl default_policy_def)
qed

lemma settings_loaded:
  "load_lines (load_policy_line ref) (numbered n (map setting_spec (policy_settings po))) (p, []) stats =
    (Inr (p, sorted_settings po), counted_records (length (policy_settings po)) stats)"
  using load_each [where load = "load_policy_line ref" and spec = setting_spec and xs = "policy_settings po", OF setting_loads]
  by (simp add: fold_settings settings_sorted)

lemma policy_loaded:
  assumes "policy_text_fits po"
  shows "load_policy_text (render_policy po) ref stats =
    (Inr po, \<lparr>ps_lines = length (policy_specs po), ps_records = length (policy_specs po)\<rparr>)"
proof -
  define p where "p = po_tiers_update (\<lambda>ys. ys @ po_tiers po) (po_windows_update (\<lambda>ys. ys @ po_windows po)
    (po_contracts_update (\<lambda>ys. ys @ po_contracts po) (po_domain_limits_update (\<lambda>ys. ys @ po_domain_limits po)
    (po_headroom_update (\<lambda>ys. ys @ po_headroom po) (po_redundancy_update (\<lambda>ys. ys @ po_redundancy po)
    (default_policy\<lparr>po_evidence_ttl := po_evidence_ttl po\<rparr>))))))"
  have "load_lines (load_policy_line ref) (numbered 1 (policy_specs po)) (default_policy, []) stats =
      (Inr (p, sorted_settings po), counted_records (length (policy_specs po)) stats)" for stats
    unfolding policy_specs_def numbered_append load_append ttls_loaded [OF assms] rules_loaded [OF assms] settings_loaded
      prod.case sum.case counted_records_add p_def by (simp add: add.assoc)
  moreover have "tokenize (render_policy po) = Inr (numbered 1 (policy_specs po))"
    unfolding policy_printed by (rule tokenize_text [OF policy_specs_ok [OF assms]])
  moreover have "apply_settings (sorted_settings po) p = Inr po"
  proof -
    have "settings_fit po" "po_revision po = 0" using assms by (simp_all add: policy_text_fits_def)
    then show ?thesis using settings_applied [of po p] by (cases po) (simp add: p_def default_policy_def)
  qed
  moreover have "validate_policy po = ok_status" using assms by (simp add: policy_text_fits_def)
  ultimately show ?thesis
    by (simp add: load_policy_text_def bind_result_def no_parse_stats_def counted_records_def)
qed

text \<open>
  The printed text of a contract does not say whether fresh evidence is required: a policy in which a
  contract accepts stale evidence prints the same text, and loads as one that requires fresh evidence.
\<close>

theorem contract_freshness_lost:
  assumes "policy_text_fits po"
  shows "load_policy_text (render_policy (po\<lparr>po_contracts := map (\<lambda>c. c\<lparr>c_require_fresh_evidence := False\<rparr>) (po_contracts po)\<rparr>))
    ref stats = load_policy_text (render_policy po) ref stats \<and> fst (load_policy_text (render_policy po) ref stats) = Inr po"
proof -
  have "render_contract (c\<lparr>c_require_fresh_evidence := False\<rparr>) = render_contract c" for c by (simp add: render_contract_def)
  then have "render_policy (po\<lparr>po_contracts := map (\<lambda>c. c\<lparr>c_require_fresh_evidence := False\<rparr>) (po_contracts po)\<rparr>) = render_policy po"
    by (simp add: render_policy_def policy_settings_def comp_def)
  then show ?thesis using policy_loaded [OF assms] by simp
qed

end
