(* ===== verification/Config_Strict.thy ===== *)
theory Config_Strict
  imports Config_Policy
begin

text \<open>
  What a load that succeeds says about the text: every line has a known kind and only the keys of its
  kind, no key is repeated on a line, every line was counted, and the loaded topology or policy passes its
  validation.
\<close>

definition topology_keys :: "(string \<times> string list) list" where
  "topology_keys =
     [(''domain'', [''kind'', ''id'', ''name'', ''correlated'']),
      (''target'', [''kind'', ''id'', ''name'', ''parent'', ''domains'', ''capacity'', ''maintainable'']),
      (''pool'', [''id'', ''name'', ''members''])]"

definition policy_keys :: "(string \<times> string list) list" where
  "policy_keys =
     [(''redundancy'', [''pool'', ''min_viable'', ''tolerated_losses'', ''name'']),
      (''headroom'', [''pool'', ''reserve'', ''name'']),
      (''domain_limit'', [''domain'', ''max_out'', ''name'']),
      (''contract'', [''id'', ''name'', ''members'', ''min_available'', ''fresh_evidence'']),
      (''window'', [''id'', ''name'', ''opens'', ''closes'', ''min_lead'', ''abort_grace'', ''on_close'', ''targets'']),
      (''tier'', [''index'', ''name'']),
      (''evidence_ttl'', [''kind'', ''ttl'']),
      (''setting'', [''key'', ''value''])]"

definition line_strict :: "(string \<times> string list) list \<Rightarrow> config_line \<Rightarrow> bool" where
  "line_strict table ln \<longleftrightarrow> distinct (map tk_key (ln_tokens ln)) \<and> length (ln_tokens ln) \<le> 64 \<and>
     (case map_of table (ln_kind ln) of None \<Rightarrow> False | Some allowed \<Rightarrow> set (map tk_key (ln_tokens ln)) \<subseteq> set allowed)"

lemma bind_ok: "bind_result r f = Inr y \<longleftrightarrow> (\<exists>x. r = Inr x \<and> f x = Inr y)"
  by (simp add: bind_result_def split: sum.split)

lemma known_only: "require_known_keys ln allowed = Inr u \<Longrightarrow> set (map tk_key (ln_tokens ln)) \<subseteq> set allowed"
  by (auto simp: require_known_keys_def find_None_iff split: option.splits)

lemma bind_known:
  "bind_result (require_known_keys ln allowed) f = Inr y \<Longrightarrow> set (map tk_key (ln_tokens ln)) \<subseteq> set allowed"
  using known_only by (auto simp: bind_ok)

lemma topology_line_keys:
  "load_topology_line ln t = Inr t' \<Longrightarrow>
     \<exists>allowed. map_of topology_keys (ln_kind ln) = Some allowed \<and> set (map tk_key (ln_tokens ln)) \<subseteq> set allowed"
  unfolding load_topology_line_def load_domain_def load_target_def load_pool_def topology_keys_def
  by (auto simp only: sum.distinct split: if_split_asm dest!: bind_known) simp_all

lemma rule_keys:
  "load_redundancy ln po = Inr po' \<Longrightarrow> set (map tk_key (ln_tokens ln)) \<subseteq> set (the (map_of policy_keys ''redundancy''))"
  "load_headroom ln po = Inr po' \<Longrightarrow> set (map tk_key (ln_tokens ln)) \<subseteq> set (the (map_of policy_keys ''headroom''))"
  "load_domain_limit ln po = Inr po' \<Longrightarrow> set (map tk_key (ln_tokens ln)) \<subseteq> set (the (map_of policy_keys ''domain_limit''))"
  "load_contract ln po = Inr po' \<Longrightarrow> set (map tk_key (ln_tokens ln)) \<subseteq> set (the (map_of policy_keys ''contract''))"
  "load_window reference ln po = Inr po' \<Longrightarrow> set (map tk_key (ln_tokens ln)) \<subseteq> set (the (map_of policy_keys ''window''))"
  "load_tier ln po = Inr po' \<Longrightarrow> set (map tk_key (ln_tokens ln)) \<subseteq> set (the (map_of policy_keys ''tier''))"
  "load_evidence_ttl ln po = Inr po' \<Longrightarrow> set (map tk_key (ln_tokens ln)) \<subseteq> set (the (map_of policy_keys ''evidence_ttl''))"
  "load_setting ln s = Inr s' \<Longrightarrow> set (map tk_key (ln_tokens ln)) \<subseteq> set (the (map_of policy_keys ''setting''))"
  unfolding load_redundancy_def load_headroom_def load_domain_limit_def load_contract_def load_window_def load_tier_def
    load_evidence_ttl_def load_setting_def
  by (drule bind_known, simp add: policy_keys_def)+

lemma if_okE:
  assumes "(if b then x else y) = Inr z" "b \<Longrightarrow> x = Inr z \<Longrightarrow> P" "\<not> b \<Longrightarrow> y = Inr z \<Longrightarrow> P"
  shows P
  using assms by (cases b) simp_all

lemma bind_okE:
  assumes "bind_result r f = Inr y" "\<And>x. r = Inr x \<Longrightarrow> P"
  shows P
  using assms by (auto simp: bind_ok)

lemma policy_line_keys:
  assumes "load_policy_line reference ln ps = Inr ps'"
  shows "\<exists>allowed. map_of policy_keys (ln_kind ln) = Some allowed \<and> set (map tk_key (ln_tokens ln)) \<subseteq> set allowed"
proof -
  obtain po s where ps: "ps = (po, s)" by fastforce
  note line = assms [unfolded ps load_policy_line_def Let_def prod.case with_settings_def]
  have "ln_kind ln \<in> set (map fst policy_keys)"
    using line by (simp add: policy_keys_def split: if_split_asm)
  then obtain allowed where "map_of policy_keys (ln_kind ln) = Some allowed"
    using weak_map_of_SomeI by fastforce
  moreover from line have "set (map tk_key (ln_tokens ln)) \<subseteq> set (the (map_of policy_keys (ln_kind ln)))"
    by (elim if_okE bind_okE) (drule rule_keys, simp | simp)+
  ultimately show ?thesis by simp
qed

lemma tokens_distinct:
  "read_tokens ln ts = Inr ln' \<Longrightarrow> distinct (map tk_key (ln_tokens ln)) \<Longrightarrow> distinct (map tk_key (ln_tokens ln'))"
proof (induction ln ts rule: read_tokens.induct)
  case (2 ln t ts)
  let ?key = "takeWhile (\<lambda>c. c \<noteq> CHR ''='') t"
  have "line_find ln ?key = None" using 2(2) by (auto simp: Let_def split: if_splits)
  then have "?key \<notin> set (map tk_key (ln_tokens ln))" by (auto simp: line_find_def find_None_iff)
  with 2 show ?case by (auto simp: Let_def split: if_splits)
qed simp

lemma line_tokens:
  assumes "read_line n body = Inr ln"
  shows "distinct (map tk_key (ln_tokens ln)) \<and> length (ln_tokens ln) \<le> 64"
  using assms by (auto simp: read_line_def Let_def split: sum.splits if_splits dest: tokens_distinct)

lemma tokenized_lines:
  "tokenize_lines n raws = Inr lns \<Longrightarrow> ln \<in> set lns \<Longrightarrow> distinct (map tk_key (ln_tokens ln)) \<and> length (ln_tokens ln) \<le> 64"
proof (induction n raws arbitrary: lns rule: tokenize_lines.induct)
  case (2 n raw raws)
  then show ?case by (auto simp: Let_def split: if_splits sum.splits dest: line_tokens)
qed simp

lemma lines_loaded:
  assumes "load_lines load lns s stats = (Inr s', stats')"
  shows "stats' = stats\<lparr>ps_records := ps_records stats + length lns\<rparr> \<and> (\<forall>ln \<in> set lns. \<exists>a b. load ln a = Inr b)"
  using assms
proof (induction lns arbitrary: s stats)
  case (Cons ln lns)
  obtain s1 where s1: "load ln s = Inr s1" using Cons.prems by (auto split: sum.splits)
  then show ?case using Cons.IH [of s1] Cons.prems by (cases stats) fastforce
qed simp

lemma topology_text_strict:
  assumes "load_topology_text s stats = (Inr t, stats')"
  shows "\<exists>lns. tokenize s = Inr lns \<and> list_all (line_strict topology_keys) lns \<and> validate_topology t = ok_status \<and>
    stats' = \<lparr>ps_lines = length lns, ps_records = length lns\<rparr>"
proof -
  obtain lns where lns: "tokenize s = Inr lns" using assms by (auto simp: load_topology_text_def split: sum.splits)
  then have loaded: "load_lines load_topology_line lns empty_topology (no_parse_stats\<lparr>ps_lines := length lns\<rparr>) = (Inr t, stats')"
      "validate_topology t = ok_status"
    using assms by (auto simp: load_topology_text_def split: sum.splits prod.splits)
  have "line_strict topology_keys ln" if "ln \<in> set lns" for ln
    using tokenized_lines [OF lns [unfolded tokenize_def] that] lines_loaded [OF loaded(1)] topology_line_keys that
    by (fastforce simp: line_strict_def)
  then show ?thesis using lns loaded(2) lines_loaded [OF loaded(1)] by (simp add: list_all_iff no_parse_stats_def)
qed

lemma policy_text_strict:
  assumes "load_policy_text s reference stats = (Inr po, stats')"
  shows "\<exists>lns. tokenize s = Inr lns \<and> list_all (line_strict policy_keys) lns \<and> validate_policy po = ok_status \<and>
    stats' = \<lparr>ps_lines = length lns, ps_records = length lns\<rparr>"
proof -
  obtain lns where lns: "tokenize s = Inr lns" using assms by (auto simp: load_policy_text_def split: sum.splits)
  then obtain p where loaded: "load_lines (load_policy_line reference) lns (default_policy, []) (no_parse_stats\<lparr>ps_lines := length lns\<rparr>) =
      (Inr p, stats')" "validate_policy po = ok_status"
    using assms by (auto simp: load_policy_text_def bind_ok split: sum.splits prod.splits)
  have "line_strict policy_keys ln" if "ln \<in> set lns" for ln
    using tokenized_lines [OF lns [unfolded tokenize_def] that] lines_loaded [OF loaded(1)] policy_line_keys that
    by (fastforce simp: line_strict_def)
  then show ?thesis using lns loaded(2) lines_loaded [OF loaded(1)] by (simp add: list_all_iff no_parse_stats_def)
qed

end
