(* ===== verification/Config_Properties.thy ===== *)
theory Config_Properties
  imports Config_Policy_Round_Trip Config_Strict Store_Examples
begin

text \<open>
  The properties of the configuration text: what is printed loads again, and what loads is strict text
  that passed its validation.
\<close>

section \<open>A policy and a topology that can be printed\<close>

definition text_window :: window where
  "text_window = \<lparr>w_id = 1, w_name = ''night'', w_opens_at = 1000000000, w_closes_at = 7200000000000, w_min_lead_time = 0,
     w_abort_grace = 60000000000, w_on_close = FinishActiveStep, w_targets = [sw 1]\<rparr>"

definition text_policy :: policy where
  "text_policy = demo_policy\<lparr>po_windows := [text_window], po_tiers := [\<lparr>pt_index = 0, pt_name = ''gold''\<rparr>],
     po_evidence_ttl := [(TargetHealth, 60000000000)], po_revision := 0\<rparr>"

lemma text_window_fits: "window_text_fits text_window"
  by (simp add: window_text_fits_def text_window_def plain_name stream_space_def i64_fits_def duration_fits_def
      target_valid_def sw_def)

lemma text_contract_fits: "contract_text_fits demo_contract"
  by (simp add: contract_text_fits_def demo_contract_def plain_name stream_space_def target_valid_def sw_def)

lemma text_policy_valid: "validate_policy text_policy = ok_status"
proof -
  have "validate_bounds text_policy = ok_status"
    by (simp add: validate_bounds_def text_policy_def demo_policy_def default_policy_def known_tier_def nanos_defs table_eval)
  then show ?thesis using demo_policy_valid
    by (simp add: validate_policy_ok text_policy_def validate_window_def text_window_def validate_ttl_def id_valid_def limits)
qed

lemma text_policy_fits: "policy_text_fits text_policy"
proof -
  have "settings_fit text_policy"
    by (simp add: settings_fit_def text_policy_def demo_policy_def default_policy_def duration_fits_def nanos_defs limits)
  moreover have "\<forall>e \<in> set (po_evidence_ttl text_policy). duration_fits (snd e)"
    by (simp add: text_policy_def duration_fits_def)
  moreover have "\<forall>r \<in> set (po_redundancy text_policy). rr_pool r < 2 ^ 32 \<and> plain_word (rr_name r)"
      "\<forall>r \<in> set (po_headroom text_policy). hr_pool r < 2 ^ 32 \<and> plain_word (hr_name r)"
      "\<forall>r \<in> set (po_domain_limits text_policy). domain_valid (dl_domain r) \<and> plain_word (dl_name r)"
      "\<forall>t \<in> set (po_tiers text_policy). plain_word (pt_name t)"
    by (simp_all add: text_policy_def demo_policy_def default_policy_def plain_name stream_space_def domain_valid_def power1_def)
  moreover have "\<forall>c \<in> set (po_contracts text_policy). contract_text_fits c" "\<forall>w \<in> set (po_windows text_policy). window_text_fits w"
    by (simp_all add: text_policy_def demo_policy_def default_policy_def text_window_fits text_contract_fits)
  moreover have "po_revision text_policy = 0" "om_ok (po_evidence_ttl text_policy)"
    by (simp_all add: text_policy_def om_ok_def)
  ultimately show ?thesis unfolding policy_text_fits_def using text_policy_valid by blast
qed

lemma text_topology_fits: "topology_text_fits demo_topology"
  unfolding topology_text_fits_def using demo_topology_fits
  by (simp add: demo_topology_def demo_stage_def demo_domain_def demo_switch_def demo_pool_def plain_name stream_space_def)

section \<open>Round trips\<close>

text \<open>
  C35. A printed policy loads as itself: when the names are words of the text, the identities fit 32 bits, the
  instants and durations 64, and the policy is valid with the default revision and contracts that require fresh
  evidence, loading the text of \<open>render_policy\<close> gives exactly the policy, and every line counts as a record.
\<close>
theorem policy_text_round_trip:
  assumes "policy_text_fits po"
  shows "\<exists>n. load_policy_text (render_policy po) reference stats = (Inr po, \<lparr>ps_lines = n, ps_records = n\<rparr>)"
  using policy_loaded [OF assms] by blast

theorem policy_text_round_trip_witness:
  "fst (load_policy_text (render_policy text_policy) 0 no_parse_stats) = Inr text_policy"
  using policy_text_round_trip [OF text_policy_fits, of 0 no_parse_stats] by auto

text \<open>
  C36. A printed topology loads as the same declarations: the lines of \<open>render_topology\<close>, every parent before its
  children, are accepted one by one, and the loaded topology is well formed with the same targets, domains and
  pools, when the names are words of the text, every target has a domain and pool identities fit 32 bits.
\<close>
theorem topology_text_round_trip:
  assumes "topology_text_fits t"
  shows "\<exists>t' n. load_topology_text (render_topology t) stats = (Inr t', \<lparr>ps_lines = n, ps_records = n\<rparr>) \<and>
    topo_wf t' \<and> same_declared t t'"
  using topology_loaded [OF assms] by blast

theorem topology_text_round_trip_witness:
  "\<exists>t'. fst (load_topology_text (render_topology demo_topology) no_parse_stats) = Inr t' \<and> same_declared demo_topology t'"
  using topology_text_round_trip [OF text_topology_fits, of no_parse_stats] by auto

section \<open>Strictness\<close>

text \<open>
  C37. Configuration is read strictly: when a topology or a policy loads, every line of the text has a known kind,
  only keys of that kind and no key twice, at most 64 of them; every line was counted; and what was loaded passes
  its validation.
\<close>
theorem config_text_strict:
  "(load_topology_text s stats = (Inr t, stats') \<longrightarrow>
     (\<exists>lns. tokenize s = Inr lns \<and> list_all (line_strict topology_keys) lns \<and> validate_topology t = ok_status \<and>
        stats' = \<lparr>ps_lines = length lns, ps_records = length lns\<rparr>)) \<and>
   (load_policy_text s reference stats = (Inr po, stats') \<longrightarrow>
     (\<exists>lns. tokenize s = Inr lns \<and> list_all (line_strict policy_keys) lns \<and> validate_policy po = ok_status \<and>
        stats' = \<lparr>ps_lines = length lns, ps_records = length lns\<rparr>))"
  using topology_text_strict policy_text_strict by blast

theorem config_text_strict_witness:
  "\<exists>lns. tokenize (render_policy text_policy) = Inr lns \<and> list_all (line_strict policy_keys) lns \<and>
     validate_policy text_policy = ok_status"
  using config_text_strict [of "render_policy text_policy" no_parse_stats undefined _ 0 text_policy]
    policy_loaded [OF text_policy_fits, of 0 no_parse_stats] by blast

end
