(* ===== verification/Operator.thy ===== *)
theory Operator
  imports Daemon Config_Policy
begin

text \<open>
  The operator's program (\<^verbatim>\<open>apps/mfctl/main.cpp\<close>) and the interface it works against (\<^verbatim>\<open>apps/common\<close>). The
  interface \<^verbatim>\<open>FabricApi\<close> is a record of its methods over a state, with two instances: the controller in the
  process, and a connection to the daemon. A run of the program is its exit code, what it writes to the
  two output streams, and the state it leaves. The readings of the system clock, the files that are read
  and the opening of a controller or a connection are arguments.
\<close>

section \<open>The interface\<close>

record 'w fabric_api =
  fa_propose :: "maintenance_request \<Rightarrow> string \<Rightarrow> 'w \<Rightarrow> job_id api_result \<times> 'w"
  fa_command :: "api_command \<Rightarrow> 'w \<Rightarrow> unit api_result \<times> 'w"
  fa_query :: "api_query \<Rightarrow> 'w \<Rightarrow> api_answer api_result \<times> 'w"
  fa_topology_text :: "'w \<Rightarrow> string api_result"
  fa_policy_text :: "'w \<Rightarrow> string api_result"

definition shown :: "'a result \<Rightarrow> 'a api_result" where
  "shown r = (case r of Inl e \<Rightarrow> Inl (to_api e) | Inr x \<Rightarrow> Inr x)"

definition local_api :: "nanos \<Rightarrow> nanos \<Rightarrow> controller fabric_api" where
  "local_api at now = \<lparr>
     fa_propose = (\<lambda>q actor c. case propose q actor now c of (r, c) \<Rightarrow> (shown r, c)),
     fa_command = (\<lambda>cmd c. case local_command at now cmd c of (r, c) \<Rightarrow> (shown r, c)),
     fa_query = (\<lambda>q c. (shown (local_query now q c), c)),
     fa_topology_text = (\<lambda>c. Inr (render_topology (ct_topology c))),
     fa_policy_text = (\<lambda>c. Inr (render_policy (ct_policy c)))\<rparr>"

definition remote_api :: "'w wire \<Rightarrow> nanos \<Rightarrow> (tcp_client \<times> 'w) fabric_api" where
  "remote_api net deadline = \<lparr>
     fa_propose = (\<lambda>q actor (cl, w). case remote_propose net deadline q actor cl w of (r, cl, w) \<Rightarrow> (r, cl, w)),
     fa_command = (\<lambda>cmd (cl, w). case remote_command net deadline cmd cl w of (r, cl, w) \<Rightarrow> (r, cl, w)),
     fa_query = (\<lambda>q (cl, w). case remote_query net deadline q cl w of (r, cl, w) \<Rightarrow> (r, cl, w)),
     fa_topology_text = (\<lambda>_. Inl (to_api (make_error Unsupported ''the daemon does not export its topology''))),
     fa_policy_text = (\<lambda>_. Inl (to_api (make_error Unsupported ''the daemon does not export its policy'')))\<rparr>"

text \<open>\<open>files\<close> gives the content of a file that can be opened.\<close>

definition api_load_topology :: "(string \<Rightarrow> string option) \<Rightarrow> string \<Rightarrow> controller \<Rightarrow> status \<times> controller" where
  "api_load_topology files path c = (case fst (load_topology_file path (files path) no_parse_stats) of
     Inl e \<Rightarrow> (Inl e, c) | Inr t \<Rightarrow> set_topology t c)"

definition api_load_policy :: "(string \<Rightarrow> string option) \<Rightarrow> string \<Rightarrow> nanos \<Rightarrow> controller \<Rightarrow> status \<times> controller" where
  "api_load_policy files path now c = (case fst (load_policy_file path (files path) now no_parse_stats) of
     Inl e \<Rightarrow> (Inl e, c) | Inr p \<Rightarrow> set_policy p c)"

section \<open>Arguments\<close>

type_synonym cli_args = "(string \<times> string) list"

definition args_has :: "cli_args \<Rightarrow> string \<Rightarrow> bool" where
  "args_has args name = list_ex (\<lambda>kv. fst kv = name) args"

definition args_find :: "cli_args \<Rightarrow> string \<Rightarrow> string option" where
  "args_find args name = map_option snd (find (\<lambda>kv. fst kv = name) args)"

definition args_get :: "cli_args \<Rightarrow> string \<Rightarrow> string \<Rightarrow> string" where
  "args_get args name fallback = (case args_find args name of None \<Rightarrow> fallback | Some v \<Rightarrow> v)"

definition args_all :: "cli_args \<Rightarrow> string \<Rightarrow> string list" where
  "args_all args name = map snd (filter (\<lambda>kv. fst kv = name) args)"

text \<open>The host is what stands before the last colon.\<close>

definition parse_endpoint :: "string \<Rightarrow> (string \<times> u16) option" where
  "parse_endpoint s =
     (let port_text = rev (takeWhile (\<lambda>c. c \<noteq> CHR '':'') (rev s)); host = take (length s - length port_text - 1) s in
      if CHR '':'' \<notin> set s \<or> host = [] then None
      else case parse_u32 port_text of
        None \<Rightarrow> None
      | Some v \<Rightarrow> if v > 65535 then None else Some (host, ucast v))"

section \<open>Output\<close>

record cli_result =
  cr_code :: nat
  cr_out :: string
  cr_err :: string

definition printed :: "string \<Rightarrow> cli_result" where
  "printed s = \<lparr>cr_code = 0, cr_out = s, cr_err = []\<rparr>"

definition misused :: "string \<Rightarrow> cli_result" where
  "misused what = \<lparr>cr_code = 2, cr_out = [], cr_err = ''mfctl: '' @ what @ newline\<rparr>"

text \<open>A code that is no \<^verbatim>\<open>ErrorCode\<close> prints as unknown.\<close>

definition error_name :: "u16 \<Rightarrow> string" where
  "error_name v = (if unat v < length all_error_codes then to_string_error_code (all_error_codes ! unat v) else ''unknown'')"

definition format_api_error :: "api_error \<Rightarrow> string" where
  "format_api_error e = error_name (ae_code e) @ (if ae_detail e = [] then [] else '': '' @ ae_detail e)"

definition refused :: "api_error \<Rightarrow> cli_result" where
  "refused e = \<lparr>cr_code = 1, cr_out = [], cr_err = ''mfctl: '' @ format_api_error e @ newline\<rparr>"

definition state_text :: "job_snapshot \<Rightarrow> string" where
  "state_text s = to_string_job_state (sn_state s) @
     (if sn_block s \<noteq> BrNone then ''('' @ to_string_block (sn_block s) @ '')'' else [])"

text \<open>A column of \<^verbatim>\<open>printf\<close> with \<^verbatim>\<open>%-w\<close>: padded, never cut.\<close>

definition column :: "nat \<Rightarrow> string \<Rightarrow> string" where
  "column w s = s @ replicate (w - length s) CHR '' '' @ '' ''"

definition table_header :: string where
  "table_header = column 8 ''job'' @ column 6 ''gen'' @ column 6 ''rev'' @ column 24 ''state'' @ column 6 ''prio'' @
     column 10 ''removed'' @ ''targets'' @ newline"

definition table_row :: "job_snapshot \<Rightarrow> string" where
  "table_row s = column 8 (to_string_job (sn_id s)) @ column 6 (to_string_generation (sn_generation s)) @
     column 6 (to_string_revision (sn_revision s)) @ column 24 (state_text s) @ column 6 (dec_word (sn_priority s)) @
     column 10 (if sn_service_removed s then ''yes'' else ''no'') @ comma_list to_string_target (sn_targets s) @ newline"

definition print_table :: "job_snapshot list \<Rightarrow> string" where
  "print_table jobs = table_header @ concat (map table_row jobs)"

section \<open>Commands\<close>

definition version_text :: string where
  "version_text = ''Maintenance Fabric 1.0.0 (protocol 1, state format 1)'' @ newline"

text \<open>The words of an option that may be repeated.\<close>

fun parse_each :: "(string \<Rightarrow> 'a option) \<Rightarrow> string \<Rightarrow> string list \<Rightarrow> (string + 'a list)" where
  "parse_each parse what [] = Inr []"
| "parse_each parse what (s # ss) = (case parse s of
     None \<Rightarrow> Inl (quoted s @ what)
   | Some x \<Rightarrow> (case parse_each parse what ss of Inl e \<Rightarrow> Inl e | Inr xs \<Rightarrow> Inr (x # xs)))"

definition option_or :: "cli_args \<Rightarrow> string \<Rightarrow> 'a \<Rightarrow> (string \<Rightarrow> 'a option) \<Rightarrow> string \<Rightarrow> (string + 'a)" where
  "option_or args name fallback parse what = (case args_find args name of
     None \<Rightarrow> Inr fallback
   | Some s \<Rightarrow> (case parse s of None \<Rightarrow> Inl what | Some x \<Rightarrow> Inr x))"

definition and_then_use :: "(string + 'a) \<Rightarrow> ('a \<Rightarrow> (string + 'b)) \<Rightarrow> (string + 'b)" where
  "and_then_use r f = (case r of Inl e \<Rightarrow> Inl e | Inr x \<Rightarrow> f x)"

definition build_request :: "cli_args \<Rightarrow> string \<Rightarrow> (string + maintenance_request)" where
  "build_request args actor =
     (let title = args_get args ''--title'' [] in
      if title = [] then Inl ''--title is required''
      else and_then_use (parse_each parse_target_id '' is not a target id'' (args_all args ''--target'')) (\<lambda>targets.
        if targets = [] then Inl ''at least one --target is required''
        else and_then_use (parse_each (parse_id ''job'') '' is not a job id'' (args_all args ''--depends'')) (\<lambda>depends.
          and_then_use (option_or args ''--priority'' 0 parse_u32 ''--priority must be a number'') (\<lambda>priority.
          and_then_use (option_or args ''--duration'' 0 parse_duration_text ''--duration must be a duration'') (\<lambda>duration.
            Inr \<lparr>mr_title = title, mr_reason = args_get args ''--reason'' ''operator request'', mr_targets = targets,
              mr_depends_on = depends, mr_window_filter = [], mr_priority = priority, mr_estimated_duration = duration,
              mr_requires_drain = \<not> args_has args ''--no-drain'', mr_requestor = requestor_from_name actor\<rparr>)))))"

definition propose_command :: "'w fabric_api \<Rightarrow> cli_args \<Rightarrow> string \<Rightarrow> 'w \<Rightarrow> cli_result \<times> 'w" where
  "propose_command api args actor w = (case build_request args actor of
     Inl what \<Rightarrow> (misused what, w)
   | Inr q \<Rightarrow> (case fa_propose api q actor w of
       (Inl e, w) \<Rightarrow> (refused e, w)
     | (Inr i, w) \<Rightarrow> (printed (to_string_job i @ newline), w)))"

text \<open>One call that reports a status, and what is printed when it succeeds.\<close>

definition give_command :: "'w fabric_api \<Rightarrow> api_command \<Rightarrow> string \<Rightarrow> 'w \<Rightarrow> cli_result \<times> 'w" where
  "give_command api cmd said w = (case fa_command api cmd w of
     (Inl e, w) \<Rightarrow> (refused e, w) | (Inr _, w) \<Rightarrow> (printed (said @ newline), w))"

text \<open>One call that answers with a text.\<close>

definition show_text :: "'w fabric_api \<Rightarrow> api_query \<Rightarrow> 'w \<Rightarrow> cli_result \<times> 'w" where
  "show_text api q w = (case fa_query api q w of
     (Inl e, w) \<Rightarrow> (refused e, w)
   | (Inr (AnswerText s), w) \<Rightarrow> (printed s, w)
   | (Inr _, w) \<Rightarrow> (printed [], w))"

definition snapshots_of :: "api_answer \<Rightarrow> job_snapshot list" where
  "snapshots_of a = (case a of AnswerSnapshot s \<Rightarrow> [s] | AnswerSnapshots ss \<Rightarrow> ss | AnswerText _ \<Rightarrow> [])"

text \<open>The explanation below a table is left out when it cannot be had.\<close>

definition show_job :: "'w fabric_api \<Rightarrow> job_id \<Rightarrow> string \<Rightarrow> 'w \<Rightarrow> cli_result \<times> 'w" where
  "show_job api i action w = (case fa_query api (QueryStatus i) w of
     (Inl e, w) \<Rightarrow> (refused e, w)
   | (Inr a, w) \<Rightarrow>
       (let table = print_table (snapshots_of a) in
        case fa_query api (QueryExplain i action) w of
          (Inr (AnswerText s), w) \<Rightarrow> (printed (table @ newline @ s), w)
        | (_, w) \<Rightarrow> (printed table, w)))"

definition show_list :: "'w fabric_api \<Rightarrow> 'w \<Rightarrow> cli_result \<times> 'w" where
  "show_list api w = (case fa_query api QueryList w of
     (Inl e, w) \<Rightarrow> (refused e, w) | (Inr a, w) \<Rightarrow> (printed (print_table (snapshots_of a)), w))"

text \<open>A pass; a controller that shuts down is no failure.\<close>

definition one_tick :: "'w fabric_api \<Rightarrow> 'w \<Rightarrow> api_error option \<times> 'w" where
  "one_tick api w = (case fa_command api (CmdTick 0) w of
     (Inl e, w) \<Rightarrow> (if ae_code e \<noteq> error_code_value ShuttingDown then Some e else None, w)
   | (Inr _, w) \<Rightarrow> (None, w))"

fun run_ticks :: "'w fabric_api \<Rightarrow> nat \<Rightarrow> 'w \<Rightarrow> api_error option \<times> 'w" where
  "run_ticks api 0 w = (None, w)"
| "run_ticks api (Suc n) w = (case one_tick api w of (Some e, w) \<Rightarrow> (Some e, w) | (None, w) \<Rightarrow> run_ticks api n w)"

definition tick_command :: "'w fabric_api \<Rightarrow> cli_args \<Rightarrow> 'w \<Rightarrow> cli_result \<times> 'w" where
  "tick_command api args w = (case option_or args ''--count'' 1 parse_u32 ''--count must be a number'' of
     Inl what \<Rightarrow> (misused what, w)
   | Inr n \<Rightarrow> (case run_ticks api (unat n) w of
       (Some e, w) \<Rightarrow> (refused e, w)
     | (None, w) \<Rightarrow> (printed (''ran '' @ dec_word n @ '' scheduler pass(es)'' @ newline), w)))"

definition settled :: "api_answer \<Rightarrow> bool" where
  "settled a \<longleftrightarrow> list_ex (\<lambda>s. sn_state s \<in> {InMaintenance, Verifying, Restoring, Complete, Blocked, Failed, JobCancelled})
     (snapshots_of a)"

fun run_until_settled :: "'w fabric_api \<Rightarrow> job_id \<Rightarrow> nat \<Rightarrow> 'w \<Rightarrow> api_error option \<times> 'w" where
  "run_until_settled api i 0 w = (None, w)"
| "run_until_settled api i (Suc n) w = (case one_tick api w of
     (Some e, w) \<Rightarrow> (Some e, w)
   | (None, w) \<Rightarrow> (case fa_query api (QueryStatus i) w of
       (Inl e, w) \<Rightarrow> (Some e, w)
     | (Inr a, w) \<Rightarrow> if settled a then (None, w) else run_until_settled api i n w))"

definition start_command :: "'w fabric_api \<Rightarrow> cli_args \<Rightarrow> job_id \<Rightarrow> 'w \<Rightarrow> cli_result \<times> 'w" where
  "start_command api args i w = (case option_or args ''--max-ticks'' 32 parse_u32 ''--max-ticks must be a number'' of
     Inl what \<Rightarrow> (misused what, w)
   | Inr n \<Rightarrow> (case run_until_settled api i (unat n) w of
       (Some e, w) \<Rightarrow> (refused e, w) | (None, w) \<Rightarrow> show_job api i ''start'' w))"

definition complete_command :: "'w fabric_api \<Rightarrow> cli_args \<Rightarrow> job_id \<Rightarrow> 'w \<Rightarrow> cli_result \<times> 'w" where
  "complete_command api args i w = (case args_find args ''--attempt'' of
     None \<Rightarrow> (misused ''--attempt is required'', w)
   | Some s \<Rightarrow> (case parse_attempt_id s of
       None \<Rightarrow> (misused ''--attempt must be a job/generation/attempt id'', w)
     | Some a \<Rightarrow> give_command api (CmdReportCompletion i a (\<not> args_has args ''--fail'') (args_get args ''--detail'' ''reported by mfctl''))
         (''completion recorded for '' @ to_string_attempt a) w))"

definition restore_command :: "'w fabric_api \<Rightarrow> cli_args \<Rightarrow> job_id \<Rightarrow> 'w \<Rightarrow> cli_result \<times> 'w" where
  "restore_command api args i w = (case (args_find args ''--attempt'', args_find args ''--target'') of
     (Some a_text, Some t_text) \<Rightarrow> (case (parse_attempt_id a_text, parse_target_id t_text) of
       (Some a, Some t) \<Rightarrow>
         give_command api (CmdReportRestoration i a t (\<not> args_has args ''--fail'') (args_get args ''--detail'' ''reported by mfctl''))
           (''restoration check recorded for '' @ to_string_target t) w
     | _ \<Rightarrow> (misused ''--attempt or --target is malformed'', w))
   | _ \<Rightarrow> (misused ''--attempt and --target are required'', w))"

definition job_commands :: "string list" where
  "job_commands = [''approve'', ''arm'', ''cancel'', ''start'', ''status'', ''explain'', ''complete'', ''restore'']"

definition job_command :: "'w fabric_api \<Rightarrow> string \<Rightarrow> cli_args \<Rightarrow> string \<Rightarrow> job_id \<Rightarrow> 'w \<Rightarrow> cli_result \<times> 'w" where
  "job_command api command args actor i w =
     (if command = ''approve'' then give_command api (CmdApprove i actor) (''approved '' @ to_string_job i) w
      else if command = ''arm'' then
        give_command api (CmdRearm i actor) (''re-armed '' @ to_string_job i @ '' under a new generation'') w
      else if command = ''cancel'' then
        give_command api (CmdCancel i actor (args_get args ''--reason'' ''operator request'')) (''cancelled '' @ to_string_job i) w
      else if command = ''status'' then show_job api i ''status'' w
      else if command = ''explain'' then show_text api (QueryExplain i (args_get args ''--action'' ''status'')) w
      else if command = ''start'' then start_command api args i w
      else if command = ''complete'' then complete_command api args i w
      else restore_command api args i w)"

definition clear_command :: "'w fabric_api \<Rightarrow> cli_args \<Rightarrow> string \<Rightarrow> 'w \<Rightarrow> cli_result \<times> 'w" where
  "clear_command api args actor w = (case args_find args ''--id'' of
     None \<Rightarrow> (misused ''--id is required'', w)
   | Some s \<Rightarrow> (case parse_id ''quar'' s of
       None \<Rightarrow> (misused ''--id is not a quarantine id'', w)
     | Some i \<Rightarrow> give_command api (CmdClearQuarantine i actor (args_get args ''--why'' ''inspected by hand''))
         (''quarantine '' @ to_string_quarantine i @ '' cleared'') w))"

definition default_evidence :: evidence_record where
  "default_evidence = \<lparr>er_id = 0, er_key = EvidenceKey TargetHealth global_subject 0, er_revision = 0, er_observed_at = 0,
     er_ttl = kDefaultEvidenceTtlNanos, er_klass = Volatile,
     er_payload = \<lparr>ep_health = HealthUnknown, ep_available_units = 0, ep_total_units = 0, ep_result = False, ep_count = 0\<rparr>,
     er_observed_by = no_incarnation, er_job = 0, er_attempt = no_attempt, er_digest = 0\<rparr>"

text \<open>The revision of an observation is the second it was made in.\<close>

definition build_evidence :: "nanos \<Rightarrow> cli_args \<Rightarrow> (string + evidence_record)" where
  "build_evidence clock args = (case args_find args ''--target'' of
     None \<Rightarrow> Inl ''--target is required''
   | Some t_text \<Rightarrow> (case parse_target_id t_text of
       None \<Rightarrow> Inl ''--target is not a target id''
     | Some t \<Rightarrow> (case parse_health (args_get args ''--health'' ''healthy'') of
         None \<Rightarrow> Inl ''--health is not a health value''
       | Some health \<Rightarrow> (case parse_duration_text (args_get args ''--ttl'' ''30s'') of
           None \<Rightarrow> Inl ''--ttl is not a duration''
         | Some ttl \<Rightarrow>
             and_then_use (option_or args ''--source'' 1 parse_u32 ''--source must be a number'') (\<lambda>source.
             and_then_use (option_or args ''--at'' clock (\<lambda>s. parse_time s clock) ''--at is not a time'') (\<lambda>at.
               Inr (default_evidence\<lparr>er_key := EvidenceKey TargetHealth (subject_of t) (ucast source),
                 er_revision := word_of_int (at sdiv kNanosPerSecond) + 1, er_observed_at := at, er_ttl := ttl,
                 er_payload := (er_payload default_evidence)\<lparr>ep_health := health, ep_result := True\<rparr>\<rparr>)))))))"

definition observe_command :: "'w fabric_api \<Rightarrow> nanos \<Rightarrow> cli_args \<Rightarrow> 'w \<Rightarrow> cli_result \<times> 'w" where
  "observe_command api clock args w = (case build_evidence clock args of
     Inl what \<Rightarrow> (misused what, w)
   | Inr e \<Rightarrow> give_command api (CmdObserve e) (''recorded '' @ to_string_health (ep_health (er_payload e)) @ '' for '' @
       to_string_target (sub_target (ek_subject (er_key e)))) w)"

definition show_config :: "string api_result \<Rightarrow> cli_result" where
  "show_config r = (case r of Inl e \<Rightarrow> refused e | Inr s \<Rightarrow> printed s)"

definition usage :: string where
  "usage = concat (map (\<lambda>l. l @ newline)
     [''mfctl -- Maintenance Fabric control interface'',
      '''',
      ''usage: mfctl [global options] <command> [arguments]'',
      '''',
      ''global options'',
      ''  --store PATH        local journal path (default mf-state/journal.mfj)'',
      ''  --addr HOST:PORT    talk to a running mfd instead of a local journal'',
      ''  --topology FILE     load a topology before running the command (local mode)'',
      ''  --policy FILE       load a policy before running the command (local mode)'',
      ''  --actor NAME        operator name recorded in the audit trail (default operator)'',
      ''  --now TIME          local mode clock seed (RFC3339 or epoch:seconds)'',
      ''  --advance DURATION  local mode clock step per tick (default 1s)'',
      ''  --log-level LEVEL   error|warn|info|debug|trace (default warn)'',
      '''',
      ''commands'',
      ''  propose --title T --target ID [--target ID ...] [--priority N] [--reason R]'',
      ''          [--duration D] [--depends JOB] [--no-drain]'',
      ''  approve JOB                     proposed -> validated (arm the request)'',
      ''  arm JOB                         re-arm a blocked job under a new generation'',
      ''  cancel JOB [--reason R]         withdraw a job that has not removed service'',
      ''  start JOB [--max-ticks N]       drive the controller until JOB starts or blocks'',
      ''  tick [--count N]                run scheduler passes'',
      ''  status [JOB]                    show one job or every job'',
      ''  explain JOB [--action A]        deterministic decision explanation'',
      ''  conflicts                       overlapping jobs and live reservations'',
      ''  arbitration                     the most recent arbitration pass'',
      ''  quarantines                     targets withheld from normal service'',
      ''  clear-quarantine ID [--why R]   release a quarantine after inspection'',
      ''  complete JOB --attempt ID [--fail] [--detail D]'',
      ''  restore JOB --attempt ID --target ID [--fail] [--detail D]'',
      ''  observe --target ID --health H --ttl D [--source N]'',
      ''  topology                        print the loaded topology'',
      ''  policy                          print the loaded policy'',
      ''  version                         print the runtime version''])"

text \<open>
  The commands. A command that needs a job without one is refused, so the overview of all jobs is the command
  \<^verbatim>\<open>list\<close>, which \<^verbatim>\<open>main\<close> gives for \<^verbatim>\<open>status\<close> without a job.
\<close>

definition run_command :: "'w fabric_api \<Rightarrow> nanos \<Rightarrow> string \<Rightarrow> cli_args \<Rightarrow> string \<Rightarrow> 'w \<Rightarrow> cli_result \<times> 'w" where
  "run_command api clock command args actor w =
     (if command = ''version'' then (printed version_text, w)
      else if command = ''propose'' then propose_command api args actor w
      else if command \<in> set job_commands then
        (case args_find args ''--job'' of
           None \<Rightarrow> (misused (command @ '' requires a job id''), w)
         | Some s \<Rightarrow> (case parse_id ''job'' s of
             None \<Rightarrow> (misused ''--job is not a job id'', w)
           | Some i \<Rightarrow> job_command api command args actor i w))
      else if command = ''tick'' then tick_command api args w
      else if command = ''list'' then show_list api w
      else if command = ''conflicts'' then show_text api QueryConflicts w
      else if command = ''arbitration'' then show_text api QueryArbitration w
      else if command = ''quarantines'' then show_text api QueryQuarantines w
      else if command = ''clear-quarantine'' then clear_command api args actor w
      else if command = ''observe'' then observe_command api clock args w
      else if command = ''topology'' then (show_config (fa_topology_text api w), w)
      else if command = ''policy'' then (show_config (fa_policy_text api w), w)
      else (\<lparr>cr_code = 2, cr_out = usage, cr_err = ''mfctl: unknown command '' @ quoted command @ newline\<rparr>, w))"

section \<open>The program\<close>

datatype log_level = LogError | LogWarn | LogInfo | LogDebug | LogTrace

definition parse_log_level :: "string \<Rightarrow> log_level option" where
  "parse_log_level s =
     (if s = ''error'' then Some LogError
      else if s = ''warn'' \<or> s = ''warning'' then Some LogWarn
      else if s = ''info'' then Some LogInfo
      else if s = ''debug'' then Some LogDebug
      else if s = ''trace'' then Some LogTrace
      else if s = ''off'' \<or> s = ''none'' then Some LogError
      else None)"

record cli_options =
  op_store :: string
  op_addr :: string
  op_topology :: string
  op_policy :: string
  op_actor :: string
  op_command :: "string option"
  op_seed :: nanos
  op_advance :: nanos
  op_level :: log_level
  op_args :: cli_args

definition default_options :: cli_options where
  "default_options = \<lparr>op_store = ''mf-state/journal.mfj'', op_addr = [], op_topology = [], op_policy = [],
     op_actor = ''operator'', op_command = None, op_seed = 0, op_advance = kNanosPerSecond, op_level = LogWarn, op_args = []\<rparr>"

definition silent_misuse :: cli_result where
  "silent_misuse = \<lparr>cr_code = 2, cr_out = [], cr_err = []\<rparr>"

definition global_options :: "string list" where
  "global_options = [''--store'', ''--addr'', ''--topology'', ''--policy'', ''--actor'', ''--log-level'', ''--now'', ''--advance'']"

definition set_global :: "nanos \<Rightarrow> string \<Rightarrow> string \<Rightarrow> cli_options \<Rightarrow> cli_result + cli_options" where
  "set_global clock name v opt =
     (if name = ''--store'' then Inr (opt\<lparr>op_store := v\<rparr>)
      else if name = ''--addr'' then Inr (opt\<lparr>op_addr := v\<rparr>)
      else if name = ''--topology'' then Inr (opt\<lparr>op_topology := v\<rparr>)
      else if name = ''--policy'' then Inr (opt\<lparr>op_policy := v\<rparr>)
      else if name = ''--actor'' then Inr (opt\<lparr>op_actor := v\<rparr>)
      else if name = ''--log-level'' then
        (case parse_log_level v of None \<Rightarrow> Inl silent_misuse | Some l \<Rightarrow> Inr (opt\<lparr>op_level := l\<rparr>))
      else if name = ''--now'' then
        (case parse_time v clock of None \<Rightarrow> Inl (misused ''--now is not a time'') | Some t \<Rightarrow> Inr (opt\<lparr>op_seed := t\<rparr>))
      else (case parse_duration_text v of
        None \<Rightarrow> Inl (misused ''--advance is not a duration'') | Some d \<Rightarrow> Inr (opt\<lparr>op_advance := d\<rparr>)))"

definition add_arg :: "string \<Rightarrow> string \<Rightarrow> cli_options \<Rightarrow> cli_options" where
  "add_arg name v opt = opt\<lparr>op_args := op_args opt @ [(name, v)]\<rparr>"

text \<open>Before the command stand global options, after it its own; a word that is no option names the job.\<close>

fun parse_line :: "nanos \<Rightarrow> cli_options \<Rightarrow> string list \<Rightarrow> cli_result + cli_options" where
  "parse_line clock opt [] = Inr opt"
| "parse_line clock opt (arg # rest) =
     (if op_command opt = None then
        if arg = ''--help'' \<or> arg = ''-h'' then Inl (printed usage)
        else if arg \<in> set global_options then
          (case rest of
             [] \<Rightarrow> Inl silent_misuse
           | v # rest \<Rightarrow> (case set_global clock arg v opt of Inl r \<Rightarrow> Inl r | Inr opt \<Rightarrow> parse_line clock opt rest))
        else parse_line clock (opt\<lparr>op_command := Some arg\<rparr>) rest
      else if take 2 arg = ''--'' then
        if arg = ''--no-drain'' \<or> arg = ''--fail'' then parse_line clock (add_arg arg [] opt) rest
        else (case rest of
          [] \<Rightarrow> Inl (misused (arg @ '' requires a value''))
        | v # rest \<Rightarrow> parse_line clock (add_arg arg v opt) rest)
      else parse_line clock (add_arg ''--job'' arg opt) rest)"

definition given_command :: "cli_options \<Rightarrow> string" where
  "given_command opt = (case op_command opt of None \<Rightarrow> [] | Some s \<Rightarrow> s)"

definition target_command :: "cli_options \<Rightarrow> string" where
  "target_command opt =
     (if given_command opt = ''status'' \<and> \<not> args_has (op_args opt) ''--job'' then ''list'' else given_command opt)"

definition mfctl_remote ::
    "(string \<Rightarrow> u16 \<Rightarrow> tcp_client result) \<Rightarrow> 'w wire \<Rightarrow> nanos \<Rightarrow> nanos \<Rightarrow> cli_options \<Rightarrow> 'w \<Rightarrow> cli_result \<times> 'w" where
  "mfctl_remote connect net deadline clock opt w = (case parse_endpoint (op_addr opt) of
     None \<Rightarrow> (misused ''--addr must be HOST:PORT'', w)
   | Some (host, port) \<Rightarrow> (case connect host port of
       Inl e \<Rightarrow> (refused (to_api e), w)
     | Inr cl \<Rightarrow>
         (case run_command (remote_api net deadline) clock (target_command opt) (op_args opt) (op_actor opt) (cl, w) of
            (r, _, w) \<Rightarrow> (r, w))))"

text \<open>A step of the preparation that may fail.\<close>

definition prepare :: "string \<Rightarrow> (string \<Rightarrow> controller \<Rightarrow> status \<times> controller) \<Rightarrow> controller \<Rightarrow> status \<times> controller" where
  "prepare path load c = (if path = [] then (ok_status, c) else load path c)"

definition mfctl_local ::
    "(string \<Rightarrow> nanos \<Rightarrow> (controller \<times> recovery_report) result) \<Rightarrow> (string \<Rightarrow> string option) \<Rightarrow> nanos \<Rightarrow> cli_options \<Rightarrow>
     cli_result \<times> controller option" where
  "mfctl_local opening files clock opt =
     (let seed = (if op_seed opt \<noteq> 0 then op_seed opt else clock); now = seed + op_advance opt in
      case opening (op_store opt) seed of
        Inl e \<Rightarrow> (refused (to_api e), None)
      | Inr (c, report) \<Rightarrow>
          (let note = (if op_level opt \<in> {LogInfo, LogDebug, LogTrace} then recovery_to_text report @ newline else []) in
           case prepare (op_topology opt) (api_load_topology files) c of
             (Inl e, c) \<Rightarrow> ((refused (to_api e))\<lparr>cr_err := note @ cr_err (refused (to_api e))\<rparr>, Some c)
           | (Inr _, c) \<Rightarrow>
               (case prepare (op_policy opt) (\<lambda>path. api_load_policy files path seed) c of
                  (Inl e, c) \<Rightarrow> ((refused (to_api e))\<lparr>cr_err := note @ cr_err (refused (to_api e))\<rparr>, Some c)
                | (Inr _, c) \<Rightarrow>
                    (case run_command (local_api now now) clock (target_command opt) (op_args opt) (op_actor opt) c of
                       (r, c) \<Rightarrow> (r\<lparr>cr_err := note @ cr_err r\<rparr>, Some c)))))"

definition mfctl_main ::
    "(string \<Rightarrow> u16 \<Rightarrow> tcp_client result) \<Rightarrow> 'w wire \<Rightarrow> nanos \<Rightarrow>
     (string \<Rightarrow> nanos \<Rightarrow> (controller \<times> recovery_report) result) \<Rightarrow> (string \<Rightarrow> string option) \<Rightarrow> nanos \<Rightarrow> string list \<Rightarrow> 'w \<Rightarrow>
     cli_result \<times> 'w \<times> controller option" where
  "mfctl_main connect net deadline opening files clock argv w = (case parse_line clock default_options argv of
     Inl r \<Rightarrow> (r, w, None)
   | Inr opt \<Rightarrow>
       if given_command opt = [] then (\<lparr>cr_code = 2, cr_out = usage, cr_err = []\<rparr>, w, None)
       else if op_addr opt \<noteq> [] then
         (case mfctl_remote connect net deadline clock opt w of (r, w) \<Rightarrow> (r, w, None))
       else (case mfctl_local opening files clock opt of (r, c) \<Rightarrow> (r, w, c)))"

section \<open>What a run does\<close>

lemmas command_defs = propose_command_def give_command_def show_text_def show_job_def show_list_def tick_command_def
  start_command_def complete_command_def restore_command_def clear_command_def observe_command_def

lemma result_codes [simp]: "cr_code (printed s) = 0" "cr_code (misused s) = 2" "cr_code (refused e) = 1"
  by (simp_all add: printed_def misused_def refused_def)

definition harmless_misuse :: "'w \<Rightarrow> cli_result \<times> 'w \<Rightarrow> bool" where
  "harmless_misuse w rw \<longleftrightarrow> cr_code (fst rw) \<le> 2 \<and> (cr_code (fst rw) = 2 \<longrightarrow> snd rw = w)"

lemma harmless_commands:
  "harmless_misuse w (give_command api cmd said w)" "harmless_misuse w (show_text api q w)"
  "harmless_misuse w (show_job api i action w)" "harmless_misuse w (show_list api w)"
  "harmless_misuse w (propose_command api args actor w)" "harmless_misuse w (tick_command api args w)"
  unfolding harmless_misuse_def command_defs Let_def
  by (auto split: sum.splits prod.splits api_answer.splits option.splits)

lemma show_job_code: "cr_code (fst (show_job api i action w)) < 2"
  unfolding show_job_def Let_def by (auto split: sum.splits prod.splits api_answer.splits)

lemma harmless_unused: "harmless_misuse w (misused what, w)"
  by (simp add: harmless_misuse_def)

lemma harmless_refused: "harmless_misuse w (refused e, w')"
  by (simp add: harmless_misuse_def)

lemma harmless_shown: "harmless_misuse w (show_job api i action w')"
  using show_job_code [of api i action w'] by (simp add: harmless_misuse_def)

lemma harmless_start: "harmless_misuse w (start_command api args i w)"
  by (simp add: start_command_def harmless_unused harmless_refused harmless_shown split: sum.split prod.split option.split)

lemma harmless_reports:
  "harmless_misuse w (complete_command api args i w)" "harmless_misuse w (restore_command api args i w)"
  "harmless_misuse w (clear_command api args actor w)" "harmless_misuse w (observe_command api clock args w)"
  unfolding complete_command_def restore_command_def clear_command_def observe_command_def
  by (simp_all add: harmless_unused harmless_commands split: option.split sum.split prod.split)

lemma harmless_job: "harmless_misuse w (job_command api command args actor i w)"
  by (simp add: job_command_def harmless_commands harmless_start harmless_reports)

lemma harmless_run: "harmless_misuse w (run_command api clock command args actor w)"
proof -
  have "harmless_misuse w (show_config r, w)" "harmless_misuse w (printed s, w)"
      "harmless_misuse w (\<lparr>cr_code = 2, cr_out = usage, cr_err = e\<rparr>, w)" for r s e
    by (simp_all add: harmless_misuse_def show_config_def split: sum.split)
  then show ?thesis
    by (simp add: run_command_def harmless_commands harmless_job harmless_reports harmless_unused split: option.split)
qed

end
