(* ===== verification/Operator_Remote.thy ===== *)
theory Operator_Remote
  imports Operator Daemon_Remote
begin

text \<open>
  The operator's program against the daemon and against a controller of its own. For the commands in
  \<open>call_commands\<close> the two runs leave the controller in the same state and end alike: with the same exit code and
  the same two output streams, except that a refusal is worded differently, with the name of the method before
  its detail, which is cut to what the protocol carries.

  Not among them are \<^verbatim>\<open>propose\<close>, whose actor the protocol does not carry (the daemon names itself), \<^verbatim>\<open>observe\<close>,
  whose evidence loses fields on the way, \<^verbatim>\<open>topology\<close> and \<^verbatim>\<open>policy\<close>, which the daemon does not export, and \<^verbatim>\<open>start\<close>,
  which asks for the state of a job after every pass.
\<close>

section \<open>The calls of a command line\<close>

text \<open>Interfaces that only record the commands given, or the questions asked.\<close>

definition recorder :: "api_command list fabric_api" where
  "recorder = \<lparr>fa_propose = (\<lambda>q actor log. (Inr 1, log)), fa_command = (\<lambda>cmd log. (Inr (), log @ [cmd])),
     fa_query = (\<lambda>q log. (Inr (AnswerSnapshots []), log)), fa_topology_text = (\<lambda>_. Inr []), fa_policy_text = (\<lambda>_. Inr [])\<rparr>"

definition question_recorder :: "api_query list fabric_api" where
  "question_recorder = \<lparr>fa_propose = (\<lambda>q actor log. (Inr 1, log)), fa_command = (\<lambda>cmd log. (Inr (), log)),
     fa_query = (\<lambda>q log. (Inr (AnswerSnapshots []), log @ [q])), fa_topology_text = (\<lambda>_. Inr []), fa_policy_text = (\<lambda>_. Inr [])\<rparr>"

definition issued :: "nanos \<Rightarrow> string \<Rightarrow> cli_args \<Rightarrow> string \<Rightarrow> api_command list" where
  "issued clock command args actor = snd (run_command recorder clock command args actor [])"

definition questions :: "nanos \<Rightarrow> string \<Rightarrow> cli_args \<Rightarrow> string \<Rightarrow> api_query list" where
  "questions clock command args actor = snd (run_command question_recorder clock command args actor [])"

definition honest :: "nanos \<Rightarrow> nanos \<Rightarrow> controller \<Rightarrow> api_command \<Rightarrow> bool" where
  "honest at now c cmd \<longleftrightarrow> (\<forall>e. fst (local_command at now cmd c) = Inl e \<longrightarrow> err_code e \<noteq> Ok)"

text \<open>What is sent fits the protocol, and so does what is sent back.\<close>

definition carried :: "nanos \<Rightarrow> nanos \<Rightarrow> controller \<Rightarrow> api_command list \<Rightarrow> bool" where
  "carried at now c cmds \<longleftrightarrow> (\<forall>cmd \<in> set cmds. command_fits cmd \<and> honest at now c cmd)"

definition answerable :: "nanos \<Rightarrow> controller \<Rightarrow> api_query list \<Rightarrow> bool" where
  "answerable now c qs \<longleftrightarrow> (\<forall>q \<in> set qs. query_fits q \<and> (\<forall>a. local_query now q c = Inr a \<longrightarrow> answer_fits a))"

section \<open>Runs that end alike\<close>

text \<open>The same code and streams, or the same error, reported by the daemon under the name of a method.\<close>

definition told_alike :: "cli_result \<Rightarrow> cli_result \<Rightarrow> bool" where
  "told_alike remote own \<longleftrightarrow> remote = own \<or>
     (\<exists>what e. remote = refused (seen_error what e) \<and> own = refused (to_api e))"

definition same_run :: "cli_result \<times> tcp_client \<times> controller \<Rightarrow> cli_result \<times> controller \<Rightarrow> bool" where
  "same_run remote own \<longleftrightarrow> told_alike (fst remote) (fst own) \<and> snd (snd remote) = snd own"

lemma told_alike_same [simp]: "told_alike r r"
  by (simp add: told_alike_def)

lemma told_alike_refused [simp]: "told_alike (refused (seen_error what e)) (refused (to_api e))"
  by (auto simp: told_alike_def)

lemma told_alike_streams: "told_alike remote own \<Longrightarrow> cr_code remote = cr_code own \<and> cr_out remote = cr_out own"
  by (auto simp: told_alike_def refused_def)

lemma same_give:
  assumes "idle_client cl" "as_sent cmd = cmd" "carried at now c [cmd]"
  shows "same_run (give_command (remote_api (daemon_wire at now) deadline) cmd said (cl, c)) (give_command (local_api at now) cmd said c)"
proof -
  obtain outcome c' where own: "local_command at now cmd c = (outcome, c')" by fastforce
  have fits: "command_fits cmd" "honest at now c cmd" using assms(3) by (simp_all add: carried_def)
  have "remote_command (daemon_wire at now) deadline cmd cl c = (seen_status (snd (snd (command_call cmd))) outcome, after_call cl, c')"
    using remote_command_local [OF assms(1) fits(1)] own assms(2) by simp
  then show ?thesis using own fits(2)
    by (cases outcome) (simp_all add: same_run_def give_command_def remote_api_def local_api_def shown_def seen_status_def honest_def)
qed

lemma same_ask:
  assumes "idle_client cl" "answerable now c [q]"
  shows "fa_query (remote_api (daemon_wire at now) deadline) q (cl, c) =
    (case local_query now q c of Inl e \<Rightarrow> Inl (seen_error (snd (snd (query_call q))) e) | Inr a \<Rightarrow> Inr a, after_call cl, c)"
  using remote_query_local [OF assms(1), of q now c at deadline] assms(2) by (simp add: remote_api_def answerable_def)

lemma own_ask: "fa_query (local_api at now) q c = (case local_query now q c of Inl e \<Rightarrow> Inl (to_api e) | Inr a \<Rightarrow> Inr a, c)"
  by (simp add: local_api_def shown_def)

lemma same_text:
  assumes "idle_client cl" "answerable now c [q]"
  shows "same_run (show_text (remote_api (daemon_wire at now) deadline) q (cl, c)) (show_text (local_api at now) q c)"
  unfolding show_text_def same_ask [OF assms] own_ask
  by (simp add: same_run_def split: sum.split api_answer.split)

lemma same_list:
  assumes "idle_client cl" "answerable now c [QueryList]"
  shows "same_run (show_list (remote_api (daemon_wire at now) deadline) (cl, c)) (show_list (local_api at now) c)"
  unfolding show_list_def same_ask [OF assms] own_ask by (simp add: same_run_def)

lemma same_show:
  assumes "idle_client cl" "answerable now c [QueryStatus i, QueryExplain i action]"
  shows "same_run (show_job (remote_api (daemon_wire at now) deadline) i action (cl, c)) (show_job (local_api at now) i action c)"
proof -
  have parts: "answerable now c [QueryStatus i]" "answerable now c [QueryExplain i action]"
    using assms(2) by (simp_all add: answerable_def)
  have idle: "idle_client (after_call cl)" using assms(1) by simp
  show ?thesis
    unfolding show_job_def same_ask [OF assms(1) parts(1)] own_ask
    by (cases "local_query now (QueryStatus i) c")
      (simp_all add: same_run_def same_ask [OF idle parts(2)] own_ask Let_def split: sum.split api_answer.split)
qed

lemma same_misuse: "same_run (misused what, cl, c) (misused what, c)"
  by (simp add: same_run_def)

text \<open>A pass is refused only by a controller that shuts down, which the program does not take for a failure.\<close>

lemma tick_refusal: "fst (tick now c) = Inl e \<Longrightarrow> err_code e = ShuttingDown"
proof -
  have "fst (tick_loop n now c) = Inl e \<Longrightarrow> err_code e = ShuttingDown" for n
    by (induction n arbitrary: c) (auto simp: make_error_def Let_def split: if_splits prod.splits)
  then show "fst (tick now c) = Inl e \<Longrightarrow> err_code e = ShuttingDown" by (simp add: tick_def)
qed

lemma one_tick_same:
  assumes "idle_client cl"
  shows "one_tick (remote_api (daemon_wire at now) deadline) (cl, c) = (None, after_call cl, snd (tick 0 c))"
    "one_tick (local_api at now) c = (None, snd (tick 0 c))"
proof -
  obtain outcome c' where own: "tick 0 c = (outcome, c')" by fastforce
  have "remote_command (daemon_wire at now) deadline (CmdTick 0) cl c = (seen_status (snd (snd (command_call (CmdTick 0)))) outcome, after_call cl, c')"
    using remote_command_local [OF assms, of "CmdTick 0"] own by (simp add: i64_fits_def)
  then show "one_tick (remote_api (daemon_wire at now) deadline) (cl, c) = (None, after_call cl, snd (tick 0 c))"
    "one_tick (local_api at now) c = (None, snd (tick 0 c))"
    using own tick_refusal [of 0 c]
    by (cases outcome; simp add: one_tick_def remote_api_def local_api_def shown_def seen_status_def seen_error_def to_api_def)+
qed

lemma ticks_same:
  "idle_client cl \<Longrightarrow> \<exists>cl' c'. run_ticks (remote_api (daemon_wire at now) deadline) n (cl, c) = (None, cl', c') \<and>
     run_ticks (local_api at now) n c = (None, c')"
  by (induction n arbitrary: cl c) (simp_all add: one_tick_same)

lemma same_ticks:
  assumes "idle_client cl"
  shows "same_run (tick_command (remote_api (daemon_wire at now) deadline) args (cl, c)) (tick_command (local_api at now) args c)"
proof -
  have "same_run (case run_ticks (remote_api (daemon_wire at now) deadline) n (cl, c) of (Some e, w) \<Rightarrow> (refused e, w) | (None, w) \<Rightarrow> (r, w))
      (case run_ticks (local_api at now) n c of (Some e, w) \<Rightarrow> (refused e, w) | (None, w) \<Rightarrow> (r, w))" for n r
    using ticks_same [OF assms, of at now deadline n c] by (auto simp: same_run_def)
  then show ?thesis by (simp add: tick_command_def same_misuse split: sum.split)
qed

section \<open>Commands\<close>

definition call_commands :: "string list" where
  "call_commands = [''approve'', ''arm'', ''cancel'', ''complete'', ''restore'', ''clear-quarantine'', ''tick'', ''status'',
     ''explain'', ''list'', ''conflicts'', ''arbitration'', ''quarantines'', ''version'']"

lemma recorded: "give_command recorder cmd said log = (printed (said @ newline), log @ [cmd])"
  by (simp add: give_command_def recorder_def)

lemma questions_recorded:
  "snd (show_text question_recorder q log) = log @ [q]" "snd (show_list question_recorder log) = log @ [QueryList]"
  "snd (show_job question_recorder i action log) = log @ [QueryStatus i, QueryExplain i action]"
  by (simp_all add: show_text_def show_list_def show_job_def question_recorder_def)

lemma job_forms:
  "job_command api ''approve'' args actor i w = give_command api (CmdApprove i actor) (''approved '' @ to_string_job i) w"
  "job_command api ''arm'' args actor i w =
     give_command api (CmdRearm i actor) (''re-armed '' @ to_string_job i @ '' under a new generation'') w"
  "job_command api ''cancel'' args actor i w =
     give_command api (CmdCancel i actor (args_get args ''--reason'' ''operator request'')) (''cancelled '' @ to_string_job i) w"
  "job_command api ''complete'' args actor i w = complete_command api args i w"
  "job_command api ''restore'' args actor i w = restore_command api args i w"
  "job_command api ''status'' args actor i w = show_job api i ''status'' w"
  "job_command api ''explain'' args actor i w = show_text api (QueryExplain i (args_get args ''--action'' ''status'')) w"
  by (simp_all add: job_command_def)

lemma same_job:
  assumes "command \<in> {''approve'', ''arm'', ''cancel'', ''complete'', ''restore'', ''status'', ''explain''}" "idle_client cl"
    and "carried at now c (snd (job_command recorder command args actor i []))"
    and "answerable now c (snd (job_command question_recorder command args actor i []))"
  shows "same_run (job_command (remote_api (daemon_wire at now) deadline) command args actor i (cl, c))
    (job_command (local_api at now) command args actor i c)"
proof -
  note given = same_give [OF assms(2), of _ at now c]
  have calls: "carried at now c (snd (give_command recorder cmd said [])) \<longleftrightarrow> carried at now c [cmd]" for cmd said
    by (simp add: recorded)
  from assms(1) consider "command = ''approve''" | "command = ''arm''" | "command = ''cancel''" | "command = ''complete''"
    | "command = ''restore''" | "command = ''status''" | "command = ''explain''" by (elim insertE emptyE; simp)
  then show ?thesis
  proof cases
    case 1 show ?thesis using assms(3) unfolding 1 job_forms calls by (intro given) simp_all
  next
    case 2 show ?thesis using assms(3) unfolding 2 job_forms calls by (intro given) simp_all
  next
    case 3 show ?thesis using assms(3) unfolding 3 job_forms calls by (intro given) simp_all
  next
    case 4 show ?thesis using assms(3) unfolding 4 job_forms complete_command_def
      by (auto simp: calls same_misuse intro!: given split: option.splits)
  next
    case 5 show ?thesis using assms(3) unfolding 5 job_forms restore_command_def
      by (auto simp: calls same_misuse intro!: given split: option.splits)
  next
    case 6 show ?thesis using assms(4) unfolding 6 job_forms questions_recorded by (simp add: same_show [OF assms(2)])
  next
    case 7 show ?thesis using assms(4) unfolding 7 job_forms questions_recorded by (simp add: same_text [OF assms(2)])
  qed
qed

lemma same_clear:
  assumes "idle_client cl" "carried at now c (snd (clear_command recorder args actor []))"
  shows "same_run (clear_command (remote_api (daemon_wire at now) deadline) args actor (cl, c)) (clear_command (local_api at now) args actor c)"
  using assms(2) unfolding clear_command_def
  by (auto simp: recorded same_misuse intro!: same_give [OF assms(1)] split: option.splits)

lemma run_job:
  assumes "command \<in> set job_commands"
  shows "run_command api clock command args actor w = (case args_find args ''--job'' of
     None \<Rightarrow> (misused (command @ '' requires a job id''), w)
   | Some s \<Rightarrow> (case parse_id ''job'' s of
       None \<Rightarrow> (misused ''--job is not a job id'', w)
     | Some i \<Rightarrow> job_command api command args actor i w))"
proof -
  have "command \<noteq> ''version''" "command \<noteq> ''propose''" using assms by (auto simp: job_commands_def)
  then show ?thesis using assms by (simp add: run_command_def)
qed

lemma run_clear: "run_command api clock ''clear-quarantine'' args actor w = clear_command api args actor w"
  by (simp add: run_command_def job_commands_def)

lemma run_forms:
  "run_command api clock ''tick'' args actor w = tick_command api args w"
  "run_command api clock ''list'' args actor w = show_list api w"
  "run_command api clock ''conflicts'' args actor w = show_text api QueryConflicts w"
  "run_command api clock ''arbitration'' args actor w = show_text api QueryArbitration w"
  "run_command api clock ''quarantines'' args actor w = show_text api QueryQuarantines w"
  "run_command api clock ''version'' args actor w = (printed version_text, w)"
  by (simp_all add: run_command_def job_commands_def)

lemma run_same_job:
  assumes "command \<in> {''approve'', ''arm'', ''cancel'', ''complete'', ''restore'', ''status'', ''explain''}" "idle_client cl"
    and "carried at now c (issued clock command args actor)" "answerable now c (questions clock command args actor)"
  shows "same_run (run_command (remote_api (daemon_wire at now) deadline) clock command args actor (cl, c))
    (run_command (local_api at now) clock command args actor c)"
proof -
  have job: "command \<in> set job_commands" using assms(1) by (auto simp: job_commands_def)
  show ?thesis using same_job [OF assms(1,2)] assms(3,4)
    by (simp add: run_job [OF job] issued_def questions_def same_misuse split: option.splits)
qed

lemma run_same:
  assumes "command \<in> set call_commands" "idle_client cl"
    and "carried at now c (issued clock command args actor)" "answerable now c (questions clock command args actor)"
  shows "same_run (run_command (remote_api (daemon_wire at now) deadline) clock command args actor (cl, c))
    (run_command (local_api at now) clock command args actor c)"
proof -
  from assms(1) consider (job) "command \<in> {''approve'', ''arm'', ''cancel'', ''complete'', ''restore'', ''status'', ''explain''}"
    | "command = ''clear-quarantine''" | "command = ''tick''" | "command = ''list''" | "command = ''conflicts''"
    | "command = ''arbitration''" | "command = ''quarantines''" | "command = ''version''"
    unfolding call_commands_def list.set by (elim insertE emptyE; simp)
  then show ?thesis
  proof cases
    case job show ?thesis by (rule run_same_job [OF job assms(2-4)])
  next
    case 2 show ?thesis using same_clear [OF assms(2)] assms(3) by (simp add: 2 run_clear issued_def)
  next
    case 3 show ?thesis by (simp add: 3 run_forms same_ticks [OF assms(2)])
  next
    case 4 show ?thesis using assms(4) by (simp add: 4 run_forms questions_def questions_recorded same_list [OF assms(2)])
  next
    case 5 show ?thesis using assms(4) by (simp add: 5 run_forms questions_def questions_recorded same_text [OF assms(2)])
  next
    case 6 show ?thesis using assms(4) by (simp add: 6 run_forms questions_def questions_recorded same_text [OF assms(2)])
  next
    case 7 show ?thesis using assms(4) by (simp add: 7 run_forms questions_def questions_recorded same_text [OF assms(2)])
  next
    case 8 show ?thesis by (simp add: 8 run_forms same_run_def)
  qed
qed

text \<open>At the level of the program: a misuse leaves the daemon as it was.\<close>

lemma remote_misuse: "harmless_misuse w (mfctl_remote connect net deadline clock opt w)"
proof -
  have "harmless_misuse w (case run_command (remote_api net deadline) clock command args actor (cl, w) of (r, _, w) \<Rightarrow> (r, w))"
    for command args actor cl
    using harmless_run [of "(cl, w)" "remote_api net deadline" clock command args actor]
    by (cases "run_command (remote_api net deadline) clock command args actor (cl, w)") (auto simp: harmless_misuse_def)
  then show ?thesis
    by (simp add: mfctl_remote_def harmless_unused harmless_refused split: option.split sum.split prod.split)
qed

lemma main_misuse:
  assumes "mfctl_main connect net deadline opening files clock argv w = (r, w', c)" "cr_code r = 2"
  shows "w' = w"
proof (cases "parse_line clock default_options argv")
  case (Inl x)
  then show ?thesis using assms(1) by (simp add: mfctl_main_def)
next
  case (Inr opt)
  have "harmless_misuse w (mfctl_remote connect net deadline clock opt w)" by (rule remote_misuse)
  then show ?thesis using assms Inr
    by (auto simp: mfctl_main_def harmless_misuse_def split: if_splits prod.splits)
qed

end
