(* ===== verification/Operator_Clock.thy ===== *)
theory Operator_Clock
  imports Operator_Remote Controller_Safety
begin

text \<open>
  The passes an operator asks for. The program gives the pass the time zero, and the controller takes it for the
  time of the pass: everything observed since is dated in the future and proves nothing.
\<close>

lemma ticks_recorded: "run_ticks recorder n log = (None, log @ replicate n (CmdTick 0))"
  by (induction n arbitrary: log) (simp_all add: one_tick_def recorder_def)

lemma settling_recorded: "run_until_settled recorder i n log = (None, log @ replicate n (CmdTick 0))"
  by (induction n arbitrary: log) (simp_all add: one_tick_def recorder_def settled_def snapshots_of_def)

lemma show_job_recorded: "snd (show_job recorder i action log) = log"
  by (simp add: show_job_def recorder_def)

lemma operator_ticks:
  assumes "command = ''tick'' \<or> command = ''start''" "cmd \<in> set (issued clock command args actor)"
  shows "cmd = CmdTick 0"
  using assms(1)
proof
  assume "command = ''tick''"
  then have "issued clock command args actor = snd (tick_command recorder args [])"
    by (simp add: issued_def run_command_def job_commands_def)
  then show ?thesis using assms(2) by (auto simp: tick_command_def ticks_recorded split: sum.splits)
next
  assume start: "command = ''start''"
  have form: "job_command recorder ''start'' args actor i w = start_command recorder args i w" for i w by (simp add: job_command_def)
  have job: "''start'' \<in> set job_commands" by (simp add: job_commands_def)
  show ?thesis using assms(2) unfolding start issued_def run_job [OF job] form
    by (auto simp: start_command_def settling_recorded show_job_recorded split: option.splits sum.splits)
qed

definition observed_after :: "nanos \<Rightarrow> evidence_store \<Rightarrow> bool" where
  "observed_after when s \<longleftrightarrow> list_all (\<lambda>e. when < er_observed_at (snd e)) (es_records s)"

lemma future_not_fresh:
  assumes "observed_after (now + kMaxClockSkewNanos) s"
  shows "fresh_sources s kind subject cur now = []"
proof -
  have "\<not> fresh (evaluate s (plain_query k cur now))" for k
  proof (cases "find_evidence s k")
    case (Some r)
    then have "(k, r) \<in> set (es_records s)" by (auto simp: find_evidence_def om_find_def dest: map_of_SomeD)
    then have "er_observed_at r - now > kMaxClockSkewNanos" using assms by (auto simp: observed_after_def list_all_iff)
    then show ?thesis by (simp add: evaluate_def Some plain_query_def Let_def fresh_def id_valid_def attempt_valid_def no_attempt_def)
  qed (simp add: evaluate_def plain_query_def fresh_def)
  then show ?thesis by (simp add: fresh_sources_def sort_unique_def)
qed

lemma future_starts_nothing:
  assumes "observed_after (pc_now pc + kMaxClockSkewNanos) (ps_evidence (ct_state c))" "pc_view pc = pass_view (pc_now pc) c"
    and "po_min_evidence_sources (ct_policy c) \<noteq> 0" "j_removal_set j \<noteq> []"
    and "drive_stage j pc c = (True, j', pc', c')" "j_state j' = InMaintenance"
  shows "j_state j = InMaintenance"
proof (rule ccontr)
  assume new: "j_state j \<noteq> InMaintenance"
  have ready: "j_state j = Ready" by (rule starts_in_ready [OF assms(5,6) new])
  then have "may_start j pc c"
    using ready_starts_iff [OF ready, of pc c] assms(5,6) by (simp add: drive_stage_def reaches_def)
  moreover obtain t where "t \<in> set (j_removal_set j)" using assms(4) by (cases "j_removal_set j") auto
  ultimately have "is_fresh (pass_view (pc_now pc) c) t" using may_start_checks(2) assms(2) by metis
  moreover have "unat (po_min_evidence_sources (ct_policy c)) \<noteq> 0" using assms(3) by (simp add: unat_eq_0)
  ultimately show False
    by (simp add: is_fresh_def pass_view_def get_build_view readiness_of_def future_not_fresh [OF assms(1)] Let_def
        split: if_splits)
qed

end
