(* ===== verification/Daemon_Startup.thy ===== *)
theory Daemon_Startup
  imports Operator Drain_Ports
begin

text \<open>
  How the two server programs start (\<^verbatim>\<open>apps/mfd/main.cpp\<close>, \<^verbatim>\<open>apps/drain_sim/main.cpp\<close>): their options, the opening and
  the configuration of the controller, and the observations the daemon publishes itself. The threads of the
  daemon, which answer requests, run passes and publish observations, meet only in the controller, whose
  operations its mutex separates; \<open>daemon_step\<close> is one such operation.
\<close>

section \<open>Options\<close>

definition parse_u16 :: "string \<Rightarrow> u16 option" where
  "parse_u16 s = (case parse_u32 s of None \<Rightarrow> None | Some v \<Rightarrow> if v > 65535 then None else Some (ucast v))"

record mfd_options =
  mo_store_path :: string
  mo_topology_path :: string
  mo_policy_path :: string
  mo_bind_address :: string
  mo_port :: u16
  mo_drain_address :: string
  mo_drain_bind :: string
  mo_drain_port :: u16
  mo_tick_interval :: nanos
  mo_workers :: u32
  mo_log_level :: log_level
  mo_static_health :: bool
  mo_once :: bool

definition default_mfd_options :: mfd_options where
  "default_mfd_options = \<lparr>mo_store_path = ''mf-state/journal.mfj'', mo_topology_path = [], mo_policy_path = [],
     mo_bind_address = ''127.0.0.1'', mo_port = 9700, mo_drain_address = [], mo_drain_bind = ''127.0.0.1'',
     mo_drain_port = 0, mo_tick_interval = kNanosPerSecond, mo_workers = 4, mo_log_level = LogInfo,
     mo_static_health = False, mo_once = False\<rparr>"

text \<open>An option with a value. The second result is what is written to the error stream when it is refused.\<close>

definition set_mfd_option :: "string \<Rightarrow> string \<Rightarrow> mfd_options \<Rightarrow> string + mfd_options" where
  "set_mfd_option name v opt =
     (if name = ''--store'' then Inr (opt\<lparr>mo_store_path := v\<rparr>)
      else if name = ''--topology'' then Inr (opt\<lparr>mo_topology_path := v\<rparr>)
      else if name = ''--policy'' then Inr (opt\<lparr>mo_policy_path := v\<rparr>)
      else if name = ''--bind'' then Inr (opt\<lparr>mo_bind_address := v\<rparr>)
      else if name = ''--workers'' then (case parse_u32 v of None \<Rightarrow> Inl [] | Some n \<Rightarrow> Inr (opt\<lparr>mo_workers := n\<rparr>))
      else if name = ''--port'' then (case parse_u16 v of None \<Rightarrow> Inl [] | Some n \<Rightarrow> Inr (opt\<lparr>mo_port := n\<rparr>))
      else if name = ''--tick-interval'' then
        (case parse_duration_text v of None \<Rightarrow> Inl [] | Some d \<Rightarrow> Inr (opt\<lparr>mo_tick_interval := d\<rparr>))
      else if name = ''--drain-address'' then Inr (opt\<lparr>mo_drain_address := v\<rparr>)
      else if name = ''--drain-bind'' then Inr (opt\<lparr>mo_drain_bind := v\<rparr>)
      else if name = ''--drain-port'' then (case parse_u16 v of None \<Rightarrow> Inl [] | Some n \<Rightarrow> Inr (opt\<lparr>mo_drain_port := n\<rparr>))
      else if name = ''--health-provider'' then
        if v = ''none'' then Inr (opt\<lparr>mo_static_health := False\<rparr>)
        else if v = ''static-healthy'' then Inr (opt\<lparr>mo_static_health := True\<rparr>)
        else Inl (''mfd: unknown health provider '' @ quoted v @ newline)
      else (case parse_log_level v of None \<Rightarrow> Inl [] | Some l \<Rightarrow> Inr (opt\<lparr>mo_log_level := l\<rparr>)))"

definition mfd_value_options :: "string list" where
  "mfd_value_options = [''--store'', ''--topology'', ''--policy'', ''--bind'', ''--workers'', ''--port'', ''--tick-interval'',
     ''--drain-address'', ''--drain-bind'', ''--drain-port'', ''--health-provider'', ''--log-level'']"

text \<open>\<^verbatim>\<open>--help\<close> ends the program; otherwise the options, or the message of the refusal.\<close>

datatype parsed_options = ShowHelp | BadOptions string | GoodOptions mfd_options

fun parse_options :: "string list \<Rightarrow> mfd_options \<Rightarrow> parsed_options" where
  "parse_options [] opt = GoodOptions opt"
| "parse_options (arg # rest) opt =
     (if arg = ''--help'' \<or> arg = ''-h'' then ShowHelp
      else if arg \<in> set mfd_value_options then
        (case rest of
           [] \<Rightarrow> BadOptions []
         | v # rest \<Rightarrow> (case set_mfd_option arg v opt of Inl e \<Rightarrow> BadOptions e | Inr opt \<Rightarrow> parse_options rest opt))
      else if arg = ''--once'' then parse_options rest (opt\<lparr>mo_once := True\<rparr>)
      else BadOptions (''mfd: unknown option '' @ quoted arg @ newline))"

section \<open>Starting the daemon\<close>

datatype drain_choice = InProcessDrain | RemoteDrain string u16

definition choose_drain :: "mfd_options \<Rightarrow> drain_choice option" where
  "choose_drain opt =
     (if mo_drain_address opt = [] then Some InProcessDrain
      else case parse_endpoint (mo_drain_address opt) of None \<Rightarrow> None | Some (host, port) \<Rightarrow> Some (RemoteDrain host port))"

definition mfd_refused :: "error \<Rightarrow> cli_result" where
  "mfd_refused e = \<lparr>cr_code = 1, cr_out = [], cr_err = ''mfd: '' @ format_error e @ newline\<rparr>"

text \<open>The controller the daemon serves, or how the program ended before it served one.\<close>

definition daemon_start ::
    "(drain_choice \<Rightarrow> string \<Rightarrow> (controller \<times> recovery_report) result) \<Rightarrow> (string \<Rightarrow> string option) \<Rightarrow> nanos \<Rightarrow> mfd_options \<Rightarrow>
     cli_result + controller" where
  "daemon_start opening files now opt = (case choose_drain opt of
     None \<Rightarrow> Inl \<lparr>cr_code = 2, cr_out = [], cr_err = ''mfd: --drain-address must be HOST:PORT'' @ newline\<rparr>
   | Some choice \<Rightarrow> (case opening choice (mo_store_path opt) of
       Inl e \<Rightarrow> Inl \<lparr>cr_code = 1, cr_out = [], cr_err = ''mfd: cannot open the controller: '' @ format_error e @ newline\<rparr>
     | Inr (c, _) \<Rightarrow> (case prepare (mo_topology_path opt) (api_load_topology files) c of
         (Inl e, _) \<Rightarrow> Inl (mfd_refused e)
       | (Inr _, c) \<Rightarrow> (case prepare (mo_policy_path opt) (\<lambda>path. api_load_policy files path now) c of
           (Inl e, _) \<Rightarrow> Inl (mfd_refused e)
         | (Inr _, c) \<Rightarrow> Inr c))))"

section \<open>The running daemon\<close>

text \<open>An observation that every target is healthy; the counter is not reset between targets.\<close>

definition static_health :: "nanos \<Rightarrow> u64 \<Rightarrow> controller \<Rightarrow> target_id \<Rightarrow> evidence_record" where
  "static_health now revision c t = default_evidence\<lparr>er_key := EvidenceKey TargetHealth (subject_of t) 1,
     er_revision := revision, er_observed_at := now, er_ttl := ttl_for (ct_policy c) TargetHealth, er_klass := Volatile,
     er_payload := (er_payload default_evidence)\<lparr>ep_health := Healthy, ep_result := True\<rparr>\<rparr>"

fun publish_to :: "nanos \<Rightarrow> target_id list \<Rightarrow> u64 \<times> controller \<Rightarrow> u64 \<times> controller" where
  "publish_to now [] rc = rc"
| "publish_to now (t # ts) rc =
     publish_to now ts (fst rc + 1, snd (observe_report (static_health now (fst rc + 1) (snd rc) t) (snd rc)))"

definition publish_health :: "nanos \<Rightarrow> u64 \<times> controller \<Rightarrow> u64 \<times> controller" where
  "publish_health now rc = publish_to now (map fst (tp_targets (ct_topology (snd rc)))) rc"

datatype daemon_event = DeRequest nanos nanos frame | DeTick nanos | DePublish nanos

record daemon =
  dm_controller :: controller
  dm_health_revision :: u64
  dm_requests :: u64

definition daemon_step :: "mfd_options \<Rightarrow> daemon_event \<Rightarrow> daemon \<Rightarrow> daemon" where
  "daemon_step opt ev d = (case ev of
     DeRequest at now f \<Rightarrow> d\<lparr>dm_controller := snd (snd (rpc_handler (daemon_handle at now) f new_frame (dm_controller d))), dm_requests := dm_requests d + 1\<rparr>
   | DeTick now \<Rightarrow> d\<lparr>dm_controller := snd (tick now (dm_controller d))\<rparr>
   | DePublish now \<Rightarrow>
       if mo_static_health opt then
         (case publish_health now (dm_health_revision d, dm_controller d) of
            (r, c) \<Rightarrow> d\<lparr>dm_health_revision := r, dm_controller := c\<rparr>)
       else d)"

definition daemon_run :: "mfd_options \<Rightarrow> daemon_event list \<Rightarrow> daemon \<Rightarrow> daemon" where
  "daemon_run opt evs d = fold (daemon_step opt) evs d"

definition daemon_begin :: "controller \<Rightarrow> daemon" where
  "daemon_begin c = \<lparr>dm_controller = c, dm_health_revision = 0, dm_requests = 0\<rparr>"

section \<open>The drain simulator\<close>

record sim_options =
  so_bind_address :: string
  so_port :: u16
  so_workers :: u32
  so_granted_state :: drain_state
  so_fail_next :: u32
  so_drop_on_query :: bool
  so_fence_refresh :: bool
  so_log_level :: log_level

definition default_sim_options :: sim_options where
  "default_sim_options = \<lparr>so_bind_address = ''127.0.0.1'', so_port = 9800, so_workers = 2, so_granted_state = Drained,
     so_fail_next = 0, so_drop_on_query = False, so_fence_refresh = True, so_log_level = LogInfo\<rparr>"

definition sim_value_options :: "string list" where
  "sim_value_options = [''--bind'', ''--port'', ''--workers'', ''--granted-state'', ''--fail-next'', ''--log-level'']"

definition set_sim_option :: "string \<Rightarrow> string \<Rightarrow> sim_options \<Rightarrow> sim_options option" where
  "set_sim_option name v opt =
     (if name = ''--bind'' then Some (opt\<lparr>so_bind_address := v\<rparr>)
      else if name = ''--port'' then map_option (\<lambda>n. opt\<lparr>so_port := n\<rparr>) (parse_u16 v)
      else if name = ''--workers'' then map_option (\<lambda>n. opt\<lparr>so_workers := n\<rparr>) (parse_u32 v)
      else if name = ''--granted-state'' then map_option (\<lambda>g. opt\<lparr>so_granted_state := g\<rparr>) (parse_drain_state v)
      else if name = ''--fail-next'' then map_option (\<lambda>n. opt\<lparr>so_fail_next := n\<rparr>) (parse_u32 v)
      else map_option (\<lambda>l. opt\<lparr>so_log_level := l\<rparr>) (parse_log_level v))"

text \<open>The exit code of a program that does not start, or its options.\<close>

fun parse_sim_options :: "string list \<Rightarrow> sim_options \<Rightarrow> nat + sim_options" where
  "parse_sim_options [] opt = Inr opt"
| "parse_sim_options (arg # rest) opt =
     (if arg = ''--help'' \<or> arg = ''-h'' then Inl 0
      else if arg \<in> set sim_value_options then
        (case rest of
           [] \<Rightarrow> Inl 2
         | v # rest \<Rightarrow> (case set_sim_option arg v opt of None \<Rightarrow> Inl 2 | Some opt \<Rightarrow> parse_sim_options rest opt))
      else if arg = ''--drop-on-query'' then parse_sim_options rest (opt\<lparr>so_drop_on_query := True\<rparr>)
      else if arg = ''--allow-foreign-refresh'' then parse_sim_options rest (opt\<lparr>so_fence_refresh := False\<rparr>)
      else Inl 2)"

definition sim_service :: "sim_options \<Rightarrow> drain_service" where
  "sim_service opt = new_drain_service (so_granted_state opt) (so_fence_refresh opt) (so_fail_next opt) (so_drop_on_query opt)"

section \<open>What the daemon publishes\<close>

text \<open>A round of publishing counts once for every target.\<close>

lemma publish_counts: "fst (publish_to now ts rc) = fst rc + of_nat (length ts)"
  by (induction ts arbitrary: rc) (simp_all add: add.assoc)

end
