(* ===== verification/Operator_Properties.thy ===== *)
theory Operator_Properties
  imports Operator_Clock Daemon_Startup Controller_Examples
begin

text \<open>The properties of the operator's program.\<close>

text \<open>
  C33. Working through the daemon is working on the controller: for every command line of \<^verbatim>\<open>approve\<close>, \<^verbatim>\<open>arm\<close>,
  \<^verbatim>\<open>cancel\<close>, \<^verbatim>\<open>complete\<close>, \<^verbatim>\<open>restore\<close>, \<^verbatim>\<open>clear-quarantine\<close>, \<^verbatim>\<open>tick\<close>, \<^verbatim>\<open>status\<close>, \<^verbatim>\<open>explain\<close>, \<^verbatim>\<open>list\<close>, \<^verbatim>\<open>conflicts\<close>,
  \<^verbatim>\<open>arbitration\<close>, \<^verbatim>\<open>quarantines\<close> and \<^verbatim>\<open>version\<close>, the program run against the daemon over an intact connection leaves
  the controller in the same state as when it is run on that controller. Both runs exit with the same code and
  write the same to both output streams, or both are refused with the same error code, where the daemon's error
  carries the name of the method before its detail. Provided are that the texts sent and the answers fit the
  protocol and that no refusal carries the code of success. (\<^verbatim>\<open>propose\<close> and \<^verbatim>\<open>observe\<close> lose the actor and fields of the
  evidence on the way, \<^verbatim>\<open>topology\<close> and \<^verbatim>\<open>policy\<close> are not exported, and \<^verbatim>\<open>start\<close> is not covered.)
\<close>
theorem operator_remote_is_local:
  assumes "command \<in> set call_commands" "idle_client cl"
    and "carried at now c (issued clock command args actor)" "answerable now c (questions clock command args actor)"
  shows "same_run (run_command (remote_api (daemon_wire at now) deadline) clock command args actor (cl, c))
    (run_command (local_api at now) clock command args actor c)"
  using assms by (rule run_same)

lemma demo_question: "issued 0 ''quarantines'' [] ''ops'' = []" "questions 0 ''quarantines'' [] ''ops'' = [QueryQuarantines]"
  by (simp_all add: issued_def questions_def run_forms questions_recorded) (simp add: show_text_def recorder_def)

lemma demo_quarantines: "quarantines_text (demo_controller demo_ledger) = ''no quarantined targets'' @ newline"
  by (simp add: quarantines_text_def list_quarantines_def demo_state_def new_state_def empty_quarantine_def)

lemma demo_approval: "issued 0 ''approve'' [(''--job'', to_string_job 9)] ''ops'' = [CmdApprove 9 ''ops'']"
    "questions 0 ''approve'' [(''--job'', to_string_job 9)] ''ops'' = []"
  by (simp_all add: issued_def questions_def run_job job_commands_def args_find_def parse_to_string_id job_command_def recorded)
    (simp add: give_command_def question_recorder_def)

lemma demo_carried: "carried 0 200 (demo_controller demo_ledger) [CmdApprove 9 ''ops'']"
  by (simp add: carried_def honest_def limits approve_def find_job_def demo_jobs_def om_find_def no_such_job_def make_error_def)

theorem operator_remote_is_local_witness:
  "cr_code (fst (run_command (local_api 0 200) 0 ''quarantines'' [] ''ops'' (demo_controller demo_ledger))) = 0 \<and>
   same_run (run_command (remote_api (daemon_wire 0 200) 0) 0 ''quarantines'' [] ''ops'' (connected_client, demo_controller demo_ledger))
     (run_command (local_api 0 200) 0 ''quarantines'' [] ''ops'' (demo_controller demo_ledger)) \<and>
   same_run (run_command (remote_api (daemon_wire 0 200) 0) 0 ''approve'' [(''--job'', to_string_job 9)] ''ops''
       (connected_client, demo_controller demo_ledger))
     (run_command (local_api 0 200) 0 ''approve'' [(''--job'', to_string_job 9)] ''ops'' (demo_controller demo_ledger))"
proof (intro conjI)
  show "cr_code (fst (run_command (local_api 0 200) 0 ''quarantines'' [] ''ops'' (demo_controller demo_ledger))) = 0"
    by (simp add: run_forms show_text_def local_api_def shown_def)
qed (rule operator_remote_is_local; simp add: call_commands_def idle_client_def connected_client_def demo_question demo_approval
  demo_carried carried_def [of _ _ _ "[]"] answerable_def demo_quarantines text_fits_def limits)+

text \<open>
  C34. A misused command changes nothing: whatever the interface behind it, a run of a command exits with 0, 1
  or 2, and with 2, the code for a command line that is wrong, only when it has left the state as it was; a whole run of
  the program that exits with 2 has not touched the daemon.
\<close>
theorem misuse_changes_nothing:
  "cr_code (fst (run_command api clock command args actor w)) \<le> 2 \<and>
   (cr_code (fst (run_command api clock command args actor w)) = 2 \<longrightarrow> snd (run_command api clock command args actor w) = w) \<and>
   (mfctl_main connect net deadline opening files clock argv v = (r, v', c) \<longrightarrow> cr_code r = 2 \<longrightarrow> v' = v)"
  using harmless_run [of w api clock command args actor] main_misuse by (auto simp: harmless_misuse_def)

theorem misuse_changes_nothing_witness:
  "snd (run_command (local_api 0 0) 0 ''cancel'' [] ''ops'' (demo_controller demo_ledger)) = demo_controller demo_ledger"
proof -
  have "cr_code (fst (run_command (local_api 0 0) 0 ''cancel'' [] ''ops'' (demo_controller demo_ledger))) = 2"
    by (simp add: run_job job_commands_def args_find_def)
  then show ?thesis by (rule misuse_changes_nothing [THEN conjunct2, THEN conjunct1, THEN mp])
qed

text \<open>
  C32. Passes asked for by the operator start nothing: the commands \<^verbatim>\<open>tick\<close> and \<^verbatim>\<open>start\<close> give every pass the time zero,
  whatever the clock says, and a pass at time zero begins no maintenance, however ready the job, when the evidence
  was observed later than the tolerated skew after zero and the policy asks for at least one source.
\<close>
theorem operator_passes_start_nothing:
  assumes "pc_now pc = 0" "pc_view pc = pass_view 0 c" "po_min_evidence_sources (ct_policy c) \<noteq> 0" "j_removal_set j \<noteq> []"
    and "observed_after kMaxClockSkewNanos (ps_evidence (ct_state c))"
  shows "(\<forall>command \<in> {''tick'', ''start''}. \<forall>cmd \<in> set (issued clock command args actor).
      local_command at now cmd c = tick 0 c) \<and>
    (\<forall>j' pc' c'. drive_stage j pc c = (True, j', pc', c') \<longrightarrow> j_state j' = InMaintenance \<longrightarrow> j_state j = InMaintenance)"
proof -
  have "local_command at now cmd c = tick 0 c"
    if "command \<in> {''tick'', ''start''}" "cmd \<in> set (issued clock command args actor)" for command cmd
    using operator_ticks [OF _ that(2)] that(1) by auto
  then show ?thesis using future_starts_nothing [of pc c j] assms by simp
qed

definition late_evidence :: evidence_store where
  "late_evidence = (new_evidence_store 16)\<lparr>es_records :=
     [(er_key (demo_evidence 1), (demo_evidence 1)\<lparr>er_observed_at := 1750000000000000000\<rparr>)]\<rparr>"

definition late_controller :: controller where
  "late_controller = (demo_controller demo_ledger)\<lparr>ct_store := (ct_store (demo_controller demo_ledger))\<lparr>
     st_state := (ct_state (demo_controller demo_ledger))\<lparr>ps_evidence := late_evidence\<rparr>\<rparr>\<rparr>"

theorem operator_passes_start_nothing_witness:
  "\<nexists>j' pc' c'. drive_stage demo_ready \<lparr>pc_now = 0, pc_view = pass_view 0 late_controller, pc_actions = Some []\<rparr> late_controller =
     (True, j', pc', c') \<and> j_state j' = InMaintenance"
proof -
  have "observed_after kMaxClockSkewNanos (ps_evidence (ct_state late_controller))"
    by (simp add: observed_after_def late_controller_def ct_state_def late_evidence_def new_evidence_store_def limits)
  moreover have "po_min_evidence_sources (ct_policy late_controller) \<noteq> 0"
    by (simp add: late_controller_def demo_policy_def default_policy_def)
  moreover have "j_removal_set demo_ready \<noteq> []" "j_state demo_ready \<noteq> InMaintenance" by (simp_all add: demo_ready_fields)
  ultimately have "\<forall>j' pc' c'. drive_stage demo_ready \<lparr>pc_now = 0, pc_view = pass_view 0 late_controller, pc_actions = Some []\<rparr>
      late_controller = (True, j', pc', c') \<longrightarrow> j_state j' \<noteq> InMaintenance"
    using operator_passes_start_nothing [of "\<lparr>pc_now = 0, pc_view = pass_view 0 late_controller, pc_actions = Some []\<rparr>"
        late_controller demo_ready] by simp
  then show ?thesis by blast
qed

text \<open>
  The form \<^verbatim>\<open>clear-quarantine ID\<close> that the usage text documents is always refused: the word after the command is
  taken for a job, and the command looks for an option \<^verbatim>\<open>--id\<close>.
\<close>
theorem documented_clear_is_refused:
  assumes "take 2 i \<noteq> ''--''"
  shows "\<exists>opt. parse_line clock default_options [''clear-quarantine'', i] = Inr opt \<and>
    run_command api clock (target_command opt) (op_args opt) (op_actor opt) w = (misused ''--id is required'', w)"
  using assms by (simp add: default_options_def global_options_def add_arg_def target_command_def given_command_def run_clear
      clear_command_def args_find_def)

end
