(* ===== verification/Spec2Isabelle.thy ===== *)
theory Spec2Isabelle
  imports State_Properties Core_Properties Store_Properties Controller_Properties Transport_Properties
    Config_Properties Operator_Properties Authority_Examples
begin

text \<open>
  A verification development for Maintenance Fabric, a controller that takes parts of a data centre
  fabric out of service for maintenance, and only when what is left still serves.

  The program. Operators declare a topology (targets, failure domains, redundancy pools) and a policy
  (redundancy, failure-domain limits, contracts, windows, tiers). Observers report evidence about
  targets. A job names targets to maintain and walks through a fixed life cycle. Before a job may take
  targets out it needs authority: a reservation in the ledger, granted by the arbitrator when the
  projected impact of everything removed together is still safe. Every change is appended to a journal
  before it is visible, and a restarted controller rebuilds its state from that journal and fences
  whatever an earlier incarnation left behind.

  The theories, with the files under \<^verbatim>\<open>src/\<close> they follow.

  \<^item> \<open>Prelude\<close>: ordered tables (\<^verbatim>\<open>std::map\<close> as a sorted association list, locale \<open>ordered_table\<close>), list and
    option lemmas, the locale of identifier allocators.
  \<^item> \<open>Results\<close>, \<open>Checked\<close>, \<open>Hashing\<close>, \<open>Ids\<close>, \<open>Times\<close>, \<open>Limits\<close>, \<open>Bytes\<close>: \<^verbatim>\<open>core/\<close>. Errors are values of a
    sum type; machine integers are words; hashes are computed on byte lists.
  \<^item> \<open>Identity\<close>, \<open>Lifecycle\<close>, \<open>Topology\<close>, \<open>Evidence\<close>, \<open>Windows\<close>, \<open>Policies\<close>, \<open>Ledger\<close>, \<open>Jobs\<close>: \<^verbatim>\<open>domain/\<close>.
    Each class is a record, each operation a function returning the new state or an error.
  \<^item> \<open>Readiness\<close>, \<open>Impact\<close>, \<open>Acquire\<close>, \<open>Arbitrator\<close>, \<open>Preconditions\<close>, \<open>Scheduler\<close>: \<^verbatim>\<open>engine/\<close> and
    \<^verbatim>\<open>runtime/fencing\<close>. \<open>Authority_Run\<close> is the machine of all operations on the ledger, \<open>Authority_Examples\<close>
    has the histories that show its limits.
  \<^item> \<open>Record_Codecs\<close>, \<open>Job_Codec\<close>, \<open>Policy_Codec\<close>, \<open>Topology_Codec\<close>: \<^verbatim>\<open>store/records\<close>. A writer is the list of
    bytes it writes, a reader the bytes left and its sticky flag; locale \<open>record_codec\<close> states that
    decoding inverts encoding on what fits the format, and is interpreted for every record.
  \<^item> \<open>Journal\<close>: \<^verbatim>\<open>store/journal\<close>. The file is a byte list, and \<open>io_env\<close> says for each system call of an
    operation whether it succeeds and how much of a write happens. Locale \<open>durable_log\<close> is the contract of a
    log (an acknowledged append is contained, a refused one is not), interpreted for the journal.
  \<^item> \<open>Store\<close>: \<^verbatim>\<open>store/store\<close>. \<open>Durability\<close> gives the abstract store (\<open>durable\<close>, \<open>dv_apply\<close>) and the invariant
    that memory is what the journal says; \<open>Recovery\<close> adds the job commits with their rollback;
    \<open>Store_Machine\<close> the histories, crashes and damaged files; \<open>Compaction\<close> the compacted journal.
  \<^item> \<open>Controller_State\<close>, \<open>Controller_Drive\<close>, \<open>Controller_Tick\<close>, \<open>Controller_Requests\<close>: \<^verbatim>\<open>runtime/controller\<close>. The
    controller is a record of its store, configuration and queues. Each function that the source runs under
    its mutex is one definition that takes and returns the controller; a stage also takes and returns the job and
    the pass. The file system and the drain service are environments that answer the \<open>n\<close>-th call.
    \<open>Controller_Steps\<close> shows what a stage leaves alone and which transition it makes, \<open>Controller_Safety\<close> when a
    job starts, advances and completes, \<open>Controller_Authority\<close> what a pass does to the ledger, \<open>Controller_Drains\<close>
    what it asks of the drain service, \<open>Controller_Fencing\<close> how stale actors and restarts are handled, and
    \<open>Controller_Graph\<close> the walk over dependencies.
  \<^item> \<open>Explain\<close>: \<^verbatim>\<open>engine/explain\<close>, the operator's explanations and the conflict report.
  \<^item> \<open>Frames\<close>, \<open>Protocol\<close>, \<open>Rpc\<close>: \<^verbatim>\<open>transport/\<close>. A connection is the bytes each side can still read and has written.
    Locale \<open>message\<close> is the contract of a message body, interpreted for every body; \<open>serve\<close> is the loop of a
    server thread, \<open>client_call\<close> one call, and \<open>server_step\<close> the machine of the queue between the threads.
  \<^item> \<open>Drain_Ports\<close>: \<^verbatim>\<open>drain/\<close> and the service of \<^verbatim>\<open>apps/drain_sim\<close>. Locale \<open>lease_service\<close> is what the controller
    relies on, interpreted for both services; \<open>Drain_History\<close> takes it over all histories of requests, and
    \<open>Drain_Remote\<close> shows that the remote port implements the service behind it.
  \<^item> \<open>Daemon\<close>, \<open>Daemon_Remote\<close>: the request handler of \<^verbatim>\<open>apps/mfd\<close>, the operator interface of \<^verbatim>\<open>apps/common\<close> in the
    controller's process and over the network, and that the two agree.
  \<^item> \<open>Time_Text\<close>: \<^verbatim>\<open>parse_time\<close> of \<^verbatim>\<open>core/time\<close>, and that a printed instant of 64 bits reads back. \<open>Config_Text\<close>,
    \<open>Config_Topology\<close>, \<open>Config_Policy\<close>: \<^verbatim>\<open>config/text\<close>, the tokenizer, the loaders and the printers. \<open>Config_Lines\<close> shows
    that printed lines tokenize to what was printed, \<open>Config_Round_Trip\<close> and \<open>Config_Policy_Round_Trip\<close> that printed
    topologies and policies load again, \<open>Config_Strict\<close> what a successful load says about the text.
  \<^item> \<open>Operator\<close>: \<^verbatim>\<open>apps/mfctl\<close> over the operator interface as a record of its methods, with its two implementations.
    \<open>Operator_Remote\<close> compares runs against the daemon with runs on a controller, \<open>Operator_Clock\<close> looks at the time of the
    passes it asks for. \<open>Daemon_Startup\<close>: the options and the start of \<^verbatim>\<open>apps/mfd\<close> and \<^verbatim>\<open>apps/drain_sim\<close>, and the operations
    of the daemon's threads as one sequence.
  \<^item> \<open>Examples\<close>, \<open>Store_Examples\<close>, \<open>Controller_Examples\<close>: concrete values on which the properties are exercised.
  \<^item> \<open>State_Properties\<close>, \<open>Core_Properties\<close>, \<open>Store_Properties\<close>, \<open>Controller_Properties\<close>, \<open>Transport_Properties\<close>,
    \<open>Config_Properties\<close>, \<open>Operator_Properties\<close> and this theory: the properties.

  What is shown. One arbitration pass keeps authority jointly safe (C1), and so does every history of
  arbitration, renewal, release, expiry and fencing in which only live reservations are renewed (C2); the
  impact projection implies the capacity rules (C3, C4), a start is admitted exactly under its conditions
  (C5, C6), acquisition does exactly what it reports (C7). Two places fall short: an expired reservation can
  be renewed beside a live one on the same target after a sweep that failed (C8), and the bound on concurrent
  jobs counts only the grants of one pass (C9). The controller takes a scope out of service only under the
  conditions of a start and calls it restored only with proof (C10, C11), never abandons a scope in between
  and advances exactly when it may (C12, C13), keeps authority safe over a pass whose expiry sweep succeeds
  and asks for a drain once (C14, C15), keeps out stale actors and what a restart left (C16, C17), and decides
  dependency cycles (C18); re-arming a waiting job falls short of what it means to do (C19). In histories
  without compaction and without failed syncs the store keeps memory equal to its journal and survives crashes
  at any byte and any changed byte (C20 to C22); it encodes records faithfully (C23), and compaction keeps the
  state but not later commits (C24, C25). The remote drain port implements the drain service, which grants one
  lease per attempt (C26, C27); commands and queries through the daemon are the controller's own, but for what
  an observation loses on the way (C28 to C30); frames arrive intact or are refused (C31). The passes the
  operator's program asks for run at time zero and start nothing (C32), fourteen of its commands do the same
  through the daemon as on a controller (C33), and a misused command changes nothing (C34). Printed policies
  and topologies load again, and only strict text loads (C35 to C37). The remaining properties are about
  evidence, scopes and the life cycle (C38 to C40). Further theorems, on the report of a pass, the order of
  answers, calls, conflict reports, the evidence store, topology records, printed instants and others, stand
  beside the properties of their theory.

  Bounds and conventions. Identifiers and revisions are 64-bit words, zero being invalid, and wrap as in
  the source. Times (\<^verbatim>\<open>Nanos\<close>) are unbounded integers, with \<open>i64_fits\<close> where they are written to 64 bits.
  Sizes are natural numbers. No definition uses fuel except loops the source itself bounds: the chain
  walk of a topology stops after \<open>kMaxTopologyChainDepth\<close> steps, the dependency walk after the square of
  \<open>kMaxDependenciesPerJob\<close>, a tick after \<open>kMaxPassesPerTick\<close> passes. Replay terminates because every frame
  takes at least its header. The histories of the store theorems (\<open>store_run\<close>) assume what \<open>op_fits\<close> says of
  callers (values fit their record formats, identities are not exhausted), that every frame is written whole or
  not at all, that every flush and sync succeeds, and that the journal is not compacted in between; C20 also
  shows what a failed sync does. The histories of the ledger (\<open>authority_run\<close>) record whether an expired
  reservation was renewed, and the safety theorem is about those where none was. The sections of
  the controller that the mutex separates run one after the other: between the sections of a tick no
  other request is interleaved, and a clock reading is an argument of the request.

  An intact connection of the transport theorems delivers what was sent and keeps nothing else; other
  connections are covered where the wire is an argument.

  The round trips of the configuration text assume what \<open>policy_text_fits\<close> and \<open>topology_text_fits\<close> list: names
  that are one token, identities of 32 bits, and the fields the text does not carry at their defaults.

  Not modelled: sockets, threads, signals, clocks and log lines (operating-system input and output), and the
  benchmark, example and test programs.
\<close>

section \<open>Joint safety of maintenance authority\<close>

text \<open>
  C1. One arbitration pass keeps maintenance authority jointly safe: if the targets under live
  reservations were, taken together, a safe removal (every pool that loses a member keeps its
  required serving units, every limited failure domain stays within its allowance, every touched
  workload contract keeps its minimum), the ledger was well formed and no two live reservations
  shared a target, then all of this still holds after the pass, whatever candidates it considers.
\<close>
theorem arbitration_safe:
  assumes "topo_wf (ax_topology ax)" "ledger_room (length (ax_candidates ax)) l"
    and "authority_inv (ax_topology ax) (ax_policy ax) (ax_readiness ax) (ax_now ax) l"
  shows "authority_inv (ax_topology ax) (ax_policy ax) (ax_readiness ax) (ax_now ax) (as_ledger (arbitrate ax l))"
  using assms by (rule arbitrate_inv)

theorem arbitration_safe_witness:
  "authority_inv demo_topology demo_policy demo_view 200 (as_ledger (arbitrate demo_arbitration (new_ledger 0)))"
proof -
  have "ax_topology demo_arbitration = demo_topology" "ax_policy demo_arbitration = demo_policy"
    "ax_readiness demo_arbitration = demo_view" "ax_now demo_arbitration = 200"
    "ledger_room (length (ax_candidates demo_arbitration)) (new_ledger 0)"
    by (simp_all add: demo_arbitration_def ledger_room_def new_ledger_def)
  with arbitration_safe [of demo_arbitration "new_ledger 0"] demo_topology_wf authority_inv_new
  show ?thesis by simp
qed

text \<open>
  C2. Maintenance authority stays exclusive and jointly safe in every history of the ledger in which no
  renewal meets a reservation that has already expired: after any sequence of arbitration passes,
  releases, renewals of live reservations, expiry sweeps, incarnation fencing and waiting, no two live
  reservations share a target, whatever topology, policy and readiness the passes saw; and when they all
  saw the same, the targets of all live reservations together are a safe removal on it. (The code does
  not ensure the condition on renewals; what happens without it is shown below.)
\<close>
theorem authority_always_safe:
  assumes "authority_run W revived now l" "\<not> revived"
  shows "live_disjoint now l \<and>
    (\<forall>topo po rv. W = {(topo, po, rv)} \<longrightarrow> topo_wf topo \<longrightarrow> safe_removal topo po rv (set (reserved_targets now l)))"
  using authority_run_inv [OF assms] by (simp add: run_inv_def)

theorem authority_always_safe_witness:
  "\<exists>l. renew 1 (demo_attempt 1) demo_self 50 200 demo_ledger = Inr l \<and> live_disjoint 300 l \<and>
     safe_removal demo_topology demo_policy demo_view (set (reserved_targets 300 l))"
proof -
  have find: "find_reservation demo_ledger 1 = Some demo_reservation" by (simp add: demo_ledger_def find_reservation_def om_find_def)
  have owner: "ra_owner demo_reservation = demo_self" by (simp add: demo_reservation_def demo_acquire_fields)
  have "ra_expires_at demo_reservation = 200 + kDefaultAuthorityLeaseNanos"
    by (simp add: demo_reservation_def planned_reservation_def Let_def acquire_for_def demo_arbitration_def demo_policy_def
      default_policy_def clamp_lease_def limits granted_reservation_def)
  then obtain l where l: "renew 1 (demo_attempt 1) demo_self 50 200 demo_ledger = Inr l"
    using find owner demo_reservation_fields(3) by (simp add: renew_exact limits)
  have "authority_run demo_world (False \<or> \<not> live_at 200 demo_reservation) 200 l"
    by (rule authority_run.renew [OF demo_history find l])
  then have "authority_run demo_world False 300 l" using authority_run.wait [of demo_world False 200 l 300] demo_reservation_fields(5) by simp
  from authority_always_safe [OF this] l demo_topology_wf show ?thesis by simp
qed

text \<open>
  C8. An expired reservation can be brought back beside one that was granted in its place. When the expiry
  sweep before a pass takes nothing out of the ledger although a reservation has expired, which happens
  when its journal write fails, and whenever more reservations have expired than a transaction may hold,
  the sweep reports zero and the pass goes on. The ledger then still accepts a renewal of the expired
  reservation by its owner, and if another job has meanwhile been granted one of its targets, the renewed
  ledger, and the store after a renewal it accepts, holds two live reservations that share a target.
\<close>
theorem expired_authority_revived:
  assumes "expire_authority io now st = (0, st')"
    and "find_reservation (ps_ledger (st_state st)) i = Some a" "\<not> live_at now a"
    and "find_reservation (ps_ledger (st_state st)) k = Some b" "live_at now b"
    and "set (ra_targets a) \<inter> set (ra_targets b) \<noteq> {}" "0 < e" "e \<le> kMaxAuthorityLeaseNanos"
  shows "(\<exists>l. renew i (ra_attempt a) (ra_owner a) e now (ps_ledger (st_state st')) = Inr l \<and> \<not> live_disjoint now l) \<and>
    (\<forall>io' st''. renew_authority io' i (ra_attempt a) (ra_owner a) e now st' = (ok_status, st'') \<longrightarrow>
       \<not> live_disjoint now (ps_ledger (st_state st''))) \<and>
    (kMaxRecordsPerTransaction < length (expired_entries now (ps_ledger (st_state st))) \<longrightarrow>
       (\<forall>io'. expire_authority io' now st = (0, st)))"
proof -
  have kept: "ps_ledger (st_state st') = ps_ledger (st_state st)" using sweep_exact [OF assms(1)] by (simp add: sweep_result_def)
  obtain l where l: "renew i (ra_attempt a) (ra_owner a) e now (ps_ledger (st_state st)) = Inr l"
    using renew_revives [OF assms(2,3,7,8)] by blast
  have overlap: "\<not> live_disjoint now l" by (rule revived_overlaps [OF assms(2-6) l])
  have "ps_ledger (st_state st'') = l"
    if "renew_authority io' i (ra_attempt a) (ra_owner a) e now st' = (ok_status, st'')" for io' st''
    using that by (auto simp: renew_authority_def kept l append_then_def bump_def split: option.splits prod.splits sum.splits)
  then show ?thesis using l overlap kept sweep_over_bound by auto
qed

theorem expired_authority_revived_witness:
  "authority_run demo_world False lapse rival_ledger \<and>
   (\<exists>l. renew 1 (demo_attempt 1) demo_self 50 lapse rival_ledger = Inr l \<and> \<not> live_disjoint lapse l)"
proof -
  define st where "st = demo_booted\<lparr>st_state := demo_state rival_ledger\<rparr>"
  obtain st' where sweep: "expire_authority io_refusing lapse st = (0, st')"
    using sweep_refused [of lapse st] by (metis prod.collapse)
  have ledger: "ps_ledger (st_state st) = rival_ledger" "ps_ledger (st_state st') = rival_ledger"
    using sweep_exact [OF sweep] by (simp_all add: st_def sweep_result_def)
  have owner: "ra_owner demo_reservation = demo_self" by (simp add: demo_reservation_def demo_acquire_fields)
  have "\<exists>l. renew 1 (demo_attempt 1) demo_self 50 lapse rival_ledger = Inr l \<and> \<not> live_disjoint lapse l"
    using expired_authority_revived [OF sweep, of 1 demo_reservation 2 rival_reservation 50] demo_lapsed
    by (simp add: ledger rival_lookups rival_reservation_fields demo_reservation_fields owner limits)
  then show ?thesis using rival_history by blast
qed

text \<open>
  C3. The capacity projection implements the safety specification: when \<open>compute_impact\<close> reports
  a plan satisfied and the baseline was a safe removal, the baseline and the planned targets
  together are a safe removal.
\<close>
theorem impact_refines_safety:
  assumes "im_satisfied (compute_impact inp)" "topo_wf (in_topology inp)"
    and "safe_removal (in_topology inp) (in_policy inp) (in_readiness inp) (set (in_baseline_removed inp))"
  shows "safe_removal (in_topology inp) (in_policy inp) (in_readiness inp)
    (set (in_baseline_removed inp) \<union> set (in_planned_removed inp))"
  using assms by (rule impact_extends_safety)

theorem impact_refines_safety_witness: "safe_removal demo_topology demo_policy demo_view {sw 1}"
  using impact_refines_safety [of "demo_plan []"] demo_impact [of "[]"] demo_topology_wf
    safe_removal_none [of demo_topology demo_policy demo_view]
  by (simp add: plan_impact_def demo_plan_def)

text \<open>
  C4. Redundancy in exact numbers: under a validated policy whose reserve for a pool does not
  overflow the 32-bit requirement, a satisfied projection leaves every pool that loses a member
  with at least the minimum viable units, plus the tolerated losses, plus the reserve, counted as
  natural numbers over the members that serve and are neither in the baseline nor planned out.
\<close>
theorem redundancy_preserved:
  assumes "validate_policy (in_policy inp) = ok_status" "topo_wf (in_topology inp)"
    and "im_satisfied (compute_impact inp)"
    and "pool (in_topology inp) p = Some r"
    and "set (pr_members r) \<inter> (set (in_baseline_removed inp) \<union> set (in_planned_removed inp)) \<noteq> {}"
    and "reserve_fits (in_policy inp) p"
  shows "unat (rr_min_viable (redundancy_for (in_policy inp) p)) +
      unat (rr_tolerated_losses (redundancy_for (in_policy inp) p)) + reserve_of (in_policy inp) p
    \<le> surviving_units (in_topology inp) (in_readiness inp)
        (set (in_baseline_removed inp) \<union> set (in_planned_removed inp)) (pr_members r)"
proof -
  have "unat (pool_requirement (in_policy inp) p) \<le> surviving_units (in_topology inp) (in_readiness inp)
        (set (in_baseline_removed inp) \<union> set (in_planned_removed inp)) (pr_members r)"
    using kept_pools_domains(1) [OF satisfied_capacity [OF assms(3)] assms(2) refl] assms(4,5) by (auto simp: pools_safe_def)
  then show ?thesis using assms(6) redundancy_for_valid(1) [OF assms(1), of p] by (simp add: reserve_fits_def)
qed

theorem redundancy_preserved_witness: "2 \<le> surviving_units demo_topology demo_view {sw 1} (pr_members demo_pool)"
proof -
  have "reserve_fits demo_policy 1" "reserve_of demo_policy 1 = 0"
    by (simp_all add: reserve_fits_def reserve_of_def pool_requirement_def demo_rules required_serving_units_def)
  with redundancy_preserved [of "demo_plan []" 1 demo_pool] demo_policy_valid demo_topology_wf demo_impact [of "[]"]
  show ?thesis by (simp add: plan_impact_def demo_plan_def demo_lookups demo_pool_def demo_rules)
qed

section \<open>Starting maintenance\<close>

text \<open>
  C5. Maintenance may start exactly when everything it depends on holds now: every precondition
  is satisfied iff the policy is the one the job was validated under, the request is well shaped,
  every requested target is declared and maintainable, every dependency is complete, every target
  of the removal set has fresh evidence, the projected impact keeps every pool, domain and
  contract, no committed job and no live reservation of another job touches the removal set, a
  window admits the start, a control-plane target has fresh quorum proof, the job's own attempt
  holds live authority, and a required drain is confirmed for every target of the removal set.
\<close>
theorem start_exact:
  assumes "px_impact_in px = None" "px_ledger px = Some l" "px_jobs px = Some jobs" "px_evidence px = Some ev"
  shows "ps_all_satisfied (evaluate_preconditions px) \<longleftrightarrow>
    (id_valid (j_policy_revision (px_job px)) \<longrightarrow> j_policy_revision (px_job px) = po_revision (px_policy px)) \<and>
    validate_request_shape (request_of (px_job px)) = ok_status \<and>
    (\<forall>t \<in> set (j_targets (px_job px)). \<exists>r. target (px_topology px) t = Some r \<and> tr_maintainable r) \<and>
    (\<forall>d \<in> set (j_depends_on (px_job px)). \<exists>other. find_job jobs d = Some other \<and> j_state other = Complete) \<and>
    (\<forall>t \<in> set (j_removal_set (px_job px)). is_fresh (px_readiness px) t) \<and>
    list_all pi_satisfied (im_pools (pre_impact px)) \<and> list_all di_satisfied (im_domains (pre_impact px)) \<and>
    list_all co_satisfied (im_contracts (pre_impact px)) \<and>
    (\<forall>e \<in> set (jt_jobs jobs). fst e \<noteq> j_id (px_job px) \<longrightarrow> committed px (snd e) \<longrightarrow>
       set (j_removal_set (snd e)) \<inter> set (j_removal_set (px_job px)) = {}) \<and>
    (\<forall>e \<in> set (lg_reservations l). ra_job (snd e) \<noteq> j_id (px_job px) \<longrightarrow> live_at (px_now px) (snd e) \<longrightarrow>
       set (ra_targets (snd e)) \<inter> set (j_removal_set (px_job px)) = {}) \<and>
    allows_start (evaluate_window (po_windows (px_policy px)) (j_targets (px_job px)) (px_now px)
      (po_require_window (px_policy px))) \<and>
    ((\<exists>t \<in> set (j_removal_set (px_job px)). t_kind t = ControlPlane) \<longrightarrow>
      (\<exists>src \<in> set evidence_sources. \<exists>r.
         find_evidence ev (EvidenceKey ControlPlaneQuorum global_subject src) = Some r \<and> ep_result (er_payload r) \<and>
         fresh (evaluate ev (plain_query (EvidenceKey ControlPlaneQuorum global_subject src) (px_current px) (px_now px))))) \<and>
    px_check_authority px \<and>
    (\<exists>r. find_for_job l (j_id (px_job px)) (j_generation (px_job px)) = Some r \<and> live_at (px_now px) r \<and>
       ra_attempt r = j_active_attempt (px_job px)) \<and>
    px_check_drain px \<and>
    (j_requires_drain (px_job px) \<longrightarrow> id_valid (j_lease (px_job px)) \<and>
       (\<forall>t \<in> set (j_removal_set (px_job px)). \<exists>src \<in> set evidence_sources. \<exists>r.
          find_evidence ev (EvidenceKey DrainLeaseState (subject_of t) src) = Some r \<and> ep_result (er_payload r) \<and>
          fresh (evaluate ev (drain_query px t src))))"
proof -
  have "pc_status (check_headroom (pre_impact px)) = Satisfied"
    if "pc_status (check_redundancy (pre_impact px)) = Satisfied"
    using that headroom_implied by (simp add: pre_impact_def assms(1) plan_impact_def)
  then have split: "ps_all_satisfied (evaluate_preconditions px) \<longleftrightarrow>
      (\<forall>r \<in> {check_policy_bound px, check_request_shape px, check_targets_known px, check_maintainable px,
        check_dependencies px, check_evidence_fresh px, check_redundancy (pre_impact px),
        check_failure_domain (pre_impact px), check_contracts (pre_impact px), check_conflicts px, check_window px,
        check_quorum px, check_authority px, check_drain px}. pc_status r = Satisfied)"
    unfolding all_satisfied_iff precondition_results_def by auto
  have known: "(\<forall>t \<in> T. contains (px_topology px) t) \<and>
      (\<forall>t \<in> T. \<forall>r. target (px_topology px) t = Some r \<longrightarrow> tr_maintainable r) \<longleftrightarrow>
      (\<forall>t \<in> T. \<exists>r. target (px_topology px) t = Some r \<and> tr_maintainable r)" for T
    by (auto simp: contains_def)
  show ?thesis
    unfolding split ball_simps met_iff known [symmetric] assms(2-4) drain_confirmed_iff
    by (simp add: list_all_iff conj_ac cong: conj_cong)
qed

theorem start_exact_witness:
  "is_fresh demo_view (sw 1) \<and> (\<exists>r. find_for_job demo_ledger 1 1 = Some r \<and> live_at 200 r) \<and>
   list_all pi_satisfied (im_pools (pre_impact demo_preconditions))"
  using start_exact [of demo_preconditions demo_ledger demo_jobs demo_store] demo_all_satisfied
  by (auto simp: demo_context demo_ready_fields)

text \<open>
  C6. A start leaves the fabric enough capacity: when every precondition is satisfied, take all
  targets under live authority, all removal sets of other jobs that are removing service, and the
  removal set of this job; with all of them out, every touched pool keeps its required units,
  every limited domain is within its allowance, and every contract this job touches keeps its
  minimum.
\<close>
theorem start_keeps_capacity:
  fixes px :: precondition_context and l :: ledger and jobs :: job_table
  defines "S \<equiv> set (reserved_targets (px_now px) l) \<union>
      (\<Union>e \<in> {e \<in> set (jt_jobs jobs). fst e \<noteq> j_id (px_job px) \<and> stage_removes_service (j_state (snd e))}.
         set (j_removal_set (snd e))) \<union> set (j_removal_set (px_job px))"
  assumes "ps_all_satisfied (evaluate_preconditions px)" "topo_wf (px_topology px)"
    and "px_impact_in px = None" "px_ledger px = Some l" "px_jobs px = Some jobs"
  shows "pools_safe (px_topology px) (px_policy px) (px_readiness px) S \<and>
    domains_safe (px_topology px) (px_policy px) S \<and>
    (\<forall>c \<in> set (po_contracts (px_policy px)). set (c_members c) \<inter> set (j_removal_set (px_job px)) \<noteq> {} \<longrightarrow>
       contract_safe (px_readiness px) S c)"
proof -
  define inp where "inp = \<lparr>in_topology = px_topology px, in_policy = px_policy px, in_readiness = px_readiness px,
    in_baseline_removed = pre_baseline px, in_planned_removed = j_removal_set (px_job px),
    in_require_full_evidence = True\<rparr>"
  have kept: "capacity_kept (compute_impact inp)"
    using all_satisfied_capacity [OF assms(2)] by (simp add: pre_impact_def assms(4) plan_impact_def inp_def)
  have S: "S = set (in_baseline_removed inp) \<union> set (in_planned_removed inp)"
    by (simp add: S_def inp_def set_pre_baseline [OF assms(5,6)])
  have wf: "topo_wf (in_topology inp)" by (simp add: inp_def assms(3))
  show ?thesis
    using kept_pools_domains [OF kept wf S] kept_contract [OF kept] unfolding S [symmetric] by (simp add: inp_def)
qed

theorem start_keeps_capacity_witness: "domains_safe demo_topology demo_policy {sw 1}"
proof -
  have "set (reserved_targets 200 demo_ledger) = {sw 1}"
    by (simp add: demo_ledger_def reserved_targets_def live_def demo_reservation_fields push_unique_def)
  moreover have none: "{e \<in> set (jt_jobs demo_jobs). fst e \<noteq> 1 \<and> stage_removes_service (j_state (snd e))} = {}"
    by (auto simp: demo_jobs_def demo_job_def stage_removes_service_def)
  ultimately show ?thesis
    using start_keeps_capacity [of demo_preconditions demo_ledger demo_jobs] demo_all_satisfied demo_topology_wf
    unfolding demo_context demo_ready_fields none by simp
qed

section \<open>Granting authority\<close>

text \<open>
  C7. Authority is granted exactly when the request is well formed, every target of the removal
  set has fresh evidence, no live reservation of another job or generation shares a target, the
  projection over everything reserved is satisfied, and the ledger accepts the reservation. A
  grant adds one reservation under the next identifier; a refusal changes no reservation and no
  identifier.
\<close>
theorem acquire_exact:
  "(fst (acquire_authority ctx l) = Inr i \<longleftrightarrow> grantable ctx l \<and> i = lg_next_id l) \<and>
    (lg_reservations (fst (snd (acquire_authority ctx l))) =
     (if grantable ctx l then om_emplace (lg_next_id l) (granted_reservation (planned_reservation ctx) (lg_next_id l))
        (lg_reservations l) else lg_reservations l)) \<and>
    (lg_next_id (fst (snd (acquire_authority ctx l))) =
     (if grantable ctx l then next_id (lg_next_id l) else lg_next_id l))"
proof (cases "grantable ctx l")
  case True
  then have "reserve_guard (planned_reservation ctx) l" by (simp add: grantable_def)
  with True show ?thesis using acquire_granted [OF True] reserve_exact by auto
next
  case False
  then show ?thesis using acquire_refused [OF False] by (auto simp: is_ok_iff)
qed

text \<open>
  C9. The bound on concurrent jobs is a bound on the grants of one pass: when the live reservations of
  earlier passes already reach the policy's \<^verbatim>\<open>max_concurrent_jobs\<close>, a pass still grants a candidate that is
  otherwise grantable, and more jobs than the policy allows hold live authority at once.
\<close>
theorem concurrency_bound_per_pass:
  assumes "ax_candidates ax = [i]" "find_job (ax_jobs ax) i = Some j" "j_id j = i" "held_by ax j l = None"
    and "0 < unat (po_max_concurrent_jobs (ax_policy ax))" "grantable (acquire_for ax j) l" "ledger_wf l"
    and "unat (po_max_concurrent_jobs (ax_policy ax)) \<le> length (live (ax_now ax) l)"
  shows "unat (po_max_concurrent_jobs (ax_policy ax)) < length (live (ax_now ax) (as_ledger (arbitrate ax l)))"
proof -
  have now: "ac_now (acquire_for ax j) = ax_now ax" by (simp add: acquire_for_def)
  have "reserve_guard (planned_reservation (acquire_for ax j)) l" using assms(6) by (simp add: grantable_def)
  from reserve_adds_live [OF assms(7) this, of "ax_now ax"] planned_lease(1) [of "acquire_for ax j"] assms(8)
  show ?thesis by (simp add: arbitrate_single [OF assms(1-6)] now live_at_def)
qed

theorem concurrency_bound_per_pass_witness:
  "po_max_concurrent_jobs (ax_policy lone_pass) = 1 \<and> 1 < length (live 200 (as_ledger (arbitrate lone_pass held_ledger)))"
  using concurrency_bound_per_pass [of lone_pass 1 "demo_job 1 1" held_ledger] lone_grantable held_ledger_wf lone_pass_fields by simp

text \<open>
  The report of a pass is complete, ordered and bounded: the decisions are exactly one per
  candidate in the candidates' order, numbered from zero, the order is a sorted permutation of
  the selected jobs by tier rank, creation time and identifier, and no more than the policy's
  bound are granted.
\<close>
theorem arbitration_report_exact:
  "(map ad_job (rp_decisions (as_report (arbitrate ax l))) =
     map ca_job (order_candidates (selected_jobs ax) (ax_policy ax))) \<and>
    (map ad_position (rp_decisions (as_report (arbitrate ax l))) = [0..<length (selected_jobs ax)]) \<and>
    (sorted (map candidate_key (order_candidates (selected_jobs ax) (ax_policy ax)))) \<and>
    (mset (order_candidates (selected_jobs ax) (ax_policy ax)) = mset (map (candidate_of (ax_policy ax)) (selected_jobs ax))) \<and>
    (rp_granted (as_report (arbitrate ax l)) \<le> unat (po_max_concurrent_jobs (ax_policy ax)))"
proof -
  let ?cs = "order_candidates (selected_jobs ax) (ax_policy ax)"
  let ?st = "\<lparr>as_ledger = l, as_report = open_report ax, as_impact = None\<rparr>"
  have report: "rp_decisions (as_report (arbitrate ax l)) = rp_decisions (as_report (arbitrate_loop ax l))"
    "rp_granted (as_report (arbitrate ax l)) = rp_granted (as_report (arbitrate_loop ax l))"
    by (simp_all add: arbitrate_def Let_def)
  have len: "length ?cs = length (selected_jobs ax)" by (simp add: order_candidates_def)
  note decisions = steps_decisions [of ax "List.enumerate 0 ?cs" ?st]
  have "map ad_job (rp_decisions (as_report (arbitrate ax l))) = map ca_job ?cs"
    using decisions by (simp add: report arbitrate_loop_def open_report_def flip: map_map)
  moreover have "map ad_position (rp_decisions (as_report (arbitrate ax l))) = [0..<length (selected_jobs ax)]"
    using decisions by (simp add: report arbitrate_loop_def open_report_def len)
  moreover have "rp_granted (as_report (arbitrate ax l)) \<le> unat (po_max_concurrent_jobs (ax_policy ax))"
    unfolding report arbitrate_loop_def by (rule steps_granted) (simp add: open_report_def)
  ultimately show ?thesis using order_candidates_sorted by blast
qed

end
